(* ===== verification/Prelude.thy ===== *)
theory Prelude
  imports Main "HOL-Library.AList"
begin

text \<open>
  The ground the component theories stand on: Python's exceptions as values, the
  error-carrying result type with its bind and its left-to-right traversal, insertion-ordered
  dictionaries as association lists, \<open>dict.fromkeys\<close> de-duplication, a stable key sort, and
  the collections of hints the component proofs share.
\<close>

section \<open>Hint collections\<close>

named_theorems res_simps \<open>equations and inversions of the result type\<close>
named_theorems dict_simps \<open>equations of insertion-ordered dictionaries\<close>
named_theorems text_simps \<open>equations of Python string operations\<close>

section \<open>Exceptions and results\<close>

text \<open>
  The exception classes the modelled code raises or lets through. The argument is the
  message or the stable error code. \<open>EvidenceInsufficient\<close> and \<open>DocumentIngestionError\<close>
  are subclasses of \<open>ValueError\<close> in the source, \<open>JSONDecodeError\<close> is one in the library, and so is every
  pydantic validation error;
  \<open>ValidationError\<close> is told apart only where a handler tells it apart. \<open>TimeoutError\<close> is a
  subclass of \<open>OSError\<close>. \<open>OtherError\<close> is any class no handler names.
\<close>

datatype exc =
    EvidenceInsufficient string
  | ValueError string
  | JSONDecodeError string
  | PermissionError string
  | RuntimeError string
  | KeyError string
  | TypeError string
  | AttributeError string
  | OSError string
  | IndexError
  | InvalidOperation
  | StopIteration
  | HTTPException nat string
  | DocumentIngestionError string
  | ValidationError string
  | TimeoutError
  | ExceptionGroup exc exc
  | OtherError string

type_synonym 'a res = "exc + 'a"

text \<open>What an \<open>except ValueError\<close> clause catches.\<close>

fun is_value_error :: "exc \<Rightarrow> bool" where
  "is_value_error (EvidenceInsufficient _) = True"
| "is_value_error (ValueError _) = True"
| "is_value_error (JSONDecodeError _) = True"
| "is_value_error (DocumentIngestionError _) = True"
| "is_value_error (ValidationError _) = True"
| "is_value_error _ = False"

text \<open>What an \<open>except (RuntimeError, OSError)\<close> clause catches. A \<open>PermissionError\<close> is an
  \<open>OSError\<close> too.\<close>

fun is_runtime_or_os_error :: "exc \<Rightarrow> bool" where
  "is_runtime_or_os_error (RuntimeError _) = True"
| "is_runtime_or_os_error (OSError _) = True"
| "is_runtime_or_os_error (PermissionError _) = True"
| "is_runtime_or_os_error TimeoutError = True"
| "is_runtime_or_os_error _ = False"

definition res_bind :: "'a res \<Rightarrow> ('a \<Rightarrow> 'b res) \<Rightarrow> 'b res" where
  "res_bind r f = (case r of Inl e \<Rightarrow> Inl e | Inr x \<Rightarrow> f x)"

text \<open>A \<open>if c: raise e\<close> statement in front of the rest of a function body.\<close>

definition raise_if :: "bool \<Rightarrow> exc \<Rightarrow> 'a res \<Rightarrow> 'a res" where
  "raise_if c e k = (if c then Inl e else k)"

primrec res_map :: "('a \<Rightarrow> 'b res) \<Rightarrow> 'a list \<Rightarrow> 'b list res" where
  "res_map f [] = Inr []"
| "res_map f (x # xs) = res_bind (f x) (\<lambda>y. res_bind (res_map f xs) (\<lambda>ys. Inr (y # ys)))"

lemma res_bind_simps [simp, res_simps]:
  "res_bind (Inl e) f = Inl e"
  "res_bind (Inr x) f = f x"
  by (simp_all add: res_bind_def)

lemma res_bind_Inr_iff [res_simps]:
  "res_bind r f = Inr y \<longleftrightarrow> (\<exists>x. r = Inr x \<and> f x = Inr y)"
  by (cases r) auto

lemma res_bind_Inl_iff [res_simps]:
  "res_bind r f = Inl e \<longleftrightarrow> r = Inl e \<or> (\<exists>x. r = Inr x \<and> f x = Inl e)"
  by (cases r) auto

lemma res_bind_cong [fundef_cong]:
  "r = r' \<Longrightarrow> (\<And>x. r' = Inr x \<Longrightarrow> f x = g x) \<Longrightarrow> res_bind r f = res_bind r' g"
  by (cases r') auto

lemma raise_if_Inr_iff [res_simps]: "raise_if c e k = Inr y \<longleftrightarrow> \<not> c \<and> k = Inr y"
  by (simp add: raise_if_def)

lemma raise_if_Inl_iff [res_simps]:
  "raise_if c e k = Inl e' \<longleftrightarrow> (c \<and> e = e') \<or> (\<not> c \<and> k = Inl e')"
  by (simp add: raise_if_def)

lemma raise_if_simps [simp]: "raise_if True e k = Inl e" "raise_if False e k = k"
  by (simp_all add: raise_if_def)

lemma res_map_Inr_iff [res_simps]:
  "res_map f xs = Inr ys \<longleftrightarrow> list_all2 (\<lambda>x y. f x = Inr y) xs ys"
  by (induction xs arbitrary: ys) (auto simp: res_simps list_all2_Cons1)

lemma res_map_cong [fundef_cong]:
  "xs = ys \<Longrightarrow> (\<And>x. x \<in> set ys \<Longrightarrow> f x = g x) \<Longrightarrow> res_map f xs = res_map g ys"
  by (induction ys arbitrary: xs) auto

lemma res_map_Inl_obtain:
  assumes "res_map f xs = Inl e"
  obtains x where "x \<in> set xs" "f x = Inl e"
  using assms by (induction xs) (auto simp: res_simps)

lemma res_map_all_Inr: "(\<And>x. x \<in> set xs \<Longrightarrow> \<exists>y. f x = Inr y) \<Longrightarrow> \<exists>ys. res_map f xs = Inr ys"
  by (induction xs) fastforce+

lemma res_map_length: "res_map f xs = Inr ys \<Longrightarrow> length ys = length xs"
  by (simp add: res_simps list_all2_lengthD)

lemma res_map_in_set:
  "res_map f xs = Inr ys \<Longrightarrow> y \<in> set ys \<Longrightarrow> \<exists>x \<in> set xs. f x = Inr y"
proof (induction xs arbitrary: ys)
  case (Cons x xs)
  then obtain z zs where "f x = Inr z" "res_map f xs = Inr zs" "ys = z # zs"
    by (auto simp: res_bind_Inr_iff)
  with Cons show ?case by auto
qed simp

lemma res_map_map: "res_map f (map g xs) = res_map (\<lambda>x. f (g x)) xs"
  by (induction xs) simp_all

text \<open>\<open>bool(s)\<close> of an optional string.\<close>

definition truthy :: "string option \<Rightarrow> bool" where
  "truthy s = (s \<noteq> None \<and> s \<noteq> Some [])"

section \<open>Actions\<close>

text \<open>
  Code that raises or returns and changes a state on the way: the state it leaves stays when it
  raises. \<open>act_finally\<close> is \<open>try: m finally: h\<close>, \<open>act_catch\<close> is \<open>try: m except: h\<close>.
\<close>

type_synonym ('s, 'a) act = "'s \<Rightarrow> 'a res \<times> 's"

definition act_return :: "'a \<Rightarrow> ('s, 'a) act" where
  "act_return x s = (Inr x, s)"

definition act_lift :: "'a res \<Rightarrow> ('s, 'a) act" where
  "act_lift r s = (r, s)"

definition act_bind :: "('s, 'a) act \<Rightarrow> ('a \<Rightarrow> ('s, 'b) act) \<Rightarrow> ('s, 'b) act" where
  "act_bind m k s = (case m s of (Inl e, s') \<Rightarrow> (Inl e, s') | (Inr x, s') \<Rightarrow> k x s')"

definition act_finally :: "('s, 'a) act \<Rightarrow> ('s, unit) act \<Rightarrow> ('s, 'a) act" where
  "act_finally m h s =
     (case m s of (r, s1) \<Rightarrow> (case h s1 of (Inl e, s2) \<Rightarrow> (Inl e, s2) | (Inr _, s2) \<Rightarrow> (r, s2)))"

definition act_catch :: "('s, 'a) act \<Rightarrow> (exc \<Rightarrow> ('s, 'a) act) \<Rightarrow> ('s, 'a) act" where
  "act_catch m h s = (case m s of (Inl e, s1) \<Rightarrow> h e s1 | (Inr x, s1) \<Rightarrow> (Inr x, s1))"

fun act_map :: "('x \<Rightarrow> ('s, 'a) act) \<Rightarrow> 'x list \<Rightarrow> ('s, 'a list) act" where
  "act_map f [] = act_return []"
| "act_map f (x # xs) = act_bind (f x) (\<lambda>y. act_bind (act_map f xs) (\<lambda>ys. act_return (y # ys)))"

lemma act_bind_Inr_iff [res_simps]:
  "act_bind m k s = (Inr y, s') \<longleftrightarrow> (\<exists>x s1. m s = (Inr x, s1) \<and> k x s1 = (Inr y, s'))"
  by (auto simp: act_bind_def split: prod.splits sum.splits)

lemma act_bind_Inl_iff [res_simps]:
  "act_bind m k s = (Inl e, s') \<longleftrightarrow> m s = (Inl e, s') \<or> (\<exists>x s1. m s = (Inr x, s1) \<and> k x s1 = (Inl e, s'))"
  by (auto simp: act_bind_def split: prod.splits sum.splits)

lemma act_return_iff [res_simps]: "act_return x s = (r, s') \<longleftrightarrow> r = Inr x \<and> s' = s"
  by (auto simp: act_return_def)

lemma act_lift_iff [res_simps]: "act_lift x s = (r, s') \<longleftrightarrow> x = r \<and> s' = s"
  by (auto simp: act_lift_def)

text \<open>
  What holds between the state before and the state after of every run, whatever its outcome.
  A reflexive and transitive relation is kept by a program whose steps keep it.
\<close>

definition keeps :: "('s \<Rightarrow> 's \<Rightarrow> bool) \<Rightarrow> ('s, 'a) act \<Rightarrow> bool" where
  "keeps R m = (\<forall>s. R s (snd (m s)))"

lemma keepsD: "keeps R m \<Longrightarrow> m s = (r, s') \<Longrightarrow> R s s'"
  by (metis keeps_def snd_conv)

locale act_relation =
  fixes R :: "'s \<Rightarrow> 's \<Rightarrow> bool"
  assumes run_refl: "R s s" and run_trans: "R s t \<Longrightarrow> R t u \<Longrightarrow> R s u"
begin

lemma run_return: "keeps R (act_return x)"
  by (simp add: keeps_def act_return_def run_refl)

lemma run_lift: "keeps R (act_lift r)"
  by (simp add: keeps_def act_lift_def run_refl)

lemma run_bind:
  assumes "keeps R m" "\<And>x s s'. m s = (Inr x, s') \<Longrightarrow> keeps R (k x)"
  shows "keeps R (act_bind m k)"
proof -
  have "R s (snd (act_bind m k s))" for s
  proof (cases "m s")
    case (Pair r s1)
    have first: "R s s1" using assms(1) Pair by (rule keepsD)
    show ?thesis
    proof (cases r)
      case (Inr x)
      then have "R s1 (snd (k x s1))" using assms(2) Pair unfolding keeps_def by blast
      then show ?thesis using first run_trans Pair Inr by (auto simp: act_bind_def)
    qed (use first Pair in \<open>simp add: act_bind_def\<close>)
  qed
  then show ?thesis by (simp add: keeps_def)
qed

lemma run_bind_lift: "(\<And>x. r = Inr x \<Longrightarrow> keeps R (k x)) \<Longrightarrow> keeps R (act_bind (act_lift r) k)"
  by (rule run_bind) (auto simp: run_lift act_lift_def)

lemma run_finally: "keeps R m \<Longrightarrow> keeps R h \<Longrightarrow> keeps R (act_finally m h)"
  unfolding keeps_def act_finally_def
  by (auto split: prod.splits sum.splits) (metis snd_conv run_trans)+

lemma run_catch: "keeps R m \<Longrightarrow> (\<And>e. keeps R (h e)) \<Longrightarrow> keeps R (act_catch m h)"
  unfolding keeps_def act_catch_def
  by (auto split: prod.splits sum.splits) (metis snd_conv run_trans)+

lemma run_map: "(\<And>x. x \<in> set xs \<Longrightarrow> keeps R (f x)) \<Longrightarrow> keeps R (act_map f xs)"
  by (induction xs) (auto intro!: run_bind run_return)

end

text \<open>What each step of a traversal guarantees of its input and its result.\<close>

lemma act_map_list_all2:
  "act_map f xs s = (Inr ys, s') \<Longrightarrow> (\<And>x s y s'. f x s = (Inr y, s') \<Longrightarrow> Q x y) \<Longrightarrow> list_all2 Q xs ys"
  by (induction xs arbitrary: s ys) (auto simp: res_simps)

section \<open>De-duplication in first-occurrence order\<close>

text \<open>\<open>dict.fromkeys(xs)\<close>, and every loop that appends an item only if it is not there yet.\<close>

fun uniq_acc :: "'a list \<Rightarrow> 'a list \<Rightarrow> 'a list" where
  "uniq_acc seen [] = []"
| "uniq_acc seen (x # xs) =
     (if x \<in> set seen then uniq_acc seen xs else x # uniq_acc (x # seen) xs)"

definition uniq :: "'a list \<Rightarrow> 'a list" where
  "uniq xs = uniq_acc [] xs"

lemma set_uniq_acc: "set (uniq_acc seen xs) = set xs - set seen"
  by (induction seen xs rule: uniq_acc.induct) auto

lemma distinct_uniq_acc: "distinct (uniq_acc seen xs)"
  by (induction seen xs rule: uniq_acc.induct) (auto simp: set_uniq_acc)

lemma set_uniq [simp]: "set (uniq xs) = set xs"
  by (simp add: uniq_def set_uniq_acc)

lemma distinct_uniq [simp]: "distinct (uniq xs)"
  by (simp add: uniq_def distinct_uniq_acc)

lemma uniq_Nil_iff [simp]: "uniq xs = [] \<longleftrightarrow> xs = []"
  by (metis set_empty set_uniq)

lemma uniq_simps [simp]: "uniq [] = []" "uniq [x] = [x]"
  by (simp_all add: uniq_def)

lemma length_uniq_set: "length (uniq xs) = card (set xs)"
  by (metis distinct_card distinct_uniq set_uniq)

text \<open>
  \<open>len({...}) == 1\<close> and \<open>next(iter(s))\<close> on a set built from a list: all elements agree,
  and the element they agree on is the first one.
\<close>

lemma card_set_1_iff: "card (set xs) = 1 \<longleftrightarrow> xs \<noteq> [] \<and> (\<forall>x \<in> set xs. x = hd xs)"
proof
  assume "card (set xs) = 1"
  then obtain a where "set xs = {a}" by (auto simp: card_Suc_eq numeral_eq_Suc)
  then show "xs \<noteq> [] \<and> (\<forall>x \<in> set xs. x = hd xs)" by (cases xs) auto
next
  assume h: "xs \<noteq> [] \<and> (\<forall>x \<in> set xs. x = hd xs)"
  then have "set xs = {hd xs}" using list.set_sel(1) by blast
  then show "card (set xs) = 1" by simp
qed

lemma length_uniq_1_iff: "length (uniq xs) = 1 \<longleftrightarrow> xs \<noteq> [] \<and> (\<forall>x \<in> set xs. x = hd xs)"
  by (simp add: length_uniq_set card_set_1_iff[symmetric])

lemma uniq_singletonD: "uniq xs = [a] \<Longrightarrow> set xs = {a}"
  by (metis list.simps(15) set_empty set_uniq)

section \<open>Insertion-ordered dictionaries\<close>

text \<open>
  A Python \<open>dict\<close> whose order matters is an association list; \<open>d[k] = v\<close> is
  \<^const>\<open>AList.update\<close> (in place when the key is there, appended otherwise), \<open>del d[k]\<close> is
  \<^const>\<open>AList.delete\<close>, \<open>d.get(k)\<close> is \<^const>\<open>map_of\<close>. \<open>d[k].append(v)\<close> on a
  \<open>defaultdict(list)\<close> is \<open>dict_append\<close>.
\<close>

type_synonym ('k, 'v) dict = "('k \<times> 'v) list"

definition dict_append :: "'k \<Rightarrow> 'v \<Rightarrow> ('k, 'v list) dict \<Rightarrow> ('k, 'v list) dict" where
  "dict_append k v d = AList.update k (case map_of d k of None \<Rightarrow> [v] | Some vs \<Rightarrow> vs @ [v]) d"

definition dict_has :: "('k, 'v) dict \<Rightarrow> 'k \<Rightarrow> bool" where
  "dict_has d k = (map_of d k \<noteq> None)"

definition dict_get_default :: "('k, 'v) dict \<Rightarrow> 'k \<Rightarrow> 'v \<Rightarrow> 'v" where
  "dict_get_default d k v = (case map_of d k of None \<Rightarrow> v | Some w \<Rightarrow> w)"

lemma map_of_update [dict_simps]: "map_of (AList.update k v d) = (map_of d)(k \<mapsto> v)"
  by (rule update_conv')

lemma map_of_delete [dict_simps]: "map_of (AList.delete k d) = (map_of d)(k := None)"
  by (rule delete_conv')

lemma distinct_keys_update [dict_simps]:
  "distinct (map fst d) \<Longrightarrow> distinct (map fst (AList.update k v d))"
  by (rule distinct_update)

lemma distinct_keys_dict_append [dict_simps]:
  "distinct (map fst d) \<Longrightarrow> distinct (map fst (dict_append k v d))"
  by (simp add: dict_append_def distinct_update)

lemma dict_has_iff [dict_simps]: "dict_has d k \<longleftrightarrow> k \<in> fst ` set d"
  by (simp add: dict_has_def map_of_eq_None_iff)

section \<open>Stable sort by a key\<close>

text \<open>
  Python's \<open>sorted(xs, key=f)\<close> is a stable ascending sort, which is \<^const>\<open>sort_key\<close>.
  \<open>max(xs, key=f)\<close> returns the first maximal element.
\<close>

fun max_by :: "('a \<Rightarrow> 'b::linorder) \<Rightarrow> 'a list \<Rightarrow> 'a option" where
  "max_by f [] = None"
| "max_by f (x # xs) =
     (case max_by f xs of None \<Rightarrow> Some x | Some y \<Rightarrow> if f x \<ge> f y then Some x else Some y)"

lemma max_by_None_iff [simp]: "max_by f xs = None \<longleftrightarrow> xs = []"
  by (induction xs) (auto split: option.splits)

lemma max_by_Some: "max_by f xs = Some y \<Longrightarrow> y \<in> set xs \<and> (\<forall>x \<in> set xs. f x \<le> f y)"
  by (induction xs arbitrary: y) (fastforce split: option.splits if_splits)+

lemma max_by_exists: "xs \<noteq> [] \<Longrightarrow> \<exists>y. max_by f xs = Some y"
  using max_by_None_iff[of f xs] by (cases "max_by f xs") auto

text \<open>\<open>next((x for x in xs if p(x)), None)\<close> is \<^const>\<open>List.find\<close>.\<close>

lemma find_Some_in: "List.find p xs = Some x \<Longrightarrow> x \<in> set xs \<and> p x"
  by (induction xs) (auto split: if_splits)

lemma find_exists: "x \<in> set xs \<Longrightarrow> p x \<Longrightarrow> \<exists>y. List.find p xs = Some y"
  by (induction xs) auto

text \<open>A dict comprehension: a later pair replaces the value of an earlier one.\<close>

definition dict_of :: "('k \<times> 'v) list \<Rightarrow> ('k, 'v) dict" where
  "dict_of kvs = fold (\<lambda>(k, v). AList.update k v) kvs []"

lemma dict_of_fresh:
  assumes "distinct (map fst d @ map fst kvs)"
  shows "fold (\<lambda>(k, v). AList.update k v) kvs d = d @ kvs"
  using assms
proof (induction kvs arbitrary: d)
  case (Cons kv kvs)
  obtain k v where kv: "kv = (k, v)" by (cases kv)
  have "AList.update k v d = d @ [(k, v)]"
    using Cons.prems by (induction d) (auto simp: kv)
  then show ?case using Cons.IH [of "d @ [(k, v)]"] Cons.prems by (auto simp: kv)
qed simp

lemma dict_of_distinct: "distinct (map fst kvs) \<Longrightarrow> dict_of kvs = kvs"
  using dict_of_fresh [of "[]" kvs] by (simp add: dict_of_def)

end
