(* ===== verification/Sha256.thy ===== *)
theory Sha256
  imports PyStr "HOL-Library.Word"
begin

unbundle bit_operations_syntax

text \<open>
  \<open>hashlib.sha256(...).hexdigest()\<close>: the digest of FIPS 180-4 over 32-bit words, of a list of
  bytes, printed as 64 lower-case hexadecimal digits. Policy hashes, borrower identities,
  document, chunk and cache identifiers of the source are such digests; the lemmas give what
  the source relies on, their shape.
\<close>

type_synonym word32 = "32 word"

section \<open>The digest\<close>

definition rotr :: "nat \<Rightarrow> word32 \<Rightarrow> word32" where
  "rotr n w = (drop_bit n w OR push_bit (32 - n) w)"

definition round_constants :: "word32 list" where
  "round_constants =
    [1116352408, 1899447441, 3049323471, 3921009573, 961987163, 1508970993,
     2453635748, 2870763221, 3624381080, 310598401, 607225278, 1426881987,
     1925078388, 2162078206, 2614888103, 3248222580, 3835390401, 4022224774,
     264347078, 604807628, 770255983, 1249150122, 1555081692, 1996064986,
     2554220882, 2821834349, 2952996808, 3210313671, 3336571891, 3584528711,
     113926993, 338241895, 666307205, 773529912, 1294757372, 1396182291,
     1695183700, 1986661051, 2177026350, 2456956037, 2730485921, 2820302411,
     3259730800, 3345764771, 3516065817, 3600352804, 4094571909, 275423344,
     430227734, 506948616, 659060556, 883997877, 958139571, 1322822218,
     1537002063, 1747873779, 1955562222, 2024104815, 2227730452, 2361852424,
     2428436474, 2756734187, 3204031479, 3329325298]"

definition initial_state :: "word32 list" where
  "initial_state =
    [1779033703, 3144134277, 1013904242, 2773480762, 1359893119, 2600822924,
     528734635, 1541459225]"

text \<open>Byte \<open>i\<close> of the big-endian \<open>n\<close>-byte form of a number.\<close>

definition be_bytes :: "nat \<Rightarrow> int \<Rightarrow> int list" where
  "be_bytes n x = map (\<lambda>i. x div 256 ^ (n - 1 - i) mod 256) [0..<n]"

definition pad :: "int list \<Rightarrow> int list" where
  "pad m = m @ 128 # replicate ((119 - length m mod 64) mod 64) 0 @ be_bytes 8 (8 * int (length m))"

fun words_be :: "int list \<Rightarrow> word32 list" where
  "words_be (a # b # c # d # r) = of_int (((a * 256 + b) * 256 + c) * 256 + d) # words_be r"
| "words_be r = []"

fun sha_blocks :: "word32 list \<Rightarrow> word32 list list" where
  "sha_blocks ws = (if length ws < 16 then [] else take 16 ws # sha_blocks (drop 16 ws))"

declare sha_blocks.simps [simp del]

text \<open>The message schedule, newest word first.\<close>

definition next_word :: "word32 list \<Rightarrow> word32" where
  "next_word ws =
     (let x = ws ! 14; y = ws ! 1;
          s0 = rotr 7 x XOR rotr 18 x XOR drop_bit 3 x;
          s1 = rotr 17 y XOR rotr 19 y XOR drop_bit 10 y
      in ws ! 15 + s0 + ws ! 6 + s1)"

definition schedule :: "word32 list \<Rightarrow> word32 list" where
  "schedule b = rev (foldl (\<lambda>ws _. next_word ws # ws) (rev b) [0..<48])"

fun sha_round :: "word32 list \<Rightarrow> word32 \<times> word32 \<Rightarrow> word32 list" where
  "sha_round [a, b, c, d, e, f, g, h] (k, w) =
     (let s1 = rotr 6 e XOR rotr 11 e XOR rotr 25 e;
          ch = (e AND f) XOR (NOT e AND g);
          t1 = h + s1 + ch + k + w;
          s0 = rotr 2 a XOR rotr 13 a XOR rotr 22 a;
          maj = (a AND b) XOR (a AND c) XOR (b AND c)
      in [t1 + s0 + maj, a, b, c, d + t1, e, f, g])"
| "sha_round st _ = st"

definition compress :: "word32 list \<Rightarrow> word32 list \<Rightarrow> word32 list" where
  "compress st b = map2 (+) st (foldl sha_round st (zip round_constants (schedule b)))"

definition sha256_words :: "int list \<Rightarrow> word32 list" where
  "sha256_words m = foldl compress initial_state (sha_blocks (words_be (pad m)))"

definition hex_char :: "nat \<Rightarrow> char" where
  "hex_char n = (if n < 10 then char_of (48 + n) else char_of (87 + n))"

definition hex_word :: "word32 \<Rightarrow> string" where
  "hex_word w = map (\<lambda>i. hex_char (nat (uint w div 16 ^ (7 - i) mod 16))) [0..<8]"

definition sha256_hex :: "string \<Rightarrow> string" where
  "sha256_hex s = concat (map hex_word (sha256_words (map (\<lambda>c. int (code c)) s)))"

section \<open>Shape\<close>

definition is_hex64 :: "string \<Rightarrow> bool" where   \<comment> \<open>\<open>^[0-9a-f]{64}$\<close>\<close>
  "is_hex64 s = (length s = 64 \<and> list_all (\<lambda>c. is_digit c \<or> in_range CHR ''a'' CHR ''f'' c) s)"

lemma length_pad: "length (pad m) mod 64 = 0"
proof -
  define r q where "r = length m mod 64" and "q = length m div 64"
  then have l: "length m = 64 * q + r" and r: "r < 64" by simp_all
  have "length (pad m) = length m + 9 + (119 - r) mod 64"
    by (simp add: pad_def be_bytes_def r_def)
  also have "(119 - r) mod 64 = (if r \<le> 55 then 55 - r else 119 - r)"
    using r by (auto simp: mod_if)
  also have "length m + 9 + \<dots> = 64 * (if r \<le> 55 then q + 1 else q + 2)"
    using l r by auto
  finally show ?thesis by simp
qed

lemma length_sha_round: "length st = 8 \<Longrightarrow> length (sha_round st kw) = 8"
  by (cases "(st, kw)" rule: sha_round.cases) (auto simp: Let_def)

lemma length_rounds: "length st = 8 \<Longrightarrow> length (foldl sha_round st ks) = 8"
  by (induction ks arbitrary: st) (simp_all add: length_sha_round)

lemma length_compress: "length st = 8 \<Longrightarrow> length (compress st b) = 8"
  by (simp add: compress_def length_rounds)

lemma length_compress_all: "length st = 8 \<Longrightarrow> length (foldl compress st bs) = 8"
  by (induction bs arbitrary: st) (simp_all add: length_compress)

lemma length_sha256_words: "length (sha256_words m) = 8"
  by (simp add: sha256_words_def length_compress_all initial_state_def)

lemma hex_char_range:
  assumes "n < 16"
  shows "is_digit (hex_char n) \<or> in_range CHR ''a'' CHR ''f'' (hex_char n)"
proof -
  have "code (hex_char n) = (if n < 10 then 48 + n else 87 + n)"
    using assms by (simp add: code_def hex_char_def)
  moreover have "code CHR ''0'' = 48" "code CHR ''9'' = 57" "code CHR ''a'' = 97" "code CHR ''f'' = 102"
    by (simp_all add: code_def)
  ultimately show ?thesis using assms by (auto simp: is_digit_def in_range_def)
qed

lemma hex_word_shape:
  "length (hex_word w) = 8 \<and>
   list_all (\<lambda>c. is_digit c \<or> in_range CHR ''a'' CHR ''f'' c) (hex_word w)"
  unfolding hex_word_def list_all_iff by (auto intro!: hex_char_range)

lemma hex_words_shape:
  "length (concat (map hex_word ws)) = 8 * length ws \<and>
   list_all (\<lambda>c. is_digit c \<or> in_range CHR ''a'' CHR ''f'' c) (concat (map hex_word ws))"
  by (induction ws) (use hex_word_shape in auto)

lemma sha256_hex_shape: "is_hex64 (sha256_hex s)"
  using hex_words_shape[of "sha256_words (map (\<lambda>c. int (code c)) s)"]
  by (simp add: is_hex64_def sha256_hex_def length_sha256_words)

lemma sha256_hex_nonempty: "sha256_hex s \<noteq> []"
  using sha256_hex_shape[of s] by (auto simp: is_hex64_def)

text \<open>A digest has only hexadecimal digits, so no separator the source joins with.\<close>

lemma hex64_no_char:
  assumes "is_hex64 s" "\<not> is_digit c" "\<not> in_range CHR ''a'' CHR ''f'' c"
  shows "c \<notin> set s"
  using assms by (auto simp: is_hex64_def list_all_iff)

end
