(* ===== verification/Schema.thy ===== *)
theory Schema
  imports Complex_Main Sha256 "HOL-Library.List_Lexorder" "HOL-Library.Char_ord"
begin

text \<open>
  The typed contracts of \<open>ingest/schema.py\<close> and \<open>reason/schema.py\<close>: bounding boxes,
  provenance, layout blocks, text and table chunks, citations, evidence receipts, extracted
  figures and answers, with the operations those modules define on them. Coordinates and
  scores are floats in the code and rationals here. A pydantic model's field constraints are
  its \<open>_ok\<close> predicate; a construction that violates them raises.
\<close>

section \<open>Geometry\<close>

record bbox =
  bx0 :: rat
  by0 :: rat
  bx1 :: rat
  by1 :: rat

definition ordered_coordinates :: "bbox \<Rightarrow> bool" where
  "ordered_coordinates b = (bx0 b \<le> bx1 b \<and> by0 b \<le> by1 b)"

definition mk_bbox :: "rat \<Rightarrow> rat \<Rightarrow> rat \<Rightarrow> rat \<Rightarrow> bbox res" where
  "mk_bbox a b c d =
     (let box = \<lparr>bx0 = a, by0 = b, bx1 = c, by1 = d\<rparr> in
      raise_if (\<not> ordered_coordinates box)
        (ValueError ''bbox coordinates must satisfy x0 <= x1 and y0 <= y1'') (Inr box))"

definition bbox_union :: "bbox \<Rightarrow> bbox \<Rightarrow> bbox" where
  "bbox_union a b =
     \<lparr>bx0 = min (bx0 a) (bx0 b), by0 = min (by0 a) (by0 b),
      bx1 = max (bx1 a) (bx1 b), by1 = max (by1 a) (by1 b)\<rparr>"

text \<open>\<open>inside a b\<close>: rectangle \<open>a\<close> lies within \<open>b\<close>.\<close>

definition inside :: "bbox \<Rightarrow> bbox \<Rightarrow> bool" where
  "inside a b = (bx0 b \<le> bx0 a \<and> by0 b \<le> by0 a \<and> bx1 a \<le> bx1 b \<and> by1 a \<le> by1 b)"

definition bbox_area :: "bbox \<Rightarrow> rat" where
  "bbox_area b = (bx1 b - bx0 b) * (by1 b - by0 b)"

definition bbox_intersection :: "bbox \<Rightarrow> bbox \<Rightarrow> rat" where
  "bbox_intersection a b =
     max 0 (min (bx1 a) (bx1 b) - max (bx0 a) (bx0 b)) *
     max 0 (min (by1 a) (by1 b) - max (by0 a) (by0 b))"

definition bbox_iou :: "bbox \<Rightarrow> bbox \<Rightarrow> rat" where
  "bbox_iou a b =
     (let i = bbox_intersection a b; u = bbox_area a + bbox_area b - i in if u \<noteq> 0 then i / u else 0)"

record provenance =
  pv_document :: string
  pv_source :: string
  pv_page :: int
  pv_bbox :: bbox
  pv_width :: rat
  pv_height :: rat

definition provenance_ok :: "provenance \<Rightarrow> bool" where
  "provenance_ok p =
     (1 \<le> pv_page p \<and> ordered_coordinates (pv_bbox p) \<and> 0 < pv_width p \<and> 0 < pv_height p)"

section \<open>Layout blocks and parsed documents\<close>

datatype block_type = Heading | Paragraph | Caption | Table | Image

fun block_type_value :: "block_type \<Rightarrow> string" where
  "block_type_value Heading = ''heading''"
| "block_type_value Paragraph = ''paragraph''"
| "block_type_value Caption = ''caption''"
| "block_type_value Table = ''table''"
| "block_type_value Image = ''image''"

datatype page_route = Digital | Scanned | Hybrid

text \<open>The values the source stores in a \<open>dict[str, Any]\<close>.\<close>

datatype meta = MNone | MBool bool | MInt int | MStr string

type_synonym metadata = "(string, meta) dict"

text \<open>\<open>bool(metadata.get(key))\<close>\<close>

definition meta_truthy :: "meta option \<Rightarrow> bool" where
  "meta_truthy m = (case m of None \<Rightarrow> False | Some MNone \<Rightarrow> False | Some (MBool b) \<Rightarrow> b
     | Some (MInt i) \<Rightarrow> i \<noteq> 0 | Some (MStr s) \<Rightarrow> s \<noteq> [])"

record document_block =
  blk_type :: block_type
  blk_text :: string
  blk_prov :: provenance
  blk_order :: nat
  blk_table_id :: "string option"
  blk_meta :: metadata

record parsed_page =
  pg_number :: int
  pg_route :: page_route
  pg_blocks :: "document_block list"

record parsed_document =
  pd_document :: string
  pd_source :: string
  pd_pages :: "parsed_page list"
  pd_parser :: string

definition doc_blocks :: "parsed_document \<Rightarrow> document_block list" where
  "doc_blocks d = concat (map pg_blocks (pd_pages d))"

section \<open>Chunks\<close>

datatype chunk =
    TextChunk (chunk_id: string) (chunk_text: string) (chunk_prov: "provenance list")
      (chunk_meta: metadata)
  | TableChunk (chunk_id: string) (chunk_text: string) (table_text: string)
      (tbl_caption: "string option") (tbl_preceding: "string option")
      (chunk_prov: "provenance list") (table_prov: "provenance list") (chunk_meta: metadata)

definition is_table :: "chunk \<Rightarrow> bool" where
  "is_table c = (case c of TableChunk _ _ _ _ _ _ _ _ \<Rightarrow> True | TextChunk _ _ _ _ \<Rightarrow> False)"

definition chunk_ok :: "chunk \<Rightarrow> bool" where
  "chunk_ok c = (chunk_prov c \<noteq> [] \<and> list_all provenance_ok (chunk_prov c)
     \<and> (is_table c \<longrightarrow> list_all provenance_ok (table_prov c)))"

text \<open>\<open>(chunk.table_provenance or chunk.provenance) if chunk.kind == "table" else chunk.provenance\<close>\<close>

definition cite_prov :: "chunk \<Rightarrow> provenance list" where
  "cite_prov c = (if is_table c \<and> table_prov c \<noteq> [] then table_prov c else chunk_prov c)"

text \<open>\<open>chunk.table_text if chunk.kind == "table" else chunk.text\<close>\<close>

definition row_text :: "chunk \<Rightarrow> string" where
  "row_text c = (if is_table c then table_text c else chunk_text c)"

definition chunk_documents :: "chunk \<Rightarrow> string list" where
  "chunk_documents c = uniq (map pv_document (chunk_prov c))"

definition on_pages :: "int list \<Rightarrow> chunk \<Rightarrow> bool" where
  "on_pages ps c = list_ex (\<lambda>p. pv_page p \<in> set ps) (chunk_prov c)"

definition chunk_pages :: "chunk \<Rightarrow> int list" where
  "chunk_pages c = map pv_page (chunk_prov c)"

text \<open>\<open>f"{x:.3f}"\<close>\<close>

definition format3 :: "rat \<Rightarrow> string" where
  "format3 x =
     (let s = \<bar>x\<bar> * 1000; q = nat \<lfloor>s\<rfloor>; r = s - of_nat q;
          n = (if r < 1 / 2 then q else if 1 / 2 < r then Suc q else if even q then q else Suc q);
          frac = str_of_nat (n mod 1000)
      in (if x < 0 then ''-'' else []) @ str_of_nat (n div 1000) @ ''.'' @
         replicate (3 - length frac) CHR ''0'' @ frac)"

definition provenance_key :: "provenance \<Rightarrow> string" where
  "provenance_key p =
     pv_document p @ '':'' @ str_of_int (pv_page p) @ '':'' @
     join '','' (map format3 [bx0 (pv_bbox p), by0 (pv_bbox p), bx1 (pv_bbox p), by1 (pv_bbox p)])"

definition stable_chunk_id :: "string \<Rightarrow> string \<Rightarrow> provenance list \<Rightarrow> string" where
  "stable_chunk_id kind t ps =
     sha256_hex (kind @ newline @ t @ newline @ join ''|'' (map provenance_key ps))"

text \<open>\<open>stable_document_id\<close> of the bytes of a file.\<close>

definition stable_document_id :: "string \<Rightarrow> string" where
  "stable_document_id bytes = sha256_hex bytes"

section \<open>Citations\<close>

record citation =
  ct_document :: string
  ct_page :: int
  ct_bbox :: bbox

definition citation_ok :: "citation \<Rightarrow> bool" where
  "citation_ok c = (1 \<le> ct_page c \<and> ordered_coordinates (ct_bbox c))"

definition citation_from_provenance :: "provenance \<Rightarrow> citation" where
  "citation_from_provenance p =
     \<lparr>ct_document = pv_document p, ct_page = pv_page p, ct_bbox = pv_bbox p\<rparr>"

definition citation_identity :: "citation \<Rightarrow> string \<times> int \<times> rat \<times> rat \<times> rat \<times> rat" where
  "citation_identity c =
     (ct_document c, ct_page c, bx0 (ct_bbox c), by0 (ct_bbox c), bx1 (ct_bbox c), by1 (ct_bbox c))"

definition provenance_identity :: "provenance \<Rightarrow> string \<times> int \<times> rat \<times> rat \<times> rat \<times> rat" where
  "provenance_identity p =
     (pv_document p, pv_page p, bx0 (pv_bbox p), by0 (pv_bbox p), bx1 (pv_bbox p), by1 (pv_bbox p))"

definition ground_citation :: "rat \<Rightarrow> citation \<Rightarrow> citation list \<Rightarrow> citation res" where
  "ground_citation minimum_iou c candidates =
     (let matching = filter (\<lambda>d. ct_document d = ct_document c \<and> ct_page d = ct_page c) candidates in
      case max_by (\<lambda>d. bbox_iou (ct_bbox c) (ct_bbox d)) matching of
        None \<Rightarrow> Inl (ValueError ''citation document/page is not present in the allowed evidence'')
      | Some best \<Rightarrow>
          raise_if (bbox_iou (ct_bbox c) (ct_bbox best) < minimum_iou)
            (ValueError ''citation bbox does not match the allowed evidence'') (Inr best))"

definition minimum_iou :: rat where   \<comment> \<open>the default argument\<close>
  "minimum_iou = 95 / 100"

section \<open>Figures, receipts and answers\<close>

record nic_activity =
  nic_division :: string
  nic_class_code :: string
  nic_subclass :: string
  nic_division_description :: string
  nic_class_description :: string
  nic_subclass_description :: string
  nic_activity :: string

record company_age_receipt =
  ag_formula :: string
  ag_incorporation :: string
  ag_assessment :: string
  ag_source_chunk :: string
  ag_source_citation :: citation
  ag_policy_hash :: string

record evidence =
  ev_policy_hash :: string
  ev_metric :: string
  ev_document_type :: string
  ev_entity_hash :: string
  ev_chunk :: string
  ev_source_value :: string
  ev_source_unit :: string
  ev_factor :: string
  ev_period :: "string option"
  ev_basis :: "string option"
  ev_basis_resolution :: "string option"
  ev_context :: "citation list"
  ev_command :: "string option"
  ev_age :: "company_age_receipt option"
  ev_nic_version :: "string option"
  ev_nic_activities :: "nic_activity list"
  ev_provider :: "string option"
  ev_approval :: "string option"

datatype figure =
  Figure (fg_label: string) (fg_value: string) (fg_unit: "string option") (fg_period: "string option")
    (fg_citation: citation) (fg_evidence: "evidence option") (fg_calculation: "calc_receipt option")
and calc_receipt =
  CalcReceipt (cr_formula: string) (cr_policy_hash: string) (cr_operands: "figure list")

record basis_interpretation =
  ip_document :: string
  ip_target_chunk :: string
  ip_target_citation :: citation
  ip_basis :: string
  ip_period :: string
  ip_policy_hash :: string
  ip_context :: "citation list"
  ip_authority :: string
  ip_entity_hash :: "string option"

record operand_diagnostic =
  od_formula :: string
  od_metric :: string
  od_error :: "string option"
  od_stage :: "string option"

record field_assessment =
  fa_metric :: string
  fa_status :: string
  fa_figure :: "figure option"
  fa_error :: "string option"
  fa_sources :: "string list"
  fa_candidates :: "citation list"
  fa_diagnostics :: "operand_diagnostic list"

record extraction =
  ex_question :: string
  ex_figures :: "figure list"
  ex_notes :: "string list"

record answer =
  an_text :: string
  an_citations :: "citation list"

definition answer_ok :: "answer \<Rightarrow> bool" where
  "answer_ok a = (an_text a \<noteq> [] \<and> an_citations a \<noteq> [])"

section \<open>Lemmas on geometry\<close>

lemma mk_bbox_Inr_iff [res_simps]:
  "mk_bbox a b c d = Inr box \<longleftrightarrow>
     box = \<lparr>bx0 = a, by0 = b, bx1 = c, by1 = d\<rparr> \<and> a \<le> c \<and> b \<le> d"
  by (auto simp: mk_bbox_def Let_def res_simps ordered_coordinates_def)

lemma inside_refl [simp]: "inside b b"
  by (simp add: inside_def)

lemma inside_trans: "inside a b \<Longrightarrow> inside b c \<Longrightarrow> inside a c"
  by (auto simp: inside_def)

lemma bbox_union_upper: "inside a (bbox_union a b)" "inside b (bbox_union a b)"
  by (auto simp: inside_def bbox_union_def)

lemma bbox_union_least: "inside a c \<Longrightarrow> inside b c \<Longrightarrow> inside (bbox_union a b) c"
  by (auto simp: inside_def bbox_union_def)

lemma bbox_union_ordered:
  "ordered_coordinates a \<Longrightarrow> ordered_coordinates b \<Longrightarrow> ordered_coordinates (bbox_union a b)"
  by (auto simp: ordered_coordinates_def bbox_union_def)

lemma bbox_area_nonneg: "ordered_coordinates b \<Longrightarrow> 0 \<le> bbox_area b"
  by (simp add: ordered_coordinates_def bbox_area_def)

lemma bbox_intersection_commute: "bbox_intersection a b = bbox_intersection b a"
  by (simp add: bbox_intersection_def min.commute max.commute)

lemma bbox_intersection_nonneg: "0 \<le> bbox_intersection a b"
  by (simp add: bbox_intersection_def)

lemma bbox_intersection_le: "ordered_coordinates a \<Longrightarrow> bbox_intersection a b \<le> bbox_area a"
  unfolding bbox_intersection_def bbox_area_def ordered_coordinates_def
  by (intro mult_mono) auto

lemma bbox_iou_commute: "bbox_iou a b = bbox_iou b a"
  by (simp add: bbox_iou_def Let_def bbox_intersection_commute add.commute)

lemma bbox_iou_range:
  assumes "ordered_coordinates a" "ordered_coordinates b"
  shows "0 \<le> bbox_iou a b \<and> bbox_iou a b \<le> 1"
proof -
  have "bbox_intersection a b \<le> bbox_area a" "bbox_intersection a b \<le> bbox_area b"
    using bbox_intersection_le[of a b] bbox_intersection_le[of b a] assms
    by (auto simp: bbox_intersection_commute)
  then show ?thesis
    using bbox_intersection_nonneg[of a b]
    by (auto simp: bbox_iou_def Let_def divide_le_eq)
qed

lemma bbox_iou_self: "ordered_coordinates a \<Longrightarrow> bbox_area a \<noteq> 0 \<Longrightarrow> bbox_iou a a = 1"
  by (auto simp: bbox_iou_def Let_def bbox_intersection_def bbox_area_def ordered_coordinates_def max_def)

text \<open>An overlap of one forces equal rectangles.\<close>

lemma bbox_iou_1_areas:
  assumes "ordered_coordinates a" "ordered_coordinates b" "bbox_iou a b = 1"
  shows "bbox_intersection a b = bbox_area a \<and> bbox_intersection a b = bbox_area b
    \<and> 0 < bbox_area a"
proof -
  have le: "bbox_intersection a b \<le> bbox_area a" "bbox_intersection a b \<le> bbox_area b"
    using bbox_intersection_le[of a b] bbox_intersection_le[of b a] assms
    by (auto simp: bbox_intersection_commute)
  from assms(3) have "bbox_area a + bbox_area b - bbox_intersection a b \<noteq> 0"
    and "bbox_intersection a b = bbox_area a + bbox_area b - bbox_intersection a b"
    by (auto simp: bbox_iou_def Let_def split: if_splits)
  with le bbox_intersection_nonneg[of a b] show ?thesis by linarith
qed

section \<open>Lemmas on citations\<close>

lemma ground_citation_Inr_iff:
  "ground_citation m c cs = Inr best \<longleftrightarrow>
     max_by (\<lambda>d. bbox_iou (ct_bbox c) (ct_bbox d))
       (filter (\<lambda>d. ct_document d = ct_document c \<and> ct_page d = ct_page c) cs) = Some best
     \<and> m \<le> bbox_iou (ct_bbox c) (ct_bbox best)"
  by (auto simp: ground_citation_def Let_def res_simps split: option.splits)

lemma ground_citation_sound:
  assumes "ground_citation m c cs = Inr best"
  shows "best \<in> set cs \<and> ct_document best = ct_document c \<and> ct_page best = ct_page c
    \<and> m \<le> bbox_iou (ct_bbox c) (ct_bbox best)"
  using assms max_by_Some by (fastforce simp: ground_citation_Inr_iff)

lemma ground_citation_best:
  assumes "ground_citation m c cs = Inr best" "d \<in> set cs"
    and "ct_document d = ct_document c" "ct_page d = ct_page c"
  shows "bbox_iou (ct_bbox c) (ct_bbox d) \<le> bbox_iou (ct_bbox c) (ct_bbox best)"
  using assms max_by_Some by (fastforce simp: ground_citation_Inr_iff)

lemma ground_citation_total:
  assumes "d \<in> set cs" "ct_document d = ct_document c" "ct_page d = ct_page c"
    and "m \<le> bbox_iou (ct_bbox c) (ct_bbox d)"
  shows "\<exists>best. ground_citation m c cs = Inr best"
proof -
  let ?ms = "filter (\<lambda>d. ct_document d = ct_document c \<and> ct_page d = ct_page c) cs"
  have d: "d \<in> set ?ms" using assms by simp
  then obtain best where b: "max_by (\<lambda>d. bbox_iou (ct_bbox c) (ct_bbox d)) ?ms = Some best"
    using max_by_exists[of ?ms] by fastforce
  with max_by_Some[OF b] d have "bbox_iou (ct_bbox c) (ct_bbox d) \<le> bbox_iou (ct_bbox c) (ct_bbox best)"
    by blast
  with b assms show ?thesis unfolding ground_citation_Inr_iff by fastforce
qed

lemma ground_citation_error: "ground_citation m c cs = Inl e \<Longrightarrow> is_value_error e"
  by (auto simp: ground_citation_def Let_def res_simps split: option.splits)

lemma citation_identity_inj: "citation_identity c = citation_identity d \<longleftrightarrow> c = d"
  by (cases c; cases d) (auto simp: citation_identity_def intro: bbox.equality)

lemma citation_identity_from_provenance [simp]:
  "citation_identity (citation_from_provenance p) = provenance_identity p"
  by (simp add: citation_identity_def provenance_identity_def citation_from_provenance_def)

lemma citation_from_provenance_sel [simp]:
  "ct_document (citation_from_provenance p) = pv_document p"
  "ct_page (citation_from_provenance p) = pv_page p"
  "ct_bbox (citation_from_provenance p) = pv_bbox p"
  by (simp_all add: citation_from_provenance_def)

lemma stable_chunk_id_shape: "is_hex64 (stable_chunk_id k t ps)"
  by (simp add: stable_chunk_id_def sha256_hex_shape)

end
