(* ===== verification/PyDecimal.thy ===== *)
theory PyDecimal
  imports Complex_Main PyStr
begin

text \<open>
  Python's \<open>decimal.Decimal\<close> for finite numbers: sign, coefficient and exponent, as the
  specification of decimal arithmetic has them. Every operation computes exactly and then
  rounds to the context precision, half to even, as \<open>_fix\<close> does; the default context and the
  \<open>localcontext\<close> blocks of the source both have 28 digits. NaN and infinities never enter:
  every number of the source is read from a string of digits. The exponent limits of the
  context (six digits) are not modelled.
\<close>

section \<open>Numbers\<close>

record dec =
  dsign :: bool     \<comment> \<open>\<open>True\<close> for minus\<close>
  dcoef :: nat
  dexp :: int

abbreviation mk_dec :: "bool \<Rightarrow> nat \<Rightarrow> int \<Rightarrow> dec" where
  "mk_dec s c e \<equiv> \<lparr>dsign = s, dcoef = c, dexp = e\<rparr>"

definition signed :: "dec \<Rightarrow> int" where
  "signed a = (if dsign a then - int (dcoef a) else int (dcoef a))"

definition dec_val :: "dec \<Rightarrow> rat" where
  "dec_val a = of_int (signed a) * 10 powi dexp a"

definition prec28 :: nat where
  "prec28 = 28"

definition ndigits :: "nat \<Rightarrow> nat" where
  "ndigits n = length (str_of_nat n)"

definition dec_of_int :: "int \<Rightarrow> dec" where
  "dec_of_int i = mk_dec (i < 0) (nat \<bar>i\<bar>) 0"

text \<open>The signed coefficient of \<open>a\<close> at an exponent not above its own.\<close>

definition signed_at :: "int \<Rightarrow> dec \<Rightarrow> int" where
  "signed_at e a = signed a * 10 ^ nat (dexp a - e)"

section \<open>Comparison\<close>

definition dec_eq :: "dec \<Rightarrow> dec \<Rightarrow> bool" where
  "dec_eq a b = (let e = min (dexp a) (dexp b) in signed_at e a = signed_at e b)"

definition dec_less :: "dec \<Rightarrow> dec \<Rightarrow> bool" where
  "dec_less a b = (let e = min (dexp a) (dexp b) in signed_at e a < signed_at e b)"

definition dec_neg :: "dec \<Rightarrow> bool" where   \<comment> \<open>\<open>a < 0\<close>\<close>
  "dec_neg a = (signed a < 0)"

definition dec_nonpos :: "dec \<Rightarrow> bool" where   \<comment> \<open>\<open>a <= 0\<close>\<close>
  "dec_nonpos a = (signed a \<le> 0)"

text \<open>\<open>a == a.to_integral_value()\<close>\<close>

definition dec_integral :: "dec \<Rightarrow> bool" where
  "dec_integral a = (0 \<le> dexp a \<or> dcoef a mod 10 ^ nat (- dexp a) = 0)"

section \<open>Rounding and arithmetic\<close>

definition half_even :: "nat \<Rightarrow> nat \<Rightarrow> nat" where
  "half_even n d =
     (let q = n div d; r = n mod d in
      if 2 * r < d then q else if d < 2 * r then Suc q else if even q then q else Suc q)"

definition dec_fix :: "nat \<Rightarrow> dec \<Rightarrow> dec" where
  "dec_fix p a =
     (let n = ndigits (dcoef a) in
      if n \<le> p then a
      else (let k = n - p; q = half_even (dcoef a) (10 ^ k) in
            if p < ndigits q then mk_dec (dsign a) (q div 10) (dexp a + int k + 1)
            else mk_dec (dsign a) q (dexp a + int k)))"

definition dec_add :: "nat \<Rightarrow> dec \<Rightarrow> dec \<Rightarrow> dec" where
  "dec_add p a b =
     (let e = min (dexp a) (dexp b); s = signed_at e a + signed_at e b in
      dec_fix p (mk_dec (if s = 0 then dsign a \<and> dsign b else s < 0) (nat \<bar>s\<bar>) e))"

definition dec_mul :: "nat \<Rightarrow> dec \<Rightarrow> dec \<Rightarrow> dec" where
  "dec_mul p a b = dec_fix p (mk_dec (dsign a \<noteq> dsign b) (dcoef a * dcoef b) (dexp a + dexp b))"

text \<open>
  Division keeps at least one digit more than the precision and marks an inexact quotient
  that ends in 0 or 5, so that the final rounding never sees a false tie; an exact quotient
  sheds zeros until it has the ideal exponent.
\<close>

function strip_zeros :: "int \<Rightarrow> nat \<Rightarrow> int \<Rightarrow> nat \<times> int" where
  "strip_zeros ideal c e =
     (if e < ideal \<and> c mod 10 = 0 then strip_zeros ideal (c div 10) (e + 1) else (c, e))"
  by pat_completeness auto
termination
  by (relation "measure (\<lambda>(ideal, c, e). nat (ideal - e))") auto

declare strip_zeros.simps [simp del]

definition dec_div :: "nat \<Rightarrow> dec \<Rightarrow> dec \<Rightarrow> dec" where
  "dec_div p a b =
     (let sign = (dsign a \<noteq> dsign b); ideal = dexp a - dexp b in
      if dcoef a = 0 then dec_fix p (mk_dec sign 0 ideal)
      else
        (let shift = int (ndigits (dcoef b)) - int (ndigits (dcoef a)) + int p + 1;
             num = dcoef a * 10 ^ nat shift; den = dcoef b * 10 ^ nat (- shift);
             q = num div den; r = num mod den
         in if r \<noteq> 0 then dec_fix p (mk_dec sign (if q mod 5 = 0 then Suc q else q) (ideal - shift))
            else (case strip_zeros ideal q (ideal - shift) of (c, e) \<Rightarrow> dec_fix p (mk_dec sign c e))))"

definition dec_sum :: "nat \<Rightarrow> dec list \<Rightarrow> dec" where
  "dec_sum p xs = foldl (dec_add p) (dec_of_int 0) xs"

section \<open>Reading and printing\<close>

text \<open>\<open>Decimal(s)\<close> for an optionally signed numeral with an optional fraction.\<close>

definition digits_ok :: "string \<Rightarrow> bool" where
  "digits_ok s = (s \<noteq> [] \<and> list_all is_digit s)"

definition decimal_of_string :: "string \<Rightarrow> dec option" where
  "decimal_of_string s =
     (let neg = (s \<noteq> [] \<and> hd s = CHR ''-'');
          body = (if s \<noteq> [] \<and> (hd s = CHR ''-'' \<or> hd s = CHR ''+'') then tl s else s)
      in case split_on CHR ''.'' body of
           [i] \<Rightarrow> if digits_ok i then Some (mk_dec neg (nat_of_digits i) 0) else None
         | [i, f] \<Rightarrow> if digits_ok i \<and> digits_ok f
             then Some (mk_dec neg (nat_of_digits (i @ f)) (- int (length f))) else None
         | _ \<Rightarrow> None)"

text \<open>\<open>format(a, "f")\<close>: no exponent, the digits right of the point that the exponent asks for.\<close>

definition format_f :: "dec \<Rightarrow> string" where
  "format_f a =
     (let ds = (if dcoef a = 0 \<and> 0 < dexp a then ''0'' else str_of_nat (dcoef a));
          e = (if dcoef a = 0 \<and> 0 < dexp a then 0 else dexp a);
          place = e + int (length ds);
          body = (if place < 0 then ''0.'' @ replicate (nat (- place)) CHR ''0'' @ ds
                  else if int (length ds) \<le> place
                  then ds @ replicate (nat place - length ds) CHR ''0''
                  else (if place = 0 then ''0'' else take (nat place) ds) @ ''.'' @ drop (nat place) ds)
      in (if dsign a then CHR ''-'' # body else body))"

text \<open>\<open>str(a)\<close>: scientific notation outside \<open>-6 <= exponent <= 0\<close>.\<close>

definition dec_str :: "dec \<Rightarrow> string" where
  "dec_str a =
     (let ds = str_of_nat (dcoef a); left = dexp a + int (length ds) in
      if dexp a \<le> 0 \<and> -6 < left then format_f a
      else (if dsign a then ''-'' else []) @ take 1 ds @ (if length ds = 1 then [] else CHR ''.'' # drop 1 ds)
           @ ''E'' @ (if left - 1 < 0 then [] else ''+'') @ str_of_int (left - 1))"

section \<open>Values of the operations\<close>

lemma signed_mk [simp]: "signed (mk_dec s c e) = (if s then - int c else int c)"
  by (simp add: signed_def)

lemma dec_val_mk: "dec_val (mk_dec s c e) = (if s then - 1 else 1) * of_nat c * 10 powi e"
  by (simp add: dec_val_def)

lemma dec_val_of_int [simp]: "dec_val (dec_of_int i) = of_int i"
  by (simp add: dec_of_int_def dec_val_def)

lemma powi_split:
  assumes "e \<le> f"
  shows "(10::rat) powi f = 10 ^ nat (f - e) * 10 powi e"
proof -
  have "(10::rat) powi f = 10 powi ((f - e) + e)" by simp
  also have "\<dots> = 10 powi (f - e) * 10 powi e" by (subst power_int_add) auto
  also have "10 powi (f - e) = (10::rat) ^ nat (f - e)"
    using assms by (simp add: power_int_def)
  finally show ?thesis .
qed

lemma dec_val_at: "e \<le> dexp a \<Longrightarrow> dec_val a = of_int (signed_at e a) * 10 powi e"
  by (simp add: dec_val_def signed_at_def powi_split[of e "dexp a"])

lemma powi10_pos [simp]: "0 < (10::rat) powi e"
  by (simp add: zero_less_power_int)

lemma powi10_not_neg: "\<not> (10::rat) powi e < 0" "\<not> (10::rat) powi e \<le> 0"
  using powi10_pos[of e] by linarith+

lemma dec_val_common:
  "dec_val a = of_int (signed_at (min (dexp a) (dexp b)) a) * 10 powi min (dexp a) (dexp b)"
  "dec_val a = of_int (signed_at (min (dexp b) (dexp a)) a) * 10 powi min (dexp b) (dexp a)"
  by (rule dec_val_at, simp)+

lemma dec_eq_iff: "dec_eq a b \<longleftrightarrow> dec_val a = dec_val b"
  unfolding dec_val_common(1)[of a b] dec_val_common(2)[of b a] by
    (simp add: dec_eq_def Let_def)

lemma dec_less_iff: "dec_less a b \<longleftrightarrow> dec_val a < dec_val b"
  unfolding dec_val_common(1)[of a b] dec_val_common(2)[of b a] by
    (simp add: dec_less_def Let_def)

lemma dec_neg_iff: "dec_neg a \<longleftrightarrow> dec_val a < 0"
  by (simp add: dec_neg_def dec_val_def mult_less_0_iff powi10_not_neg)

lemma dec_nonpos_iff: "dec_nonpos a \<longleftrightarrow> dec_val a \<le> 0"
  by (simp add: dec_nonpos_def dec_val_def mult_le_0_iff powi10_not_neg)

section \<open>Digits\<close>

lemma ndigits_rec: "ndigits n = (if n < 10 then 1 else Suc (ndigits (n div 10)))"
  unfolding ndigits_def by (subst str_of_nat.simps) simp

lemma ndigits_pos [simp]: "0 < ndigits n"
  by (subst ndigits_rec) simp

lemma ndigits_upper: "n < 10 ^ ndigits n"
proof (induction n rule: less_induct)
  case (less n)
  show ?case
  proof (cases "n < 10")
    case False
    then have "n div 10 < 10 ^ ndigits (n div 10)" by (intro less.IH) simp
    then have "n < 10 * 10 ^ ndigits (n div 10)" by linarith
    with False show ?thesis by (subst ndigits_rec) simp
  qed (simp add: ndigits_rec)
qed

lemma ndigits_lower: "0 < n \<Longrightarrow> 10 ^ (ndigits n - 1) \<le> n"
proof (induction n rule: less_induct)
  case (less n)
  show ?case
  proof (cases "n < 10")
    case False
    then have "10 ^ (ndigits (n div 10) - 1) \<le> n div 10" by (intro less.IH) auto
    then have "10 * 10 ^ (ndigits (n div 10) - 1) \<le> n" by linarith
    with False show ?thesis
      by (subst ndigits_rec) (simp flip: power_Suc)
  qed (use less.prems in \<open>simp add: ndigits_rec\<close>)
qed

lemma ndigits_le_iff: "0 < p \<Longrightarrow> ndigits n \<le> p \<longleftrightarrow> n < 10 ^ p"
proof
  assume "ndigits n \<le> p"
  then have "(10::nat) ^ ndigits n \<le> 10 ^ p" by (rule power_increasing) simp
  with ndigits_upper[of n] show "n < 10 ^ p" by linarith
next
  assume p: "0 < p" and n: "n < 10 ^ p"
  show "ndigits n \<le> p"
  proof (cases "n = 0")
    case True
    with p show ?thesis by (simp add: ndigits_rec)
  next
    case False
    then have "10 ^ (ndigits n - 1) \<le> n" by (intro ndigits_lower) simp
    with n have "(10::nat) ^ (ndigits n - 1) < 10 ^ p" by linarith
    then have "ndigits n - 1 < p" by (rule power_less_imp_less_exp[rotated]) simp
    then show ?thesis by linarith
  qed
qed

section \<open>Rounding\<close>

lemma half_even_bounds:
  assumes "0 < d"
  shows "2 * half_even n d * d \<le> 2 * n + d \<and> 2 * n \<le> 2 * half_even n d * d + d"
proof -
  obtain x where x: "x = n div d * d" by blast
  then have n: "n = x + n mod d" and r: "n mod d < d" using assms by simp_all
  have "half_even n d * d = x \<and> 2 * (n mod d) \<le> d
      \<or> half_even n d * d = x + d \<and> d \<le> 2 * (n mod d)"
    by (auto simp: half_even_def Let_def x)
  with n r show ?thesis by linarith
qed

lemma half_even_le_Suc: "half_even n d \<le> Suc (n div d)"
  by (simp add: half_even_def Let_def)

text \<open>Rounding to \<open>p\<close> digits leaves at most \<open>p\<close> digits, and a number with no more is kept.\<close>

lemma dec_fix_id: "ndigits (dcoef a) \<le> p \<Longrightarrow> dec_fix p a = a"
  by (simp add: dec_fix_def)

lemma half_even_digits:
  assumes "0 < p" "p < ndigits n"
  shows "half_even n (10 ^ (ndigits n - p)) \<le> 10 ^ p"
proof -
  have "n < 10 ^ p * 10 ^ (ndigits n - p)"
    using ndigits_upper[of n] assms by (simp flip: power_add)
  then have "n div 10 ^ (ndigits n - p) < 10 ^ p"
    by (simp add: less_mult_imp_div_less)
  with half_even_le_Suc[of n "10 ^ (ndigits n - p)"] show ?thesis by linarith
qed

lemma dec_fix_digits:
  assumes "0 < p"
  shows "ndigits (dcoef (dec_fix p a)) \<le> p"
proof (cases "ndigits (dcoef a) \<le> p")
  case False
  then have le: "half_even (dcoef a) (10 ^ (ndigits (dcoef a) - p)) \<le> 10 ^ p"
    using assms half_even_digits by simp
  then have "half_even (dcoef a) (10 ^ (ndigits (dcoef a) - p)) div 10 < 10 ^ p"
    using zero_less_power[of "10::nat" p] by linarith
  with False assms show ?thesis
    by (auto simp: dec_fix_def Let_def ndigits_le_iff[symmetric] not_less)
qed (simp add: dec_fix_def)

text \<open>The rounded value is within half a unit of the last kept digit.\<close>

lemma dec_fix_error:
  assumes "0 < p"
  shows "\<bar>dec_val (dec_fix p a) - dec_val a\<bar>
       \<le> (if ndigits (dcoef a) \<le> p then 0 else 10 powi (dexp a + int (ndigits (dcoef a) - p)) / 2)"
proof (cases "ndigits (dcoef a) \<le> p")
  case True
  then show ?thesis by (simp add: dec_fix_def)
next
  case False
  define k where "k = ndigits (dcoef a) - p"
  define q where "q = half_even (dcoef a) (10 ^ k)"
  define u where "u = (10::rat) powi dexp a"
  have u: "0 < u" by (simp add: u_def)
  have pk: "10 powi (dexp a + int k) = 10 ^ k * u"
    by (simp add: u_def power_int_add)
  have q10: "p < ndigits q \<Longrightarrow> q = 10 ^ p"
    using half_even_digits[of p "dcoef a"] False assms ndigits_le_iff[of p q]
    by (simp add: q_def k_def)
  have val: "dec_val (dec_fix p a) = (if dsign a then -1 else 1) * of_nat q * (10 ^ k * u)"
  proof (cases "p < ndigits q")
    case True
    with q10 assms have "10 * (q div 10) = q" by (cases p) auto
    then have "of_nat q = 10 * (of_nat (q div 10) :: rat)"
      by (metis of_nat_mult of_nat_numeral)
    with True False show ?thesis
      by (simp add: dec_fix_def Let_def flip: k_def q_def)
         (simp add: dec_val_mk power_int_add u_def)
  next
    case nq: False
    with False show ?thesis
      by (simp add: dec_fix_def Let_def flip: k_def q_def) (simp add: dec_val_mk pk)
  qed
  have b: "2 * q * 10 ^ k \<le> 2 * dcoef a + 10 ^ k \<and> 2 * dcoef a \<le> 2 * q * 10 ^ k + 10 ^ k"
    unfolding q_def by (rule half_even_bounds) simp
  then have b': "2 * of_nat q * 10 ^ k \<le> 2 * of_nat (dcoef a) + (10 ^ k :: rat)"
    "2 * of_nat (dcoef a) \<le> 2 * of_nat q * 10 ^ k + (10 ^ k :: rat)"
    by (metis (mono_tags) of_nat_le_iff of_nat_add of_nat_mult of_nat_numeral of_nat_power)+
  then have d: "\<bar>of_nat q * 10 ^ k - (of_nat (dcoef a) :: rat)\<bar> \<le> 10 ^ k / 2"
    unfolding abs_le_iff by linarith
  have "dec_val (dec_fix p a) - dec_val a
      = (if dsign a then -1 else 1) * ((of_nat q * 10 ^ k - of_nat (dcoef a)) * u)"
    unfolding val by (simp add: dec_val_def signed_def u_def algebra_simps)
  then have "\<bar>dec_val (dec_fix p a) - dec_val a\<bar> = \<bar>of_nat q * 10 ^ k - of_nat (dcoef a)\<bar> * u"
    using u by (simp add: abs_mult)
  also have "\<dots> \<le> 10 ^ k / 2 * u" using d u by (intro mult_right_mono) auto
  finally show ?thesis using False pk by (simp flip: k_def)
qed

section \<open>Exact and rounded results\<close>

lemma dec_val_abs: "\<bar>dec_val a\<bar> = of_nat (dcoef a) * 10 powi dexp a"
  by (simp add: dec_val_def signed_def abs_mult)

lemma powi10_add: "(10::rat) powi (i + j) = 10 powi i * 10 powi j"
  by (simp add: power_int_add)

lemma powi10_diff: "(10::rat) powi (i - j) = 10 powi i / 10 powi j"
  by (simp add: power_int_diff)

text \<open>Relative to the number, rounding to \<open>p\<close> digits costs at most half of \<open>10 ^ (1 - p)\<close>.\<close>

lemma dec_fix_relative:
  assumes "0 < p"
  shows "\<bar>dec_val (dec_fix p a) - dec_val a\<bar> \<le> 10 powi (1 - int p) / 2 * \<bar>dec_val a\<bar>"
proof (cases "ndigits (dcoef a) \<le> p")
  case True
  then show ?thesis by (simp add: dec_fix_id less_imp_le)
next
  case False
  define n where "n = ndigits (dcoef a)"
  have "dcoef a \<noteq> 0"
  proof
    assume "dcoef a = 0"
    then have "ndigits (dcoef a) = 1" by (subst ndigits_rec) simp
    with False assms show False by simp
  qed
  then have "10 ^ (n - 1) \<le> dcoef a" unfolding n_def by (intro ndigits_lower) simp
  then have low: "10 powi int (n - 1) \<le> (of_nat (dcoef a) :: rat)"
    by (metis of_nat_le_iff of_nat_numeral of_nat_power power_int_of_nat)
  have "\<bar>dec_val (dec_fix p a) - dec_val a\<bar> \<le> 10 powi (dexp a + int (n - p)) / 2"
    using dec_fix_error[OF assms, of a] False by (simp add: n_def)
  also have "10 powi (dexp a + int (n - p)) = (10::rat) powi (1 - int p) * (10 powi int (n - 1) * 10 powi dexp a)"
  proof -
    have "dexp a + int (n - p) = (1 - int p) + (int (n - 1) + dexp a)"
      using False n_def by simp
    then show ?thesis by (simp only: powi10_add)
  qed
  also have "\<dots> / 2 \<le> 10 powi (1 - int p) * (of_nat (dcoef a) * 10 powi dexp a) / 2"
    using low by (intro divide_right_mono mult_left_mono mult_right_mono) (simp_all add: less_imp_le)
  finally show ?thesis by (simp add: dec_val_abs)
qed

lemma dec_add_exact:
  assumes "ndigits (nat \<bar>signed_at (min (dexp a) (dexp b)) a + signed_at (min (dexp a) (dexp b)) b\<bar>) \<le> p"
  shows "dec_val (dec_add p a b) = dec_val a + dec_val b \<and> dexp (dec_add p a b) = min (dexp a) (dexp b)"
proof -
  let ?e = "min (dexp a) (dexp b)"
  let ?s = "signed_at ?e a + signed_at ?e b"
  have "dec_val a + dec_val b = of_int ?s * 10 powi ?e"
    unfolding dec_val_common(1)[of a b] dec_val_common(2)[of b a] by (simp add: algebra_simps)
  moreover have "dec_add p a b = mk_dec (if ?s = 0 then dsign a \<and> dsign b else ?s < 0) (nat \<bar>?s\<bar>) ?e"
    using assms by (simp add: dec_add_def Let_def dec_fix_id)
  ultimately show ?thesis by (auto simp: dec_val_mk)
qed

lemma dec_mul_val: "dec_val (mk_dec (dsign a \<noteq> dsign b) (dcoef a * dcoef b) (dexp a + dexp b)) = dec_val a * dec_val b"
  by (simp add: dec_val_def signed_def power_int_add)

lemma dec_mul_relative:
  "0 < p \<Longrightarrow> \<bar>dec_val (dec_mul p a b) - dec_val a * dec_val b\<bar>
     \<le> 10 powi (1 - int p) / 2 * \<bar>dec_val a * dec_val b\<bar>"
  unfolding dec_mul_def
  using dec_fix_relative[of p "mk_dec (dsign a \<noteq> dsign b) (dcoef a * dcoef b) (dexp a + dexp b)"]
  by (simp only: dec_mul_val)

lemma dec_mul_exact:
  assumes "ndigits (dcoef a * dcoef b) \<le> p"
  shows "dec_val (dec_mul p a b) = dec_val a * dec_val b \<and> dexp (dec_mul p a b) = dexp a + dexp b"
proof -
  have "dec_mul p a b = mk_dec (dsign a \<noteq> dsign b) (dcoef a * dcoef b) (dexp a + dexp b)"
    unfolding dec_mul_def using assms by (intro dec_fix_id) simp
  then show ?thesis by (simp only: dec_mul_val) simp
qed

lemma dec_val_sign: "dec_val a = (if dsign a then -1 else 1) * (of_nat (dcoef a) * 10 powi dexp a)"
  by (simp add: dec_val_def signed_def)

lemma strip_zeros_val:
  "strip_zeros i c e = (c', e') \<Longrightarrow> of_nat c' * 10 powi e' = (of_nat c * 10 powi e :: rat)"
proof (induction i c e arbitrary: c' e' rule: strip_zeros.induct)
  case (1 i c e)
  show ?case
  proof (cases "e < i \<and> c mod 10 = 0")
    case True
    with "1.prems" have "strip_zeros i (c div 10) (e + 1) = (c', e')"
      by (subst (asm) strip_zeros.simps) simp
    with "1.IH"[of c' e'] True have eq: "of_nat c' * 10 powi e' = (of_nat (c div 10) * 10 powi (e + 1) :: rat)"
      by simp
    from True have "c = c div 10 * 10" using div_mult_mod_eq[of c 10] by linarith
    then have "(of_nat c :: rat) = of_nat (c div 10) * 10" by (metis of_nat_mult of_nat_numeral)
    with eq show ?thesis by (simp add: power_int_add)
  next
    case False
    with "1.prems" show ?thesis by (subst (asm) strip_zeros.simps) auto
  qed
qed

text \<open>A quotient is off by at most one unit of the 28th digit.\<close>

lemma dec_div_relative:
  assumes p: "0 < p" and b0: "dcoef b \<noteq> 0"
  shows "\<bar>dec_val (dec_div p a b) - dec_val a / dec_val b\<bar>
     \<le> 10 powi (1 - int p) * \<bar>dec_val a / dec_val b\<bar>"
proof (cases "dcoef a = 0")
  case True
  then have "dec_fix p (mk_dec s 0 e) = mk_dec s 0 e" for s e
    using p by (intro dec_fix_id) (simp add: ndigits_rec)
  with True show ?thesis by (simp add: dec_div_def Let_def dec_val_def signed_def)
next
  case False
  define sg where "sg = (dsign a \<noteq> dsign b)"
  define sgn where "sgn = (if sg then -1 else 1 :: rat)"
  define ideal where "ideal = dexp a - dexp b"
  define shift where "shift = int (ndigits (dcoef b)) - int (ndigits (dcoef a)) + int p + 1"
  define num where "num = dcoef a * 10 ^ nat shift"
  define den where "den = dcoef b * 10 ^ nat (- shift)"
  define q where "q = num div den"
  define r where "r = num mod den"
  define u where "u = (10::rat) powi (ideal - shift)"
  define t where "t = (of_nat num / of_nat den :: rat)"
  have u: "0 < u" by (simp add: u_def)
  have den: "0 < den" using b0 by (simp add: den_def)
  have t_eq: "t = of_nat (dcoef a) / of_nat (dcoef b) * 10 powi shift"
  proof (cases "0 \<le> shift")
    case True
    then have "t = of_nat (dcoef a) * 10 ^ nat shift / of_nat (dcoef b)"
      by (simp add: t_def num_def den_def)
    moreover have "(10::rat) powi shift = 10 ^ nat shift" using True by (simp add: power_int_def)
    ultimately show ?thesis by (simp only: times_divide_eq_left)
  next
    case neg: False
    then have "t = of_nat (dcoef a) / (of_nat (dcoef b) * 10 ^ nat (- shift))"
      by (simp add: t_def num_def den_def)
    moreover have "(10::rat) powi shift = 1 / 10 ^ nat (- shift)"
      using neg by (simp add: power_int_def inverse_eq_divide power_one_over)
    ultimately show ?thesis by (simp only: times_divide_eq_right mult_1_right divide_divide_eq_left)
  qed
  have quot: "dec_val a / dec_val b = sgn * (t * u)"
  proof -
    have "(10::rat) powi shift * 10 powi (ideal - shift) = 10 powi ideal"
      by (simp flip: power_int_add)
    then have "t * u = of_nat (dcoef a) / of_nat (dcoef b) * 10 powi ideal"
      by (simp add: t_eq u_def)
    then show ?thesis
      unfolding dec_val_sign[of a] dec_val_sign[of b] sgn_def sg_def ideal_def powi10_diff by simp
  qed
  have t_ge: "10 ^ p \<le> t"
  proof -
    have "10 ^ (ndigits (dcoef a) - 1) \<le> dcoef a" using False by (intro ndigits_lower) simp
    then have A: "10 powi (int (ndigits (dcoef a)) - 1) \<le> (of_nat (dcoef a) :: rat)"
      using ndigits_pos[of "dcoef a"]
      by (metis One_nat_def Suc_leI of_nat_1 of_nat_diff of_nat_le_iff of_nat_numeral of_nat_power power_int_of_nat)
    have B: "(of_nat (dcoef b) :: rat) \<le> 10 powi int (ndigits (dcoef b))"
      using ndigits_upper[of "dcoef b"]
      by (metis less_imp_le of_nat_le_iff of_nat_numeral of_nat_power power_int_of_nat)
    have "(10::rat) ^ p = 10 powi (int (ndigits (dcoef a)) - 1) / 10 powi int (ndigits (dcoef b)) * 10 powi shift"
    proof -
      have "int p = (int (ndigits (dcoef a)) - 1) - int (ndigits (dcoef b)) + shift"
        by (simp add: shift_def)
      then have "(10::rat) powi int p
          = 10 powi (int (ndigits (dcoef a)) - 1) / 10 powi int (ndigits (dcoef b)) * 10 powi shift"
        by (simp only: powi10_add powi10_diff)
      then show ?thesis by simp
    qed
    also have "\<dots> \<le> of_nat (dcoef a) / of_nat (dcoef b) * 10 powi shift"
      using A B b0 by (intro mult_right_mono frac_le) (simp_all add: less_imp_le)
    finally show ?thesis by (simp add: t_eq)
  qed
  have eps: "(10::rat) powi (1 - int p) = 10 / 10 ^ p"
    by (simp add: power_int_diff)
  have P1: "(1::rat) \<le> 10 ^ p" by simp
  show ?thesis
  proof (cases "r = 0")
    case True
    obtain c e where ce: "strip_zeros ideal q (ideal - shift) = (c, e)" by fastforce
    have div: "dec_div p a b = dec_fix p (mk_dec sg c e)"
      using False True ce
      by (simp add: dec_div_def Let_def sg_def ideal_def shift_def num_def den_def q_def r_def)
    have "num = den * q" using True unfolding r_def q_def by (metis add.right_neutral mult_div_mod_eq)
    then have "t = of_nat q" using den by (simp add: t_def)
    moreover have "of_nat c * 10 powi e = (of_nat q * u :: rat)"
      using strip_zeros_val[OF ce] by (simp add: u_def)
    ultimately have "dec_val (mk_dec sg c e) = dec_val a / dec_val b"
      by (simp add: quot dec_val_mk sgn_def mult.assoc)
    then have "\<bar>dec_val (dec_div p a b) - dec_val a / dec_val b\<bar>
        \<le> 10 powi (1 - int p) / 2 * \<bar>dec_val a / dec_val b\<bar>"
      unfolding div using dec_fix_relative[OF p, of "mk_dec sg c e"] by simp
    also have "\<dots> \<le> 10 powi (1 - int p) * \<bar>dec_val a / dec_val b\<bar>"
      by (intro mult_right_mono) (simp_all add: less_imp_le)
    finally show ?thesis .
  next
    case nz: False
    define q' where "q' = (if q mod 5 = 0 then Suc q else q)"
    define y where "y = mk_dec sg q' (ideal - shift)"
    have div: "dec_div p a b = dec_fix p y"
      using False nz
      by (simp add: dec_div_def Let_def sg_def ideal_def shift_def num_def den_def q_def r_def q'_def y_def)
    have "num = den * q + r" "r < den" using den by (simp_all add: q_def r_def)
    then have "t = of_nat q + of_nat r / of_nat den" "of_nat r / of_nat den < (1::rat)"
      using den by (simp_all add: t_def field_simps)
    then have off: "\<bar>of_nat q' - t\<bar> \<le> 1" by (auto simp: q'_def)
    have yval: "dec_val y = sgn * (of_nat q' * u)"
      by (simp add: y_def dec_val_mk sgn_def u_def)
    have absx: "\<bar>dec_val a / dec_val b\<bar> = t * u"
    proof -
      have "0 < t" using t_ge P1 by linarith
      with u show ?thesis by (simp add: quot sgn_def abs_mult)
    qed
    have absy: "\<bar>dec_val y\<bar> = of_nat q' * u"
      using u by (simp add: yval sgn_def abs_mult)
    have d1: "\<bar>dec_val y - dec_val a / dec_val b\<bar> = \<bar>of_nat q' - t\<bar> * u"
    proof -
      have "dec_val y - dec_val a / dec_val b = sgn * ((of_nat q' - t) * u)"
        by (simp add: yval quot algebra_simps)
      then show ?thesis using u by (simp add: sgn_def abs_mult)
    qed
    have d2: "\<bar>dec_val (dec_div p a b) - dec_val y\<bar> \<le> 10 / 10 ^ p / 2 * (of_nat q' * u)"
      using dec_fix_relative[OF p, of y] by (simp add: div absy eps)
    have q'le: "of_nat q' \<le> t + 1" using off by linarith
    have "\<bar>dec_val (dec_div p a b) - dec_val a / dec_val b\<bar>
        \<le> 10 / 10 ^ p / 2 * (of_nat q' * u) + \<bar>of_nat q' - t\<bar> * u"
      using d1 d2 by linarith
    also have "\<dots> \<le> 10 / 10 ^ p / 2 * ((t + 1) * u) + 1 * u"
      using q'le off u by (intro add_mono mult_left_mono mult_right_mono) (simp_all add: less_imp_le)
    also have "\<dots> = (5 / 10 ^ p * (t + 1) + 1) * u" by (simp add: algebra_simps)
    also have "\<dots> \<le> (10 / 10 ^ p * t) * u"
    proof (intro mult_right_mono)
      have P10: "10 ^ p \<ge> (10::rat)" using p by (cases p) simp_all
      then have "5 * (t + 1) + 10 ^ p \<le> 10 * t" using t_ge by (simp add: distrib_left)
      then have "(5 * (t + 1) + 10 ^ p) / 10 ^ p \<le> 10 * t / 10 ^ p" by (rule divide_right_mono) simp
      then show "5 / 10 ^ p * (t + 1) + 1 \<le> 10 / 10 ^ p * t"
        by (simp add: add_divide_distrib)
    qed (use u in simp)
    finally show ?thesis unfolding absx eps by (simp only: mult.assoc)
  qed
qed

section \<open>Printing and reading back\<close>

lemma point_not_digit: "is_digit c \<Longrightarrow> c \<noteq> CHR ''.'' \<and> c \<noteq> CHR ''-'' \<and> c \<noteq> CHR ''+''"
  by (auto simp: is_digit_def in_range_def code_def)

lemma digits_ok_no_point: "digits_ok s \<Longrightarrow> CHR ''.'' \<notin> set s"
  using point_not_digit by (auto simp: digits_ok_def list_all_iff)

lemma decimal_of_digits:
  assumes "digits_ok i"
  shows "decimal_of_string (if n then CHR ''-'' # i else i) = Some (mk_dec n (nat_of_digits i) 0)"
proof -
  have "hd i \<noteq> CHR ''-''" "hd i \<noteq> CHR ''+''" "i \<noteq> []"
    using assms point_not_digit[of "hd i"] by (auto simp: digits_ok_def list_all_iff)
  then show ?thesis
    using assms by (auto simp: decimal_of_string_def Let_def split_on_no_sep digits_ok_no_point)
qed

lemma decimal_of_point:
  assumes i: "digits_ok i" and f: "digits_ok f"
  shows "decimal_of_string (if n then CHR ''-'' # i @ ''.'' @ f else i @ ''.'' @ f)
    = Some (mk_dec n (nat_of_digits (i @ f)) (- int (length f)))"
proof -
  have h: "hd i \<noteq> CHR ''-''" "hd i \<noteq> CHR ''+''" "i \<noteq> []"
    using i point_not_digit[of "hd i"] by (auto simp: digits_ok_def list_all_iff)
  have "split_on CHR ''.'' (i @ CHR ''.'' # f) = [i, f]"
    using digits_ok_no_point[OF i] digits_ok_no_point[OF f] by (simp add: split_on_append split_on_no_sep)
  then show ?thesis
    using h i f by (auto simp: decimal_of_string_def Let_def)
qed

lemma nat_of_digits_append:
  "nat_of_digits (s @ t) = nat_of_digits s * 10 ^ length t + nat_of_digits t"
proof (induction t rule: rev_induct)
  case (snoc c t)
  have "nat_of_digits ((s @ t) @ [c]) = 10 * nat_of_digits (s @ t) + digit_val c"
    by (rule nat_of_digits_snoc)
  with snoc show ?case by (simp add: algebra_simps)
qed (simp add: nat_of_digits_def)

lemma nat_of_digits_zeros [simp]: "nat_of_digits (replicate k CHR ''0'') = 0"
  by (induction k) (simp_all add: nat_of_digits_append[of "[_]", simplified] nat_of_digits_def
      digit_val_def code_def)

lemma digits_ok_str [simp]: "digits_ok (str_of_nat n)"
  using str_of_nat_digits[of n] by (auto simp: digits_ok_def list_all_iff)

lemma is_digit_0 [simp]: "is_digit CHR ''0''"
  by (simp add: is_digit_def in_range_def code_def)

lemma digits_ok_append [simp]:
  "digits_ok (s @ t) \<longleftrightarrow> (s \<noteq> [] \<or> t \<noteq> []) \<and> list_all is_digit s \<and> list_all is_digit t"
  by (auto simp: digits_ok_def)

lemma list_all_digits_part [simp]:
  "list_all is_digit (str_of_nat n)"
  "list_all is_digit (take k (str_of_nat n))"
  "list_all is_digit (drop k (str_of_nat n))"
  "list_all is_digit (replicate m CHR ''0'')"
  using str_of_nat_digits[of n] by (auto simp: list_all_iff dest: in_set_takeD in_set_dropD)

text \<open>
  What \<open>format(a, "f")\<close> prints, \<open>Decimal(...)\<close> reads back: the same number, and the very same
  sign, coefficient and exponent when the exponent is not positive.
\<close>

lemma decimal_of_format_f_nonpos:
  assumes "dexp a \<le> 0"
  shows "decimal_of_string (format_f a) = Some a"
proof -
  define ds where "ds = str_of_nat (dcoef a)"
  define place where "place = dexp a + int (length ds)"
  have ds: "ds \<noteq> []" "list_all is_digit ds" "nat_of_digits ds = dcoef a" by (simp_all add: ds_def)
  have a: "mk_dec (dsign a) (dcoef a) (dexp a) = a" by simp
  have ff: "format_f a = (let body =
      (if place < 0 then ''0.'' @ replicate (nat (- place)) CHR ''0'' @ ds
       else if int (length ds) \<le> place then ds @ replicate (nat place - length ds) CHR ''0''
       else (if place = 0 then ''0'' else take (nat place) ds) @ ''.'' @ drop (nat place) ds)
      in if dsign a then CHR ''-'' # body else body)"
    using assms by (simp add: format_f_def Let_def ds_def place_def)
  consider "place < 0" | "dexp a = 0" | "place = 0" | "0 < place" "dexp a < 0"
    using assms by linarith
  then show ?thesis
  proof cases
    case 1
    have len: "length (replicate (nat (- place)) CHR ''0'' @ ds) = nat (- dexp a)"
      using 1 by (simp add: place_def)
    have val: "nat_of_digits (''0'' @ replicate (nat (- place)) CHR ''0'' @ ds) = dcoef a"
      by (simp only: nat_of_digits_append ds nat_of_digits_zeros)
        (simp add: nat_of_digits_def digit_val_def code_def)
    have "format_f a = (if dsign a then CHR ''-'' # ''0'' @ ''.'' @ (replicate (nat (- place)) CHR ''0'' @ ds)
        else ''0'' @ ''.'' @ (replicate (nat (- place)) CHR ''0'' @ ds))"
      using 1 by (simp add: ff)
    then show ?thesis
      using decimal_of_point[of "''0''" "replicate (nat (- place)) CHR ''0'' @ ds" "dsign a"] ds assms a
      by (simp only: val len) (simp add: digits_ok_def)
  next
    case 2
    then have "format_f a = (if dsign a then CHR ''-'' # ds else ds)"
      by (simp add: ff place_def)
    then show ?thesis
      using decimal_of_digits[of ds "dsign a"] ds a 2 by (simp add: digits_ok_def)
  next
    case 3
    have len: "length ds = nat (- dexp a)" using 3 by (simp add: place_def)
    have val: "nat_of_digits (''0'' @ ds) = dcoef a"
      by (simp only: nat_of_digits_append ds) (simp add: nat_of_digits_def digit_val_def code_def)
    have "format_f a = (if dsign a then CHR ''-'' # ''0'' @ ''.'' @ ds else ''0'' @ ''.'' @ ds)"
      using 3 ds by (simp add: ff)
    then show ?thesis
      using decimal_of_point[of "''0''" ds "dsign a"] ds assms a
      by (simp only: val len) (simp add: digits_ok_def)
  next
    case 4
    have lt: "nat place < length ds" and pos: "0 < nat place" using 4 by (auto simp: place_def)
    have len: "length (drop (nat place) ds) = nat (- dexp a)" using 4 by (simp add: place_def)
    have val: "nat_of_digits (take (nat place) ds @ drop (nat place) ds) = dcoef a" by (simp add: ds)
    have ok: "digits_ok (take (nat place) ds)" "digits_ok (drop (nat place) ds)"
      using lt pos ds by (auto simp: digits_ok_def ds_def)
    have "format_f a = (if dsign a then CHR ''-'' # take (nat place) ds @ ''.'' @ drop (nat place) ds
        else take (nat place) ds @ ''.'' @ drop (nat place) ds)"
      using 4 lt by (simp add: ff)
    then show ?thesis
      using decimal_of_point[OF ok, of "dsign a"] assms a by (simp only: val len) simp
  qed
qed

lemma decimal_of_format_f:
  "\<exists>b. decimal_of_string (format_f a) = Some b \<and> dec_val b = dec_val a"
proof (cases "dexp a \<le> 0")
  case True
  then show ?thesis using decimal_of_format_f_nonpos by blast
next
  case False
  define ds where "ds = (if dcoef a = 0 then ''0'' else str_of_nat (dcoef a))"
  define e where "e = (if dcoef a = 0 then 0 else dexp a)"
  have ds: "ds \<noteq> []" "list_all is_digit ds" "nat_of_digits ds = dcoef a"
    by (simp_all add: ds_def nat_of_digits_def[of "''0''"] digit_val_def code_def)
  have e: "0 \<le> e" using False by (simp add: e_def)
  have "format_f a = (if dsign a then CHR ''-'' # ds @ replicate (nat e) CHR ''0''
      else ds @ replicate (nat e) CHR ''0'')"
    using False e by (simp add: format_f_def Let_def ds_def e_def nat_add_distrib)
  moreover have "nat_of_digits (ds @ replicate (nat e) CHR ''0'') = dcoef a * 10 ^ nat e"
    by (simp add: nat_of_digits_append ds)
  ultimately have "decimal_of_string (format_f a) = Some (mk_dec (dsign a) (dcoef a * 10 ^ nat e) 0)"
    using decimal_of_digits[of "ds @ replicate (nat e) CHR ''0''" "dsign a"] ds by simp
  moreover have "dec_val (mk_dec (dsign a) (dcoef a * 10 ^ nat e) 0) = dec_val a"
    using e False by (auto simp: dec_val_def signed_def e_def power_int_def)
  ultimately show ?thesis by blast
qed

end
