(* ===== verification/Formulas.thy ===== *)
theory Formulas
  imports PyDecimal
begin

text \<open>
  \<open>reason/accounting_formulas.py\<close>: the fixed table of flat formulas and their evaluation in
  28-digit decimals. The lemmas show that the table is well formed, that evaluation raises on
  exactly the conditions the code names, and how far a result can be from the exact quotient.
\<close>

section \<open>Formulas\<close>

record formula =
  fm_metric :: string
  fm_operands :: "string list"
  fm_numerator :: "int list"
  fm_denominator :: "int list"
  fm_scale :: int
  fm_unit :: string

definition mk_formula ::
  "string \<Rightarrow> string list \<Rightarrow> int list \<Rightarrow> int list \<Rightarrow> int \<Rightarrow> string \<Rightarrow> formula" where
  "mk_formula m ops nu de sc u =
     \<lparr>fm_metric = m, fm_operands = ops, fm_numerator = nu, fm_denominator = de, fm_scale = sc, fm_unit = u\<rparr>"

text \<open>The operands that are totals of costs or debts and cannot be below zero.\<close>

definition component_names :: "string list" where
  "component_names =
     [''all_loan_principal_due_crore'', ''all_loan_interest_due_crore'', ''additional_lease_service_crore'',
      ''operating_expenses_crore'', ''pnl_total_expenses_crore'', ''finance_cost_crore'',
      ''da_crore'', ''term_interest_due_crore'', ''principal_due_crore'']"

definition nonnegative_component :: "string \<Rightarrow> bool" where
  "nonnegative_component name = (contains ''borrowings'' name \<or> name \<in> set component_names)"

definition weighted :: "int list \<Rightarrow> dec list \<Rightarrow> dec" where
  "weighted cs vs = dec_sum prec28 (map2 (\<lambda>v c. dec_mul prec28 v (dec_of_int c)) vs cs)"

definition evaluate :: "formula \<Rightarrow> dec list \<Rightarrow> dec res" where
  "evaluate f values =
     raise_if (length values \<noteq> length (fm_operands f)) (ValueError ''invalid calculation operands'')
    (raise_if (list_ex (\<lambda>(name, v). dec_neg v \<and> nonnegative_component name) (zip (fm_operands f) values))
       (ValueError ''negative calculation component'')
    (let top = weighted (fm_numerator f) values;
         bottom = (if fm_denominator f \<noteq> [] then weighted (fm_denominator f) values else dec_of_int 1)
     in raise_if (dec_nonpos bottom) (ValueError ''nonpositive calculation denominator'')
          (Inr (dec_mul prec28 (dec_div prec28 top bottom) (dec_of_int (fm_scale f))))))"

section \<open>The table\<close>

definition dscr_and_debt_formulas :: "(string, formula) dict" where
  "dscr_and_debt_formulas =
    [
     (''dscr_noi_operating_components_total_v1'', mk_formula ''dscr''
        [''operating_revenue_crore'', ''operating_expenses_crore'', ''debt_service_crore'']
        [1, -1, 0] [0, 0, 1] 1 ''x''),
     (''dscr_noi_operating_components_schedule_v1'', mk_formula ''dscr''
        [''operating_revenue_crore'', ''operating_expenses_crore'', ''all_loan_principal_due_crore'', ''all_loan_interest_due_crore'', ''additional_lease_service_crore'']
        [1, -1, 0, 0, 0] [0, 0, 1, 1, 1] 1 ''x''),
     (''dscr_noi_pnl_components_total_v1'', mk_formula ''dscr''
        [''operating_revenue_crore'', ''pnl_total_expenses_crore'', ''finance_cost_crore'', ''debt_service_crore'']
        [1, -1, 1, 0] [0, 0, 0, 1] 1 ''x''),
     (''dscr_noi_pnl_components_schedule_v1'', mk_formula ''dscr''
        [''operating_revenue_crore'', ''pnl_total_expenses_crore'', ''finance_cost_crore'', ''all_loan_principal_due_crore'', ''all_loan_interest_due_crore'', ''additional_lease_service_crore'']
        [1, -1, 1, 0, 0, 0] [0, 0, 0, 1, 1, 1] 1 ''x''),
     (''dscr_noi_reported_total_v1'', mk_formula ''dscr''
        [''noi_crore'', ''debt_service_crore'']
        [1, 0] [0, 1] 1 ''x''),
     (''dscr_noi_reported_schedule_v1'', mk_formula ''dscr''
        [''noi_crore'', ''all_loan_principal_due_crore'', ''all_loan_interest_due_crore'', ''additional_lease_service_crore'']
        [1, 0, 0, 0] [0, 1, 1, 1] 1 ''x''),
     (''debt_ebitda_borrowings_v1'', mk_formula ''debt_to_ebitda''
        [''long_term_borrowings_crore'', ''short_term_borrowings_crore'', ''ebitda_crore'']
        [1, 1, 0] [0, 0, 1] 1 ''x''),
     (''dscr_cfads_all_obligations_v1'', mk_formula ''dscr''
        [''cfads_crore'', ''all_loan_principal_due_crore'', ''all_loan_interest_due_crore'', ''additional_lease_service_crore'']
        [1, 0, 0, 0] [0, 1, 1, 1] 1 ''x''),
     (''dscr_cash_accrual_pbt_v1'', mk_formula ''dscr''
        [''pbt_crore'', ''net_tax_crore'', ''da_crore'', ''term_interest_due_crore'', ''principal_due_crore'']
        [1, -1, 1, 1, 0] [0, 0, 0, 1, 1] 1 ''x'')
    ]"

definition leverage_and_profit_formulas :: "(string, formula) dict" where
  "leverage_and_profit_formulas =
    [
     (''debt_equity_llp_borrowings_v1'', mk_formula ''debt_to_equity''
        [''long_term_borrowings_crore'', ''short_term_borrowings_crore'', ''partners_contribution_crore'', ''partners_current_account_crore'']
        [1, 1, 0, 0] [0, 0, 1, 1] 1 ''x''),
     (''debt_equity_borrowings_v1'', mk_formula ''debt_to_equity''
        [''long_term_borrowings_crore'', ''short_term_borrowings_crore'', ''total_equity_crore'']
        [1, 1, 0] [0, 0, 1] 1 ''x''),
     (''debt_ebitda_borrowings_pbt_v1'', mk_formula ''debt_to_ebitda''
        [''long_term_borrowings_crore'', ''short_term_borrowings_crore'', ''pbt_crore'', ''finance_cost_crore'', ''da_crore'']
        [1, 1, 0, 0, 0] [0, 0, 1, 1, 1] 1 ''x''),
     (''ebitda_margin_v1'', mk_formula ''ebitda_margin_pct''
        [''ebitda_crore'', ''annual_revenue_crore'']
        [1, 0] [0, 1] 100 ''%''),
     (''dscr_cfads_v1'', mk_formula ''dscr''
        [''cfads_crore'', ''debt_service_crore'']
        [1, 0] [0, 1] 1 ''x''),
     (''debt_equity_v1'', mk_formula ''debt_to_equity''
        [''total_debt_crore'', ''total_equity_crore'']
        [1, 0] [0, 1] 1 ''x''),
     (''debt_ebitda_v1'', mk_formula ''debt_to_ebitda''
        [''total_debt_crore'', ''ebitda_crore'']
        [1, 0] [0, 1] 1 ''x''),
     (''pat_pbt_net_tax_v1'', mk_formula ''pat_crore''
        [''pbt_crore'', ''net_tax_crore'']
        [1, -1] [] 1 ''INR crore''),
     (''ebitda_pbt_finance_da_v1'', mk_formula ''ebitda_crore''
        [''pbt_crore'', ''finance_cost_crore'', ''da_crore'']
        [1, 1, 1] [] 1 ''INR crore''),
     (''ebitda_margin_pbt_finance_da_v1'', mk_formula ''ebitda_margin_pct''
        [''pbt_crore'', ''finance_cost_crore'', ''da_crore'', ''annual_revenue_crore'']
        [1, 1, 1, 0] [0, 0, 0, 1] 100 ''%''),
     (''debt_ebitda_pbt_finance_da_v1'', mk_formula ''debt_to_ebitda''
        [''total_debt_crore'', ''pbt_crore'', ''finance_cost_crore'', ''da_crore'']
        [1, 0, 0, 0] [0, 1, 1, 1] 1 ''x''),
     (''dscr_cfads_schedule_v1'', mk_formula ''dscr''
        [''cfads_crore'', ''term_interest_due_crore'', ''principal_due_crore'']
        [1, 0, 0] [0, 1, 1] 1 ''x''),
     (''dscr_cash_accrual_v1'', mk_formula ''dscr''
        [''pat_crore'', ''da_crore'', ''term_interest_due_crore'', ''principal_due_crore'']
        [1, 1, 1, 0] [0, 0, 1, 1] 1 ''x'')
    ]"

definition FORMULAS :: "(string, formula) dict" where
  "FORMULAS = dscr_and_debt_formulas @ leverage_and_profit_formulas"

section \<open>Well-formedness\<close>

text \<open>
  What the code relies on when it zips operands with coefficients, indexes the denominator
  by operand and builds a receipt of two to six operands.
\<close>

definition formula_ok :: "formula \<Rightarrow> bool" where
  "formula_ok f =
     (2 \<le> length (fm_operands f) \<and> length (fm_operands f) \<le> 6 \<and> distinct (fm_operands f)
      \<and> length (fm_numerator f) = length (fm_operands f)
      \<and> (fm_denominator f = [] \<or> length (fm_denominator f) = length (fm_operands f))
      \<and> list_all (\<lambda>c. c \<in> {-1, 0, 1}) (fm_numerator f)
      \<and> list_all (\<lambda>c. c \<in> {0, 1}) (fm_denominator f)
      \<and> list_ex (\<lambda>c. c \<noteq> 0) (fm_numerator f)
      \<and> (fm_denominator f \<noteq> [] \<longrightarrow> list_ex (\<lambda>c. c \<noteq> 0) (fm_denominator f)
           \<and> list_all (\<lambda>(n, d). n \<noteq> 0 \<or> d \<noteq> 0) (zip (fm_numerator f) (fm_denominator f)))
      \<and> 0 < fm_scale f)"

lemma formulas_ok_all: "list_all (\<lambda>(k, f). formula_ok f) FORMULAS"
  by code_simp

lemma formulas_distinct: "distinct (map fst FORMULAS)"
  by code_simp

lemma formulas_ok: "map_of FORMULAS k = Some f \<Longrightarrow> formula_ok f"
  using formulas_ok_all by (auto simp: list_all_iff dest!: map_of_SomeD)

text \<open>
  Every debt-service ratio divides by something, is a plain multiple, and the ones built on
  operating income name neither EBITDA nor cash flow.
\<close>

definition dscr_formula_ok :: "string \<Rightarrow> formula \<Rightarrow> bool" where
  "dscr_formula_ok k f =
     (fm_metric f = ''dscr'' \<longrightarrow> fm_denominator f \<noteq> [] \<and> fm_scale f = 1 \<and> fm_unit f = ''x''
        \<and> (starts_with ''dscr_noi_'' k \<longrightarrow>
             ''ebitda_crore'' \<notin> set (fm_operands f) \<and> ''cfads_crore'' \<notin> set (fm_operands f)
             \<and> ''da_crore'' \<notin> set (fm_operands f) \<and> ''pat_crore'' \<notin> set (fm_operands f)))"

lemma dscr_formulas_ok_all: "list_all (\<lambda>(k, f). dscr_formula_ok k f) FORMULAS"
  by code_simp

lemma dscr_formulas_ok: "map_of FORMULAS k = Some f \<Longrightarrow> dscr_formula_ok k f"
  using dscr_formulas_ok_all by (auto simp: list_all_iff dest!: map_of_SomeD)

section \<open>Evaluation\<close>

lemma evaluate_Inr_iff:
  "evaluate f vs = Inr r \<longleftrightarrow>
     length vs = length (fm_operands f)
     \<and> (\<forall>(name, v) \<in> set (zip (fm_operands f) vs). nonnegative_component name \<longrightarrow> \<not> dec_neg v)
     \<and> (let bottom = (if fm_denominator f \<noteq> [] then weighted (fm_denominator f) vs else dec_of_int 1)
        in \<not> dec_nonpos bottom
           \<and> r = dec_mul prec28 (dec_div prec28 (weighted (fm_numerator f) vs) bottom) (dec_of_int (fm_scale f)))"
  by (auto simp: evaluate_def Let_def res_simps list_ex_iff)

lemma evaluate_error: "evaluate f vs = Inl e \<Longrightarrow> \<exists>m. e = ValueError m"
  by (auto simp: evaluate_def Let_def res_simps)

text \<open>
  Amounts of up to fifteen digits before and twelve after the point, as a conversion of a
  filed amount gives them: sums of up to nine of them are computed without rounding.
\<close>

definition plain_amount :: "dec \<Rightarrow> bool" where
  "plain_amount v = (-12 \<le> dexp v \<and> dexp v \<le> 0 \<and> dcoef v < 10 ^ 15 * 10 ^ nat (- dexp v))"

definition small_sum :: "nat \<Rightarrow> dec \<Rightarrow> bool" where
  "small_sum n v = (-12 \<le> dexp v \<and> dexp v \<le> 0 \<and> \<bar>dec_val v\<bar> \<le> of_nat n * 10 ^ 15)"

lemma plain_amount_val:
  assumes "plain_amount v"
  shows "\<bar>dec_val v\<bar> \<le> 10 ^ 15"
proof -
  have le: "dexp v \<le> 0" and c: "dcoef v < 10 ^ 15 * 10 ^ nat (- dexp v)"
    using assms by (auto simp: plain_amount_def)
  have "(10::rat) powi dexp v * 10 powi (- dexp v) = 10 powi (dexp v + (- dexp v))"
    by (simp only: powi10_add)
  then have inv: "(10::rat) powi dexp v * 10 ^ nat (- dexp v) = 1"
    using le by (simp add: power_int_def[of "10::rat" "- dexp v"])
  have "of_nat (dcoef v) \<le> (of_nat (10 ^ 15 * 10 ^ nat (- dexp v)) :: rat)"
    using c by (simp only: of_nat_le_iff less_imp_le)
  then have "of_nat (dcoef v) * 10 powi dexp v
      \<le> of_nat (10 ^ 15 * 10 ^ nat (- dexp v)) * (10::rat) powi dexp v"
    by (rule mult_right_mono) (simp add: less_imp_le)
  also have "\<dots> = 10 ^ 15 * ((10::rat) powi dexp v * 10 ^ nat (- dexp v))"
    by (simp only: of_nat_mult of_nat_power of_nat_numeral mult_ac)
  also have "\<dots> = 10 ^ 15" by (simp only: inv mult_1_right)
  finally show ?thesis by (simp only: dec_val_abs)
qed

lemma small_sum_signed:
  assumes "-12 \<le> e" "e \<le> dexp v" "\<bar>dec_val v\<bar> \<le> of_nat n * 10 ^ 15"
  shows "\<bar>signed_at e v\<bar> \<le> int n * 10 ^ 27"
proof -
  have "\<bar>dec_val v\<bar> = of_int \<bar>signed_at e v\<bar> * 10 powi e"
    using dec_val_at[OF assms(2)] by (simp add: abs_mult)
  moreover have "10 powi (-12) \<le> (10::rat) powi e"
    using assms(1) by (intro power_int_increasing) auto
  then have "of_int \<bar>signed_at e v\<bar> * 10 powi (-12) \<le> (of_int \<bar>signed_at e v\<bar> * 10 powi e :: rat)"
    by (intro mult_left_mono) simp_all
  ultimately have "of_int \<bar>signed_at e v\<bar> * 10 powi (-12) \<le> (of_nat n * 10 ^ 15 :: rat)"
    using assms(3) by linarith
  then have "of_int \<bar>signed_at e v\<bar> \<le> (of_nat n * 10 ^ 27 :: rat)"
    by (simp add: power_int_def field_simps)
  then have "(of_int \<bar>signed_at e v\<bar> :: rat) \<le> of_int (int n * 10 ^ 27)" by simp
  then show ?thesis by (simp only: of_int_le_iff)
qed

lemma dec_add_small:
  assumes a: "small_sum n a" and b: "small_sum 1 b" and n: "n < 9"
  shows "dec_val (dec_add prec28 a b) = dec_val a + dec_val b \<and> small_sum (Suc n) (dec_add prec28 a b)"
proof -
  define e where "e = min (dexp a) (dexp b)"
  define s where "s = signed_at e a + signed_at e b"
  have e: "-12 \<le> e" "e \<le> 0" "e \<le> dexp a" "e \<le> dexp b"
    using a b by (auto simp: small_sum_def e_def)
  have "\<bar>signed_at e a\<bar> \<le> int n * 10 ^ 27" "\<bar>signed_at e b\<bar> \<le> int 1 * 10 ^ 27"
    using small_sum_signed[of e a n] small_sum_signed[of e b 1] a b e
    unfolding small_sum_def by blast+
  moreover have "int n * 10 ^ 27 \<le> 8 * 10 ^ 27" using n by simp
  ultimately have "\<bar>s\<bar> \<le> 9 * 10 ^ 27" unfolding s_def by linarith
  then have "nat \<bar>s\<bar> < 10 ^ 28" by (simp add: nat_less_iff)
  then have "ndigits (nat \<bar>s\<bar>) \<le> prec28" by (simp add: ndigits_le_iff prec28_def)
  then have x: "dec_val (dec_add prec28 a b) = dec_val a + dec_val b"
      "dexp (dec_add prec28 a b) = e"
    using dec_add_exact[of a b prec28] by (auto simp: s_def e_def)
  have "\<bar>dec_val a + dec_val b\<bar> \<le> of_nat (Suc n) * 10 ^ 15"
    using a b by (simp add: small_sum_def algebra_simps abs_le_iff)
  with x e show ?thesis by (simp add: small_sum_def)
qed

lemma dec_sum_small:
  "small_sum n a \<Longrightarrow> \<forall>b \<in> set bs. small_sum 1 b \<Longrightarrow> n + length bs \<le> 9 \<Longrightarrow>
     dec_val (foldl (dec_add prec28) a bs) = dec_val a + sum_list (map dec_val bs)"
proof (induction bs arbitrary: a n)
  case (Cons b bs)
  then have "dec_val (dec_add prec28 a b) = dec_val a + dec_val b"
    "small_sum (Suc n) (dec_add prec28 a b)"
    using dec_add_small[of n a b] by auto
  with Cons.IH[of "Suc n" "dec_add prec28 a b"] Cons.prems show ?case by simp
qed simp

lemma dec_mul_unit:
  assumes v: "plain_amount v" and c: "c \<in> {-1, 0, 1}"
  shows "dec_val (dec_mul prec28 v (dec_of_int c)) = dec_val v * of_int c
    \<and> small_sum 1 (dec_mul prec28 v (dec_of_int c))"
proof -
  have "dcoef v < 10 ^ 15 * 10 ^ nat (- dexp v)" and e: "-12 \<le> dexp v" "dexp v \<le> 0"
    using v by (auto simp: plain_amount_def)
  moreover have "(10::nat) ^ nat (- dexp v) \<le> 10 ^ 12"
    using e by (intro power_increasing) auto
  then have "10 ^ 15 * (10::nat) ^ nat (- dexp v) \<le> 10 ^ 15 * 10 ^ 12" by (rule mult_left_mono) simp
  ultimately have "dcoef v < 10 ^ 28" by simp
  moreover have "dcoef (dec_of_int c) \<le> 1" using c by (auto simp: dec_of_int_def)
  ultimately have "dcoef v * dcoef (dec_of_int c) < 10 ^ 28"
    by (metis One_nat_def le_Suc_eq le_zero_eq mult.right_neutral mult_0_right zero_less_numeral zero_less_power)
  then have "ndigits (dcoef v * dcoef (dec_of_int c)) \<le> prec28"
    by (simp add: ndigits_le_iff prec28_def)
  from dec_mul_exact[OF this]
  have val: "dec_val (dec_mul prec28 v (dec_of_int c)) = dec_val v * of_int c"
    and "dexp (dec_mul prec28 v (dec_of_int c)) = dexp v + dexp (dec_of_int c)"
    by simp_all
  then have ex: "dexp (dec_mul prec28 v (dec_of_int c)) = dexp v"
    by (simp add: dec_of_int_def[of c])
  have "\<bar>dec_val v * of_int c\<bar> \<le> 10 ^ 15"
    using plain_amount_val[OF v] c by (auto simp: abs_mult)
  with val ex e show ?thesis by (simp add: small_sum_def)
qed

text \<open>The exact weighted sum.\<close>

definition exact_sum :: "int list \<Rightarrow> dec list \<Rightarrow> rat" where
  "exact_sum cs vs = sum_list (map2 (\<lambda>v c. dec_val v * of_int c) vs cs)"

lemma weighted_exact:
  assumes "list_all plain_amount vs" "list_all (\<lambda>c. c \<in> {-1, 0, 1}) cs" "length vs \<le> 6"
  shows "dec_val (weighted cs vs) = exact_sum cs vs"
proof -
  let ?ms = "map2 (\<lambda>v c. dec_mul prec28 v (dec_of_int c)) vs cs"
  have in_set: "v \<in> set vs \<and> c \<in> set cs" if "(v, c) \<in> set (zip vs cs)" for v c
    using that by (auto dest: set_zip_leftD set_zip_rightD)
  have unit: "dec_val (dec_mul prec28 v (dec_of_int c)) = dec_val v * of_int c
      \<and> small_sum 1 (dec_mul prec28 v (dec_of_int c))" if "(v, c) \<in> set (zip vs cs)" for v c
    using in_set[OF that] assms by (intro dec_mul_unit) (auto simp: list_all_iff)
  have "small_sum 0 (dec_of_int 0)" by (simp add: small_sum_def) (simp add: dec_of_int_def)
  moreover have "\<forall>b \<in> set ?ms. small_sum 1 b" using unit by auto
  ultimately have "dec_val (weighted cs vs) = sum_list (map dec_val ?ms)"
    unfolding weighted_def dec_sum_def using dec_sum_small[of 0 "dec_of_int 0" ?ms] assms(3) by simp
  also have "map dec_val ?ms = map2 (\<lambda>v c. dec_val v * of_int c) vs cs"
    using unit by auto
  finally show ?thesis by (simp add: exact_sum_def)
qed

lemma rounding_chain:
  fixes x d m s e :: rat
  assumes "\<bar>d - x\<bar> \<le> e * \<bar>x\<bar>" "\<bar>m - d * s\<bar> \<le> e / 2 * \<bar>d * s\<bar>" "0 \<le> e" "e \<le> 1"
  shows "\<bar>m - x * s\<bar> \<le> 2 * e * \<bar>x * s\<bar>"
proof -
  have d: "\<bar>d\<bar> \<le> 2 * \<bar>x\<bar>"
  proof -
    have "e * \<bar>x\<bar> \<le> 1 * \<bar>x\<bar>" using assms(4) by (intro mult_right_mono) auto
    with assms(1) show ?thesis by linarith
  qed
  have "\<bar>d * s - x * s\<bar> = \<bar>d - x\<bar> * \<bar>s\<bar>" by (simp add: left_diff_distrib flip: abs_mult)
  also have "\<dots> \<le> e * \<bar>x\<bar> * \<bar>s\<bar>" using assms(1) by (intro mult_right_mono) auto
  finally have a: "\<bar>d * s - x * s\<bar> \<le> e * \<bar>x * s\<bar>" by (simp add: abs_mult mult.assoc)
  have "e / 2 * \<bar>d * s\<bar> \<le> e / 2 * (2 * \<bar>x\<bar> * \<bar>s\<bar>)"
    unfolding abs_mult using d assms(3) by (intro mult_left_mono mult_right_mono) auto
  with assms(2) have "\<bar>m - d * s\<bar> \<le> e * \<bar>x * s\<bar>" by (simp add: abs_mult)
  with a have "\<bar>m - x * s\<bar> \<le> e * \<bar>x * s\<bar> + e * \<bar>x * s\<bar>" by linarith
  then show ?thesis by simp
qed

text \<open>
  The evaluated ratio of plain amounts differs from the exact one by at most two units in
  the 27th significant digit.
\<close>

lemma evaluate_accurate:
  assumes f: "map_of FORMULAS k = Some f" and v: "list_all plain_amount vs"
    and r: "evaluate f vs = Inr r"
  defines "bottom \<equiv> (if fm_denominator f = [] then 1 else exact_sum (fm_denominator f) vs)"
  shows "0 < bottom \<and>
    \<bar>dec_val r - exact_sum (fm_numerator f) vs / bottom * of_int (fm_scale f)\<bar>
      \<le> 2 * 10 powi (-27) * \<bar>exact_sum (fm_numerator f) vs / bottom * of_int (fm_scale f)\<bar>"
proof -
  define b where "b = (if fm_denominator f \<noteq> [] then weighted (fm_denominator f) vs else dec_of_int 1)"
  from formulas_ok[OF f] have ok: "formula_ok f" .
  from r have len: "length vs = length (fm_operands f)" and nb: "\<not> dec_nonpos b"
    and r_eq: "r = dec_mul prec28 (dec_div prec28 (weighted (fm_numerator f) vs) b) (dec_of_int (fm_scale f))"
    unfolding evaluate_Inr_iff Let_def b_def by blast+
  have l6: "length vs \<le> 6" and nu: "list_all (\<lambda>c. c \<in> {-1, 0, 1}) (fm_numerator f)"
    and de: "list_all (\<lambda>c. c \<in> {-1, 0, 1}) (fm_denominator f)"
    using ok len by (auto simp: formula_ok_def list_all_iff)
  have top: "dec_val (weighted (fm_numerator f) vs) = exact_sum (fm_numerator f) vs"
    by (rule weighted_exact[OF v nu l6])
  have bot: "dec_val b = bottom"
    using weighted_exact[OF v de l6] by (auto simp: b_def bottom_def)
  from nb have pos: "0 < bottom" by (simp add: dec_nonpos_iff bot)
  have "dcoef b \<noteq> 0"
  proof
    assume "dcoef b = 0"
    then have "dec_val b = 0" by (simp add: dec_val_def signed_def)
    with bot pos show False by simp
  qed
  then have "\<bar>dec_val (dec_div prec28 (weighted (fm_numerator f) vs) b) - exact_sum (fm_numerator f) vs / bottom\<bar>
      \<le> 10 powi (-27) * \<bar>exact_sum (fm_numerator f) vs / bottom\<bar>"
    using dec_div_relative[of prec28 b "weighted (fm_numerator f) vs"] by (simp add: prec28_def top bot)
  moreover have "\<bar>dec_val r - dec_val (dec_div prec28 (weighted (fm_numerator f) vs) b) * of_int (fm_scale f)\<bar>
      \<le> 10 powi (-27) / 2 * \<bar>dec_val (dec_div prec28 (weighted (fm_numerator f) vs) b) * of_int (fm_scale f)\<bar>"
    using dec_mul_relative[of prec28 "dec_div prec28 (weighted (fm_numerator f) vs) b" "dec_of_int (fm_scale f)"]
    by (simp add: r_eq prec28_def)
  ultimately have "\<bar>dec_val r - exact_sum (fm_numerator f) vs / bottom * of_int (fm_scale f)\<bar>
      \<le> 2 * 10 powi (-27) * \<bar>exact_sum (fm_numerator f) vs / bottom * of_int (fm_scale f)\<bar>"
    by (rule rounding_chain) (simp_all add: power_int_def power_le_one)
  with pos show ?thesis by simp
qed

end
