(* ===== verification/Calculations.thy ===== *)
theory Calculations
  imports Schema Formulas
begin

text \<open>
  \<open>reason/calculations.py\<close>, \<open>reason/debt_service.py\<close> and \<open>reason/dscr.py\<close>: a versioned formula
  over cited operands, the reconciliation of disclosed annual debt service, and the staged
  assessment of the debt-service coverage ratio. The three take the extraction of an operand
  as a callable; the locale \<open>operand_source\<close> is that interface.
\<close>

abbreviation insufficient :: "string \<Rightarrow> 'a res" where
  "insufficient c \<equiv> Inl (EvidenceInsufficient c)"

abbreviation missing :: exc where
  "missing \<equiv> EvidenceInsufficient ''evidence_metric_missing''"

definition decimal_res :: "string \<Rightarrow> dec res" where
  "decimal_res s = (case decimal_of_string s of None \<Rightarrow> Inl InvalidOperation | Some d \<Rightarrow> Inr d)"

section \<open>One formula\<close>

definition trusted_receipt :: "evidence \<Rightarrow> bool" where
  "trusted_receipt r =
     (ev_document_type r = ''audited_financials''
      \<or> (ev_document_type r = ''financial_information_report''
         \<and> ev_provider r = Some ''probe42'' \<and> ev_approval r \<noteq> None \<and> ev_approval r \<noteq> Some []))"

definition operand_usable :: "string \<Rightarrow> figure \<Rightarrow> bool" where
  "operand_usable policy_hash f =
     (case fg_evidence f of None \<Rightarrow> False
      | Some r \<Rightarrow> ev_policy_hash r = policy_hash \<and> fg_calculation f = None
          \<and> fg_unit f = Some ''INR crore'' \<and> trusted_receipt r
          \<and> ev_basis r \<in> {Some ''standalone'', Some ''consolidated''}
          \<and> ev_period r \<noteq> None \<and> ev_period r \<noteq> Some [])"

definition receipt_context :: "figure \<Rightarrow> string \<times> string option \<times> string option" where
  "receipt_context f =
     (case fg_evidence f of None \<Rightarrow> ([], None, None) | Some r \<Rightarrow> (ev_entity_hash r, ev_period r, ev_basis r))"

definition calculated_figure :: "string \<Rightarrow> formula \<Rightarrow> string \<Rightarrow> figure list \<Rightarrow> dec \<Rightarrow> figure" where
  "calculated_figure formula_id f policy_hash operands v =
     Figure (fm_metric f) (format_f v) (Some (fm_unit f)) (fg_period (hd operands))
       (fg_citation (hd operands))
       (map_option (\<lambda>r. r\<lparr>ev_metric := fm_metric f, ev_source_value := [],
          ev_source_unit := ''calculation'', ev_factor := ''1''\<rparr>) (fg_evidence (hd operands)))
       (Some (CalcReceipt formula_id policy_hash operands))"

definition calculate :: "string \<Rightarrow> (string \<Rightarrow> figure res) \<Rightarrow> string \<Rightarrow> figure res" where
  "calculate formula_id extract policy_hash =
     (case map_of FORMULAS formula_id of
        None \<Rightarrow> insufficient ''metric_not_allowed''
      | Some f \<Rightarrow>
          res_bind (res_map extract (fm_operands f)) (\<lambda>operands.
          raise_if (list_ex (\<lambda>g. \<not> operand_usable policy_hash g) operands
                    \<or> length (uniq (map receipt_context operands)) \<noteq> 1)
            (EvidenceInsufficient ''evidence_context_conflict'')
          (res_bind (res_map (\<lambda>g. decimal_res (fg_value g)) operands) (\<lambda>numbers.
          (case evaluate f numbers of
             Inl _ \<Rightarrow> insufficient ''evidence_value_ambiguous''
           | Inr v \<Rightarrow> Inr (calculated_figure formula_id f policy_hash operands v))))))"

section \<open>Annual debt service\<close>

definition schedule_names :: "string list" where
  "schedule_names =
     [''all_loan_principal_due_crore'', ''all_loan_interest_due_crore'', ''additional_lease_service_crore'']"

definition term_names :: "string list" where
  "term_names = [''debt_service_crore'', ''principal_due_crore'', ''term_interest_due_crore'']"

text \<open>The figures that are disclosed; an operand that is merely missing is skipped.\<close>

fun disclosed :: "(string \<Rightarrow> figure res) \<Rightarrow> string list \<Rightarrow> figure list res" where
  "disclosed extract [] = Inr []"
| "disclosed extract (n # ns) =
     (case extract n of
        Inr g \<Rightarrow> res_bind (disclosed extract ns) (\<lambda>gs. Inr (g # gs))
      | Inl e \<Rightarrow> if e = missing then disclosed extract ns else Inl e)"

definition service_context :: "figure \<Rightarrow> (string \<times> string option \<times> string option \<times> string) option" where
  "service_context g =
     map_option (\<lambda>r. (ev_entity_hash r, ev_period r, ev_basis r, ev_policy_hash r)) (fg_evidence g)"

definition one_service_context :: "figure list \<Rightarrow> bool" where
  "one_service_context gs =
     (list_all (\<lambda>g. fg_evidence g \<noteq> None) gs \<and> length (uniq (map service_context gs)) = 1)"

text \<open>All three pieces of the obligation schedule, against a disclosed total if there is one.\<close>

definition reconcile_schedule :: "(string \<Rightarrow> figure res) \<Rightarrow> figure list \<Rightarrow> unit res" where
  "reconcile_schedule extract parts =
     raise_if (length parts \<noteq> 3) missing
    (raise_if (\<not> one_service_context parts) (EvidenceInsufficient ''evidence_context_conflict'')
    (res_bind (res_map (\<lambda>g. decimal_res (fg_value g)) parts) (\<lambda>amounts.
     raise_if (list_ex dec_neg amounts \<or> dec_nonpos (dec_sum prec28 amounts))
       (EvidenceInsufficient ''evidence_value_ambiguous'')
    (case extract ''debt_service_crore'' of
       Inl e \<Rightarrow> if e = missing then Inr () else Inl e
     | Inr ttl \<Rightarrow>
         raise_if (fg_evidence ttl = None \<or> service_context ttl \<noteq> service_context (hd parts))
           (EvidenceInsufficient ''evidence_context_conflict'')
        (res_bind (decimal_res (fg_value ttl)) (\<lambda>t.
         raise_if (\<not> dec_eq t (dec_sum prec28 amounts)) (EvidenceInsufficient ''evidence_conflicting_values'')
           (Inr ())))))))"

definition reconcile_term :: "figure list \<Rightarrow> unit res" where
  "reconcile_term vals =
     raise_if (\<not> one_service_context vals) (EvidenceInsufficient ''evidence_context_conflict'')
    (res_bind (res_map (\<lambda>g. decimal_res (fg_value g)) vals) (\<lambda>ds.
     let ttl = ds ! 0; principal = ds ! 1; interest = ds ! 2 in
     raise_if (dec_nonpos ttl \<or> dec_neg principal \<or> dec_neg interest
               \<or> \<not> dec_eq ttl (dec_add prec28 principal interest))
       (EvidenceInsufficient ''evidence_conflicting_values'') (Inr ())))"

definition reconcile_annual_service :: "(string \<Rightarrow> figure res) \<Rightarrow> unit res" where
  "reconcile_annual_service extract =
     res_bind (disclosed extract schedule_names) (\<lambda>parts.
     if parts \<noteq> [] then reconcile_schedule extract parts
     else res_bind (disclosed extract term_names) (\<lambda>vals.
       if length vals < length term_names then Inr () else reconcile_term vals))"

section \<open>The staged coverage ratio\<close>

type_synonym figure_cache = "(string, figure res) dict"

text \<open>\<open>extract\<close> of \<open>calculate_dscr\<close>: the first outcome of an operand is kept, also an error.\<close>

definition cached :: "(string \<Rightarrow> figure res) \<Rightarrow> string \<Rightarrow> figure_cache \<Rightarrow> figure res \<times> figure_cache" where
  "cached direct n cache =
     (case map_of cache n of
        Some r \<Rightarrow> (r, cache)
      | None \<Rightarrow>
          (case direct n of
             Inr g \<Rightarrow> (Inr g, AList.update n (Inr g) cache)
           | Inl (EvidenceInsufficient c) \<Rightarrow>
               (insufficient c, AList.update n (insufficient c) cache)
           | Inl e \<Rightarrow> (Inl e, cache)))"

definition via_cache :: "(string \<Rightarrow> figure res) \<Rightarrow> figure_cache \<Rightarrow> string \<Rightarrow> figure res" where
  "via_cache direct cache n = fst (cached direct n cache)"

fun stage :: "(string \<Rightarrow> figure res) \<Rightarrow> string list \<Rightarrow> figure_cache \<Rightarrow> figure_cache res" where
  "stage direct [] cache = Inr cache"
| "stage direct (n # ns) cache =
     (case cached direct n cache of
        (Inr g, cache') \<Rightarrow> stage direct ns cache'
      | (Inl (EvidenceInsufficient c), cache') \<Rightarrow>
          if c = ''evidence_scope_violation'' then insufficient c else stage direct ns cache'
      | (Inl e, cache') \<Rightarrow> Inl e)"

text \<open>The operands of one side whose coefficient is not zero; \<open>zip(..., strict=True)\<close>.\<close>

definition used_names :: "string list \<Rightarrow> int list \<Rightarrow> string list" where
  "used_names ns cs = map fst (filter (\<lambda>(n, c). c \<noteq> 0) (zip ns cs))"

definition stage_formula ::
  "(string \<Rightarrow> figure res) \<Rightarrow> (formula \<Rightarrow> int list) \<Rightarrow> string \<Rightarrow> figure_cache \<Rightarrow> figure_cache res" where
  "stage_formula direct side formula_id cache =
     (case map_of FORMULAS formula_id of
        None \<Rightarrow> Inl (KeyError formula_id)
      | Some f \<Rightarrow>
          res_bind (stage direct (used_names (fm_operands f) (side f)) cache) (\<lambda>cache'.
          raise_if (length (fm_operands f) \<noteq> length (side f))
            (ValueError ''zip() arguments have different lengths'') (Inr cache')))"

fun stage_all ::
  "(string \<Rightarrow> figure res) \<Rightarrow> (formula \<Rightarrow> int list) \<Rightarrow> string list \<Rightarrow> figure_cache \<Rightarrow> figure_cache res" where
  "stage_all direct side [] cache = Inr cache"
| "stage_all direct side (i # ids) cache =
     res_bind (stage_formula direct side i cache) (stage_all direct side ids)"

text \<open>The first cached error that is more than an absence.\<close>

fun blocking :: "figure_cache \<Rightarrow> exc option" where
  "blocking [] = None"
| "blocking ((n, Inr g) # c) = blocking c"
| "blocking ((n, Inl e) # c) = (if e = missing then blocking c else Some e)"

definition cache_value :: "figure_cache \<Rightarrow> string \<Rightarrow> figure option res" where
  "cache_value cache n =
     (case map_of cache n of None \<Rightarrow> Inl (KeyError n) | Some (Inr g) \<Rightarrow> Inr (Some g) | Some (Inl _) \<Rightarrow> Inr None)"

text \<open>\<open>any(Decimal(f.value) < 0 for f in found)\<close>\<close>

fun any_negative :: "figure list \<Rightarrow> bool res" where
  "any_negative [] = Inr False"
| "any_negative (g # gs) =
     res_bind (decimal_res (fg_value g)) (\<lambda>d. if dec_neg d then Inr True else any_negative gs)"

definition check_denominator :: "figure_cache \<Rightarrow> string \<Rightarrow> unit res" where
  "check_denominator cache formula_id =
     (case map_of FORMULAS formula_id of
        None \<Rightarrow> Inl (KeyError formula_id)
      | Some f \<Rightarrow>
          let names = used_names (fm_operands f) (fm_denominator f) in
          res_bind (res_map (cache_value cache) names) (\<lambda>vals.
          let found = List.map_filter id vals in
          res_bind (any_negative found) (\<lambda>neg.
          if neg then insufficient ''evidence_value_ambiguous''
          else if length found < length names then Inr ()
          else res_bind (res_map (\<lambda>g. decimal_res (fg_value g)) found) (\<lambda>ds.
            raise_if (dec_nonpos (dec_sum prec28 ds)) (EvidenceInsufficient ''evidence_value_ambiguous'')
              (Inr ())))))"

fun check_denominators :: "figure_cache \<Rightarrow> string list \<Rightarrow> unit res" where
  "check_denominators cache [] = Inr ()"
| "check_denominators cache (i # ids) =
     res_bind (check_denominator cache i) (\<lambda>_. check_denominators cache ids)"

text \<open>The results of the formulas whose operands are all there.\<close>

fun calculations_of :: "(string \<Rightarrow> figure res) \<Rightarrow> string \<Rightarrow> string list \<Rightarrow> figure list res" where
  "calculations_of extract policy_hash [] = Inr []"
| "calculations_of extract policy_hash (i # ids) =
     (case calculate i extract policy_hash of
        Inr g \<Rightarrow> res_bind (calculations_of extract policy_hash ids) (\<lambda>gs. Inr (g # gs))
      | Inl e \<Rightarrow> if e = missing then calculations_of extract policy_hash ids else Inl e)"

definition agree :: "dec list \<Rightarrow> bool" where   \<comment> \<open>\<open>len({...}) == 1\<close>: decimals hash by value\<close>
  "agree ds = (ds \<noteq> [] \<and> list_all (\<lambda>d. dec_eq d (hd ds)) ds)"

definition calculate_dscr :: "string list option \<Rightarrow> (string \<Rightarrow> figure res) \<Rightarrow> string \<Rightarrow> figure res" where
  "calculate_dscr choices direct policy_hash =
     (case choices of
        None \<Rightarrow> insufficient ''metric_not_allowed''
      | Some ids \<Rightarrow>
          res_bind (stage_all direct fm_numerator ids []) (\<lambda>cache1.
          res_bind (stage_all direct fm_denominator ids cache1) (\<lambda>cache.
          (case blocking cache of
             Some e \<Rightarrow> Inl e
           | None \<Rightarrow>
               let extract = via_cache direct cache in
               res_bind (reconcile_annual_service extract) (\<lambda>_.
               res_bind (check_denominators cache ids) (\<lambda>_.
               res_bind (case extract ''dscr'' of
                           Inr _ \<Rightarrow> Inr () | Inl e \<Rightarrow> if e = missing then Inr () else Inl e) (\<lambda>_.
               res_bind (calculations_of extract policy_hash ids) (\<lambda>results.
               if results \<noteq> [] then
                 res_bind (res_map (\<lambda>g. decimal_res (fg_value g)) results) (\<lambda>ds.
                 raise_if (\<not> agree ds) (EvidenceInsufficient ''evidence_context_conflict'')
                   (Inr (hd results)))
               else Inl missing))))))))"

section \<open>What a calculation stands on\<close>

lemma decimal_res_Inr_iff [res_simps]: "decimal_res s = Inr d \<longleftrightarrow> decimal_of_string s = Some d"
  by (auto simp: decimal_res_def split: option.splits)

lemma calculate_sound:
  assumes "calculate i ex ph = Inr g"
  shows "\<exists>f ops nums v. map_of FORMULAS i = Some f
    \<and> list_all2 (\<lambda>n o'. ex n = Inr o') (fm_operands f) ops
    \<and> list_all (operand_usable ph) ops
    \<and> (\<forall>o' \<in> set ops. receipt_context o' = receipt_context (hd ops))
    \<and> list_all2 (\<lambda>o' d. decimal_of_string (fg_value o') = Some d) ops nums
    \<and> evaluate f nums = Inr v \<and> g = calculated_figure i f ph ops v"
proof -
  from assms obtain f ops nums where f: "map_of FORMULAS i = Some f"
    and ops: "res_map ex (fm_operands f) = Inr ops"
    and ok: "\<not> list_ex (\<lambda>g. \<not> operand_usable ph g) ops" "length (uniq (map receipt_context ops)) = 1"
    and nums: "res_map (\<lambda>g. decimal_res (fg_value g)) ops = Inr nums"
    and v: "(case evaluate f nums of Inl _ \<Rightarrow> insufficient ''evidence_value_ambiguous''
      | Inr v \<Rightarrow> Inr (calculated_figure i f ph ops v)) = Inr g"
    unfolding calculate_def by (auto simp: res_bind_Inr_iff raise_if_Inr_iff split: option.splits)
  from v obtain w where "evaluate f nums = Inr w" "g = calculated_figure i f ph ops w"
    by (auto split: sum.splits)
  moreover have "list_all (operand_usable ph) ops"
    using ok(1) by (auto simp: list_ex_iff list_all_iff)
  moreover have "\<forall>o' \<in> set ops. receipt_context o' = receipt_context (hd ops)"
    using ok(2)[unfolded length_uniq_1_iff] by (cases ops) auto
  ultimately show ?thesis using f ops nums by (auto simp: res_simps)
qed

lemma calculate_missing:
  assumes "calculate i ex ph = Inl missing"
  shows "\<exists>f n. map_of FORMULAS i = Some f \<and> n \<in> set (fm_operands f) \<and> ex n = Inl missing"
proof -
  from assms obtain f where f: "map_of FORMULAS i = Some f"
    by (auto simp: calculate_def split: option.splits)
  have "res_map ex (fm_operands f) = Inl missing"
    using assms f
  proof (cases "res_map ex (fm_operands f)")
    case (Inl e)
    with assms f show ?thesis by (simp add: calculate_def)
  next
    case (Inr ops)
    have False
    proof (cases "res_map (\<lambda>g. decimal_res (fg_value g)) ops")
      case (Inl e)
      then have "e = InvalidOperation"
        by (auto simp: decimal_res_def elim!: res_map_Inl_obtain split: option.splits)
      with Inl Inr assms f show False by (simp add: calculate_def raise_if_def split: if_splits)
    next
      case (Inr nums)
      with \<open>res_map ex (fm_operands f) = Inr ops\<close> assms f show False
        by (cases "evaluate f nums") (auto simp: calculate_def raise_if_def split: if_splits)
    qed
    then show ?thesis ..
  qed
  then show ?thesis using f by (auto elim: res_map_Inl_obtain)
qed

text \<open>Every formula of the table has two to six operands, as the receipt demands.\<close>

lemma calculate_operands_bounds:
  assumes "calculate i ex ph = Inr g"
  shows "\<exists>ops. fg_calculation g = Some (CalcReceipt i ph ops) \<and> 2 \<le> length ops \<and> length ops \<le> 6"
proof -
  from calculate_sound[OF assms] obtain f ops v where "map_of FORMULAS i = Some f"
    "length ops = length (fm_operands f)" "g = calculated_figure i f ph ops v"
    by (auto dest: list_all2_lengthD)
  with formulas_ok[of i f] show ?thesis by (simp add: formula_ok_def calculated_figure_def)
qed

lemma res_map_fun_eq: "\<forall>x \<in> set xs. f x = g x \<Longrightarrow> res_map f xs = res_map g xs"
  by (rule res_map_cong) auto

section \<open>Debt service\<close>

lemma disclosed_Inr:
  "disclosed ex ns = Inr gs \<Longrightarrow>
     gs = List.map_filter (\<lambda>n. case ex n of Inr g \<Rightarrow> Some g | Inl _ \<Rightarrow> None) ns
     \<and> (\<forall>n \<in> set ns. \<forall>e. ex n = Inl e \<longrightarrow> e = missing)"
proof (induction ns arbitrary: gs)
  case (Cons n ns)
  then show ?case
    by (cases "ex n") (auto simp: res_bind_Inr_iff map_filter_simps split: if_splits)
qed (simp add: map_filter_simps)

lemma disclosed_all: "\<forall>n \<in> set ns. ex n = Inr (h n) \<Longrightarrow> disclosed ex ns = Inr (map h ns)"
  by (induction ns) auto

text \<open>A schedule that is disclosed in part is never completed or ignored.\<close>

lemma partial_schedule_blocks:
  assumes "\<forall>n \<in> set schedule_names. \<forall>e. ex n = Inl e \<longrightarrow> e = missing"
    and "n \<in> set schedule_names" "ex n = Inr g" and "m \<in> set schedule_names" "ex m = Inl missing"
  shows "reconcile_annual_service ex = Inl missing"
proof -
  have ttl: "(\<forall>n \<in> set ns. \<forall>e. ex n = Inl e \<longrightarrow> e = missing) \<Longrightarrow> \<exists>gs. disclosed ex ns = Inr gs" for ns
    by (induction ns) (auto split: sum.splits)
  then obtain gs where gs: "disclosed ex schedule_names = Inr gs" using assms(1) by blast
  from disclosed_Inr[OF gs]
  have eq: "gs = List.map_filter (\<lambda>n. case ex n of Inr g \<Rightarrow> Some g | Inl _ \<Rightarrow> None) schedule_names" by blast
  from assms(2,3) have "g \<in> set gs"
    unfolding eq List.map_filter_def by force
  then have "gs \<noteq> []" by auto
  moreover have "length gs < 3"
  proof -
    have len: "length (List.map_filter p ns) \<le> length ns" for p :: "string \<Rightarrow> figure option" and ns
      by (induction ns) (auto simp: map_filter_simps split: option.splits)
    have lt: "length (List.map_filter p ns) < length ns" if "m \<in> set ns" "p m = None"
      for p :: "string \<Rightarrow> figure option" and m ns
      using that
    proof (induction ns)
      case (Cons a ns)
      then show ?case
        using len[of p ns] by (auto simp: map_filter_simps split: option.splits)
    qed simp
    show ?thesis
      using lt[OF assms(4), of "\<lambda>n. case ex n of Inr g \<Rightarrow> Some g | Inl _ \<Rightarrow> None"] assms(5)
      by (simp add: eq schedule_names_def)
  qed
  ultimately show ?thesis
    by (simp add: reconcile_annual_service_def gs reconcile_schedule_def)
qed

text \<open>An accepted complete schedule adds up to the disclosed total.\<close>

lemma reconciled_schedule_total:
  assumes r: "reconcile_annual_service ex = Inr ()"
    and d: "\<forall>n \<in> set schedule_names. ex n = Inr (h n)" and t: "ex ''debt_service_crore'' = Inr ttl"
  shows "\<exists>amounts t. list_all2 (\<lambda>n a. decimal_of_string (fg_value (h n)) = Some a) schedule_names amounts
    \<and> list_all (\<lambda>a. \<not> dec_neg a) amounts \<and> decimal_of_string (fg_value ttl) = Some t
    \<and> dec_eq t (dec_sum prec28 amounts) \<and> \<not> dec_nonpos t
    \<and> service_context ttl = service_context (h ''all_loan_principal_due_crore'')"
proof -
  have "disclosed ex schedule_names = Inr (map h schedule_names)"
    using d by (rule disclosed_all)
  then have "reconcile_schedule ex (map h schedule_names) = Inr ()"
    using r by (simp add: reconcile_annual_service_def schedule_names_def)
  then obtain amounts t' where a: "res_map (\<lambda>g. decimal_res (fg_value g)) (map h schedule_names) = Inr amounts"
    and n: "\<not> list_ex dec_neg amounts" "\<not> dec_nonpos (dec_sum prec28 amounts)"
    and c: "service_context ttl = service_context (hd (map h schedule_names))"
    and t': "decimal_of_string (fg_value ttl) = Some t'" "dec_eq t' (dec_sum prec28 amounts)"
    unfolding reconcile_schedule_def using t by (auto simp: res_simps)
  moreover have "\<not> dec_nonpos t'"
    using n(2) t'(2) by (simp add: dec_nonpos_iff dec_eq_iff)
  moreover have "list_all2 (\<lambda>n a. decimal_of_string (fg_value (h n)) = Some a) schedule_names amounts"
    using a by (simp add: res_map_map res_simps)
  ultimately show ?thesis
    by (intro exI[of _ amounts] exI[of _ t']) (auto simp: list_ex_iff list_all_iff schedule_names_def)
qed

section \<open>The staged ratio\<close>

definition cache_ok :: "(string \<Rightarrow> figure res) \<Rightarrow> figure_cache \<Rightarrow> bool" where
  "cache_ok direct cache = (\<forall>n r. map_of cache n = Some r \<longrightarrow> r = direct n)"

lemma via_cache_direct: "cache_ok direct cache \<Longrightarrow> via_cache direct cache n = direct n"
  by (auto simp: via_cache_def cached_def cache_ok_def split: option.splits sum.splits exc.splits)

lemma cached_ok:
  assumes "cache_ok direct cache"
  shows "cache_ok direct (snd (cached direct n cache)) \<and> fst (cached direct n cache) = direct n"
  using assms
  by (auto simp: cached_def cache_ok_def map_of_update split: option.splits sum.splits exc.splits)

lemma cached_keeps: "map_of cache m \<noteq> None \<Longrightarrow> map_of (snd (cached direct n cache)) m \<noteq> None"
  by (auto simp: cached_def map_of_update split: option.splits sum.splits exc.splits)

lemma cached_stores:
  "cache_ok direct cache \<Longrightarrow> direct n = Inr g \<or> direct n = insufficient c \<Longrightarrow>
     map_of (snd (cached direct n cache)) n \<noteq> None"
  by (auto simp: cached_def cache_ok_def map_of_update split: option.splits)

text \<open>Staging keeps the cache true to the source and puts every name it was given in it.\<close>

lemma stage_ok:
  "stage direct ns cache = Inr cache' \<Longrightarrow> cache_ok direct cache \<Longrightarrow>
     cache_ok direct cache' \<and> (\<forall>m. map_of cache m \<noteq> None \<longrightarrow> map_of cache' m \<noteq> None)
     \<and> (\<forall>n \<in> set ns. map_of cache' n \<noteq> None)"
proof (induction ns arbitrary: cache)
  case (Cons n ns)
  obtain r c1 where rc: "cached direct n cache = (r, c1)" by fastforce
  with cached_ok[OF Cons.prems(2), of n] have c1: "cache_ok direct c1" "r = direct n" by auto
  from rc cached_keeps[of cache _ direct n] have keep: "\<And>m. map_of cache m \<noteq> None \<Longrightarrow> map_of c1 m \<noteq> None"
    by fastforce
  from Cons.prems(1) rc have st: "stage direct ns c1 = Inr cache'"
    and "(\<exists>g. r = Inr g) \<or> (\<exists>c. r = insufficient c)"
    by (auto split: sum.splits exc.splits if_splits)
  then have "map_of c1 n \<noteq> None"
    using cached_stores[OF Cons.prems(2), of n] rc c1 by fastforce
  with Cons.IH[OF st c1(1)] keep show ?case by fastforce
qed simp

lemma stage_formula_ok:
  "stage_formula direct side i cache = Inr cache' \<Longrightarrow> cache_ok direct cache \<Longrightarrow>
     cache_ok direct cache' \<and> (\<forall>m. map_of cache m \<noteq> None \<longrightarrow> map_of cache' m \<noteq> None)
     \<and> (\<exists>f. map_of FORMULAS i = Some f \<and>
          (\<forall>n \<in> set (used_names (fm_operands f) (side f)). map_of cache' n \<noteq> None))"
  by (auto simp: stage_formula_def res_simps split: option.splits dest!: stage_ok)

lemma stage_all_ok:
  "stage_all direct side ids cache = Inr cache' \<Longrightarrow> cache_ok direct cache \<Longrightarrow>
     cache_ok direct cache' \<and> (\<forall>m. map_of cache m \<noteq> None \<longrightarrow> map_of cache' m \<noteq> None)
     \<and> (\<forall>i \<in> set ids. \<exists>f. map_of FORMULAS i = Some f \<and>
          (\<forall>n \<in> set (used_names (fm_operands f) (side f)). map_of cache' n \<noteq> None))"
proof (induction ids arbitrary: cache)
  case (Cons i ids)
  from Cons.prems(1) obtain c1 where c1: "stage_formula direct side i cache = Inr c1"
    and rest: "stage_all direct side ids c1 = Inr cache'"
    by (auto simp: res_simps)
  from stage_formula_ok[OF c1 Cons.prems(2)] Cons.IH[OF rest] show ?case by (metis set_ConsD)
qed simp

lemma blocking_None:
  "blocking cache = None \<Longrightarrow> map_of cache n = Some (Inl e) \<Longrightarrow> e = missing"
  by (induction cache rule: blocking.induct) (auto split: if_splits)

lemma calculations_of_Inr:
  "calculations_of ex ph ids = Inr gs \<Longrightarrow>
     (\<forall>i \<in> set ids. (\<exists>g \<in> set gs. calculate i ex ph = Inr g) \<or> calculate i ex ph = Inl missing)
     \<and> (\<forall>g \<in> set gs. \<exists>i \<in> set ids. calculate i ex ph = Inr g)"
proof (induction ids arbitrary: gs)
  case (Cons i ids)
  show ?case
  proof (cases "calculate i ex ph")
    case (Inl e)
    with Cons.prems have "e = missing" "calculations_of ex ph ids = Inr gs" by (auto split: if_splits)
    with Cons.IH Inl show ?thesis by auto
  next
    case (Inr g)
    with Cons.prems obtain gs' where "calculations_of ex ph ids = Inr gs'" "gs = g # gs'"
      by (auto simp: res_simps)
    with Cons.IH[of gs'] Inr show ?thesis by auto
  qed
qed simp

lemma agreeD: "agree ds \<Longrightarrow> a \<in> set ds \<Longrightarrow> b \<in> set ds \<Longrightarrow> dec_val a = dec_val b"
  unfolding agree_def list_all_iff dec_eq_iff by (blast intro: trans[OF _ sym])

lemma calculate_dscr_cases:
  assumes "calculate_dscr choices direct ph = Inr g"
  obtains ids cache1 cache results ds where "choices = Some ids"
    and "stage_all direct fm_numerator ids [] = Inr cache1"
    and "stage_all direct fm_denominator ids cache1 = Inr cache" and "blocking cache = None"
    and "reconcile_annual_service direct = Inr ()"
    and "calculations_of direct ph ids = Inr results" and "results \<noteq> []" and "g = hd results"
    and "res_map (\<lambda>g. decimal_res (fg_value g)) results = Inr ds" and "agree ds"
    and "cache_ok direct cache"
proof -
  from assms obtain ids cache1 cache where c: "choices = Some ids"
    and s1: "stage_all direct fm_numerator ids [] = Inr cache1"
    and s2: "stage_all direct fm_denominator ids cache1 = Inr cache"
    and b: "blocking cache = None"
    by (auto simp: calculate_dscr_def res_bind_Inr_iff split: option.splits)
  have "cache_ok direct []" by (simp add: cache_ok_def)
  then have "cache_ok direct cache1" using stage_all_ok[OF s1] by blast
  then have ok: "cache_ok direct cache" using stage_all_ok[OF s2] by blast
  then have via: "via_cache direct cache = direct" by (auto simp: via_cache_direct)
  from assms c s1 s2 b via obtain results ds where
    "reconcile_annual_service direct = Inr ()" "calculations_of direct ph ids = Inr results"
    "results \<noteq> []" "g = hd results"
    "res_map (\<lambda>g. decimal_res (fg_value g)) results = Inr ds" "agree ds"
    by (auto simp: calculate_dscr_def Let_def res_bind_Inr_iff raise_if_Inr_iff split: if_splits)
  with that c s1 s2 b ok show ?thesis by blast
qed

text \<open>
  No bypass: when a ratio is returned, each operand that any of the chosen formulas uses was
  either extracted or missing. Conflicting or ambiguous evidence stops the assessment.
\<close>

lemma dscr_no_bypass:
  assumes r: "calculate_dscr (Some ids) direct ph = Inr g" and i: "i \<in> set ids"
    and f: "map_of FORMULAS i = Some f"
    and n: "n \<in> set (used_names (fm_operands f) (fm_numerator f)) \<union>
      set (used_names (fm_operands f) (fm_denominator f))"
  shows "(\<exists>h. direct n = Inr h) \<or> direct n = Inl missing"
proof -
  from r obtain cache1 cache where s1: "stage_all direct fm_numerator ids [] = Inr cache1"
    and s2: "stage_all direct fm_denominator ids cache1 = Inr cache"
    and b: "blocking cache = None" and ok: "cache_ok direct cache"
    by (auto elim: calculate_dscr_cases)
  have "cache_ok direct []" by (simp add: cache_ok_def)
  note a1 = stage_all_ok[OF s1 this]
  note a2 = stage_all_ok[OF s2 conjunct1[OF a1]]
  from a1 a2 i f n have "map_of cache n \<noteq> None" by fastforce
  then obtain x where x: "map_of cache n = Some x" by blast
  with ok have "direct n = x" by (auto simp: cache_ok_def)
  with x blocking_None[OF b, of n] show ?thesis by (cases x) auto
qed

lemma dscr_agrees:
  assumes "calculate_dscr (Some ids) direct ph = Inr g" and "i \<in> set ids"
  shows "calculate i direct ph = Inl missing \<or>
    (\<exists>h a b. calculate i direct ph = Inr h \<and> decimal_of_string (fg_value h) = Some a
       \<and> decimal_of_string (fg_value g) = Some b \<and> dec_val a = dec_val b)"
proof -
  from assms(1) obtain results ds where c: "calculations_of direct ph ids = Inr results"
    and ne: "results \<noteq> []" "g = hd results"
    and ds: "res_map (\<lambda>g. decimal_res (fg_value g)) results = Inr ds" and ag: "agree ds"
    by (auto elim: calculate_dscr_cases)
  have dec: "\<exists>d \<in> set ds. decimal_of_string (fg_value h) = Some d" if "h \<in> set results" for h
    using ds that by (induction results arbitrary: ds) (auto simp: res_simps list_all2_Cons1)
  from calculations_of_Inr[OF c] assms(2)
  consider "calculate i direct ph = Inl missing" | h where "h \<in> set results" "calculate i direct ph = Inr h"
    by blast
  then show ?thesis
  proof cases
    case 2
    from dec[OF 2(1)] obtain a where a: "a \<in> set ds" "decimal_of_string (fg_value h) = Some a" by blast
    from dec[of g] ne obtain b where b: "b \<in> set ds" "decimal_of_string (fg_value g) = Some b" by auto
    from agreeD[OF ag a(1) b(1)] a b 2(2) show ?thesis by blast
  qed simp
qed

end
