(* ===== verification/PyRegex.thy ===== *)
theory PyRegex
  imports PyStr
begin

text \<open>
  Python's \<open>re\<close>: the syntax of the patterns the source uses, an executable backtracking
  matcher that lists the ends of all matches in the order the engine tries them, the
  \<open>match\<close>, \<open>fullmatch\<close>, \<open>search\<close>, \<open>finditer\<close> and \<open>sub\<close> built on it, and a declarative
  match relation the matcher is proved equal to.

  A pattern string is written as the syntax tree \<open>re.compile\<close> builds from it. The flags
  \<open>re.I\<close> and \<open>re.M\<close> are arguments. A negated class consumes one code point.
\<close>

section \<open>Patterns\<close>

datatype rx =
    Eps
  | Lit string
  | Cls bool "(char \<times> char) list"   \<comment> \<open>\<open>[...]\<close>; \<open>True\<close> for \<open>[^...]\<close>\<close>
  | Seq rx rx
  | Alt rx rx
  | Star rx
  | Rep rx nat nat                      \<comment> \<open>\<open>r{m,m+k}\<close>\<close>
  | Grp nat rx
  | Caret
  | Dollar
  | Bound                               \<comment> \<open>\<open>\b\<close>\<close>
  | NotAhead rx                         \<comment> \<open>\<open>(?!r)\<close>\<close>
  | NotBehind "(char \<times> char) list"    \<comment> \<open>\<open>(?<![...])\<close>\<close>

text \<open>A compiled pattern: its inline flags \<open>(?i)\<close>, \<open>(?m)\<close> and its tree.\<close>

datatype pattern = Pattern (inline_i: bool) (inline_m: bool) (tree: rx)

record rst =
  consumed :: string      \<comment> \<open>the text left of the position, reversed\<close>
  ahead :: string
  groups :: "(nat \<times> string) list"

definition is_cont :: "char \<Rightarrow> bool" where
  "is_cont c = (128 \<le> code c \<and> code c < 192)"

definition cls_has :: "bool \<Rightarrow> (char \<times> char) list \<Rightarrow> char \<Rightarrow> bool" where
  "cls_has ic rs c =
     list_ex (\<lambda>(a, b). in_range a b c \<or> (ic \<and> (in_range a b (lower_char c) \<or> in_range a b (upper_char c)))) rs"

definition word_char :: "char \<Rightarrow> bool" where
  "word_char c = (is_alpha c \<or> is_digit c \<or> c = CHR ''_'')"

definition word_head :: "string \<Rightarrow> bool" where
  "word_head s = (case s of [] \<Rightarrow> False | c # _ \<Rightarrow> word_char c)"

definition lit_here :: "bool \<Rightarrow> string \<Rightarrow> string \<Rightarrow> bool" where
  "lit_here ic p s = (if ic then starts_with (casefold p) (casefold s) else starts_with p s)"

definition advance :: "nat \<Rightarrow> rst \<Rightarrow> rst" where
  "advance n s = s\<lparr>consumed := rev (take n (ahead s)) @ consumed s, ahead := drop n (ahead s)\<rparr>"

text \<open>The bytes of the code point at the position: one byte and the continuation bytes.\<close>

definition cp_len :: "string \<Rightarrow> nat" where
  "cp_len s = (case s of [] \<Rightarrow> 0 | c # t \<Rightarrow> Suc (length (takeWhile is_cont t)))"

section \<open>The matcher\<close>

primrec opt_iter :: "(rst \<Rightarrow> rst list) \<Rightarrow> nat \<Rightarrow> rst \<Rightarrow> rst list" where
  "opt_iter f 0 s = [s]"
| "opt_iter f (Suc n) s =
     concat (map (opt_iter f n) (filter (\<lambda>t. length (ahead t) < length (ahead s)) (f s))) @ [s]"

primrec must_iter :: "(rst \<Rightarrow> rst list) \<Rightarrow> nat \<Rightarrow> rst \<Rightarrow> rst list" where
  "must_iter f 0 s = [s]"
| "must_iter f (Suc n) s = concat (map (must_iter f n) (f s))"

definition capture :: "nat \<Rightarrow> rst \<Rightarrow> rst \<Rightarrow> rst" where
  "capture g s t =
     t\<lparr>groups := (g, rev (take (length (consumed t) - length (consumed s)) (consumed t))) # groups t\<rparr>"

primrec rx_ends :: "bool \<Rightarrow> bool \<Rightarrow> rx \<Rightarrow> rst \<Rightarrow> rst list" where
  "rx_ends ic ml Eps s = [s]"
| "rx_ends ic ml (Lit p) s = (if lit_here ic p (ahead s) then [advance (length p) s] else [])"
| "rx_ends ic ml (Cls neg rs) s =
     (case ahead s of [] \<Rightarrow> []
      | c # _ \<Rightarrow> if cls_has ic rs c \<noteq> neg then [advance (cp_len (ahead s)) s] else [])"
| "rx_ends ic ml (Seq a b) s = concat (map (rx_ends ic ml b) (rx_ends ic ml a s))"
| "rx_ends ic ml (Alt a b) s = rx_ends ic ml a s @ rx_ends ic ml b s"
| "rx_ends ic ml (Star a) s = opt_iter (rx_ends ic ml a) (length (ahead s)) s"
| "rx_ends ic ml (Rep a m k) s =
     concat (map (opt_iter (rx_ends ic ml a) k) (must_iter (rx_ends ic ml a) m s))"
| "rx_ends ic ml (Grp g a) s = map (capture g s) (rx_ends ic ml a s)"
| "rx_ends ic ml Caret s =
     (if consumed s = [] \<or> (ml \<and> hd (consumed s) = CHR 0x0A) then [s] else [])"
| "rx_ends ic ml Dollar s =
     (if ahead s = [] \<or> ahead s = newline \<or> (ml \<and> hd (ahead s) = CHR 0x0A) then [s] else [])"
| "rx_ends ic ml Bound s = (if word_head (consumed s) \<noteq> word_head (ahead s) then [s] else [])"
| "rx_ends ic ml (NotAhead a) s = (if rx_ends ic ml a s = [] then [s] else [])"
| "rx_ends ic ml (NotBehind rs) s =
     (case consumed s of [] \<Rightarrow> [s] | c # _ \<Rightarrow> if cls_has ic rs c then [] else [s])"

text \<open>A match object.\<close>

record rxm =
  m_before :: string
  m_text :: string
  m_groups :: "(nat \<times> string) list"
  m_after :: string

definition mk_match :: "string \<Rightarrow> rst \<Rightarrow> rxm" where
  "mk_match b t =
     \<lparr>m_before = b, m_text = rev (take (length (consumed t) - length b) (consumed t)),
      m_groups = groups t, m_after = ahead t\<rparr>"

definition m_group :: "nat \<Rightarrow> rxm \<Rightarrow> string option" where
  "m_group g m = map_of (m_groups m) g"

definition first_match :: "string \<Rightarrow> rst list \<Rightarrow> rxm option" where
  "first_match b ts = (case ts of [] \<Rightarrow> None | t # _ \<Rightarrow> Some (mk_match b t))"

definition start_at :: "string \<Rightarrow> string \<Rightarrow> rst" where
  "start_at b s = \<lparr>consumed = b, ahead = s, groups = []\<rparr>"

definition re_match :: "bool \<Rightarrow> bool \<Rightarrow> rx \<Rightarrow> string \<Rightarrow> rxm option" where
  "re_match ic ml r s = first_match [] (rx_ends ic ml r (start_at [] s))"

definition re_fullmatch :: "bool \<Rightarrow> bool \<Rightarrow> rx \<Rightarrow> string \<Rightarrow> rxm option" where
  "re_fullmatch ic ml r s =
     first_match [] (filter (\<lambda>t. ahead t = []) (rx_ends ic ml r (start_at [] s)))"

text \<open>
  \<open>ne\<close>: at the first position only a non-empty match counts, which is how \<open>finditer\<close>
  goes on after an empty match.
\<close>

fun search_from :: "bool \<Rightarrow> bool \<Rightarrow> rx \<Rightarrow> bool \<Rightarrow> string \<Rightarrow> string \<Rightarrow> rxm option" where
  "search_from ic ml r ne b s =
     (let ts = (if s \<noteq> [] \<and> is_cont (hd s) then [] else rx_ends ic ml r (start_at b s)) in
      case first_match b (if ne then filter (\<lambda>t. length (ahead t) < length s) ts else ts) of
        Some m \<Rightarrow> Some m
      | None \<Rightarrow> (case s of [] \<Rightarrow> None | c # s' \<Rightarrow> search_from ic ml r False (c # b) s'))"

declare search_from.simps [simp del]

definition re_search :: "bool \<Rightarrow> bool \<Rightarrow> rx \<Rightarrow> string \<Rightarrow> rxm option" where
  "re_search ic ml r s = search_from ic ml r False [] s"

definition found :: "'a option \<Rightarrow> bool" where
  "found x = (x \<noteq> None)"

text \<open>\<open>re.search(p, text, flags)\<close> for a pattern of the policy file.\<close>

definition pattern_found :: "bool \<Rightarrow> bool \<Rightarrow> pattern \<Rightarrow> string \<Rightarrow> bool" where
  "pattern_found ic ml p s = found (re_search (ic \<or> inline_i p) (ml \<or> inline_m p) (tree p) s)"

section \<open>Every end lies to the right of the start\<close>

definition goes_on :: "rst \<Rightarrow> rst \<Rightarrow> bool" where
  "goes_on s t = (\<exists>u. ahead s = u @ ahead t \<and> consumed t = rev u @ consumed s)"

lemma goes_on_refl [simp]: "goes_on s s"
  by (simp add: goes_on_def)

lemma goes_on_trans: "goes_on s t \<Longrightarrow> goes_on t u \<Longrightarrow> goes_on s u"
  by (force simp: goes_on_def)

lemma goes_on_advance: "goes_on s (advance n s)"
  unfolding goes_on_def advance_def by (rule exI[of _ "take n (ahead s)"]) simp

lemma goes_on_capture [simp]: "goes_on s (capture g r t) = goes_on s t"
  by (simp add: goes_on_def capture_def)

lemma opt_iter_goes_on:
  assumes "\<And>s t. t \<in> set (f s) \<Longrightarrow> goes_on s t"
  shows "t \<in> set (opt_iter f n s) \<Longrightarrow> goes_on s t"
  by (induction n arbitrary: s) (auto dest!: assms intro: goes_on_trans)

lemma must_iter_goes_on:
  assumes "\<And>s t. t \<in> set (f s) \<Longrightarrow> goes_on s t"
  shows "t \<in> set (must_iter f n s) \<Longrightarrow> goes_on s t"
  by (induction n arbitrary: s) (auto dest!: assms intro: goes_on_trans)

lemma rx_ends_goes_on: "t \<in> set (rx_ends ic ml r s) \<Longrightarrow> goes_on s t"
proof (induction r arbitrary: s t)
  case (Seq a b)
  then show ?case by (auto dest!: Seq.IH intro: goes_on_trans)
next
  case (Star r)
  then show ?case by (auto intro: opt_iter_goes_on)
next
  case (Rep r m k)
  then obtain u where "u \<in> set (must_iter (rx_ends ic ml r) m s)"
    and "t \<in> set (opt_iter (rx_ends ic ml r) k u)"
    by auto
  with must_iter_goes_on[of "rx_ends ic ml r", OF Rep.IH] opt_iter_goes_on[of "rx_ends ic ml r", OF Rep.IH]
  show ?case by (blast intro: goes_on_trans)
qed (auto simp: goes_on_advance intro: goes_on_trans split: if_splits list.splits)

lemma goes_on_length: "goes_on s t \<Longrightarrow> length (ahead t) \<le> length (ahead s)"
  by (auto simp: goes_on_def)

section \<open>Match objects cover their subject\<close>

text \<open>The text before, in and after a match is the subject.\<close>

lemma mk_match_split:
  assumes "goes_on (start_at b s) t"
  shows "s = m_text (mk_match b t) @ m_after (mk_match b t) \<and> m_before (mk_match b t) = b"
  using assms by (auto simp: goes_on_def mk_match_def start_at_def)

lemma first_match_Some:
  assumes "first_match b ts = Some m" "\<forall>t \<in> set ts. goes_on (start_at b s) t"
  shows "s = m_text m @ m_after m \<and> m_before m = b \<and> (\<exists>t \<in> set ts. m = mk_match b t)"
  using assms mk_match_split by (auto simp: first_match_def split: list.splits)

lemma search_from_split:
  "search_from ic ml r ne b s = Some m \<Longrightarrow>
     rev b @ s = rev (m_before m) @ m_text m @ m_after m
     \<and> length (m_after m) \<le> length s
     \<and> (m_text m \<noteq> [] \<or> ne \<longrightarrow> length (m_after m) < length s)"
proof (induction ic ml r ne b s rule: search_from.induct)
  case (1 ic ml r ne b s)
  let ?ts = "if s \<noteq> [] \<and> is_cont (hd s) then [] else rx_ends ic ml r (start_at b s)"
  let ?us = "if ne then filter (\<lambda>t. length (ahead t) < length s) ?ts else ?ts"
  have on: "\<forall>t \<in> set ?us. goes_on (start_at b s) t"
    by (auto dest: rx_ends_goes_on)
  show ?case
  proof (cases "first_match b ?us")
    case (Some m')
    with "1.prems" have m: "m' = m" by (subst (asm) search_from.simps) (simp add: Let_def)
    from first_match_Some[OF Some on] m
    have eq: "s = m_text m @ m_after m" "m_before m = b"
      and "\<exists>t \<in> set ?us. m = mk_match b t" by auto
    then obtain t where t: "t \<in> set ?us" "m = mk_match b t" by blast
    from t have "ne \<Longrightarrow> length (m_after m) < length s"
      by (auto simp: mk_match_def)
    with eq show ?thesis by (metis add_diff_cancel_right' append_Nil diff_is_0_eq length_0_conv
          length_append linorder_not_le le_add2)
  next
    case None
    with "1.prems" obtain c s' where s: "s = c # s'"
      and "search_from ic ml r False (c # b) s' = Some m"
      by (subst (asm) search_from.simps) (simp add: Let_def split: list.splits)
    with "1.IH"[OF refl None s] show ?thesis by auto
  qed
qed

section \<open>Iterating over matches\<close>

function finditer_from :: "bool \<Rightarrow> bool \<Rightarrow> rx \<Rightarrow> bool \<Rightarrow> string \<Rightarrow> string \<Rightarrow> rxm list" where
  "finditer_from ic ml r ne b s =
     (case search_from ic ml r ne b s of
        None \<Rightarrow> []
      | Some m \<Rightarrow> m # finditer_from ic ml r (m_text m = []) (rev (m_text m) @ m_before m) (m_after m))"
  by pat_completeness auto
termination
proof (relation "measure (\<lambda>(ic, ml, r, ne, b, s). 2 * length s + (if ne then 0 else 1))")
  fix ic ml r ne b s m
  assume "search_from ic ml r ne b s = Some m"
  then have "length (m_after m) \<le> length s"
    "m_text m \<noteq> [] \<or> ne \<longrightarrow> length (m_after m) < length s"
    using search_from_split by blast+
  then show "((ic, ml, r, m_text m = [], rev (m_text m) @ m_before m, m_after m), ic, ml, r, ne, b, s)
    \<in> measure (\<lambda>(ic, ml, r, ne, b, s). 2 * length s + (if ne then 0 else 1))"
    by auto
qed auto

declare finditer_from.simps [simp del]

definition re_finditer :: "bool \<Rightarrow> bool \<Rightarrow> rx \<Rightarrow> string \<Rightarrow> rxm list" where
  "re_finditer ic ml r s = finditer_from ic ml r False [] s"

fun sub_from :: "rxm list \<Rightarrow> nat \<Rightarrow> string \<Rightarrow> string \<Rightarrow> string" where
  "sub_from [] pos repl s = s"
| "sub_from (m # ms) pos repl s =
     (let k = length (m_before m) - pos in
      take k s @ repl @
      sub_from ms (length (m_before m) + length (m_text m)) repl (drop (k + length (m_text m)) s))"

text \<open>\<open>re.subn(r, repl, s)\<close> for a replacement without backslashes.\<close>

definition re_subn :: "bool \<Rightarrow> bool \<Rightarrow> rx \<Rightarrow> string \<Rightarrow> string \<Rightarrow> string \<times> nat" where
  "re_subn ic ml r repl s = (let ms = re_finditer ic ml r s in (sub_from ms 0 repl s, length ms))"

definition re_sub :: "bool \<Rightarrow> bool \<Rightarrow> rx \<Rightarrow> string \<Rightarrow> string \<Rightarrow> string" where
  "re_sub ic ml r repl s = fst (re_subn ic ml r repl s)"

section \<open>Pattern combinators\<close>

definition digit_rx :: rx where "digit_rx = Cls False [(CHR ''0'', CHR ''9'')]"

definition space_set :: "(char \<times> char) list" where
  "space_set = [(CHR 0x09, CHR 0x0D), (CHR 0x1C, CHR 0x20)]"

definition space_rx :: rx where "space_rx = Cls False space_set"
definition nonspace_rx :: rx where "nonspace_rx = Cls True space_set"
definition dot_rx :: rx where "dot_rx = Cls True [(CHR 0x0A, CHR 0x0A)]"

definition chars_rx :: "string \<Rightarrow> rx" where
  "chars_rx cs = Cls False (map (\<lambda>c. (c, c)) cs)"

definition not_chars_rx :: "string \<Rightarrow> rx" where
  "not_chars_rx cs = Cls True (map (\<lambda>c. (c, c)) cs)"

definition opt_rx :: "rx \<Rightarrow> rx" where "opt_rx r = Rep r 0 1"
definition plus_rx :: "rx \<Rightarrow> rx" where "plus_rx r = Seq r (Star r)"

fun alts :: "rx list \<Rightarrow> rx" where
  "alts [] = Eps"
| "alts [r] = r"
| "alts (r # rs) = Alt r (alts rs)"

fun seqs :: "rx list \<Rightarrow> rx" where
  "seqs [] = Eps"
| "seqs [r] = r"
| "seqs (r # rs) = Seq r (seqs rs)"

definition en_dash :: string where "en_dash = [CHR 0xE2, CHR 0x80, CHR 0x93]"
definition em_dash :: string where "em_dash = [CHR 0xE2, CHR 0x80, CHR 0x94]"

lemmas rx_defs = digit_rx_def space_rx_def space_set_def nonspace_rx_def dot_rx_def chars_rx_def
  not_chars_rx_def opt_rx_def plus_rx_def en_dash_def em_dash_def

section \<open>A declarative match relation\<close>

text \<open>
  \<open>matches ic ml r s t\<close>: pattern \<open>r\<close> can consume the text from \<open>s\<close> to \<open>t\<close>. One rule per way
  a pattern can match; \<open>Star\<close> and \<open>Rep\<close> repeat while the position moves.
\<close>

inductive reps :: "(rst \<Rightarrow> rst \<Rightarrow> bool) \<Rightarrow> nat \<Rightarrow> rst \<Rightarrow> rst \<Rightarrow> bool" for R where
  reps_0: "reps R 0 s s"
| reps_S: "R s t \<Longrightarrow> reps R n t u \<Longrightarrow> reps R (Suc n) s u"

definition moves :: "(rst \<Rightarrow> rst \<Rightarrow> bool) \<Rightarrow> rst \<Rightarrow> rst \<Rightarrow> bool" where
  "moves R s t = (R s t \<and> length (ahead t) < length (ahead s))"

primrec matches :: "bool \<Rightarrow> bool \<Rightarrow> rx \<Rightarrow> rst \<Rightarrow> rst \<Rightarrow> bool" where
  "matches ic ml Eps s t = (t = s)"
| "matches ic ml (Lit p) s t = (lit_here ic p (ahead s) \<and> t = advance (length p) s)"
| "matches ic ml (Cls neg rs) s t =
     (\<exists>c u. ahead s = c # u \<and> cls_has ic rs c \<noteq> neg \<and> t = advance (cp_len (ahead s)) s)"
| "matches ic ml (Seq a b) s t = (\<exists>u. matches ic ml a s u \<and> matches ic ml b u t)"
| "matches ic ml (Alt a b) s t = (matches ic ml a s t \<or> matches ic ml b s t)"
| "matches ic ml (Star a) s t = (\<exists>n. reps (moves (matches ic ml a)) n s t)"
| "matches ic ml (Rep a m k) s t =
     (\<exists>u n. reps (matches ic ml a) m s u \<and> n \<le> k \<and> reps (moves (matches ic ml a)) n u t)"
| "matches ic ml (Grp g a) s t = (\<exists>u. matches ic ml a s u \<and> t = capture g s u)"
| "matches ic ml Caret s t = ((consumed s = [] \<or> (ml \<and> hd (consumed s) = CHR 0x0A)) \<and> t = s)"
| "matches ic ml Dollar s t =
     ((ahead s = [] \<or> ahead s = newline \<or> (ml \<and> hd (ahead s) = CHR 0x0A)) \<and> t = s)"
| "matches ic ml Bound s t = (word_head (consumed s) \<noteq> word_head (ahead s) \<and> t = s)"
| "matches ic ml (NotAhead a) s t = ((\<nexists>u. matches ic ml a s u) \<and> t = s)"
| "matches ic ml (NotBehind rs) s t = ((\<forall>c u. consumed s = c # u \<longrightarrow> \<not> cls_has ic rs c) \<and> t = s)"

inductive_simps reps_0_iff [simp]: "reps R 0 s t"
inductive_simps reps_Suc_iff [simp]: "reps R (Suc n) s t"

lemma must_iter_iff:
  assumes "\<And>s t. t \<in> set (f s) \<longleftrightarrow> R s t"
  shows "t \<in> set (must_iter f n s) \<longleftrightarrow> reps R n s t"
  by (induction n arbitrary: s) (auto simp: assms)

lemma opt_iter_iff:
  assumes "\<And>s t. t \<in> set (f s) \<longleftrightarrow> R s t"
  shows "t \<in> set (opt_iter f k s) \<longleftrightarrow> (\<exists>n \<le> k. reps (moves R) n s t)"
proof (induction k arbitrary: s)
  case (Suc k)
  have "t \<in> set (opt_iter f (Suc k) s) \<longleftrightarrow>
      (\<exists>u. moves R s u \<and> (\<exists>n \<le> k. reps (moves R) n u t)) \<or> t = s"
    by (auto simp: assms moves_def[of R s] Suc.IH)
  also have "\<dots> \<longleftrightarrow> (\<exists>n \<le> Suc k. reps (moves R) n s t)"
  proof
    assume "(\<exists>u. moves R s u \<and> (\<exists>n \<le> k. reps (moves R) n u t)) \<or> t = s"
    then show "\<exists>n \<le> Suc k. reps (moves R) n s t"
      by (metis Suc_le_mono le0 reps_0_iff reps_S)
  next
    assume "\<exists>n \<le> Suc k. reps (moves R) n s t"
    then obtain n where "n \<le> Suc k" "reps (moves R) n s t" by blast
    then show "(\<exists>u. moves R s u \<and> (\<exists>n \<le> k. reps (moves R) n u t)) \<or> t = s"
      by (cases n) auto
  qed
  finally show ?case .
qed auto

text \<open>Each repetition of a star consumes text, so as many rounds as bytes are enough.\<close>

lemma reps_moves_bound: "reps (moves R) n s t \<Longrightarrow> n + length (ahead t) \<le> length (ahead s)"
  by (induction rule: reps.induct) (auto simp: moves_def)

theorem rx_ends_iff_matches: "t \<in> set (rx_ends ic ml r s) \<longleftrightarrow> matches ic ml r s t"
proof (induction r arbitrary: s t)
  case (Star r)
  have "t \<in> set (rx_ends ic ml (Star r) s) \<longleftrightarrow>
      (\<exists>n \<le> length (ahead s). reps (moves (matches ic ml r)) n s t)"
    by (simp add: opt_iter_iff[of "rx_ends ic ml r" "matches ic ml r", OF Star.IH])
  also have "\<dots> \<longleftrightarrow> (\<exists>n. reps (moves (matches ic ml r)) n s t)"
    by (metis add_leD1 reps_moves_bound)
  finally show ?case by simp
next
  case (Rep r m k)
  show ?case
    by (auto simp: must_iter_iff[of "rx_ends ic ml r" "matches ic ml r", OF Rep.IH]
        opt_iter_iff[of "rx_ends ic ml r" "matches ic ml r", OF Rep.IH])
next
  case (NotAhead r)
  then have "rx_ends ic ml r s = [] \<longleftrightarrow> (\<nexists>u. matches ic ml r s u)"
    by (metis ex_in_conv set_empty)
  then show ?case by auto
next
  case (Cls neg rs)
  show ?case by (cases "ahead s") auto
next
  case (NotBehind rs)
  show ?case by (cases "consumed s") auto
qed auto

end
