(* ===== verification/Nic.thy ===== *)
theory Nic
  imports Schema PyRegex
begin

text \<open>
  \<open>reason/nic.py\<close>: the activities of an Udyam table, one per row, with their two-, four- and
  five-digit NIC codes. The cell splitting of a pipe table is shared with the evidence gate.
\<close>

section \<open>Pipe tables\<close>

text \<open>\<open>[c.strip() for c in line.strip().strip("|").split("|")]\<close>\<close>

definition cells_of :: "string \<Rightarrow> string list" where
  "cells_of line = map strip (split_on CHR ''|'' (strip_chars ''|'' (strip line)))"

text \<open>\<open>all(re.fullmatch(r"[-: ]*", c) for c in cells)\<close>\<close>

definition rule_row :: "string list \<Rightarrow> bool" where
  "rule_row cells = list_all (\<lambda>c. found (re_fullmatch False False (Star (chars_rx ''-: '')) c)) cells"

text \<open>\<open>cells[headers.index(label)]\<close>\<close>

fun index_of :: "'a list \<Rightarrow> 'a \<Rightarrow> nat" where
  "index_of [] x = 0"
| "index_of (y # ys) x = (if y = x then 0 else Suc (index_of ys x))"

definition cell_at :: "string list \<Rightarrow> string list \<Rightarrow> string \<Rightarrow> string" where
  "cell_at headers cells label = cells ! index_of headers label"

section \<open>Activities\<close>

definition nic_labels :: "string list" where
  "nic_labels = [''nic 2 digit'', ''nic 4 digit'', ''nic 5 digit'']"

definition nic_rx :: "nat \<Rightarrow> rx" where
  "nic_rx n = seqs [Grp 1 (Rep digit_rx n 0), Star space_rx, alts [chars_rx ''-:'', Lit en_dash],
     Star space_rx, Grp 2 (Seq nonspace_rx (Star dot_rx))]"

definition parse_nic :: "nat \<Rightarrow> string \<Rightarrow> (string \<times> string) option" where
  "parse_nic n v =
     (case re_fullmatch False False (nic_rx n) v of
        None \<Rightarrow> None
      | Some m \<Rightarrow> (case (m_group 1 m, m_group 2 m) of (Some c, Some d) \<Rightarrow> Some (c, d) | _ \<Rightarrow> None))"

definition nic_item :: "string list \<Rightarrow> string list \<Rightarrow> nic_activity res" where
  "nic_item headers cells =
     (case map2 parse_nic [2, 4, 5] (map (cell_at headers cells) nic_labels) of
        [Some (division, dd), Some (grp, gd), Some (sub, sd)] \<Rightarrow>
          raise_if (\<not> starts_with division grp \<or> \<not> starts_with grp sub) (ValueError ''NIC hierarchy conflict'')
            (Inr \<lparr>nic_division = division, nic_class_code = grp, nic_subclass = sub,
               nic_division_description = dd, nic_class_description = gd,
               nic_subclass_description = sd, nic_activity = cell_at headers cells ''activity''\<rparr>)
      | _ \<Rightarrow> Inl (ValueError ''NIC row is incomplete''))"

definition normalize_header :: "string \<Rightarrow> string" where
  "normalize_header c = casefold (re_sub False False (plus_rx space_rx) '' '' c)"

text \<open>One line: a header row, a row that is skipped, or an activity. The state is the header and the activities found.\<close>

definition nic_step ::
  "string list option \<Rightarrow> nic_activity list \<Rightarrow> string \<Rightarrow> (string list option \<times> nic_activity list) res" where
  "nic_step headers acc line =
     (let cells = cells_of line; normalized = map normalize_header cells in
      if list_all (\<lambda>l. l \<in> set normalized) (nic_labels @ [''activity'']) then Inr (Some normalized, acc)
      else (case headers of
              None \<Rightarrow> Inr (headers, acc)
            | Some hs \<Rightarrow>
                if length cells \<noteq> length hs \<or> rule_row cells then Inr (headers, acc)
                else res_bind (nic_item hs cells) (\<lambda>item.
                       Inr (headers, if item \<in> set acc then acc else acc @ [item]))))"

fun nic_lines ::
  "string list option \<Rightarrow> nic_activity list \<Rightarrow> string list \<Rightarrow> nic_activity list res" where
  "nic_lines headers acc [] = Inr acc"
| "nic_lines headers acc (line # ls) =
     res_bind (nic_step headers acc line) (\<lambda>(headers', acc'). nic_lines headers' acc' ls)"

definition activities :: "string \<Rightarrow> nic_activity list res" where
  "activities t = nic_lines None [] (splitlines t)"

section \<open>Lemmas\<close>

definition nic_hierarchy :: "nic_activity \<Rightarrow> bool" where
  "nic_hierarchy a = (starts_with (nic_division a) (nic_class_code a)
     \<and> starts_with (nic_class_code a) (nic_subclass a))"

lemma nic_item_hierarchy: "nic_item hs cells = Inr a \<Longrightarrow> nic_hierarchy a"
  by (auto simp: nic_item_def nic_hierarchy_def res_simps split: list.splits option.splits prod.splits)

lemma nic_item_error: "nic_item hs cells = Inl e \<Longrightarrow> is_value_error e"
  by (auto simp: nic_item_def res_simps split: list.splits option.splits prod.splits)

definition nic_invariant :: "nic_activity list \<Rightarrow> bool" where
  "nic_invariant as = (distinct as \<and> (\<forall>a \<in> set as. nic_hierarchy a))"

lemma nic_step_invariant:
  "nic_step hs acc line = Inr (hs', acc') \<Longrightarrow> nic_invariant acc \<Longrightarrow> nic_invariant acc'"
  by (auto simp: nic_step_def nic_invariant_def Let_def res_bind_Inr_iff dest: nic_item_hierarchy
      split: if_splits option.splits)

lemma nic_lines_invariant:
  "nic_lines hs acc ls = Inr as \<Longrightarrow> nic_invariant acc \<Longrightarrow> nic_invariant as"
proof (induction ls arbitrary: hs acc)
  case (Cons line ls)
  then obtain hs' acc' where "nic_step hs acc line = Inr (hs', acc')" "nic_lines hs' acc' ls = Inr as"
    by (auto simp: res_bind_Inr_iff)
  with Cons nic_step_invariant show ?case by blast
qed simp

lemma activities_sound: "activities t = Inr as \<Longrightarrow> distinct as \<and> (\<forall>a \<in> set as. nic_hierarchy a)"
  using nic_lines_invariant[of None "[]" "splitlines t" as]
  by (simp add: activities_def nic_invariant_def)

lemma nic_step_error: "nic_step hs acc line = Inl e \<Longrightarrow> is_value_error e"
  by (auto simp: nic_step_def Let_def res_bind_Inl_iff dest: nic_item_error split: if_splits option.splits)

lemma nic_lines_error: "nic_lines hs acc ls = Inl e \<Longrightarrow> is_value_error e"
  by (induction hs acc ls rule: nic_lines.induct)
    (auto simp: res_bind_Inl_iff dest: nic_step_error)

lemma activities_error: "activities t = Inl e \<Longrightarrow> is_value_error e"
  unfolding activities_def by (rule nic_lines_error)

end
