(* ===== verification/Classification.thy ===== *)
theory Classification
  imports Schema PyRegex "HOL-Library.Product_Lexorder"
begin

text \<open>
  \<open>reason/classification.py\<close>: the content-based types of each page and the merging of equal
  neighbouring pages into sections. The lemmas show that the sections partition the pages.
\<close>

section \<open>Data\<close>

record classification_policy =
  cp_version :: string
  cp_patterns :: "(string, pattern list) dict"

record section_class =
  sc_document :: string
  sc_first :: int
  sc_last :: int
  sc_types :: "string list"
  sc_status :: string
  sc_citations :: "citation list"
  sc_version :: string

definition any_pattern :: "pattern list \<Rightarrow> string \<Rightarrow> bool" where   \<comment> \<open>\<open>any(re.search(p, text, re.I) ...)\<close>\<close>
  "any_pattern ps t = list_ex (\<lambda>p. pattern_found True False p t) ps"

section \<open>One page\<close>

definition page_hits ::
  "classification_policy \<Rightarrow> chunk list \<Rightarrow> (string, chunk list) dict" where
  "page_hits policy items =
     (let hits = filter (\<lambda>(n, cs). cs \<noteq> [])
            (map (\<lambda>(n, ps). (n, filter (\<lambda>c. any_pattern ps (chunk_text c)) items)) (cp_patterns policy));
          hits = (if dict_has hits ''financial_information_report''
                  then AList.delete ''audited_financials'' hits else hits)
      in if dict_has hits ''audited_financials'' then AList.delete ''financial_statement'' hits else hits)"

definition page_section ::
  "classification_policy \<Rightarrow> string \<Rightarrow> int \<Rightarrow> chunk list \<Rightarrow> section_class" where
  "page_section policy document page items =
     (let hits = page_hits policy items;
          provs = filter (\<lambda>p. pv_document p = document \<and> pv_page p = page)
            (concat (map (\<lambda>(n, cs). concat (map chunk_prov cs)) hits))
      in \<lparr>sc_document = document, sc_first = page, sc_last = page,
          sc_types = (if hits = [] then [''unknown''] else sort (map fst hits)),
          sc_status = (if length hits = 1 then ''confirmed'' else if hits \<noteq> [] then ''ambiguous'' else ''unknown''),
          sc_citations = map citation_from_provenance (uniq provs),
          sc_version = cp_version policy\<rparr>)"

section \<open>Sections\<close>

definition add_section :: "section_class list \<Rightarrow> section_class \<Rightarrow> section_class list" where
  "add_section sections s =
     (if sections \<noteq> [] \<and> sc_document (last sections) = sc_document s
         \<and> sc_last (last sections) = sc_first s - 1
         \<and> sc_types (last sections) = sc_types s \<and> sc_status (last sections) = sc_status s
      then butlast sections @ [(last sections)\<lparr>sc_last := sc_last s,
             sc_citations := sc_citations (last sections) @ sc_citations s\<rparr>]
      else sections @ [s])"

definition pages_of :: "chunk list \<Rightarrow> (string \<times> int, chunk list) dict" where
  "pages_of chunks =
     foldl (\<lambda>d (p, c). dict_append (pv_document p, pv_page p) c d) []
       (concat (map (\<lambda>c. map (\<lambda>p. (p, c)) (chunk_prov c)) chunks))"

definition classify_sections ::
  "chunk list \<Rightarrow> classification_policy \<Rightarrow> section_class list res" where
  "classify_sections chunks policy =
     raise_if (list_ex (\<lambda>c. length (chunk_documents c) \<noteq> 1) chunks) (ValueError ''evidence_scope_violation'')
       (Inr (foldl add_section []
          (map (\<lambda>((document, page), items). page_section policy document page items)
             (sort_key fst (pages_of chunks)))))"

section \<open>The sections partition the pages\<close>

definition covers :: "section_class \<Rightarrow> string \<times> int \<Rightarrow> bool" where
  "covers s k = (sc_document s = fst k \<and> sc_first s \<le> snd k \<and> snd k \<le> sc_last s)"

definition partitions :: "section_class list \<Rightarrow> (string \<times> int) set \<Rightarrow> bool" where
  "partitions ss ks =
     ((\<forall>k. (\<exists>s \<in> set ss. covers s k) \<longleftrightarrow> k \<in> ks)
      \<and> sorted_wrt (\<lambda>s t. \<forall>k. \<not> (covers s k \<and> covers t k)) ss)"

lemma page_section_sel [simp]:
  "sc_document (page_section po d p cs) = d" "sc_first (page_section po d p cs) = p"
  "sc_last (page_section po d p cs) = p"
  by (simp_all add: page_section_def Let_def)

lemma covers_page_section [simp]: "covers (page_section po d p cs) k \<longleftrightarrow> k = (d, p)"
  by (cases k) (auto simp: covers_def)

lemma covers_extend:
  assumes "sc_last l = p - 1" "sc_first l \<le> sc_last l"
  shows "covers (l\<lparr>sc_last := p, sc_citations := cs\<rparr>) k \<longleftrightarrow> covers l k \<or> k = (sc_document l, p)"
  using assms by (cases k) (auto simp: covers_def)

definition proper :: "section_class list \<Rightarrow> bool" where
  "proper ss = (\<forall>s \<in> set ss. sc_first s \<le> sc_last s)"

lemma add_section_partitions:
  assumes p: "partitions ss ks" and pr: "proper ss" and new: "(d, p) \<notin> ks"
  shows "partitions (add_section ss (page_section po d p cs)) (insert (d, p) ks)
    \<and> proper (add_section ss (page_section po d p cs))"
proof (cases "add_section ss (page_section po d p cs) = ss @ [page_section po d p cs]")
  case True
  have "\<forall>s \<in> set ss. \<not> covers s (d, p)" using p new by (auto simp: partitions_def)
  with True p pr show ?thesis
    by (auto simp: partitions_def proper_def sorted_wrt_append)
next
  case False
  let ?l = "last ss"
  let ?l' = "?l\<lparr>sc_last := p, sc_citations := sc_citations ?l @ sc_citations (page_section po d p cs)\<rparr>"
  from False have ss: "ss \<noteq> []" "sc_document ?l = d" "sc_last ?l = p - 1"
    and eq: "add_section ss (page_section po d p cs) = butlast ss @ [?l']"
    by (auto simp: add_section_def split: if_splits)
  from ss(1) have split: "ss = butlast ss @ [?l]" by simp
  then have lin: "?l \<in> set ss" using ss(1) by simp
  with pr have fl: "sc_first ?l \<le> sc_last ?l" by (simp add: proper_def)
  have cov: "covers ?l' k \<longleftrightarrow> covers ?l k \<or> k = (d, p)" for k
    using covers_extend[OF ss(3) fl] ss(2) by simp
  have all: "(\<exists>s \<in> set ss. covers s k) \<longleftrightarrow> (\<exists>s \<in> set (butlast ss). covers s k) \<or> covers ?l k" for k
    by (subst split) auto
  have nocov: "\<forall>s \<in> set (butlast ss). \<not> covers s (d, p)"
    using p new by (auto simp: partitions_def dest: in_set_butlastD)
  have srt: "sorted_wrt (\<lambda>s t. \<forall>k. \<not> (covers s k \<and> covers t k)) (butlast ss @ [?l])"
    using p split by (simp add: partitions_def)
  have "sorted_wrt (\<lambda>s t. \<forall>k. \<not> (covers s k \<and> covers t k)) (butlast ss @ [?l'])"
    using srt nocov by (auto simp: sorted_wrt_append cov)
  moreover have "(\<exists>s \<in> set (butlast ss @ [?l']). covers s k) \<longleftrightarrow> k \<in> insert (d, p) ks" for k
  proof -
    have "(\<exists>s \<in> set ss. covers s k) \<longleftrightarrow> k \<in> ks"
      using p unfolding partitions_def by blast
    with all[of k] have "(\<exists>s \<in> set (butlast ss). covers s k) \<or> covers ?l k \<longleftrightarrow> k \<in> ks" by blast
    moreover have "(\<exists>s \<in> set (butlast ss @ [?l']). covers s k)
        \<longleftrightarrow> (\<exists>s \<in> set (butlast ss). covers s k) \<or> covers ?l' k" by auto
    ultimately show ?thesis unfolding cov by blast
  qed
  moreover have "proper (butlast ss @ [?l'])"
    using pr ss fl by (auto simp: proper_def dest: in_set_butlastD)
  ultimately show ?thesis by (simp add: partitions_def eq)
qed

lemma foldl_add_section:
  "partitions ss ks \<Longrightarrow> proper ss \<Longrightarrow> distinct (map fst ps) \<Longrightarrow> ks \<inter> fst ` set ps = {} \<Longrightarrow>
     partitions (foldl add_section ss
       (map (\<lambda>((d, p), items). page_section po d p items) ps)) (ks \<union> fst ` set ps)"
proof (induction ps arbitrary: ss ks)
  case (Cons x ps)
  obtain d p cs where x: "x = ((d, p), cs)" by (metis surj_pair)
  with Cons.prems have new: "(d, p) \<notin> ks" by auto
  from add_section_partitions[OF Cons.prems(1,2) this]
  have "partitions (add_section ss (page_section po d p cs)) (insert (d, p) ks)"
    "proper (add_section ss (page_section po d p cs))" by auto
  from Cons.IH[OF this] Cons.prems x show ?case by auto
qed simp

lemma pages_of_keys:
  "fst ` set (pages_of chunks) =
     (\<lambda>p. (pv_document p, pv_page p)) ` (\<Union>c \<in> set chunks. set (chunk_prov c))
   \<and> distinct (map fst (pages_of chunks))"
proof -
  have step: "fst ` set (dict_append k c d) = insert k (fst ` set d)"
    for k :: "string \<times> int" and c :: chunk and d
    unfolding dict_append_def by (simp add: dom_update map_of_update flip: dom_map_of_conv_image_fst)
  have fold: "distinct (map fst d) \<Longrightarrow>
      fst ` set (foldl (\<lambda>d (p, c). dict_append (pv_document p, pv_page p) c d) d ps)
        = fst ` set d \<union> (\<lambda>(p, c). (pv_document p, pv_page p)) ` set ps
      \<and> distinct (map fst (foldl (\<lambda>d (p, c). dict_append (pv_document p, pv_page p) c d) d ps))"
    for d :: "(string \<times> int, chunk list) dict" and ps
  proof (induction ps arbitrary: d)
    case (Cons q ps)
    obtain p c where q: "q = (p, c)" by fastforce
    from Cons.IH[OF distinct_keys_dict_append[OF Cons.prems]] show ?case
      by (simp add: q step)
  qed simp
  let ?l = "concat (map (\<lambda>c. map (\<lambda>p. (p, c)) (chunk_prov c)) chunks)"
  have "(\<lambda>(p, c). (pv_document p, pv_page p)) ` set ?l
      = (\<lambda>p. (pv_document p, pv_page p)) ` (\<Union>c \<in> set chunks. set (chunk_prov c))"
    by (force simp: image_def)
  with fold[of "[]" ?l] show ?thesis by (simp add: pages_of_def)
qed

lemma classify_sections_partition:
  assumes "classify_sections chunks policy = Inr ss"
  shows "partitions ss ((\<lambda>p. (pv_document p, pv_page p)) ` (\<Union>c \<in> set chunks. set (chunk_prov c)))"
proof -
  let ?ps = "sort_key fst (pages_of chunks)"
  have "partitions [] {}" "proper []" by (simp_all add: partitions_def proper_def)
  moreover have "distinct (map fst ?ps)"
    using pages_of_keys[of chunks] by (simp add: distinct_map)
  ultimately have "partitions (foldl add_section []
      (map (\<lambda>((d, p), items). page_section policy d p items) ?ps)) ({} \<union> fst ` set ?ps)"
    by (intro foldl_add_section) auto
  then show ?thesis
    using assms pages_of_keys[of chunks] by (simp add: classify_sections_def res_simps)
qed

lemma classify_sections_error: "classify_sections chunks policy = Inl e \<Longrightarrow> is_value_error e"
  by (auto simp: classify_sections_def res_simps)

end
