(* ===== verification/Evidence.thy ===== *)
theory Evidence
  imports Calculations Nic Classification
begin

text \<open>
  The first half of \<open>reason/evidence_gate.py\<close>: the evidence policy and its validator, the
  profile of a document, reporting years, numeric cells, and the label/value rows of a chunk.
\<close>

section \<open>Policy\<close>

datatype metric_kind = Money | Percent | Ratio | Count | TextKind | DateKind

record metric_rule =
  mr_sources :: "string list"
  mr_labels :: "string list"
  mr_kind :: metric_kind
  mr_period :: bool
  mr_basis :: bool
  mr_nic_level :: "nat option"
  mr_table_column :: "string option"
  mr_heading :: "pattern option"
  mr_context_labels :: "string list"

record source_approval =
  ap_application :: string
  ap_document :: string
  ap_provider :: string
  ap_approval :: string
  ap_approved_by :: string
  ap_reason :: string

type_synonym pattern_rules = "(string, pattern list) dict"

text \<open>
  \<open>po_json\<close> is what \<open>model_dump_json()\<close> of the policy returns: pydantic's serialisation. The
  tuple \<open>entity_patterns\<close> is \<open>po_owner # po_titles\<close>: the code reads its first element, the
  explicit owner field, apart from the others, the title patterns.
\<close>

record evidence_policy =
  po_json :: string
  po_classification :: classification_policy
  po_max_chunks :: nat
  po_regions :: pattern_rules
  po_document_types :: pattern_rules
  po_owner :: pattern
  po_titles :: "pattern list"
  po_bases :: pattern_rules
  po_declarations :: "pattern list"
  po_scope :: pattern_rules
  po_scope_conflicts :: "pattern list"
  po_units :: pattern_rules
  po_unit_to_crore :: "(string, dec) dict"
  po_metrics :: "(string, metric_rule) dict"
  po_calculations :: "(string, string) dict"
  po_alternatives :: "(string, string list) dict"
  po_operands :: "(string, metric_rule) dict"
  po_approvals :: "source_approval list"

definition policy_hash :: "evidence_policy \<Rightarrow> string" where
  "policy_hash p = sha256_hex (po_json p)"

definition formula_choices :: "evidence_policy \<Rightarrow> string \<Rightarrow> string list option" where
  "formula_choices p metric =
     map_option (\<lambda>f. f # dict_get_default (po_alternatives p) metric []) (map_of (po_calculations p) metric)"

definition dscr_family :: "string \<Rightarrow> string" where
  "dscr_family f =
     (if starts_with ''dscr_noi_'' f then ''noi'' else if contains ''cash_accrual'' f then ''cash_accrual''
      else ''cfads'')"

fun validate_calculations :: "evidence_policy \<Rightarrow> (string, string) dict \<Rightarrow> unit res" where
  "validate_calculations p [] = Inr ()"
| "validate_calculations p ((metric, primary) # cs) =
     (let choices = primary # dict_get_default (po_alternatives p) metric [] in
      raise_if (list_ex (\<lambda>f. case map_of FORMULAS f of None \<Rightarrow> True | Some g \<Rightarrow> fm_metric g \<noteq> metric) choices)
        (ValueError ''formula does not match metric'')
     (raise_if (metric = ''dscr'' \<and> length (uniq (map dscr_family choices)) \<noteq> 1)
        (ValueError ''DSCR definitions cannot be mixed as fallbacks'')
     (validate_calculations p cs)))"

definition validate_formula_policy :: "evidence_policy \<Rightarrow> unit res" where
  "validate_formula_policy p =
     (let scopes = map (\<lambda>a. (ap_application a, ap_document a)) (po_approvals p) in
      raise_if (length scopes \<noteq> length (uniq scopes)) (ValueError ''duplicate source approval scope'')
     (res_bind (validate_calculations p (po_calculations p)) (\<lambda>_.
      raise_if (list_ex (\<lambda>m. \<not> dict_has (po_calculations p) m) (map fst (po_alternatives p)))
        (ValueError ''calculation alternatives require a primary formula'') (Inr ()))))"

section \<open>Matching and identity\<close>

definition rule_keys :: "string \<Rightarrow> pattern_rules \<Rightarrow> string list" where   \<comment> \<open>\<open>_matches\<close>\<close>
  "rule_keys t rules = map fst (filter (\<lambda>(k, ps). any_pattern ps t) rules)"

definition title_rx :: rx where
  "title_rx = seqs [Caret, Star space_rx,
     alts [seqs [Lit ''m'', Star space_rx, Lit ''/'', Star space_rx, Lit ''s'', opt_rx (Lit ''.'')],
           seqs [Lit ''messrs'', opt_rx (Lit ''.'')]],
     plus_rx space_rx]"

text \<open>The letters and digits of a name, without a leading honorific, \<open>limited\<close> shortened.\<close>

definition normalized_name :: "string \<Rightarrow> string" where
  "normalized_name v =
     filter (\<lambda>c. is_lower c \<or> is_digit c)
       (replace_all ''limited'' ''ltd'' (casefold (re_sub True False title_rx [] v)))"

definition identity :: "string \<Rightarrow> string" where
  "identity v = sha256_hex (normalized_name v)"

section \<open>Document profile\<close>

record document_profile =
  pr_document :: string
  pr_types :: "string list"
  pr_entity :: "string option"
  pr_ambiguous :: bool

definition chunk_texts :: "chunk list \<Rightarrow> string" where
  "chunk_texts cs = join newline (map chunk_text cs)"

definition pattern_identities :: "pattern \<Rightarrow> string \<Rightarrow> string list" where
  "pattern_identities p t =
     map (\<lambda>m. identity (case m_group 1 m of Some g \<Rightarrow> g | None \<Rightarrow> []))
       (re_finditer (inline_i p) (inline_m p) (tree p) t)"

definition document_identities :: "evidence_policy \<Rightarrow> chunk list \<Rightarrow> string list" where
  "document_identities policy cs =
     (let explicit = pattern_identities (po_owner policy) (chunk_texts cs);
          heading = chunk_texts (filter (on_pages [1]) cs)
      in uniq (if explicit \<noteq> [] then explicit
               else concat (map (\<lambda>p. pattern_identities p heading) (po_titles policy))))"

definition report_vetoes :: "string list" where
  "report_vetoes = [''audited_financials'', ''registration'', ''agreement'', ''utility_bill'', ''no_dues'']"

definition profile :: "string \<Rightarrow> chunk list \<Rightarrow> evidence_policy \<Rightarrow> document_profile" where
  "profile document cs policy =
     (let ids = document_identities policy cs;
          types = rule_keys (chunk_texts cs) (po_document_types policy);
          types = (if ''financial_information_report'' \<in> set types
                   then filter (\<lambda>t. t \<notin> set report_vetoes) types else types)
      in \<lparr>pr_document = document, pr_types = types,
          pr_entity = (case ids of [i] \<Rightarrow> Some i | _ \<Rightarrow> None), pr_ambiguous = (1 < length ids)\<rparr>)"

section \<open>Reporting years\<close>

definition year_rx :: rx where
  "year_rx = seqs [Bound, opt_rx (Seq (Lit ''FY'') (Star space_rx)), Grp 1 (Seq (Lit ''20'') (Rep digit_rx 2 0)),
     opt_rx (seqs [Star space_rx, alts [chars_rx ''-/'', Lit en_dash], Star space_rx,
       Grp 2 (alts [Seq (Lit ''20'') (Rep digit_rx 2 0), Rep digit_rx 2 0])]), Bound]"

definition match_year :: "rxm \<Rightarrow> nat" where
  "match_year m =
     (case m_group 2 m of
        Some end \<Rightarrow> nat_of_digits (if length end = 4 then end else ''20'' @ end)
      | None \<Rightarrow> (case m_group 1 m of Some y \<Rightarrow> nat_of_digits y | None \<Rightarrow> 0))"

definition years :: "string \<Rightarrow> nat list" where   \<comment> \<open>\<open>_years\<close>\<close>
  "years t = uniq (map match_year (re_finditer True False year_rx t))"

definition report_line_rx :: rx where
  "report_line_rx = Seq Bound (alts [seqs [Lit ''FY'', Star space_rx, Lit ''20''], Lit ''financial year'',
     Lit ''year ended'', Lit ''period end'', Lit ''as at'', Lit ''particulars'', Lit ''metric''])"

definition dated_heading_rx :: rx where
  "dated_heading_rx = seqs [Caret, Star space_rx, Lit ''|'', Star space_rx,
     alts [Lit ''balance sheet'', seqs [Lit ''profit '', alts [Lit ''and'', Lit ''&''], Lit '' loss''],
           Lit ''income statement''],
     Star (not_chars_rx ''|''), Lit ''|'', Star space_rx, Rep digit_rx 1 1, plus_rx space_rx,
     Rep (Cls False [(CHR ''A'', CHR ''Z''), (CHR ''a'', CHR ''z'')]) 3 6, opt_rx (Lit '',''), plus_rx space_rx,
     Lit ''20'', Rep digit_rx 2 0, Star space_rx, Lit ''|'']"

definition report_years :: "string \<Rightarrow> nat list" where   \<comment> \<open>\<open>_report_years\<close>\<close>
  "report_years t =
     concat (map years (filter (\<lambda>l. found (re_search True False report_line_rx l)
       \<or> found (re_search True False dated_heading_rx l)) (splitlines t)))"

section \<open>Numeric cells\<close>

definition plain_number_rx :: rx where
  "plain_number_rx = Seq (plus_rx digit_rx) (opt_rx (Seq (Lit ''.'') (plus_rx digit_rx)))"

definition number_text :: "string \<Rightarrow> string" where
  "number_text t =
     (let v = strip (re_sub False False (seqs [Star space_rx, Lit ''%'', Dollar]) []
            (replace_all '','' [] (strip t)));
          v = re_sub True False
            (seqs [Star space_rx, alts [Lit ''times'', Lit ''x''], Star space_rx, Dollar]) [] v
      in if found (re_fullmatch False False (seqs [Lit ''('', plain_number_rx, Lit '')'']) v)
         then CHR ''-'' # butlast (tl v) else v)"

definition numeric_cell :: "string \<Rightarrow> dec option" where
  "numeric_cell t =
     (let v = number_text t in
      if found (re_fullmatch False False (Seq (opt_rx (chars_rx ''-+'')) plain_number_rx) v)
      then decimal_of_string v else None)"

section \<open>Rows\<close>

type_synonym row = "string \<times> string option"

definition label_rx :: "metric_rule \<Rightarrow> rx" where
  "label_rx rule = alts (map Lit (mr_labels rule))"

definition header_cell_rx :: rx where
  "header_cell_rx = alts [Lit ''particulars'', Lit ''metric'', Lit ''description'', Lit ''financial year'',
     Lit ''year'', Seq (Lit ''balance sheet'') (Star dot_rx),
     seqs [Lit ''profit '', plus_rx (chars_rx ''& ''), Lit ''loss'', Star dot_rx],
     Seq (Lit ''ratios'') (Star dot_rx)]"

definition numbering_rx :: rx where
  "numbering_rx = alts [plus_rx digit_rx, Cls False [(CHR ''a'', CHR ''z'')], plus_rx (chars_rx ''ivx'')]"

definition qualifier_rx :: rx where   \<comment> \<open>\<open>\s*(?:\([^)]*\))?\<close>\<close>
  "qualifier_rx = Seq (Star space_rx) (opt_rx (seqs [Lit ''('', Star (not_chars_rx '')''), Lit '')'']))"

definition label_cell_rx :: "metric_rule \<Rightarrow> rx" where
  "label_cell_rx rule = seqs [opt_rx (Seq numbering_rx (plus_rx (chars_rx '' .)-''))), label_rx rule,
     qualifier_rx, Star space_rx, opt_rx (Lit ''*'')]"

definition label_line_rx :: "metric_rule \<Rightarrow> rx" where
  "label_line_rx rule = seqs [Caret, Star space_rx, label_rx rule, qualifier_rx, Star space_rx,
     alts [chars_rx '':|'', Dollar]]"

definition context_ok :: "metric_rule \<Rightarrow> chunk \<Rightarrow> bool" where
  "context_ok rule c =
     (mr_context_labels rule = [] \<or>
      list_ex (\<lambda>l. found (re_search True False (Lit l) (row_text c))) (mr_context_labels rule))"

text \<open>Heading lines that match the heading pattern and name the expected entity.\<close>

definition heading_rows :: "chunk \<Rightarrow> metric_rule \<Rightarrow> string option \<Rightarrow> row list" where
  "heading_rows c rule expected =
     (case (mr_heading rule, expected) of
        (Some p, Some entity) \<Rightarrow>
          if entity = [] then []
          else map (\<lambda>n. (n, None)) (uniq (filter
                 (\<lambda>l. found (re_fullmatch (inline_i p) (inline_m p) (tree p) l) \<and> identity l = entity)
                 (map strip (splitlines (chunk_text c)))))
      | _ \<Rightarrow> [])"

definition nic_text :: "nat \<Rightarrow> nic_activity \<Rightarrow> string" where
  "nic_text level a =
     (if level = 2 then nic_division_description a
      else if level = 4 then nic_class_description a else nic_subclass_description a)"

definition nic_rows :: "chunk \<Rightarrow> metric_rule \<Rightarrow> row list res" where
  "nic_rows c rule =
     (case mr_nic_level rule of
        None \<Rightarrow> Inr []
      | Some level \<Rightarrow>
          if \<not> is_table c then Inr []
          else (case activities (table_text c) of
                  Inl _ \<Rightarrow> insufficient ''evidence_conflicting_values''
                | Inr as \<Rightarrow> Inr (if as = [] then []
                    else [(join ''; '' (uniq (map (nic_text level) as)), None)])))"

fun column_values :: "string \<Rightarrow> string list option \<Rightarrow> string list \<Rightarrow> string list" where
  "column_values col header [] = []"
| "column_values col header (line # ls) =
     (let cells = cells_of line; lowered = map casefold cells in
      if casefold col \<in> set lowered then column_values col (Some lowered) ls
      else (case header of
              None \<Rightarrow> column_values col header ls
            | Some h \<Rightarrow>
                if length cells = length h \<and> \<not> rule_row cells \<and> cell_at h cells (casefold col) \<noteq> []
                then cell_at h cells (casefold col) # column_values col header ls
                else column_values col header ls))"

definition column_rows :: "chunk \<Rightarrow> metric_rule \<Rightarrow> row list" where
  "column_rows c rule =
     (case mr_table_column rule of
        None \<Rightarrow> []
      | Some col \<Rightarrow>
          if col = [] \<or> \<not> is_table c then []
          else (let vs = column_values col None (splitlines (table_text c)) in
                if vs = [] then [] else [(join ''; '' (uniq vs), None)]))"

definition is_header :: "string list \<Rightarrow> bool" where
  "is_header cells =
     (1 < length cells \<and> list_ex (\<lambda>c. found (re_fullmatch True False header_cell_rx c)) cells
      \<and> list_ex (\<lambda>c. years c \<noteq> []) (tl cells))"

text \<open>A table row: nothing, one row, or an error.\<close>

definition table_row :: "metric_rule \<Rightarrow> string list \<Rightarrow> string list \<Rightarrow> row list res" where
  "table_row rule headers cells =
     (let indexed = zip [0..<length cells] cells;
          positions = map fst (filter (\<lambda>(i, c). found (re_fullmatch True False (label_cell_rx rule) c)) indexed)
      in case positions of
        [label_index] \<Rightarrow>
          if list_ex (\<lambda>c. c \<noteq> [] \<and> \<not> found (re_fullmatch True False
               (Seq numbering_rx (Star (chars_rx '' .)-''))) c)) (take label_index cells) then Inr []
          else
            let vals = filter (\<lambda>(i, c). label_index < i \<and> c \<noteq> [] \<and> c \<noteq> ''-'' \<and> c \<noteq> em_dash) indexed in
            if vals \<noteq> [] \<and> list_all (\<lambda>(i, c). years c \<noteq> [] \<and> numeric_cell c = None) vals then Inr []
            else if mr_period rule then
              if length headers \<noteq> length cells then insufficient ''evidence_period_ambiguous''
              else
                let dated = concat (map (\<lambda>(i, c). case years (headers ! i) of [y] \<Rightarrow> [(c, y)] | _ \<Rightarrow> []) vals) in
                if dated = [] then insufficient ''evidence_period_ambiguous''
                else
                  let newest = Max (set (map snd dated));
                      selected = map (\<lambda>(c, y). (c, Some (str_of_nat y))) (filter (\<lambda>(c, y). y = newest) dated)
                  in if length selected \<noteq> 1 then insufficient ''evidence_period_ambiguous''
                     else Inr selected
            else (case vals of [(i, c)] \<Rightarrow> Inr [(c, None)] | _ \<Rightarrow> insufficient ''evidence_value_ambiguous'')
      | _ \<Rightarrow> Inr [])"

text \<open>A line of one cell: the value follows the label, or stands on the next line.\<close>

definition plain_row ::
  "metric_rule \<Rightarrow> chunk \<Rightarrow> string \<Rightarrow> string list \<Rightarrow> row list res" where
  "plain_row rule c line rest =
     (case re_match True False (label_line_rx rule) (strip_chars ''|'' (strip line)) of
        None \<Rightarrow> Inr []
      | Some m \<Rightarrow>
          let v = strip (drop (length (m_text m)) (strip line));
              v' = (if v = [] \<and> rest \<noteq> [] then strip (hd rest) else v);
              skip = (v = [] \<and> rest \<noteq> [] \<and> (v' = [] \<or> starts_with ''|'' v'));
              ys = uniq (report_years (chunk_text c))
          in if skip then Inr []
             else if mr_period rule \<and> length ys \<noteq> 1 then insufficient ''evidence_period_ambiguous''
             else Inr [(v', if mr_period rule then Some (str_of_nat (hd ys)) else None)])"

fun line_rows ::
  "metric_rule \<Rightarrow> chunk \<Rightarrow> string list \<Rightarrow> string list \<Rightarrow> row list res" where
  "line_rows rule c headers [] = Inr []"
| "line_rows rule c headers (line # rest) =
     (let cells = cells_of line; headers' = (if is_header cells then cells else headers) in
      res_bind (if 1 < length cells then table_row rule headers' cells else plain_row rule c line rest)
        (\<lambda>r. res_bind (line_rows rule c headers' rest) (\<lambda>rs. Inr (r @ rs))))"

definition rows :: "chunk \<Rightarrow> metric_rule \<Rightarrow> string option \<Rightarrow> row list res" where   \<comment> \<open>\<open>_rows\<close>\<close>
  "rows c rule expected =
     (if \<not> context_ok rule c then Inr []
      else if heading_rows c rule expected \<noteq> [] then Inr (heading_rows c rule expected)
      else res_bind (nic_rows c rule) (\<lambda>nic.
        if nic \<noteq> [] then Inr nic
        else if column_rows c rule \<noteq> [] then Inr (column_rows c rule)
        else line_rows rule c [] (splitlines (row_text c))))"

end
