(* ===== verification/Basis.thy ===== *)
theory Basis
  imports Evidence
begin

text \<open>
  \<open>reason/basis.py\<close> and \<open>reason/interpretations.py\<close>: whether a figure is standalone or
  consolidated, resolved from the page or from a dated declaration of the same report, or from
  a reviewer's context link, and the links that are offered for review.
\<close>

type_synonym basis_result = "string \<times> string \<times> citation list"

definition chunk_citations :: "chunk list \<Rightarrow> citation list" where
  "chunk_citations cs = concat (map (\<lambda>c. map citation_from_provenance (chunk_prov c)) cs)"

definition declares :: "evidence_policy \<Rightarrow> string \<Rightarrow> bool" where
  "declares policy t = list_ex (\<lambda>p. pattern_found True True p t) (po_declarations policy)"

definition year_of :: "string \<Rightarrow> nat" where   \<comment> \<open>\<open>int(period)\<close>\<close>
  "year_of p = nat_of_digits p"

section \<open>Automatic resolution\<close>

fun declared_bases ::
  "evidence_policy \<Rightarrow> chunk list \<Rightarrow> string option \<Rightarrow> chunk list \<Rightarrow> (string \<times> chunk) list res" where
  "declared_bases policy source period [] = Inr []"
| "declared_bases policy source period (c # cs) =
     (if \<not> declares policy (chunk_text c) then declared_bases policy source period cs
      else (case rule_keys (chunk_text c) (po_bases policy) of
        [basis] \<Rightarrow>
          (let context = filter (on_pages (chunk_pages c)) source;
               ys = report_years (chunk_texts context)
           in case period of
                None \<Rightarrow> declared_bases policy source period cs
              | Some p \<Rightarrow>
                  if year_of p \<notin> set ys then declared_bases policy source period cs
                  else res_bind (declared_bases policy source period cs) (\<lambda>ds.
                    Inr (map (\<lambda>d. (basis, d))
                      (filter (\<lambda>d. d = c \<or> year_of p \<in> set (report_years (chunk_text d))) context) @ ds)))
      | _ \<Rightarrow> insufficient ''evidence_basis_ambiguous''))"

definition resolve_basis ::
  "chunk \<Rightarrow> chunk list \<Rightarrow> string option \<Rightarrow> evidence_policy \<Rightarrow> basis_result res" where
  "resolve_basis target source period policy =
     (let documents = chunk_documents target in
      raise_if (length documents \<noteq> 1
          \<or> list_ex (\<lambda>c. list_ex (\<lambda>p. pv_document p \<notin> set documents) (chunk_prov c)) source)
        (EvidenceInsufficient ''evidence_scope_violation'')
      (let local_chunks = filter (on_pages (chunk_pages target)) source;
           local_bases = rule_keys (chunk_texts local_chunks) (po_bases policy)
       in raise_if (1 < length local_bases) (EvidenceInsufficient ''evidence_basis_ambiguous'')
         (case local_bases of
            [basis] \<Rightarrow>
              Inr (basis, ''same_page'',
                uniq (chunk_citations
                  (filter (\<lambda>c. basis \<in> set (rule_keys (chunk_text c) (po_bases policy))) local_chunks)))
          | _ \<Rightarrow>
              res_bind (declared_bases policy source period source) (\<lambda>declarations.
              raise_if (1 < length (rule_keys (chunk_texts source) (po_bases policy))
                  \<or> length (uniq (map fst declarations)) \<noteq> 1)
                (EvidenceInsufficient ''evidence_basis_ambiguous'')
              (Inr (fst (hd declarations), ''report_declaration'',
                uniq (chunk_citations (map snd declarations))))))))"

section \<open>Reviewer links\<close>

definition ground_res :: "citation \<Rightarrow> citation list \<Rightarrow> citation res" where
  "ground_res c cs =
     (case ground_citation minimum_iou c cs of
        Inl _ \<Rightarrow> insufficient ''evidence_citation_ambiguous'' | Inr d \<Rightarrow> Inr d)"

fun link_context ::
  "string \<Rightarrow> chunk list \<Rightarrow> citation list \<Rightarrow> chunk list res" where
  "link_context document source [] = Inr []"
| "link_context document source (c # cs) =
     raise_if (ct_document c \<noteq> document) (EvidenceInsufficient ''evidence_scope_violation'')
    (res_bind (ground_res c (chunk_citations source)) (\<lambda>canonical.
     res_bind (link_context document source cs) (\<lambda>rest.
     Inr (filter (\<lambda>k. canonical \<in> set (map citation_from_provenance (chunk_prov k))) source @ rest))))"

definition scope_groups :: "string list" where
  "scope_groups = [''audit'', ''scope'', ''statements'', ''preparation'']"

definition scope_patterns :: "evidence_policy \<Rightarrow> string \<Rightarrow> pattern list" where
  "scope_patterns policy name = dict_get_default (po_scope policy) name []"

text \<open>\<open>resolve_reporting_scope\<close>: the determination a reviewer may make when a report is silent.\<close>

definition resolve_reporting_scope ::
  "basis_interpretation \<Rightarrow> chunk list \<Rightarrow> chunk list \<Rightarrow> string \<Rightarrow> evidence_policy \<Rightarrow> basis_result res" where
  "resolve_reporting_scope link source selected period policy =
     (let owner = profile (ip_document link) source policy in
      raise_if (pr_ambiguous owner \<or> pr_entity owner = None \<or> ip_entity_hash link \<noteq> pr_entity owner)
        (EvidenceInsufficient ''evidence_entity_ambiguous'')
     (raise_if (rule_keys (chunk_texts source) (po_bases policy) \<noteq> [])
        (EvidenceInsufficient ''evidence_basis_ambiguous'')
     (raise_if (ip_basis link \<noteq> ''standalone'') (EvidenceInsufficient ''evidence_basis_ambiguous'')
     (raise_if (set (map fst (po_scope policy)) \<noteq> set scope_groups)
        (EvidenceInsufficient ''evidence_basis_ambiguous'')
     (let matched = (\<lambda>name. filter (\<lambda>c. any_pattern (scope_patterns policy name) (chunk_text c)) selected);
          scope_text = chunk_texts
            (filter (\<lambda>c. any_pattern (scope_patterns policy ''scope'') (chunk_text c)) source)
      in raise_if (list_ex (\<lambda>name. matched name = []) scope_groups)
           (EvidenceInsufficient ''evidence_basis_ambiguous'')
        (raise_if (any_pattern (po_scope_conflicts policy) scope_text)
           (EvidenceInsufficient ''evidence_basis_ambiguous'')
        (raise_if (set (report_years scope_text) \<noteq> {year_of period})
           (EvidenceInsufficient ''evidence_period_ambiguous'')
        (let audit_pages = concat (map chunk_pages (matched ''audit''));
             audit_context = filter (on_pages audit_pages) selected
         in raise_if (\<not> list_all (on_pages audit_pages) (matched ''scope''))
              (EvidenceInsufficient ''evidence_period_ambiguous'')
           (let cited = profile (ip_document link) audit_context policy in
            raise_if (pr_ambiguous cited \<or> pr_entity cited \<noteq> pr_entity owner)
              (EvidenceInsufficient ''evidence_entity_ambiguous'')
            (Inr (ip_basis link, ''reviewer_reporting_scope'', ip_context link)))))))))))"

definition resolve_interpretation ::
  "basis_interpretation \<Rightarrow> chunk \<Rightarrow> chunk list \<Rightarrow> string option \<Rightarrow> evidence_policy \<Rightarrow> basis_result res" where
  "resolve_interpretation link target source period policy =
     raise_if (ip_policy_hash link \<noteq> policy_hash policy \<or> Some (ip_period link) \<noteq> period)
       (EvidenceInsufficient ''evidence_context_conflict'')
    (raise_if (list_ex (\<lambda>c. list_ex (\<lambda>p. pv_document p \<noteq> ip_document link) (chunk_prov c)) source)
       (EvidenceInsufficient ''evidence_scope_violation'')
    (raise_if (chunk_id target \<noteq> ip_target_chunk link) (EvidenceInsufficient ''evidence_citation_ambiguous'')
    (res_bind (ground_res (ip_target_citation link) (map citation_from_provenance (chunk_prov target))) (\<lambda>_.
     res_bind (link_context (ip_document link) source (ip_context link)) (\<lambda>selected.
     let t = chunk_texts selected in
     if ip_authority link = ''reporting_scope''
     then resolve_reporting_scope link source selected (ip_period link) policy
     else
       raise_if (\<not> declares policy t) (EvidenceInsufficient ''evidence_basis_ambiguous'')
      (raise_if (set (rule_keys t (po_bases policy)) \<noteq> {ip_basis link}
          \<or> set (report_years t) \<noteq> {year_of (ip_period link)})
         (EvidenceInsufficient ''evidence_basis_ambiguous'')
      (let bases = rule_keys (chunk_texts (filter (on_pages (chunk_pages target)) source)) (po_bases policy) in
       raise_if (bases \<noteq> [] \<and> set bases \<noteq> {ip_basis link}) (EvidenceInsufficient ''evidence_basis_ambiguous'')
         (Inr (ip_basis link, ''reviewer_context_link'', ip_context link)))))))))"

section \<open>Options for review\<close>

text \<open>The reporting periods of the rows that need a basis; \<open>None\<close> when a row is ambiguous.\<close>

definition basis_rules :: "evidence_policy \<Rightarrow> metric_rule list" where
  "basis_rules policy = filter mr_basis (map snd (po_metrics policy) @ map snd (po_operands policy))"

definition target_periods :: "evidence_policy \<Rightarrow> chunk \<Rightarrow> string option list option" where
  "target_periods policy c =
     (case res_map (\<lambda>r. rows c r None) (basis_rules policy) of
        Inl _ \<Rightarrow> None | Inr rss \<Rightarrow> Some (map snd (concat rss)))"

definition dated_declarations ::
  "evidence_policy \<Rightarrow> chunk list \<Rightarrow> (chunk \<times> string \<times> string) list" where
  "dated_declarations policy chunks =
     concat (map (\<lambda>c.
       if length (chunk_prov c) \<noteq> 1 \<or> \<not> declares policy (chunk_text c) then []
       else (case (rule_keys (chunk_text c) (po_bases policy), uniq (report_years (chunk_text c))) of
               ([b], [y]) \<Rightarrow> [(c, b, str_of_nat y)] | _ \<Rightarrow> [])) chunks)"

definition link_options :: "evidence_policy \<Rightarrow> chunk list \<Rightarrow> basis_interpretation list" where
  "link_options policy chunks =
     concat (map (\<lambda>target.
       case cite_prov target of
         [p] \<Rightarrow>
           (case target_periods policy target of
              None \<Rightarrow> []
            | Some periods \<Rightarrow>
                concat (map (\<lambda>(d, basis, period).
                  if pv_document (hd (chunk_prov d)) \<noteq> pv_document p \<or> d = target \<or> Some period \<notin> set periods
                  then []
                  else [\<lparr>ip_document = pv_document p, ip_target_chunk = chunk_id target,
                         ip_target_citation = citation_from_provenance p, ip_basis = basis,
                         ip_period = period, ip_policy_hash = policy_hash policy,
                         ip_context = [citation_from_provenance (hd (chunk_prov d))],
                         ip_authority = ''context_link'', ip_entity_hash = None\<rparr>])
                  (dated_declarations policy chunks)))
       | _ \<Rightarrow> []) chunks)"

definition first_match_in :: "chunk list \<Rightarrow> (chunk \<Rightarrow> bool) \<Rightarrow> chunk list" where
  "first_match_in cs P = (case List.find P cs of None \<Rightarrow> [] | Some c \<Rightarrow> [c])"

definition document_source :: "chunk list \<Rightarrow> string \<Rightarrow> chunk list" where
  "document_source chunks document =
     sort_key (\<lambda>c. (pv_page (hd (chunk_prov c)), by0 (pv_bbox (hd (chunk_prov c))), chunk_id c))
       (filter (\<lambda>c. chunk_documents c = [document]) chunks)"

definition scope_citations :: "evidence_policy \<Rightarrow> string \<Rightarrow> chunk list \<Rightarrow> citation list" where
  "scope_citations policy document source =
     (let owner = profile document source policy;
          first_page = filter (on_pages [1]) source;
          selected = concat (map (\<lambda>(n, ps). first_match_in source (\<lambda>c. any_pattern ps (chunk_text c)))
                (po_scope policy))
            @ first_match_in first_page (\<lambda>c. pr_entity (profile document [c] policy) = pr_entity owner)
            @ first_match_in first_page (\<lambda>c. report_years (chunk_text c) \<noteq> [])
      in uniq (chunk_citations selected))"

definition scope_option ::
  "evidence_policy \<Rightarrow> string \<Rightarrow> chunk list \<Rightarrow> chunk \<Rightarrow> basis_interpretation list" where
  "scope_option policy document source target =
     (case (cite_prov target, target_periods policy target) of
        ([p], Some periods) \<Rightarrow>
          (case uniq periods of
             [Some period] \<Rightarrow>
               let link = \<lparr>ip_document = document, ip_target_chunk = chunk_id target,
                     ip_target_citation = citation_from_provenance p, ip_basis = ''standalone'',
                     ip_period = period, ip_policy_hash = policy_hash policy,
                     ip_context = scope_citations policy document source,
                     ip_authority = ''reporting_scope'',
                     ip_entity_hash = pr_entity (profile document source policy)\<rparr>
               in (case resolve_interpretation link target source (Some period) policy of
                     Inl _ \<Rightarrow> [] | Inr _ \<Rightarrow> [link])
           | _ \<Rightarrow> [])
      | _ \<Rightarrow> [])"

definition document_scope_options ::
  "evidence_policy \<Rightarrow> chunk list \<Rightarrow> string \<Rightarrow> basis_interpretation list" where
  "document_scope_options policy chunks document =
     (let source = document_source chunks document;
          n = length (scope_citations policy document source) in
      if pr_entity (profile document source policy) = None \<or> n < 1 \<or> 8 < n then []
      else concat (map (scope_option policy document source) source))"

definition reporting_scope_options ::
  "chunk list \<Rightarrow> evidence_policy \<Rightarrow> nat \<Rightarrow> basis_interpretation list" where
  "reporting_scope_options chunks policy budget =
     take budget (concat (map (document_scope_options policy chunks)
       (sort (uniq (concat (map (\<lambda>c. map pv_document (chunk_prov c)) chunks))))))"

definition option_limit :: nat where
  "option_limit = 100"

definition interpretation_options ::
  "chunk list \<Rightarrow> evidence_policy \<Rightarrow> basis_interpretation list" where
  "interpretation_options chunks policy =
     (let options = link_options policy chunks in
      if option_limit \<le> length options then take option_limit options
      else options @ reporting_scope_options chunks policy (option_limit - length options))"

section \<open>Lemmas\<close>

lemma declared_bases_error: "declared_bases policy source period cs = Inl e \<Longrightarrow> e = EvidenceInsufficient ''evidence_basis_ambiguous''"
  by (induction cs) (auto simp: Let_def res_bind_Inl_iff split: if_splits list.splits option.splits)

lemma declared_bases_Inr:
  "declared_bases policy source period cs = Inr ds \<Longrightarrow> (b, d) \<in> set ds \<Longrightarrow>
     \<exists>c \<in> set cs. declares policy (chunk_text c) \<and> rule_keys (chunk_text c) (po_bases policy) = [b]
       \<and> d \<in> set source \<and> on_pages (chunk_pages c) d
       \<and> (\<exists>p. period = Some p \<and> (d = c \<or> year_of p \<in> set (report_years (chunk_text d))))"
proof (induction cs arbitrary: ds)
  case (Cons c cs)
  show ?case
  proof (cases "declares policy (chunk_text c)")
    case False
    with Cons.prems Cons.IH show ?thesis by simp
  next
    case True
    with Cons.prems(1) obtain basis where basis: "rule_keys (chunk_text c) (po_bases policy) = [basis]"
      by (auto split: list.splits)
    show ?thesis
    proof (cases "\<exists>p. period = Some p \<and>
        year_of p \<in> set (report_years (chunk_texts (filter (on_pages (chunk_pages c)) source)))")
      case False
      with Cons.prems True basis have "declared_bases policy source period cs = Inr ds"
        by (auto simp: Let_def split: option.splits)
      with Cons.IH Cons.prems(2) show ?thesis by simp
    next
      case yes: True
      then obtain p where p: "period = Some p"
        "year_of p \<in> set (report_years (chunk_texts (filter (on_pages (chunk_pages c)) source)))" by blast
      with Cons.prems(1) True basis obtain ds' where ds': "declared_bases policy source period cs = Inr ds'"
        and ds: "ds = map (\<lambda>d. (basis, d)) (filter (\<lambda>d. d = c \<or> year_of p \<in> set (report_years (chunk_text d)))
            (filter (on_pages (chunk_pages c)) source)) @ ds'"
        by (auto simp: Let_def res_bind_Inr_iff)
      from Cons.prems(2) ds consider "(b, d) \<in> set ds'"
        | "b = basis" "d \<in> set source" "on_pages (chunk_pages c) d"
          "d = c \<or> year_of p \<in> set (report_years (chunk_text d))"
        by auto
      then show ?thesis
      proof cases
        case 1
        with Cons.IH[OF ds'] show ?thesis by auto
      next
        case 2
        with True basis p show ?thesis by auto
      qed
    qed
  qed
qed simp

lemma rule_keys_subset: "k \<in> set (rule_keys t rules) \<Longrightarrow> k \<in> fst ` set rules"
  by (auto simp: rule_keys_def)

lemma resolve_basis_cases:
  assumes "resolve_basis target source period policy = Inr (b, how, cites)"
  shows "chunk_documents target = [pv_document (hd (chunk_prov target))]
    \<and> (\<forall>c \<in> set source. \<forall>p \<in> set (chunk_prov c). pv_document p = pv_document (hd (chunk_prov target)))
    \<and> (how = ''same_page''
         \<and> rule_keys (chunk_texts (filter (on_pages (chunk_pages target)) source)) (po_bases policy) = [b]
       \<or> how = ''report_declaration''
         \<and> rule_keys (chunk_texts (filter (on_pages (chunk_pages target)) source)) (po_bases policy) = []
         \<and> length (rule_keys (chunk_texts source) (po_bases policy)) \<le> 1
         \<and> (\<exists>p c. period = Some p \<and> c \<in> set source \<and> declares policy (chunk_text c)
              \<and> rule_keys (chunk_text c) (po_bases policy) = [b]))"
proof -
  let ?docs = "chunk_documents target"
  let ?local = "rule_keys (chunk_texts (filter (on_pages (chunk_pages target)) source)) (po_bases policy)"
  from assms have one: "length ?docs = 1"
    and scope: "\<forall>c \<in> set source. \<forall>p \<in> set (chunk_prov c). pv_document p \<in> set ?docs"
    and loc: "length ?local \<le> 1"
    by (auto simp: resolve_basis_def Let_def raise_if_Inr_iff list_ex_iff)
  from one obtain d where d: "?docs = [d]" by (cases ?docs) auto
  then have sd: "set (map pv_document (chunk_prov target)) = {d}"
    unfolding chunk_documents_def by (rule uniq_singletonD)
  then have "chunk_prov target \<noteq> []" by auto
  then have "hd (chunk_prov target) \<in> set (chunk_prov target)" by simp
  with sd have hd: "pv_document (hd (chunk_prov target)) = d" by auto
  consider (page) basis where "?local = [basis]" | (none) "?local = []"
    using loc by (cases ?local) auto
  then show ?thesis
  proof cases
    case page
    with assms one scope d hd show ?thesis
      by (auto simp: resolve_basis_def Let_def raise_if_Inr_iff)
  next
    case none
    with assms obtain ds where ds: "declared_bases policy source period source = Inr ds"
      and all: "length (rule_keys (chunk_texts source) (po_bases policy)) \<le> 1"
      and u: "length (uniq (map fst ds)) = 1" and b: "b = fst (hd ds)" and how: "how = ''report_declaration''"
      by (auto simp: resolve_basis_def Let_def raise_if_Inr_iff res_bind_Inr_iff)
    from u have "ds \<noteq> []" by auto
    then have "(b, snd (hd ds)) \<in> set ds" using b by (metis list.set_sel(1) prod.collapse)
    from declared_bases_Inr[OF ds this] none all how scope d hd show ?thesis by auto
  qed
qed

lemma resolve_basis_error:
  "resolve_basis target source period policy = Inl e \<Longrightarrow> is_value_error e"
  by (auto simp: resolve_basis_def Let_def res_simps split: list.splits dest!: declared_bases_error)

lemma link_context_error: "link_context d source cs = Inl e \<Longrightarrow> \<exists>c. e = EvidenceInsufficient c"
  by (induction cs) (auto simp: res_simps ground_res_def split: sum.splits)

lemma resolve_reporting_scope_cases:
  assumes "resolve_reporting_scope link source selected period policy = Inr (b, how, cites)"
  shows "b = ''standalone'' \<and> ip_basis link = ''standalone'' \<and> how = ''reviewer_reporting_scope''
    \<and> cites = ip_context link
    \<and> rule_keys (chunk_texts source) (po_bases policy) = []
    \<and> (\<exists>h. ip_entity_hash link = Some h \<and> pr_entity (profile (ip_document link) source policy) = Some h)
    \<and> (\<forall>name \<in> set scope_groups. \<exists>c \<in> set selected. any_pattern (scope_patterns policy name) (chunk_text c))"
  using assms
  by (auto simp: resolve_reporting_scope_def Let_def raise_if_Inr_iff list_ex_iff filter_empty_conv)

lemma resolve_interpretation_cases:
  assumes "resolve_interpretation link target source period policy = Inr (b, how, cites)"
  shows "b = ip_basis link \<and> cites = ip_context link \<and> period = Some (ip_period link)
    \<and> ip_policy_hash link = policy_hash policy \<and> chunk_id target = ip_target_chunk link
    \<and> (\<forall>c \<in> set source. \<forall>p \<in> set (chunk_prov c). pv_document p = ip_document link)
    \<and> (how = ''reviewer_reporting_scope'' \<longleftrightarrow> ip_authority link = ''reporting_scope'')
    \<and> (how = ''reviewer_reporting_scope'' \<or> how = ''reviewer_context_link'')"
proof -
  from assms obtain selected where h: "ip_policy_hash link = policy_hash policy" "period = Some (ip_period link)"
    "\<forall>c \<in> set source. \<forall>p \<in> set (chunk_prov c). pv_document p = ip_document link"
    "chunk_id target = ip_target_chunk link"
    and r: "if ip_authority link = ''reporting_scope''
       then resolve_reporting_scope link source selected (ip_period link) policy = Inr (b, how, cites)
       else b = ip_basis link \<and> how = ''reviewer_context_link'' \<and> cites = ip_context link"
    unfolding resolve_interpretation_def Let_def raise_if_Inr_iff res_bind_Inr_iff list_ex_iff
    by (fastforce simp: raise_if_Inr_iff split: if_splits)
  show ?thesis
  proof (cases "ip_authority link = ''reporting_scope''")
    case True
    with r resolve_reporting_scope_cases[of link source selected "ip_period link" policy b how cites] h
    show ?thesis by simp
  next
    case False
    with r h show ?thesis by simp
  qed
qed

lemma resolve_interpretation_error:
  "resolve_interpretation link target source period policy = Inl e \<Longrightarrow> is_value_error e"
  by (auto simp: resolve_interpretation_def resolve_reporting_scope_def ground_res_def Let_def res_simps
      split: if_splits sum.splits dest!: link_context_error)

text \<open>Every reporting-scope option resolves, and no more than the budget are offered.\<close>

lemma scope_option_resolves:
  "link \<in> set (scope_option policy document source target) \<Longrightarrow>
     ip_document link = document \<and> ip_target_chunk link = chunk_id target \<and>
     (\<exists>r. resolve_interpretation link target source (Some (ip_period link)) policy = Inr r)"
  by (auto simp: scope_option_def Let_def split: list.splits option.splits sum.splits) (metis sum.inject(2))+

lemma reporting_scope_options_resolve:
  assumes "link \<in> set (reporting_scope_options chunks policy budget)"
  shows "\<exists>target \<in> set chunks. chunk_id target = ip_target_chunk link \<and>
    (\<exists>r. resolve_interpretation link target (document_source chunks (ip_document link))
       (Some (ip_period link)) policy = Inr r)"
proof -
  from assms obtain d where "link \<in> set (document_scope_options policy chunks d)"
    unfolding reporting_scope_options_def by (auto dest!: in_set_takeD)
  then obtain target where t: "target \<in> set (document_source chunks d)"
    and l: "link \<in> set (scope_option policy d (document_source chunks d) target)"
    by (auto simp: document_scope_options_def Let_def split: if_splits)
  then have "target \<in> set chunks" by (auto simp: document_source_def)
  with scope_option_resolves[OF l] show ?thesis by metis
qed

lemma interpretation_options_bounded: "length (interpretation_options chunks policy) \<le> option_limit"
  by (auto simp: interpretation_options_def reporting_scope_options_def Let_def min_def)

end
