(* ===== verification/CompanyAge.thy ===== *)
theory CompanyAge
  imports PyRegex
begin

text \<open>
  \<open>reason/company_age.py\<close>: reading an incorporation date in one of four layouts, the ISO form
  of a date, and the number of completed years between two dates.
\<close>

section \<open>Dates\<close>

datatype date = Date (d_year: nat) (d_month: nat) (d_day: nat)

text \<open>Dates compare by year, then month, then day.\<close>

instantiation date :: linorder
begin

definition less_eq_date :: "date \<Rightarrow> date \<Rightarrow> bool" where
  "less_eq_date a b =
     (d_year a < d_year b \<or> (d_year a = d_year b \<and>
       (d_month a < d_month b \<or> (d_month a = d_month b \<and> d_day a \<le> d_day b))))"

definition less_date :: "date \<Rightarrow> date \<Rightarrow> bool" where
  "less_date a b = (a \<le> b \<and> \<not> b \<le> a)"

instance
  by standard (auto simp: less_eq_date_def less_date_def intro: date.expand)

end

definition leap :: "nat \<Rightarrow> bool" where
  "leap y = (4 dvd y \<and> (\<not> 100 dvd y \<or> 400 dvd y))"

definition days_in_month :: "nat \<Rightarrow> nat \<Rightarrow> nat" where
  "days_in_month y m =
     (if m = 2 then (if leap y then 29 else 28) else if m \<in> {4, 6, 9, 11} then 30 else 31)"

definition valid_date :: "date \<Rightarrow> bool" where
  "valid_date d =
     (1 \<le> d_year d \<and> d_year d \<le> 9999 \<and> 1 \<le> d_month d \<and> d_month d \<le> 12
      \<and> 1 \<le> d_day d \<and> d_day d \<le> days_in_month (d_year d) (d_month d))"

definition mk_date :: "nat \<Rightarrow> nat \<Rightarrow> nat \<Rightarrow> date res" where
  "mk_date y m d =
     raise_if (\<not> valid_date (Date y m d)) (ValueError ''day is out of range for month'') (Inr (Date y m d))"

section \<open>strptime\<close>

text \<open>The expressions \<open>strptime\<close> puts for \<open>%d\<close>, \<open>%m\<close> and \<open>%Y\<close>, groups 1, 2 and 3.\<close>

definition rx_day :: rx where
  "rx_day = Grp 1 (alts
     [Seq (Lit ''3'') (chars_rx ''01''), Seq (chars_rx ''12'') digit_rx,
      Seq (Lit ''0'') (Cls False [(CHR ''1'', CHR ''9'')]), Cls False [(CHR ''1'', CHR ''9'')],
      Seq (Lit '' '') (Cls False [(CHR ''1'', CHR ''9'')])])"

definition rx_month :: rx where
  "rx_month = Grp 2 (alts
     [Seq (Lit ''1'') (chars_rx ''012''), Seq (Lit ''0'') (Cls False [(CHR ''1'', CHR ''9'')]),
      Cls False [(CHR ''1'', CHR ''9'')]])"

definition rx_year :: rx where
  "rx_year = Grp 3 (Rep digit_rx 4 0)"

definition date_layouts :: "rx list" where
  "date_layouts =
     [seqs [rx_day, Lit ''/'', rx_month, Lit ''/'', rx_year],
      seqs [rx_day, Lit ''-'', rx_month, Lit ''-'', rx_year],
      seqs [rx_year, Lit ''-'', rx_month, Lit ''-'', rx_day],
      seqs [rx_day, Lit ''.'', rx_month, Lit ''.'', rx_year]]"

definition group_nat :: "nat \<Rightarrow> rxm \<Rightarrow> nat" where
  "group_nat g m = (case m_group g m of None \<Rightarrow> 0 | Some s \<Rightarrow> nat_of_digits (strip s))"

definition strptime :: "rx \<Rightarrow> string \<Rightarrow> date res" where
  "strptime layout s =
     (case re_match True False layout s of
        None \<Rightarrow> Inl (ValueError ''time data does not match format'')
      | Some m \<Rightarrow>
          raise_if (m_after m \<noteq> []) (ValueError ''unconverted data remains'')
            (mk_date (group_nat 3 m) (group_nat 2 m) (group_nat 1 m)))"

fun first_layout :: "rx list \<Rightarrow> string \<Rightarrow> date res" where
  "first_layout [] s = Inl (ValueError ''invalid incorporation date'')"
| "first_layout (l # ls) s = (case strptime l s of Inr d \<Rightarrow> Inr d | Inl _ \<Rightarrow> first_layout ls s)"

definition incorporation_date :: "string \<Rightarrow> date res" where
  "incorporation_date value = first_layout date_layouts (strip value)"

section \<open>ISO form\<close>

definition zfill :: "nat \<Rightarrow> string \<Rightarrow> string" where
  "zfill n s = replicate (n - length s) CHR ''0'' @ s"

definition isoformat :: "date \<Rightarrow> string" where
  "isoformat d = zfill 4 (str_of_nat (d_year d)) @ ''-'' @ zfill 2 (str_of_nat (d_month d)) @ ''-'' @
     zfill 2 (str_of_nat (d_day d))"

text \<open>\<open>date.fromisoformat\<close> on the extended calendar form, the only one the source writes.\<close>

definition fromisoformat :: "string \<Rightarrow> date res" where
  "fromisoformat s =
     (case split_on CHR ''-'' s of
        [y, m, d] \<Rightarrow>
          if length y = 4 \<and> length m = 2 \<and> length d = 2 \<and> list_all is_digit (y @ m @ d)
          then mk_date (nat_of_digits y) (nat_of_digits m) (nat_of_digits d)
          else Inl (ValueError ''Invalid isoformat string'')
      | _ \<Rightarrow> Inl (ValueError ''Invalid isoformat string''))"

section \<open>Completed years\<close>

definition completed_years :: "date \<Rightarrow> date \<Rightarrow> int res" where
  "completed_years inc asd =
     raise_if (inc > asd) (ValueError ''incorporation date is after assessment date'')
       (Inr (int (d_year asd) - int (d_year inc)
          - (if d_month asd < d_month inc \<or> (d_month asd = d_month inc \<and> d_day asd < d_day inc)
             then 1 else 0)))"

section \<open>Lemmas\<close>

lemma mk_date_Inr_iff [res_simps]: "mk_date y m d = Inr x \<longleftrightarrow> x = Date y m d \<and> valid_date x"
  by (auto simp: mk_date_def res_simps)

lemma strptime_valid: "strptime l s = Inr d \<Longrightarrow> valid_date d"
  by (auto simp: strptime_def res_simps split: option.splits)

lemma first_layout_valid: "first_layout ls s = Inr d \<Longrightarrow> valid_date d"
  by (induction ls) (auto split: sum.splits dest: strptime_valid)

lemma incorporation_date_valid: "incorporation_date v = Inr d \<Longrightarrow> valid_date d"
  by (simp add: incorporation_date_def first_layout_valid)

lemma first_layout_error: "first_layout ls s = Inl e \<Longrightarrow> e = ValueError ''invalid incorporation date''"
  by (induction ls) (auto split: sum.splits)

lemma length_str_of_nat_le: "n < 10 ^ k \<Longrightarrow> 0 < k \<Longrightarrow> length (str_of_nat n) \<le> k"
proof (induction k arbitrary: n)
  case (Suc k)
  show ?case
  proof (cases "n < 10")
    case True
    then show ?thesis by (subst str_of_nat.simps) simp
  next
    case False
    with Suc.prems have k: "0 < k" by (cases k) auto
    have "n div 10 < 10 ^ k" using Suc.prems by (simp add: less_mult_imp_div_less)
    with Suc.IH k have "length (str_of_nat (n div 10)) \<le> k" by blast
    with False show ?thesis by (subst str_of_nat.simps) simp
  qed
qed simp

lemma nat_of_digits_pad [simp]: "nat_of_digits (replicate k CHR ''0'' @ s) = nat_of_digits s"
proof (induction k)
  case (Suc k)
  have "nat_of_digits (CHR ''0'' # t) = nat_of_digits t" for t
    by (simp add: nat_of_digits_def digit_val_def code_def)
  with Suc show ?case by simp
qed simp

lemma zfill_facts:
  assumes "n < 10 ^ k" "0 < k"
  shows "length (zfill k (str_of_nat n)) = k" "nat_of_digits (zfill k (str_of_nat n)) = n"
    and "list_all is_digit (zfill k (str_of_nat n))" "CHR ''-'' \<notin> set (zfill k (str_of_nat n))"
proof -
  have z: "is_digit CHR ''0''" "\<not> is_digit CHR ''-''" by (simp_all add: is_digit_def in_range_def code_def)
  show "length (zfill k (str_of_nat n)) = k" "nat_of_digits (zfill k (str_of_nat n)) = n"
    using length_str_of_nat_le[OF assms] by (simp_all add: zfill_def)
  show "list_all is_digit (zfill k (str_of_nat n))"
    using str_of_nat_digits[of n] z by (auto simp: zfill_def list_all_iff)
  then show "CHR ''-'' \<notin> set (zfill k (str_of_nat n))"
    using z by (auto simp: list_all_iff)
qed

lemma days_in_month_le: "days_in_month y m \<le> 31"
  by (simp add: days_in_month_def)

text \<open>A date written in ISO form reads back as itself.\<close>

lemma fromisoformat_isoformat:
  assumes "valid_date d"
  shows "fromisoformat (isoformat d) = Inr d"
proof -
  have b: "d_year d < 10 ^ 4" "d_month d < 10 ^ 2" "d_day d < 10 ^ 2"
    using assms days_in_month_le[of "d_year d" "d_month d"] by (auto simp: valid_date_def)
  note y = zfill_facts[OF b(1)] and m = zfill_facts[OF b(2)] and e = zfill_facts[OF b(3)]
  have "split_on CHR ''-'' (isoformat d) =
      [zfill 4 (str_of_nat (d_year d)), zfill 2 (str_of_nat (d_month d)), zfill 2 (str_of_nat (d_day d))]"
    unfolding isoformat_def using y m e by (simp add: split_on_append split_on_no_sep)
  then show ?thesis
    using y m e assms by (simp add: fromisoformat_def res_simps)
qed

text \<open>The date \<open>n\<close> years later, as the code compares it: same month and day.\<close>

definition anniversary :: "date \<Rightarrow> int \<Rightarrow> date" where
  "anniversary d n = Date (nat (int (d_year d) + n)) (d_month d) (d_day d)"

lemma completed_years_Inr:
  assumes "completed_years inc asd = Inr n"
  shows "0 \<le> n \<and> anniversary inc n \<le> asd \<and> asd < anniversary inc (n + 1)"
  using assms
  by (auto simp: completed_years_def res_simps anniversary_def less_eq_date_def less_date_def
      split: if_splits)

lemma completed_years_total: "inc \<le> asd \<Longrightarrow> \<exists>n. completed_years inc asd = Inr n"
  by (auto simp: completed_years_def raise_if_def)

end
