(* ===== verification/Gate.thy ===== *)
theory Gate
  imports Basis CompanyAge
begin

text \<open>
  The second half of \<open>reason/evidence_gate.py\<close>: \<open>BorrowerEvidenceGate\<close>. \<open>direct\<close> is
  \<open>_direct\<close>, the selection of one figure from the chunks of an application; \<open>extract\<close> adds the
  company age and the calculated metrics; \<open>assess\<close> turns outcomes into field assessments.
\<close>

section \<open>The gate\<close>

record gate =
  gt_policy :: evidence_policy
  gt_links :: "basis_interpretation list"
  gt_command :: "string option"
  gt_assessment :: "string option"
  gt_application :: "string option"

definition mk_gate :: "gate \<Rightarrow> gate res" where   \<comment> \<open>\<open>__init__\<close>\<close>
  "mk_gate g =
     raise_if ((gt_links g \<noteq> []) \<noteq> truthy (gt_command g)) (EvidenceInsufficient ''evidence_receipt_invalid'')
    (raise_if (length (uniq (map (\<lambda>i. (ip_document i, ip_target_chunk i)) (gt_links g))) \<noteq> length (gt_links g))
       (EvidenceInsufficient ''evidence_context_conflict'') (Inr g))"

definition metric_rule_of :: "evidence_policy \<Rightarrow> string \<Rightarrow> metric_rule option" where
  "metric_rule_of p metric =
     (case map_of (po_metrics p) metric of Some r \<Rightarrow> Some r | None \<Rightarrow> map_of (po_operands p) metric)"

section \<open>Documents, approvals and the borrower\<close>

definition group_documents :: "chunk list \<Rightarrow> (string, chunk list) dict res" where
  "group_documents chunks =
     raise_if (list_ex (\<lambda>c. length (chunk_documents c) \<noteq> 1) chunks)
       (EvidenceInsufficient ''evidence_document_ambiguous'')
       (Inr (foldl (\<lambda>d c. dict_append (hd (chunk_documents c)) c d) [] chunks))"

definition active_approvals :: "gate \<Rightarrow> (string, source_approval) dict" where
  "active_approvals g =
     foldl (\<lambda>d a. AList.update (ap_document a) a d) []
       (filter (\<lambda>a. Some (ap_application a) = gt_application g) (po_approvals (gt_policy g)))"

definition allowed_types :: "metric_rule \<Rightarrow> string list" where
  "allowed_types rule =
     (if ''audited_financials'' \<in> set (mr_sources rule)
      then mr_sources rule @ [''financial_information_report''] else mr_sources rule)"

definition is_report :: "document_profile \<Rightarrow> bool" where
  "is_report p = (''financial_information_report'' \<in> set (pr_types p))"

definition sources_of ::
  "gate \<Rightarrow> metric_rule \<Rightarrow> document_profile list \<Rightarrow> document_profile list" where
  "sources_of g rule profiles =
     filter (\<lambda>p. list_ex (\<lambda>t. t \<in> set (allowed_types rule)) (pr_types p)
       \<and> (\<not> is_report p \<or> dict_has (active_approvals g) (pr_document p))) profiles"

definition anchors_of :: "gate \<Rightarrow> document_profile list \<Rightarrow> document_profile list" where
  "anchors_of g profiles =
     (let registrations = filter (\<lambda>p. ''registration'' \<in> set (pr_types p)
            \<and> ''agreement'' \<notin> set (pr_types p) \<and> pr_entity p \<noteq> None) profiles
      in if registrations \<noteq> [] then registrations
         else filter (\<lambda>p. list_ex (\<lambda>t. t \<in> {''registration'', ''agreement'', ''audited_financials'', ''pan''}) (pr_types p)
                \<or> (is_report p \<and> dict_has (active_approvals g) (pr_document p))) profiles)"

definition borrower_entity :: "document_profile list \<Rightarrow> string res" where
  "borrower_entity anchors =
     raise_if (list_ex pr_ambiguous anchors) (EvidenceInsufficient ''evidence_entity_ambiguous'')
     (case uniq (List.map_filter pr_entity anchors) of
        [e] \<Rightarrow> Inr e | _ \<Rightarrow> insufficient ''evidence_entity_ambiguous'')"

text \<open>What \<open>_direct\<close> has computed before it looks at the sources.\<close>

record selection =
  sl_documents :: "(string, chunk list) dict"
  sl_sections :: "section_class list"
  sl_sources :: "document_profile list"
  sl_entity :: string
  sl_latest :: "nat option"

definition select_sources :: "gate \<Rightarrow> metric_rule \<Rightarrow> chunk list \<Rightarrow> selection res" where
  "select_sources g rule chunks =
     res_bind (group_documents chunks) (\<lambda>documents.
     let profiles = map (\<lambda>(d, cs). profile d cs (gt_policy g)) documents in
     res_bind (classify_sections chunks (po_classification (gt_policy g))) (\<lambda>sections.
     let sources = sources_of g rule profiles in
     raise_if (sources = [] \<and> list_ex is_report profiles) (EvidenceInsufficient ''evidence_document_type_missing'')
    (res_bind (borrower_entity (anchors_of g profiles)) (\<lambda>entity.
     raise_if (sources = []) (EvidenceInsufficient ''evidence_document_type_missing'')
    (let source_years = concat (map (\<lambda>s. concat (map (\<lambda>c. report_years (chunk_text c))
            (dict_get_default documents (pr_document s) []))) sources) in
     raise_if (mr_period rule \<and> source_years = []) (EvidenceInsufficient ''evidence_period_ambiguous'')
       (Inr \<lparr>sl_documents = documents, sl_sections = sections, sl_sources = sources, sl_entity = entity,
             sl_latest = (if mr_period rule then Some (Max (set source_years)) else None)\<rparr>))))))"

section \<open>One row\<close>

definition kind_unit :: "metric_kind \<Rightarrow> string" where
  "kind_unit k = (case k of Ratio \<Rightarrow> ''x'' | Percent \<Rightarrow> ''%'' | Count \<Rightarrow> ''count'' | TextKind \<Rightarrow> ''text''
     | DateKind \<Rightarrow> ''date'' | Money \<Rightarrow> ''text'')"

definition row_value :: "metric_kind \<Rightarrow> dec \<Rightarrow> string \<Rightarrow> string res" where
  "row_value kind factor raw =
     (case kind of
        DateKind \<Rightarrow> (case incorporation_date raw of
            Inl _ \<Rightarrow> insufficient ''evidence_value_ambiguous'' | Inr d \<Rightarrow> Inr (isoformat d))
      | TextKind \<Rightarrow> raise_if (strip raw = [] \<or> 300 < py_len (strip raw))
            (EvidenceInsufficient ''evidence_value_ambiguous'') (Inr (strip raw))
      | _ \<Rightarrow> (case numeric_cell raw of
            None \<Rightarrow> insufficient ''evidence_value_ambiguous''
          | Some n \<Rightarrow> raise_if (kind = Count \<and> (dec_neg n \<or> \<not> dec_integral n))
              (EvidenceInsufficient ''evidence_value_ambiguous'')
              (Inr (format_f (dec_mul prec28 n factor)))))"

definition regions_of :: "evidence_policy \<Rightarrow> string \<Rightarrow> string list" where
  "regions_of p v =
     (if dict_has (po_regions p) (title v) then [title v]
      else rule_keys v (map (\<lambda>(n, ps). (n, tl ps)) (po_regions p)))"

definition region_value :: "evidence_policy \<Rightarrow> string \<Rightarrow> string \<Rightarrow> string res" where
  "region_value p metric v =
     (if metric \<noteq> ''region'' then Inr v
      else case regions_of p v of [r] \<Rightarrow> Inr r | _ \<Rightarrow> insufficient ''evidence_region_ambiguous'')"

definition chunk_citation :: "chunk \<Rightarrow> citation res" where
  "chunk_citation c =
     (case cite_prov c of
        [p] \<Rightarrow> raise_if (p \<notin> set (chunk_prov c)) (EvidenceInsufficient ''evidence_citation_ambiguous'')
                 (Inr (citation_from_provenance p))
      | _ \<Rightarrow> insufficient ''evidence_citation_ambiguous'')"

text \<open>The unit, the factor and the basis that hold for all rows of a chunk.\<close>

record row_context =
  rc_unit :: string
  rc_factor :: dec
  rc_basis :: "string option"
  rc_resolution :: "string option"
  rc_citations :: "citation list"

definition row_nic :: "metric_rule \<Rightarrow> chunk \<Rightarrow> nic_activity list res" where
  "row_nic rule c =
     (if mr_nic_level rule \<noteq> None \<and> is_table c then activities (table_text c) else Inr [])"

definition row_evidence ::
  "gate \<Rightarrow> string \<Rightarrow> metric_rule \<Rightarrow> document_profile \<Rightarrow> string \<Rightarrow> chunk \<Rightarrow> row_context \<Rightarrow>
   nic_activity list \<Rightarrow> row \<Rightarrow> evidence" where
  "row_evidence g metric rule source entity c ctx nic r =
     (let approval = map_of (active_approvals g) (pr_document source) in
      \<lparr>ev_policy_hash = policy_hash (gt_policy g), ev_metric = metric,
       ev_document_type = hd (sort (filter (\<lambda>t. t \<in> set (allowed_types rule)) (pr_types source))),
       ev_entity_hash = entity, ev_chunk = chunk_id c, ev_source_value = fst r,
       ev_source_unit = (if metric = ''region'' then ''address'' else rc_unit ctx),
       ev_factor = dec_str (rc_factor ctx), ev_period = snd r,
       ev_basis = rc_basis ctx, ev_basis_resolution = rc_resolution ctx, ev_context = rc_citations ctx,
       ev_command = (if rc_resolution ctx \<in> {Some ''reviewer_context_link'', Some ''reviewer_reporting_scope''}
         then gt_command g else None),
       ev_age = None,
       ev_nic_version = (if nic \<noteq> [] then Some ''udyam-nic-hierarchy-v1'' else None),
       ev_nic_activities = nic,
       ev_provider = map_option ap_provider approval, ev_approval = map_option ap_approval approval\<rparr>)"

definition row_figure ::
  "gate \<Rightarrow> string \<Rightarrow> metric_rule \<Rightarrow> document_profile \<Rightarrow> string \<Rightarrow> chunk \<Rightarrow> row_context \<Rightarrow> row \<Rightarrow> figure res" where
  "row_figure g metric rule source entity c ctx r =
     res_bind (row_value (mr_kind rule) (rc_factor ctx) (fst r)) (\<lambda>v.
     raise_if (metric = ''borrower_name'' \<and> identity v \<noteq> entity) (EvidenceInsufficient ''evidence_entity_ambiguous'')
    (res_bind (region_value (gt_policy g) metric v) (\<lambda>v'.
     res_bind (chunk_citation c) (\<lambda>cite.
     res_bind (row_nic rule c) (\<lambda>nic.
     Inr (Figure metric v'
       (Some (if mr_kind rule = Money then ''INR crore''
              else if metric = ''region'' then ''address'' else rc_unit ctx))
       (snd r) cite (Some (row_evidence g metric rule source entity c ctx nic r)) None))))))"

section \<open>One chunk\<close>

definition incompatible_types :: "string list" where
  "incompatible_types = [''pan'', ''aadhaar'', ''gst'', ''udyam'', ''incorporation'', ''agreement'',
     ''bank_statement'', ''utility_bill'', ''no_dues'']"

definition on_incompatible_page :: "section_class list \<Rightarrow> string \<Rightarrow> chunk \<Rightarrow> bool" where
  "on_incompatible_page sections document c =
     list_ex (\<lambda>s. sc_document s = document \<and> list_ex (\<lambda>t. t \<in> set incompatible_types) (sc_types s)
       \<and> list_ex (\<lambda>p. sc_first s \<le> p \<and> p \<le> sc_last s) (chunk_pages c)) sections"

definition chunk_basis ::
  "gate \<Rightarrow> document_profile \<Rightarrow> chunk list \<Rightarrow> chunk \<Rightarrow> row list \<Rightarrow> basis_result res" where
  "chunk_basis g source source_chunks c rs =
     (case uniq (map snd rs) of
        [period] \<Rightarrow>
          (case List.find (\<lambda>i. ip_document i = pr_document source \<and> ip_target_chunk i = chunk_id c) (gt_links g) of
             Some link \<Rightarrow> resolve_interpretation link c source_chunks period (gt_policy g)
           | None \<Rightarrow> resolve_basis c source_chunks period (gt_policy g))
      | _ \<Rightarrow> insufficient ''evidence_period_ambiguous'')"

definition percent_rx :: "metric_rule \<Rightarrow> rx" where
  "percent_rx rule = seqs [label_rx rule, Star (not_chars_rx newline), Lit ''%'']"

definition chunk_unit :: "evidence_policy \<Rightarrow> metric_rule \<Rightarrow> string \<Rightarrow> (string \<times> dec) res" where
  "chunk_unit p rule page_context =
     (if mr_kind rule = Money then
        (case rule_keys page_context (po_units p) of
           [u] \<Rightarrow> (case map_of (po_unit_to_crore p) u of None \<Rightarrow> Inl (KeyError u) | Some f \<Rightarrow> Inr (u, f))
         | _ \<Rightarrow> insufficient ''evidence_unit_ambiguous'')
      else Inr (kind_unit (mr_kind rule), dec_of_int 1))"

definition chunk_context ::
  "gate \<Rightarrow> metric_rule \<Rightarrow> selection \<Rightarrow> document_profile \<Rightarrow> chunk list \<Rightarrow> chunk \<Rightarrow> row list \<Rightarrow> row_context res" where
  "chunk_context g rule sel source source_chunks c rs =
     raise_if (mr_basis rule \<and> on_incompatible_page (sl_sections sel) (pr_document source) c)
       (EvidenceInsufficient ''evidence_document_ambiguous'')
    (raise_if (pr_ambiguous source \<or> pr_entity source \<noteq> Some (sl_entity sel))
       (EvidenceInsufficient ''evidence_entity_ambiguous'')
    (res_bind (if mr_basis rule
               then res_bind (chunk_basis g source source_chunks c rs)
                      (\<lambda>(b, how, cites). Inr (Some b, Some how, cites))
               else Inr (None, None, [])) (\<lambda>(b, how, cites).
     raise_if (mr_kind rule = Percent \<and> \<not> found (re_search True False (percent_rx rule) (chunk_text c)))
       (EvidenceInsufficient ''evidence_unit_ambiguous'')
    (res_bind (chunk_unit (gt_policy g) rule
        (chunk_texts (filter (on_pages (chunk_pages c)) source_chunks))) (\<lambda>(u, f).
     Inr \<lparr>rc_unit = u, rc_factor = f, rc_basis = b, rc_resolution = how, rc_citations = cites\<rparr>)))))"

definition is_older :: "nat option \<Rightarrow> row \<Rightarrow> bool" where
  "is_older latest r =
     (case (latest, snd r) of (Some l, Some p) \<Rightarrow> nat_of_digits p < l | _ \<Rightarrow> False)"

text \<open>The flag tells that a row of an earlier year was set aside.\<close>

definition chunk_figures ::
  "gate \<Rightarrow> string \<Rightarrow> metric_rule \<Rightarrow> selection \<Rightarrow> document_profile \<Rightarrow> chunk list \<Rightarrow> chunk \<Rightarrow>
   (bool \<times> figure list) res" where
  "chunk_figures g metric rule sel source source_chunks c =
     res_bind (rows c rule (Some (sl_entity sel))) (\<lambda>all.
     let older = list_ex (is_older (sl_latest sel)) all;
         current = filter (\<lambda>r. \<not> is_older (sl_latest sel) r) all
     in if current = [] then Inr (older, [])
        else res_bind (chunk_context g rule sel source source_chunks c current) (\<lambda>ctx.
          res_bind (res_map (row_figure g metric rule source (sl_entity sel) c ctx) current) (\<lambda>fs.
          Inr (older, fs))))"

section \<open>All candidates and the choice\<close>

definition source_figures ::
  "gate \<Rightarrow> string \<Rightarrow> metric_rule \<Rightarrow> selection \<Rightarrow> document_profile \<Rightarrow> (bool \<times> figure list) list res" where
  "source_figures g metric rule sel source =
     raise_if (''audited_financials'' \<in> set (pr_types source)
         \<and> list_ex (\<lambda>t. t \<in> {''utility_bill'', ''no_dues''}) (pr_types source))
       (EvidenceInsufficient ''evidence_document_ambiguous'')
     (let cs = dict_get_default (sl_documents sel) (pr_document source) [] in
      res_map (chunk_figures g metric rule sel source cs) cs)"

definition candidates ::
  "gate \<Rightarrow> string \<Rightarrow> metric_rule \<Rightarrow> selection \<Rightarrow> (bool \<times> figure list) res" where
  "candidates g metric rule sel =
     res_bind (res_map (source_figures g metric rule sel) (sl_sources sel)) (\<lambda>outs.
       Inr (list_ex fst (concat outs), concat (map snd (concat outs))))"

definition has_nic :: "figure \<Rightarrow> bool" where
  "has_nic f = (case fg_evidence f of None \<Rightarrow> False | Some e \<Rightarrow> ev_nic_version e \<noteq> None)"

definition period_key :: "figure \<Rightarrow> string" where
  "period_key f = (case fg_period f of None \<Rightarrow> [] | Some p \<Rightarrow> p)"

definition agreement_key :: "string \<Rightarrow> figure \<Rightarrow> string \<times> string option \<times> string option \<times> string option" where
  "agreement_key metric f =
     (if metric = ''borrower_name'' then identity (fg_value f) else fg_value f, fg_unit f, fg_period f,
      case fg_evidence f of None \<Rightarrow> None | Some e \<Rightarrow> ev_basis e)"

definition latest_only :: "metric_rule \<Rightarrow> nat option \<Rightarrow> figure list \<Rightarrow> figure list res" where
  "latest_only rule latest_source fs =
     (if \<not> mr_period rule then Inr fs
      else let latest = Max (set (map period_key fs)) in
        raise_if (\<not> digits_ok latest) (ValueError ''invalid literal for int()'')
       (raise_if (latest_source \<noteq> None \<and> Some (nat_of_digits latest) \<noteq> latest_source)
          (EvidenceInsufficient ''evidence_latest_period_missing'')
          (Inr (filter (\<lambda>f. fg_period f = Some latest) fs))))"

definition choose_figure :: "string \<Rightarrow> metric_rule \<Rightarrow> nat option \<Rightarrow> bool \<Rightarrow> figure list \<Rightarrow> figure res" where
  "choose_figure metric rule latest_source older fs =
     raise_if (fs = [])
       (EvidenceInsufficient (if older then ''evidence_latest_period_missing'' else ''evidence_metric_missing''))
    (res_bind (latest_only rule latest_source (if list_ex has_nic fs then filter has_nic fs else fs)) (\<lambda>cs.
     raise_if (length (uniq (map (agreement_key metric) cs)) \<noteq> 1)
       (EvidenceInsufficient ''evidence_conflicting_values'')
       (Inr (hd (sort_key (\<lambda>f. (ct_document (fg_citation f), ct_page (fg_citation f))) cs)))))"

definition direct :: "gate \<Rightarrow> chunk list \<Rightarrow> string \<Rightarrow> figure res" where   \<comment> \<open>\<open>_direct\<close>\<close>
  "direct g chunks metric =
     (case metric_rule_of (gt_policy g) metric of
        None \<Rightarrow> insufficient ''metric_not_allowed''
      | Some rule \<Rightarrow>
          res_bind (select_sources g rule chunks) (\<lambda>sel.
          res_bind (candidates g metric rule sel) (\<lambda>(older, fs).
          choose_figure metric rule (sl_latest sel) older fs)))"

section \<open>Extraction and assessment\<close>

definition company_age :: "gate \<Rightarrow> string \<Rightarrow> figure \<Rightarrow> figure res" where
  "company_age g asd source =
     (case res_bind (fromisoformat (fg_value source)) (\<lambda>inc.
           res_bind (fromisoformat asd) (completed_years inc)) of
        Inl _ \<Rightarrow> insufficient ''evidence_value_ambiguous''
      | Inr n \<Rightarrow>
          Inr (Figure ''years_operating'' (str_of_int n) (Some ''count'') (fg_period source) (fg_citation source)
            (map_option (\<lambda>e. e\<lparr>ev_metric := ''years_operating'', ev_source_value := str_of_int n,
               ev_source_unit := ''count'',
               ev_age := Some \<lparr>ag_formula = ''completed_incorporation_years_v1'',
                 ag_incorporation = fg_value source, ag_assessment = asd, ag_source_chunk = ev_chunk e,
                 ag_source_citation = fg_citation source, ag_policy_hash = policy_hash (gt_policy g)\<rparr>\<rparr>)
              (fg_evidence source))
            (fg_calculation source)))"

fun first_calculation :: "(string \<Rightarrow> figure res) \<Rightarrow> string \<Rightarrow> string list \<Rightarrow> figure res" where
  "first_calculation ex ph [] = Inl missing"
| "first_calculation ex ph (i # ids) =
     (case calculate i ex ph of
        Inr f \<Rightarrow> Inr f | Inl e \<Rightarrow> if e = missing then first_calculation ex ph ids else Inl e)"

definition extract_metric :: "gate \<Rightarrow> chunk list \<Rightarrow> string \<Rightarrow> figure res" where
  "extract_metric g chunks metric =
     (case gt_assessment g of
        Some asd \<Rightarrow> \<lambda>k. if metric = ''years_operating''
          then res_bind (direct g chunks ''incorporation_date'') (company_age g asd) else k
      | None \<Rightarrow> \<lambda>k. k)
     (if metric = ''dscr''
      then calculate_dscr (formula_choices (gt_policy g) ''dscr'') (direct g chunks) (policy_hash (gt_policy g))
      else (case direct g chunks metric of
              Inr f \<Rightarrow> Inr f
            | Inl e \<Rightarrow>
                if e \<noteq> missing then Inl e
                else (case formula_choices (gt_policy g) metric of
                        None \<Rightarrow> Inl e
                      | Some ids \<Rightarrow> first_calculation (direct g chunks) (policy_hash (gt_policy g)) ids)))"

definition stage_of :: "formula \<Rightarrow> nat \<Rightarrow> string" where
  "stage_of f i =
     (if fm_numerator f ! i \<noteq> 0 \<and> fm_denominator f ! i \<noteq> 0 then ''numerator_and_debt_service''
      else if fm_numerator f ! i \<noteq> 0 then ''numerator'' else ''debt_service'')"

definition operand_diagnostic ::
  "gate \<Rightarrow> chunk list \<Rightarrow> string \<Rightarrow> string \<Rightarrow> formula \<Rightarrow> nat \<Rightarrow> operand_diagnostic res" where
  "operand_diagnostic g chunks metric formula_id f i =
     (let mk = (\<lambda>code. \<lparr>od_formula = formula_id, od_metric = fm_operands f ! i, od_error = code,
                od_stage = (if metric = ''dscr'' then Some (stage_of f i) else None)\<rparr>)
      in case direct g chunks (fm_operands f ! i) of
           Inr _ \<Rightarrow> Inr (mk None)
         | Inl (EvidenceInsufficient c) \<Rightarrow>
             if c = ''evidence_scope_violation'' then Inl (PermissionError c) else Inr (mk (Some c))
         | Inl e \<Rightarrow> Inl e)"

definition diagnostics :: "gate \<Rightarrow> chunk list \<Rightarrow> string \<Rightarrow> operand_diagnostic list res" where
  "diagnostics g chunks metric =
     (case formula_choices (gt_policy g) metric of
        None \<Rightarrow> Inr []
      | Some ids \<Rightarrow>
          res_bind (res_map (\<lambda>i. case map_of FORMULAS i of
              None \<Rightarrow> Inl (KeyError i)
            | Some f \<Rightarrow> res_map (operand_diagnostic g chunks metric i f) [0..<length (fm_operands f)]) ids)
            (\<lambda>dss. Inr (concat dss)))"

definition candidate_citations :: "metric_rule option \<Rightarrow> chunk list \<Rightarrow> citation list" where
  "candidate_citations rule chunks =
     (case rule of
        None \<Rightarrow> []
      | Some r \<Rightarrow> concat (map (\<lambda>c. case rows c r None of
            Inr (x # xs) \<Rightarrow> map citation_from_provenance (cite_prov c) | _ \<Rightarrow> []) chunks))"

definition status_of :: "string \<Rightarrow> string" where
  "status_of c =
     (if c = ''evidence_conflicting_values'' then ''conflicting''
      else if ends_with ''missing'' c then ''missing'' else ''ambiguous'')"

definition assess_metric :: "gate \<Rightarrow> chunk list \<Rightarrow> string \<Rightarrow> field_assessment res" where
  "assess_metric g chunks metric =
     (let rule = metric_rule_of (gt_policy g) metric in
      case extract_metric g chunks metric of
        Inr f \<Rightarrow> Inr \<lparr>fa_metric = metric, fa_status = ''supported'', fa_figure = Some f, fa_error = None,
                    fa_sources = [], fa_candidates = [], fa_diagnostics = []\<rparr>
      | Inl (EvidenceInsufficient c) \<Rightarrow>
          if c = ''evidence_scope_violation'' then Inl (PermissionError c)
          else res_bind (diagnostics g chunks metric) (\<lambda>ds.
            Inr \<lparr>fa_metric = metric, fa_status = status_of c, fa_figure = None, fa_error = Some c,
                 fa_sources = (case rule of None \<Rightarrow> [] | Some r \<Rightarrow> mr_sources r),
                 fa_candidates = take 20 (candidate_citations rule chunks), fa_diagnostics = ds\<rparr>)
      | Inl e \<Rightarrow> Inl e)"

definition assess :: "gate \<Rightarrow> string list \<Rightarrow> chunk list \<Rightarrow> field_assessment list res" where
  "assess g metrics chunks = res_map (assess_metric g chunks) metrics"

section \<open>Errors\<close>

text \<open>
  What an operand can raise: a value error, or the lookup of a unit the policy gives no factor.
\<close>

definition operand_error :: "exc \<Rightarrow> bool" where
  "operand_error e = (is_value_error e \<or> (\<exists>k. e = KeyError k))"

lemma operand_error_simps [simp]:
  "operand_error (EvidenceInsufficient c)" "operand_error (ValueError c)" "operand_error (KeyError c)"
  "is_value_error e \<Longrightarrow> operand_error e" "\<not> operand_error InvalidOperation"
  by (auto simp: operand_error_def)

lemma table_row_error: "table_row rule hs cells = Inl e \<Longrightarrow> \<exists>c. e = EvidenceInsufficient c"
  by (auto simp: table_row_def Let_def split: list.splits if_splits prod.splits)

lemma plain_row_error: "plain_row rule c line rest = Inl e \<Longrightarrow> \<exists>c. e = EvidenceInsufficient c"
  by (auto simp: plain_row_def Let_def split: option.splits if_splits)

lemma line_rows_error: "line_rows rule c hs ls = Inl e \<Longrightarrow> \<exists>c. e = EvidenceInsufficient c"
proof (induction ls arbitrary: hs)
  case (Cons line rest)
  then show ?case
    by (auto simp: Let_def res_bind_Inl_iff split: if_splits dest: table_row_error plain_row_error)
qed simp

lemma rows_error: "rows c rule ex = Inl e \<Longrightarrow> \<exists>c. e = EvidenceInsufficient c"
  by (auto simp: rows_def nic_rows_def res_bind_Inl_iff dest: line_rows_error
      split: if_splits option.splits sum.splits)

lemma row_value_error: "row_value k f raw = Inl e \<Longrightarrow> \<exists>c. e = EvidenceInsufficient c"
  by (auto simp: row_value_def res_simps split: metric_kind.splits sum.splits option.splits)

lemma row_figure_error: "row_figure g m rule src en c ctx r = Inl e \<Longrightarrow> operand_error e"
  by (auto simp: row_figure_def res_simps region_value_def chunk_citation_def row_nic_def
      dest!: row_value_error activities_error split: if_splits list.splits)

lemma chunk_context_error: "chunk_context g rule sel src cs c rs = Inl e \<Longrightarrow> operand_error e"
  by (auto simp: chunk_context_def chunk_basis_def chunk_unit_def res_simps
      dest!: resolve_basis_error resolve_interpretation_error
      split: if_splits list.splits option.splits)

lemma chunk_figures_error: "chunk_figures g m rule sel src cs c = Inl e \<Longrightarrow> operand_error e"
  by (auto simp: chunk_figures_def Let_def res_bind_Inl_iff elim!: res_map_Inl_obtain
      dest!: rows_error dest: row_figure_error chunk_context_error split: if_splits)

lemma candidates_error: "candidates g m rule sel = Inl e \<Longrightarrow> operand_error e"
  by (auto simp: candidates_def source_figures_def Let_def res_simps(3) raise_if_Inl_iff res_bind_Inl_iff
      elim!: res_map_Inl_obtain dest: chunk_figures_error)

lemma borrower_entity_error: "borrower_entity as = Inl e \<Longrightarrow> operand_error e"
  by (auto simp: borrower_entity_def raise_if_Inl_iff split: list.splits)

lemma group_documents_error: "group_documents cs = Inl e \<Longrightarrow> operand_error e"
  by (auto simp: group_documents_def raise_if_Inl_iff)

lemma select_sources_error: "select_sources g rule chunks = Inl e \<Longrightarrow> operand_error e"
  by (auto simp: select_sources_def Let_def raise_if_Inl_iff res_bind_Inl_iff
      dest: classify_sections_error borrower_entity_error group_documents_error)

lemma choose_figure_error: "choose_figure m rule ly older fs = Inl e \<Longrightarrow> operand_error e"
  by (auto simp: choose_figure_def latest_only_def Let_def raise_if_Inl_iff res_bind_Inl_iff split: if_splits)

lemma direct_error: "direct g chunks m = Inl e \<Longrightarrow> operand_error e"
  by (auto simp: direct_def res_bind_Inl_iff split: option.splits
      dest: select_sources_error candidates_error choose_figure_error)

section \<open>What a selected figure stands on\<close>

lemma source_chunks_in:
  assumes "group_documents chunks = Inr docs" "c \<in> set (dict_get_default docs d [])"
  shows "c \<in> set chunks \<and> chunk_documents c = [d]"
proof -
  have one: "\<forall>c \<in> set chunks. length (chunk_documents c) = 1"
    and docs: "docs = foldl (\<lambda>d c. dict_append (hd (chunk_documents c)) c d) [] chunks"
    using assms(1) by (auto simp: group_documents_def raise_if_Inr_iff list_ex_iff)
  define ok where "ok = (\<lambda>S (dd :: (string, chunk list) dict). \<forall>k vs v. map_of dd k = Some vs \<longrightarrow> v \<in> set vs
      \<longrightarrow> v \<in> S \<and> hd (chunk_documents v) = k)"
  have step: "ok S dd \<Longrightarrow> ok (insert c S) (dict_append (hd (chunk_documents c)) c dd)" for S dd c
    unfolding ok_def dict_append_def map_of_update by (auto split: if_splits option.splits)
  have "ok S dd \<Longrightarrow> ok (S \<union> set cs) (foldl (\<lambda>d c. dict_append (hd (chunk_documents c)) c d) dd cs)" for S dd cs
  proof (induction cs arbitrary: S dd)
    case (Cons c cs)
    from Cons.IH[OF step[OF Cons.prems]] show ?case by simp
  qed simp
  moreover have "ok {} []" by (simp add: ok_def)
  ultimately have "ok ({} \<union> set chunks) docs" unfolding docs by blast
  moreover from assms(2) obtain vs where "map_of docs d = Some vs" "c \<in> set vs"
    by (cases "map_of docs d") (simp_all add: dict_get_default_def)
  ultimately have "c \<in> set chunks" "hd (chunk_documents c) = d" by (simp_all add: ok_def)
  with one show ?thesis by (cases "chunk_documents c") auto
qed

lemma chunk_citation_in:
  "chunk_citation c = Inr ct \<Longrightarrow> \<exists>p \<in> set (chunk_prov c). ct = citation_from_provenance p"
  by (auto simp: chunk_citation_def raise_if_Inr_iff split: list.splits)

text \<open>One candidate: the source, chunk, context and row it came from.\<close>

definition candidate_of ::
  "gate \<Rightarrow> chunk list \<Rightarrow> string \<Rightarrow> metric_rule \<Rightarrow> selection \<Rightarrow> figure \<Rightarrow> bool" where
  "candidate_of g chunks m rule sel f =
     (\<exists>src \<in> set (sl_sources sel). \<exists>c \<in> set chunks. \<exists>ctx r rs all.
        chunk_documents c = [pr_document src]
        \<and> rows c rule (Some (sl_entity sel)) = Inr all \<and> r \<in> set all \<and> \<not> is_older (sl_latest sel) r
        \<and> chunk_context g rule sel src (dict_get_default (sl_documents sel) (pr_document src) []) c rs = Inr ctx
        \<and> row_figure g m rule src (sl_entity sel) c ctx r = Inr f)"

lemma candidates_Inr:
  assumes s: "select_sources g rule chunks = Inr sel" and c: "candidates g m rule sel = Inr (older, fs)"
    and f: "f \<in> set fs"
  shows "candidate_of g chunks m rule sel f"
proof -
  from s have docs: "group_documents chunks = Inr (sl_documents sel)"
    by (auto simp: select_sources_def Let_def res_bind_Inr_iff raise_if_Inr_iff)
  from c obtain outs where outs: "res_map (source_figures g m rule sel) (sl_sources sel) = Inr outs"
    and fs: "fs = concat (map snd (concat outs))"
    by (auto simp: candidates_def res_bind_Inr_iff)
  from f fs obtain out o1 where o: "out \<in> set outs" "o1 \<in> set out" "f \<in> set (snd o1)" by auto
  from res_map_in_set[OF outs o(1)] obtain src where src: "src \<in> set (sl_sources sel)"
    and "source_figures g m rule sel src = Inr out" by blast
  then have "res_map (chunk_figures g m rule sel src (dict_get_default (sl_documents sel) (pr_document src) []))
      (dict_get_default (sl_documents sel) (pr_document src) []) = Inr out"
    by (simp add: source_figures_def Let_def raise_if_Inr_iff)
  from res_map_in_set[OF this o(2)] obtain ch where
    ch: "ch \<in> set (dict_get_default (sl_documents sel) (pr_document src) [])"
    and cf: "chunk_figures g m rule sel src (dict_get_default (sl_documents sel) (pr_document src) []) ch = Inr o1"
    by blast
  from source_chunks_in[OF docs ch] have in_chunks: "ch \<in> set chunks" "chunk_documents ch = [pr_document src]" by auto
  from cf obtain all where all: "rows ch rule (Some (sl_entity sel)) = Inr all"
    by (auto simp: chunk_figures_def res_bind_Inr_iff)
  let ?cur = "filter (\<lambda>r. \<not> is_older (sl_latest sel) r) all"
  from cf all o(3) obtain ctx fs' where ctx:
    "chunk_context g rule sel src (dict_get_default (sl_documents sel) (pr_document src) []) ch ?cur = Inr ctx"
    and fs': "res_map (row_figure g m rule src (sl_entity sel) ch ctx) ?cur = Inr fs'" and "f \<in> set fs'"
    by (auto simp: chunk_figures_def Let_def res_bind_Inr_iff split: if_splits)
  from res_map_in_set[OF fs' this(3)] obtain r where "r \<in> set ?cur"
    "row_figure g m rule src (sl_entity sel) ch ctx r = Inr f" by blast
  with src in_chunks all ctx show ?thesis unfolding candidate_of_def by fastforce
qed

lemma latest_only_subset: "latest_only rule ly fs = Inr cs \<Longrightarrow> set cs \<subseteq> set fs"
  by (auto simp: latest_only_def Let_def raise_if_Inr_iff split: if_splits)

lemma choose_figure_Inr:
  assumes "choose_figure m rule ly older fs = Inr f"
  shows "\<exists>cs. latest_only rule ly (if list_ex has_nic fs then filter has_nic fs else fs) = Inr cs
    \<and> f \<in> set cs \<and> f \<in> set fs \<and> (\<forall>c \<in> set cs. agreement_key m c = agreement_key m f)"
proof -
  from assms obtain cs where cs: "latest_only rule ly (if list_ex has_nic fs then filter has_nic fs else fs) = Inr cs"
    and u: "length (uniq (map (agreement_key m) cs)) = 1"
    and f: "f = hd (sort_key (\<lambda>f. (ct_document (fg_citation f), ct_page (fg_citation f))) cs)"
    by (auto simp: choose_figure_def raise_if_Inr_iff res_bind_Inr_iff)
  from u have "cs \<noteq> []" by auto
  then have "sort_key (\<lambda>f. (ct_document (fg_citation f), ct_page (fg_citation f))) cs \<noteq> []"
    by (metis set_empty set_sort)
  then have "f \<in> set (sort_key (\<lambda>f. (ct_document (fg_citation f), ct_page (fg_citation f))) cs)"
    unfolding f by (rule list.set_sel(1))
  then have fin: "f \<in> set cs" by simp
  have "\<forall>x \<in> set (map (agreement_key m) cs). x = hd (map (agreement_key m) cs)"
    using u unfolding length_uniq_1_iff by blast
  then have "\<forall>c \<in> set cs. agreement_key m c = hd (map (agreement_key m) cs)" by auto
  with fin have "\<forall>c \<in> set cs. agreement_key m c = agreement_key m f" by simp
  moreover have "f \<in> set fs" using latest_only_subset[OF cs] fin by (auto split: if_splits)
  ultimately show ?thesis using cs fin by blast
qed

lemma direct_Inr_cases:
  assumes "direct g chunks m = Inr f"
  obtains rule sel older fs where "metric_rule_of (gt_policy g) m = Some rule"
    and "select_sources g rule chunks = Inr sel" and "candidates g m rule sel = Inr (older, fs)"
    and "choose_figure m rule (sl_latest sel) older fs = Inr f" and "candidate_of g chunks m rule sel f"
proof -
  from assms obtain rule sel older fs where
    h: "metric_rule_of (gt_policy g) m = Some rule" "select_sources g rule chunks = Inr sel"
      "candidates g m rule sel = Inr (older, fs)" "choose_figure m rule (sl_latest sel) older fs = Inr f"
    by (auto simp: direct_def res_bind_Inr_iff split: option.splits)
  moreover from choose_figure_Inr[OF h(4)] have "f \<in> set fs" by blast
  ultimately show ?thesis using that candidates_Inr[OF h(2,3)] by blast
qed

lemma row_figure_Inr:
  assumes "row_figure g m rule src en c ctx r = Inr f"
  shows "\<exists>v v' ct nic. row_value (mr_kind rule) (rc_factor ctx) (fst r) = Inr v
    \<and> region_value (gt_policy g) m v = Inr v' \<and> chunk_citation c = Inr ct
    \<and> (m = ''borrower_name'' \<longrightarrow> identity v = en)
    \<and> f = Figure m v' (Some (if mr_kind rule = Money then ''INR crore''
              else if m = ''region'' then ''address'' else rc_unit ctx)) (snd r) ct
            (Some (row_evidence g m rule src en c ctx nic r)) None"
  using assms by (auto simp: row_figure_def res_bind_Inr_iff raise_if_Inr_iff)

text \<open>Label, metric, policy and citation of a selected figure.\<close>

lemma direct_grounded:
  assumes "direct g chunks m = Inr f"
  shows "fg_label f = m \<and> fg_calculation f = None
    \<and> (\<exists>e. fg_evidence f = Some e \<and> ev_metric e = m \<and> ev_policy_hash e = policy_hash (gt_policy g)
       \<and> (\<exists>c \<in> set chunks. ev_chunk e = chunk_id c
            \<and> (\<exists>p \<in> set (chunk_prov c). fg_citation f = citation_from_provenance p)))"
proof -
  from assms obtain rule sel where "candidate_of g chunks m rule sel f"
    by (auto elim: direct_Inr_cases)
  then obtain src c ctx r where c: "c \<in> set chunks"
    and rf: "row_figure g m rule src (sl_entity sel) c ctx r = Inr f"
    by (auto simp: candidate_of_def)
  from row_figure_Inr[OF rf] obtain v ct nic where ct: "chunk_citation c = Inr ct"
    and f: "f = Figure m v (Some (if mr_kind rule = Money then ''INR crore''
              else if m = ''region'' then ''address'' else rc_unit ctx)) (snd r) ct
            (Some (row_evidence g m rule src (sl_entity sel) c ctx nic r)) None" by blast
  from chunk_citation_in[OF ct] c show ?thesis
    by (auto simp: f row_evidence_def Let_def)
qed

lemma row_value_money:
  "row_value Money factor raw = Inr v \<Longrightarrow> \<exists>n. numeric_cell raw = Some n \<and> v = format_f (dec_mul prec28 n factor)"
  by (auto simp: row_value_def raise_if_Inr_iff split: option.splits)

lemma kind_unit_not_money:
  "chunk_unit p rule t = Inr (u, f) \<Longrightarrow> mr_kind rule \<noteq> Money \<Longrightarrow> u \<noteq> ''INR crore''"
  by (auto simp: chunk_unit_def kind_unit_def split: metric_kind.splits)

lemma chunk_context_unit:
  "chunk_context g rule sel src cs c rs = Inr ctx \<Longrightarrow>
     chunk_unit (gt_policy g) rule (chunk_texts (filter (on_pages (chunk_pages c)) cs)) = Inr (rc_unit ctx, rc_factor ctx)"
  by (auto simp: chunk_context_def res_bind_Inr_iff raise_if_Inr_iff)

lemma direct_amount_parses:
  assumes "direct g chunks m = Inr f" "fg_unit f = Some ''INR crore''" "m \<noteq> ''region''"
  shows "\<exists>d. decimal_of_string (fg_value f) = Some d"
proof -
  from assms(1) obtain rule sel where "candidate_of g chunks m rule sel f"
    by (auto elim: direct_Inr_cases)
  then obtain src c ctx r cs rs where
    ctx: "chunk_context g rule sel src cs c rs = Inr ctx"
    and rf: "row_figure g m rule src (sl_entity sel) c ctx r = Inr f"
    unfolding candidate_of_def by blast
  from row_figure_Inr[OF rf] obtain v v' ct nic where
    v: "row_value (mr_kind rule) (rc_factor ctx) (fst r) = Inr v" "region_value (gt_policy g) m v = Inr v'"
    and f: "f = Figure m v' (Some (if mr_kind rule = Money then ''INR crore''
              else if m = ''region'' then ''address'' else rc_unit ctx)) (snd r) ct
            (Some (row_evidence g m rule src (sl_entity sel) c ctx nic r)) None" by blast
  from kind_unit_not_money[OF chunk_context_unit[OF ctx]] f assms(2,3) have "mr_kind rule = Money"
    by (auto split: if_splits)
  with v(1) row_value_money obtain n where "v = format_f (dec_mul prec28 n (rc_factor ctx))" by metis
  moreover have "v' = v" using v(2) assms(3) by (simp add: region_value_def)
  ultimately show ?thesis using decimal_of_format_f f by auto
qed

section \<open>The operand interface\<close>

text \<open>
  What a calculation relies on from the callable that extracts its operands.
\<close>

locale operand_source =
  fixes source :: "string \<Rightarrow> figure res"
  assumes labelled: "source n = Inr f \<Longrightarrow> fg_label f = n"
    and uncalculated: "source n = Inr f \<Longrightarrow> fg_calculation f = None"
    and amounts_parse: "source n = Inr f \<Longrightarrow> fg_unit f = Some ''INR crore'' \<Longrightarrow> n \<noteq> ''region'' \<Longrightarrow>
      \<exists>d. decimal_of_string (fg_value f) = Some d"
    and errors: "source n = Inl e \<Longrightarrow> operand_error e"
begin

lemma calculate_operand_labels:
  assumes "calculate i source ph = Inr g"
  shows "\<exists>f ops. map_of FORMULAS i = Some f \<and> fg_calculation g = Some (CalcReceipt i ph ops)
    \<and> map fg_label ops = fm_operands f \<and> fg_label g = fm_metric f"
proof -
  from calculate_sound[OF assms] obtain f ops v where f: "map_of FORMULAS i = Some f"
    and ops: "list_all2 (\<lambda>n o'. source n = Inr o') (fm_operands f) ops"
    and g: "g = calculated_figure i f ph ops v" by blast
  from ops have "map fg_label ops = fm_operands f"
    by (induction rule: list_all2_induct) (auto dest: labelled)
  with f g show ?thesis by (simp add: calculated_figure_def)
qed

lemma no_region: "map_of FORMULAS i = Some f \<Longrightarrow> ''region'' \<notin> set (fm_operands f)"
proof -
  have "list_all (\<lambda>(k, f). ''region'' \<notin> set (fm_operands f)) FORMULAS" by code_simp
  then show "map_of FORMULAS i = Some f \<Longrightarrow> ''region'' \<notin> set (fm_operands f)"
    by (auto simp: list_all_iff dest!: map_of_SomeD)
qed

lemma usable_parse:
  assumes "source n = Inr f" "operand_usable ph f" "n \<noteq> ''region''"
  shows "\<exists>d. decimal_of_string (fg_value f) = Some d"
  using assms amounts_parse[of n f] by (auto simp: operand_usable_def split: option.splits)

lemma calculate_errors:
  assumes "calculate i source ph = Inl e"
  shows "operand_error e"
proof (cases "map_of FORMULAS i")
  case None
  with assms show ?thesis by (auto simp: calculate_def)
next
  case (Some f)
  show ?thesis
  proof (cases "res_map source (fm_operands f)")
    case (Inl e')
    with assms Some have "e' = e" by (simp add: calculate_def)
    with Inl show ?thesis by (auto elim!: res_map_Inl_obtain dest: errors)
  next
    case (Inr ops)
    show ?thesis
    proof (cases "list_ex (\<lambda>g. \<not> operand_usable ph g) ops \<or> length (uniq (map receipt_context ops)) \<noteq> 1")
      case True
      with assms Some Inr show ?thesis by (auto simp: calculate_def)
    next
      case False
      have "\<exists>d. decimal_res (fg_value o') = Inr d" if "o' \<in> set ops" for o'
      proof -
        from res_map_in_set[OF Inr that] obtain n where "n \<in> set (fm_operands f)" "source n = Inr o'" by blast
        with False that no_region[OF Some] usable_parse[of n o' ph] show ?thesis
          by (auto simp: list_ex_iff decimal_res_Inr_iff)
      qed
      then have "res_map (\<lambda>g. decimal_res (fg_value g)) ops \<noteq> Inl x" for x
        by (metis res_map_Inl_obtain sum.distinct(1))
      then obtain nums where "res_map (\<lambda>g. decimal_res (fg_value g)) ops = Inr nums"
        by (cases "res_map (\<lambda>g. decimal_res (fg_value g)) ops") auto
      with False assms Some Inr show ?thesis
        by (auto simp: calculate_def raise_if_def split: sum.splits)
    qed
  qed
qed

end

interpretation gate_source: operand_source "direct g chunks" for g chunks
  by unfold_locales (auto dest: direct_grounded direct_amount_parses direct_error)

section \<open>Selection\<close>

text \<open>The period of a selected figure is the latest one any source reports.\<close>

lemma direct_latest:
  assumes d: "direct g chunks m = Inr f" and r: "metric_rule_of (gt_policy g) m = Some rule" "mr_period rule"
  shows "\<exists>p sel. select_sources g rule chunks = Inr sel \<and> fg_period f = Some p \<and> sl_latest sel = Some (nat_of_digits p)"
proof -
  from d r obtain sel older fs where sel: "select_sources g rule chunks = Inr sel"
    and ch: "choose_figure m rule (sl_latest sel) older fs = Inr f"
    by (auto elim: direct_Inr_cases)
  from sel r(2) have some: "sl_latest sel \<noteq> None"
    by (auto simp: select_sources_def Let_def res_bind_Inr_iff raise_if_Inr_iff)
  from choose_figure_Inr[OF ch] obtain cs where
    cs: "latest_only rule (sl_latest sel) (if list_ex has_nic fs then filter has_nic fs else fs) = Inr cs"
    and f: "f \<in> set cs" by blast
  let ?l = "Max (set (map period_key (if list_ex has_nic fs then filter has_nic fs else fs)))"
  from cs r(2) some have "Some (nat_of_digits ?l) = sl_latest sel"
    and "cs = filter (\<lambda>f. fg_period f = Some ?l) (if list_ex has_nic fs then filter has_nic fs else fs)"
    by (auto simp: latest_only_def Let_def raise_if_Inr_iff)
  with f have "fg_period f = Some ?l" "sl_latest sel = Some (nat_of_digits ?l)" by auto
  with sel show ?thesis by blast
qed

text \<open>No candidate of the latest period disagrees with the selected figure.\<close>

lemma direct_no_conflict:
  assumes d: "direct g chunks m = Inr f" and r: "metric_rule_of (gt_policy g) m = Some rule"
    and s: "select_sources g rule chunks = Inr sel" and c: "candidates g m rule sel = Inr (older, fs)"
    and f': "f' \<in> set fs" "has_nic f' \<or> \<not> list_ex has_nic fs" "mr_period rule \<longrightarrow> fg_period f' = fg_period f"
  shows "agreement_key m f' = agreement_key m f"
proof -
  from d r s c have ch: "choose_figure m rule (sl_latest sel) older fs = Inr f"
    by (simp add: direct_def)
  from choose_figure_Inr[OF ch] obtain cs where
    cs: "latest_only rule (sl_latest sel) (if list_ex has_nic fs then filter has_nic fs else fs) = Inr cs"
    and f: "f \<in> set cs" and ag: "\<forall>c \<in> set cs. agreement_key m c = agreement_key m f" by blast
  have "f' \<in> set (if list_ex has_nic fs then filter has_nic fs else fs)" using f' by auto
  with cs f f'(3) have "f' \<in> set cs"
    by (auto simp: latest_only_def Let_def raise_if_Inr_iff split: if_splits)
  with ag show ?thesis by blast
qed

text \<open>A summary report is a source only under an approval of this application.\<close>

definition approved_map :: "(source_approval \<Rightarrow> bool) \<Rightarrow> (string, source_approval) dict \<Rightarrow> bool" where
  "approved_map P dd = (\<forall>d a. map_of dd d = Some a \<longrightarrow> P a \<and> ap_document a = d)"

lemma approved_map_update:
  assumes "approved_map P dd" "P x"
  shows "approved_map P (AList.update (ap_document x) x dd)"
  using assms unfolding approved_map_def map_of_update fun_upd_apply by (metis option.inject)

lemma approvals_fold:
  "approved_map P dd \<Longrightarrow> \<forall>a \<in> set as. P a \<Longrightarrow>
     approved_map P (foldl (\<lambda>d a. AList.update (ap_document a) a d) dd as)"
  by (induction as arbitrary: dd) (simp_all add: approved_map_update)

lemma active_approvals_in:
  assumes "map_of (active_approvals g) d = Some a"
  shows "a \<in> set (po_approvals (gt_policy g)) \<and> ap_document a = d \<and> Some (ap_application a) = gt_application g"
proof -
  let ?P = "\<lambda>a. a \<in> set (po_approvals (gt_policy g)) \<and> Some (ap_application a) = gt_application g"
  have "approved_map ?P []" by (simp add: approved_map_def)
  then have "approved_map ?P (active_approvals g)"
    unfolding active_approvals_def by (rule approvals_fold) simp
  with assms show ?thesis unfolding approved_map_def by blast
qed

lemma direct_source_type:
  assumes d: "direct g chunks m = Inr f" and r: "metric_rule_of (gt_policy g) m = Some rule"
  shows "\<exists>e. fg_evidence f = Some e \<and> ev_document_type e \<in> set (allowed_types rule)
    \<and> (ev_document_type e = ''financial_information_report'' \<longrightarrow>
        (\<exists>a \<in> set (po_approvals (gt_policy g)). Some (ap_application a) = gt_application g
           \<and> ap_document a = ct_document (fg_citation f)
           \<and> ev_provider e = Some (ap_provider a) \<and> ev_approval e = Some (ap_approval a)))"
proof -
  from d r obtain sel where sel: "select_sources g rule chunks = Inr sel"
    and "candidate_of g chunks m rule sel f"
    by (auto elim: direct_Inr_cases)
  then obtain src c ctx rw where src: "src \<in> set (sl_sources sel)" and doc: "chunk_documents c = [pr_document src]"
    and rf: "row_figure g m rule src (sl_entity sel) c ctx rw = Inr f"
    unfolding candidate_of_def by blast
  from row_figure_Inr[OF rf] obtain v ct nic u where ct: "chunk_citation c = Inr ct"
    and f: "f = Figure m v u (snd rw) ct (Some (row_evidence g m rule src (sl_entity sel) c ctx nic rw)) None"
    by blast
  from sel src have "src \<in> set (sources_of g rule (map (\<lambda>(d, cs). profile d cs (gt_policy g)) (sl_documents sel)))"
    by (auto simp: select_sources_def Let_def res_bind_Inr_iff raise_if_Inr_iff)
  then have ty: "\<exists>t \<in> set (pr_types src). t \<in> set (allowed_types rule)"
    and ap: "is_report src \<Longrightarrow> dict_has (active_approvals g) (pr_document src)"
    by (auto simp: sources_of_def list_ex_iff)
  let ?ts = "filter (\<lambda>t. t \<in> set (allowed_types rule)) (pr_types src)"
  from ty have "?ts \<noteq> []" by (auto simp: filter_empty_conv)
  then have "sort ?ts \<noteq> []" by (metis set_empty set_sort)
  then have "hd (sort ?ts) \<in> set (sort ?ts)" by (rule list.set_sel(1))
  then have ht: "hd (sort ?ts) \<in> set (pr_types src)" "hd (sort ?ts) \<in> set (allowed_types rule)" by auto
  from chunk_citation_in[OF ct] obtain p where p: "p \<in> set (chunk_prov c)" "ct = citation_from_provenance p" by blast
  from doc have "set (map pv_document (chunk_prov c)) = {pr_document src}"
    unfolding chunk_documents_def by (rule uniq_singletonD)
  with p have cd: "ct_document ct = pr_document src" by auto
  show ?thesis
  proof (cases "hd (sort ?ts) = ''financial_information_report''")
    case True
    with ht have "is_report src" by (simp add: is_report_def)
    with ap obtain a where a: "map_of (active_approvals g) (pr_document src) = Some a"
      by (auto simp: dict_has_def)
    from active_approvals_in[OF a] a cd ht show ?thesis
      by (auto simp: f row_evidence_def Let_def)
  next
    case False
    with ht show ?thesis by (auto simp: f row_evidence_def Let_def)
  qed
qed

section \<open>Extraction and assessment\<close>

lemma extract_no_fallback:
  assumes "direct g chunks m = Inl e" "e \<noteq> missing" "m \<noteq> ''dscr''" "m \<noteq> ''years_operating''"
  shows "extract_metric g chunks m = Inl e"
  using assms by (auto simp: extract_metric_def split: option.splits)

lemma extract_direct_wins:
  assumes "direct g chunks m = Inr f" "m \<noteq> ''dscr''" "m \<noteq> ''years_operating''"
  shows "extract_metric g chunks m = Inr f"
  using assms by (auto simp: extract_metric_def split: option.splits)

definition assessment_ok :: "field_assessment \<Rightarrow> bool" where
  "assessment_ok a =
     ((fa_status a = ''supported'' \<longleftrightarrow> fa_figure a \<noteq> None) \<and> (fa_figure a = None \<longleftrightarrow> fa_error a \<noteq> None)
      \<and> fa_status a \<in> {''supported'', ''missing'', ''conflicting'', ''ambiguous''}
      \<and> length (fa_candidates a) \<le> 20 \<and> fa_error a \<noteq> Some ''evidence_scope_violation'')"

lemma assess_metric_ok:
  assumes "assess_metric g chunks m = Inr a"
  shows "fa_metric a = m \<and> assessment_ok a \<and>
    (case extract_metric g chunks m of Inr f \<Rightarrow> fa_figure a = Some f
     | Inl e \<Rightarrow> fa_figure a = None \<and> (\<exists>c. e = EvidenceInsufficient c \<and> fa_error a = Some c))"
  using assms
  by (auto simp: assess_metric_def Let_def res_bind_Inr_iff assessment_ok_def status_of_def
      split: sum.splits exc.splits if_splits)

lemma assess_total_map:
  "assess g metrics chunks = Inr as \<Longrightarrow>
     map fa_metric as = metrics \<and> list_all assessment_ok as \<and>
     list_all2 (\<lambda>m a. case extract_metric g chunks m of Inr f \<Rightarrow> fa_figure a = Some f | Inl _ \<Rightarrow> fa_figure a = None) metrics as"
proof -
  assume "assess g metrics chunks = Inr as"
  then have "list_all2 (\<lambda>m a. assess_metric g chunks m = Inr a) metrics as"
    by (simp add: assess_def res_map_Inr_iff)
  then show ?thesis
    by (induction rule: list_all2_induct) (auto dest!: assess_metric_ok split: sum.splits)
qed

lemma assess_scope_violation:
  assumes "extract_metric g chunks m = insufficient ''evidence_scope_violation''" "m \<in> set metrics"
  shows "\<exists>e. assess g metrics chunks = Inl e"
proof (cases "assess g metrics chunks")
  case (Inr as)
  then have "list_all2 (\<lambda>m a. assess_metric g chunks m = Inr a) metrics as"
    by (simp add: assess_def res_map_Inr_iff)
  with assms(2) obtain a where "assess_metric g chunks m = Inr a"
    by (auto simp: list_all2_conv_all_nth in_set_conv_nth)
  with assms(1) show ?thesis by (simp add: assess_metric_def)
qed simp

end
