(* ===== verification/ReasonExamples.thy ===== *)
theory ReasonExamples
  imports Gate "HOL-Library.Code_Target_Nat"
begin

text \<open>
  Concrete inputs of the reasoning components and what the definitions compute on them: an
  audited table that answers a dated money metric, an application without a source, and the
  operands of a coverage ratio. Hashes stay uncomputed: \<open>sha256_hex\<close> is opaque to the
  evaluator here.
\<close>

declare sha256_hex_def [code del]

section \<open>One audited table\<close>

definition ex_word :: "string \<Rightarrow> pattern" where
  "ex_word s = Pattern True False (Lit s)"

definition ex_box :: bbox where
  "ex_box = \<lparr>bx0 = 0, by0 = 0, bx1 = 1, by1 = 1\<rparr>"

definition ex_prov :: "int \<Rightarrow> provenance" where
  "ex_prov page = \<lparr>pv_document = ''d'', pv_source = ''s'', pv_page = page, pv_bbox = ex_box,
     pv_width = 9, pv_height = 9\<rparr>"

definition ex_table :: string where
  "ex_table = ''|year|FY2024|'' @ newline @ ''|sales|12|''"

definition ex_chunk :: "string \<Rightarrow> int \<Rightarrow> chunk" where
  "ex_chunk i page = TableChunk i (''Audit Co. solo crore'' @ newline @ ex_table) ex_table None None
     [ex_prov page] [ex_prov page] [(''application_id'', MStr ''app-1'')]"

definition ex_chunks :: "chunk list" where
  "ex_chunks = [ex_chunk ''c'' 1, ex_chunk ''k'' 2]"

definition ex_rule :: metric_rule where
  "ex_rule = \<lparr>mr_sources = [''audited_financials''], mr_labels = [''sales''], mr_kind = Money,
     mr_period = True, mr_basis = True, mr_nic_level = None, mr_table_column = None,
     mr_heading = None, mr_context_labels = []\<rparr>"

definition ex_policy :: evidence_policy where
  "ex_policy = \<lparr>po_json = ''j'', po_classification = \<lparr>cp_version = ''v'', cp_patterns = []\<rparr>,
     po_max_chunks = 5, po_regions = [], po_document_types = [(''audited_financials'', [ex_word ''audit''])],
     po_owner = Pattern False False (Seq (Lit ''Audit '') (Grp 1 (Lit ''Co''))), po_titles = [],
     po_bases = [(''standalone'', [ex_word ''solo''])], po_declarations = [], po_scope = [],
     po_scope_conflicts = [], po_units = [(''crore'', [ex_word ''crore''])],
     po_unit_to_crore = [(''crore'', dec_of_int 1)], po_metrics = [(''sales_crore'', ex_rule)],
     po_calculations = [], po_alternatives = [], po_operands = [], po_approvals = []\<rparr>"

definition ex_gate :: gate where
  "ex_gate = \<lparr>gt_policy = ex_policy, gt_links = [], gt_command = None, gt_assessment = None,
     gt_application = Some ''app-1''\<rparr>"

definition ex_cite :: "int \<Rightarrow> citation" where
  "ex_cite page = \<lparr>ct_document = ''d'', ct_page = page, ct_bbox = ex_box\<rparr>"

definition ex_figure :: "string \<Rightarrow> int \<Rightarrow> figure" where
  "ex_figure i page = Figure ''sales_crore'' ''12'' (Some ''INR crore'') (Some ''2024'') (ex_cite page)
     (Some \<lparr>ev_policy_hash = sha256_hex ''j'', ev_metric = ''sales_crore'',
        ev_document_type = ''audited_financials'', ev_entity_hash = sha256_hex ''co'',
        ev_chunk = i, ev_source_value = ''12'', ev_source_unit = ''crore'', ev_factor = ''1'',
        ev_period = Some ''2024'', ev_basis = Some ''standalone'', ev_basis_resolution = Some ''same_page'',
        ev_context = [ex_cite page],
        ev_command = None, ev_age = None, ev_nic_version = None, ev_nic_activities = [],
        ev_provider = None, ev_approval = None\<rparr>)
     None"

definition ex_figures :: "figure list" where
  "ex_figures = [ex_figure ''c'' 1, ex_figure ''k'' 2]"

lemma ex_collected:
  "res_bind (select_sources ex_gate ex_rule ex_chunks) (\<lambda>sel.
   res_bind (candidates ex_gate ''sales_crore'' ex_rule sel) (\<lambda>r. Inr (sl_latest sel, r)))
   = Inr (Some 2024, False, ex_figures)"
  unfolding ex_figures_def ex_figure_def by code_simp

lemma ex_chosen: "choose_figure ''sales_crore'' ex_rule (Some 2024) False ex_figures = Inr (ex_figure ''c'' 1)"
  unfolding ex_figures_def ex_figure_def by code_simp

lemma ex_metric_rule: "metric_rule_of (gt_policy ex_gate) ''sales_crore'' = Some ex_rule"
  by (simp add: metric_rule_of_def ex_gate_def ex_policy_def)

lemma ex_not_allowed: "direct ex_gate ex_chunks ''other'' = insufficient ''metric_not_allowed''"
  by (simp add: direct_def metric_rule_of_def ex_gate_def ex_policy_def)

lemma ex_selected:
  obtains sel where "select_sources ex_gate ex_rule ex_chunks = Inr sel" "sl_latest sel = Some 2024"
    "candidates ex_gate ''sales_crore'' ex_rule sel = Inr (False, ex_figures)"
  using ex_collected by (auto simp: res_bind_Inr_iff)

lemma ex_direct: "direct ex_gate ex_chunks ''sales_crore'' = Inr (ex_figure ''c'' 1)"
  by (rule ex_selected) (simp add: direct_def ex_metric_rule ex_chosen)

section \<open>Operands of a coverage ratio\<close>

definition ex_operand :: "string \<Rightarrow> string \<Rightarrow> figure" where
  "ex_operand name v = Figure name v (Some ''INR crore'') (Some ''2024'')
     \<lparr>ct_document = ''d'', ct_page = 1, ct_bbox = ex_box\<rparr>
     (Some \<lparr>ev_policy_hash = ''h'', ev_metric = name,
        ev_document_type = ''audited_financials'', ev_entity_hash = ''e'',
        ev_chunk = ''c'', ev_source_value = v, ev_source_unit = ''crore'', ev_factor = ''1'',
        ev_period = Some ''2024'', ev_basis = Some ''standalone'', ev_basis_resolution = Some ''same_page'',
        ev_context = [], ev_command = None, ev_age = None, ev_nic_version = None,
        ev_nic_activities = [], ev_provider = None, ev_approval = None\<rparr>)
     None"

definition ex_amounts :: "(string, string) dict" where
  "ex_amounts = [(''operating_revenue_crore'', ''130''), (''operating_expenses_crore'', ''30''),
     (''debt_service_crore'', ''50''), (''all_loan_principal_due_crore'', ''30''),
     (''all_loan_interest_due_crore'', ''15''), (''additional_lease_service_crore'', ''5'')]"

definition ex_extract :: "(string, string) dict \<Rightarrow> string \<Rightarrow> figure res" where
  "ex_extract amounts n = (case map_of amounts n of None \<Rightarrow> Inl missing | Some v \<Rightarrow> Inr (ex_operand n v))"

abbreviation ex_formula :: string where
  "ex_formula \<equiv> ''dscr_noi_operating_components_total_v1''"

definition ex_names :: "string list" where
  "ex_names = [''operating_revenue_crore'', ''operating_expenses_crore'', ''debt_service_crore'']"

definition ex_dscr_formula :: formula where
  "ex_dscr_formula = mk_formula ''dscr'' ex_names [1, -1, 0] [0, 0, 1] 1 ''x''"

definition ex_operands :: "figure list" where
  "ex_operands = [ex_operand ''operating_revenue_crore'' ''130'', ex_operand ''operating_expenses_crore'' ''30'',
     ex_operand ''debt_service_crore'' ''50'']"

definition ex_numbers :: "dec list" where
  "ex_numbers = [dec_of_int 130, dec_of_int 30, dec_of_int 50]"

lemma ex_lookup: "map_of FORMULAS ex_formula = Some ex_dscr_formula"
  by (simp add: FORMULAS_def dscr_and_debt_formulas_def mk_formula_def ex_dscr_formula_def ex_names_def)

lemma ex_dscr_formula_sel [simp]: "fm_operands ex_dscr_formula = ex_names" "fm_metric ex_dscr_formula = ''dscr''"
  "fm_numerator ex_dscr_formula = [1, -1, 0]" "fm_denominator ex_dscr_formula = [0, 0, 1]"
  "fm_scale ex_dscr_formula = 1" "fm_unit ex_dscr_formula = ''x''"
  by (simp_all add: ex_dscr_formula_def mk_formula_def)

lemma ex_operand_sel [simp]: "fg_value (ex_operand n v) = v" "operand_usable ''h'' (ex_operand n v)"
  "receipt_context (ex_operand n v) = (''e'', Some ''2024'', Some ''standalone'')"
  by (simp_all add: ex_operand_def operand_usable_def trusted_receipt_def receipt_context_def)

lemma ex_extracted: "res_map (ex_extract ex_amounts) ex_names = Inr ex_operands"
  by (simp add: ex_extract_def ex_amounts_def ex_names_def ex_operands_def)

lemma ex_parsed: "res_map (\<lambda>g. decimal_res (fg_value g)) ex_operands = Inr ex_numbers"
proof -
  have "decimal_res ''130'' = Inr (dec_of_int 130)" "decimal_res ''30'' = Inr (dec_of_int 30)"
    "decimal_res ''50'' = Inr (dec_of_int 50)" by code_simp+
  then show ?thesis by (simp add: ex_operands_def ex_numbers_def)
qed

lemma ex_components: "nonnegative_component ''operating_revenue_crore'' = False"
  "nonnegative_component ''operating_expenses_crore'' = True" "nonnegative_component ''debt_service_crore'' = False"
  by code_simp+

lemma ex_sums: "weighted [1, -1, 0] ex_numbers = dec_of_int 100" "weighted [0, 0, 1] ex_numbers = dec_of_int 50"
  by code_simp+

lemma ex_ratio: "dec_mul prec28 (dec_div prec28 (dec_of_int 100) (dec_of_int 50)) (dec_of_int 1) = dec_of_int 2"
  by (simp add: dec_div_def dec_mul_def prec28_def dec_of_int_def Let_def strip_zeros.simps dec_fix_def ndigits_rec)

lemma ex_signs: "dec_neg (dec_of_int 30) = False" "dec_nonpos (dec_of_int 50) = False"
  by code_simp+

lemma ex_evaluate: "evaluate ex_dscr_formula ex_numbers = Inr (dec_of_int 2)"
proof -
  have "length ex_numbers = length ex_names" "list_ex (\<lambda>(name, v). dec_neg v \<and> nonnegative_component name)
      (zip ex_names ex_numbers) = False"
    using ex_components ex_signs by (simp_all add: ex_names_def ex_numbers_def)
  then show ?thesis
    by (simp add: evaluate_Inr_iff ex_sums ex_ratio ex_signs ex_components Let_def)
      (simp add: ex_names_def ex_numbers_def ex_components ex_signs)
qed

definition ex_result :: figure where
  "ex_result = calculated_figure ex_formula ex_dscr_formula ''h'' ex_operands (dec_of_int 2)"

lemma ex_calculate_any:
  assumes "res_map ex ex_names = Inr ex_operands"
  shows "calculate ex_formula ex ''h'' = Inr ex_result"
proof -
  have "list_ex (\<lambda>g. \<not> operand_usable ''h'' g) ex_operands = False"
    "length (uniq (map receipt_context ex_operands)) = 1"
    by (simp_all add: ex_operands_def uniq_def)
  then show ?thesis
    by (simp add: calculate_def ex_lookup assms ex_parsed ex_evaluate ex_result_def)
qed

lemmas ex_calculate = ex_calculate_any[OF ex_extracted]

definition ex_cache :: figure_cache where
  "ex_cache = zip ex_names (map Inr ex_operands)"

lemma ex_staged:
  "res_bind (stage_all (ex_extract ex_amounts) fm_numerator [ex_formula] [])
     (stage_all (ex_extract ex_amounts) fm_denominator [ex_formula]) = Inr ex_cache"
proof -
  have "stage (ex_extract ex_amounts) (used_names ex_names [1, -1, 0]) [] = Inr (take 2 ex_cache)"
    "stage (ex_extract ex_amounts) (used_names ex_names [0, 0, 1]) (take 2 ex_cache) = Inr ex_cache"
    by (simp_all add: used_names_def ex_names_def ex_cache_def ex_operands_def cached_def ex_extract_def ex_amounts_def)
  moreover have "length ex_names = 3" by (simp add: ex_names_def)
  ultimately show ?thesis by (simp add: stage_formula_def ex_lookup)
qed

lemma ex_dscr: "calculate_dscr (Some [ex_formula]) (ex_extract ex_amounts) ''h'' = Inr ex_result"
proof -
  let ?ex = "via_cache (ex_extract ex_amounts) ex_cache"
  from ex_staged obtain c1 where st: "stage_all (ex_extract ex_amounts) fm_numerator [ex_formula] [] = Inr c1"
    "stage_all (ex_extract ex_amounts) fm_denominator [ex_formula] c1 = Inr ex_cache"
    by (auto simp: res_bind_Inr_iff)
  have bl: "blocking ex_cache = None" "reconcile_annual_service ?ex = Inr ()" by code_simp+
  have "check_denominator ex_cache ex_formula = Inr ()" by code_simp
  moreover have "?ex ''dscr'' = Inl missing"
    by (simp add: via_cache_def cached_def ex_cache_def ex_names_def ex_operands_def ex_extract_def ex_amounts_def)
  moreover have "res_map ?ex ex_names = Inr ex_operands"
    by (simp add: via_cache_def cached_def ex_cache_def ex_names_def ex_operands_def)
  moreover have "decimal_res (fg_value ex_result) = Inr (dec_of_int 2)"
  proof -
    have "decimal_res (format_f (dec_of_int 2)) = Inr (dec_of_int 2)" by code_simp
    then show ?thesis by (simp add: ex_result_def calculated_figure_def)
  qed
  ultimately show ?thesis
    using st bl by (simp add: calculate_dscr_def Let_def ex_calculate_any agree_def) (simp add: dec_eq_iff)
qed

lemma ex_reconcile: "reconcile_annual_service (ex_extract ex_amounts) = Inr ()"
  by code_simp

end
