(* ===== verification/GateSpec.thy ===== *)
theory GateSpec
  imports Gate
begin

text \<open>
  What the selection of a figure promises, in terms of the chunks the gate is given: the text of a document,
  the documents that may answer a metric, the years they report, and where an extracted figure comes from.
\<close>

section \<open>The sources of a metric\<close>

definition document_chunks :: "string \<Rightarrow> chunk list \<Rightarrow> chunk list" where
  "document_chunks d chunks = filter (\<lambda>c. chunk_documents c = [d]) chunks"

definition source_profile :: "gate \<Rightarrow> chunk list \<Rightarrow> string \<Rightarrow> document_profile" where
  "source_profile g chunks d = profile d (document_chunks d chunks) (gt_policy g)"

text \<open>An approval of the document for the application the gate works for.\<close>

definition approval_for :: "gate \<Rightarrow> string \<Rightarrow> source_approval \<Rightarrow> bool" where
  "approval_for g d a =
     (a \<in> set (po_approvals (gt_policy g)) \<and> Some (ap_application a) = gt_application g \<and> ap_document a = d)"

text \<open>A vendor report stands in for audited accounts, and only when it is approved.\<close>

definition accepted_type :: "metric_rule \<Rightarrow> string \<Rightarrow> bool" where
  "accepted_type rule t =
     (t \<in> set (mr_sources rule)
      \<or> t = ''financial_information_report'' \<and> ''audited_financials'' \<in> set (mr_sources rule))"

definition vendor_report :: "gate \<Rightarrow> chunk list \<Rightarrow> string \<Rightarrow> bool" where
  "vendor_report g chunks d = (''financial_information_report'' \<in> set (pr_types (source_profile g chunks d)))"

definition eligible_source :: "gate \<Rightarrow> metric_rule \<Rightarrow> chunk list \<Rightarrow> string \<Rightarrow> bool" where
  "eligible_source g rule chunks d =
     (document_chunks d chunks \<noteq> [] \<and> list_ex (accepted_type rule) (pr_types (source_profile g chunks d))
      \<and> (vendor_report g chunks d \<longrightarrow> list_ex (approval_for g d) (po_approvals (gt_policy g))))"

text \<open>The years that the text of an eligible source reports.\<close>

definition reported_year :: "gate \<Rightarrow> metric_rule \<Rightarrow> chunk list \<Rightarrow> nat \<Rightarrow> bool" where
  "reported_year g rule chunks y =
     (\<exists>c \<in> set chunks. \<exists>d. chunk_documents c = [d] \<and> eligible_source g rule chunks d \<and> y \<in> set (report_years (chunk_text c)))"

lemma allowed_accepted: "t \<in> set (allowed_types rule) \<longleftrightarrow> accepted_type rule t"
  by (auto simp: allowed_types_def accepted_type_def)

lemma profile_document [simp]: "pr_document (profile d cs p) = d"
  by (simp add: profile_def Let_def)

lemma source_profile_document [simp]: "pr_document (source_profile g chunks d) = d"
  by (simp add: source_profile_def)

lemma group_documents_Inr:
  assumes "group_documents chunks = Inr docs"
  shows "distinct (map fst docs)"
    and "map_of docs d = (if document_chunks d chunks = [] then None else Some (document_chunks d chunks))"
proof -
  define grow where "grow = foldl (\<lambda>dd c. dict_append (hd (chunk_documents c)) c dd) ([] :: (string, chunk list) dict)"
  have one: "\<forall>c \<in> set chunks. length (chunk_documents c) = 1" and docs: "docs = grow chunks"
    using assms by (auto simp: group_documents_def raise_if_Inr_iff list_ex_iff grow_def)
  from one have "distinct (map fst (grow chunks)) \<and> (\<forall>d. map_of (grow chunks) d
      = (if document_chunks d chunks = [] then None else Some (document_chunks d chunks)))"
  proof (induction chunks rule: rev_induct)
    case (snoc c cs)
    then have IH: "distinct (map fst (grow cs))"
      "map_of (grow cs) d = (if document_chunks d cs = [] then None else Some (document_chunks d cs))" for d by auto
    from snoc.prems obtain k where k: "chunk_documents c = [k]" by (auto simp: length_Suc_conv)
    have grow: "grow (cs @ [c]) = dict_append k c (grow cs)" by (simp add: grow_def k)
    have "document_chunks d (cs @ [c]) = document_chunks d cs @ (if d = k then [c] else [])" for d
      by (simp add: document_chunks_def k)
    then show ?case
      using IH unfolding grow dict_append_def
      by (auto simp: map_of_update distinct_update dict_get_default_def split: option.splits)
  qed (simp add: grow_def document_chunks_def)
  then show "distinct (map fst docs)"
    "map_of docs d = (if document_chunks d chunks = [] then None else Some (document_chunks d chunks))"
    by (auto simp: docs)
qed

lemma active_approvals_has:
  "dict_has (active_approvals g) d \<longleftrightarrow> list_ex (approval_for g d) (po_approvals (gt_policy g))"
proof -
  have "dict_has (foldl (\<lambda>d a. AList.update (ap_document a) a d) dd as) d
      \<longleftrightarrow> dict_has dd d \<or> (\<exists>a \<in> set as. ap_document a = d)" for dd :: "(string, source_approval) dict" and as
    by (induction as arbitrary: dd) (auto simp: dict_has_def map_of_update)
  then show ?thesis
    by (auto simp: active_approvals_def list_ex_iff approval_for_def dict_has_def)
qed

lemma select_sources_Inr:
  assumes "select_sources g rule chunks = Inr sel"
  shows "set (sl_sources sel) = source_profile g chunks ` {d. eligible_source g rule chunks d}"
    and "dict_get_default (sl_documents sel) d [] = document_chunks d chunks"
proof -
  from assms have docs: "group_documents chunks = Inr (sl_documents sel)"
    and src: "sl_sources sel = sources_of g rule (map (\<lambda>(d, cs). profile d cs (gt_policy g)) (sl_documents sel))"
    by (auto simp: select_sources_def Let_def res_bind_Inr_iff raise_if_Inr_iff)
  note g = group_documents_Inr[OF docs]
  then show "dict_get_default (sl_documents sel) d [] = document_chunks d chunks"
    by (simp add: dict_get_default_def)
  have mem: "(d, cs) \<in> set (sl_documents sel) \<longleftrightarrow> cs = document_chunks d chunks \<and> cs \<noteq> []" for d cs
    using g(2)[of d] g(1) map_of_eq_Some_iff[OF g(1), of d cs] by (auto split: if_splits)
  show "set (sl_sources sel) = source_profile g chunks ` {d. eligible_source g rule chunks d}"
  proof -
    have "(\<lambda>(d, cs). profile d cs (gt_policy g)) ` set (sl_documents sel)
        = source_profile g chunks ` {d. document_chunks d chunks \<noteq> []}"
      by (force simp: mem source_profile_def image_iff)
    then have "set (sl_sources sel) = {p \<in> source_profile g chunks ` {d. document_chunks d chunks \<noteq> []}.
        list_ex (accepted_type rule) (pr_types p)
        \<and> (\<not> is_report p \<or> list_ex (approval_for g (pr_document p)) (po_approvals (gt_policy g)))}"
      by (simp add: src sources_of_def allowed_accepted active_approvals_has)
    then show ?thesis
      by (auto simp: eligible_source_def vendor_report_def is_report_def)
  qed
qed

section \<open>A selected figure and its source\<close>

lemma direct_source:
  assumes d: "direct g chunks m = Inr f" and r: "metric_rule_of (gt_policy g) m = Some rule"
  shows "\<exists>e. fg_evidence f = Some e \<and> eligible_source g rule chunks (ct_document (fg_citation f))
    \<and> accepted_type rule (ev_document_type e)
    \<and> ev_document_type e \<in> set (pr_types (source_profile g chunks (ct_document (fg_citation f))))
    \<and> (vendor_report g chunks (ct_document (fg_citation f)) \<longrightarrow>
        (\<exists>a. approval_for g (ct_document (fg_citation f)) a
           \<and> ev_provider e = Some (ap_provider a) \<and> ev_approval e = Some (ap_approval a)))"
proof -
  from d r obtain sel where sel: "select_sources g rule chunks = Inr sel"
    and "candidate_of g chunks m rule sel f"
    by (auto elim: direct_Inr_cases)
  then obtain src c ctx rw where src: "src \<in> set (sl_sources sel)" and doc: "chunk_documents c = [pr_document src]"
    and rf: "row_figure g m rule src (sl_entity sel) c ctx rw = Inr f"
    unfolding candidate_of_def by blast
  from row_figure_Inr[OF rf] obtain v ct nic u where ct: "chunk_citation c = Inr ct"
    and f: "f = Figure m v u (snd rw) ct (Some (row_evidence g m rule src (sl_entity sel) c ctx nic rw)) None"
    by blast
  from select_sources_Inr(1)[OF sel] src obtain doc_id where
    p: "src = source_profile g chunks doc_id" "eligible_source g rule chunks doc_id" by auto
  from chunk_citation_in[OF ct] obtain q where q: "q \<in> set (chunk_prov c)" "ct = citation_from_provenance q" by blast
  from doc have "set (map pv_document (chunk_prov c)) = {doc_id}"
    unfolding chunk_documents_def p(1) source_profile_document by (rule uniq_singletonD)
  with q have cd: "ct_document ct = doc_id" by auto
  let ?ts = "filter (\<lambda>t. t \<in> set (allowed_types rule)) (pr_types src)"
  have "?ts \<noteq> []" using p by (auto simp: eligible_source_def list_ex_iff filter_empty_conv allowed_accepted)
  then have "sort ?ts \<noteq> []" by (metis set_empty set_sort)
  then have "hd (sort ?ts) \<in> set (sort ?ts)" by (rule list.set_sel(1))
  then have ht: "hd (sort ?ts) \<in> set (pr_types src)" "accepted_type rule (hd (sort ?ts))" by (auto simp: allowed_accepted)
  have "\<exists>a. approval_for g doc_id a \<and> map_of (active_approvals g) doc_id = Some a" if "vendor_report g chunks doc_id"
  proof -
    from that p(2) have "dict_has (active_approvals g) doc_id"
      by (simp add: eligible_source_def active_approvals_has)
    then obtain a where a: "map_of (active_approvals g) doc_id = Some a" by (auto simp: dict_has_def)
    from active_approvals_in[OF a] a show ?thesis by (auto simp: approval_for_def)
  qed
  with ht p cd show ?thesis by (auto simp: f row_evidence_def Let_def)
qed

lemma direct_newest_year:
  assumes d: "direct g chunks m = Inr f" and r: "metric_rule_of (gt_policy g) m = Some rule" "mr_period rule"
  shows "\<exists>p. fg_period f = Some p \<and> reported_year g rule chunks (nat_of_digits p)
    \<and> (\<forall>y. reported_year g rule chunks y \<longrightarrow> y \<le> nat_of_digits p)"
proof -
  from direct_latest[OF assms] obtain p sel where sel: "select_sources g rule chunks = Inr sel"
    and p: "fg_period f = Some p" "sl_latest sel = Some (nat_of_digits p)" by blast
  let ?ys = "concat (map (\<lambda>s. concat (map (\<lambda>c. report_years (chunk_text c))
      (dict_get_default (sl_documents sel) (pr_document s) []))) (sl_sources sel))"
  from sel r(2) p(2) have "?ys \<noteq> [] \<and> nat_of_digits p = Max (set ?ys)"
    by (clarsimp simp: select_sources_def Let_def res_bind_Inr_iff raise_if_Inr_iff
        simp del: concat_eq_Nil_conv set_concat)
  then have ne: "?ys \<noteq> []" and mx: "nat_of_digits p = Max (set ?ys)" by blast+
  have ys: "y \<in> set ?ys \<longleftrightarrow> reported_year g rule chunks y" for y
    by (auto simp: select_sources_Inr[OF sel] reported_year_def document_chunks_def)
  from ne have "Max (set ?ys) \<in> set ?ys" by (intro Max_in) auto
  then have "reported_year g rule chunks (nat_of_digits p)" unfolding mx ys .
  moreover have "y \<le> nat_of_digits p" if "reported_year g rule chunks y" for y
    using that unfolding ys[symmetric] mx by (intro Max_ge) auto
  ultimately show ?thesis using p by blast
qed

text \<open>The candidates the choice is made among: those with industry codes when there are any.\<close>

lemma direct_unanimous:
  assumes d: "direct g chunks m = Inr f" and r: "metric_rule_of (gt_policy g) m = Some rule"
    and s: "select_sources g rule chunks = Inr sel" and c: "candidates g m rule sel = Inr (older, fs)"
  shows "f \<in> set fs \<and> (list_ex has_nic fs \<longrightarrow> has_nic f)
    \<and> (\<forall>f' \<in> set fs. (has_nic f' \<or> \<not> list_ex has_nic fs) \<and> (mr_period rule \<longrightarrow> fg_period f' = fg_period f)
         \<longrightarrow> agreement_key m f' = agreement_key m f)"
proof -
  from d r s c have ch: "choose_figure m rule (sl_latest sel) older fs = Inr f"
    by (simp add: direct_def)
  from choose_figure_Inr[OF ch] obtain cs where
    cs: "latest_only rule (sl_latest sel) (if list_ex has_nic fs then filter has_nic fs else fs) = Inr cs"
    and f: "f \<in> set cs" "f \<in> set fs" by blast
  from latest_only_subset[OF cs] f(1) have "list_ex has_nic fs \<Longrightarrow> has_nic f" by auto
  with f(2) direct_no_conflict[OF assms] show ?thesis by blast
qed

text \<open>A candidate read from a row of a chunk.\<close>

definition read_from :: "chunk \<Rightarrow> row \<Rightarrow> figure \<Rightarrow> bool" where
  "read_from c r f =
     (fg_period f = snd r
      \<and> (case fg_evidence f of None \<Rightarrow> False | Some e \<Rightarrow> ev_chunk e = chunk_id c \<and> ev_source_value e = fst r))"

lemma row_figure_reads: "row_figure g m rule src en c ctx r = Inr f \<Longrightarrow> read_from c r f"
  by (drule row_figure_Inr) (auto simp: read_from_def row_evidence_def Let_def)

lemma res_map_member:
  "res_map f xs = Inr ys \<Longrightarrow> x \<in> set xs \<Longrightarrow> \<exists>y \<in> set ys. f x = Inr y"
  by (induction xs arbitrary: ys) (auto simp: res_bind_Inr_iff)

text \<open>No row is passed over: each one that is not of an earlier year than the newest gives a candidate.\<close>

lemma candidates_all_rows:
  assumes s: "select_sources g rule chunks = Inr sel" and c: "candidates g m rule sel = Inr (older, fs)"
    and ch: "ch \<in> set chunks" "chunk_documents ch = [d]" and el: "eligible_source g rule chunks d"
  shows "\<exists>rs. rows ch rule (Some (sl_entity sel)) = Inr rs
    \<and> (\<forall>r \<in> set rs. is_older (sl_latest sel) r \<or> list_ex (read_from ch r) fs)"
proof -
  let ?src = "source_profile g chunks d" and ?cs = "document_chunks d chunks"
  from c obtain outs where outs: "res_map (source_figures g m rule sel) (sl_sources sel) = Inr outs"
    and fs: "fs = concat (map snd (concat outs))"
    by (auto simp: candidates_def res_bind_Inr_iff)
  from el select_sources_Inr(1)[OF s] have "?src \<in> set (sl_sources sel)" by blast
  from res_map_member[OF outs this] obtain out where out: "out \<in> set outs"
    and "source_figures g m rule sel ?src = Inr out" by blast
  then have figures: "res_map (chunk_figures g m rule sel ?src ?cs) ?cs = Inr out"
    by (simp add: source_figures_def Let_def raise_if_Inr_iff select_sources_Inr(2)[OF s])
  have "ch \<in> set ?cs" using ch by (simp add: document_chunks_def)
  from res_map_member[OF figures this] obtain o1 where o1: "o1 \<in> set out"
    and cf: "chunk_figures g m rule sel ?src ?cs ch = Inr o1" by blast
  then obtain rs where rs: "rows ch rule (Some (sl_entity sel)) = Inr rs"
    by (auto simp: chunk_figures_def res_bind_Inr_iff)
  have "list_ex (read_from ch r) fs" if r: "r \<in> set rs" "\<not> is_older (sl_latest sel) r" for r
  proof -
    let ?cur = "filter (\<lambda>r. \<not> is_older (sl_latest sel) r) rs"
    have cur: "r \<in> set ?cur" using r by simp
    then have "?cur \<noteq> []" by force
    with cf rs obtain ctx fs' where
      fs': "res_map (row_figure g m rule ?src (sl_entity sel) ch ctx) ?cur = Inr fs'" "snd o1 = fs'"
      by (auto simp: chunk_figures_def Let_def res_bind_Inr_iff)
    from res_map_member[OF fs'(1) cur] obtain f where "f \<in> set fs'" "read_from ch r f"
      by (blast intro: row_figure_reads)
    moreover have "set fs' \<subseteq> set fs" using out o1 fs'(2) unfolding fs by auto
    ultimately show ?thesis by (auto simp: list_ex_iff)
  qed
  with rs show ?thesis by blast
qed

section \<open>Where an extracted figure comes from\<close>

lemma res_map_Inl_first:
  "res_map f xs = Inl e \<Longrightarrow> \<exists>pre x post. xs = pre @ x # post \<and> f x = Inl e \<and> list_all (\<lambda>y. \<exists>z. f y = Inr z) pre"
proof (induction xs)
  case (Cons x xs)
  show ?case
  proof (cases "f x")
    case (Inl e')
    with Cons.prems show ?thesis by (intro exI[of _ "[]"] exI[of _ x] exI[of _ xs]) simp
  next
    case (Inr z)
    with Cons.prems have "res_map f xs = Inl e" by (simp add: res_bind_Inl_iff)
    from Cons.IH[OF this] obtain pre y post where
      "xs = pre @ y # post" "f y = Inl e" "list_all (\<lambda>y. \<exists>z. f y = Inr z) pre" by blast
    with Inr show ?thesis by (intro exI[of _ "x # pre"] exI[of _ y] exI[of _ post]) simp
  qed
qed simp

text \<open>A formula lacks evidence when one of its operands is missing and those before it are there.\<close>

definition lacks_operand :: "(string \<Rightarrow> figure res) \<Rightarrow> string \<Rightarrow> bool" where
  "lacks_operand ex i =
     (\<exists>f pre n post. map_of FORMULAS i = Some f \<and> fm_operands f = pre @ n # post \<and> ex n = Inl missing
        \<and> list_all (\<lambda>k. \<exists>h. ex k = Inr h) pre)"

lemma calculate_lacks:
  assumes "calculate i ex ph = Inl missing"
  shows "lacks_operand ex i"
proof -
  from assms obtain f where f: "map_of FORMULAS i = Some f"
    by (auto simp: calculate_def split: option.splits)
  have "res_map ex (fm_operands f) = Inl missing"
  proof (cases "res_map ex (fm_operands f)")
    case (Inl e)
    with assms f show ?thesis by (simp add: calculate_def)
  next
    case (Inr ops)
    have bad: "e = InvalidOperation" if "res_map (\<lambda>g. decimal_res (fg_value g)) ops = Inl e" for e
      using that by (auto simp: decimal_res_def elim!: res_map_Inl_obtain split: option.splits)
    show ?thesis
    proof (cases "res_map (\<lambda>g. decimal_res (fg_value g)) ops")
      case (Inl e)
      from bad[OF Inl] Inl Inr assms f show ?thesis by (simp add: calculate_def raise_if_def split: if_splits)
    next
      case (Inr nums)
      with \<open>res_map ex (fm_operands f) = Inr ops\<close> assms f show ?thesis
        by (cases "evaluate f nums") (auto simp: calculate_def raise_if_def split: if_splits)
    qed
  qed
  from res_map_Inl_first[OF this] f show ?thesis unfolding lacks_operand_def by blast
qed

text \<open>
  The converse, and with it a gap: an operand that is missing hides what later operands of the formula would
  say, so for a metric other than the coverage ratio an alternative does bypass a conflict behind it.
\<close>

lemma missing_operand_hides_conflict:
  assumes "lacks_operand ex i"
  shows "calculate i ex ph = Inl missing"
proof -
  from assms obtain f pre n post where f: "map_of FORMULAS i = Some f" "fm_operands f = pre @ n # post"
    "ex n = Inl missing" "list_all (\<lambda>k. \<exists>h. ex k = Inr h) pre" by (auto simp: lacks_operand_def)
  have "res_map ex (pre @ n # post) = Inl missing" using f(3,4) by (induction pre) auto
  with f(1,2) show ?thesis by (simp add: calculate_def)
qed

lemma first_calculation_Inr:
  "first_calculation ex ph ids = Inr f \<Longrightarrow> \<exists>pre i post. ids = pre @ i # post \<and> calculate i ex ph = Inr f
     \<and> list_all (lacks_operand ex) pre"
proof (induction ids)
  case (Cons i ids)
  show ?case
  proof (cases "calculate i ex ph")
    case (Inr h)
    with Cons.prems show ?thesis by (intro exI[of _ "[]"] exI[of _ i] exI[of _ ids]) simp
  next
    case (Inl e)
    with Cons.prems have "e = missing" "first_calculation ex ph ids = Inr f" by (auto split: if_splits)
    with Cons.IH calculate_lacks Inl obtain pre j post where "ids = pre @ j # post" "calculate j ex ph = Inr f"
      "list_all (lacks_operand ex) (i # pre)" by fastforce
    then show ?thesis by (intro exI[of _ "i # pre"] exI[of _ j] exI[of _ post]) simp
  qed
qed simp

definition company_age_of :: "gate \<Rightarrow> chunk list \<Rightarrow> string \<Rightarrow> figure \<Rightarrow> bool" where
  "company_age_of g chunks asd f =
     (\<exists>source inc day n. direct g chunks ''incorporation_date'' = Inr source
        \<and> fromisoformat (fg_value source) = Inr inc \<and> fromisoformat asd = Inr day
        \<and> 0 \<le> n \<and> anniversary inc n \<le> day \<and> day < anniversary inc (n + 1)
        \<and> fg_value f = str_of_int n \<and> fg_citation f = fg_citation source)"

lemma company_age_Inr:
  assumes "res_bind (direct g chunks ''incorporation_date'') (company_age g asd) = Inr f"
  shows "company_age_of g chunks asd f"
proof -
  from assms obtain source where source: "direct g chunks ''incorporation_date'' = Inr source"
    and age: "company_age g asd source = Inr f" by (auto simp: res_bind_Inr_iff)
  let ?n = "res_bind (fromisoformat (fg_value source)) (\<lambda>inc. res_bind (fromisoformat asd) (completed_years inc))"
  show ?thesis
  proof (cases ?n)
    case (Inr n)
    then obtain inc day where d: "fromisoformat (fg_value source) = Inr inc" "fromisoformat asd = Inr day"
      "completed_years inc day = Inr n" by (auto simp: res_bind_Inr_iff)
    have "fg_value f = str_of_int n" "fg_citation f = fg_citation source"
      using age unfolding company_age_def Inr by auto
    with source d completed_years_Inr[OF d(3)] show ?thesis unfolding company_age_of_def by blast
  qed (use age in \<open>simp add: company_age_def\<close>)
qed

lemma extract_metric_origin:
  assumes "extract_metric g chunks m = Inr f"
  shows "case gt_assessment g of
      Some asd \<Rightarrow> if m = ''years_operating'' then company_age_of g chunks asd f else True | None \<Rightarrow> True"
    and "m \<noteq> ''dscr'' \<Longrightarrow> m \<noteq> ''years_operating'' \<or> gt_assessment g = None \<Longrightarrow>
      direct g chunks m = Inr f \<or> direct g chunks m = Inl missing
        \<and> (\<exists>pre i post. formula_choices (gt_policy g) m = Some (pre @ i # post)
             \<and> calculate i (direct g chunks) (policy_hash (gt_policy g)) = Inr f
             \<and> list_all (lacks_operand (direct g chunks)) pre)"
    and "m = ''dscr'' \<Longrightarrow> \<exists>ids. formula_choices (gt_policy g) m = Some ids
        \<and> (\<exists>i \<in> set ids. calculate i (direct g chunks) (policy_hash (gt_policy g)) = Inr f)"
proof -
  show "case gt_assessment g of
      Some asd \<Rightarrow> if m = ''years_operating'' then company_age_of g chunks asd f else True | None \<Rightarrow> True"
    using assms by (auto simp: extract_metric_def intro: company_age_Inr split: option.splits)
next
  assume "m \<noteq> ''dscr''" "m \<noteq> ''years_operating'' \<or> gt_assessment g = None"
  with assms have e: "(case direct g chunks m of Inr f \<Rightarrow> Inr f | Inl e \<Rightarrow>
      if e \<noteq> missing then Inl e else (case formula_choices (gt_policy g) m of None \<Rightarrow> Inl e
        | Some ids \<Rightarrow> first_calculation (direct g chunks) (policy_hash (gt_policy g)) ids)) = Inr f"
    by (auto simp: extract_metric_def split: option.splits)
  show "direct g chunks m = Inr f \<or> direct g chunks m = Inl missing
        \<and> (\<exists>pre i post. formula_choices (gt_policy g) m = Some (pre @ i # post)
             \<and> calculate i (direct g chunks) (policy_hash (gt_policy g)) = Inr f
             \<and> list_all (lacks_operand (direct g chunks)) pre)"
  proof (cases "direct g chunks m")
    case (Inl e')
    with e obtain ids where "e' = missing" "formula_choices (gt_policy g) m = Some ids"
      "first_calculation (direct g chunks) (policy_hash (gt_policy g)) ids = Inr f"
      by (auto split: if_splits option.splits)
    with Inl first_calculation_Inr show ?thesis by fastforce
  qed (use e in simp)
next
  assume m: "m = ''dscr''"
  with assms have "calculate_dscr (formula_choices (gt_policy g) ''dscr'') (direct g chunks) (policy_hash (gt_policy g)) = Inr f"
    by (auto simp: extract_metric_def split: option.splits)
  then obtain ids results where "formula_choices (gt_policy g) ''dscr'' = Some ids"
    and c: "calculations_of (direct g chunks) (policy_hash (gt_policy g)) ids = Inr results" "results \<noteq> []" "f = hd results"
    by (auto elim: calculate_dscr_cases)
  moreover have "\<exists>i \<in> set ids. calculate i (direct g chunks) (policy_hash (gt_policy g)) = Inr f"
    using calculations_of_Inr[OF c(1)] c(2,3) by (metis list.set_sel(1))
  ultimately show "\<exists>ids. formula_choices (gt_policy g) m = Some ids
        \<and> (\<exists>i \<in> set ids. calculate i (direct g chunks) (policy_hash (gt_policy g)) = Inr f)" using m by blast
qed

end
