(* ===== verification/ReasonProps.thy ===== *)
theory ReasonProps
  imports ReasonExamples GateSpec
begin

text \<open>
  The properties of the reasoning components: grounded selection of a figure, calculated
  metrics and coverage ratios, reviewer interpretations, and the tables they rest on.
\<close>

section \<open>Selecting a figure\<close>

text \<open>C1: A figure the gate selects carries the requested metric, no calculation, and a validation
  under the hash of the gate's own policy; it cites a place on which one of the chunks given to
  the gate stands, and names that chunk.\<close>

theorem selected_figure_grounded:
  assumes "direct g chunks m = Inr f"
  shows "fg_label f = m \<and> fg_calculation f = None
    \<and> (\<exists>e c p. fg_evidence f = Some e \<and> ev_metric e = m \<and> ev_policy_hash e = policy_hash (gt_policy g)
       \<and> c \<in> set chunks \<and> ev_chunk e = chunk_id c
       \<and> p \<in> set (chunk_prov c) \<and> fg_citation f = citation_from_provenance p)"
  using direct_grounded[OF assms] by blast

theorem selected_figure_grounded_witness:
  "\<exists>c p. c \<in> set ex_chunks \<and> chunk_id c = ''c'' \<and> p \<in> set (chunk_prov c) \<and> ex_cite 1 = citation_from_provenance p"
  using selected_figure_grounded[OF ex_direct] by (auto simp: ex_figure_def)

text \<open>C2: A selected figure cites a document whose own text has a type that the metric allows, and its
  validation records one of these types. Where the text has the type of a vendor's report, whatever type is
  recorded, the policy holds an approval of that very document for the gate's application, and the validation
  carries the provider and the identifier of such an approval.\<close>

theorem selected_figure_source:
  assumes "direct g chunks m = Inr f" "metric_rule_of (gt_policy g) m = Some rule"
  shows "\<exists>e. fg_evidence f = Some e
    \<and> (let d = ct_document (fg_citation f);
           types = pr_types (profile d (filter (\<lambda>c. chunk_documents c = [d]) chunks) (gt_policy g))
       in ev_document_type e \<in> set types \<and> accepted_type rule (ev_document_type e)
        \<and> (''financial_information_report'' \<notin> set types
           \<or> (\<exists>a \<in> set (po_approvals (gt_policy g)). Some (ap_application a) = gt_application g \<and> ap_document a = d
                \<and> ev_provider e = Some (ap_provider a) \<and> ev_approval e = Some (ap_approval a))))"
  using direct_source[OF assms]
  by (auto simp: Let_def source_profile_def document_chunks_def vendor_report_def approval_for_def)

theorem selected_figure_source_witness:
  "\<exists>e. fg_evidence (ex_figure ''c'' 1) = Some e \<and> ev_document_type e \<in> {''audited_financials'', ''financial_information_report''}"
  using selected_figure_source[OF ex_direct ex_metric_rule] by (auto simp: Let_def accepted_type_def ex_rule_def)

text \<open>C3: A dated metric is answered only for the newest year that the text of its source documents reports:
  the figure's year is reported by an eligible source (a document with an allowed type, and with an approval if
  it is a vendor's report), and no eligible source reports a later one.\<close>

theorem selected_figure_latest:
  assumes "direct g chunks m = Inr f" "metric_rule_of (gt_policy g) m = Some rule" "mr_period rule"
  shows "\<exists>p. fg_period f = Some p
    \<and> (\<exists>c \<in> set chunks. \<exists>d. chunk_documents c = [d] \<and> eligible_source g rule chunks d
         \<and> nat_of_digits p \<in> set (report_years (chunk_text c)))
    \<and> list_all (\<lambda>c. if chunk_documents c = [d] \<and> eligible_source g rule chunks d
         then list_all (\<lambda>y. y \<le> nat_of_digits p) (report_years (chunk_text c)) else True) chunks"
proof -
  from direct_newest_year[OF assms] obtain p where p: "fg_period f = Some p"
    and here: "reported_year g rule chunks (nat_of_digits p)"
    and newest: "\<And>y. reported_year g rule chunks y \<Longrightarrow> y \<le> nat_of_digits p" by blast
  have "y \<le> nat_of_digits p" if "c \<in> set chunks" "chunk_documents c = [d]" "eligible_source g rule chunks d"
    "y \<in> set (report_years (chunk_text c))" for c y
    using that by (intro newest) (auto simp: reported_year_def)
  with p here show ?thesis by (auto simp: reported_year_def list_all_iff)
qed

theorem selected_figure_latest_witness:
  "\<exists>c \<in> set ex_chunks. \<exists>d. chunk_documents c = [d] \<and> eligible_source ex_gate ex_rule ex_chunks d
     \<and> nat_of_digits ''2024'' \<in> set (report_years (chunk_text c))"
proof -
  have "mr_period ex_rule" by (simp add: ex_rule_def)
  from selected_figure_latest[OF ex_direct ex_metric_rule this, of "''d''"] show ?thesis
    unfolding ex_figure_def figure.sel by (elim exE conjE) (simp only: option.inject)
qed

text \<open>C4: Each row of the metric in a chunk of an eligible source, other than those of earlier years, gives a
  candidate with the value, the period and the chunk of that row, and the selected figure is one of the
  candidates. Candidates with industry codes of a registration outrank the others when there are any; among the
  candidates of that rank, and for a dated metric of the selected period, none disagrees with the selected one in
  value (for a borrower's name, its identity), unit, period or basis: a conflict of that rank is refused, not
  resolved.\<close>

theorem selected_figure_unanimous:
  assumes "direct g chunks m = Inr f" "metric_rule_of (gt_policy g) m = Some rule"
    and "select_sources g rule chunks = Inr sel" "candidates g m rule sel = Inr (older, fs)"
  shows "list_all (\<lambda>c. if chunk_documents c = [d] \<and> eligible_source g rule chunks d
        then (case rows c rule (Some (sl_entity sel)) of Inl e \<Rightarrow> False
          | Inr rs \<Rightarrow> list_all (\<lambda>r. is_older (sl_latest sel) r
              \<or> list_ex (\<lambda>f'. fg_period f' = snd r
                  \<and> (case fg_evidence f' of None \<Rightarrow> False
                     | Some e \<Rightarrow> ev_chunk e = chunk_id c \<and> ev_source_value e = fst r)) fs) rs)
        else True) chunks
    \<and> f \<in> set fs
    \<and> (let ranked = (if list_ex has_nic fs then filter has_nic fs else fs) in
         f \<in> set ranked
         \<and> list_all (\<lambda>f'. if mr_period rule \<and> fg_period f' \<noteq> fg_period f then True
             else agreement_key m f' = agreement_key m f) ranked)"
proof -
  let ?ranked = "if list_ex has_nic fs then filter has_nic fs else fs"
  from direct_unanimous[OF assms] have f: "f \<in> set fs" "f \<in> set ?ranked"
    and agree: "\<And>f'. f' \<in> set fs \<Longrightarrow> has_nic f' \<or> \<not> list_ex has_nic fs \<Longrightarrow>
      (mr_period rule \<longrightarrow> fg_period f' = fg_period f) \<Longrightarrow> agreement_key m f' = agreement_key m f" by auto
  have "if mr_period rule \<and> fg_period f' \<noteq> fg_period f then True else agreement_key m f' = agreement_key m f"
    if "f' \<in> set ?ranked" for f'
    using agree[of f'] that by (cases "list_ex has_nic fs") auto
  moreover have "list_all (\<lambda>c. if chunk_documents c = [d] \<and> eligible_source g rule chunks d
      then (case rows c rule (Some (sl_entity sel)) of Inl e \<Rightarrow> False
        | Inr rs \<Rightarrow> list_all (\<lambda>r. is_older (sl_latest sel) r \<or> list_ex (read_from c r) fs) rs)
      else True) chunks"
    using candidates_all_rows[OF assms(3,4)] by (fastforce simp: list_all_iff)
  ultimately show ?thesis using f unfolding Let_def list_all_iff read_from_def by blast
qed

theorem selected_figure_unanimous_witness:
  "agreement_key ''sales_crore'' (ex_figure ''k'' 2) = agreement_key ''sales_crore'' (ex_figure ''c'' 1)"
proof (rule ex_selected)
  fix sel
  assume s: "select_sources ex_gate ex_rule ex_chunks = Inr sel"
    "candidates ex_gate ''sales_crore'' ex_rule sel = Inr (False, ex_figures)"
  show ?thesis
    using selected_figure_unanimous[OF ex_direct ex_metric_rule s]
    by (simp add: Let_def ex_figures_def ex_figure_def has_nic_def)
qed

section \<open>Extracted and calculated metrics\<close>

text \<open>C5: Where an extracted figure comes from. The coverage ratio is always the result of one of its configured
  formulas. With an assessment date the years of operation are the completed years between the selected
  incorporation date and that date, cited where the date is. Any other figure is the disclosed one; only if
  the disclosure is missing, not when it is ambiguous, conflicting or stale, it is the result of the first
  configured formula for which no operand is missing: each formula before it has a missing operand, all
  operands before that one being there.\<close>

theorem extracted_figure_origin:
  assumes "extract_metric g chunks m = Inr f"
  shows "if m = ''dscr''
    then list_ex (list_ex (\<lambda>i. calculate i (direct g chunks) (policy_hash (gt_policy g)) = Inr f))
           (case formula_choices (gt_policy g) m of None \<Rightarrow> [] | Some ids \<Rightarrow> [ids])
    else if m = ''years_operating'' \<and> gt_assessment g \<noteq> None
    then \<exists>source inc day n. direct g chunks ''incorporation_date'' = Inr source
        \<and> fromisoformat (fg_value source) = Inr inc \<and> fromisoformat (the (gt_assessment g)) = Inr day
        \<and> 0 \<le> n \<and> anniversary inc n \<le> day \<and> day < anniversary inc (n + 1)
        \<and> fg_value f = str_of_int n \<and> fg_citation f = fg_citation source
    else direct g chunks m = Inr f \<or> direct g chunks m = Inl missing
        \<and> (\<exists>pre i post. formula_choices (gt_policy g) m = Some (pre @ i # post)
             \<and> calculate i (direct g chunks) (policy_hash (gt_policy g)) = Inr f
             \<and> list_all (lacks_operand (direct g chunks)) pre)"
proof (cases "m = ''dscr''")
  case True
  with extract_metric_origin(3)[OF assms True] show ?thesis by (auto simp: list_ex_iff Bex_def)
next
  case False
  show ?thesis
  proof (cases "gt_assessment g")
    case None
    with extract_metric_origin(2)[OF assms False] False show ?thesis by simp
  next
    case (Some asd)
    show ?thesis
    proof (cases "m = ''years_operating''")
      case True
      with extract_metric_origin(1)[OF assms] Some have "company_age_of g chunks asd f" by simp
      then show ?thesis using True False Some by (simp add: company_age_of_def)
    next
      case no_age: False
      with extract_metric_origin(2)[OF assms False] False show ?thesis by simp
    qed
  qed
qed

theorem extracted_figure_origin_witness:
  "direct ex_gate ex_chunks ''sales_crore'' = Inr (ex_figure ''c'' 1)
   \<and> extract_metric ex_gate ex_chunks ''sales_crore'' = Inr (ex_figure ''c'' 1)"
proof -
  have run: "extract_metric ex_gate ex_chunks ''sales_crore'' = Inr (ex_figure ''c'' 1)"
    by (rule extract_direct_wins[OF ex_direct]) simp_all
  from extracted_figure_origin[OF run] run show ?thesis by (simp add: ex_direct)
qed

text \<open>C6: A calculated figure is the value of its formula on the operands its receipt lists: each is
  the extracted figure of that name, audited or approved, not itself calculated, in crore, and
  all share one borrower, one period and one basis.\<close>

theorem calculation_receipt_complete:
  assumes "calculate i ex ph = Inr g"
  shows "\<exists>f ops nums v. map_of FORMULAS i = Some f \<and> fg_calculation g = Some (CalcReceipt i ph ops)
    \<and> list_all2 (\<lambda>n op. ex n = Inr op) (fm_operands f) ops
    \<and> list_all (operand_usable ph) ops
    \<and> list_all (\<lambda>op. receipt_context op = receipt_context (hd ops)) ops
    \<and> list_all2 (\<lambda>op d. decimal_of_string (fg_value op) = Some d) ops nums
    \<and> evaluate f nums = Inr v \<and> fg_label g = fm_metric f \<and> fg_value g = format_f v
    \<and> fg_unit g = Some (fm_unit f) \<and> 2 \<le> length ops \<and> length ops \<le> 6"
proof -
  from calculate_sound[OF assms] obtain f ops nums v where h: "map_of FORMULAS i = Some f"
    "list_all2 (\<lambda>n op. ex n = Inr op) (fm_operands f) ops" "list_all (operand_usable ph) ops"
    "\<forall>op \<in> set ops. receipt_context op = receipt_context (hd ops)"
    "list_all2 (\<lambda>op d. decimal_of_string (fg_value op) = Some d) ops nums"
    "evaluate f nums = Inr v" "g = calculated_figure i f ph ops v" by blast
  have "length ops = length (fm_operands f)" using h(2) by (simp add: list_all2_lengthD)
  with h formulas_ok[OF h(1)] show ?thesis
    by (fastforce simp: calculated_figure_def list_all_iff formula_ok_def)
qed

theorem calculation_receipt_complete_witness:
  "\<exists>ops. fg_calculation ex_result = Some (CalcReceipt ex_formula ''h'' ops) \<and> 2 \<le> length ops"
  using calculation_receipt_complete[OF ex_calculate] by blast

text \<open>C17: On amounts of up to fifteen digits before and twelve after the point, a formula divides
  only by a positive sum, and its value deviates from the exact quotient by a relative error of
  at most two units in the twenty-seventh place.\<close>

theorem formula_value_accurate:
  assumes "map_of FORMULAS k = Some f" "list_all plain_amount vs" "evaluate f vs = Inr r"
  shows "let bottom = (if fm_denominator f = [] then 1 else exact_sum (fm_denominator f) vs);
             exact = exact_sum (fm_numerator f) vs / bottom * of_int (fm_scale f)
         in 0 < bottom \<and> \<bar>dec_val r - exact\<bar> \<le> 2 * 10 powi (-27) * \<bar>exact\<bar>"
  unfolding Let_def by (rule evaluate_accurate[OF assms])

theorem formula_value_accurate_witness:
  "let exact = exact_sum [1, -1, 0] ex_numbers / exact_sum [0, 0, 1] ex_numbers
   in \<bar>dec_val (dec_of_int 2) - exact\<bar> \<le> 2 * 10 powi (-27) * \<bar>exact\<bar>"
proof -
  have "list_all plain_amount ex_numbers" by code_simp
  from formula_value_accurate[OF ex_lookup this ex_evaluate] show ?thesis
    unfolding Let_def by (simp only: ex_dscr_formula_sel list.distinct if_False of_int_1 mult_1_right)
qed

text \<open>Every formula of the table has two to six distinct operands, coefficient lists of their
  length, a numerator and where it divides a denominator that are not all zero, no operand it
  ignores, and a positive scale; the debt-service ratios divide, are plain multiples, and the ones on
  operating income use neither EBITDA, nor depreciation, nor profit, nor cash flow.\<close>

theorem formula_table_sound:
  "list_all (\<lambda>(k, f). formula_ok f \<and> dscr_formula_ok k f) FORMULAS \<and> distinct (map fst FORMULAS)"
  using formulas_ok_all dscr_formulas_ok_all formulas_distinct by (auto simp: list_all_iff)

text \<open>C15: A coverage ratio is returned only if every operand that any of the configured formulas uses
  is either there or plainly missing, and every configured formula that can be evaluated gives the
  same value as the one returned: no alternative bypasses a conflict.\<close>

theorem coverage_ratio_unanimous:
  assumes "calculate_dscr (Some ids) ex ph = Inr g" "i \<in> set ids" "map_of FORMULAS i = Some f"
  shows "list_all (\<lambda>n. (\<exists>h. ex n = Inr h) \<or> ex n = Inl missing)
      (used_names (fm_operands f) (fm_numerator f) @ used_names (fm_operands f) (fm_denominator f))
    \<and> (calculate i ex ph = Inl missing
       \<or> (\<exists>h a b. calculate i ex ph = Inr h \<and> decimal_of_string (fg_value h) = Some a
            \<and> decimal_of_string (fg_value g) = Some b \<and> dec_val a = dec_val b))"
  using dscr_no_bypass[OF assms] dscr_agrees[OF assms(1,2)] by (auto simp: list_all_iff)

theorem coverage_ratio_unanimous_witness:
  "\<exists>h a b. calculate ex_formula (ex_extract ex_amounts) ''h'' = Inr h \<and> decimal_of_string (fg_value h) = Some a
     \<and> decimal_of_string (fg_value ex_result) = Some b \<and> dec_val a = dec_val b"
  using coverage_ratio_unanimous[OF ex_dscr _ ex_lookup] by (simp add: ex_calculate)

text \<open>An obligation schedule of which one part is disclosed and another is missing stops the
  reconciliation as missing evidence: it is neither zero-filled nor replaced by a narrower total.\<close>

theorem partial_schedule_refused:
  assumes "list_all (\<lambda>n. (\<exists>g. ex n = Inr g) \<or> ex n = Inl missing) schedule_names"
    and "n \<in> set schedule_names" "ex n = Inr g" "m \<in> set schedule_names" "ex m = Inl missing"
  shows "reconcile_annual_service ex = Inl missing"
  using assms by (intro partial_schedule_blocks[of ex n g m]) (auto simp: list_all_iff)

theorem partial_schedule_refused_witness:
  "reconcile_annual_service (ex_extract [(''all_loan_interest_due_crore'', ''15'')]) = Inl missing"
  by (rule partial_schedule_refused[of _ "''all_loan_interest_due_crore''"
        "ex_operand ''all_loan_interest_due_crore'' ''15''" "''additional_lease_service_crore''"])
    (simp_all add: schedule_names_def ex_extract_def)

text \<open>C16: When the reconciliation passes with the whole schedule and a total disclosed, the parts are
  not negative, the total is their sum and positive, and it has the context of the schedule.\<close>

theorem full_schedule_adds_up:
  assumes "reconcile_annual_service ex = Inr ()"
    and "list_all (\<lambda>n. ex n = Inr (h n)) schedule_names" "ex ''debt_service_crore'' = Inr ttl"
  shows "\<exists>amounts t. list_all2 (\<lambda>n a. decimal_of_string (fg_value (h n)) = Some a) schedule_names amounts
    \<and> list_all (\<lambda>a. \<not> dec_neg a) amounts \<and> decimal_of_string (fg_value ttl) = Some t
    \<and> dec_eq t (dec_sum prec28 amounts) \<and> \<not> dec_nonpos t
    \<and> service_context ttl = service_context (h ''all_loan_principal_due_crore'')"
  using reconciled_schedule_total[of ex h ttl] assms by (simp add: list_all_iff)

theorem full_schedule_adds_up_witness:
  "\<exists>amounts t. list_all (\<lambda>a. \<not> dec_neg a) amounts \<and> decimal_of_string ''50'' = Some t
     \<and> dec_eq t (dec_sum prec28 amounts) \<and> \<not> dec_nonpos t"
proof -
  have "list_all (\<lambda>n. ex_extract ex_amounts n = Inr (ex_operand n (the (map_of ex_amounts n)))) schedule_names"
    "ex_extract ex_amounts ''debt_service_crore'' = Inr (ex_operand ''debt_service_crore'' ''50'')"
    by (simp_all add: schedule_names_def ex_extract_def ex_amounts_def)
  from full_schedule_adds_up[OF ex_reconcile this] show ?thesis by auto
qed

section \<open>Assessments\<close>

text \<open>C18: An assessment that returns has one entry per requested metric, in order; an entry is
  supported exactly when the metric was extracted, and then carries that figure; every other
  entry carries an error code and at most twenty candidate citations, and is never a scope
  violation in disguise.\<close>

theorem assessment_complete:
  assumes "assess g metrics chunks = Inr as"
  shows "map fa_metric as = metrics \<and> list_all assessment_ok as
    \<and> list_all2 (\<lambda>m a. case extract_metric g chunks m of Inr f \<Rightarrow> fa_figure a = Some f
        | Inl _ \<Rightarrow> fa_figure a = None) metrics as"
  by (rule assess_total_map[OF assms])

theorem assessment_complete_witness:
  "\<exists>as. assess ex_gate [''sales_crore''] ex_chunks = Inr as \<and> map fa_figure as = [Some (ex_figure ''c'' 1)]"
proof -
  have "extract_metric ex_gate ex_chunks ''sales_crore'' = Inr (ex_figure ''c'' 1)"
    by (rule extract_direct_wins[OF ex_direct]) simp_all
  moreover from this obtain as where "assess ex_gate [''sales_crore''] ex_chunks = Inr as"
    by (simp add: assess_def assess_metric_def Let_def)
  ultimately show ?thesis using assessment_complete by (fastforce simp: list_all2_Cons1)
qed

section \<open>Reviewer interpretations\<close>

text \<open>An interpretation resolves only against the policy and period it was made for, its own target
  chunk and a source of its own document; the basis and the context citations are the reviewer's,
  and a reporting-scope authority is reported as such.\<close>

theorem interpretation_bound_to_source:
  "case resolve_interpretation link target source period policy of
     Inl _ \<Rightarrow> True
   | Inr (b, how, cites) \<Rightarrow> b = ip_basis link \<and> cites = ip_context link \<and> period = Some (ip_period link)
       \<and> ip_policy_hash link = policy_hash policy \<and> chunk_id target = ip_target_chunk link
       \<and> list_all (\<lambda>c. list_all (\<lambda>p. pv_document p = ip_document link) (chunk_prov c)) source
       \<and> (how = ''reviewer_reporting_scope'' \<longleftrightarrow> ip_authority link = ''reporting_scope'')"
  using resolve_interpretation_cases[of link target source period policy]
  by (auto simp: list_all_iff split: sum.split)

text \<open>Options offered to a reviewer are bounded, and each reporting-scope option resolves: it is
  accepted by the very check that a returned link has to pass.\<close>

theorem offered_scopes_resolve:
  "length (interpretation_options chunks policy) \<le> option_limit
   \<and> list_all (\<lambda>link. list_ex (\<lambda>target. chunk_id target = ip_target_chunk link
        \<and> (case resolve_interpretation link target (document_source chunks (ip_document link))
              (Some (ip_period link)) policy of Inr _ \<Rightarrow> True | Inl _ \<Rightarrow> False)) chunks)
      (reporting_scope_options chunks policy budget)"
proof (intro conjI interpretation_options_bounded, unfold list_all_iff list_ex_iff, intro ballI)
  fix link
  assume "link \<in> set (reporting_scope_options chunks policy budget)"
  from reporting_scope_options_resolve[OF this] obtain target r where "target \<in> set chunks"
    "chunk_id target = ip_target_chunk link" "resolve_interpretation link target
      (document_source chunks (ip_document link)) (Some (ip_period link)) policy = Inr r" by blast
  then show "\<exists>target \<in> set chunks. chunk_id target = ip_target_chunk link
      \<and> (case resolve_interpretation link target (document_source chunks (ip_document link))
            (Some (ip_period link)) policy of Inr _ \<Rightarrow> True | Inl _ \<Rightarrow> False)"
    by (intro bexI[of _ target]) auto
qed

text \<open>A citation is grounded to a known citation of the same document and page whose box overlaps
  it at least to the threshold, and no known citation there overlaps it more.\<close>

theorem grounded_citation_best:
  "case ground_citation m c cs of
     Inl e \<Rightarrow> is_value_error e
       \<and> list_all (\<lambda>d. \<not> (ct_document d = ct_document c \<and> ct_page d = ct_page c
            \<and> m \<le> bbox_iou (ct_bbox c) (ct_bbox d))) cs
   | Inr best \<Rightarrow> List.member cs best \<and> ct_document best = ct_document c \<and> ct_page best = ct_page c
       \<and> m \<le> bbox_iou (ct_bbox c) (ct_bbox best)
       \<and> list_all (\<lambda>d. bbox_iou (ct_bbox c) (ct_bbox d) \<le> bbox_iou (ct_bbox c) (ct_bbox best))
            (filter (\<lambda>d. ct_document d = ct_document c \<and> ct_page d = ct_page c) cs)"
proof (cases "ground_citation m c cs")
  case (Inl e)
  with ground_citation_total[of _ cs c m] ground_citation_error[OF Inl] show ?thesis
    by (fastforce simp: list_all_iff)
next
  case (Inr best)
  with ground_citation_sound[OF Inr] ground_citation_best[OF Inr] show ?thesis
    by (auto simp: list_all_iff)
qed

section \<open>Numbers, dates and tables\<close>

text \<open>The completed years between incorporation and assessment are the greatest number of
  anniversaries reached, and they exist whenever the incorporation is not later.\<close>

theorem completed_years_exact:
  "case completed_years inc asd of
     Inl e \<Rightarrow> asd < inc \<and> is_value_error e
   | Inr n \<Rightarrow> 0 \<le> n \<and> inc \<le> asd \<and> anniversary inc n \<le> asd \<and> asd < anniversary inc (n + 1)"
proof (cases "completed_years inc asd")
  case (Inl e)
  then show ?thesis by (auto simp: completed_years_def raise_if_def split: if_splits)
next
  case (Inr n)
  with completed_years_Inr[OF Inr] show ?thesis by (auto simp: completed_years_def raise_if_Inr_iff)
qed

text \<open>A calculated decimal survives its printing: the text of a figure reads back as the value.\<close>

theorem printed_decimal_reads_back:
  "\<exists>b. decimal_of_string (format_f a) = Some b \<and> dec_val b = dec_val a"
  by (rule decimal_of_format_f)

text \<open>The activities read from a registration table are distinct and each class code extends its
  division, each subclass its class; a row that breaks the hierarchy is an error, never skipped.\<close>

theorem nic_codes_nested:
  "case activities t of Inl e \<Rightarrow> is_value_error e | Inr as \<Rightarrow> distinct as \<and> list_all nic_hierarchy as"
  using activities_sound activities_error by (auto simp: list_all_iff split: sum.split)

text \<open>The classified sections partition the pages the chunks stand on: every page lies in exactly
  one section, and no section covers a page without evidence.\<close>

theorem sections_partition_pages:
  "case classify_sections chunks policy of
     Inl e \<Rightarrow> is_value_error e
   | Inr ss \<Rightarrow> partitions ss ((\<lambda>p. (pv_document p, pv_page p)) ` set (concat (map chunk_prov chunks)))"
  using classify_sections_partition[of chunks policy] classify_sections_error[of chunks policy]
  by (simp split: sum.split)

text \<open>A label line that starts with a bar is sliced one character short: the separator after the
  label stays in the value, which is then no number.\<close>

theorem leading_bar_keeps_separator:
  "plain_row (ex_rule\<lparr>mr_period := False\<rparr>) c ''|sales: 5'' [] = Inr [('': 5'', None)]
   \<and> plain_row (ex_rule\<lparr>mr_period := False\<rparr>) c ''sales: 5'' [] = Inr [(''5'', None)]
   \<and> numeric_cell '': 5'' = None"
  by (intro conjI) code_simp+

end
