(* ===== verification/Retrieval.thy ===== *)
theory Retrieval
  imports Schema "HOL-Library.Product_Lexorder"
begin

text \<open>
  \<open>retrieve/hybrid.py\<close>, \<open>retrieve/rerank.py\<close> and \<open>retrieve/pipeline.py\<close>: reciprocal-rank
  fusion, reranking, the least-recently-used cache of results and its invalidation. The
  embedder, the vector store and the reranker model are arguments; scores are rationals.
\<close>

section \<open>Hits\<close>

record hit =
  ht_chunk :: chunk
  ht_score :: rat
  ht_rank :: nat
  ht_method :: string
  ht_retrieval :: "rat option"

definition number_from_1 :: "'a list \<Rightarrow> (nat \<times> 'a) list" where   \<comment> \<open>\<open>enumerate(xs, 1)\<close>\<close>
  "number_from_1 xs = enumerate 1 xs"

section \<open>Reciprocal-rank fusion\<close>

type_synonym fused = "(string, hit \<times> rat \<times> nat) dict"

definition fuse_hit :: "nat \<Rightarrow> fused \<Rightarrow> nat \<times> hit \<Rightarrow> fused" where
  "fuse_hit k d = (\<lambda>(rank, h).
     (let c = chunk_id (ht_chunk h); w = 1 / of_nat (k + rank) in
      case map_of d c of
        None \<Rightarrow> AList.update c (h, w, length d) d
      | Some (p, s, o') \<Rightarrow> AList.update c (p, s + w, o') d))"

definition fuse_lists :: "nat \<Rightarrow> hit list list \<Rightarrow> fused" where
  "fuse_lists k rankings = foldl (fuse_hit k) [] (concat (map number_from_1 rankings))"

definition fused_hit :: "nat \<times> (hit \<times> rat \<times> nat) \<Rightarrow> hit" where
  "fused_hit = (\<lambda>(rank, (h, s, _)).
     \<lparr>ht_chunk = ht_chunk h, ht_score = s, ht_rank = rank, ht_method = ''hybrid_rrf'',
      ht_retrieval = (case ht_retrieval h of None \<Rightarrow> Some (ht_score h) | Some x \<Rightarrow> Some x)\<rparr>)"

definition reciprocal_rank_fusion :: "int \<Rightarrow> int option \<Rightarrow> hit list list \<Rightarrow> hit list res" where
  "reciprocal_rank_fusion k limit rankings =
     raise_if (k \<le> 0) (ValueError ''RRF k must be positive'')
    (raise_if (case limit of None \<Rightarrow> False | Some l \<Rightarrow> l \<le> 0) (ValueError ''RRF limit must be positive when provided'')
    (let ordered = sort_key (\<lambda>(h, s, o'). (- s, o')) (map snd (fuse_lists (nat k) rankings));
         kept = (case limit of None \<Rightarrow> ordered | Some l \<Rightarrow> take (nat l) ordered)
     in Inr (map fused_hit (number_from_1 kept))))"

section \<open>Configuration\<close>

datatype retrieval_mode = Dense | HybridRrf

record strategy =
  st_name :: string
  st_mode :: retrieval_mode
  st_retrieve :: int
  st_rerank :: "int option"
  st_prefetch :: int
  st_rrf_k :: int
  st_cache :: int

definition mk_strategy :: "strategy \<Rightarrow> strategy res" where   \<comment> \<open>\<open>__post_init__\<close>\<close>
  "mk_strategy c =
     raise_if (st_name c = []) (ValueError ''retrieval strategy name is required'')
    (raise_if (st_retrieve c \<le> 0 \<or> st_prefetch c \<le> 0 \<or> st_rrf_k c \<le> 0)
       (ValueError ''retrieval limits and rrf_k must be positive'')
    (raise_if (case st_rerank c of None \<Rightarrow> False | Some r \<Rightarrow> \<not> (0 < r \<and> r \<le> st_retrieve c))
       (ValueError ''rerank_top_k must be between 1 and retrieve_top_k'')
    (raise_if (st_cache c \<le> 0) (ValueError ''cache_max_entries must be positive'') (Inr c))))"

section \<open>Reranking\<close>

definition rerank :: "nat \<Rightarrow> string \<Rightarrow> rat list \<Rightarrow> hit list \<Rightarrow> hit list res" where
  "rerank best model scores hits =
     raise_if (length scores \<noteq> length hits) (ValueError ''zip() arguments have different lengths'')
    (let ranked = take best (sort_key (\<lambda>(s, h). (- s, ht_rank h)) (zip scores hits)) in
     Inr (map (\<lambda>(rank, (s, h)). \<lparr>ht_chunk = ht_chunk h, ht_score = s, ht_rank = rank, ht_method = model,
            ht_retrieval = Some (ht_score h)\<rparr>) (number_from_1 ranked)))"

definition normalize_ranks :: "hit list \<Rightarrow> hit list" where
  "normalize_ranks hits = map (\<lambda>(rank, h). h\<lparr>ht_rank := rank\<rparr>) (number_from_1 hits)"

text \<open>\<open>BgeReranker.score\<close> over the scores the model computes for the pairs.\<close>

definition bge_score :: "(string \<Rightarrow> string list \<Rightarrow> rat list) \<Rightarrow> string \<Rightarrow> string list \<Rightarrow> rat list res" where
  "bge_score compute query documents =
     raise_if (strip query = []) (ValueError ''query must not be blank'')
     (if documents = [] then Inr []
      else let scores = compute query documents in
        raise_if (length scores \<noteq> length documents)
          (ValueError ''reranker returned a different number of scores than documents'') (Inr scores))"

section \<open>The pipeline\<close>

type_synonym result_cache = "(string, hit list) dict"

definition nul :: string where "nul = [CHR 0x00]"

definition cache_key :: "string \<Rightarrow> string option \<Rightarrow> string list \<Rightarrow> string" where
  "cache_key query application documents =
     query @ nul @ (case application of None \<Rightarrow> [] | Some a \<Rightarrow> a) @ nul @ join ''|'' documents"

definition move_to_end :: "string \<Rightarrow> 'v \<Rightarrow> (string, 'v) dict \<Rightarrow> (string, 'v) dict" where
  "move_to_end k v d = AList.delete k d @ [(k, v)]"

text \<open>
  \<open>backend\<close> are the embedding and the search of the configured mode, \<open>reranker\<close> the score
  function and model name of the reranker, if there is one.
\<close>

record backend =
  bk_search :: "string \<Rightarrow> string option \<Rightarrow> string list \<Rightarrow> hit list res"
  bk_reranker :: "((string \<Rightarrow> string list \<Rightarrow> rat list res) \<times> string) option"

definition fresh_results ::
  "strategy \<Rightarrow> backend \<Rightarrow> string \<Rightarrow> string option \<Rightarrow> string list \<Rightarrow> hit list res" where
  "fresh_results cfg b query application documents =
     res_bind (bk_search b query application documents) (\<lambda>hits.
     (case (bk_reranker b, st_rerank cfg) of
        (Some (score, model), Some best) \<Rightarrow>
          res_bind (score query (map (\<lambda>h. chunk_text (ht_chunk h)) hits)) (\<lambda>scores.
          rerank (nat best) model scores hits)
      | _ \<Rightarrow> Inr (normalize_ranks hits)))"

definition retrieve ::
  "strategy \<Rightarrow> backend \<Rightarrow> string \<Rightarrow> string option \<Rightarrow> string list \<Rightarrow> result_cache \<Rightarrow>
   hit list res \<times> result_cache" where
  "retrieve cfg b query application documents cache =
     (if strip query = [] then (Inl (ValueError ''query must not be blank''), cache)
      else let key = cache_key query application documents in
        case map_of cache key of
          Some hits \<Rightarrow> (Inr hits, move_to_end key hits cache)
        | None \<Rightarrow>
            (case fresh_results cfg b query application documents of
               Inl e \<Rightarrow> (Inl e, cache)
             | Inr hits \<Rightarrow>
                 let cache' = move_to_end key hits cache in
                 (Inr hits, drop (length cache' - nat (st_cache cfg)) cache')))"

definition invalidate_application :: "string \<Rightarrow> result_cache \<Rightarrow> result_cache" where
  "invalidate_application application cache =
     filter (\<lambda>(k, _). \<not> contains (nul @ application @ nul) k) cache"

section \<open>Fusion\<close>

lemma number_from_1_Nil [simp]: "number_from_1 [] = []"
  by (simp add: number_from_1_def)

lemma length_number_from_1 [simp]: "length (number_from_1 xs) = length xs"
  by (simp add: number_from_1_def)

lemma nth_number_from_1: "i < length xs \<Longrightarrow> number_from_1 xs ! i = (Suc i, xs ! i)"
  by (simp add: number_from_1_def nth_enumerate_eq)

lemma map_snd_number [simp]: "map snd (number_from_1 xs) = xs"
  by (simp add: number_from_1_def)

text \<open>The score of a chunk: the sum over its occurrences of \<open>1 / (k + rank)\<close>.\<close>

definition rrf_score :: "nat \<Rightarrow> (nat \<times> hit) list \<Rightarrow> string \<Rightarrow> rat" where
  "rrf_score k ranked c =
     sum_list (map (\<lambda>(rank, h). 1 / of_nat (k + rank)) (filter (\<lambda>(rank, h). chunk_id (ht_chunk h) = c) ranked))"

definition fused_ok :: "nat \<Rightarrow> (nat \<times> hit) list \<Rightarrow> fused \<Rightarrow> bool" where
  "fused_ok k ranked d =
     (distinct (map fst d) \<and> fst ` set d = (\<lambda>(r, h). chunk_id (ht_chunk h)) ` set ranked
      \<and> (\<forall>c h s n. map_of d c = Some (h, s, n) \<longrightarrow> chunk_id (ht_chunk h) = c \<and> s = rrf_score k ranked c))"

lemma rrf_score_snoc:
  "rrf_score k (ranked @ [(r, h)]) c =
     rrf_score k ranked c + (if chunk_id (ht_chunk h) = c then 1 / of_nat (k + r) else 0)"
  by (simp add: rrf_score_def)

lemma rrf_score_absent:
  "c \<notin> (\<lambda>(r, h). chunk_id (ht_chunk h)) ` set ranked \<Longrightarrow> rrf_score k ranked c = 0"
proof -
  assume "c \<notin> (\<lambda>(r, h). chunk_id (ht_chunk h)) ` set ranked"
  then have "filter (\<lambda>(rank, h). chunk_id (ht_chunk h) = c) ranked = []"
    by (force simp: filter_empty_conv)
  then show ?thesis by (simp only: rrf_score_def list.map sum_list.Nil)
qed

lemma fst_set_update: "fst ` set (AList.update k v d) = insert k (fst ` set d)"
  by (simp add: dom_update map_of_update flip: dom_map_of_conv_image_fst)

lemma fuse_hit_ok:
  assumes ok: "fused_ok k ranked d"
  shows "fused_ok k (ranked @ [(r, h)]) (fuse_hit k d (r, h))"
proof (cases "map_of d (chunk_id (ht_chunk h))")
  case None
  then have abs: "chunk_id (ht_chunk h) \<notin> (\<lambda>(r, h). chunk_id (ht_chunk h)) ` set ranked"
    using ok by (simp add: fused_ok_def map_of_eq_None_iff)
  have "fuse_hit k d (r, h) = AList.update (chunk_id (ht_chunk h)) (h, 1 / of_nat (k + r), length d) d"
    using None by (simp add: fuse_hit_def Let_def)
  with ok rrf_score_absent[OF abs, of k] show ?thesis
    by (auto simp: fused_ok_def distinct_update fst_set_update map_of_update rrf_score_snoc)
next
  case (Some v)
  obtain p s n where v: "v = (p, s, n)" by (metis surj_pair)
  have eq: "fuse_hit k d (r, h) = AList.update (chunk_id (ht_chunk h)) (p, s + 1 / of_nat (k + r), n) d"
    using Some v by (simp add: fuse_hit_def Let_def)
  from ok Some v have ps: "chunk_id (ht_chunk p) = chunk_id (ht_chunk h)"
    "s = rrf_score k ranked (chunk_id (ht_chunk h))"
    unfolding fused_ok_def by blast+
  have "distinct (map fst d)" "fst ` set d = (\<lambda>(r, h). chunk_id (ht_chunk h)) ` set ranked"
    using ok by (simp_all add: fused_ok_def)
  moreover have "chunk_id (ht_chunk h') = c \<and> s' = rrf_score k (ranked @ [(r, h)]) c"
    if "map_of (fuse_hit k d (r, h)) c = Some (h', s', n')" for c h' s' n'
  proof (cases "c = chunk_id (ht_chunk h)")
    case True
    with that eq ps show ?thesis by (simp add: map_of_update rrf_score_snoc)
  next
    case False
    with that eq have "map_of d c = Some (h', s', n')" by (simp add: map_of_update)
    with ok have "chunk_id (ht_chunk h') = c \<and> s' = rrf_score k ranked c"
      unfolding fused_ok_def by blast
    with False show ?thesis by (simp add: rrf_score_snoc)
  qed
  moreover have "fst ` set (fuse_hit k d (r, h)) = (\<lambda>(r, h). chunk_id (ht_chunk h)) ` set (ranked @ [(r, h)])"
    using calculation(2) by (simp add: eq fst_set_update)
  moreover have "distinct (map fst (fuse_hit k d (r, h)))"
    using calculation(1) by (simp add: eq distinct_update)
  ultimately show ?thesis unfolding fused_ok_def by blast
qed

lemma fuse_lists_ok: "fused_ok k (concat (map number_from_1 rankings)) (fuse_lists k rankings)"
proof -
  have "fused_ok k done d \<Longrightarrow> fused_ok k (done @ rs) (foldl (fuse_hit k) d rs)" for "done" d rs
  proof (induction rs arbitrary: "done" d)
    case (Cons x rs)
    obtain r h where x: "x = (r, h)" by fastforce
    from Cons.IH[OF fuse_hit_ok[OF Cons.prems, of r h]] show ?case by (simp add: x)
  qed simp
  from this[of "[]" "[]" "concat (map number_from_1 rankings)"] show ?thesis
    by (simp add: fuse_lists_def fused_ok_def)
qed

lemma fused_hit_sel [simp]:
  "ht_chunk (fused_hit (r, (h, s, n))) = ht_chunk h" "ht_score (fused_hit (r, (h, s, n))) = s"
  "ht_rank (fused_hit (r, (h, s, n))) = r"
  by (simp_all add: fused_hit_def)

lemma map_rank_fused: "map ht_rank (map fused_hit (number_from_1 xs)) = [1..<Suc (length xs)]"
proof (rule nth_equalityI)
  fix i assume "i < length (map ht_rank (map fused_hit (number_from_1 xs)))"
  then have i: "i < length xs" by simp
  obtain h s n where "xs ! i = (h, s, n)" by (metis surj_pair)
  with i show "map ht_rank (map fused_hit (number_from_1 xs)) ! i = [1..<Suc (length xs)] ! i"
    by (simp add: nth_number_from_1 del: upt_Suc)
qed (auto simp del: upt_Suc)

lemma map_score_fused: "map ht_score (map fused_hit (number_from_1 xs)) = map (\<lambda>(h, s, n). s) xs"
  by (rule nth_equalityI) (auto simp: nth_number_from_1 split: prod.split)

lemma map_chunk_fused: "map ht_chunk (map fused_hit (number_from_1 xs)) = map (\<lambda>(h, s, n). ht_chunk h) xs"
  by (rule nth_equalityI) (auto simp: nth_number_from_1 split: prod.split)

lemma sort_key_desc:
  "sorted_wrt (\<ge>) (map (\<lambda>(h, s, n). s :: rat) (sort_key (\<lambda>(h, s, n). (- s, n :: nat)) xs))"
proof -
  have "sorted (map (\<lambda>(h, s, n). (- s, n)) (sort_key (\<lambda>(h, s, n). (- s, n)) xs))"
    by simp
  then show ?thesis
    unfolding sorted_map sorted_wrt_map
    by (rule sorted_wrt_mono_rel[rotated]) (auto simp: less_eq_prod_def split: prod.splits)
qed

lemma rrf_Inr:
  assumes "reciprocal_rank_fusion k limit rankings = Inr hits"
  shows "0 < k \<and> map ht_rank hits = [1..<Suc (length hits)]
    \<and> sorted_wrt (\<ge>) (map ht_score hits)
    \<and> distinct (map (\<lambda>h. chunk_id (ht_chunk h)) hits)
    \<and> list_all (\<lambda>h. ht_score h
         = rrf_score (nat k) (concat (map number_from_1 rankings)) (chunk_id (ht_chunk h))) hits
    \<and> (case limit of
         None \<Rightarrow> set (map (\<lambda>h. chunk_id (ht_chunk h)) hits)
           = set (map (\<lambda>h. chunk_id (ht_chunk h)) (concat rankings))
       | Some l \<Rightarrow> int (length hits) \<le> l)"
proof -
  let ?d = "fuse_lists (nat k) rankings"
  let ?ord = "sort_key (\<lambda>(h, s, n). (- s, n)) (map snd ?d)"
  define kept where "kept = (case limit of None \<Rightarrow> ?ord | Some l \<Rightarrow> take (nat l) ?ord)"
  from assms have k: "0 < k" and hits: "hits = map fused_hit (number_from_1 kept)"
    and lim: "limit = Some l \<Longrightarrow> 0 < l" for l
    by (auto simp: reciprocal_rank_fusion_def Let_def raise_if_Inr_iff kept_def split: option.splits)
  note ok = fuse_lists_ok[of "nat k" rankings]
  have ids: "fst x = chunk_id (ht_chunk (fst (snd x)))" "fst (snd (snd x)) = rrf_score (nat k)
      (concat (map number_from_1 rankings)) (fst x)" if "x \<in> set ?d" for x
  proof -
    obtain c h s n where x: "x = (c, h, s, n)" by (metis surj_pair)
    with that ok have "map_of ?d c = Some (h, s, n)" by (simp add: fused_ok_def)
    with ok x show "fst x = chunk_id (ht_chunk (fst (snd x)))" "fst (snd (snd x)) = rrf_score (nat k)
      (concat (map number_from_1 rankings)) (fst x)"
      unfolding fused_ok_def by fastforce+
  qed
  let ?id = "\<lambda>v :: hit \<times> rat \<times> nat. chunk_id (ht_chunk (fst v))"
  have mapid: "map ?id (map snd ?d) = map fst ?d"
    using ids by (simp add: comp_def)
  have "distinct (map ?id (map snd ?d))" unfolding mapid using ok by (simp add: fused_ok_def)
  then have "distinct (map ?id ?ord)"
    by (metis (no_types, lifting) distinct_map distinct_sort set_sort)
  then have dk: "distinct (map ?id kept)"
    by (auto simp: kept_def take_map[symmetric] split: option.split)
  have sub: "set kept \<subseteq> set (map snd ?d)"
    by (auto simp: kept_def split: option.splits dest: in_set_takeD)
  have sc: "sorted_wrt (\<ge>) (map (\<lambda>(h, s, n). s) kept)"
    using sort_key_desc[of "map snd ?d"]
    by (auto simp: kept_def take_map[symmetric] sorted_wrt_take split: option.split)
  have fh: "ht_chunk (fused_hit (r, v)) = ht_chunk (fst v)" for r v
    by (cases v) simp
  have idsh: "map (\<lambda>h. chunk_id (ht_chunk h)) hits = map ?id kept"
    unfolding hits by (rule nth_equalityI) (auto simp: nth_number_from_1 fh)
  have score: "list_all (\<lambda>h. ht_score h
      = rrf_score (nat k) (concat (map number_from_1 rankings)) (chunk_id (ht_chunk h))) hits"
    unfolding list_all_length
  proof (intro allI impI)
    fix i assume "i < length hits"
    then have i: "i < length kept" by (simp add: hits)
    obtain h s n where v: "kept ! i = (h, s, n)" by (metis surj_pair)
    with i sub have "(h, s, n) \<in> set (map snd ?d)" by (metis nth_mem subsetD)
    then obtain c where "(c, h, s, n) \<in> set ?d" by auto
    from ids[OF this] have "s = rrf_score (nat k) (concat (map number_from_1 rankings)) (chunk_id (ht_chunk h))"
      by simp
    with i v show "ht_score (hits ! i) = rrf_score (nat k) (concat (map number_from_1 rankings))
        (chunk_id (ht_chunk (hits ! i)))"
      by (simp add: hits nth_number_from_1)
  qed
  have all: "set (map (\<lambda>h. chunk_id (ht_chunk h)) hits) = set (map (\<lambda>h. chunk_id (ht_chunk h)) (concat rankings))"
    if "limit = None"
  proof -
    from that have "set (map ?id kept) = ?id ` set (map snd ?d)" by (simp add: kept_def)
    also have "\<dots> = set (map fst ?d)" by (simp only: set_map[symmetric] mapid)
    also have "\<dots> = fst ` set ?d" by simp
    also have "\<dots> = (\<lambda>(r, h). chunk_id (ht_chunk h)) ` set (concat (map number_from_1 rankings))"
      using ok by (simp add: fused_ok_def)
    also have "\<dots> = (\<lambda>h. chunk_id (ht_chunk h)) ` snd ` set (concat (map number_from_1 rankings))"
      by (auto simp: image_image split_def)
    also have "snd ` set (concat (map number_from_1 rankings)) = set (concat rankings)"
    proof -
      have "snd ` set (number_from_1 xs) = set xs" for xs :: "hit list"
        by (metis list.set_map map_snd_number)
      then show ?thesis by (simp add: image_UN)
    qed
    finally show ?thesis unfolding idsh by (simp only: set_map)
  qed
  have ranks: "map ht_rank hits = [1..<Suc (length hits)]"
    unfolding hits map_rank_fused length_map length_number_from_1 ..
  have scores: "sorted_wrt (\<ge>) (map ht_score hits)"
    using sc unfolding hits map_score_fused .
  have dist: "distinct (map (\<lambda>h. chunk_id (ht_chunk h)) hits)"
    unfolding idsh by (rule dk)
  have bound: "int (length hits) \<le> l" if "limit = Some l" for l
    using lim[OF that] that by (simp add: hits kept_def)
  have last: "case limit of
         None \<Rightarrow> set (map (\<lambda>h. chunk_id (ht_chunk h)) hits)
           = set (map (\<lambda>h. chunk_id (ht_chunk h)) (concat rankings))
       | Some l \<Rightarrow> int (length hits) \<le> l"
    using all bound by (cases limit) (simp_all only: option.case)
  show ?thesis using k ranks scores dist score last by blast
qed

section \<open>Reranking\<close>

lemma rerank_Inr:
  assumes "rerank best model scores hits = Inr rs"
  shows "length rs = min best (length hits) \<and> map ht_rank rs = [1..<Suc (length rs)]
    \<and> sorted_wrt (\<ge>) (map ht_score rs) \<and> set (map ht_chunk rs) \<subseteq> set (map ht_chunk hits)"
proof -
  define ranked where "ranked = take best (sort_key (\<lambda>(s, h). (- s, ht_rank h)) (zip scores hits))"
  let ?f = "\<lambda>(rank, (s, h)). \<lparr>ht_chunk = ht_chunk h, ht_score = s, ht_rank = rank, ht_method = model,
            ht_retrieval = Some (ht_score h)\<rparr>"
  from assms have len: "length scores = length hits" and rs: "rs = map ?f (number_from_1 ranked)"
    by (auto simp: rerank_def Let_def raise_if_Inr_iff ranked_def)
  have nth: "rs ! i = ?f (Suc i, ranked ! i)" if "i < length ranked" for i
    using that by (simp add: rs nth_number_from_1)
  have lr: "length rs = length ranked" by (simp add: rs)
  have "sorted (map (\<lambda>(s, h). (- s, ht_rank h)) (sort_key (\<lambda>(s, h). (- s, ht_rank h)) (zip scores hits)))" by simp
  then have "sorted_wrt (\<lambda>a b. fst a \<ge> fst b) (sort_key (\<lambda>(s, h). (- s, ht_rank h)) (zip scores hits))"
    unfolding sorted_map
    by (rule sorted_wrt_mono_rel[rotated]) (auto simp: less_eq_prod_def split: prod.splits)
  then have "sorted_wrt (\<lambda>a b. fst a \<ge> fst b) ranked" unfolding ranked_def by (rule sorted_wrt_take)
  moreover have "map ht_score rs = map fst ranked"
    by (rule nth_equalityI) (auto simp: lr nth split: prod.split)
  ultimately have "sorted_wrt (\<ge>) (map ht_score rs)" by (simp add: sorted_wrt_map)
  moreover have "map ht_rank rs = [1..<Suc (length rs)]"
    by (rule nth_equalityI) (auto simp: lr nth simp del: upt_Suc split: prod.split)
  moreover have "map ht_chunk rs = map (\<lambda>x. ht_chunk (snd x)) ranked"
    by (rule nth_equalityI) (auto simp: lr nth split: prod.split)
  moreover have "set ranked \<subseteq> set (zip scores hits)"
    by (auto simp: ranked_def dest: in_set_takeD)
  then have "set (map (\<lambda>x. ht_chunk (snd x)) ranked) \<subseteq> set (map ht_chunk hits)"
    by (auto dest!: subsetD dest: set_zip_rightD)
  moreover have "length rs = min best (length hits)" by (simp add: lr ranked_def len)
  ultimately show ?thesis by simp
qed

section \<open>The cache\<close>

definition cache_inv :: "strategy \<Rightarrow> result_cache \<Rightarrow> bool" where
  "cache_inv cfg c = (distinct (map fst c) \<and> int (length c) \<le> st_cache cfg)"

lemma map_of_move_to_end [simp]: "map_of (move_to_end k v d) = (map_of d)(k \<mapsto> v)"
  by (rule ext) (simp add: move_to_end_def map_of_append map_add_def map_of_delete split: option.split)

lemma distinct_move_to_end: "distinct (map fst d) \<Longrightarrow> distinct (map fst (move_to_end k v d))"
  by (simp add: move_to_end_def distinct_delete map_of_delete flip: map_of_eq_None_iff)

lemma length_move_to_end:
  assumes "distinct (map fst d)"
  shows "length (move_to_end k v d) = (if map_of d k = None then Suc (length d) else length d)"
  using assms
proof (induction d)
  case (Cons x d)
  have none: "map_of d (fst x) = None" using Cons.prems by (simp add: map_of_eq_None_iff)
  with Cons show ?case
    by (cases x) (auto simp: move_to_end_def AList.delete_eq split: if_splits)
qed (simp add: move_to_end_def)

lemma retrieve_cache_inv:
  assumes inv: "cache_inv cfg c" and pos: "0 < st_cache cfg"
  shows "cache_inv cfg (snd (retrieve cfg b q a ds c))"
proof (cases "strip q = []")
  case True
  with inv show ?thesis by (simp add: retrieve_def)
next
  case False
  let ?k = "cache_key q a ds"
  show ?thesis
  proof (cases "map_of c ?k")
    case (Some hits)
    with False inv show ?thesis
      by (simp add: retrieve_def Let_def cache_inv_def distinct_move_to_end length_move_to_end)
  next
    case None
    show ?thesis
    proof (cases "fresh_results cfg b q a ds")
      case (Inl e)
      with None False inv show ?thesis by (simp add: retrieve_def Let_def)
    next
      case (Inr hits)
      let ?c = "move_to_end ?k hits c"
      have "distinct (map fst ?c)" using inv by (simp add: cache_inv_def distinct_move_to_end)
      then have "distinct (map fst (drop n ?c))" for n by (simp add: drop_map[symmetric])
      moreover have "int (length (drop (length ?c - nat (st_cache cfg)) ?c)) \<le> st_cache cfg"
        using pos by simp
      ultimately show ?thesis using None False Inr
        by (simp add: retrieve_def Let_def cache_inv_def)
    qed
  qed
qed

text \<open>
  A coherent cache holds, for a request whose key is readable, what the backend would give.
  Keys are readable when no part contains the separators and no document id is empty.
\<close>

definition readable :: "string \<Rightarrow> string option \<Rightarrow> string list \<Rightarrow> bool" where
  "readable q a ds =
     (CHR 0x00 \<notin> set q \<and> (case a of None \<Rightarrow> True | Some s \<Rightarrow> s \<noteq> [] \<and> CHR 0x00 \<notin> set s)
      \<and> list_all (\<lambda>d. d \<noteq> [] \<and> CHR ''|'' \<notin> set d \<and> CHR 0x00 \<notin> set d) ds)"

lemma cut_at:
  assumes "x \<notin> set a" "x \<notin> set a'" "a @ x # b = a' @ x # b'"
  shows "a = a' \<and> b = b'"
  using assms
proof (induction a arbitrary: a')
  case Nil
  then show ?case by (cases a') auto
next
  case (Cons c a)
  then show ?case by (cases a') auto
qed

lemma join_bar_inj:
  assumes "list_all (\<lambda>d. d \<noteq> [] \<and> CHR ''|'' \<notin> set d \<and> CHR 0x00 \<notin> set d) ds"
    and "list_all (\<lambda>d. d \<noteq> [] \<and> CHR ''|'' \<notin> set d \<and> CHR 0x00 \<notin> set d) es"
    and "join ''|'' ds = join ''|'' es"
  shows "ds = es"
proof (cases "ds = [] \<or> es = []")
  case True
  have ne: "xs \<noteq> [] \<Longrightarrow> hd xs \<noteq> [] \<Longrightarrow> join ''|'' xs \<noteq> []" for xs
    by (cases xs; cases "tl xs") auto
  from True assms ne[of ds] ne[of es] show ?thesis
    by (cases ds; cases es) (auto simp: list_all_iff)
next
  case False
  with assms join_inj[of ds es "CHR ''|''"] show ?thesis by (simp add: list_all_iff)
qed

lemma cache_key_inj:
  assumes "readable q a ds" "readable q' a' ds'" "cache_key q a ds = cache_key q' a' ds'"
  shows "q = q' \<and> a = a' \<and> ds = ds'"
proof -
  define s s' where "s = (case a of None \<Rightarrow> [] | Some x \<Rightarrow> x)" and "s' = (case a' of None \<Rightarrow> [] | Some x \<Rightarrow> x)"
  have "q @ CHR 0x00 # (s @ CHR 0x00 # join ''|'' ds) = q' @ CHR 0x00 # (s' @ CHR 0x00 # join ''|'' ds')"
    using assms(3) by (simp add: cache_key_def nul_def s_def s'_def)
  moreover have "CHR 0x00 \<notin> set q" "CHR 0x00 \<notin> set q'" "CHR 0x00 \<notin> set s" "CHR 0x00 \<notin> set s'"
    using assms(1,2) by (auto simp: readable_def s_def s'_def split: option.splits)
  ultimately have "q = q'" "s = s'" "join ''|'' ds = join ''|'' ds'"
    using cut_at[of "CHR 0x00" q q'] cut_at[of "CHR 0x00" s s'] by blast+
  moreover have "a = a'"
    using \<open>s = s'\<close> assms(1,2) by (auto simp: s_def s'_def readable_def split: option.splits)
  moreover have "ds = ds'"
    using join_bar_inj[of ds ds'] \<open>join ''|'' ds = join ''|'' ds'\<close> assms(1,2) by (simp add: readable_def)
  ultimately show ?thesis by simp
qed

definition coherent :: "strategy \<Rightarrow> backend \<Rightarrow> result_cache \<Rightarrow> bool" where
  "coherent cfg b c =
     (\<forall>q a ds hits. readable q a ds \<longrightarrow> map_of c (cache_key q a ds) = Some hits \<longrightarrow>
        fresh_results cfg b q a ds = Inr hits)"

lemma map_of_drop: "distinct (map fst xs) \<Longrightarrow> map_of (drop n xs) k = Some v \<Longrightarrow> map_of xs k = Some v"
  by (metis drop_map distinct_drop in_set_dropD map_of_SomeD map_of_is_SomeI)

text \<open>A cached answer is the answer the backend gives, and retrieving keeps it so.\<close>

lemma retrieve_coherent:
  assumes co: "coherent cfg b c" and inv: "cache_inv cfg c" and r: "readable q a ds" and q: "strip q \<noteq> []"
  shows "fst (retrieve cfg b q a ds c) = fresh_results cfg b q a ds
    \<and> coherent cfg b (snd (retrieve cfg b q a ds c))"
proof -
  let ?k = "cache_key q a ds"
  have upd: "coherent cfg b (move_to_end ?k hits c)" if "fresh_results cfg b q a ds = Inr hits" for hits
    unfolding coherent_def map_of_move_to_end
  proof (intro allI impI)
    fix q' a' ds' hs
    assume r': "readable q' a' ds'" and m: "((map_of c)(?k \<mapsto> hits)) (cache_key q' a' ds') = Some hs"
    show "fresh_results cfg b q' a' ds' = Inr hs"
    proof (cases "cache_key q' a' ds' = ?k")
      case True
      with cache_key_inj[OF r' r] m that show ?thesis by simp
    next
      case False
      with m r' co show ?thesis unfolding coherent_def by simp
    qed
  qed
  show ?thesis
  proof (cases "map_of c ?k")
    case (Some hits)
    then have "fresh_results cfg b q a ds = Inr hits" using co r by (simp add: coherent_def)
    with Some q upd show ?thesis by (simp add: retrieve_def Let_def)
  next
    case None
    show ?thesis
    proof (cases "fresh_results cfg b q a ds")
      case (Inl e)
      with None q co show ?thesis by (simp add: retrieve_def Let_def)
    next
      case (Inr hits)
      have "distinct (map fst (move_to_end ?k hits c))"
        using inv by (simp add: cache_inv_def distinct_move_to_end)
      then have "coherent cfg b (drop n (move_to_end ?k hits c))" for n
        using upd[OF Inr] unfolding coherent_def by (meson map_of_drop)
      with None Inr q show ?thesis by (simp add: retrieve_def Let_def)
    qed
  qed
qed

text \<open>After an invalidation no request of the application is answered from the cache.\<close>

lemma invalidate_application_misses:
  "map_of (invalidate_application app c) (cache_key q (Some app) ds) = None"
proof -
  have "contains (nul @ app @ nul) (cache_key q (Some app) ds)"
    unfolding contains_iff cache_key_def by (intro exI[of _ q] exI[of _ "join ''|'' ds"]) simp
  then show ?thesis
    by (auto simp: invalidate_application_def map_of_eq_None_iff)
qed

lemma invalidate_application_keeps:
  "\<not> contains (nul @ app @ nul) k \<Longrightarrow> map_of (invalidate_application app c) k = map_of c k"
  by (induction c) (auto simp: invalidate_application_def)

end
