(* ===== verification/Store.thy ===== *)
theory Store
  imports Retrieval
begin

unbundle bit_operations_syntax

text \<open>
  \<open>index/store.py\<close>: the identity of a stored point, the scope filter, the conversion of search
  results to hits, and the bounded reading of an application's evidence inventory. The Qdrant
  client is an argument: \<open>scroll\<close> returns one page and the offset of the next.
\<close>

section \<open>uuid5\<close>

definition sha1_next :: "word32 list \<Rightarrow> word32" where
  "sha1_next ws = rotr 31 (ws ! 2 XOR ws ! 7 XOR ws ! 13 XOR ws ! 15)"

definition sha1_schedule :: "word32 list \<Rightarrow> word32 list" where
  "sha1_schedule b = rev (foldl (\<lambda>ws _. sha1_next ws # ws) (rev b) [0..<64])"

fun sha1_round :: "word32 list \<Rightarrow> nat \<times> word32 \<Rightarrow> word32 list" where
  "sha1_round [a, b, c, d, e] (i, w) =
     (let (f, k) = (if i < 20 then ((b AND c) OR (NOT b AND d), 0x5a827999)
                    else if i < 40 then (b XOR c XOR d, 0x6ed9eba1)
                    else if i < 60 then ((b AND c) OR (b AND d) OR (c AND d), 0x8f1bbcdc)
                    else (b XOR c XOR d, 0xca62c1d6))
      in [rotr 27 a + f + e + k + w, a, rotr 2 b, c, d])"
| "sha1_round st _ = st"

definition sha1_words :: "int list \<Rightarrow> word32 list" where
  "sha1_words m =
     foldl (\<lambda>st b. map2 (+) st (foldl sha1_round st (enumerate 0 (sha1_schedule b))))
       [0x67452301, 0xefcdab89, 0x98badcfe, 0x10325476, 0xc3d2e1f0] (sha_blocks (words_be (pad m)))"

definition namespace_url :: "int list" where
  "namespace_url = [0x6b, 0xa7, 0xb8, 0x11, 0x9d, 0xad, 0x11, 0xd1, 0x80, 0xb4, 0x00, 0xc0, 0x4f, 0xd4, 0x30, 0xc8]"

definition hex_value :: "char \<Rightarrow> nat" where
  "hex_value c = (if is_digit c then code c - 48 else code c - 87)"

definition uuid5_url :: "string \<Rightarrow> string" where
  "uuid5_url name =
     (let h = take 32 (concat (map hex_word (sha1_words (namespace_url @ map (\<lambda>c. int (code c)) name))));
          h = h[12 := CHR ''5'', 16 := hex_char (8 + hex_value (h ! 16) mod 4)]
      in take 8 h @ ''-'' @ take 4 (drop 8 h) @ ''-'' @ take 4 (drop 12 h) @ ''-'' @ take 4 (drop 16 h)
         @ ''-'' @ drop 20 h)"

section \<open>Points and filters\<close>

record store_config =
  sg_url :: string
  sg_collection :: string
  sg_dense :: string
  sg_sparse :: string
  sg_timeout :: int

definition mk_store_config :: "store_config \<Rightarrow> store_config res" where
  "mk_store_config c =
     raise_if (sg_url c = [] \<or> sg_collection c = []) (ValueError ''Qdrant url and collection are required'')
    (raise_if (sg_timeout c \<le> 0) (ValueError ''timeout_seconds must be positive'') (Inr c))"

definition chunk_application :: "chunk \<Rightarrow> string option" where   \<comment> \<open>a string under \<open>application_id\<close>\<close>
  "chunk_application c = (case map_of (chunk_meta c) ''application_id'' of Some (MStr s) \<Rightarrow> Some s | _ \<Rightarrow> None)"

definition point_identity :: "chunk \<Rightarrow> string" where
  "point_identity c =
     (case chunk_application c of
        None \<Rightarrow> chunk_id c | Some a \<Rightarrow> if a = [] then chunk_id c else a @ '':'' @ chunk_id c)"

definition point_id :: "chunk \<Rightarrow> string" where
  "point_id c = uuid5_url (point_identity c)"

text \<open>
  The collection as a map from point identifiers to payloads and vectors: \<open>upsert\<close> writes the
  points in order, \<open>delete_application\<close> deletes by the application filter.
\<close>

type_synonym 'e points = "(string, chunk \<times> 'e) dict"

definition upsert :: "(chunk \<times> 'e) list \<Rightarrow> 'e points \<Rightarrow> 'e points" where
  "upsert records points = fold (\<lambda>(c, e). AList.update (point_id c) (c, e)) records points"

definition delete_points :: "string \<Rightarrow> 'e points \<Rightarrow> 'e points" where   \<comment> \<open>\<open>delete_application\<close>\<close>
  "delete_points application points =
     filter (\<lambda>(k, c, e). map_of (chunk_meta c) ''application_id'' \<noteq> Some (MStr application)) points"

datatype condition = MatchDocuments "string list" | MatchApplication string

definition document_filter :: "string list \<Rightarrow> string option \<Rightarrow> condition list option" where
  "document_filter documents application =
     (let app = (case application of None \<Rightarrow> [] | Some a \<Rightarrow> if a = [] then [] else [MatchApplication a]);
          conds = (if documents = [] then [] else [MatchDocuments documents]) @ app
      in if conds = [] then None else Some conds)"

text \<open>A point as the search returns it: the stored chunk and its score.\<close>

definition hits_of :: "string \<Rightarrow> (chunk \<times> rat) list \<Rightarrow> hit list" where   \<comment> \<open>\<open>_hits\<close>\<close>
  "hits_of how points =
     map (\<lambda>(rank, (c, s)). \<lparr>ht_chunk = c, ht_score = s, ht_rank = rank, ht_method = how, ht_retrieval = None\<rparr>)
       (number_from_1 points)"

section \<open>The evidence inventory\<close>

definition in_scope :: "string list \<Rightarrow> string option \<Rightarrow> chunk \<Rightarrow> bool" where
  "in_scope documents application c =
     (list_all (\<lambda>p. pv_document p \<in> set documents) (chunk_prov c)
      \<and> (case application of None \<Rightarrow> True | Some a \<Rightarrow> a = [] \<or> map_of (chunk_meta c) ''application_id'' = Some (MStr a)))"

fun add_records ::
  "string list \<Rightarrow> string option \<Rightarrow> chunk list \<Rightarrow> chunk list \<Rightarrow> chunk list res" where
  "add_records documents application acc [] = Inr acc"
| "add_records documents application acc (c # cs) =
     raise_if (\<not> in_scope documents application c) (PermissionError ''evidence_scope_violation'')
       (add_records documents application (acc @ [c]) cs)"

type_synonym 'o scroller = "nat \<Rightarrow> 'o option \<Rightarrow> chunk list \<times> 'o option"

text \<open>
  The \<open>while True\<close> loop on \<open>fuel\<close> rounds; \<open>None\<close> when they are used up. A scroll that always
  gives a further offset with an empty page would keep the code's loop running.
\<close>

fun scroll_loop ::
  "'o scroller \<Rightarrow> string list \<Rightarrow> string option \<Rightarrow> nat \<Rightarrow> nat \<Rightarrow> chunk list \<Rightarrow> 'o option \<Rightarrow> chunk list res option" where
  "scroll_loop scroll documents application max_chunks 0 acc offset = None"
| "scroll_loop scroll documents application max_chunks (Suc fuel) acc offset =
     (let (records, next_offset) = scroll (min 256 (max_chunks + 1 - length acc)) offset in
      case add_records documents application acc records of
        Inl e \<Rightarrow> Some (Inl e)
      | Inr acc' \<Rightarrow>
          if length acc' > max_chunks then Some (Inl (ValueError ''evidence_inventory_limit''))
          else if next_offset = None then Some (Inr acc')
          else scroll_loop scroll documents application max_chunks fuel acc' next_offset)"

definition check_inventory :: "string list \<Rightarrow> chunk list \<Rightarrow> chunk list res" where
  "check_inventory documents chunks =
     raise_if (set (concat (map (\<lambda>c. map pv_document (chunk_prov c)) chunks)) \<noteq> set documents)
       (ValueError ''evidence_document_missing'') (Inr chunks)"

definition scoped_chunks ::
  "'o scroller \<Rightarrow> nat \<Rightarrow> string list \<Rightarrow> string option \<Rightarrow> nat \<Rightarrow> chunk list res option" where
  "scoped_chunks scroll fuel documents application max_chunks =
     (if documents = [] then Some (Inl (ValueError ''evidence_document_scope_missing''))
      else map_option (\<lambda>r. res_bind r (check_inventory documents))
             (scroll_loop scroll documents application max_chunks fuel [] None))"

section \<open>Lemmas\<close>

lemma add_records_Inr:
  "add_records ds a acc cs = Inr r \<Longrightarrow> r = acc @ cs \<and> list_all (in_scope ds a) cs"
  by (induction ds a acc cs rule: add_records.induct) (auto simp: raise_if_Inr_iff)

lemma add_records_error:
  "add_records ds a acc cs = Inl e \<Longrightarrow> e = PermissionError ''evidence_scope_violation'' \<and> \<not> list_all (in_scope ds a) cs"
  by (induction ds a acc cs rule: add_records.induct) (auto simp: raise_if_Inl_iff)

lemma scroll_loop_Inr:
  "scroll_loop sc ds a mx fuel acc off = Some (Inr r) \<Longrightarrow> list_all (in_scope ds a) acc \<Longrightarrow>
     list_all (in_scope ds a) r \<and> length r \<le> mx"
proof (induction fuel arbitrary: acc off)
  case (Suc fuel)
  obtain recs nxt where s: "sc (min 256 (mx + 1 - length acc)) off = (recs, nxt)" by fastforce
  from Suc.prems(1) s obtain acc' where acc': "add_records ds a acc recs = Inr acc'" "length acc' \<le> mx"
    by (auto simp: Let_def split: sum.splits if_splits)
  with add_records_Inr Suc.prems(2) have ok: "list_all (in_scope ds a) acc'" by fastforce
  with Suc.prems(1) s acc' Suc.IH[of acc' nxt] show ?case
    by (auto simp: Let_def split: if_splits)
qed simp

lemma scoped_chunks_sound:
  assumes "scoped_chunks sc fuel ds a mx = Some (Inr chunks)"
  shows "list_all (in_scope ds a) chunks \<and> length chunks \<le> mx
    \<and> set (concat (map (\<lambda>c. map pv_document (chunk_prov c)) chunks)) = set ds"
proof -
  from assms obtain r where "scroll_loop sc ds a mx fuel [] None = Some (Inr r)"
    "check_inventory ds r = Inr chunks"
    by (auto simp: scoped_chunks_def res_bind_Inr_iff split: if_splits)
  with scroll_loop_Inr[of sc ds a mx fuel "[]" None r] show ?thesis
    by (auto simp: check_inventory_def raise_if_Inr_iff)
qed

text \<open>
  A client that gives a next offset only with a non-empty page makes the loop end within
  one round more than the limit.
\<close>

definition progressing :: "'o scroller \<Rightarrow> bool" where
  "progressing sc = (\<forall>n off recs nxt. 0 < n \<longrightarrow> sc n off = (recs, Some nxt) \<longrightarrow> recs \<noteq> [])"

lemma scroll_loop_ends:
  "progressing sc \<Longrightarrow> length acc \<le> mx \<Longrightarrow> mx - length acc < fuel \<Longrightarrow>
     \<exists>r. scroll_loop sc ds a mx fuel acc off = Some r"
proof (induction fuel arbitrary: acc off)
  case (Suc fuel)
  obtain recs nxt where s: "sc (min 256 (mx + 1 - length acc)) off = (recs, nxt)" by fastforce
  show ?case
  proof (cases "add_records ds a acc recs")
    case (Inl e)
    with s show ?thesis by simp
  next
    case (Inr acc')
    then have acc': "acc' = acc @ recs" using add_records_Inr by blast
    show ?thesis
    proof (cases "length acc' > mx \<or> nxt = None")
      case True
      with s Inr show ?thesis by auto
    next
      case False
      then obtain n where n: "nxt = Some n" by (cases nxt) auto
      have "0 < min 256 (mx + 1 - length acc)" using Suc.prems by simp
      with Suc.prems(1) s n have "recs \<noteq> []" unfolding progressing_def by blast
      then have "length acc < length acc'" by (simp add: acc')
      with Suc.prems False have "length acc' \<le> mx" "mx - length acc' < fuel" by linarith+
      from Suc.IH[OF Suc.prems(1) this] s Inr False n show ?thesis by simp
    qed
  qed
qed simp

lemma scoped_chunks_returns:
  "progressing sc \<Longrightarrow> \<exists>r. scoped_chunks sc (Suc mx) ds a mx = Some r"
  using scroll_loop_ends[of sc "[]" mx "Suc mx" ds a None]
  by (auto simp: scoped_chunks_def)

text \<open>Points of different applications never share an identity, nor do different chunks of one.\<close>

lemma point_identity_inj:
  assumes "is_hex64 (chunk_id c)" "is_hex64 (chunk_id d)" "point_identity c = point_identity d"
  shows "chunk_id c = chunk_id d \<and> (chunk_application c = chunk_application d
    \<or> (chunk_application c \<in> {None, Some []} \<and> chunk_application d \<in> {None, Some []}))"
proof -
  have suffix: "drop (length (point_identity x) - 64) (point_identity x) = chunk_id x
      \<and> take (length (point_identity x) - 64) (point_identity x)
        = (case chunk_application x of None \<Rightarrow> [] | Some a \<Rightarrow> if a = [] then [] else a @ '':'')"
    if "is_hex64 (chunk_id x)" for x
    using that by (auto simp: point_identity_def is_hex64_def split: option.splits)
  from suffix[OF assms(1)] suffix[OF assms(2)] assms(3)
  have "chunk_id c = chunk_id d"
    and "(case chunk_application c of None \<Rightarrow> [] | Some a \<Rightarrow> if a = [] then [] else a @ '':'')
       = (case chunk_application d of None \<Rightarrow> [] | Some a \<Rightarrow> if a = [] then [] else a @ '':'')"
    by simp_all
  then show ?thesis by (auto split: option.splits if_splits)
qed

end
