(* ===== verification/Json.thy ===== *)
theory Json
  imports PyStr Complex_Main
begin

text \<open>
  Decoded JSON and the subscripts the source applies to it: the text of a chat completion is
  \<open>payload["choices"][0]["message"]["content"]\<close> in both clients of the model server.
\<close>

datatype json = JNull | JBool bool | JNum rat | JStr string | JArr "json list" | JObj "(string \<times> json) list"

definition obj_get :: "string \<Rightarrow> json \<Rightarrow> json option" where
  "obj_get k j = (case j of JObj d \<Rightarrow> map_of d k | _ \<Rightarrow> None)"

text \<open>\<open>j[k]\<close> for a key and \<open>j[0]\<close>: a string has characters, a number has no subscript.\<close>

definition json_key :: "string \<Rightarrow> json \<Rightarrow> json res" where
  "json_key k j =
     (case j of
        JObj d \<Rightarrow> (case map_of d k of None \<Rightarrow> Inl (KeyError k) | Some v \<Rightarrow> Inr v)
      | _ \<Rightarrow> Inl (TypeError ''subscript''))"

definition json_first :: "json \<Rightarrow> json res" where
  "json_first j =
     (case j of
        JArr [] \<Rightarrow> Inl IndexError
      | JArr (x # xs) \<Rightarrow> Inr x
      | JStr [] \<Rightarrow> Inl IndexError
      | JStr (c # cs) \<Rightarrow> Inr (JStr [c])
      | JObj d \<Rightarrow> Inl (KeyError ''0'')
      | _ \<Rightarrow> Inl (TypeError ''subscript''))"

text \<open>What a \<open>for\<close> loop over a decoded value visits.\<close>

definition json_items :: "json \<Rightarrow> json list res" where
  "json_items j =
     (case j of
        JArr xs \<Rightarrow> Inr xs
      | JObj d \<Rightarrow> Inr (map (\<lambda>(k, _). JStr k) d)
      | JStr s \<Rightarrow> Inr (map (\<lambda>c. JStr [c]) s)
      | _ \<Rightarrow> Inl (TypeError ''not iterable''))"

definition message_value :: "json \<Rightarrow> json res" where
  "message_value payload =
     res_bind (json_key ''choices'' payload) (\<lambda>choices.
     res_bind (json_first choices) (\<lambda>choice.
     res_bind (json_key ''message'' choice) (\<lambda>message.
     json_key ''content'' message)))"

text \<open>The errors of a subscript become one message, a blank text another.\<close>

definition message_text :: "string \<Rightarrow> string \<Rightarrow> json \<Rightarrow> string res" where
  "message_text missing blank payload =
     (case message_value payload of
        Inl e \<Rightarrow> Inl (RuntimeError missing)
      | Inr (JStr s) \<Rightarrow> raise_if (strip s = []) (RuntimeError blank) (Inr s)
      | Inr _ \<Rightarrow> Inl (RuntimeError blank))"

lemma message_text_Inr: "message_text m b j = Inr s \<Longrightarrow> strip s \<noteq> []"
  by (auto simp: message_text_def raise_if_Inr_iff split: sum.splits json.splits)

lemma message_text_error: "message_text m b j = Inl e \<Longrightarrow> e = RuntimeError m \<or> e = RuntimeError b"
  by (auto simp: message_text_def raise_if_Inl_iff split: sum.splits json.splits)

end
