(* ===== verification/Index.thy ===== *)
theory Index
  imports Store Json "HOL-Library.Multiset"
begin

text \<open>
  \<open>index/embedder.py\<close>, the lazily loaded models and the requests of \<open>index/store.py\<close>, the local
  pipeline \<open>build_local_pipeline\<close> assembles in \<open>retrieve/pipeline.py\<close>, and the \<open>index\<close> command of
  \<open>retrieve/cli.py\<close>. The model libraries, the file system and the Qdrant client are build of
  \<open>services\<close>; a model, once loaded, is a value of type \<open>'m\<close> or \<open>'r\<close> and a connection one of type
  \<open>'c\<close>. Weights, scores and vector components are rationals.
\<close>

section \<open>Configurations\<close>

record embedding_config =
  bm_model :: string
  bm_revision :: string
  bm_snapshot :: "string option"
  bm_dimension :: int
  bm_batch :: int
  bm_max_length :: int
  bm_fp16 :: bool

definition mk_embedding_config :: "embedding_config \<Rightarrow> embedding_config res" where   \<comment> \<open>\<open>__post_init__\<close>\<close>
  "mk_embedding_config c =
     raise_if (bm_model c = [] \<or> bm_revision c = []) (ValueError ''embedding model_id and revision are required'')
    (raise_if (bm_dimension c \<le> 0) (ValueError ''dense_dimension must be positive'')
    (raise_if (bm_batch c \<le> 0) (ValueError ''batch_size must be positive'')
    (raise_if (bm_max_length c \<le> 0) (ValueError ''max_length must be positive'') (Inr c))))"

record reranker_config =
  rr_model :: string
  rr_revision :: string
  rr_snapshot :: "string option"
  rr_fp16 :: bool

definition mk_reranker_config :: "reranker_config \<Rightarrow> reranker_config res" where
  "mk_reranker_config c =
     raise_if (rr_model c = [] \<or> rr_revision c = []) (ValueError ''reranker model_id and revision are required'') (Inr c)"

section \<open>Embeddings\<close>

record sparse_embedding =
  sp_indices :: "int list"
  sp_values :: "rat list"

definition mk_sparse :: "sparse_embedding \<Rightarrow> sparse_embedding res" where   \<comment> \<open>\<open>matching_lengths\<close>\<close>
  "mk_sparse s =
     raise_if (length (sp_indices s) \<noteq> length (sp_values s))
       (ValidationError ''sparse embedding indices and values must have equal lengths'')
    (raise_if (sort (sp_indices s) \<noteq> sp_indices s)
       (ValidationError ''sparse embedding indices must be sorted'') (Inr s))"

record embedding =
  em_dense :: "rat list"
  em_sparse :: sparse_embedding

definition mk_embedding :: "embedding \<Rightarrow> embedding res" where
  "mk_embedding e = raise_if (em_dense e = []) (ValidationError ''dense'') (Inr e)"

text \<open>\<open>int(s)\<close> of a string: a sign, digits, single underscores between digits.\<close>

fun int_literal :: "bool \<Rightarrow> string \<Rightarrow> bool" where
  "int_literal after_digit [] = after_digit"
| "int_literal after_digit (c # s) =
     (if is_digit c then int_literal True s else c = CHR ''_'' \<and> after_digit \<and> int_literal False s)"

definition py_int :: "string \<Rightarrow> int res" where
  "py_int s =
     (let t = strip s;
          (negative, ds) = (case t of [] \<Rightarrow> (False, [])
             | c # rest \<Rightarrow> if c = CHR ''-'' then (True, rest) else if c = CHR ''+'' then (False, rest) else (False, t))
      in if int_literal False ds
         then let n = int (nat_of_digits (filter is_digit ds)) in Inr (if negative then - n else n)
         else Inl (ValueError ''invalid literal for int() with base 10''))"

text \<open>What the model returns for a list of texts: the dense rows and, per text, the token weights.\<close>

record encoder_output =
  eo_dense :: "rat list list"
  eo_weights :: "(string, rat) dict list"

definition sparse_pairs :: "(string, rat) dict \<Rightarrow> (int \<times> rat) list res" where
  "sparse_pairs weights =
     res_bind (res_map (\<lambda>(token, w). res_bind (py_int token) (\<lambda>i. Inr (i, w)))
                 (filter (\<lambda>(token, w). w \<noteq> 0) weights)) (\<lambda>pairs.
     Inr (sort pairs))"

definition embedding_of :: "int \<Rightarrow> rat list \<times> (string, rat) dict \<Rightarrow> embedding res" where
  "embedding_of dimension = (\<lambda>(dense, weights).
     raise_if (int (length dense) \<noteq> dimension)
       (ValueError (''expected dense dimension '' @ str_of_int dimension @ '', got '' @ str_of_nat (length dense)))
    (res_bind (sparse_pairs weights) (\<lambda>pairs.
     res_bind (mk_sparse \<lparr>sp_indices = map fst pairs, sp_values = map snd pairs\<rparr>) (\<lambda>sparse.
     mk_embedding \<lparr>em_dense = dense, em_sparse = sparse\<rparr>))))"

definition embeddings_of :: "int \<Rightarrow> nat \<Rightarrow> encoder_output \<Rightarrow> embedding list res" where
  "embeddings_of dimension n output =
     raise_if (length (eo_dense output) \<noteq> n \<or> length (eo_weights output) \<noteq> n)
       (ValueError ''BGE-M3 returned a different number of vectors than inputs'')
     (res_map (embedding_of dimension) (zip (eo_dense output) (eo_weights output)))"

section \<open>Lazily loaded models\<close>

record 'm model_source =
  ms_package :: bool                                   \<comment> \<open>FlagEmbedding imports\<close>
  ms_hub :: bool                                       \<comment> \<open>huggingface_hub imports\<close>
  ms_folder :: "string \<Rightarrow> string"                     \<comment> \<open>\<open>Path(...).resolve()\<close>\<close>
  ms_is_dir :: "string \<Rightarrow> bool"
  ms_download :: "string \<Rightarrow> string \<Rightarrow> string res"      \<comment> \<open>\<open>snapshot_download\<close>\<close>
  ms_load :: "string \<Rightarrow> bool \<Rightarrow> 'm res"               \<comment> \<open>the constructor of the model class\<close>

definition snapshot_path ::
  "'m model_source \<Rightarrow> string \<Rightarrow> string option \<Rightarrow> string \<Rightarrow> string \<Rightarrow> string res" where
  "snapshot_path M label snapshot_dir model revision =
     (case snapshot_dir of
        Some d \<Rightarrow>
          let snapshot = ms_folder M d in
          raise_if (\<not> ms_is_dir M snapshot)
            (RuntimeError (''pinned '' @ label @ '' snapshot is missing: '' @ snapshot)) (Inr snapshot)
      | None \<Rightarrow>
          raise_if (\<not> ms_hub M)
            (RuntimeError (''Hugging Face Hub is required when no local '' @ label @ '' snapshot is set''))
            (ms_download M model revision))"

definition load_embedder :: "'m model_source \<Rightarrow> embedding_config \<Rightarrow> 'm res" where
  "load_embedder M c =
     raise_if (\<not> ms_package M)
       (RuntimeError ''BGE-M3 dependencies are missing; run `uv sync --extra retrieval`'')
     (res_bind (snapshot_path M ''BGE-M3'' (bm_snapshot c) (bm_model c) (bm_revision c)) (\<lambda>snapshot.
      ms_load M snapshot (bm_fp16 c)))"

definition load_reranker :: "'r model_source \<Rightarrow> reranker_config \<Rightarrow> 'r res" where
  "load_reranker M c =
     raise_if (\<not> ms_package M)
       (RuntimeError ''reranker dependencies are missing; run `uv sync --extra retrieval`'')
     (res_bind (snapshot_path M ''reranker'' (rr_snapshot c) (rr_model c) (rr_revision c)) (\<lambda>snapshot.
      ms_load M snapshot (rr_fp16 c)))"

text \<open>A slot filled on first use; a failed load leaves it empty.\<close>

definition lazily :: "'m res \<Rightarrow> ('m option, 'm) act" where
  "lazily loaded slot =
     (case slot of
        Some m \<Rightarrow> (Inr m, slot)
      | None \<Rightarrow> (case loaded of Inl e \<Rightarrow> (Inl e, None) | Inr m \<Rightarrow> (Inr m, Some m)))"

section \<open>Requests to the vector store\<close>

record collection_spec =
  co_dense :: string
  co_size :: int
  co_sparse :: string

datatype vector_query = DenseVector "rat list" | SparseVector "int list" "rat list"

datatype point_query = NearestTo vector_query | FuseRrf int

record prefetch =
  pf_query :: vector_query
  pf_using :: string
  pf_limit :: int

record search_request =
  sq_collection :: string
  sq_prefetch :: "prefetch list"
  sq_query :: point_query
  sq_using :: "string option"
  sq_limit :: int
  sq_filter :: "condition list option"

definition dense_request ::
  "store_config \<Rightarrow> embedding \<Rightarrow> int \<Rightarrow> string list \<Rightarrow> string option \<Rightarrow> search_request" where
  "dense_request c e limit documents application =
     \<lparr>sq_collection = sg_collection c, sq_prefetch = [], sq_query = NearestTo (DenseVector (em_dense e)),
      sq_using = Some (sg_dense c), sq_limit = limit, sq_filter = document_filter documents application\<rparr>"

definition sparse_vector :: "embedding \<Rightarrow> vector_query" where
  "sparse_vector e = SparseVector (sp_indices (em_sparse e)) (sp_values (em_sparse e))"

definition hybrid_request ::
  "store_config \<Rightarrow> embedding \<Rightarrow> int \<Rightarrow> int \<Rightarrow> int \<Rightarrow> string list \<Rightarrow> string option \<Rightarrow> search_request" where
  "hybrid_request c e limit prefetch_limit rrf_k documents application =
     \<lparr>sq_collection = sg_collection c,
      sq_prefetch = [\<lparr>pf_query = sparse_vector e, pf_using = sg_sparse c, pf_limit = prefetch_limit\<rparr>,
                     \<lparr>pf_query = DenseVector (em_dense e), pf_using = sg_dense c, pf_limit = prefetch_limit\<rparr>],
      sq_query = FuseRrf rrf_k, sq_using = None, sq_limit = limit,
      sq_filter = document_filter documents application\<rparr>"

text \<open>A point as \<open>upsert\<close> sends it: its identifier, the two named vectors, the chunk.\<close>

record point =
  pt_id :: string
  pt_vectors :: "(string, vector_query) dict"
  pt_chunk :: chunk

definition point_of :: "store_config \<Rightarrow> chunk \<times> embedding \<Rightarrow> point" where
  "point_of c = (\<lambda>(ch, e).
     \<lparr>pt_id = point_id ch,
      pt_vectors = dict_of [(sg_dense c, DenseVector (em_dense e)), (sg_sparse c, sparse_vector e)],
      pt_chunk = ch\<rparr>)"

text \<open>
  The libraries and the server. \<open>'d\<close> is the state of the database; a query does not change it. A
  result carries \<open>None\<close> where the payload is not a chunk.
\<close>

datatype model_scores = OneScore rat | ManyScores "rat list"

record ('m, 'r, 'c, 'd) services =
  rn_embedders :: "'m model_source"
  rn_encode :: "'m \<Rightarrow> string list \<Rightarrow> int \<Rightarrow> int \<Rightarrow> encoder_output res"
  rn_rerankers :: "'r model_source"
  rn_scores :: "'r \<Rightarrow> (string \<times> string) list \<Rightarrow> model_scores res"
  rn_qdrant :: bool                                    \<comment> \<open>qdrant_client imports\<close>
  rn_connect :: "string \<Rightarrow> int \<Rightarrow> 'c res"
  rn_exists :: "'c \<Rightarrow> string \<Rightarrow> ('d, bool) act"
  rn_create :: "'c \<Rightarrow> string \<Rightarrow> collection_spec \<Rightarrow> ('d, unit) act"
  rn_write :: "'c \<Rightarrow> string \<Rightarrow> point list \<Rightarrow> ('d, unit) act"
  rn_query :: "'c \<Rightarrow> 'd \<Rightarrow> search_request \<Rightarrow> (chunk option \<times> rat) list res"

definition store_client :: "('m, 'r, 'c, 'd) services \<Rightarrow> store_config \<Rightarrow> ('c option, 'c) act" where   \<comment> \<open>\<open>_dependencies\<close>\<close>
  "store_client S c slot =
     (if \<not> rn_qdrant S
      then (Inl (RuntimeError ''Qdrant dependencies are missing; run `uv sync --extra retrieval`''), slot)
      else lazily (rn_connect S (sg_url c) (sg_timeout c)) slot)"

section \<open>The embedder and the reranker\<close>

definition encode_texts ::
  "('m, 'r, 'c, 'd) services \<Rightarrow> embedding_config \<Rightarrow> string list \<Rightarrow> ('m option, embedding list) act" where   \<comment> \<open>\<open>encode\<close>\<close>
  "encode_texts S c texts =
     (if texts = [] then act_return []
      else act_bind (lazily (load_embedder (rn_embedders S) c)) (\<lambda>m.
        act_lift (res_bind (rn_encode S m texts (bm_batch c) (bm_max_length c))
          (embeddings_of (bm_dimension c) (length texts)))))"

definition encode_query ::
  "('m, 'r, 'c, 'd) services \<Rightarrow> embedding_config \<Rightarrow> string \<Rightarrow> ('m option, embedding) act" where
  "encode_query S c query =
     (if strip query = [] then act_lift (Inl (ValueError ''query must not be blank''))
      else act_bind (encode_texts S c [query]) (\<lambda>es. act_return (hd es)))"

fun score_list :: "model_scores \<Rightarrow> rat list" where
  "score_list (OneScore s) = [s]"
| "score_list (ManyScores ss) = ss"

definition reranker_scores ::
  "('m, 'r, 'c, 'd) services \<Rightarrow> reranker_config \<Rightarrow> string \<Rightarrow> string list \<Rightarrow> ('r option, rat list) act" where   \<comment> \<open>\<open>score\<close>\<close>
  "reranker_scores S c query documents =
     (if strip query = [] then act_lift (Inl (ValueError ''query must not be blank''))
      else if documents = [] then act_return []
      else act_bind (lazily (load_reranker (rn_rerankers S) c)) (\<lambda>m.
        act_lift (res_bind (rn_scores S m (map (Pair query) documents)) (\<lambda>output.
          raise_if (length (score_list output) \<noteq> length documents)
            (ValueError ''reranker returned a different number of scores than documents'')
            (Inr (score_list output))))))"

definition stored_chunk :: "chunk option \<times> rat \<Rightarrow> (chunk \<times> rat) res" where   \<comment> \<open>\<open>CHUNK_ADAPTER\<close>\<close>
  "stored_chunk = (\<lambda>(payload, s). case payload of None \<Rightarrow> Inl (ValidationError ''chunk'') | Some c \<Rightarrow> Inr (c, s))"

definition search_hits :: "string \<Rightarrow> (chunk option \<times> rat) list \<Rightarrow> hit list res" where   \<comment> \<open>\<open>_hits\<close>\<close>
  "search_hits how points = res_bind (res_map stored_chunk points) (\<lambda>ps. Inr (hits_of how ps))"

definition dense_search ::
  "('m, 'r, 'c, 'd) services \<Rightarrow> 'd \<Rightarrow> store_config \<Rightarrow> embedding \<Rightarrow> int \<Rightarrow> string list \<Rightarrow> string option \<Rightarrow>
   ('c option, hit list) act" where
  "dense_search S db c e limit documents application =
     act_bind (store_client S c) (\<lambda>client.
     act_lift (res_bind (rn_query S client db (dense_request c e limit documents application)) (search_hits ''dense'')))"

definition hybrid_search ::
  "('m, 'r, 'c, 'd) services \<Rightarrow> 'd \<Rightarrow> store_config \<Rightarrow> embedding \<Rightarrow> int \<Rightarrow> int \<Rightarrow> int \<Rightarrow> string list \<Rightarrow> string option \<Rightarrow>
   ('c option, hit list) act" where
  "hybrid_search S db c e limit prefetch_limit rrf_k documents application =
     act_bind (store_client S c) (\<lambda>client.
     act_lift (res_bind (rn_query S client db
         (hybrid_request c e limit prefetch_limit rrf_k documents application)) (search_hits ''hybrid_rrf'')))"

section \<open>The local pipeline\<close>

record runtime_config =
  ru_embedding :: embedding_config
  ru_reranker :: reranker_config
  ru_store :: store_config
  ru_strategy :: strategy

text \<open>
  \<open>RetrievalStrategyConfig.from_yaml\<close> and \<open>RetrievalRuntimeConfig.from_yaml\<close>: \<open>None\<close> is a file that is not
  a mapping; \<open>build\<close> is the keyword call of a configuration class on the values of a section.
\<close>

definition strategy_keys :: "string list" where
  "strategy_keys = [''name'', ''mode'', ''retrieve_top_k'', ''rerank_top_k'', ''prefetch_top_k'', ''rrf_k'', ''cache_max_entries'']"

definition strategy_from_yaml ::
  "((string, json) dict \<Rightarrow> strategy res) \<Rightarrow> (string, json) dict option \<Rightarrow> strategy res" where
  "strategy_from_yaml build payload =
     (case payload of
        None \<Rightarrow> Inl (ValueError ''retrieval config must be a mapping'')
      | Some d \<Rightarrow>
          raise_if (set (map fst d) \<noteq> set strategy_keys) (ValueError ''invalid retrieval config keys'')
          (res_bind (build d) mk_strategy))"

definition index_mapping :: "json \<Rightarrow> string \<Rightarrow> (string, json) dict res" where   \<comment> \<open>\<open>_mapping\<close>\<close>
  "index_mapping v part =
     (case v of JObj d \<Rightarrow> Inr d
      | _ \<Rightarrow> Inl (ValueError (''index config section '' @ [CHR 0x27] @ part @ [CHR 0x27] @ '' must be a mapping'')))"

definition index_part :: "((string, json) dict \<Rightarrow> 'a res) \<Rightarrow> string \<Rightarrow> (string, json) dict \<Rightarrow> 'a res" where
  "index_part build part d =
     res_bind (case map_of d part of None \<Rightarrow> Inl (KeyError part) | Some v \<Rightarrow> index_mapping v part) build"

definition runtime_from_yaml ::
  "((string, json) dict \<Rightarrow> embedding_config res) \<Rightarrow> ((string, json) dict \<Rightarrow> reranker_config res) \<Rightarrow>
   ((string, json) dict \<Rightarrow> store_config res) \<Rightarrow> strategy res \<Rightarrow> (string, json) dict option \<Rightarrow> runtime_config res" where
  "runtime_from_yaml embedding_fields reranker_fields store_fields strategy payload =
     (case payload of
        None \<Rightarrow> Inl (ValueError ''index config must contain embedding, reranker, and store'')
      | Some d \<Rightarrow>
          raise_if (set (map fst d) \<noteq> {''embedding'', ''reranker'', ''store''})
            (ValueError ''index config must contain embedding, reranker, and store'')
          (res_bind (index_part (\<lambda>x. res_bind (embedding_fields x) mk_embedding_config) ''embedding'' d) (\<lambda>e.
           res_bind (index_part (\<lambda>x. res_bind (reranker_fields x) mk_reranker_config) ''reranker'' d) (\<lambda>r.
           res_bind (index_part (\<lambda>x. res_bind (store_fields x) mk_store_config) ''store'' d) (\<lambda>s.
           res_bind strategy (\<lambda>t.
           Inr \<lparr>ru_embedding = e, ru_reranker = r, ru_store = s, ru_strategy = t\<rparr>))))))"

text \<open>The slots of the three adapters and the cache of \<open>RetrievalPipeline\<close>.\<close>

record ('m, 'r, 'c) pipeline =
  pl_embedder :: "'m option"
  pl_reranker :: "'r option"
  pl_client :: "'c option"
  pl_cache :: result_cache

definition has_reranker :: "runtime_config \<Rightarrow> bool" where
  "has_reranker R = (case st_rerank (ru_strategy R) of None \<Rightarrow> False | Some k \<Rightarrow> k \<noteq> 0)"

definition build_local_pipeline :: "runtime_config \<Rightarrow> ('m, 'r, 'c) pipeline res" where
  "build_local_pipeline R =
     raise_if (st_rerank (ru_strategy R) \<noteq> None \<and> \<not> has_reranker R)
       (ValueError ''a reranker is required by this strategy'')
     (Inr \<lparr>pl_embedder = None, pl_reranker = None, pl_client = None, pl_cache = []\<rparr>)"

definition release_models :: "('m, 'r, 'c) pipeline \<Rightarrow> ('m, 'r, 'c) pipeline" where
  "release_models p = p\<lparr>pl_embedder := None, pl_reranker := None\<rparr>"

definition in_slot ::
  "('p \<Rightarrow> 'x) \<Rightarrow> ('x \<Rightarrow> 'p \<Rightarrow> 'p) \<Rightarrow> ('x, 'a) act \<Rightarrow> ('p, 'a) act" where
  "in_slot get put m p = (case m (get p) of (r, x) \<Rightarrow> (r, put x p))"

definition with_embedder :: "('m option, 'a) act \<Rightarrow> (('m, 'r, 'c) pipeline, 'a) act" where
  "with_embedder = in_slot pl_embedder (\<lambda>x p. p\<lparr>pl_embedder := x\<rparr>)"

definition with_reranker :: "('r option, 'a) act \<Rightarrow> (('m, 'r, 'c) pipeline, 'a) act" where
  "with_reranker = in_slot pl_reranker (\<lambda>x p. p\<lparr>pl_reranker := x\<rparr>)"

definition with_client :: "('c option, 'a) act \<Rightarrow> (('m, 'r, 'c) pipeline, 'a) act" where
  "with_client = in_slot pl_client (\<lambda>x p. p\<lparr>pl_client := x\<rparr>)"

definition mode_search ::
  "('m, 'r, 'c, 'd) services \<Rightarrow> 'd \<Rightarrow> runtime_config \<Rightarrow> embedding \<Rightarrow> string option \<Rightarrow> string list \<Rightarrow>
   ('c option, hit list) act" where
  "mode_search S db R e application documents =
     (let t = ru_strategy R in
      case st_mode t of
        Dense \<Rightarrow> dense_search S db (ru_store R) e (st_retrieve t) documents application
      | HybridRrf \<Rightarrow> hybrid_search S db (ru_store R) e (st_retrieve t) (st_prefetch t) (st_rrf_k t) documents application)"

definition reranker_name :: string where
  "reranker_name = ''BAAI/bge-reranker-v2-m3''"

definition pipeline_results ::
  "('m, 'r, 'c, 'd) services \<Rightarrow> 'd \<Rightarrow> runtime_config \<Rightarrow> string \<Rightarrow> string option \<Rightarrow> string list \<Rightarrow>
   (('m, 'r, 'c) pipeline, hit list) act" where
  "pipeline_results S db R query application documents =
     act_bind (with_embedder (encode_query S (ru_embedding R) query)) (\<lambda>e.
     act_bind (with_client (mode_search S db R e application documents)) (\<lambda>hits.
     (case st_rerank (ru_strategy R) of
        Some best \<Rightarrow>
          if has_reranker R
          then act_bind (with_reranker (reranker_scores S (ru_reranker R) query (map (\<lambda>h. chunk_text (ht_chunk h)) hits))) (\<lambda>scores.
            act_lift (rerank (nat best) reranker_name scores hits))
          else act_return (normalize_ranks hits)
      | None \<Rightarrow> act_return (normalize_ranks hits))))"

definition pipeline_retrieve ::
  "('m, 'r, 'c, 'd) services \<Rightarrow> 'd \<Rightarrow> runtime_config \<Rightarrow> string \<Rightarrow> string option \<Rightarrow> string list \<Rightarrow>
   (('m, 'r, 'c) pipeline, hit list) act" where
  "pipeline_retrieve S db R query application documents p =
     (if strip query = [] then (Inl (ValueError ''query must not be blank''), p)
      else let key = cache_key query application documents in
        case map_of (pl_cache p) key of
          Some hits \<Rightarrow> (Inr hits, p\<lparr>pl_cache := move_to_end key hits (pl_cache p)\<rparr>)
        | None \<Rightarrow>
            (case pipeline_results S db R query application documents p of
               (Inl e, p') \<Rightarrow> (Inl e, p')
             | (Inr hits, p') \<Rightarrow>
                 let cache' = move_to_end key hits (pl_cache p') in
                 (Inr hits, p'\<lparr>pl_cache := drop (length cache' - nat (st_cache (ru_strategy R))) cache'\<rparr>)))"

text \<open>The \<open>query\<close> command of \<open>retrieve/cli.py\<close>: the hits it prints.\<close>

definition query_command ::
  "('m, 'r, 'c, 'd) services \<Rightarrow> 'd \<Rightarrow> runtime_config res \<Rightarrow> string \<Rightarrow> hit list res" where
  "query_command S db runtime query =
     res_bind runtime (\<lambda>R.
     res_bind (build_local_pipeline R) (\<lambda>p.
     fst (pipeline_retrieve S db R query None [] p)))"

section \<open>The index command\<close>

text \<open>The folders and files it reads; \<open>fs_chunk\<close> is the JSON reader of a line.\<close>

record chunk_files =
  fs_is_dir :: "string \<Rightarrow> bool"
  fs_is_file :: "string \<Rightarrow> bool"
  fs_jsonl :: "string \<Rightarrow> string list"                 \<comment> \<open>\<open>glob("*.jsonl")\<close>\<close>
  fs_lines :: "string \<Rightarrow> string list res"
  fs_chunk :: "string \<Rightarrow> chunk res"

definition files_at :: "chunk_files \<Rightarrow> string \<Rightarrow> string list res" where
  "files_at F p =
     (if fs_is_dir F p then Inr (sort (fs_jsonl F p))
      else if fs_is_file F p then Inr [p]
      else Inl (ValueError (''chunk path does not exist: '' @ p)))"

definition chunk_files_of :: "chunk_files \<Rightarrow> string list \<Rightarrow> string list res" where   \<comment> \<open>\<open>_chunk_files\<close>\<close>
  "chunk_files_of F paths =
     res_bind (res_map (files_at F) paths) (\<lambda>fss.
     raise_if (concat fss = []) (ValueError ''no JSONL chunk files found'') (Inr (concat fss)))"

definition chunks_in :: "chunk_files \<Rightarrow> string \<Rightarrow> chunk list res" where
  "chunks_in F p = res_bind (fs_lines F p) (\<lambda>ls. res_map (fs_chunk F) (filter (\<lambda>l. strip l \<noteq> []) ls))"

definition read_chunks :: "chunk_files \<Rightarrow> string list \<Rightarrow> chunk list res" where
  "read_chunks F paths =
     res_bind (chunk_files_of F paths) (\<lambda>ps.
     res_bind (res_map (chunks_in F) ps) (\<lambda>css.
     Inr (sort_key (\<lambda>c. (py_len (chunk_text c), chunk_id c)) (concat css))))"

function batches :: "nat \<Rightarrow> 'a list \<Rightarrow> 'a list list" where   \<comment> \<open>\<open>xs[offset : offset + n]\<close> for each offset\<close>
  "batches n xs = (if n = 0 \<or> xs = [] then [] else take n xs # batches n (drop n xs))"
  by pat_completeness auto
termination by (relation "measure (\<lambda>(n, xs). length xs)") (auto simp: neq_Nil_conv)

declare batches.simps [simp del]

text \<open>The slots of the embedder and the store, and the database.\<close>

record ('m, 'c, 'd) indexer =
  ix_embedder :: "'m option"
  ix_client :: "'c option"
  ix_db :: 'd

definition ix_encoding :: "('m option, 'a) act \<Rightarrow> (('m, 'c, 'd) indexer, 'a) act" where
  "ix_encoding = in_slot ix_embedder (\<lambda>x p. p\<lparr>ix_embedder := x\<rparr>)"

definition ix_connecting :: "('c option, 'a) act \<Rightarrow> (('m, 'c, 'd) indexer, 'a) act" where
  "ix_connecting = in_slot ix_client (\<lambda>x p. p\<lparr>ix_client := x\<rparr>)"

definition ix_storing :: "('d, 'a) act \<Rightarrow> (('m, 'c, 'd) indexer, 'a) act" where
  "ix_storing = in_slot ix_db (\<lambda>x p. p\<lparr>ix_db := x\<rparr>)"

definition ensure_collection ::
  "('m, 'r, 'c, 'd) services \<Rightarrow> store_config \<Rightarrow> int \<Rightarrow> (('m, 'c, 'd) indexer, unit) act" where
  "ensure_collection S c dimension =
     act_bind (ix_connecting (store_client S c)) (\<lambda>client.
     act_bind (ix_storing (rn_exists S client (sg_collection c))) (\<lambda>there.
     if there then act_return ()
     else ix_storing (rn_create S client (sg_collection c)
       \<lparr>co_dense = sg_dense c, co_size = dimension, co_sparse = sg_sparse c\<rparr>)))"

definition store_upsert ::
  "('m, 'r, 'c, 'd) services \<Rightarrow> store_config \<Rightarrow> (chunk \<times> embedding) list \<Rightarrow> (('m, 'c, 'd) indexer, unit) act" where
  "store_upsert S c records =
     (if records = [] then act_return ()
      else act_bind (ix_connecting (store_client S c)) (\<lambda>client.
        ix_storing (rn_write S client (sg_collection c) (map (point_of c) records))))"

definition upsert_batch ::
  "('m, 'r, 'c, 'd) services \<Rightarrow> runtime_config \<Rightarrow> chunk list \<Rightarrow> (('m, 'c, 'd) indexer, nat) act" where
  "upsert_batch S R chunks =
     act_bind (ix_encoding (encode_texts S (ru_embedding R) (map chunk_text chunks))) (\<lambda>es.
     act_bind (act_lift (raise_if (length chunks \<noteq> length es) (ValueError ''zip() arguments have different lengths'') (Inr ()))) (\<lambda>_.
     act_bind (store_upsert S (ru_store R) (zip chunks es)) (\<lambda>_.
     act_return (length chunks))))"

text \<open>The count it prints is the result.\<close>

definition index_chunks ::
  "('m, 'r, 'c, 'd) services \<Rightarrow> chunk_files \<Rightarrow> runtime_config res \<Rightarrow> int \<Rightarrow> string list \<Rightarrow> (('m, 'c, 'd) indexer, nat) act" where
  "index_chunks S F runtime batch_size paths =
     act_bind (act_lift runtime) (\<lambda>R.
     act_bind (act_lift (raise_if (batch_size \<le> 0) (ValueError ''batch-size must be positive'') (Inr ()))) (\<lambda>_.
     act_bind (ensure_collection S (ru_store R) (bm_dimension (ru_embedding R))) (\<lambda>_.
     act_bind (act_lift (read_chunks F paths)) (\<lambda>chunks.
     act_bind (act_map (upsert_batch S R) (batches (nat batch_size) chunks)) (\<lambda>counts.
     act_return (sum_list counts))))))"

section \<open>Lemmas: embeddings\<close>

definition embedding_ok :: "int \<Rightarrow> embedding \<Rightarrow> bool" where
  "embedding_ok dimension e =
     (int (length (em_dense e)) = dimension \<and> em_dense e \<noteq> []
      \<and> length (sp_indices (em_sparse e)) = length (sp_values (em_sparse e)) \<and> sorted (sp_indices (em_sparse e)))"

text \<open>The pairs of an embedding are the nonzero weights of the model's row, each exactly as often.\<close>

definition weights_kept :: "(string, rat) dict \<Rightarrow> embedding \<Rightarrow> bool" where
  "weights_kept weights e =
     (mset (map Inr (zip (sp_indices (em_sparse e)) (sp_values (em_sparse e))))
      = mset (map (\<lambda>(token, w). res_bind (py_int token) (\<lambda>i. Inr (i, w))) (filter (\<lambda>(token, w). w \<noteq> 0) weights)))"

lemma sort_eq_sorted: "sort xs = xs \<Longrightarrow> sorted xs"
  by (metis sorted_sort)

lemma res_map_Inr_map: "res_map f xs = Inr ys \<longleftrightarrow> map Inr ys = map f xs"
proof (induction xs arbitrary: ys)
  case (Cons x xs)
  then show ?case by (cases ys) (auto simp: res_bind_Inr_iff)
qed auto

lemma embedding_of_sound:
  assumes "embedding_of d (dense, weights) = Inr e"
  shows "em_dense e = dense" and "embedding_ok d e" and "weights_kept weights e"
proof -
  from assms obtain pairs where len: "int (length dense) = d"
    and p: "sparse_pairs weights = Inr pairs" and s: "sort (map fst pairs) = map fst pairs" and ne: "dense \<noteq> []"
    and e: "e = \<lparr>em_dense = dense, em_sparse = \<lparr>sp_indices = map fst pairs, sp_values = map snd pairs\<rparr>\<rparr>"
    by (auto simp: embedding_of_def mk_sparse_def mk_embedding_def res_simps)
  show "em_dense e = dense" by (simp add: e)
  show "embedding_ok d e" using len ne sort_eq_sorted [OF s] by (simp add: e embedding_ok_def)
  from p obtain qs where q: "res_map (\<lambda>(token, w). res_bind (py_int token) (\<lambda>i. Inr (i, w)))
      (filter (\<lambda>(token, w). w \<noteq> 0) weights) = Inr qs" and pq: "pairs = sort qs"
    by (auto simp: sparse_pairs_def res_bind_Inr_iff)
  have "map Inr qs = map (\<lambda>(token, w). res_bind (py_int token) (\<lambda>i. Inr (i, w))) (filter (\<lambda>(token, w). w \<noteq> 0) weights)"
    using q by (rule res_map_Inr_map [THEN iffD1])
  then have "mset (map Inr qs) = mset (map (\<lambda>(token, w). res_bind (py_int token) (\<lambda>i. Inr (i, w))) (filter (\<lambda>(token, w). w \<noteq> 0) weights))"
    by simp
  moreover have "mset (map Inr pairs) = mset (map Inr qs)" by (simp add: pq)
  ultimately have "mset (map Inr pairs) = mset (map (\<lambda>(token, w). res_bind (py_int token) (\<lambda>i. Inr (i, w))) (filter (\<lambda>(token, w). w \<noteq> 0) weights))"
    by (rule trans [rotated])
  then show "weights_kept weights e"
    by (simp only: e weights_kept_def zip_map_fst_snd embedding.select_convs sparse_embedding.select_convs)
qed

lemma sort_fst_pairs: "sorted (map fst (sort (ps :: (int \<times> rat) list)))"
proof -
  have "sorted (sort ps)" by simp
  then show ?thesis by (rule sorted_map_mono) (auto simp: less_eq_prod_def mono_on_def)
qed

text \<open>The sparse validator never fails on the pairs the embedder sorts.\<close>

lemma embedder_pairs_valid:
  "sparse_pairs weights = Inr pairs \<Longrightarrow>
     mk_sparse \<lparr>sp_indices = map fst pairs, sp_values = map snd pairs\<rparr> = Inr \<lparr>sp_indices = map fst pairs, sp_values = map snd pairs\<rparr>"
  by (auto simp: sparse_pairs_def mk_sparse_def res_simps sort_fst_pairs sorted_sort_id)

lemma embeddings_of_sound:
  assumes "embeddings_of d n out = Inr es"
  shows "length es = n \<and> length (eo_dense out) = n \<and> length (eo_weights out) = n
    \<and> (\<forall>i < n. em_dense (es ! i) = eo_dense out ! i \<and> embedding_ok d (es ! i) \<and> weights_kept (eo_weights out ! i) (es ! i))"
proof -
  from assms have len: "length (eo_dense out) = n" "length (eo_weights out) = n"
    and m: "res_map (embedding_of d) (zip (eo_dense out) (eo_weights out)) = Inr es"
    by (auto simp: embeddings_of_def raise_if_Inr_iff)
  from m have all: "list_all2 (\<lambda>x y. embedding_of d x = Inr y) (zip (eo_dense out) (eo_weights out)) es"
    by (simp add: res_map_Inr_iff)
  have each: "embedding_of d (eo_dense out ! i, eo_weights out ! i) = Inr (es ! i)" if "i < n" for i
    using list_all2_nthD [OF all, of i] that len by simp
  show ?thesis using len list_all2_lengthD [OF all] embedding_of_sound [OF each] by simp
qed

section \<open>Lemmas: slots\<close>

text \<open>A slot is consistent when it is empty or holds what loading gives.\<close>

definition slot_ok :: "'m res \<Rightarrow> 'm option \<Rightarrow> bool" where
  "slot_ok loaded slot = (case slot of None \<Rightarrow> True | Some m \<Rightarrow> loaded = Inr m)"

lemma lazily_eq: "slot_ok loaded slot \<Longrightarrow> fst (lazily loaded slot) = loaded"
  by (auto simp: slot_ok_def lazily_def split: option.splits sum.splits)

lemma slot_ok_None [simp]: "slot_ok loaded None"
  by (simp add: slot_ok_def)

text \<open>
  Code over one slot that loads at most: its result does not depend on whether the slot was
  filled, and it leaves the slot consistent.
\<close>

definition reads_slot :: "'m res \<Rightarrow> ('m option, 'a) act \<Rightarrow> bool" where
  "reads_slot loaded m = (\<forall>s. slot_ok loaded s \<longrightarrow> fst (m s) = fst (m None) \<and> slot_ok loaded (snd (m s)))"

lemma reads_return: "reads_slot loaded (act_return x)"
  by (simp add: reads_slot_def act_return_def)

lemma reads_lift: "reads_slot loaded (act_lift r)"
  by (simp add: reads_slot_def act_lift_def)

lemma reads_lazily: "reads_slot loaded (lazily loaded)"
  by (auto simp: reads_slot_def slot_ok_def lazily_def split: option.splits sum.splits)

lemma reads_bind:
  assumes m: "reads_slot loaded m" and k: "\<And>x. reads_slot loaded (k x)"
  shows "reads_slot loaded (act_bind m k)"
  unfolding reads_slot_def
proof (intro allI impI)
  fix s assume s: "slot_ok loaded s"
  obtain r s1 where m1: "m s = (r, s1)" by fastforce
  obtain r' s2 where m2: "m None = (r', s2)" by fastforce
  have r: "r' = r" "slot_ok loaded s1" "slot_ok loaded s2"
    using m s m1 m2 unfolding reads_slot_def by (metis fst_conv snd_conv slot_ok_None)+
  show "fst (act_bind m k s) = fst (act_bind m k None) \<and> slot_ok loaded (snd (act_bind m k s))"
  proof (cases r)
    case (Inl e)
    then show ?thesis using m1 m2 r by (simp add: act_bind_def)
  next
    case (Inr x)
    have "fst (k x s1) = fst (k x s2)" "slot_ok loaded (snd (k x s1))"
      using k [of x] r unfolding reads_slot_def by metis+
    then show ?thesis using Inr m1 m2 r by (simp add: act_bind_def)
  qed
qed

lemmas reads_rules = reads_return reads_lift reads_lazily reads_bind

lemma reads_encode: "reads_slot (load_embedder (rn_embedders S) c) (encode_texts S c texts)"
  by (auto simp: encode_texts_def intro!: reads_rules)

lemma reads_encode_query: "reads_slot (load_embedder (rn_embedders S) c) (encode_query S c query)"
  by (auto simp: encode_query_def intro!: reads_rules reads_encode)

lemma reads_scores: "reads_slot (load_reranker (rn_rerankers S) c) (reranker_scores S c query documents)"
  by (auto simp: reranker_scores_def intro!: reads_rules)

lemma reads_client: "reads_slot (rn_connect S (sg_url c) (sg_timeout c)) (store_client S c)"
proof -
  have "store_client S c = (if rn_qdrant S then lazily (rn_connect S (sg_url c) (sg_timeout c))
      else act_lift (Inl (RuntimeError ''Qdrant dependencies are missing; run `uv sync --extra retrieval`'')))"
    by (rule ext) (simp add: store_client_def act_lift_def)
  then show ?thesis using reads_lazily reads_lift by auto
qed

lemma reads_search: "reads_slot (rn_connect S (sg_url (ru_store R)) (sg_timeout (ru_store R))) (mode_search S db R e application documents)"
  unfolding mode_search_def dense_search_def hybrid_search_def Let_def
  by (cases "st_mode (ru_strategy R)") (simp only: retrieval_mode.case, rule reads_bind [OF reads_client reads_lift])+

section \<open>The local pipeline refines the retrieval of a stateless backend\<close>

text \<open>Each adapter as a function: what it gives with empty slots.\<close>

definition local_backend :: "('m, 'r, 'c, 'd) services \<Rightarrow> 'd \<Rightarrow> runtime_config \<Rightarrow> backend" where
  "local_backend S db R =
     \<lparr>bk_search = (\<lambda>query application documents.
        res_bind (fst (encode_query S (ru_embedding R) query None)) (\<lambda>e.
        fst (mode_search S db R e application documents None))),
      bk_reranker = (if has_reranker R
        then Some (\<lambda>query documents. fst (reranker_scores S (ru_reranker R) query documents None), reranker_name)
        else None)\<rparr>"

definition pipeline_ok :: "('m, 'r, 'c, 'd) services \<Rightarrow> runtime_config \<Rightarrow> ('m, 'r, 'c) pipeline \<Rightarrow> bool" where
  "pipeline_ok S R p =
     (slot_ok (load_embedder (rn_embedders S) (ru_embedding R)) (pl_embedder p)
      \<and> slot_ok (load_reranker (rn_rerankers S) (ru_reranker R)) (pl_reranker p)
      \<and> slot_ok (rn_connect S (sg_url (ru_store R)) (sg_timeout (ru_store R))) (pl_client p))"

text \<open>A step of the pipeline that stands for a stateless result.\<close>

definition computes ::
  "('m, 'r, 'c, 'd) services \<Rightarrow> runtime_config \<Rightarrow> (('m, 'r, 'c) pipeline, 'a) act \<Rightarrow> 'a res \<Rightarrow> bool" where
  "computes S R m result =
     (\<forall>p. pipeline_ok S R p \<longrightarrow>
        fst (m p) = result \<and> pipeline_ok S R (snd (m p)) \<and> pl_cache (snd (m p)) = pl_cache p)"

lemma computes_return: "computes S R (act_return x) (Inr x)"
  by (simp add: computes_def act_return_def)

lemma computes_lift: "computes S R (act_lift r) r"
  by (simp add: computes_def act_lift_def)

lemma computes_slot:
  assumes "reads_slot loaded m" and "part = in_slot get put"
    and "\<And>p. pipeline_ok S R p \<Longrightarrow> slot_ok loaded (get p)"
    and "\<And>p x. pipeline_ok S R p \<Longrightarrow> slot_ok loaded x \<Longrightarrow> pipeline_ok S R (put x p)"
    and "\<And>p x. pl_cache (put x p) = pl_cache p"
  shows "computes S R (part m) (fst (m None))"
  unfolding computes_def
proof (intro allI impI)
  fix p assume p: "pipeline_ok S R p"
  obtain r x where m: "m (get p) = (r, x)" by fastforce
  have "fst (m (get p)) = fst (m None) \<and> slot_ok loaded (snd (m (get p)))"
    using assms(1,3) p unfolding reads_slot_def by blast
  then have "r = fst (m None)" "slot_ok loaded x" using m by simp_all
  then show "fst (part m p) = fst (m None) \<and> pipeline_ok S R (snd (part m p)) \<and> pl_cache (snd (part m p)) = pl_cache p"
    using m assms(4) [OF p] assms(5) by (simp add: assms(2) in_slot_def)
qed

lemma computes_embedder:
  "reads_slot (load_embedder (rn_embedders S) (ru_embedding R)) m \<Longrightarrow> computes S R (with_embedder m) (fst (m None))"
  by (rule computes_slot [OF _ with_embedder_def]) (auto simp: pipeline_ok_def)

lemma computes_reranker:
  "reads_slot (load_reranker (rn_rerankers S) (ru_reranker R)) m \<Longrightarrow> computes S R (with_reranker m) (fst (m None))"
  by (rule computes_slot [OF _ with_reranker_def]) (auto simp: pipeline_ok_def)

lemma computes_client:
  "reads_slot (rn_connect S (sg_url (ru_store R)) (sg_timeout (ru_store R))) m \<Longrightarrow> computes S R (with_client m) (fst (m None))"
  by (rule computes_slot [OF _ with_client_def]) (auto simp: pipeline_ok_def)

lemma computes_bind:
  assumes m: "computes S R m r" and k: "\<And>x. computes S R (k x) (f x)"
  shows "computes S R (act_bind m k) (res_bind r f)"
  unfolding computes_def
proof (intro allI impI)
  fix p assume p: "pipeline_ok S R p"
  obtain r' p1 where m1: "m p = (r', p1)" by fastforce
  have r: "r' = r" "pipeline_ok S R p1" "pl_cache p1 = pl_cache p"
    using m p m1 unfolding computes_def by (metis fst_conv snd_conv)+
  show "fst (act_bind m k p) = res_bind r f \<and> pipeline_ok S R (snd (act_bind m k p))
      \<and> pl_cache (snd (act_bind m k p)) = pl_cache p"
  proof (cases r)
    case (Inl e)
    then show ?thesis using m1 r by (simp add: act_bind_def)
  next
    case (Inr x)
    then show ?thesis using m1 r k [of x] by (simp add: act_bind_def computes_def)
  qed
qed

lemma results_compute:
  "computes S R (pipeline_results S db R query application documents)
     (fresh_results (ru_strategy R) (local_backend S db R) query application documents)"
proof -
  let ?search = "\<lambda>e. fst (mode_search S db R e application documents None)"
  let ?ranked = "\<lambda>hits. case st_rerank (ru_strategy R) of
      Some best \<Rightarrow> if has_reranker R
        then res_bind (fst (reranker_scores S (ru_reranker R) query (map (\<lambda>h. chunk_text (ht_chunk h)) hits) None))
               (\<lambda>scores. rerank (nat best) reranker_name scores hits)
        else Inr (normalize_ranks hits)
    | None \<Rightarrow> Inr (normalize_ranks hits)"
  have "computes S R (pipeline_results S db R query application documents)
     (res_bind (fst (encode_query S (ru_embedding R) query None)) (\<lambda>e. res_bind (?search e) ?ranked))"
    unfolding pipeline_results_def
    by (intro computes_bind computes_embedder computes_client reads_encode_query reads_search)
      (auto split: option.splits intro: computes_bind computes_reranker reads_scores computes_return computes_lift)
  moreover have "res_bind (fst (encode_query S (ru_embedding R) query None)) (\<lambda>e. res_bind (?search e) ?ranked)
      = fresh_results (ru_strategy R) (local_backend S db R) query application documents"
    by (cases "fst (encode_query S (ru_embedding R) query None)")
      (auto simp: fresh_results_def local_backend_def res_bind_def split: option.splits sum.splits)
  ultimately show ?thesis by simp
qed

theorem local_pipeline_refines:
  assumes ok: "pipeline_ok S R p"
  shows "(fst (pipeline_retrieve S db R query application documents p),
          pl_cache (snd (pipeline_retrieve S db R query application documents p)))
       = retrieve (ru_strategy R) (local_backend S db R) query application documents (pl_cache p)
     \<and> pipeline_ok S R (snd (pipeline_retrieve S db R query application documents p))"
proof -
  obtain r p1 where run: "pipeline_results S db R query application documents p = (r, p1)" by fastforce
  have r: "fresh_results (ru_strategy R) (local_backend S db R) query application documents = r"
      "pipeline_ok S R p1" "pl_cache p1 = pl_cache p"
    using results_compute [of S R db query application documents] ok run
    unfolding computes_def by (metis fst_conv snd_conv)+
  show ?thesis
    using ok r run
    by (auto simp: pipeline_retrieve_def retrieve_def Let_def pipeline_ok_def split: option.splits sum.splits)
qed

section \<open>Releasing the models\<close>

datatype pipeline_op =
    Ask string "string option" "string list"
  | ReleaseModels
  | Invalidate string

fun pipeline_step ::
  "('m, 'r, 'c, 'd) services \<Rightarrow> 'd \<Rightarrow> runtime_config \<Rightarrow> pipeline_op \<Rightarrow> ('m, 'r, 'c) pipeline \<Rightarrow>
   hit list res option \<times> ('m, 'r, 'c) pipeline" where
  "pipeline_step S db R (Ask query application documents) p =
     (case pipeline_retrieve S db R query application documents p of (r, p') \<Rightarrow> (Some r, p'))"
| "pipeline_step S db R ReleaseModels p = (None, release_models p)"
| "pipeline_step S db R (Invalidate application) p =
     (None, p\<lparr>pl_cache := invalidate_application application (pl_cache p)\<rparr>)"

fun pipeline_run ::
  "('m, 'r, 'c, 'd) services \<Rightarrow> 'd \<Rightarrow> runtime_config \<Rightarrow> pipeline_op list \<Rightarrow> ('m, 'r, 'c) pipeline \<Rightarrow> hit list res list" where
  "pipeline_run S db R [] p = []"
| "pipeline_run S db R (op # ops) p =
     (case pipeline_step S db R op p of
        (None, p') \<Rightarrow> pipeline_run S db R ops p'
      | (Some r, p') \<Rightarrow> r # pipeline_run S db R ops p')"

lemma run_depends_on_cache:
  "pipeline_ok S R p \<Longrightarrow> pipeline_ok S R q \<Longrightarrow> pl_cache p = pl_cache q \<Longrightarrow>
     pipeline_run S db R ops p = pipeline_run S db R (filter (\<lambda>op. op \<noteq> ReleaseModels) ops) q"
proof (induction ops arbitrary: p q)
  case (Cons op ops)
  show ?case
  proof (cases op)
    case (Ask query application documents)
    obtain r p' where p': "pipeline_retrieve S db R query application documents p = (r, p')" by fastforce
    obtain r' q' where q': "pipeline_retrieve S db R query application documents q = (r', q')" by fastforce
    have "(r, pl_cache p') = (r', pl_cache q')" "pipeline_ok S R p'" "pipeline_ok S R q'"
      using local_pipeline_refines [OF Cons.prems(1), of db query application documents]
        local_pipeline_refines [OF Cons.prems(2), of db query application documents] Cons.prems(3) p' q' by simp_all
    then show ?thesis using Ask p' q' Cons.IH [of p' q'] by (simp del: filter.simps add: filter.simps(2))
  next
    case ReleaseModels
    have "pipeline_ok S R (release_models p)" "pl_cache (release_models p) = pl_cache q"
      using Cons.prems by (auto simp: pipeline_ok_def release_models_def)
    then show ?thesis using ReleaseModels Cons.prems(2) Cons.IH [of "release_models p" q] by simp
  next
    case (Invalidate application)
    then show ?thesis using Cons.prems Cons.IH by (simp add: pipeline_ok_def)
  qed
qed simp

text \<open>C34: Giving the GPU back is invisible to a caller: from a freshly built local pipeline, any sequence
  of questions, invalidations and releases of the model weights gives the same answers and errors as the
  same sequence without the releases, whichever models are loaded lazily on the way.\<close>

theorem releases_transparent:
  "\<forall>ops. (case build_local_pipeline R of
      Inl e \<Rightarrow> True
    | Inr p \<Rightarrow> pipeline_run S db R ops p = pipeline_run S db R (filter (\<lambda>op. op \<noteq> ReleaseModels) ops) p)"
  by (auto simp: build_local_pipeline_def raise_if_def pipeline_ok_def intro!: run_depends_on_cache)

section \<open>Indexing\<close>

lemma concat_batches: "0 < n \<Longrightarrow> concat (batches n xs) = xs"
  by (induction n xs rule: batches.induct) (subst batches.simps, auto)

lemma batches_length: "b \<in> set (batches n xs) \<Longrightarrow> b \<noteq> [] \<and> length b \<le> n"
  by (induction n xs rule: batches.induct) (subst (asm) batches.simps, auto split: if_splits)

lemma in_slot_Inr_iff:
  "in_slot get put m p = (Inr y, p') \<longleftrightarrow> (\<exists>x. m (get p) = (Inr y, x) \<and> p' = put x p)"
  by (auto simp: in_slot_def split: prod.splits)

lemma encode_texts_sound:
  assumes "encode_texts S c texts slot = (Inr es, slot')"
  shows "length es = length texts \<and> list_all (embedding_ok (bm_dimension c)) es"
proof (cases "texts = []")
  case False
  with assms obtain out where "embeddings_of (bm_dimension c) (length texts) out = Inr es"
    by (auto simp: encode_texts_def res_simps)
  then show ?thesis using embeddings_of_sound by (auto simp: list_all_length)
qed (use assms in \<open>simp add: encode_texts_def act_return_def\<close>)

text \<open>
  What is assumed of the server: a write that succeeds puts the points in order into the collection, a
  point replacing one of the same identifier. \<open>view\<close> reads the points of a collection.
\<close>

definition put_points :: "point list \<Rightarrow> (string, point) dict \<Rightarrow> (string, point) dict" where
  "put_points ps d = fold (\<lambda>p. AList.update (pt_id p) p) ps d"

definition keyed_writes :: "('m, 'r, 'c, 'd) services \<Rightarrow> (string \<Rightarrow> 'd \<Rightarrow> (string, point) dict) \<Rightarrow> bool" where
  "keyed_writes S view =
     (\<forall>client n ps d d'. rn_write S client n ps d = (Inr (), d') \<longrightarrow> view n d' = put_points ps (view n d))"

lemma put_points_append: "put_points (ps @ qs) d = put_points qs (put_points ps d)"
  by (simp add: put_points_def)

lemma put_points_last:
  "x \<in> set ps \<Longrightarrow> \<exists>y \<in> set ps. pt_id y = pt_id x \<and> map_of (put_points ps d) (pt_id x) = Some y"
proof (induction ps rule: rev_induct)
  case (snoc p ps)
  show ?case
  proof (cases "pt_id x = pt_id p")
    case False
    with snoc obtain y where "y \<in> set ps" "pt_id y = pt_id x" "map_of (put_points ps d) (pt_id x) = Some y" by auto
    with False show ?thesis by (auto simp: put_points_def map_of_update)
  qed (auto simp: put_points_def map_of_update)
qed simp

text \<open>
  A vector pair belongs to a text when it is the row that the encoder returned for that text: the dense row
  itself, and the row's nonzero token weights.
\<close>

definition embedded_text :: "('m, 'r, 'c, 'd) services \<Rightarrow> embedding_config \<Rightarrow> string \<Rightarrow> embedding \<Rightarrow> bool" where
  "embedded_text S c t e =
     (\<exists>m texts out k. rn_encode S m texts (bm_batch c) (bm_max_length c) = Inr out
        \<and> k < length texts \<and> texts ! k = t \<and> length (eo_dense out) = length texts \<and> length (eo_weights out) = length texts
        \<and> em_dense e = eo_dense out ! k \<and> weights_kept (eo_weights out ! k) e)"

lemma encode_texts_rows:
  assumes "encode_texts S c texts slot = (Inr es, slot')"
  shows "list_all2 (embedded_text S c) texts es"
proof (cases "texts = []")
  case False
  with assms obtain m out where "rn_encode S m texts (bm_batch c) (bm_max_length c) = Inr out"
    "embeddings_of (bm_dimension c) (length texts) out = Inr es"
    by (auto simp: encode_texts_def res_simps)
  with embeddings_of_sound [of "bm_dimension c" "length texts" out es] show ?thesis
    unfolding list_all2_conv_all_nth embedded_text_def by metis
qed (use assms in \<open>simp add: encode_texts_def act_return_def\<close>)

definition stored_as ::
  "('m, 'r, 'c, 'd) services \<Rightarrow> runtime_config \<Rightarrow> chunk list \<Rightarrow> embedding list \<Rightarrow> (string, point) dict \<Rightarrow>
   (string, point) dict \<Rightarrow> bool" where
  "stored_as S R chunks es before after =
     (list_all2 (embedded_text S (ru_embedding R)) (map chunk_text chunks) es
      \<and> list_all (embedding_ok (bm_dimension (ru_embedding R))) es
      \<and> after = put_points (map (point_of (ru_store R)) (zip chunks es)) before)"

lemma stored_as_length: "stored_as S R chunks es before after \<Longrightarrow> length es = length chunks"
  by (auto simp: stored_as_def dest: list_all2_lengthD)

lemma upsert_batch_stores:
  assumes law: "keyed_writes S view" and run: "upsert_batch S R b ix = (Inr n, ix')"
  shows "n = length b \<and> (\<exists>es. stored_as S R b es (view (sg_collection (ru_store R)) (ix_db ix)) (view (sg_collection (ru_store R)) (ix_db ix')))"
proof -
  let ?c = "ru_store R"
  from run obtain es slot ix1 where n: "n = length b"
    and enc: "encode_texts S (ru_embedding R) (map chunk_text b) (ix_embedder ix) = (Inr es, slot)"
    and ix1: "ix1 = ix\<lparr>ix_embedder := slot\<rparr>"
    and up: "store_upsert S ?c (zip b es) ix1 = (Inr (), ix')"
    by (auto simp: upsert_batch_def ix_encoding_def in_slot_Inr_iff res_simps)
  have "view (sg_collection ?c) (ix_db ix') = put_points (map (point_of ?c) (zip b es)) (view (sg_collection ?c) (ix_db ix))"
  proof (cases "zip b es = []")
    case True
    then show ?thesis using up by (auto simp: store_upsert_def act_return_def ix1 put_points_def)
  next
    case False
    with up obtain client d' where "rn_write S client (sg_collection ?c) (map (point_of ?c) (zip b es)) (ix_db ix) = (Inr (), d')"
      and "ix_db ix' = d'"
      by (auto simp: store_upsert_def ix_connecting_def ix_storing_def in_slot_Inr_iff res_simps ix1)
    then show ?thesis using law unfolding keyed_writes_def by blast
  qed
  with n encode_texts_rows [OF enc] encode_texts_sound [OF enc] show ?thesis by (auto simp: stored_as_def)
qed

lemma upsert_batches_store:
  assumes law: "keyed_writes S view"
  shows "act_map (upsert_batch S R) bs ix = (Inr counts, ix') \<Longrightarrow>
    sum_list counts = length (concat bs) \<and> (\<exists>es. stored_as S R (concat bs) es
      (view (sg_collection (ru_store R)) (ix_db ix)) (view (sg_collection (ru_store R)) (ix_db ix')))"
proof (induction bs arbitrary: ix counts)
  case Nil
  then show ?case by (auto simp: stored_as_def put_points_def act_return_def)
next
  case (Cons b bs)
  then obtain n ix1 ns where b: "upsert_batch S R b ix = (Inr n, ix1)"
    and rest: "act_map (upsert_batch S R) bs ix1 = (Inr ns, ix')" and counts: "counts = n # ns"
    by (auto simp: res_simps)
  from upsert_batch_stores [OF law b] Cons.IH [OF rest] obtain es fs where n: "n = length b" "sum_list ns = length (concat bs)"
    and s: "stored_as S R b es (view (sg_collection (ru_store R)) (ix_db ix)) (view (sg_collection (ru_store R)) (ix_db ix1))"
      "stored_as S R (concat bs) fs (view (sg_collection (ru_store R)) (ix_db ix1)) (view (sg_collection (ru_store R)) (ix_db ix'))"
    by blast
  have "stored_as S R (concat (b # bs)) (es @ fs) (view (sg_collection (ru_store R)) (ix_db ix)) (view (sg_collection (ru_store R)) (ix_db ix'))"
    using s stored_as_length [OF s(1)]
    by (simp add: stored_as_def zip_append put_points_append list_all2_appendI)
  then show ?case using n by (auto simp: counts)
qed

lemma index_stores:
  assumes law: "keyed_writes S view" and run: "index_chunks S F (Inr R) step paths ix = (Inr n, ix')"
  obtains chunks es old where "read_chunks F paths = Inr chunks" "n = length chunks"
    "stored_as S R chunks es old (view (sg_collection (ru_store R)) (ix_db ix'))"
proof -
  from run obtain ix1 chunks counts where step: "0 < step" and chunks: "read_chunks F paths = Inr chunks"
    and up: "act_map (upsert_batch S R) (batches (nat step) chunks) ix1 = (Inr counts, ix')" and n: "n = sum_list counts"
    by (auto simp: index_chunks_def res_simps)
  have "concat (batches (nat step) chunks) = chunks" using step by (simp add: concat_batches)
  with upsert_batches_store [OF law up] that chunks n show ?thesis by metis
qed

text \<open>The input of the command: the lines with text of all files at the given paths.\<close>

definition input_files :: "chunk_files \<Rightarrow> string \<Rightarrow> string list" where
  "input_files F p = (if fs_is_dir F p then fs_jsonl F p else [p])"

definition lines_of :: "chunk_files \<Rightarrow> string \<Rightarrow> string list" where
  "lines_of F p = (case fs_lines F p of Inl _ \<Rightarrow> [] | Inr ls \<Rightarrow> filter (\<lambda>l. strip l \<noteq> []) ls)"

definition input_lines :: "chunk_files \<Rightarrow> string list \<Rightarrow> string list" where
  "input_lines F paths = concat (map (\<lambda>p. concat (map (lines_of F) (input_files F p))) paths)"

lemma res_map_concat_mset:
  assumes "list_all2 (\<lambda>x ys. mset ys = mset (g x)) xs yss"
  shows "mset (concat yss) = mset (concat (map g xs))"
  using assms by (induction rule: list_all2_induct) auto

lemma read_chunks_lines:
  assumes "read_chunks F paths = Inr chunks"
  shows "list_all (\<lambda>p. list_all (\<lambda>q. \<exists>ls. fs_lines F q = Inr ls) (input_files F p)) paths"
    and "mset (map Inr chunks) = mset (map (fs_chunk F) (input_lines F paths))"
proof -
  from assms obtain fss css where files: "res_map (files_at F) paths = Inr fss"
    and read: "res_map (chunks_in F) (concat fss) = Inr css" and cs: "mset chunks = mset (concat css)"
    by (auto simp: read_chunks_def chunk_files_of_def res_simps)
  from files have f: "list_all2 (\<lambda>p fs. mset fs = mset (input_files F p)) paths fss"
    unfolding res_map_Inr_iff by (rule list_all2_mono) (auto simp: files_at_def input_files_def split: if_splits)
  have all: "mset (concat fss) = mset (concat (map (input_files F) paths))" by (rule res_map_concat_mset [OF f])
  from read have r: "list_all2 (\<lambda>p cs. (\<exists>ls. fs_lines F p = Inr ls) \<and> map Inr cs = map (fs_chunk F) (lines_of F p)) (concat fss) css"
    unfolding res_map_Inr_iff
    by (rule list_all2_mono) (auto simp: chunks_in_def lines_of_def res_bind_Inr_iff res_map_Inr_map)
  then have "list_all (\<lambda>q. \<exists>ls. fs_lines F q = Inr ls) (concat fss)"
    by (induction rule: list_all2_induct) auto
  with arg_cong [OF all, of set_mset]
  show "list_all (\<lambda>p. list_all (\<lambda>q. \<exists>ls. fs_lines F q = Inr ls) (input_files F p)) paths"
    by (fastforce simp: list_all_iff)
  from r have "map Inr (concat css) = map (fs_chunk F) (concat (map (lines_of F) (concat fss)))"
    by (induction rule: list_all2_induct) auto
  moreover have "mset (concat (map (lines_of F) (concat fss))) = mset (input_lines F paths)"
  proof -
    have "mset (concat (map (lines_of F) xs)) = sum_mset (image_mset (\<lambda>p. mset (lines_of F p)) (mset xs))" for xs
      by (induction xs) auto
    moreover have "input_lines F paths = concat (map (lines_of F) (concat (map (input_files F) paths)))"
      by (induction paths) (simp_all add: input_lines_def)
    ultimately show ?thesis by (simp add: all)
  qed
  ultimately show "mset (map Inr chunks) = mset (map (fs_chunk F) (input_lines F paths))"
    using cs by (metis mset_map)
qed

text \<open>
  A chunk is indexed: under its identifier the collection holds a point with a chunk of that identifier, and in
  its two named vectors what the encoder returned for the text of that chunk, of the configured dimension.
\<close>

definition indexed ::
  "('m, 'r, 'c, 'd) services \<Rightarrow> runtime_config \<Rightarrow> (chunk \<Rightarrow> bool) \<Rightarrow> (string, point) dict \<Rightarrow> chunk \<Rightarrow> bool" where
  "indexed S R given points c =
     (\<exists>p dense indices values. map_of points (point_id c) = Some p
        \<and> given (pt_chunk p) \<and> point_id (pt_chunk p) = point_id c \<and> pt_id p = point_id c
        \<and> map_of (pt_vectors p) (sg_dense (ru_store R)) = Some (DenseVector dense)
        \<and> map_of (pt_vectors p) (sg_sparse (ru_store R)) = Some (SparseVector indices values)
        \<and> int (length dense) = bm_dimension (ru_embedding R)
        \<and> embedded_text S (ru_embedding R) (chunk_text (pt_chunk p))
            \<lparr>em_dense = dense, em_sparse = \<lparr>sp_indices = indices, sp_values = values\<rparr>\<rparr>)"

lemma stored_indexed:
  assumes st: "stored_as S R chunks es old points" and names: "sg_dense (ru_store R) \<noteq> sg_sparse (ru_store R)"
    and c: "c \<in> set chunks"
  shows "indexed S R (\<lambda>c. c \<in> set chunks) points c"
proof -
  let ?ps = "map (point_of (ru_store R)) (zip chunks es)"
  note len = stored_as_length [OF st]
  have after: "points = put_points ?ps old" using st by (simp add: stored_as_def)
  obtain e where "(c, e) \<in> set (zip chunks es)" using c len by (metis in_set_impl_in_set_zip1)
  then have "point_of (ru_store R) (c, e) \<in> set ?ps" by (metis image_eqI set_map)
  then obtain y where y: "y \<in> set ?ps" "pt_id y = point_id c" "map_of points (point_id c) = Some y"
    using put_points_last [of "point_of (ru_store R) (c, e)" ?ps old] after by (auto simp: point_of_def)
  then obtain c' e' where z: "(c', e') \<in> set (zip chunks es)" "y = point_of (ru_store R) (c', e')" by auto
  then have "embedded_text S (ru_embedding R) (chunk_text c') e'" "embedding_ok (bm_dimension (ru_embedding R)) e'"
    using st len by (auto simp: stored_as_def list_all2_conv_all_nth in_set_zip list_all_length)
  moreover have "\<lparr>em_dense = em_dense e', em_sparse = \<lparr>sp_indices = sp_indices (em_sparse e'), sp_values = sp_values (em_sparse e')\<rparr>\<rparr> = e'"
    (is "?e = e'") by simp
  ultimately have emb: "embedded_text S (ru_embedding R) (chunk_text c') ?e" "embedding_ok (bm_dimension (ru_embedding R)) e'"
    by (simp_all only:)
  have "c' \<in> set chunks" using z by (auto dest: set_zip_leftD)
  with emb have "map_of points (point_id c) = Some y \<and> pt_chunk y \<in> set chunks \<and> point_id (pt_chunk y) = point_id c
      \<and> pt_id y = point_id c \<and> map_of (pt_vectors y) (sg_dense (ru_store R)) = Some (DenseVector (em_dense e'))
      \<and> map_of (pt_vectors y) (sg_sparse (ru_store R))
          = Some (SparseVector (sp_indices (em_sparse e')) (sp_values (em_sparse e')))
      \<and> int (length (em_dense e')) = bm_dimension (ru_embedding R)
      \<and> embedded_text S (ru_embedding R) (chunk_text (pt_chunk y))
          \<lparr>em_dense = em_dense e', em_sparse = \<lparr>sp_indices = sp_indices (em_sparse e'), sp_values = sp_values (em_sparse e')\<rparr>\<rparr>"
    using y z names by (simp add: point_of_def dict_of_def map_of_update sparse_vector_def embedding_ok_def)
  then show ?thesis unfolding indexed_def by blast
qed

text \<open>C33: An \<open>index\<close> command that completes has read every line with text of every file at the given paths (all
  \<open>.jsonl\<close> files of a folder), prints their number, and has indexed the chunk of each line: under the identifier
  of the chunk the collection holds a point with a chunk from these files of that identifier, whose dense
  and sparse named vectors are what the encoder returned for the text of that very chunk, in the configured
  dimension, whatever the batch size. The two vector names differ, and the server is assumed to put points by
  identifier (\<open>keyed_writes\<close>).\<close>

theorem every_chunk_indexed:
  assumes law: "keyed_writes S view" and names: "sg_dense (ru_store R) \<noteq> sg_sparse (ru_store R)"
    and run: "index_chunks S F (Inr R) step paths ix = (Inr n, ix')"
  shows "list_all (\<lambda>p. list_all (\<lambda>q. \<exists>ls. fs_lines F q = Inr ls) (input_files F p)) paths
    \<and> n = length (input_lines F paths)
    \<and> list_all (\<lambda>l. \<exists>c. fs_chunk F l = Inr c
        \<and> indexed S R (\<lambda>c'. Inr c' \<in> fs_chunk F ` set (input_lines F paths))
            (view (sg_collection (ru_store R)) (ix_db ix')) c) (input_lines F paths)"
proof -
  obtain chunks es old where chunks: "read_chunks F paths = Inr chunks" "n = length chunks"
    and st: "stored_as S R chunks es old (view (sg_collection (ru_store R)) (ix_db ix'))"
    using index_stores [OF law run] .
  note lines = read_chunks_lines [OF chunks(1)]
  have n: "n = length (input_lines F paths)" using chunks(2) arg_cong [OF lines(2), of size] by simp
  have set: "Inr ` set chunks = fs_chunk F ` set (input_lines F paths)" using arg_cong [OF lines(2), of set_mset] by simp
  have given: "(\<lambda>c'. Inr c' \<in> fs_chunk F ` set (input_lines F paths)) = (\<lambda>c'. c' \<in> set chunks)"
    unfolding set[symmetric] by auto
  have "\<exists>c. fs_chunk F l = Inr c \<and> c \<in> set chunks" if "l \<in> set (input_lines F paths)" for l
    using set that by (metis imageE image_eqI)
  with stored_indexed [OF st names] lines(1) n show ?thesis unfolding given list_all_iff by blast
qed

section \<open>An index command that runs\<close>

definition sample_services :: "nat \<Rightarrow> (unit, unit, unit, (string, point) dict) services" where
  "sample_services width =
     (let source = \<lparr>ms_package = True, ms_hub = True, ms_folder = (\<lambda>p. p), ms_is_dir = (\<lambda>p. True),
        ms_download = (\<lambda>m r. Inr ''snapshot''), ms_load = (\<lambda>p f. Inr ())\<rparr> in
     \<lparr>rn_embedders = source,
      rn_encode = (\<lambda>m texts b n. Inr \<lparr>eo_dense = map (\<lambda>t. replicate width 1) texts,
        eo_weights = map (\<lambda>t. [(''17'', 1 / 2), (''4'', 0), (''3'', 1 / 4)]) texts\<rparr>),
      rn_rerankers = source, rn_scores = (\<lambda>m ps. Inr (ManyScores (map (\<lambda>p. 1) ps))), rn_qdrant = True,
      rn_connect = (\<lambda>u t. Inr ()), rn_exists = (\<lambda>c n d. (Inr True, d)), rn_create = (\<lambda>c n s d. (Inr (), d)),
      rn_write = (\<lambda>c n ps d. (Inr (), put_points ps d)),
      rn_query = (\<lambda>c d q. Inr (map (\<lambda>(k, p). (Some (pt_chunk p), 1)) d))\<rparr>)"

definition sample_runtime :: runtime_config where
  "sample_runtime =
     \<lparr>ru_embedding = \<lparr>bm_model = ''BAAI/bge-m3'', bm_revision = ''5617a9f'', bm_snapshot = None, bm_dimension = 2,
        bm_batch = 8, bm_max_length = 8192, bm_fp16 = True\<rparr>,
      ru_reranker = \<lparr>rr_model = reranker_name, rr_revision = ''953dc6f'', rr_snapshot = None, rr_fp16 = True\<rparr>,
      ru_store = \<lparr>sg_url = ''http://localhost:6999'', sg_collection = ''findociq_chunks'', sg_dense = ''dense'',
        sg_sparse = ''sparse'', sg_timeout = 60\<rparr>,
      ru_strategy = \<lparr>st_name = ''hybrid'', st_mode = HybridRrf, st_retrieve = 10, st_rerank = Some 5, st_prefetch = 20,
        st_rrf_k = 60, st_cache = 256\<rparr>\<rparr>"

definition sample_chunk :: "string \<Rightarrow> string \<Rightarrow> chunk" where
  "sample_chunk i t = TextChunk i t [] []"

definition sample_files :: chunk_files where
  "sample_files =
     \<lparr>fs_is_dir = (\<lambda>p. False), fs_is_file = (\<lambda>p. True), fs_jsonl = (\<lambda>p. []),
      fs_lines = (\<lambda>p. Inr [''one'', '' '', ''two'']),
      fs_chunk = (\<lambda>l. Inr (if l = ''one'' then sample_chunk ''1'' ''Revenue'' else sample_chunk ''2'' ''Net''))\<rparr>"

lemma sample_law: "keyed_writes (sample_services w) (\<lambda>n d. d)"
  by (simp add: keyed_writes_def sample_services_def Let_def)

lemma sample_services_fields:
  "rn_qdrant (sample_services w) = True" "rn_connect (sample_services w) u t = Inr ()"
  "rn_exists (sample_services w) c l d = (Inr True, d)" "rn_write (sample_services w) c l ps d = (Inr (), put_points ps d)"
  by (simp_all add: sample_services_def Let_def)

lemma sample_read: "read_chunks sample_files [''chunks.jsonl''] = Inr [sample_chunk ''2'' ''Net'', sample_chunk ''1'' ''Revenue'']"
  by code_simp

lemma sample_encoding:
  "encode_texts (sample_services 2) (ru_embedding sample_runtime) [t] slot
     = (Inr [\<lparr>em_dense = [1, 1], em_sparse = \<lparr>sp_indices = [3, 17], sp_values = [1 / 4, 1 / 2]\<rparr>\<rparr>],
        Some (case slot of None \<Rightarrow> () | Some u \<Rightarrow> u))"
proof -
  have "embeddings_of 2 1 \<lparr>eo_dense = [[1, 1]], eo_weights = [[(''17'', 1 / 2), (''4'', 0), (''3'', 1 / 4)]]\<rparr>
      = Inr [\<lparr>em_dense = [1, 1], em_sparse = \<lparr>sp_indices = [3, 17], sp_values = [1 / 4, 1 / 2]\<rparr>\<rparr>]"
    by code_simp
  then show ?thesis
    by (cases slot)
      (simp_all add: encode_texts_def act_bind_def lazily_def sample_services_def sample_runtime_def load_embedder_def
        snapshot_path_def act_lift_def Let_def numeral_2_eq_2)
qed

theorem every_chunk_indexed_witness:
  "\<exists>ix'. index_chunks (sample_services 2) sample_files (Inr sample_runtime) 1 [''chunks.jsonl'']
       \<lparr>ix_embedder = None, ix_client = None, ix_db = []\<rparr> = (Inr 2, ix')
     \<and> indexed (sample_services 2) sample_runtime (\<lambda>c. c \<in> {sample_chunk ''1'' ''Revenue'', sample_chunk ''2'' ''Net''})
         (ix_db ix') (sample_chunk ''1'' ''Revenue'')"
proof -
  have b: "batches (Suc 0) [x, y] = [[x], [y]]" for x y :: chunk
    by (simp add: batches.simps)
  obtain n ix' where run: "index_chunks (sample_services 2) sample_files (Inr sample_runtime) 1 [''chunks.jsonl'']
      \<lparr>ix_embedder = None, ix_client = None, ix_db = []\<rparr> = (Inr n, ix')"
    by (simp add: index_chunks_def sample_read act_bind_def act_lift_def act_return_def ensure_collection_def upsert_batch_def
        store_upsert_def ix_encoding_def ix_connecting_def ix_storing_def in_slot_def store_client_def lazily_def b
        sample_services_fields sample_encoding)
  have names: "sg_dense (ru_store sample_runtime) \<noteq> sg_sparse (ru_store sample_runtime)" by (simp add: sample_runtime_def)
  have lines: "input_lines sample_files [''chunks.jsonl''] = [''one'', ''two'']" by code_simp
  have given: "(\<lambda>c'. Inr c' \<in> fs_chunk sample_files ` set [''one'', ''two''])
      = (\<lambda>c. c \<in> {sample_chunk ''1'' ''Revenue'', sample_chunk ''2'' ''Net''})"
    by (auto simp: sample_files_def fun_eq_iff)
  have one: "fs_chunk sample_files ''one'' = Inr (sample_chunk ''1'' ''Revenue'')" by (simp add: sample_files_def)
  from every_chunk_indexed [OF sample_law names run, unfolded lines given] one have "n = 2"
    "indexed (sample_services 2) sample_runtime (\<lambda>c. c \<in> {sample_chunk ''1'' ''Revenue'', sample_chunk ''2'' ''Net''})
       (ix_db ix') (sample_chunk ''1'' ''Revenue'')" by simp_all
  with run show ?thesis by blast
qed

end
