(* ===== verification/Layout.thy ===== *)
theory Layout
  imports Schema PyRegex "HOL-Library.Multiset"
begin

text \<open>
  \<open>ingest/ocr_lines.py\<close> and \<open>ingest/ruled_tables.py\<close>: the restoration of physical OCR
  lines, and the recovery of ruled activity tables and dated tables from a page. What the PDF
  library reports of a page (words, drawings, tables) is data of the model.
\<close>

section \<open>Restoring lines\<close>

record ocr_line =
  ol_text :: string
  ol_box :: bbox

definition centre_in :: "bbox \<Rightarrow> ocr_line \<Rightarrow> bool" where
  "centre_in b c =
     (let x = (bx0 (ol_box c) + bx1 (ol_box c)) / 2; y = (by0 (ol_box c) + by1 (ol_box c)) / 2 in
      bx0 b \<le> x \<and> x \<le> bx1 b \<and> by0 b \<le> y \<and> y \<le> by1 b)"

text \<open>A sort by a pair of keys is two stable sorts, the minor key first.\<close>

definition sort_by2 :: "('a \<Rightarrow> rat) \<Rightarrow> ('a \<Rightarrow> rat) \<Rightarrow> 'a list \<Rightarrow> 'a list" where
  "sort_by2 f g xs = sort_key f (sort_key g xs)"

definition same_line :: "bbox \<Rightarrow> bbox \<Rightarrow> bool" where
  "same_line p c =
     (1 / 2 * min (by1 p - by0 p) (by1 c - by0 c) < min (by1 p) (by1 c) - max (by0 p) (by0 c))"

text \<open>The lines so far, the last one first; a line keeps its cells in order of arrival.\<close>

fun group_lines :: "ocr_line list list \<Rightarrow> ocr_line list \<Rightarrow> ocr_line list list" where
  "group_lines ls [] = rev ls"
| "group_lines ls (c # cs) =
     (case ls of
        (p # ps) # ls' \<Rightarrow>
          if same_line (ol_box p) (ol_box c) then group_lines ((p # ps @ [c]) # ls') cs
          else group_lines ([c] # ls) cs
      | _ \<Rightarrow> group_lines ([c] # ls) cs)"

definition line_text :: "ocr_line list \<Rightarrow> string" where
  "line_text l = join '' '' (map (\<lambda>c. strip (ol_text c)) (sort_key (\<lambda>c. bx0 (ol_box c)) l))"

definition restore_lines :: "string \<Rightarrow> bbox \<Rightarrow> ocr_line list \<Rightarrow> string" where
  "restore_lines original block cells =
     (let selected = sort_by2 (\<lambda>c. by0 (ol_box c)) (\<lambda>c. bx0 (ol_box c)) (filter (centre_in block) cells);
          restored = join newline (map line_text (group_lines [] selected))
      in if words_of restored = words_of original then restored else original)"

section \<open>What a page shows\<close>

record pword =
  w_x0 :: rat
  w_y0 :: rat
  w_x1 :: rat
  w_y1 :: rat
  w_text :: string

record ptable =
  pt_box :: bbox
  pt_extract :: "string option list list"
  pt_first_cells :: "bbox option list"   \<comment> \<open>\<open>table.rows[0].cells\<close>\<close>

text \<open>A drawn item: its kind and its end points.\<close>

record pitem =
  it_kind :: string
  it_x1 :: rat
  it_y1 :: rat
  it_x2 :: rat
  it_y2 :: rat

record drawing =
  dg_filled :: bool
  dg_rect :: bbox
  dg_items :: "pitem list"

record page_view =
  vw_height :: rat
  vw_words :: "pword list"           \<comment> \<open>\<open>get_text("words")\<close>\<close>
  vw_sorted_words :: "pword list"    \<comment> \<open>\<open>get_text("words", sort=True)\<close>\<close>
  vw_drawings :: "drawing list"
  vw_tables :: "ptable list"         \<comment> \<open>\<open>find_tables()\<close>\<close>
  vw_clipped :: "bbox \<Rightarrow> rat list \<Rightarrow> ptable list"

definition rect_width :: "bbox \<Rightarrow> rat" where "rect_width b = max 0 (bx1 b - bx0 b)"
definition rect_height :: "bbox \<Rightarrow> rat" where "rect_height b = max 0 (by1 b - by0 b)"

text \<open>\<open>round(x, 1)\<close>, ties to even\<close>

definition round1 :: "rat \<Rightarrow> rat" where
  "round1 x =
     (let s = x * 10; q = \<lfloor>s\<rfloor>; r = s - of_int q in
      of_int (if r < 1 / 2 then q else if 1 / 2 < r then q + 1 else if even q then q else q + 1) / 10)"

definition reading_order :: "pword list \<Rightarrow> pword list" where
  "reading_order ws = sort_by2 (\<lambda>w. round1 (w_y0 w)) w_x0 ws"

definition clean_cell :: "string option \<Rightarrow> string" where
  "clean_cell c = strip (replace_all newline '' '' (case c of None \<Rightarrow> [] | Some s \<Rightarrow> s))"

definition markdown_row :: "string list \<Rightarrow> string" where
  "markdown_row r = ''| '' @ join '' | '' r @ '' |''"

definition markdown_table :: "string list \<Rightarrow> string list list \<Rightarrow> nat \<Rightarrow> string" where
  "markdown_table header rows n = join newline (map markdown_row (header # replicate n ''---'' # rows))"

section \<open>Activity tables\<close>

definition section_rects :: "bbox \<Rightarrow> drawing list \<Rightarrow> bbox list" where
  "section_rects box ds =
     filter (\<lambda>r. 8 < rect_height r \<and> rect_width box * (9 / 10) \<le> rect_width r \<and> by1 box < by0 r)
       (map dg_rect (filter dg_filled ds))"

definition is_rule :: "bbox \<Rightarrow> rat \<Rightarrow> pitem \<Rightarrow> bool" where
  "is_rule box end_y i =
     (it_kind i = ''l'' \<and> \<bar>it_y1 i - it_y2 i\<bar> < 1 / 2 \<and> rect_width box * (9 / 10) \<le> \<bar>it_x2 i - it_x1 i\<bar>
      \<and> by1 box + 2 < it_y1 i \<and> it_y1 i < end_y)"

definition bottoms_of :: "bbox \<Rightarrow> rat \<Rightarrow> drawing list \<Rightarrow> rat list" where
  "bottoms_of box end_y ds = sort (remdups (map it_y1 (filter (is_rule box end_y) (concat (map dg_items ds)))))"

definition word_in_cell :: "rat \<Rightarrow> rat \<Rightarrow> bbox \<Rightarrow> pword \<Rightarrow> bool" where
  "word_in_cell upper lower c w =
     (bx0 c \<le> (w_x0 w + w_x1 w) / 2 \<and> (w_x0 w + w_x1 w) / 2 < bx1 c
      \<and> upper < (w_y0 w + w_y1 w) / 2 \<and> (w_y0 w + w_y1 w) / 2 < lower)"

definition activity_row :: "pword list \<Rightarrow> bbox list \<Rightarrow> rat \<Rightarrow> rat \<Rightarrow> string list" where
  "activity_row ws cells upper lower =
     map (\<lambda>c. join '' '' (map w_text (filter (word_in_cell upper lower c) (reading_order ws)))) cells"

definition letter_rx :: rx where "letter_rx = Cls False [(CHR ''A'', CHR ''Z'')]"

definition plain_number_rx :: rx where
  "plain_number_rx = seqs [plus_rx digit_rx, opt_rx (seqs [Lit ''.'', plus_rx digit_rx])]"

definition full :: "rx \<Rightarrow> string \<Rightarrow> bool" where
  "full r t = found (re_fullmatch False False r t)"

text \<open>A header of five cells gives rows of five.\<close>

definition activity_row_ok :: "string list \<Rightarrow> bool" where
  "activity_row_ok row =
     (list_all (\<lambda>c. c \<noteq> []) row \<and> full letter_rx (row ! 0) \<and> full plain_number_rx (row ! 2)
      \<and> full plain_number_rx (row ! 4))"

fun activity_rows :: "pword list \<Rightarrow> bbox list \<Rightarrow> rat \<Rightarrow> rat list \<Rightarrow> string list list option" where
  "activity_rows ws cells upper [] = Some []"
| "activity_rows ws cells upper (b # bs) =
     (let row = activity_row ws cells upper b in
      if \<not> activity_row_ok row then None
      else map_option (\<lambda>rows. row # rows) (activity_rows ws cells b bs))"

definition activity_table :: "page_view \<Rightarrow> ptable \<Rightarrow> (bbox \<times> string) option" where
  "activity_table page table =
     (case pt_extract table of
        [raw] \<Rightarrow>
          let header = map clean_cell raw; box = pt_box table; sections = section_rects box (vw_drawings page) in
          if length raw \<noteq> 5 \<or> ''Description of Main Activity Group'' \<notin> set header
             \<or> ''% of Turnover'' \<notin> set header \<or> sections = [] then None
          else
            let end_y = Min (set (map by0 sections)); bottoms = bottoms_of box end_y (vw_drawings page) in
            if bottoms = [] \<or> None \<in> set (pt_first_cells table) then None
            else map_option (\<lambda>rows. (box\<lparr>by1 := last bottoms\<rparr>, markdown_table header rows 5))
                   (activity_rows (vw_words page) (map the (pt_first_cells table)) (by1 box) bottoms)
      | _ \<Rightarrow> None)"

definition activity_tables :: "page_view \<Rightarrow> (bbox \<times> string) list" where
  "activity_tables page = concat (map (\<lambda>t. case activity_table page t of None \<Rightarrow> [] | Some r \<Rightarrow> [r]) (vw_tables page))"

section \<open>Dated tables\<close>

fun add_to_line :: "pword list list \<Rightarrow> pword \<Rightarrow> pword list list" where
  "add_to_line [] w = [[w]]"
| "add_to_line (l # ls) w =
     (if l \<noteq> [] \<and> \<bar>w_y0 (hd l) - w_y0 w\<bar> < 2 then (l @ [w]) # ls else l # add_to_line ls w)"

definition word_lines :: "pword list \<Rightarrow> pword list list" where
  "word_lines ws = map (sort_key w_x0) (foldl add_to_line [] (reading_order ws))"

definition day_rx :: rx where "day_rx = Rep digit_rx 1 1"

definition month_rx :: rx where
  "month_rx = Seq (alts (map Lit [''Jan'', ''Feb'', ''Mar'', ''Apr'', ''May'', ''Jun'', ''Jul'', ''Aug'',
     ''Sep'', ''Oct'', ''Nov'', ''Dec''])) (opt_rx (Lit '',''))"

definition year_rx :: rx where "year_rx = seqs [Lit ''20'', Rep digit_rx 2 0]"

text \<open>The left and right edges of every day-month-year triple of a line.\<close>

fun line_dates :: "pword list \<Rightarrow> (rat \<times> rat) list" where
  "line_dates (a # b # c # ws) =
     (if full day_rx (w_text a) \<and> full month_rx (w_text b) \<and> full year_rx (w_text c) then [(w_x0 a, w_x1 c)] else [])
     @ line_dates (b # c # ws)"
| "line_dates ws = []"

definition dated_header :: "pword list \<Rightarrow> bool" where
  "dated_header l =
     (let dates = line_dates l in
      2 \<le> length dates \<and> length dates \<le> 10 \<and> w_x0 (hd l) < fst (hd dates) - 30)"

definition dated_headers :: "pword list list \<Rightarrow> (pword list \<times> (rat \<times> rat) list) list" where
  "dated_headers ls = map (\<lambda>l. (l, line_dates l)) (filter dated_header ls)"

fun between :: "(rat \<times> rat) list \<Rightarrow> rat list" where
  "between ((_, r) # (l, r') # ds) = (r + l) / 2 # between ((l, r') # ds)"
| "between _ = []"

definition verticals :: "pword list \<Rightarrow> (rat \<times> rat) list \<Rightarrow> rat list" where
  "verticals line dates =
     [Min (set (map w_x0 line)), fst (hd dates) - 5] @ between dates @ [Max (set (map w_x1 line)) + 8]"

definition line_top :: "pword list \<Rightarrow> rat" where
  "line_top line = Min (set (map w_y0 line)) - 8"

definition year_cell :: "string \<Rightarrow> bool" where
  "year_cell c = found (re_search False False (seqs [Bound, Lit ''20'', Rep digit_rx 2 0, Bound]) c)"

definition amount_rx :: rx where
  "amount_rx = plus_rx (Cls False (map (\<lambda>c. (c, c)) ''-+(),.% '' @ [(CHR ''0'', CHR ''9'')]))"

definition numeric_row :: "string list \<Rightarrow> bool" where
  "numeric_row row = (row \<noteq> [] \<and> hd row \<noteq> [] \<and> list_all (full amount_rx) (tl row))"

text \<open>The library returns rows of one length; an empty row does not occur.\<close>

definition dated_table :: "nat \<Rightarrow> ptable \<Rightarrow> (bbox \<times> string list list) option" where
  "dated_table ndates table =
     (let rows = map (map clean_cell) (pt_extract table) in
      if rows = [] \<or> length (hd rows) \<noteq> ndates + 1 then None
      else
        let rest = dropWhile (\<lambda>row. \<not> list_all year_cell (tl row)) rows in
        if rest = [] then None
        else if length (filter numeric_row (tl rest)) < 3 then None
        else Some (pt_box table, rest))"

definition dated_markdown :: "string list list \<Rightarrow> string" where
  "dated_markdown rows = markdown_table (hd rows) (tl rows) (length (hd rows))"

fun dated_regions :: "rat \<Rightarrow> (pword list \<times> (rat \<times> rat) list) list \<Rightarrow> (bbox \<times> rat list \<times> nat) list" where
  "dated_regions height [] = []"
| "dated_regions height ((line, dates) # hs) =
     (let bottom = (case hs of [] \<Rightarrow> height - 80 | (next_line, _) # _ \<Rightarrow> line_top next_line);
          left = Min (set (map w_x0 line)); right = Max (set (map w_x1 line)) + 8
      in (\<lparr>bx0 = left - 1, by0 = line_top line, bx1 = right, by1 = bottom\<rparr>, verticals line dates, length dates)
         # dated_regions height hs)"

definition dated_tables :: "page_view \<Rightarrow> (bbox \<times> string) list" where
  "dated_tables page =
     concat (map (\<lambda>(clip, vs, n).
         concat (map (\<lambda>t. case dated_table n t of None \<Rightarrow> [] | Some (box, rows) \<Rightarrow> [(box, dated_markdown rows)])
           (vw_clipped page clip vs)))
       (dated_regions (vw_height page) (dated_headers (word_lines (vw_sorted_words page)))))"

section \<open>Lemmas on lines\<close>

text \<open>Restoring never adds, drops or reorders a word.\<close>

lemma restore_lines_words: "words_of (restore_lines original block cells) = words_of original"
  by (simp add: restore_lines_def Let_def)

lemma group_lines_concat:
  "list_all (\<lambda>l. l \<noteq> []) ls \<Longrightarrow>
     concat (group_lines ls cs) = concat (rev ls) @ cs \<and> list_all (\<lambda>l. l \<noteq> []) (group_lines ls cs)"
  by (induction ls cs rule: group_lines.induct) (auto split: list.splits simp: list_all_iff)

lemma add_to_line_keeps:
  "list_all (\<lambda>l. l \<noteq> []) ls \<Longrightarrow>
     mset (concat (add_to_line ls w)) = add_mset w (mset (concat ls)) \<and> list_all (\<lambda>l. l \<noteq> []) (add_to_line ls w)"
  by (induction ls w rule: add_to_line.induct) auto

lemma word_lines_keep: "mset (concat (word_lines ws)) = mset ws \<and> list_all (\<lambda>l. l \<noteq> []) (word_lines ws)"
proof -
  have "mset (concat (foldl add_to_line ls xs)) = mset (concat ls) + mset xs
      \<and> list_all (\<lambda>l. l \<noteq> []) (foldl add_to_line ls xs)" if "list_all (\<lambda>l. l \<noteq> []) ls" for ls xs
    using that by (induction xs arbitrary: ls) (simp_all add: add_to_line_keeps)
  from this[of "[]" "reading_order ws"] have f: "mset (concat (foldl add_to_line [] (reading_order ws))) = mset ws"
    "list_all (\<lambda>l. l \<noteq> []) (foldl add_to_line [] (reading_order ws))"
    by (simp_all add: reading_order_def sort_by2_def)
  have m: "mset (concat (map (sort_key w_x0) ls)) = mset (concat ls)" for ls
    by (induction ls) simp_all
  have "sort_key w_x0 l = [] \<longleftrightarrow> l = []" for l :: "pword list"
    by (metis mset_sort mset_zero_iff)
  then show ?thesis using f unfolding word_lines_def m by (simp add: list_all_iff)
qed

section \<open>Lemmas on tables\<close>

lemma bottoms_of_bounds:
  "b \<in> set (bottoms_of box end_y ds) \<Longrightarrow> by1 box + 2 < b \<and> b < end_y"
  by (auto simp: bottoms_of_def is_rule_def)

lemma bottoms_of_sorted: "sorted (bottoms_of box end_y ds) \<and> distinct (bottoms_of box end_y ds)"
  by (simp add: bottoms_of_def)

lemma activity_rows_Some:
  "activity_rows ws cells upper bs = Some rows \<Longrightarrow>
     length rows = length bs \<and> list_all activity_row_ok rows \<and> list_all (\<lambda>r. length r = length cells) rows"
  by (induction ws cells upper bs arbitrary: rows rule: activity_rows.induct)
    (auto simp: Let_def activity_row_def split: if_splits)

text \<open>
  A recovered table reaches below its header and stops above the next section; every row has
  its code letter and its two numbers.
\<close>

lemma activity_table_Some:
  assumes "activity_table page table = Some (r, md)"
  shows "\<exists>rows. rows \<noteq> [] \<and> list_all activity_row_ok rows \<and> bx0 r = bx0 (pt_box table) \<and> by0 r = by0 (pt_box table)
    \<and> by1 (pt_box table) + 2 < by1 r
    \<and> (\<exists>header. length header = 5 \<and> md = markdown_table header rows 5)
    \<and> list_all (\<lambda>s. by1 r < by0 s) (section_rects (pt_box table) (vw_drawings page))"
proof -
  let ?box = "pt_box table"
  let ?ss = "section_rects ?box (vw_drawings page)"
  let ?stop = "Min (set (map by0 ?ss))"
  let ?bs = "bottoms_of ?box ?stop (vw_drawings page)"
  from assms obtain raw rows where raw: "pt_extract table = [raw]" "length raw = 5" "?ss \<noteq> []" "?bs \<noteq> []"
    and rows: "activity_rows (vw_words page) (map the (pt_first_cells table)) (by1 ?box) ?bs = Some rows"
    and r: "r = ?box\<lparr>by1 := last ?bs\<rparr>" "md = markdown_table (map clean_cell raw) rows 5"
    by (auto simp: activity_table_def Let_def split: list.splits if_splits)
  from raw(4) have "last ?bs \<in> set ?bs" by simp
  from bottoms_of_bounds[OF this] have b: "by1 ?box + 2 < last ?bs" "last ?bs < ?stop" by auto
  have "?stop \<le> by0 s" if "s \<in> set ?ss" for s using that by (intro Min_le) auto
  with b(2) have "list_all (\<lambda>s. last ?bs < by0 s) ?ss" unfolding list_all_iff by (blast intro: less_le_trans)
  moreover have "rows \<noteq> []" "list_all activity_row_ok rows" using activity_rows_Some[OF rows] raw(4) by auto
  moreover have "by1 r = last ?bs" "bx0 r = bx0 ?box" "by0 r = by0 ?box" by (simp_all add: r(1))
  moreover have "\<exists>header. length header = 5 \<and> md = markdown_table header rows 5"
    using raw(2) r(2) by (intro exI[of _ "map clean_cell raw"]) simp
  ultimately show ?thesis using b(1) by metis
qed

lemma dated_table_Some:
  assumes "dated_table n table = Some (box, rows)"
  shows "rows \<noteq> [] \<and> list_all year_cell (tl (hd rows)) \<and> 3 \<le> length (filter numeric_row (tl rows))
    \<and> (\<exists>k. rows = drop k (map (map clean_cell) (pt_extract table)))"
proof -
  let ?all = "map (map clean_cell) (pt_extract table)"
  let ?p = "\<lambda>row. \<not> list_all year_cell (tl row)"
  from assms have rows: "rows = dropWhile ?p ?all" "rows \<noteq> []" "3 \<le> length (filter numeric_row (tl rows))"
    by (auto simp: dated_table_def Let_def split: if_splits)
  then have "\<not> ?p (hd rows)" by (metis hd_dropWhile)
  moreover have "rows = drop (length (takeWhile ?p ?all)) ?all" by (simp add: rows(1) dropWhile_eq_drop)
  ultimately show ?thesis using rows by blast
qed

text \<open>As many columns as dates and one: the verticals have one line more.\<close>

lemma between_length: "length (between ds) = length ds - 1"
  by (induction ds rule: between.induct) auto

lemma verticals_length: "dates \<noteq> [] \<Longrightarrow> length (verticals line dates) = length dates + 2"
  by (simp add: verticals_def between_length)

end
