(* ===== verification/Intake.thy ===== *)
theory Intake
  imports Schema PyRegex
begin

text \<open>
  What a document passes before it is parsed: \<open>ingest/image_input.py\<close> (image checks and the
  image adapter), \<open>security/pdf_guard.py\<close> (active-content checks and the malware daemon's
  streaming protocol) and \<open>ingest/router.py\<close> (the route of a page). The image and PDF
  libraries, the daemon and the parser behind the adapter are parameters.
\<close>

section \<open>Images\<close>

definition MAX_IMAGE_PIXELS :: nat where
  "MAX_IMAGE_PIXELS = 25000000"

text \<open>What opening an image shows: \<open>None\<close> when it fails or trips the decompression guard.\<close>

record image_info =
  im_format :: string
  im_width :: nat
  im_height :: nat
  im_frames :: nat
  im_verifies :: bool

definition image_formats :: "(string \<times> string) list" where
  "image_formats = [(''.jpg'', ''JPEG''), (''.jpeg'', ''JPEG''), (''.png'', ''PNG'')]"

definition validate_image :: "(string \<Rightarrow> image_info option) \<Rightarrow> string \<Rightarrow> string \<Rightarrow> unit res" where
  "validate_image open_image content suffix =
     (case map_of image_formats (map lower_char suffix) of
        None \<Rightarrow> Inl (ValueError ''unsupported_image_type'')
      | Some expected \<Rightarrow>
          (case open_image content of
             None \<Rightarrow> Inl (ValueError ''malformed_or_oversized_image'')
           | Some img \<Rightarrow>
               raise_if (im_format img \<noteq> expected \<or> MAX_IMAGE_PIXELS < im_width img * im_height img)
                 (ValueError ''image_format_or_pixel_limit'')
              (raise_if (im_frames img \<noteq> 1) (ValueError ''multi_frame_image_not_supported'')
              (raise_if (\<not> im_verifies img) (ValueError ''malformed_or_oversized_image'')
              (Inr ())))))"

text \<open>\<open>{**metadata, ...}\<close>\<close>

definition image_metadata :: "string \<Rightarrow> metadata \<Rightarrow> metadata" where
  "image_metadata suffix m =
     AList.update ''image_adapter_version'' (MStr ''image-ocr-v1'')
      (AList.update ''coordinate_space'' (MStr ''single_page_image_pdf_points'')
       (AList.update ''source_media_type'' (MStr (map lower_char suffix)) m))"

definition image_block :: "string \<Rightarrow> string \<Rightarrow> string \<Rightarrow> document_block \<Rightarrow> document_block" where
  "image_block document path suffix b =
     b\<lparr>blk_prov := (blk_prov b)\<lparr>pv_document := document, pv_source := path\<rparr>,
       blk_meta := image_metadata suffix (blk_meta b)\<rparr>"

definition image_page :: "string \<Rightarrow> string \<Rightarrow> string \<Rightarrow> parsed_page \<Rightarrow> parsed_page" where
  "image_page document path suffix p = p\<lparr>pg_blocks := map (image_block document path suffix) (pg_blocks p)\<rparr>"

definition parse_image ::
  "(string \<Rightarrow> image_info option) \<Rightarrow> (string \<Rightarrow> parsed_document res) \<Rightarrow> string \<Rightarrow> string \<Rightarrow> string \<Rightarrow> parsed_document res" where
  "parse_image open_image parse_pdf path suffix content =
     res_bind (validate_image open_image content suffix) (\<lambda>_.
     res_bind (parse_pdf content) (\<lambda>parsed.
     let document = stable_document_id content in
     Inr (parsed\<lparr>pd_document := document, pd_source := path,
       pd_pages := map (image_page document path suffix) (pd_pages parsed),
       pd_parser := ''image-ocr-v1+'' @ pd_parser parsed\<rparr>)))"

section \<open>The scanning boundary\<close>

record scan_receipt =
  sr_scanner :: string
  sr_version :: string
  sr_status :: string

record pdf_info =
  pi_needs_pass :: bool
  pi_embedded :: nat

definition forbidden_markers :: "string list" where
  "forbidden_markers =
     [''/JavaScript'', ''/JS'', ''/Launch'', ''/OpenAction'', ''/RichMedia'', ''/URI'', ''/GoToR'',
      ''/SubmitForm'', ''/ImportData'']"

text \<open>\<open>UnsafeDocumentError\<close> is a \<open>ValueError\<close>.\<close>

definition reject_active_content ::
  "(string \<Rightarrow> image_info option) \<Rightarrow> (string \<Rightarrow> pdf_info option) \<Rightarrow> string \<Rightarrow> string \<Rightarrow> unit res" where
  "reject_active_content open_image open_pdf suffix raw =
     (if dict_has image_formats (map lower_char suffix) then validate_image open_image raw suffix
      else (case open_pdf raw of
              None \<Rightarrow> Inl (ValueError ''malformed_pdf'')
            | Some document \<Rightarrow>
                raise_if (pi_needs_pass document) (ValueError ''encrypted_pdf'')
               (raise_if (0 < pi_embedded document) (ValueError ''embedded_file'')
               (raise_if (list_ex (\<lambda>m. contains m raw) forbidden_markers) (ValueError ''active_pdf_content'')
               (Inr ())))))"

text \<open>The blocks of a file read \<open>n\<close> bytes at a time, and the stream sent for them.\<close>

function blocks_of :: "nat \<Rightarrow> string \<Rightarrow> string list" where
  "blocks_of n s = (if n = 0 \<or> s = [] then [] else take n s # blocks_of n (drop n s))"
  by pat_completeness auto
termination by (relation "measure (\<lambda>(n, s). length s)") auto

declare blocks_of.simps [simp del]

definition be4 :: "nat \<Rightarrow> string" where   \<comment> \<open>\<open>n.to_bytes(4, "big")\<close>\<close>
  "be4 n = map (\<lambda>k. char_of (n div 256 ^ k)) [3, 2, 1, 0]"

definition block_size :: nat where
  "block_size = 1048576"

definition instream :: "nat \<Rightarrow> string \<Rightarrow> string" where
  "instream n raw =
     ''zINSTREAM'' @ [CHR 0x00] @ concat (map (\<lambda>b. be4 (length b) @ b) (blocks_of n raw)) @ be4 0"

text \<open>\<open>response[:200]\<close>: whole code points.\<close>

fun py_take :: "nat \<Rightarrow> string \<Rightarrow> string" where
  "py_take n [] = []"
| "py_take n (c # s) =
     (if is_cont c then c # py_take n s else if n = 0 then [] else c # py_take (n - 1) s)"

text \<open>
  The daemon answers the bytes sent on a fresh connection with the decoded reply, or
  \<open>None\<close> for a connection error.
\<close>

type_synonym daemon = "string \<Rightarrow> string option"

definition scanner_version :: "daemon \<Rightarrow> string res" where
  "scanner_version clam =
     (case clam (''zVERSION'' @ [CHR 0x00]) of
        None \<Rightarrow> Inl (ValueError ''malware_scanner_unavailable'')
      | Some reply \<Rightarrow>
          (let response = strip_chars [CHR 0x00, CHR 0x0D, CHR 0x0A, CHR 0x20] reply in
           raise_if (response = []) (ValueError ''malware_scanner_version_unavailable'')
             (Inr (py_take 200 response))))"

definition scan ::
  "(string \<Rightarrow> image_info option) \<Rightarrow> (string \<Rightarrow> pdf_info option) \<Rightarrow> daemon \<Rightarrow> string \<Rightarrow> string \<Rightarrow> scan_receipt res" where
  "scan open_image open_pdf clam suffix raw =
     res_bind (reject_active_content open_image open_pdf suffix raw) (\<lambda>_.
     res_bind (scanner_version clam) (\<lambda>version.
     case clam (instream block_size raw) of
       None \<Rightarrow> Inl (ValueError ''malware_scanner_unavailable'')
     | Some response \<Rightarrow>
         raise_if (contains ''FOUND'' response) (ValueError ''malware_detected'')
        (raise_if (\<not> contains ''OK'' response) (ValueError ''malware_scan_inconclusive'')
        (Inr \<lparr>sr_scanner = ''clamav'', sr_version = version, sr_status = ''clean''\<rparr>))))"

section \<open>Page routes\<close>

record router_config =
  rc_min_digital :: int
  rc_strong_digital :: int
  rc_scanned :: rat
  rc_hybrid :: rat

definition mk_router_config :: "router_config \<Rightarrow> router_config res" where
  "mk_router_config c =
     raise_if (rc_min_digital c < 0) (ValueError ''min_digital_characters must be non-negative'')
    (raise_if (rc_strong_digital c < rc_min_digital c)
      (ValueError ''strong_digital_characters must be >= min_digital_characters'')
    (raise_if (\<not> (0 \<le> rc_scanned c \<and> rc_scanned c \<le> 1)) (ValueError ''scanned_image_coverage must be between 0 and 1'')
    (raise_if (\<not> (0 \<le> rc_hybrid c \<and> rc_hybrid c \<le> 1)) (ValueError ''hybrid_image_coverage must be between 0 and 1'')
    (Inr c))))"

definition default_router :: router_config where
  "default_router = \<lparr>rc_min_digital = 40, rc_strong_digital = 400, rc_scanned = 70 / 100, rc_hybrid = 20 / 100\<rparr>"

definition classify_page :: "router_config \<Rightarrow> int \<Rightarrow> rat \<Rightarrow> page_route" where
  "classify_page c characters coverage =
     (let has_text = rc_min_digital c \<le> characters in
      if rc_strong_digital c \<le> characters then Digital
      else if \<not> has_text \<and> rc_scanned c \<le> coverage then Scanned
      else if has_text \<and> rc_hybrid c \<le> coverage then Hybrid
      else Digital)"

text \<open>The rectangle operations of the PDF library.\<close>

record geometry =
  ge_meet :: "bbox \<Rightarrow> bbox \<Rightarrow> bbox"
  ge_empty :: "bbox \<Rightarrow> bool"
  ge_area :: "bbox \<Rightarrow> rat"

definition image_coverage :: "geometry \<Rightarrow> bbox \<Rightarrow> bbox list \<Rightarrow> rat" where
  "image_coverage G page images =
     (if ge_area G page \<le> 0 then 0
      else min 1 (sum_list (map (ge_area G)
             (filter (\<lambda>r. \<not> ge_empty G r) (map (\<lambda>r. ge_meet G r page) images))) / ge_area G page))"

record routing_decision =
  rd_page :: nat
  rd_route :: page_route
  rd_characters :: nat
  rd_coverage :: rat

text \<open>A page is its text, its rectangle and the rectangles of its images.\<close>

definition route_page :: "geometry \<Rightarrow> router_config \<Rightarrow> nat \<times> string \<times> bbox \<times> bbox list \<Rightarrow> routing_decision" where
  "route_page G c = (\<lambda>(index, page_text, rect, images).
     let n = py_len (strip page_text); coverage = image_coverage G rect images in
     \<lparr>rd_page = index + 1, rd_route = classify_page c (int n) coverage, rd_characters = n, rd_coverage = coverage\<rparr>)"

text \<open>
  \<open>open_pages\<close> is the library: \<open>None\<close> for a document that is not a PDF. The result is a tuple
  with one decision per page.
\<close>

definition route_document ::
  "geometry \<Rightarrow> router_config \<Rightarrow> bool \<Rightarrow> (string \<times> bbox \<times> bbox list) list option \<Rightarrow> routing_decision list res" where
  "route_document G c is_file pages =
     raise_if (\<not> is_file) (OSError ''FileNotFoundError'')
       (case pages of None \<Rightarrow> Inl (ValueError ''not a PDF'')
        | Some ps \<Rightarrow> Inr (map (route_page G c) (zip [0..<length ps] ps)))"

section \<open>Image lemmas\<close>

lemma validate_image_Inr:
  assumes "validate_image open_image content suffix = Inr u"
  obtains img where "open_image content = Some img" "im_width img * im_height img \<le> MAX_IMAGE_PIXELS"
    "im_frames img = 1" "im_verifies img" "map_of image_formats (map lower_char suffix) = Some (im_format img)"
  using assms by (auto simp: validate_image_def res_simps split: option.splits)

text \<open>Every block of an adapted image names the image's own bytes and path.\<close>

lemma parse_image_source:
  assumes "parse_image open_image parse_pdf path suffix content = Inr d"
  shows "pd_document d = stable_document_id content
    \<and> list_all (\<lambda>b. pv_document (blk_prov b) = stable_document_id content \<and> pv_source (blk_prov b) = path
        \<and> map_of (blk_meta b) ''source_media_type'' = Some (MStr (map lower_char suffix))) (doc_blocks d)"
  using assms
  by (auto simp: parse_image_def res_simps Let_def doc_blocks_def image_page_def image_block_def
      image_metadata_def dict_simps list_all_iff)

section \<open>Scanner lemmas\<close>

lemma reject_active_Inr:
  assumes "reject_active_content open_image open_pdf suffix raw = Inr u" "\<not> dict_has image_formats (map lower_char suffix)"
  obtains document where "open_pdf raw = Some document" "\<not> pi_needs_pass document" "pi_embedded document = 0"
    "\<forall>m \<in> set forbidden_markers. \<not> contains m raw"
  using assms by (auto simp: reject_active_content_def res_simps list_ex_iff split: option.splits)

lemma scan_Inr:
  assumes "scan open_image open_pdf clam suffix raw = Inr receipt"
  shows "reject_active_content open_image open_pdf suffix raw = Inr ()
    \<and> (\<exists>reply. clam (instream block_size raw) = Some reply \<and> \<not> contains ''FOUND'' reply \<and> contains ''OK'' reply)"
  using assms by (auto simp: scan_def res_simps split: option.splits)

text \<open>A connection error, at either request, refuses the document.\<close>

lemma scan_fails_closed:
  assumes "clam (instream block_size raw) = None \<or> clam (''zVERSION'' @ [CHR 0x00]) = None"
  shows "\<exists>e. scan open_image open_pdf clam suffix raw = Inl (ValueError e)"
proof (cases "reject_active_content open_image open_pdf suffix raw")
  case (Inl e)
  then have "\<exists>m. e = ValueError m"
    by (auto simp: reject_active_content_def validate_image_def res_simps split: if_splits option.splits)
  with Inl show ?thesis by (auto simp: scan_def)
next
  case (Inr u)
  with assms show ?thesis
    by (auto simp: scan_def scanner_version_def Let_def res_bind_def raise_if_def split: option.splits sum.splits if_splits)
qed

text \<open>The receiver of a stream can cut it back into its blocks: the framing loses nothing.\<close>

definition be_nat :: "string \<Rightarrow> nat" where
  "be_nat s = foldl (\<lambda>n c. 256 * n + code c) 0 s"

function unframe :: "string \<Rightarrow> string option" where
  "unframe s =
     (let n = be_nat (take 4 s); rest = drop 4 s in
      if length s < 4 then None
      else if n = 0 then (if rest = [] then Some [] else None)
      else if length rest < n then None
      else map_option (\<lambda>t. take n rest @ t) (unframe (drop n rest)))"
  by pat_completeness auto
termination by (relation "measure length") auto

declare unframe.simps [simp del]

lemma be4_length [simp]: "length (be4 n) = 4"
  by (simp add: be4_def)

lemma be_nat_be4: "n < 2 ^ 32 \<Longrightarrow> be_nat (be4 n) = n"
proof -
  assume n: "n < 2 ^ 32"
  define a where "a = n div 256"
  define b where "b = a div 256"
  define c where "c = b div 256"
  have d: "n div 256 ^ 2 = b" "n div 256 ^ 3 = c"
    by (simp_all add: a_def b_def c_def div_mult2_eq[symmetric] power2_eq_square power3_eq_cube)
  have "c < 256" using n unfolding c_def b_def a_def by (simp add: div_mult2_eq[symmetric] less_mult_imp_div_less)
  moreover have "n = 256 * a + n mod 256" "a = 256 * b + a mod 256" "b = 256 * c + b mod 256"
    by (simp_all add: a_def b_def c_def)
  moreover have "be_nat (be4 n) = 256 * (256 * (256 * (c mod 256) + b mod 256) + a mod 256) + n mod 256"
    using d by (simp add: be_nat_def be4_def code_def a_def)
  ultimately show ?thesis by (metis mod_less)
qed

lemma concat_blocks: "n \<noteq> 0 \<Longrightarrow> concat (blocks_of n s) = s"
proof (induction n s rule: blocks_of.induct)
  case (1 n s)
  show ?case
  proof (cases "s = []")
    case True
    then show ?thesis by (simp add: blocks_of.simps[of n "[]"])
  next
    case False
    with 1 show ?thesis by (simp add: blocks_of.simps[of n s])
  qed
qed

lemma blocks_bounds: "b \<in> set (blocks_of n s) \<Longrightarrow> b \<noteq> [] \<and> length b \<le> n"
proof (induction n s rule: blocks_of.induct)
  case (1 n s)
  from "1.prems" have ne: "n \<noteq> 0" "s \<noteq> []" by (auto simp: blocks_of.simps[of n s] split: if_splits)
  with "1.prems" have "b = take n s \<or> b \<in> set (blocks_of n (drop n s))" by (auto simp: blocks_of.simps[of n s])
  with ne "1.IH" show ?case by auto
qed

lemma unframe_frames:
  "\<forall>b \<in> set bs. b \<noteq> [] \<and> length b < 2 ^ 32 \<Longrightarrow>
     unframe (concat (map (\<lambda>b. be4 (length b) @ b) bs) @ be4 0) = Some (concat bs)"
proof (induction bs)
  case Nil
  then show ?case by (simp add: unframe.simps[of "be4 0"] be_nat_be4)
next
  case (Cons b bs)
  let ?rest = "concat (map (\<lambda>b. be4 (length b) @ b) bs) @ be4 0"
  have "be_nat (be4 (length b)) = length b" using Cons.prems by (simp add: be_nat_be4)
  with Cons show ?case by (simp add: unframe.simps[of "be4 (length b) @ b @ ?rest"])
qed

lemma unframe_instream:
  assumes "0 < n" "n < 2 ^ 32"
  shows "unframe (drop 10 (instream n raw)) = Some raw"
proof -
  have "\<forall>b \<in> set (blocks_of n raw). b \<noteq> [] \<and> length b < 2 ^ 32"
    using blocks_bounds[of _ n raw] assms(2) by fastforce
  from unframe_frames[OF this] assms(1) show ?thesis by (simp add: instream_def concat_blocks)
qed

section \<open>Router lemmas\<close>

text \<open>With an accepted configuration the three routes are told apart by text and coverage alone.\<close>

lemma classify_page_iff:
  assumes "mk_router_config c = Inr c'"
  shows "classify_page c n v = Scanned \<longleftrightarrow> n < rc_min_digital c \<and> rc_scanned c \<le> v"
    and "classify_page c n v = Hybrid \<longleftrightarrow> rc_min_digital c \<le> n \<and> n < rc_strong_digital c \<and> rc_hybrid c \<le> v"
  using assms by (auto simp: classify_page_def mk_router_config_def res_simps Let_def)

lemma image_coverage_bounds:
  assumes "\<forall>r. 0 \<le> ge_area G r"
  shows "0 \<le> image_coverage G page images \<and> image_coverage G page images \<le> 1"
proof -
  have "0 \<le> sum_list (map (ge_area G) rs)" for rs using assms by (induction rs) auto
  then show ?thesis using assms by (auto simp: image_coverage_def)
qed

lemma route_document_pages:
  assumes "route_document G c f (Some ps) = Inr ds"
  shows "map rd_page ds = [1..<length ps + 1]"
proof -
  have "ds = map (route_page G c) (zip [0..<length ps] ps)"
    using assms by (simp add: route_document_def res_simps)
  moreover have "rd_page (route_page G c (i, p)) = Suc i" for i p
    by (simp add: route_page_def split_beta Let_def)
  ultimately show ?thesis by (intro nth_equalityI) (simp_all del: upt_Suc)
qed

end
