(* ===== verification/Parsing.thy ===== *)
theory Parsing
  imports Layout Intake Json
begin

text \<open>
  \<open>ingest/vlm_fallback.py\<close> and \<open>ingest/docling_parser.py\<close>: a page becomes layout blocks with their place,
  from the PDF library's view of a digital page, from the vision model's reading of a rendered page,
  or from the items of the Docling converter. What the libraries report is data; the converter, the
  vision server and the clock act on a world of their own.
\<close>

section \<open>Reading order\<close>

text \<open>The sort by \<open>(y0, x0, order)\<close> and the renumbering at the end of both page readers.\<close>

definition reading_sort :: "document_block list \<Rightarrow> document_block list" where
  "reading_sort bs =
     sort_by2 (\<lambda>b. by0 (pv_bbox (blk_prov b))) (\<lambda>b. bx0 (pv_bbox (blk_prov b))) (sort_key blk_order bs)"

definition renumber :: "document_block list \<Rightarrow> document_block list" where
  "renumber bs = map (\<lambda>(i, b). b\<lparr>blk_order := i\<rparr>) (enumerate 0 bs)"

definition mk_provenance :: "string \<Rightarrow> string \<Rightarrow> int \<Rightarrow> bbox \<Rightarrow> rat \<Rightarrow> rat \<Rightarrow> provenance res" where
  "mk_provenance document source page box width height =
     (let p = \<lparr>pv_document = document, pv_source = source, pv_page = page, pv_bbox = box, pv_width = width,
               pv_height = height\<rparr> in
      raise_if (\<not> provenance_ok p) (ValidationError ''Provenance'') (Inr p))"

section \<open>Vision\<close>

record vision_config =
  vc_enabled :: bool
  vc_backend :: string
  vc_url :: "string \<times> string option"     \<comment> \<open>scheme and host name of the URL\<close>
  vc_model :: string
  vc_revision :: string
  vc_max_tokens :: int
  vc_timeout :: int
  vc_dpi :: int

definition local_hosts :: "string list" where
  "local_hosts = [''localhost'', ''127.0.0.1'', ''::1'', ''vllm'']"

definition local_endpoint :: "string \<times> string option \<Rightarrow> bool" where
  "local_endpoint url = (fst url = ''http'' \<and> (case snd url of None \<Rightarrow> False | Some h \<Rightarrow> h \<in> set local_hosts))"

definition mk_vision_config :: "vision_config \<Rightarrow> vision_config res" where
  "mk_vision_config c =
     raise_if (vc_backend c \<notin> {''vllm'', ''ollama''} \<or> vc_model c = [] \<or> vc_revision c = [] \<or> vc_max_tokens c \<le> 0
         \<or> vc_timeout c \<le> 0 \<or> vc_dpi c < 72 \<or> 300 < vc_dpi c) (ValidationError ''VisionConfig'')
    (raise_if (\<not> local_endpoint (vc_url c)) (ValidationError ''vision base_url must be a local HTTP endpoint'') (Inr c))"

record vision_block =
  vb_type :: block_type
  vb_text :: string
  vb_box :: bbox

text \<open>\<open>NormalizedBox\<close> and \<open>VisionBlock\<close>: coordinates from 0 to 1000.\<close>

definition vision_block_ok :: "vision_block \<Rightarrow> bool" where
  "vision_block_ok b =
     (vb_text b \<noteq> [] \<and> list_all (\<lambda>v. 0 \<le> v \<and> v \<le> 1000) [bx0 (vb_box b), by0 (vb_box b), bx1 (vb_box b), by1 (vb_box b)]
      \<and> ordered_coordinates (vb_box b))"

definition fence :: string where
  "fence = ''```''"

definition response_content :: "json \<Rightarrow> string res" where
  "response_content payload =
     res_bind (message_text ''local Gemma vision response did not contain message content''
         ''local Gemma vision returned empty message content'' payload) (\<lambda>content.
     let stripped = strip content in
     Inr (if starts_with (fence @ ''json'') stripped \<and> ends_with fence stripped
          then strip (take (length stripped - 3 - 7) (drop 7 stripped)) else stripped))"

text \<open>
  \<open>VisionPageResponse.model_validate_json\<close>: \<open>decode\<close> reads the blocks of the JSON text, \<open>None\<close> when they do not
  have the fields and types of the model.
\<close>

definition page_response :: "(string \<Rightarrow> vision_block list option) \<Rightarrow> string \<Rightarrow> vision_block list res" where
  "page_response decode content =
     (case decode content of
        None \<Rightarrow> Inl (ValidationError ''VisionPageResponse'')
      | Some bs \<Rightarrow> raise_if (list_ex (\<lambda>b. \<not> vision_block_ok b) bs) (ValidationError ''VisionPageResponse'') (Inr bs))"

definition pdf_box :: "bbox \<Rightarrow> rat \<Rightarrow> rat \<Rightarrow> bbox res" where
  "pdf_box b width height =
     mk_bbox (bx0 b * width / 1000) (by0 b * height / 1000) (bx1 b * width / 1000) (by1 b * height / 1000)"

definition page_name :: "nat \<Rightarrow> string" where
  "page_name page = ''p'' @ str_of_nat page"

definition vision_document_block ::
  "string \<Rightarrow> string \<Rightarrow> nat \<Rightarrow> rat \<Rightarrow> rat \<Rightarrow> nat \<times> vision_block \<Rightarrow> document_block res" where
  "vision_document_block document source page width height = (\<lambda>(index, b).
     res_bind (pdf_box (vb_box b) width height) (\<lambda>box.
     res_bind (mk_provenance document source (int page) box width height) (\<lambda>p.
     Inr \<lparr>blk_type = vb_type b, blk_text = strip (vb_text b), blk_prov = p, blk_order = index,
          blk_table_id = (if vb_type b = Table then Some (page_name page @ ''-vision-t'' @ str_of_nat (index + 1)) else None),
          blk_meta = [(''extractor'', MStr ''gemma3-vision'')]\<rparr>)))"

definition vision_blocks ::
  "string \<Rightarrow> string \<Rightarrow> nat \<Rightarrow> rat \<Rightarrow> rat \<Rightarrow> vision_block list \<Rightarrow> document_block list res" where
  "vision_blocks document source page width height bs =
     res_bind (res_map (vision_document_block document source page width height) (enumerate 0 bs)) (\<lambda>blocks.
     Inr (renumber (reading_sort blocks)))"

section \<open>A digital page\<close>

text \<open>
  \<open>dv_blocks\<close> is \<open>get_text("blocks", sort=True)\<close>; \<open>dv_finder\<close> is the error of \<open>find_tables\<close>, if it fails.
\<close>

record digital_view =
  dv_page :: page_view
  dv_finder :: "unit res"
  dv_blocks :: "(bbox \<times> string) list"
  dv_width :: rat
  dv_height :: rat

definition table_cells :: "ptable \<Rightarrow> string list list" where
  "table_cells t =
     (let rows = map (map clean_cell) (pt_extract t); width = Max (set (map length rows)) in
      map (\<lambda>r. r @ replicate (width - length r) []) rows)"

definition table_markdown :: "ptable \<Rightarrow> string" where
  "table_markdown t =
     (let rows = table_cells t in markdown_table (hd rows) (List.tl rows) (length (hd rows)))"

definition table_failed :: exc where
  "table_failed = RuntimeError ''PyMuPDF table extraction failed''"

text \<open>\<open>meets\<close> is \<open>Rect.intersects\<close>.\<close>

definition table_rectangles :: "(bbox \<Rightarrow> bbox \<Rightarrow> bool) \<Rightarrow> digital_view \<Rightarrow> (bbox \<times> string) list res" where
  "table_rectangles meets v =
     (case dv_finder v of
        Inl (AttributeError _) \<Rightarrow> Inl table_failed
      | Inl (RuntimeError _) \<Rightarrow> Inl table_failed
      | Inl e \<Rightarrow> Inl e
      | Inr _ \<Rightarrow>
          let results = map (\<lambda>t. (pt_box t, table_markdown t)) (filter (\<lambda>t. pt_extract t \<noteq> []) (vw_tables (dv_page v)));
              recovered = dated_tables (dv_page v) @ activity_tables (dv_page v)
          in Inr (filter (\<lambda>r. \<not> list_ex (\<lambda>q. meets (fst r) (fst q)) recovered) results @ recovered))"

text \<open>\<open>str.isupper\<close> and \<open>str.istitle\<close>.\<close>

definition is_upper_text :: "string \<Rightarrow> bool" where
  "is_upper_text s = (list_ex is_upper s \<and> \<not> list_ex is_lower s)"

fun title_cased :: "bool \<Rightarrow> string \<Rightarrow> bool" where
  "title_cased cased [] = True"
| "title_cased cased (c # s) =
     (if is_upper c then \<not> cased \<and> title_cased True s
      else if is_lower c then cased \<and> title_cased True s
      else title_cased False s)"

definition is_title_text :: "string \<Rightarrow> bool" where
  "is_title_text s = (list_ex is_alpha s \<and> title_cased False s)"

definition rstrip_chars :: "string \<Rightarrow> string \<Rightarrow> string" where
  "rstrip_chars cs s = rev (dropWhile (\<lambda>c. c \<in> set cs) (rev s))"

definition infer_text_type :: "string \<Rightarrow> block_type" where
  "infer_text_type t =
     (let first = strip (hd (splitlines t)); lower = map lower_char first in
      if (starts_with ''table '' lower \<or> starts_with ''figure '' lower) \<and> py_len t < 240 then Caption
      else if py_len first < 100 \<and> (is_upper_text first \<or> is_title_text (rstrip_chars '':'' first)) then Heading
      else Paragraph)"

definition page_provenance :: "string \<Rightarrow> string \<Rightarrow> nat \<Rightarrow> digital_view \<Rightarrow> bbox \<Rightarrow> provenance res" where
  "page_provenance document source page v b =
     res_bind (mk_bbox (bx0 b) (by0 b) (bx1 b) (by1 b)) (\<lambda>box.
     mk_provenance document source (int page) box (dv_width v) (dv_height v))"

definition table_block ::
  "string \<Rightarrow> string \<Rightarrow> nat \<Rightarrow> digital_view \<Rightarrow> nat \<times> bbox \<times> string \<Rightarrow> document_block res" where
  "table_block document source page v = (\<lambda>(index, box, markdown).
     res_bind (page_provenance document source page v box) (\<lambda>p.
     Inr \<lparr>blk_type = Table, blk_text = markdown, blk_prov = p, blk_order = index,
          blk_table_id = Some (page_name page @ ''-t'' @ str_of_nat (index + 1)), blk_meta = []\<rparr>))"

definition text_block ::
  "string \<Rightarrow> string \<Rightarrow> nat \<Rightarrow> digital_view \<Rightarrow> nat \<times> bbox \<times> string \<Rightarrow> document_block res" where
  "text_block document source page v = (\<lambda>(index, box, t).
     res_bind (page_provenance document source page v box) (\<lambda>p.
     Inr \<lparr>blk_type = infer_text_type t, blk_text = t, blk_prov = p, blk_order = index, blk_table_id = None,
          blk_meta = []\<rparr>))"

text \<open>The text of a block that touches no table.\<close>

definition free_texts :: "(bbox \<Rightarrow> bbox \<Rightarrow> bool) \<Rightarrow> (bbox \<times> string) list \<Rightarrow> digital_view \<Rightarrow> (bbox \<times> string) list" where
  "free_texts meets tables v =
     filter (\<lambda>(box, t). t \<noteq> [] \<and> \<not> list_ex (\<lambda>q. meets box (fst q)) tables)
       (map (\<lambda>(box, t). (box, strip t)) (dv_blocks v))"

definition parse_digital_page ::
  "(bbox \<Rightarrow> bbox \<Rightarrow> bool) \<Rightarrow> string \<Rightarrow> string \<Rightarrow> nat \<Rightarrow> digital_view \<Rightarrow> document_block list res" where
  "parse_digital_page meets document source page v =
     res_bind (table_rectangles meets v) (\<lambda>tables.
     res_bind (res_map (table_block document source page v) (enumerate 0 tables)) (\<lambda>table_blocks.
     res_bind (res_map (text_block document source page v) (enumerate (length tables) (free_texts meets tables v)))
       (\<lambda>texts.
     Inr (renumber (reading_sort (table_blocks @ texts))))))"

section \<open>The open document\<close>

text \<open>
  A page as the router reads it and as the parser reads it; \<open>document[n - 1]\<close> is the page of number \<open>n\<close>, and
  the last one for 0.
\<close>

record pdf_page =
  pq_text :: string
  pq_rect :: bbox
  pq_images :: "bbox list"
  pq_view :: digital_view

record pdf_file =
  pf_is_pdf :: bool
  pf_pages :: "pdf_page list"

definition page_at :: "pdf_file \<Rightarrow> nat \<Rightarrow> pdf_page" where
  "page_at F page = (if page = 0 then last (pf_pages F) else pf_pages F ! (page - 1))"

section \<open>A rendered page\<close>

text \<open>
  The vision model reads one rendered page: \<open>vn_request\<close> sends the picture of a page of a file to the local
  server, \<open>vn_decode\<close> is the JSON reader of \<open>page_response\<close>.
\<close>

record 'w vision =
  vn_request :: "vision_config \<Rightarrow> string \<Rightarrow> nat \<Rightarrow> ('w, json) act"
  vn_decode :: "string \<Rightarrow> vision_block list option"

definition vision_disabled :: exc where
  "vision_disabled = RuntimeError ''Gemma 3 vision extraction is disabled''"

definition extract_page ::
  "vision_config \<Rightarrow> 'w vision \<Rightarrow> pdf_file \<Rightarrow> string \<Rightarrow> string \<Rightarrow> nat \<Rightarrow> ('w, document_block list) act" where
  "extract_page c V F document source page =
     act_bind (act_lift (raise_if (\<not> vc_enabled c) vision_disabled
        (raise_if (length (pf_pages F) < page) (ValueError ''page does not exist'') (Inr ())))) (\<lambda>_.
     act_bind (vn_request V c source page) (\<lambda>payload.
     act_lift (res_bind (response_content payload) (\<lambda>content.
       res_bind (page_response (vn_decode V) content) (\<lambda>bs.
       let v = pq_view (page_at F page) in
       vision_blocks document source page (dv_width v) (dv_height v) bs)))))"

definition unconfigured_page :: "nat \<Rightarrow> ('w, document_block list) act" where
  "unconfigured_page page = act_lift (Inl (RuntimeError ''page requires Gemma 3 vision extraction''))"

section \<open>The Docling converter\<close>

text \<open>
  An item with its label, text, Markdown export and the first of its places; a place is a page number and a
  rectangle with the name of its coordinate origin.
\<close>

record docling_box =
  db_left :: rat
  db_top :: rat
  db_right :: rat
  db_bottom :: rat
  db_origin :: string

record docling_item =
  di_label :: string
  di_text :: string
  di_markdown :: "string option"
  di_place :: "(int \<times> docling_box) option"

record converted =
  cv_items :: "docling_item list"
  cv_sizes :: "(int, rat \<times> rat) dict"                          \<comment> \<open>width and height of the converter's pages\<close>
  cv_cells :: "(int, (bool \<times> string \<times> docling_box) list) dict"   \<comment> \<open>text lines with \<open>from_ocr\<close>\<close>

definition docling_block_type :: "string \<Rightarrow> block_type" where
  "docling_block_type label =
     (if contains ''table'' label then Table
      else if contains ''caption'' label then Caption
      else if contains ''title'' label \<or> contains ''heading'' label \<or> contains ''section'' label then Heading
      else if contains ''picture'' label \<or> contains ''image'' label then Image
      else Paragraph)"

definition docling_bbox :: "docling_box \<Rightarrow> rat \<Rightarrow> bbox" where
  "docling_bbox b height =
     (let (y0, y1) = (if contains ''bottomleft'' (map lower_char (db_origin b))
                      then (height - db_top b, height - db_bottom b) else (db_top b, db_bottom b))
      in \<lparr>bx0 = min (db_left b) (db_right b), by0 = min y0 y1, bx1 = max (db_left b) (db_right b), by1 = max y0 y1\<rparr>)"

definition item_text :: "docling_item \<Rightarrow> string" where
  "item_text i =
     (let t = strip (di_text i) in
      if t = [] \<and> contains ''table'' (map lower_char (di_label i))
      then (case di_markdown i of None \<Rightarrow> t | Some m \<Rightarrow> strip m) else t)"

definition ocr_lines_of :: "converted \<Rightarrow> int \<Rightarrow> rat \<Rightarrow> ocr_line list" where
  "ocr_lines_of cv page height =
     map (\<lambda>(o', t, b). \<lparr>ol_text = t, ol_box = docling_bbox b height\<rparr>)
       (filter fst (dict_get_default (cv_cells cv) page []))"

definition docling_block ::
  "string \<Rightarrow> string \<Rightarrow> converted \<Rightarrow> nat \<Rightarrow> docling_item \<Rightarrow> (int \<times> document_block) option res" where
  "docling_block document source cv order i =
     (case di_place i of
        None \<Rightarrow> Inr None
      | Some (page, b) \<Rightarrow>
          if item_text i = [] then Inr None
          else case map_of (cv_sizes cv) page of
            None \<Rightarrow> Inl (KeyError ''page'')
          | Some (width, height) \<Rightarrow>
              let kind = docling_block_type (map lower_char (di_label i)); box = docling_bbox b height;
                  t = (if kind = Table then item_text i else restore_lines (item_text i) box (ocr_lines_of cv page height))
              in res_bind (mk_provenance document source page box width height) (\<lambda>p.
                 Inr (Some (page, \<lparr>blk_type = kind, blk_text = t, blk_prov = p, blk_order = order, blk_table_id = None,
                       blk_meta = []\<rparr>))))"

fun docling_blocks ::
  "string \<Rightarrow> string \<Rightarrow> converted \<Rightarrow> (int, document_block list) dict \<Rightarrow> (nat \<times> docling_item) list
   \<Rightarrow> (int, document_block list) dict res" where
  "docling_blocks document source cv by_page [] = Inr by_page"
| "docling_blocks document source cv by_page ((order, i) # items) =
     res_bind (docling_block document source cv order i) (\<lambda>b.
     case b of
       None \<Rightarrow> docling_blocks document source cv by_page items
     | Some (page, block) \<Rightarrow>
         (case map_of by_page page of
            None \<Rightarrow> Inl (KeyError ''page'')
          | Some bs \<Rightarrow> docling_blocks document source cv (AList.update page (bs @ [block]) by_page) items))"

definition docling_page :: "(int, document_block list) dict \<Rightarrow> routing_decision \<Rightarrow> parsed_page" where
  "docling_page by_page d =
     \<lparr>pg_number = int (rd_page d), pg_route = rd_route d, pg_blocks = dict_get_default by_page (int (rd_page d)) []\<rparr>"

definition docling_document ::
  "string \<Rightarrow> string \<Rightarrow> routing_decision list \<Rightarrow> converted \<Rightarrow> parsed_document option res" where
  "docling_document document source decisions cv =
     res_bind (docling_blocks document source cv (map (\<lambda>d. (int (rd_page d), [])) decisions) (enumerate 0 (cv_items cv)))
      (\<lambda>by_page.
      Inr (if list_all (\<lambda>(page, bs). bs = []) by_page then None
           else Some \<lparr>pd_document = document, pd_source = source, pd_pages = map (docling_page by_page) decisions,
                  pd_parser = ''docling''\<rparr>))"

text \<open>\<open>except (AttributeError, KeyError, TypeError, ValueError): return None\<close>\<close>

definition unsupported :: "exc \<Rightarrow> bool" where
  "unsupported e =
     (is_value_error e \<or> (case e of AttributeError _ \<Rightarrow> True | KeyError _ \<Rightarrow> True | TypeError _ \<Rightarrow> True | _ \<Rightarrow> False))"

text \<open>An explicit CUDA device must have CUDA: \<open>None\<close> when torch is not installed.\<close>

definition rapidocr_parameters :: "bool option \<Rightarrow> string \<Rightarrow> (string \<times> json) list res" where
  "rapidocr_parameters cuda device =
     (if device \<noteq> ''cuda'' then Inr []
      else if cuda \<noteq> Some True then Inl (RuntimeError ''ocr_cuda_unavailable'')
      else Inr [(''EngineConfig.torch.use_cuda'', JBool True), (''EngineConfig.torch.cuda_ep_cfg.device_id'', JNum 0)])"

section \<open>The parser\<close>

text \<open>
  \<open>ParserConfig\<close> and what the parser works with. \<open>ps_open\<close> is the PDF library, \<open>ps_clock\<close> is \<open>monotonic\<close>,
  \<open>ps_vision\<close> is \<open>None\<close> for the unconfigured extractor, \<open>ps_docling\<close> is \<open>None\<close> when Docling is not installed.
\<close>

record 'w parser =
  ps_prefer_docling :: bool
  ps_fail_on_vision :: bool
  ps_device :: string
  ps_cuda :: "bool option"
  ps_router :: router_config
  ps_geometry :: geometry
  ps_intersects :: "bbox \<Rightarrow> bbox \<Rightarrow> bool"
  ps_vision :: "(vision_config \<times> 'w vision) option"
  ps_clock :: "('w, rat) act"
  ps_open :: "string \<Rightarrow> string \<Rightarrow> pdf_file res"
  ps_docling :: "((string \<times> json) list \<Rightarrow> string \<Rightarrow> rat option \<Rightarrow> ('w, converted) act) option"

definition check_deadline :: "'w parser \<Rightarrow> rat option \<Rightarrow> ('w, unit) act" where
  "check_deadline P deadline =
     (case deadline of
        None \<Rightarrow> act_return ()
      | Some d \<Rightarrow> act_bind (ps_clock P) (\<lambda>now. act_lift (raise_if (d \<le> now) TimeoutError (Inr ()))))"

definition read_page :: "'w parser \<Rightarrow> pdf_file \<Rightarrow> string \<Rightarrow> string \<Rightarrow> nat \<Rightarrow> ('w, document_block list) act" where
  "read_page P F document source page =
     (case ps_vision P of
        None \<Rightarrow> unconfigured_page page
      | Some (c, V) \<Rightarrow> extract_page c V F document source page)"

text \<open>\<open>except RuntimeError\<close> in \<open>_vision_blocks\<close>\<close>

definition parser_vision_blocks ::
  "'w parser \<Rightarrow> pdf_file \<Rightarrow> string \<Rightarrow> string \<Rightarrow> nat \<Rightarrow> ('w, document_block list) act" where
  "parser_vision_blocks P F document source page =
     act_catch (read_page P F document source page)
       (\<lambda>e. case e of
          RuntimeError _ \<Rightarrow> if ps_fail_on_vision P then act_lift (Inl e) else act_return []
        | _ \<Rightarrow> act_lift (Inl e))"

definition try_docling ::
  "'w parser \<Rightarrow> string \<Rightarrow> string \<Rightarrow> routing_decision list \<Rightarrow> rat option \<Rightarrow> ('w, parsed_document option) act" where
  "try_docling P document source decisions timeout =
     (case ps_docling P of
        None \<Rightarrow> act_return None
      | Some convert \<Rightarrow>
          act_catch
            (act_bind (act_lift (rapidocr_parameters (ps_cuda P) (ps_device P))) (\<lambda>parameters.
             act_bind (convert parameters source timeout) (\<lambda>cv.
             act_lift (docling_document document source decisions cv))))
            (\<lambda>e. if unsupported e then act_return None else act_lift (Inl e)))"

definition parse_page ::
  "'w parser \<Rightarrow> pdf_file \<Rightarrow> rat option \<Rightarrow> string \<Rightarrow> string \<Rightarrow> routing_decision \<times> pdf_page \<Rightarrow> ('w, parsed_page) act" where
  "parse_page P F deadline document source = (\<lambda>(d, p).
     act_bind (check_deadline P deadline) (\<lambda>_.
     act_bind
       (if rd_route d = Digital
        then (case parse_digital_page (ps_intersects P) document source (rd_page d) (pq_view p) of
                Inl e \<Rightarrow> if e = table_failed then parser_vision_blocks P F document source (rd_page d) else act_lift (Inl e)
              | Inr bs \<Rightarrow> act_return bs)
        else parser_vision_blocks P F document source (rd_page d)) (\<lambda>bs.
     act_return \<lparr>pg_number = int (rd_page d), pg_route = rd_route d, pg_blocks = bs\<rparr>)))"

definition page_route_view :: "pdf_page \<Rightarrow> string \<times> bbox \<times> bbox list" where
  "page_route_view p = (pq_text p, pq_rect p, pq_images p)"

definition route_file :: "'w parser \<Rightarrow> pdf_file \<Rightarrow> routing_decision list res" where
  "route_file P F =
     route_document (ps_geometry P) (ps_router P) True
       (if pf_is_pdf F then Some (map page_route_view (pf_pages F)) else None)"

text \<open>The pages one by one; the router has given every page a decision.\<close>

definition parse_pages ::
  "'w parser \<Rightarrow> pdf_file \<Rightarrow> rat option \<Rightarrow> string \<Rightarrow> string \<Rightarrow> routing_decision list \<Rightarrow> ('w, parsed_document) act" where
  "parse_pages P F deadline document source decisions =
     act_bind (act_map (parse_page P F deadline document source) (zip decisions (pf_pages F))) (\<lambda>pages.
     act_lift (raise_if (length decisions \<noteq> length (pf_pages F)) (ValueError ''zip'')
       (Inr \<lparr>pd_document = document, pd_source = source, pd_pages = pages,
             pd_parser = ''pymupdf-fast-path+gemma-vision''\<rparr>)))"

definition parse_deadline :: "'w parser \<Rightarrow> rat option \<Rightarrow> ('w, rat option) act" where
  "parse_deadline P timeout =
     (case timeout of
        None \<Rightarrow> act_return None
      | Some t \<Rightarrow> act_bind (ps_clock P) (\<lambda>now. act_return (Some (now + t))))"

definition parse :: "'w parser \<Rightarrow> string \<Rightarrow> string \<Rightarrow> rat option \<Rightarrow> int option \<Rightarrow> ('w, parsed_document) act" where
  "parse P source content timeout max_pages =
     act_bind (parse_deadline P timeout) (\<lambda>deadline.
     let document = stable_document_id content in
     act_bind (act_lift (ps_open P source content)) (\<lambda>F.
     act_bind (act_lift (raise_if (case max_pages of None \<Rightarrow> False | Some n \<Rightarrow> n < int (length (pf_pages F)))
        (ValueError ''document exceeds configured page limit'') (Inr ()))) (\<lambda>_.
     act_bind (act_lift (route_file P F)) (\<lambda>decisions.
     act_bind (check_deadline P deadline) (\<lambda>_.
     act_bind (if ps_prefer_docling P \<and> list_ex (\<lambda>d. rd_route d \<noteq> Digital) decisions
               then try_docling P document source decisions timeout else act_return None) (\<lambda>result.
     case result of
       Some d \<Rightarrow> act_bind (check_deadline P deadline) (\<lambda>_. act_return d)
     | None \<Rightarrow> parse_pages P F deadline document source decisions))))))"

text \<open>The parser as the ingestion service calls it: both limits or none.\<close>

definition service_parse :: "'w parser \<Rightarrow> string \<Rightarrow> string \<Rightarrow> (int \<times> int) option \<Rightarrow> ('w, parsed_document) act" where
  "service_parse P source content limits =
     parse P source content (case limits of None \<Rightarrow> None | Some (t, n) \<Rightarrow> Some (of_int t))
       (case limits of None \<Rightarrow> None | Some (t, n) \<Rightarrow> Some n)"

end
