(* ===== verification/Activity.thy ===== *)
theory Activity
  imports Prelude
begin

text \<open>
  \<open>api/activity.py\<close>: the bounded registry of ingestion progress. Every operation runs under one
  lock, so an operation is one transition of the state; \<open>report\<close> may raise after it has
  already counted the event, because the event model validates its details last.
\<close>

section \<open>State\<close>

text \<open>The optional details of an event: document name, index, count, completed, total.\<close>

record activity_details =
  ad_name :: "string option"
  ad_index :: "int option"
  ad_count :: "int option"
  ad_completed :: "int option"
  ad_total :: "int option"

record activity_event =
  ae_sequence :: nat
  ae_batch :: string
  ae_stage :: string
  ae_message :: string
  ae_occurred :: int
  ae_details :: activity_details

datatype activity_status = Pending | Running | Completed | Failed

record activity =
  ac_max_batches :: nat
  ac_max_events :: nat
  ac_events :: "(string, activity_event list) dict"
  ac_statuses :: "(string, activity_status) dict"
  ac_sequences :: "(string, nat) dict"
  ac_applications :: "(string, string) dict"

record activity_response =
  ar_batch :: string
  ar_status :: activity_status
  ar_events :: "activity_event list"
  ar_last :: nat

definition new_activity :: "nat \<Rightarrow> nat \<Rightarrow> activity" where
  "new_activity batches events =
     \<lparr>ac_max_batches = batches, ac_max_events = events, ac_events = [], ac_statuses = [],
      ac_sequences = [], ac_applications = []\<rparr>"

definition at_least :: "int \<Rightarrow> int option \<Rightarrow> bool" where
  "at_least m v = (case v of None \<Rightarrow> True | Some i \<Rightarrow> m \<le> i)"

definition details_ok :: "activity_details \<Rightarrow> bool" where
  "details_ok d = (at_least 1 (ad_index d) \<and> at_least 1 (ad_count d) \<and> at_least 0 (ad_completed d)
     \<and> at_least 1 (ad_total d))"

section \<open>Operations\<close>

definition evict_oldest :: "activity \<Rightarrow> activity" where
  "evict_oldest s =
     (case ac_events s of [] \<Rightarrow> s
      | (oldest, _) # _ \<Rightarrow>
          s\<lparr>ac_events := AList.delete oldest (ac_events s), ac_statuses := AList.delete oldest (ac_statuses s),
            ac_sequences := AList.delete oldest (ac_sequences s),
            ac_applications := AList.delete oldest (ac_applications s)\<rparr>)"

text \<open>With a bound of zero and no batch, \<open>next(iter(...))\<close> has nothing to return.\<close>

definition start_batch :: "activity \<Rightarrow> string \<Rightarrow> string option \<Rightarrow> activity res" where
  "start_batch s b application =
     (let full = (\<not> dict_has (ac_events s) b \<and> ac_max_batches s \<le> length (ac_events s)) in
      raise_if (full \<and> ac_events s = []) StopIteration
     (let s' = (if full then evict_oldest s else s) in
      Inr (s'\<lparr>ac_events := AList.update b [] (ac_events s'), ac_statuses := AList.update b Running (ac_statuses s'),
              ac_sequences := AList.update b 0 (ac_sequences s'),
              ac_applications := (case application of
                  None \<Rightarrow> ac_applications s'
                | Some a \<Rightarrow> if a = [] then ac_applications s' else AList.update b a (ac_applications s'))\<rparr>)))"

definition application_of :: "activity \<Rightarrow> string \<Rightarrow> string option" where
  "application_of s b = map_of (ac_applications s) b"

definition setdefault :: "'k \<Rightarrow> 'v \<Rightarrow> ('k, 'v) dict \<Rightarrow> ('k, 'v) dict" where
  "setdefault k v d = (if dict_has d k then d else d @ [(k, v)])"

definition report ::
  "activity \<Rightarrow> int \<Rightarrow> string \<Rightarrow> string \<Rightarrow> string \<Rightarrow> activity_details \<Rightarrow> unit res \<times> activity" where
  "report s now b stage message details =
     (let events = dict_get_default (ac_events s) b [];
          sequence = Suc (dict_get_default (ac_sequences s) b 0);
          s' = s\<lparr>ac_events := setdefault b [] (ac_events s), ac_statuses := setdefault b Running (ac_statuses s),
                 ac_sequences := AList.update b sequence (ac_sequences s)\<rparr>
      in if \<not> details_ok details then (Inl (ValidationError ''IngestionActivityEvent''), s')
         else
           let event = \<lparr>ae_sequence = sequence, ae_batch = b, ae_stage = stage, ae_message = message,
                        ae_occurred = now, ae_details = details\<rparr>;
               grown = events @ [event]
           in (Inr (), s'\<lparr>ac_events :=
                 AList.update b (drop (length grown - ac_max_events s) grown) (ac_events s')\<rparr>))"

definition finish_batch :: "activity \<Rightarrow> string \<Rightarrow> activity_status \<Rightarrow> activity" where
  "finish_batch s b st = s\<lparr>ac_statuses := AList.update b st (ac_statuses s)\<rparr>"

definition snapshot :: "activity \<Rightarrow> string \<Rightarrow> nat \<Rightarrow> activity_response option" where
  "snapshot s b after =
     (case map_of (ac_events s) b of
        None \<Rightarrow> None
      | Some es \<Rightarrow> Some \<lparr>ar_batch = b, ar_status = dict_get_default (ac_statuses s) b Pending,
            ar_events = filter (\<lambda>e. after < ae_sequence e) es,
            ar_last = (if es = [] then 0 else ae_sequence (last es))\<rparr>)"

section \<open>Invariant\<close>

text \<open>
  The kept events of a batch belong to it, are numbered in strictly ascending order up to the
  batch's counter, and are no more than the bound; a batch with events has a counter.
\<close>

definition batch_ok :: "nat \<Rightarrow> string \<Rightarrow> nat \<Rightarrow> activity_event list \<Rightarrow> bool" where
  "batch_ok bound b counter es =
     (length es \<le> bound \<and> sorted_wrt (<) (map ae_sequence es)
      \<and> list_all (\<lambda>e. ae_batch e = b \<and> 1 \<le> ae_sequence e \<and> ae_sequence e \<le> counter) es)"

definition activity_inv :: "activity \<Rightarrow> bool" where
  "activity_inv s =
     (distinct (map fst (ac_events s))
      \<and> (\<forall>b es. map_of (ac_events s) b = Some es \<longrightarrow>
            batch_ok (ac_max_events s) b (dict_get_default (ac_sequences s) b 0) es))"

lemma new_activity_inv: "activity_inv (new_activity m n)"
  by (simp add: activity_inv_def new_activity_def)

lemma batch_ok_Nil [simp]: "batch_ok n b c []"
  by (simp add: batch_ok_def)

lemma batch_ok_mono: "batch_ok n b c es \<Longrightarrow> c \<le> c' \<Longrightarrow> batch_ok n b c' es"
  by (auto simp: batch_ok_def list_all_iff)

lemma batch_ok_drop: "batch_ok n b c es \<Longrightarrow> ae_batch e = b \<Longrightarrow>
    ae_sequence e = Suc c \<Longrightarrow> batch_ok n b (Suc c) (drop (length (es @ [e]) - n) (es @ [e]))"
  by (auto simp: batch_ok_def list_all_iff sorted_wrt_append drop_map[symmetric] simp del: drop_append
      intro!: sorted_wrt_drop dest!: in_set_dropD) (fastforce simp: sorted_wrt_append)+

lemma map_of_setdefault [dict_simps]:
  "map_of (setdefault k v d) k' = (if k' = k \<and> map_of d k = None then Some v else map_of d k')"
  by (auto simp: setdefault_def dict_has_def map_add_def split: option.splits)

lemma distinct_setdefault [dict_simps]: "distinct (map fst d) \<Longrightarrow> distinct (map fst (setdefault k v d))"
  by (auto simp: setdefault_def dict_has_iff)

lemma evict_oldest_inv: "activity_inv s \<Longrightarrow> activity_inv (evict_oldest s)"
  by (auto simp: activity_inv_def evict_oldest_def dict_simps dict_get_default_def distinct_delete
      split: list.splits prod.splits)

lemma start_batch_inv:
  assumes "activity_inv s" "start_batch s b a = Inr s'"
  shows "activity_inv s'"
proof -
  define s0 where "s0 = (if \<not> dict_has (ac_events s) b \<and> ac_max_batches s \<le> length (ac_events s)
    then evict_oldest s else s)"
  have ev: "ac_events s' = AList.update b [] (ac_events s0)"
    "ac_sequences s' = AList.update b 0 (ac_sequences s0)" "ac_max_events s' = ac_max_events s0"
    using assms(2) by (simp_all add: start_batch_def Let_def raise_if_Inr_iff s0_def del: if_image_distrib) auto
  have "activity_inv s0" using assms(1) evict_oldest_inv by (simp add: s0_def)
  then show ?thesis
    by (auto simp: activity_inv_def ev dict_simps dict_get_default_def simp del: map_of_eq_Some_iff)
qed

lemma report_inv:
  assumes "activity_inv s" "report s now b stage message details = (r, s')"
  shows "activity_inv s'"
proof -
  let ?c = "dict_get_default (ac_sequences s) b 0" and ?es = "dict_get_default (ac_events s) b []"
  have es: "batch_ok (ac_max_events s) b ?c ?es"
    using assms(1) by (auto simp: activity_inv_def dict_get_default_def split: option.splits)
  have sq: "ac_sequences s' = AList.update b (Suc ?c) (ac_sequences s)" "ac_max_events s' = ac_max_events s"
    using assms(2) by (auto simp: report_def Let_def split: if_splits)
  have "\<exists>fs. map_of (ac_events s') = (map_of (ac_events s))(b \<mapsto> fs) \<and> batch_ok (ac_max_events s) b (Suc ?c) fs"
    using assms(2) batch_ok_mono[OF es, of "Suc ?c"] batch_ok_drop[OF es]
    by (fastforce simp: report_def Let_def dict_simps fun_eq_iff dict_get_default_def
        split: if_splits option.splits)
  moreover have "distinct (map fst (ac_events s'))"
    using assms by (auto simp: activity_inv_def report_def Let_def dict_simps split: if_splits)
  ultimately show ?thesis
    using assms(1)
    by (auto simp: activity_inv_def sq dict_simps dict_get_default_def simp del: map_of_eq_Some_iff)
qed

lemma finish_batch_inv: "activity_inv s \<Longrightarrow> activity_inv (finish_batch s b st)"
  by (simp add: activity_inv_def finish_batch_def)

section \<open>Runs of operations\<close>

datatype activity_op =
    Start string "string option"
  | Report int string string string activity_details
  | Finish string activity_status

fun apply_op :: "activity_op \<Rightarrow> activity \<Rightarrow> activity" where
  "apply_op (Start b a) s = (case start_batch s b a of Inl _ \<Rightarrow> s | Inr s' \<Rightarrow> s')"
| "apply_op (Report now b stage message details) s = snd (report s now b stage message details)"
| "apply_op (Finish b st) s = finish_batch s b st"

lemma apply_op_inv: "activity_inv s \<Longrightarrow> activity_inv (apply_op op s)"
  using start_batch_inv finish_batch_inv report_inv[OF _ prod.collapse[symmetric]]
  by (cases op) (simp_all split: sum.split)

lemma fold_ops_inv: "activity_inv s \<Longrightarrow> activity_inv (fold apply_op ops s)"
  by (induction ops arbitrary: s) (auto simp: apply_op_inv)

section \<open>Polling\<close>

text \<open>
  A client that polls with the last number it has seen gets the events reported since, all of
  them and nothing else, as long as they are no more than the bound.
\<close>

definition report_all :: "activity \<Rightarrow> string \<Rightarrow> (int \<times> string \<times> string \<times> activity_details) list \<Rightarrow> activity" where
  "report_all s b es = fold (\<lambda>(now, stage, message, d) s. snd (report s now b stage message d)) es s"

definition event_of :: "string \<Rightarrow> nat \<Rightarrow> int \<times> string \<times> string \<times> activity_details \<Rightarrow> activity_event" where
  "event_of b n e = (case e of (now, stage, message, d) \<Rightarrow>
     \<lparr>ae_sequence = n, ae_batch = b, ae_stage = stage, ae_message = message, ae_occurred = now, ae_details = d\<rparr>)"

lemma report_ok_state:
  assumes "details_ok d" "map_of (ac_events s) b = Some es"
  shows "map_of (ac_events (snd (report s now b stage message d))) b =
      Some (let g = es @ [event_of b (Suc (dict_get_default (ac_sequences s) b 0)) (now, stage, message, d)]
            in drop (length g - ac_max_events s) g)"
    "dict_get_default (ac_sequences (snd (report s now b stage message d))) b 0
       = Suc (dict_get_default (ac_sequences s) b 0)"
    "ac_max_events (snd (report s now b stage message d)) = ac_max_events s"
  using assms by (simp_all add: report_def Let_def dict_simps event_of_def dict_get_default_def)

lemma drop_excess: "drop (length (drop (length x - m) x @ q) - m) (drop (length x - m) x @ q)
    = drop (length (x @ q) - m) (x @ q)"
proof (cases "length x \<le> m")
  case False
  have "drop (length x - m) x @ q = drop (length x - m) (x @ q)" by simp
  moreover have "length (drop (length x - m) (x @ q)) - m = length q" using False by simp
  moreover have "length q + (length x - m) = length (x @ q) - m" using False by simp
  ultimately show ?thesis by (simp only: drop_drop)
qed simp

lemma report_all_state:
  assumes "map_of (ac_events s) b = Some es" "list_all (\<lambda>(now, stage, message, d). details_ok d) rs"
    "length es \<le> ac_max_events s"
  shows "map_of (ac_events (report_all s b rs)) b =
      Some (let g = es @ map2 (event_of b) [Suc (dict_get_default (ac_sequences s) b 0)..<
                  Suc (dict_get_default (ac_sequences s) b 0) + length rs] rs
            in drop (length g - ac_max_events s) g)"
  using assms
proof (induction rs arbitrary: s es)
  case Nil
  then show ?case by (simp add: report_all_def)
next
  case (Cons r rs)
  obtain now stage message d where r: "r = (now, stage, message, d)" by (cases r)
  with Cons.prems have d: "details_ok d" and rest: "list_all (\<lambda>(now, stage, message, d). details_ok d) rs" by auto
  let ?c = "dict_get_default (ac_sequences s) b 0"
  let ?s = "snd (report s now b stage message d)"
  let ?g = "es @ [event_of b (Suc ?c) r]"
  note st = report_ok_state[OF d Cons.prems(1), of now stage message, folded r]
  have "report_all s b (r # rs) = report_all ?s b rs" by (simp add: report_all_def r)
  moreover have "length (drop (length ?g - ac_max_events s) ?g) \<le> ac_max_events ?s" by (simp add: st(3))
  moreover have "[Suc ?c..<Suc ?c + length (r # rs)] = Suc ?c # [Suc (Suc ?c)..<Suc (Suc ?c) + length rs]"
    by (simp add: upt_conv_Cons del: upt_Suc)
  ultimately show ?case
    using Cons.IH[OF st(1)[unfolded Let_def] rest] drop_excess[of "es @ [event_of b (Suc ?c) r]" "ac_max_events s"
      "map2 (event_of b) [Suc (Suc ?c)..<Suc (Suc ?c) + length rs] rs"]
    by (simp add: st Let_def del: drop_append upt_Suc)
qed

text \<open>After a poll that left the client at the batch's counter, the next one returns what came since.\<close>

lemma poll_complete:
  assumes inv: "activity_inv s" and b: "map_of (ac_events s) b = Some es"
    and ok: "list_all (\<lambda>(now, stage, message, d). details_ok d) rs" and n: "length rs \<le> ac_max_events s"
  defines "c \<equiv> dict_get_default (ac_sequences s) b 0"
  shows "\<exists>r. snapshot (report_all s b rs) b c = Some r
    \<and> ar_events r = map2 (event_of b) [Suc c..<Suc c + length rs] rs"
proof -
  let ?new = "map2 (event_of b) [Suc c..<Suc c + length rs] rs"
  have bo: "batch_ok (ac_max_events s) b c es"
    using inv b by (auto simp: activity_inv_def c_def simp del: map_of_eq_Some_iff)
  let ?k = "length (es @ ?new) - ac_max_events s"
  have "?k \<le> length es" using n by simp
  moreover have "map_of (ac_events (report_all s b rs)) b = Some (drop ?k (es @ ?new))"
    using report_all_state[OF b ok] bo by (simp add: batch_ok_def c_def Let_def)
  ultimately have st: "map_of (ac_events (report_all s b rs)) b = Some (drop ?k es @ ?new)" by simp
  have old: "filter (\<lambda>e. c < ae_sequence e) (drop ?k es) = []"
    using bo by (fastforce simp: batch_ok_def list_all_iff filter_empty_conv dest: in_set_dropD)
  have "ae_sequence (event_of b i r) = i" for i r by (simp add: event_of_def split: prod.splits)
  then have "filter (\<lambda>e. c < ae_sequence e) ?new = ?new"
    by (auto simp: filter_id_conv dest!: set_zip_leftD)
  with st old show ?thesis by (simp add: snapshot_def)
qed

end
