(* ===== verification/GpuLease.thy ===== *)
theory GpuLease
  imports Prelude
begin

text \<open>
  \<open>ingest/gpu_lease.py\<close>: the lease that puts the local language-model server to sleep for the time of an
  ingestion batch. The server is a world \<open>'w\<close> with a requester, the code's injected
  \<open>GpuRequester\<close>; a context manager is a function from its body, itself a transition of the
  world that returns or raises, to a transition.
\<close>

section \<open>Requests and replies\<close>

datatype http_method = Get | Post

text \<open>The bodies the lease tells apart: a JSON boolean, an object with or without a boolean
  \<open>is_sleeping\<close>, and everything else (also no body).\<close>

datatype reply = BoolReply bool | ObjectReply "bool option" | OtherReply

datatype lease_error =
    GpuLeaseError string
  | BodyError exc
  | RestoreGroup lease_error lease_error   \<comment> \<open>the \<open>ExceptionGroup\<close> of a failed batch and a failed restore\<close>

type_synonym ('w, 'a) action = "'w \<Rightarrow> (lease_error + 'a) \<times> 'w"

type_synonym 'w requester = "http_method \<Rightarrow> string \<Rightarrow> ('w, reply) action"

record lease_config =
  lc_enabled :: bool
  lc_timeout :: int

definition mk_lease_config :: "(string \<times> string) \<Rightarrow> bool \<Rightarrow> int \<Rightarrow> lease_config res" where
  "mk_lease_config url enabled timeout =
     raise_if (timeout \<le> 0 \<or> 3600 < timeout) (ValueError ''timeout_seconds'')
    (raise_if (fst url \<noteq> ''http'' \<or> snd url \<notin> {''localhost'', ''127.0.0.1'', ''::1'', ''vllm''})
       (ValueError ''gpu lease base_url must be a local or internal vLLM endpoint'')
       (Inr \<lparr>lc_enabled = enabled, lc_timeout = timeout\<rparr>))"

text \<open>Sequencing: the first error ends the sequence, the world it leaves stays.\<close>

definition seq_act :: "('w, 'a) action \<Rightarrow> ('a \<Rightarrow> ('w, 'b) action) \<Rightarrow> ('w, 'b) action" where
  "seq_act m k w = (case m w of (Inl e, w') \<Rightarrow> (Inl e, w') | (Inr x, w') \<Rightarrow> k x w')"

section \<open>Calls\<close>

text \<open>Every failure of a request reaches the caller as a \<open>GpuLeaseError\<close>.\<close>

definition call :: "'w requester \<Rightarrow> http_method \<Rightarrow> string \<Rightarrow> ('w, reply) action" where
  "call rq m path w =
     (case rq m path w of
        (Inr r, w') \<Rightarrow> (Inr r, w')
      | (Inl (GpuLeaseError s), w') \<Rightarrow> (Inl (GpuLeaseError s), w')
      | (Inl _, w') \<Rightarrow> (Inl (GpuLeaseError (''vLLM GPU lifecycle request failed for '' @ path)), w'))"

definition sleep_state :: "'w requester \<Rightarrow> ('w, bool) action" where
  "sleep_state rq = seq_act (call rq Get ''/is_sleeping'') (\<lambda>r w.
     (case r of
        BoolReply b \<Rightarrow> (Inr b, w)
      | ObjectReply (Some b) \<Rightarrow> (Inr b, w)
      | _ \<Rightarrow> (Inl (GpuLeaseError ''vLLM returned an invalid sleep-state response''), w)))"

definition sleep :: "'w requester \<Rightarrow> ('w, unit) action" where
  "sleep rq = seq_act (call rq Post ''/sleep?level=1'') (\<lambda>_. seq_act (sleep_state rq) (\<lambda>b w.
     (if b then Inr () else Inl (GpuLeaseError ''vLLM did not enter sleep mode''), w)))"

definition wake :: "'w requester \<Rightarrow> ('w, unit) action" where
  "wake rq = seq_act (call rq Post ''/wake_up'') (\<lambda>_. seq_act (sleep_state rq) (\<lambda>b.
     if b then (\<lambda>w. (Inl (GpuLeaseError ''vLLM did not leave sleep mode''), w))
     else seq_act (call rq Get ''/health'') (\<lambda>_ w. (Inr (), w))))"

section \<open>Context managers\<close>

text \<open>The lease object: the world it talks to and \<open>_batch_sleeping\<close>. A body may read and change both.\<close>

record 'w lease =
  ls_world :: 'w
  ls_batch :: bool

definition on_world :: "('w \<Rightarrow> ('e + 'a) \<times> 'w) \<Rightarrow> 'w lease \<Rightarrow> ('e + 'a) \<times> 'w lease" where
  "on_world m s = (case m (ls_world s) of (r, w) \<Rightarrow> (r, s\<lparr>ls_world := w\<rparr>))"

definition end_batch :: "(lease_error + 'a) \<times> 'w lease \<Rightarrow> (lease_error + 'a) \<times> 'w lease" where
  "end_batch o' = (fst o', (snd o')\<lparr>ls_batch := False\<rparr>)"

definition ingestion_batch ::
  "lease_config \<Rightarrow> 'w requester \<Rightarrow> ('w lease, 'a) action \<Rightarrow> ('w lease, 'a) action" where
  "ingestion_batch cfg rq body =
     (if \<not> lc_enabled cfg then body
      else seq_act (on_world (sleep rq)) (\<lambda>_ s.
        end_batch
          (case body (s\<lparr>ls_batch := True\<rparr>) of
             (Inl batch_error, s1) \<Rightarrow>
               (case on_world (wake rq) s1 of
                  (Inl wake_error, s2) \<Rightarrow> (Inl (RestoreGroup batch_error wake_error), s2)
                | (Inr _, s2) \<Rightarrow> (Inl batch_error, s2))
           | (Inr x, s1) \<Rightarrow>
               (case on_world (wake rq) s1 of
                  (Inl wake_error, s2) \<Rightarrow> (Inl wake_error, s2)
                | (Inr _, s2) \<Rightarrow> (Inr x, s2)))))"

definition generation_fallback ::
  "lease_config \<Rightarrow> 'w requester \<Rightarrow> ('w lease, 'a) action \<Rightarrow> ('w lease, 'a) action" where
  "generation_fallback cfg rq body s =
     (if \<not> lc_enabled cfg \<or> \<not> ls_batch s then body s
      else seq_act (on_world (wake rq)) (\<lambda>_ s0.
        (case body s0 of
           (r, s1) \<Rightarrow>
             (case on_world (sleep rq) s1 of
                (Inl sleep_error, s2) \<Rightarrow> (Inl sleep_error, s2)
              | (Inr _, s2) \<Rightarrow> (r, s2)))) s)"

section \<open>A server that keeps its documented behaviour\<close>

text \<open>
  \<open>asleep\<close> reads the sleep state of a world and \<open>put\<close> writes it: the two commands write it and
  succeed, the two queries answer and leave the world alone.
\<close>

definition obedient :: "'w requester \<Rightarrow> ('w \<Rightarrow> bool) \<Rightarrow> (bool \<Rightarrow> 'w \<Rightarrow> 'w) \<Rightarrow> bool" where
  "obedient rq asleep put =
     (\<forall>w. (\<exists>r. rq Post ''/sleep?level=1'' w = (Inr r, put True w))
        \<and> (\<exists>r. rq Post ''/wake_up'' w = (Inr r, put False w))
        \<and> (rq Get ''/is_sleeping'' w = (Inr (BoolReply (asleep w)), w)
           \<or> rq Get ''/is_sleeping'' w = (Inr (ObjectReply (Some (asleep w))), w))
        \<and> (\<exists>r. rq Get ''/health'' w = (Inr r, w))
        \<and> asleep (put True w) \<and> \<not> asleep (put False w))"

lemma obedient_sleep: "obedient rq asleep put \<Longrightarrow> sleep rq w = (Inr (), put True w)"
  unfolding obedient_def
  by (frule spec[of _ w], drule spec[of _ "put True w"])
    (auto simp: sleep_def seq_act_def sleep_state_def call_def)

lemma obedient_wake: "obedient rq asleep put \<Longrightarrow> wake rq w = (Inr (), put False w)"
  unfolding obedient_def
  by (frule spec[of _ w], drule spec[of _ "put False w"])
    (auto simp: wake_def seq_act_def sleep_state_def call_def)

text \<open>
  The contract of the lease over such a server: the batch runs between writing the sleep state
  and clearing it, its outcome is the outcome of the whole, and the server is awake afterwards
  whether the batch returned or raised.
\<close>

definition batch_spec :: "(bool \<Rightarrow> 'w \<Rightarrow> 'w) \<Rightarrow> ('w lease, 'a) action \<Rightarrow> ('w lease, 'a) action" where
  "batch_spec put body s =
     (case body \<lparr>ls_world = put True (ls_world s), ls_batch = True\<rparr> of
        (r, s1) \<Rightarrow> (r, \<lparr>ls_world = put False (ls_world s1), ls_batch = False\<rparr>))"

lemma ingestion_batch_refines:
  assumes "obedient rq asleep put" "lc_enabled cfg"
  shows "ingestion_batch cfg rq body = batch_spec put body"
proof
  fix s :: "'a lease"
  show "ingestion_batch cfg rq body s = batch_spec put body s"
    using assms(2)
    by (cases s, cases "body \<lparr>ls_world = put True (ls_world s), ls_batch = True\<rparr>")
      (auto simp: ingestion_batch_def batch_spec_def seq_act_def on_world_def end_batch_def
        obedient_sleep[OF assms(1)] obedient_wake[OF assms(1)] split: sum.splits)
qed

text \<open>Inside a batch the fallback hands the server over and takes it back.\<close>

lemma generation_fallback_refines:
  assumes "obedient rq asleep put" "lc_enabled cfg" "ls_batch s"
  shows "generation_fallback cfg rq body s =
    (case body (s\<lparr>ls_world := put False (ls_world s)\<rparr>) of (r, s1) \<Rightarrow> (r, s1\<lparr>ls_world := put True (ls_world s1)\<rparr>))"
  using assms(2,3)
  by (auto simp: generation_fallback_def seq_act_def on_world_def obedient_sleep[OF assms(1)]
      obedient_wake[OF assms(1)] split: prod.splits)

text \<open>Over any server: a batch that returns has seen the server report itself awake and healthy.\<close>

lemma wake_Inr:
  assumes "wake rq w = (Inr u, w')"
  shows "\<exists>w1 w2 r. sleep_state rq w1 = (Inr False, w2) \<and> call rq Get ''/health'' w2 = (Inr r, w')"
  using assms by (auto simp: wake_def seq_act_def split: prod.splits sum.splits if_splits)

lemma sleep_Inr:
  assumes "sleep rq w = (Inr u, w')"
  shows "\<exists>w1. sleep_state rq w1 = (Inr True, w')"
  using assms by (auto simp: sleep_def seq_act_def split: prod.splits sum.splits if_splits)

lemma ingestion_batch_Inr:
  assumes "lc_enabled cfg" "ingestion_batch cfg rq body s = (Inr x, s')"
  shows "\<exists>s0 s1 u v. on_world (sleep rq) s = (Inr u, s0) \<and> body (s0\<lparr>ls_batch := True\<rparr>) = (Inr x, s1)
    \<and> wake rq (ls_world s1) = (Inr v, ls_world s') \<and> \<not> ls_batch s'"
  using assms
  by (auto simp: ingestion_batch_def seq_act_def end_batch_def on_world_def split: prod.splits sum.splits)

text \<open>A failed command to sleep ends the lease at once: the body has not run and nothing wakes the server.\<close>

lemma ingestion_batch_sleep_fails:
  assumes "lc_enabled cfg" "on_world (sleep rq) s = (Inl e, s')"
  shows "ingestion_batch cfg rq body s = (Inl e, s')"
  using assms by (simp add: ingestion_batch_def seq_act_def)

section \<open>The shared lock\<close>

text \<open>
  All leases of a process share one reentrant lock. A thread is in an operation or a batch; the
  frames of the owner are open sections, the innermost first.
\<close>

datatype gpu_section = Operation | Batch

record gpu_lock =
  gl_owner :: "nat option"
  gl_frames :: "(nat \<times> gpu_section) list"

inductive lock_step :: "gpu_lock \<Rightarrow> gpu_lock \<Rightarrow> bool" where
  enter: "gl_owner l = None \<or> gl_owner l = Some t \<Longrightarrow>
    lock_step l \<lparr>gl_owner = Some t, gl_frames = (t, k) # gl_frames l\<rparr>"
| leave: "gl_frames l = (t, k) # fs \<Longrightarrow> gl_owner l = Some t \<Longrightarrow>
    lock_step l \<lparr>gl_owner = (if fs = [] then None else Some t), gl_frames = fs\<rparr>"

inductive_cases lock_stepE: "lock_step l l'"

definition free_lock :: gpu_lock where
  "free_lock = \<lparr>gl_owner = None, gl_frames = []\<rparr>"

definition lock_inv :: "gpu_lock \<Rightarrow> bool" where
  "lock_inv l = (list_all (\<lambda>f. gl_owner l = Some (fst f)) (gl_frames l) \<and> (gl_owner l = None \<longleftrightarrow> gl_frames l = []))"

lemma lock_step_inv: "lock_step l l' \<Longrightarrow> lock_inv l \<Longrightarrow> lock_inv l'"
  by (erule lock_stepE) (auto simp: lock_inv_def)

lemma lock_reachable_inv: "lock_step\<^sup>*\<^sup>* free_lock l \<Longrightarrow> lock_inv l"
proof (induction rule: rtranclp_induct)
  case base
  show ?case by (simp add: free_lock_def lock_inv_def)
qed (rule lock_step_inv)

text \<open>While one thread runs a batch, no other thread is in any section.\<close>

lemma lock_exclusive:
  assumes "lock_step\<^sup>*\<^sup>* free_lock l" "(t, k) \<in> set (gl_frames l)" "(t', k') \<in> set (gl_frames l)"
  shows "t = t'"
proof -
  have "gl_owner l = Some t" "gl_owner l = Some t'"
    using lock_reachable_inv[OF assms(1)] assms(2,3) unfolding lock_inv_def list_all_iff by (metis fst_conv)+
  then show ?thesis by simp
qed

end
