(* ===== verification/Security.thy ===== *)
theory Security
  imports PyRegex Sha256
begin

text \<open>
  \<open>security/dlp.py\<close>, \<open>security/storage.py\<close>, \<open>security/pdf_guard.py\<close> and \<open>security/policy.py\<close>:
  redaction of protected identifiers, envelope-encrypted document storage, the scanning boundary
  in front of ingestion, and the reviewed policy. AES-GCM, the PDF library, the malware
  daemon and Unicode normalisation are parameters.
\<close>

section \<open>Redaction\<close>

definition upper_rx :: rx where "upper_rx = Cls False [(CHR ''A'', CHR ''Z'')]"

definition alnum_set :: "(char \<times> char) list" where
  "alnum_set = [(CHR ''A'', CHR ''Z''), (CHR ''0'', CHR ''9'')]"

definition singles :: "string \<Rightarrow> (char \<times> char) list" where
  "singles cs = map (\<lambda>c. (c, c)) cs"

definition digit_set :: "(char \<times> char) list" where
  "digit_set = [(CHR ''0'', CHR ''9'')]"

text \<open>The pattern of a kind and whether it ignores case.\<close>

definition dlp_patterns :: "(string \<times> (bool \<times> rx)) list" where
  "dlp_patterns =
     [(''aadhaar'', False, seqs [NotBehind digit_set, Rep (Seq digit_rx (opt_rx (chars_rx '' -''))) 11 0,
         digit_rx, NotAhead digit_rx]),
      (''pan'', True, seqs [Bound, Rep upper_rx 5 0, Rep digit_rx 4 0, upper_rx, Bound]),
      (''ifsc'', True, seqs [Bound, Rep upper_rx 4 0, Lit ''0'', Rep (Cls False alnum_set) 6 0, Bound]),
      (''email'', True, seqs [Bound, plus_rx (Cls False (alnum_set @ singles ''._%+-'')), Lit ''@'',
         plus_rx (Cls False (alnum_set @ singles ''.-'')), Lit ''.'', Rep upper_rx 2 0, Star upper_rx, Bound]),
      (''phone'', False, seqs [NotBehind digit_set, opt_rx (Seq (Lit ''+91'') (opt_rx (chars_rx ''- ''))),
         Cls False [(CHR ''6'', CHR ''9'')], Rep digit_rx 9 0, NotAhead digit_rx]),
      (''bank_account'', False, seqs [Bound, Rep digit_rx 9 9, Bound]),
      (''address'', True, seqs [Bound,
         alts [seqs [Lit ''registered'', plus_rx space_rx, Lit ''office''],
               seqs [Lit ''residential'', plus_rx space_rx, Lit ''address''], Lit ''address''],
         Star space_rx, chars_rx '':-'', Star space_rx, Rep (not_chars_rx newline) 5 245]),
      (''credential'', True, seqs [Bound,
         alts [Lit ''password'', Lit ''passwd'', Lit ''secret'', seqs [Lit ''api'', opt_rx (chars_rx ''_ -''), Lit ''key''],
               Lit ''bearer''],
         Star space_rx, chars_rx '':='', Star space_rx, plus_rx nonspace_rx]),
      (''tax_identifier'', True, seqs [Bound, Rep digit_rx 2 0, Rep upper_rx 5 0, Rep digit_rx 4 0, upper_rx,
         digit_rx, Lit ''Z'', Cls False alnum_set, Bound])]"

record dlp_policy =
  dp_enabled :: bool
  dp_replacement :: string
  dp_kinds :: "string list"
  dp_instructions :: "pattern list"

record dlp_receipt =
  dr_policy :: string
  dr_artifact :: string
  dr_counts :: "(string, nat) dict"
  dr_risk :: bool
  dr_disposition :: string

definition mk_dlp :: "dlp_policy \<Rightarrow> dlp_policy res" where
  "mk_dlp p =
     (let unknown = filter (\<lambda>k. \<not> dict_has dlp_patterns k) (dp_kinds p) in
      raise_if (unknown \<noteq> []) (ValueError ''unsupported DLP kinds'') (Inr p))"

text \<open>\<open>replacement.format(kind=kind)\<close> of a template whose only field is \<open>{kind}\<close>.\<close>

definition redaction :: "dlp_policy \<Rightarrow> string \<Rightarrow> string" where
  "redaction p kind = replace_all ''{kind}'' kind (dp_replacement p)"

definition redact_kind :: "dlp_policy \<Rightarrow> string \<Rightarrow> string \<times> (string, nat) dict \<Rightarrow> (string \<times> (string, nat) dict) res" where
  "redact_kind p kind st =
     (case map_of dlp_patterns kind of
        None \<Rightarrow> Inl (KeyError kind)
      | Some (ic, r) \<Rightarrow>
          (case re_subn ic False r (redaction p kind) (fst st) of
             (t, n) \<Rightarrow> Inr (t, if n \<noteq> 0 then AList.update kind n (snd st) else snd st)))"

fun redact_kinds :: "dlp_policy \<Rightarrow> string list \<Rightarrow> string \<times> (string, nat) dict \<Rightarrow> (string \<times> (string, nat) dict) res" where
  "redact_kinds p [] st = Inr st"
| "redact_kinds p (k # ks) st = res_bind (redact_kind p k st) (redact_kinds p ks)"

definition word_set :: "(char \<times> char) list" where
  "word_set = [(CHR ''A'', CHR ''Z''), (CHR ''a'', CHR ''z''), (CHR ''0'', CHR ''9''), (CHR ''_'', CHR ''_''),
     (CHR 0x80, CHR 0xFF)]"

definition token_rx :: rx where
  "token_rx = Alt (plus_rx (Cls False word_set)) (plus_rx (Cls True (word_set @ space_set)))"

definition single_letter :: "string \<Rightarrow> bool" where
  "single_letter t = (py_len t = 1 \<and> list_all (\<lambda>c. is_alpha c \<or> 128 \<le> code c) t)"

text \<open>Runs of one-letter tokens are joined to a word.\<close>

fun rebuild :: "string \<Rightarrow> string list \<Rightarrow> string list" where
  "rebuild letters [] = (if letters \<noteq> [] then [letters] else [])"
| "rebuild letters (t # ts) =
     (if single_letter t then rebuild (letters @ t) ts
      else (if letters \<noteq> [] then [letters] else []) @ t # rebuild [] ts)"

definition normalize_instruction_text :: "(string \<Rightarrow> string) \<Rightarrow> string \<Rightarrow> string" where
  "normalize_instruction_text nfkc t =
     join '' '' (rebuild [] (map m_text (re_finditer False False token_rx (casefold (nfkc t)))))"

definition instruction_risk :: "(string \<Rightarrow> string) \<Rightarrow> dlp_policy \<Rightarrow> string \<Rightarrow> bool" where
  "instruction_risk nfkc p t =
     list_ex (\<lambda>q. pattern_found True False q t
       \<or> pattern_found True False q (normalize_instruction_text nfkc t)) (dp_instructions p)"

definition inspect :: "(string \<Rightarrow> string) \<Rightarrow> dlp_policy \<Rightarrow> string \<Rightarrow> string \<Rightarrow> (string \<times> dlp_receipt) res" where
  "inspect nfkc p policy_hash t =
     res_bind (redact_kinds p (dp_kinds p) (t, [])) (\<lambda>(redacted, counts).
     let risk = instruction_risk nfkc p t in
     Inr (redacted, \<lparr>dr_policy = policy_hash, dr_artifact = sha256_hex t, dr_counts = counts, dr_risk = risk,
       dr_disposition = (if risk then ''needs_attention'' else ''accepted'')\<rparr>))"

section \<open>Paths and files\<close>

text \<open>A path is the list of its components; \<open>base / s\<close> restarts at an absolute \<open>s\<close>.\<close>

type_synonym path = "string list"

definition path_join :: "path \<Rightarrow> string \<Rightarrow> path" where
  "path_join base s =
     (if starts_with ''/'' s then [] else base) @ filter (\<lambda>c. c \<noteq> [] \<and> c \<noteq> ''.'') (split_on CHR ''/'' s)"

fun resolve_from :: "path \<Rightarrow> path \<Rightarrow> path" where
  "resolve_from done [] = rev done"
| "resolve_from done (c # cs) = resolve_from (if c = ''..'' then tl done else c # done) cs"

definition path_resolve :: "path \<Rightarrow> path" where
  "path_resolve p = resolve_from [] p"

definition below :: "path \<Rightarrow> path \<Rightarrow> bool" where   \<comment> \<open>\<open>root in folder.parents\<close>\<close>
  "below root p = (length root < length p \<and> take (length root) p = root)"

definition under :: "path \<Rightarrow> path \<Rightarrow> bool" where   \<comment> \<open>a file in a directory tree\<close>
  "under folder p = (length folder < length p \<and> take (length folder) p = folder)"

section \<open>Envelope-encrypted storage\<close>

text \<open>
  \<open>AESGCM(key).encrypt(nonce, data, associated)\<close> and its inverse, which fails on a wrong key,
  nonce, text or associated data. Byte strings are strings; base64 wrapping is left out.
\<close>

record aead =
  ae_encrypt :: "string \<Rightarrow> string \<Rightarrow> string \<Rightarrow> string \<Rightarrow> string"
  ae_decrypt :: "string \<Rightarrow> string \<Rightarrow> string \<Rightarrow> string \<Rightarrow> string option"

record envelope =
  ev_key_version :: string
  ev_application :: string
  ev_document :: string
  ev_sha256 :: string
  ev_state :: string
  ev_data_nonce :: string
  ev_key_nonce :: string
  ev_ciphertext :: string
  ev_wrapped_key :: string

record store =
  st_root :: path
  st_master :: string
  st_version :: string
  st_files :: "(path, envelope) dict"

definition mk_store :: "path \<Rightarrow> string \<Rightarrow> string \<Rightarrow> (path, envelope) dict \<Rightarrow> store res" where
  "mk_store root master version files =
     raise_if (length master \<noteq> 32) (ValueError ''document master key must be exactly 32 bytes'')
       (Inr \<lparr>st_root = path_resolve root, st_master = master, st_version = version, st_files = files\<rparr>)"

definition associated :: "string \<Rightarrow> string \<Rightarrow> string \<Rightarrow> string \<Rightarrow> string" where
  "associated application document digest state =
     application @ ''|'' @ document @ ''|'' @ digest @ ''|'' @ state"

definition envelope_ad :: "envelope \<Rightarrow> string" where
  "envelope_ad e = associated (ev_application e) (ev_document e) (ev_sha256 e) (ev_state e)"

text \<open>The three random strings are arguments: the data key and the two nonces.\<close>

definition seal :: "aead \<Rightarrow> store \<Rightarrow> string \<times> string \<times> string \<Rightarrow> string \<Rightarrow> string \<Rightarrow> string \<Rightarrow> string \<Rightarrow> string \<Rightarrow> envelope" where
  "seal A s rnd application document digest content state =
     (case rnd of (dek, data_nonce, key_nonce) \<Rightarrow>
        let ad = associated application document digest state in
        \<lparr>ev_key_version = st_version s, ev_application = application, ev_document = document,
         ev_sha256 = digest, ev_state = state, ev_data_nonce = data_nonce, ev_key_nonce = key_nonce,
         ev_ciphertext = ae_encrypt A dek data_nonce content ad,
         ev_wrapped_key = ae_encrypt A (st_master s) key_nonce dek ad\<rparr>)"

definition object_path :: "store \<Rightarrow> string \<Rightarrow> string \<Rightarrow> string \<Rightarrow> path" where
  "object_path s state application document =
     path_join (path_join (path_join (st_root s) state) application) (document @ ''.enc.json'')"

definition store_object ::
  "aead \<Rightarrow> store \<Rightarrow> string \<times> string \<times> string \<Rightarrow> string \<Rightarrow> string \<Rightarrow> string \<Rightarrow> string \<Rightarrow> string \<Rightarrow> store \<times> path" where
  "store_object A s rnd application document digest content state =
     (let p = path_resolve (object_path s state application document) in
      (s\<lparr>st_files := AList.update p (seal A s rnd application document digest content state) (st_files s)\<rparr>, p))"

definition open_envelope :: "aead \<Rightarrow> string \<Rightarrow> envelope \<Rightarrow> string res" where
  "open_envelope A master e =
     (case ae_decrypt A master (ev_key_nonce e) (ev_wrapped_key e) (envelope_ad e) of
        None \<Rightarrow> Inl (OtherError ''InvalidTag'')
      | Some dek \<Rightarrow>
          (case ae_decrypt A dek (ev_data_nonce e) (ev_ciphertext e) (envelope_ad e) of
             None \<Rightarrow> Inl (OtherError ''InvalidTag'') | Some content \<Rightarrow> Inr content))"

definition materialize :: "aead \<Rightarrow> store \<Rightarrow> path \<Rightarrow> string res" where
  "materialize A s p =
     (case map_of (st_files s) p of
        None \<Rightarrow> Inl (OSError ''FileNotFoundError'')
      | Some e \<Rightarrow> open_envelope A (st_master s) e)"

definition states :: "string list" where
  "states = [''active'', ''quarantined'']"

fun delete_states :: "string list \<Rightarrow> store \<Rightarrow> string \<Rightarrow> unit res \<times> store" where
  "delete_states [] s application = (Inr (), s)"
| "delete_states (state # ss) s application =
     (let folder = path_resolve (path_join (path_join (st_root s) state) application) in
      if \<not> below (st_root s) folder then (Inl (ValueError ''encrypted storage deletion escaped configured root''), s)
      else delete_states ss (s\<lparr>st_files := filter (\<lambda>(p, e). \<not> under folder p) (st_files s)\<rparr>) application)"

definition delete_application :: "store \<Rightarrow> string \<Rightarrow> unit res \<times> store" where
  "delete_application s application = delete_states states s application"

text \<open>One object under a new master key; the data ciphertext and its nonce stay.\<close>

definition rewrap :: "aead \<Rightarrow> string \<Rightarrow> string \<Rightarrow> string \<Rightarrow> string \<Rightarrow> envelope \<Rightarrow> envelope res" where
  "rewrap A old new version nonce e =
     (case ae_decrypt A old (ev_key_nonce e) (ev_wrapped_key e) (envelope_ad e) of
        None \<Rightarrow> Inl (OtherError ''InvalidTag'')
      | Some dek \<Rightarrow> Inr (e\<lparr>ev_key_version := version, ev_key_nonce := nonce,
            ev_wrapped_key := ae_encrypt A new nonce dek (envelope_ad e)\<rparr>))"

definition rewrap_target :: "store \<Rightarrow> path \<Rightarrow> bool" where
  "rewrap_target s p = (list_ex (\<lambda>st. under (path_join (st_root s) st) p) states \<and> p \<noteq> [] \<and> ends_with ''.enc.json'' (last p))"

text \<open>
  The files in the order of the directory walk, each rewritten before the next is read; the
  nonces are drawn from a function. An error leaves the files rewritten so far.
\<close>

fun rewrap_files ::
  "aead \<Rightarrow> string \<Rightarrow> string \<Rightarrow> string \<Rightarrow> (path \<Rightarrow> string) \<Rightarrow> path list \<Rightarrow> (path, envelope) dict \<Rightarrow> nat \<Rightarrow>
   nat res \<times> (path, envelope) dict" where
  "rewrap_files A old new version nonce [] files n = (Inr n, files)"
| "rewrap_files A old new version nonce (p # ps) files n =
     (case map_of files p of
        None \<Rightarrow> (Inl (OSError ''FileNotFoundError''), files)
      | Some e \<Rightarrow>
          (case rewrap A old new version (nonce p) e of
             Inl err \<Rightarrow> (Inl err, files)
           | Inr e' \<Rightarrow> rewrap_files A old new version nonce ps (AList.update p e' files) (Suc n)))"

definition rewrap_all :: "aead \<Rightarrow> store \<Rightarrow> string \<Rightarrow> string \<Rightarrow> (path \<Rightarrow> string) \<Rightarrow> nat res \<times> store" where
  "rewrap_all A s new version nonce =
     (if length new \<noteq> 32 then (Inl (ValueError ''new document master key must be exactly 32 bytes''), s)
      else (case rewrap_files A (st_master s) new version nonce
                  (filter (rewrap_target s) (map fst (st_files s))) (st_files s) 0 of
              (Inl err, files) \<Rightarrow> (Inl err, s\<lparr>st_files := files\<rparr>)
            | (Inr n, files) \<Rightarrow> (Inr n, s\<lparr>st_files := files, st_master := new, st_version := version\<rparr>)))"

section \<open>Redaction lemmas\<close>

lemma re_subn_none: "re_subn ic ml r repl t = (u, 0) \<Longrightarrow> u = t"
  by (auto simp: re_subn_def Let_def)

lemma redact_kind_counts:
  assumes "redact_kind p k (t, cs) = Inr (u, ds)"
  shows "(ds = cs \<and> u = t) \<or> (\<exists>n > 0. ds = AList.update k n cs)"
proof -
  from assms obtain q where q: "map_of dlp_patterns k = Some q"
    by (cases "map_of dlp_patterns k") (auto simp: redact_kind_def)
  obtain w n where w: "re_subn (fst q) False (snd q) (redaction p k) t = (w, n)" by fastforce
  from assms q w have e: "u = w" "ds = (if n \<noteq> 0 then AList.update k n cs else cs)"
    by (auto simp: redact_kind_def split_beta)
  show ?thesis
  proof (cases "n = 0")
    case True
    with re_subn_none w have "w = t" by blast
    with e True show ?thesis by simp
  next
    case False
    with e show ?thesis by (intro disjI2 exI[of _ n]) simp
  qed
qed

lemma redact_kinds_keeps:
  "redact_kinds p ks (t, cs) = Inr (u, ds) \<Longrightarrow> map_of cs k \<noteq> None \<Longrightarrow> map_of ds k \<noteq> None"
proof (induction ks arbitrary: t cs)
  case (Cons k' ks)
  then obtain v es where v: "redact_kind p k' (t, cs) = Inr (v, es)" and w: "redact_kinds p ks (v, es) = Inr (u, ds)"
    by (auto simp: res_bind_Inr_iff)
  from redact_kind_counts[OF v] Cons.prems(2) have "map_of es k \<noteq> None" by (auto simp: dict_simps)
  with Cons.IH[OF w] show ?case by blast
qed simp

lemma redact_kinds_counts:
  "redact_kinds p ks (t, cs) = Inr (u, ds) \<Longrightarrow>
     (\<forall>k n. map_of ds k = Some n \<longrightarrow> (0 < n \<and> k \<in> set ks) \<or> map_of cs k = Some n)
     \<and> (ds = [] \<longrightarrow> u = t)"
proof (induction ks arbitrary: t cs)
  case (Cons k ks)
  then obtain v es where v: "redact_kind p k (t, cs) = Inr (v, es)" and w: "redact_kinds p ks (v, es) = Inr (u, ds)"
    by (auto simp: res_bind_Inr_iff)
  note IH = Cons.IH[OF w]
  from redact_kind_counts[OF v] show ?case
  proof
    assume "es = cs \<and> v = t"
    with IH show ?thesis by auto
  next
    assume "\<exists>n > 0. es = AList.update k n cs"
    then obtain n where n: "0 < n" "es = AList.update k n cs" by blast
    have "map_of es k = Some n" by (simp add: n(2) dict_simps)
    moreover have "map_of es k = None" if "ds = []"
    proof (rule ccontr)
      assume "map_of es k \<noteq> None"
      with redact_kinds_keeps[OF w, of k] that show False by simp
    qed
    ultimately have "ds \<noteq> []" by auto
    with IH n show ?thesis by (auto simp: dict_simps split: if_splits)
  qed
qed simp

section \<open>Storage lemmas\<close>

definition aead_ok :: "aead \<Rightarrow> bool" where
  "aead_ok A = (\<forall>k n d ad. ae_decrypt A k n (ae_encrypt A k n d ad) ad = Some d)"

lemma seal_opens:
  assumes "aead_ok A"
  shows "open_envelope A (st_master s) (seal A s rnd application document digest content state) = Inr content"
  using assms by (simp add: aead_ok_def open_envelope_def seal_def envelope_ad_def Let_def split_beta)

lemma materialize_stored:
  assumes "aead_ok A" "store_object A s rnd application document digest content state = (s', p)"
  shows "materialize A s' p = Inr content"
proof -
  from assms(2) have "map_of (st_files s') p = Some (seal A s rnd application document digest content state)"
    "st_master s' = st_master s"
    by (auto simp: store_object_def Let_def dict_simps)
  then show ?thesis by (simp add: materialize_def seal_opens[OF assms(1)])
qed

lemma materialize_other:
  assumes "store_object A s rnd application document digest content state = (s', p)" "q \<noteq> p"
  shows "materialize A s' q = materialize A s q"
proof -
  from assms have "map_of (st_files s') q = map_of (st_files s) q" "st_master s' = st_master s"
    by (auto simp: store_object_def Let_def dict_simps)
  then show ?thesis by (simp add: materialize_def cong: option.case_cong)
qed

lemma rewrap_opens:
  assumes "aead_ok A" "rewrap A old new version nonce e = Inr e'"
  shows "open_envelope A new e' = open_envelope A old e \<and> ev_ciphertext e' = ev_ciphertext e \<and> ev_key_version e' = version"
  using assms by (auto simp: aead_ok_def rewrap_def open_envelope_def envelope_ad_def split: option.splits)

lemma rewrap_files_other:
  "rewrap_files A old new version nonce ps files n = (r, files') \<Longrightarrow> p \<notin> set ps \<Longrightarrow> map_of files' p = map_of files p"
proof (induction ps arbitrary: files n)
  case (Cons q ps)
  then show ?case by (auto simp: dict_simps split: option.splits sum.splits)
qed auto

lemma rewrap_files_Inr:
  assumes "aead_ok A"
  shows "rewrap_files A old new version nonce ps files n = (Inr m, files') \<Longrightarrow> distinct ps \<Longrightarrow>
    m = n + length ps \<and> (\<forall>p \<in> set ps. \<exists>e e'. map_of files p = Some e \<and> map_of files' p = Some e'
      \<and> open_envelope A new e' = open_envelope A old e \<and> ev_ciphertext e' = ev_ciphertext e
      \<and> ev_key_version e' = version)"
proof (induction ps arbitrary: files n)
  case (Cons p ps)
  then obtain e e' where e: "map_of files p = Some e" "rewrap A old new version (nonce p) e = Inr e'"
    and rest: "rewrap_files A old new version nonce ps (AList.update p e' files) (Suc n) = (Inr m, files')"
    by (auto split: option.splits sum.splits)
  have p: "p \<notin> set ps" "distinct ps" using Cons.prems(2) by auto
  from Cons.IH[OF rest p(2)] have IH: "m = Suc n + length ps"
    "\<forall>q \<in> set ps. \<exists>e e''. map_of (AList.update p e' files) q = Some e \<and> map_of files' q = Some e''
      \<and> open_envelope A new e'' = open_envelope A old e \<and> ev_ciphertext e'' = ev_ciphertext e
      \<and> ev_key_version e'' = version" by auto
  have "map_of files' p = Some e'" using rewrap_files_other[OF rest p(1)] by (simp add: dict_simps)
  moreover have "map_of (AList.update p e' files) q = map_of files q" if "q \<in> set ps" for q
    using that p(1) by (auto simp: dict_simps)
  ultimately show ?case using e rewrap_opens[OF assms e(2)] IH by simp
qed simp

lemma rewrap_all_Inr:
  assumes A: "aead_ok A" and d: "distinct (map fst (st_files s))" and r: "rewrap_all A s new version nonce = (Inr n, s')"
  shows "st_master s' = new \<and> n = length (filter (rewrap_target s) (map fst (st_files s)))
    \<and> list_all (\<lambda>p. materialize A s' p = materialize A s p) (filter (rewrap_target s) (map fst (st_files s)))"
proof -
  let ?ps = "filter (rewrap_target s) (map fst (st_files s))"
  from r obtain files' where f: "rewrap_files A (st_master s) new version nonce ?ps (st_files s) 0 = (Inr n, files')"
    and s': "s' = s\<lparr>st_files := files', st_master := new, st_version := version\<rparr>"
    by (auto simp: rewrap_all_def split: if_splits prod.splits sum.splits)
  have "distinct ?ps" using d by simp
  from rewrap_files_Inr[OF A f this] have "n = length ?ps" and all: "\<forall>p \<in> set ?ps. \<exists>e e'. map_of (st_files s) p = Some e
      \<and> map_of files' p = Some e' \<and> open_envelope A new e' = open_envelope A (st_master s) e" by auto
  moreover have "materialize A s' p = materialize A s p" if "p \<in> set ?ps" for p
    using bspec[OF all that] by (auto simp: materialize_def s')
  ultimately show ?thesis unfolding list_all_iff by (simp add: s')
qed

text \<open>Deletion stays below the root, removes the folder of both states, and nothing else.\<close>

lemma delete_states_keeps:
  "delete_states ss s application = (r, s') \<Longrightarrow> st_root s' = st_root s \<and> st_master s' = st_master s
     \<and> (map_of (st_files s') p = map_of (st_files s) p
        \<or> (map_of (st_files s') p = None \<and> below (st_root s) p
           \<and> (\<exists>st \<in> set ss. under (path_resolve (path_join (path_join (st_root s) st) application)) p)))"
proof (induction ss arbitrary: s)
  case (Cons st ss)
  let ?folder = "path_resolve (path_join (path_join (st_root s) st) application)"
  show ?case
  proof (cases "below (st_root s) ?folder")
    case True
    let ?s = "s\<lparr>st_files := filter (\<lambda>(p, e). \<not> under ?folder p) (st_files s)\<rparr>"
    have f: "map_of (filter (\<lambda>(p, e). \<not> under ?folder p) xs) p = (if under ?folder p then None else map_of xs p)" for xs :: "(path, envelope) dict"
      by (induction xs) auto
    have b: "under ?folder p \<Longrightarrow> below (st_root s) p"
      using True by (auto simp: under_def below_def) (metis append_take_drop_id dual_order.strict_trans less_imp_le take_take min_def)
    from Cons.prems True have "delete_states ss ?s application = (r, s')" by (simp add: Let_def)
    from Cons.IH[OF this] f b show ?thesis by (auto split: if_splits)
  next
    case False
    with Cons.prems show ?thesis by (auto simp: Let_def)
  qed
qed simp

lemma delete_states_removes:
  "delete_states ss s application = (Inr u, s') \<Longrightarrow> st \<in> set ss \<Longrightarrow>
     under (path_resolve (path_join (path_join (st_root s) st) application)) p \<Longrightarrow> map_of (st_files s') p = None"
proof (induction ss arbitrary: s)
  case (Cons st' ss)
  let ?folder = "path_resolve (path_join (path_join (st_root s) st') application)"
  let ?s = "s\<lparr>st_files := filter (\<lambda>(p, e). \<not> under ?folder p) (st_files s)\<rparr>"
  from Cons.prems(1) have rest: "delete_states ss ?s application = (Inr u, s')" by (auto simp: Let_def split: if_splits)
  show ?case
  proof (cases "st = st'")
    case True
    then have "map_of (st_files ?s) p = None" using Cons.prems(3) by (auto simp: map_of_eq_None_iff)
    with delete_states_keeps[OF rest, of p] show ?thesis by auto
  next
    case False
    with Cons.prems Cons.IH[OF rest] show ?thesis by simp
  qed
qed simp

end
