(* ===== verification/Policy.thy ===== *)
theory Policy
  imports Complex_Main Security
begin

text \<open>
  \<open>security/policy.py\<close>: the reviewed production policy, its field constraints, its content
  hash and the metric allow-list. The canonical serialisation of the document
  (\<open>json.dumps\<close> with sorted keys) is a parameter; the digest is the SHA-256 of the library.
\<close>

record resource_policy =
  rp_max_pdf_bytes :: int
  rp_max_batch_bytes :: int
  rp_max_pages :: int
  rp_max_batch_documents :: int
  rp_parse_timeout :: int
  rp_max_concurrent_batches :: int

text \<open>Field constraints come before the validator, as pydantic runs them.\<close>

definition mk_resource_policy :: "resource_policy \<Rightarrow> resource_policy res" where
  "mk_resource_policy r =
     raise_if (\<not> list_all (\<lambda>n. 0 < n) [rp_max_pdf_bytes r, rp_max_batch_bytes r, rp_max_pages r,
         rp_max_batch_documents r, rp_parse_timeout r, rp_max_concurrent_batches r])
       (ValueError ''greater_than'')
    (raise_if (rp_max_batch_bytes r < rp_max_pdf_bytes r)
       (ValueError ''max_batch_bytes must be at least max_pdf_bytes'') (Inr r))"

record service_auth_policy =
  ap_issuer :: string
  ap_audience :: string
  ap_maximum_age :: int
  ap_correlation_header :: string

definition service_auth_policy_ok :: "service_auth_policy \<Rightarrow> bool" where
  "service_auth_policy_ok a = (ap_issuer a \<noteq> [] \<and> ap_audience a \<noteq> [] \<and> 0 < ap_maximum_age a
     \<and> ap_maximum_age a \<le> 300 \<and> ap_correlation_header a \<noteq> [])"

definition dlp_policy_ok :: "dlp_policy \<Rightarrow> bool" where
  "dlp_policy_ok d = (dp_kinds d \<noteq> [] \<and> dp_instructions d \<noteq> [])"

record retention_policy =
  re_terminal_days :: int
  re_quarantine_days :: int

definition retention_policy_ok :: "retention_policy \<Rightarrow> bool" where
  "retention_policy_ok r = (0 < re_terminal_days r \<and> 0 < re_quarantine_days r)"

record worker_policy =
  wp_tools :: "string list"
  wp_max_calls :: int
  wp_call_timeout :: int
  wp_deadline :: int
  wp_max_attempts :: int
  wp_backoff :: rat
  wp_side_effects :: "string list"

definition worker_policy_ok :: "worker_policy \<Rightarrow> bool" where
  "worker_policy_ok w = (0 < wp_max_calls w \<and> 0 < wp_call_timeout w \<and> 0 < wp_deadline w
     \<and> 0 < wp_max_attempts w \<and> 0 \<le> wp_backoff w)"

record api_limit =
  al_requests :: int
  al_window :: int
  al_max_concurrent :: int
  al_lease :: int

definition api_limit_ok :: "api_limit \<Rightarrow> bool" where
  "api_limit_ok a = (0 < al_requests a \<and> 0 < al_window a \<and> 0 < al_max_concurrent a \<and> 0 < al_lease a)"

record precedent_policy =
  pc_validity_days :: int
  pc_human_decision :: bool

definition precedent_policy_ok :: "precedent_policy \<Rightarrow> bool" where
  "precedent_policy_ok p = (0 < pc_validity_days p)"

record brand_policy =
  bp_notice :: string
  bp_prohibited :: "string list"

definition brand_policy_ok :: "brand_policy \<Rightarrow> bool" where
  "brand_policy_ok b = (bp_notice b \<noteq> [] \<and> bp_prohibited b \<noteq> [])"

record guardrail_policy =
  gp_version :: string
  gp_metrics :: "(string, string) dict"
  gp_resources :: resource_policy
  gp_auth :: service_auth_policy
  gp_dlp :: dlp_policy
  gp_retention :: retention_policy
  gp_workers :: "(string, worker_policy) dict"
  gp_limits :: "(string, api_limit) dict"
  gp_precedent :: precedent_policy
  gp_brand :: brand_policy
  gp_hash :: string

definition sections_ok :: "guardrail_policy \<Rightarrow> bool" where
  "sections_ok p = (gp_version p \<noteq> [] \<and> gp_metrics p \<noteq> [] \<and> service_auth_policy_ok (gp_auth p)
     \<and> dlp_policy_ok (gp_dlp p) \<and> retention_policy_ok (gp_retention p)
     \<and> gp_workers p \<noteq> [] \<and> list_all (\<lambda>(_, w). worker_policy_ok w) (gp_workers p)
     \<and> gp_limits p \<noteq> [] \<and> list_all (\<lambda>(_, a). api_limit_ok a) (gp_limits p)
     \<and> precedent_policy_ok (gp_precedent p) \<and> brand_policy_ok (gp_brand p))"

definition mk_guardrail_policy :: "guardrail_policy \<Rightarrow> guardrail_policy res" where
  "mk_guardrail_policy p =
     res_bind (mk_resource_policy (gp_resources p)) (\<lambda>_.
     raise_if (\<not> sections_ok p) (ValueError ''ValidationError'') (Inr p))"

text \<open>
  \<open>None\<close> is a YAML document that is not a mapping; otherwise the supplied hash (\<open>None\<close> when the
  key is absent or null) and the rest of the mapping, read as a policy with an empty hash.
\<close>

definition from_yaml ::
  "(guardrail_policy \<Rightarrow> string) \<Rightarrow> (string option \<times> guardrail_policy) option \<Rightarrow> guardrail_policy res" where
  "from_yaml canonical payload =
     (case payload of
        None \<Rightarrow> Inl (ValueError ''guardrail policy must be a mapping'')
      | Some (supplied, p) \<Rightarrow>
          (let calculated = sha256_hex (canonical p) in
           raise_if (case supplied of None \<Rightarrow> False | Some h \<Rightarrow> h \<noteq> [] \<and> h \<noteq> calculated)
             (ValueError ''guardrail policy hash does not match its content'')
             (mk_guardrail_policy (p\<lparr>gp_hash := calculated\<rparr>))))"

definition extraction_question :: "guardrail_policy \<Rightarrow> string \<Rightarrow> string res" where
  "extraction_question p metric =
     (case map_of (gp_metrics p) metric of
        None \<Rightarrow> Inl (ValueError ''metric is not allowed by production policy'')
      | Some q \<Rightarrow> Inr q)"

section \<open>Lemmas\<close>

lemma from_yaml_Inr:
  assumes "from_yaml canonical (Some (supplied, p)) = Inr q"
  shows "q = p\<lparr>gp_hash := sha256_hex (canonical p)\<rparr>"
    and "supplied = Some h \<Longrightarrow> h \<noteq> [] \<Longrightarrow> h = gp_hash q"
    and "sections_ok q" "mk_resource_policy (gp_resources q) = Inr (gp_resources q)"
  using assms by (auto simp: from_yaml_def Let_def mk_guardrail_policy_def mk_resource_policy_def res_simps split: option.splits)

text \<open>A loaded policy can hold one document in a batch, and its tokens live at most five minutes.\<close>

lemma loaded_policy_bounds:
  assumes "from_yaml canonical payload = Inr q"
  shows "0 < rp_max_pdf_bytes (gp_resources q) \<and> rp_max_pdf_bytes (gp_resources q) \<le> rp_max_batch_bytes (gp_resources q)
    \<and> 0 < ap_maximum_age (gp_auth q) \<and> ap_maximum_age (gp_auth q) \<le> 300
    \<and> list_all (\<lambda>(_, a). 0 < al_requests a \<and> 0 < al_window a) (gp_limits q)"
proof -
  obtain supplied p where p: "payload = Some (supplied, p)"
    using assms by (cases payload) (auto simp: from_yaml_def)
  note q = from_yaml_Inr(3,4)[OF assms[unfolded p]]
  from q(1) have "list_all (\<lambda>(_, a). 0 < al_requests a \<and> 0 < al_window a) (gp_limits q)"
    by (auto simp: sections_ok_def api_limit_ok_def list_all_iff)
  with q show ?thesis by (auto simp: sections_ok_def service_auth_policy_ok_def mk_resource_policy_def res_simps)
qed

lemma extraction_question_iff:
  "(\<exists>q. extraction_question p m = Inr q) \<longleftrightarrow> dict_has (gp_metrics p) m"
  by (auto simp: extraction_question_def dict_has_def split: option.splits)

end
