(* ===== verification/Chunker.thy ===== *)
theory Chunker
  imports Schema
begin

text \<open>
  \<open>ingest/chunker.py\<close>: text split into overlapping pieces, tables kept whole with their
  caption and preceding paragraph, continued tables merged. Python slices a \<open>str\<close> by code
  point, so the splitting works on the list of code points of the text, each the list of its
  bytes. The lemmas bound the pieces, show that the segments leave no gap, and that every
  table of the document is inside one table chunk.
\<close>

section \<open>Code points\<close>

definition continues :: "char \<Rightarrow> bool" where
  "continues c = (128 \<le> code c \<and> code c < 192)"

function code_points :: "string \<Rightarrow> string list" where
  "code_points [] = []"
| "code_points (c # s) = (c # takeWhile continues s) # code_points (dropWhile continues s)"
  by pat_completeness auto
termination
  by (relation "measure length") (auto simp: le_imp_less_Suc length_dropWhile_le)

lemma concat_code_points [simp]: "concat (code_points s) = s"
  by (induction s rule: code_points.induct) simp_all

definition blank :: "string \<Rightarrow> bool" where
  "blank p = (case p of [c] \<Rightarrow> is_space c | _ \<Rightarrow> False)"

definition strip_points :: "string list \<Rightarrow> string list" where
  "strip_points ps = rev (dropWhile blank (rev (dropWhile blank ps)))"

section \<open>Configuration\<close>

record chunker_config =
  ck_max_text :: int
  ck_overlap :: int
  ck_max_table :: int

definition default_config :: chunker_config where
  "default_config = \<lparr>ck_max_text = 1800, ck_overlap = 180, ck_max_table = 50000\<rparr>"

definition mk_config :: "chunker_config \<Rightarrow> chunker_config res" where   \<comment> \<open>\<open>__post_init__\<close>\<close>
  "mk_config c =
     raise_if (ck_max_text c \<le> 0) (ValueError ''max_text_characters must be positive'')
    (raise_if (\<not> (0 \<le> ck_overlap c \<and> ck_overlap c < ck_max_text c))
       (ValueError ''overlap_characters must be >= 0 and smaller than max'')
    (raise_if (ck_max_table c \<le> 0) (ValueError ''max_table_characters must be positive'') (Inr c)))"

section \<open>Splitting a text\<close>

text \<open>\<open>t.rfind(sub, lo, hi)\<close>; \<open>None\<close> for -1.\<close>

definition rfind :: "string list \<Rightarrow> string list \<Rightarrow> nat \<Rightarrow> nat \<Rightarrow> nat option" where
  "rfind sub t lo hi =
     (case filter (\<lambda>i. take (length sub) (drop i t) = sub) (rev [lo ..< Suc hi - length sub]) of
        [] \<Rightarrow> None | i # _ \<Rightarrow> Some i)"

definition separators :: "string list list" where
  "separators = [[newline, newline], [''.'', '' ''], ['' '']]"

definition piece_end :: "nat \<Rightarrow> string list \<Rightarrow> nat \<Rightarrow> nat" where
  "piece_end maximum t start =
     (let upper = min (start + maximum) (length t) in
      if upper < length t then
        (let viable = filter (\<lambda>c. start < c) (List.map_filter (\<lambda>s. rfind s t start upper) separators) in
         if viable = [] then upper
         else (let e = Max (set viable) in
               if take 2 (drop e t) = [''.'', '' ''] then e + 1 else e))
      else upper)"

text \<open>Where the next piece starts after one that ran from \<open>start\<close> to \<open>e\<close>.\<close>

definition next_start :: "nat \<Rightarrow> nat \<Rightarrow> nat \<Rightarrow> nat" where
  "next_start overlap start e = (if e - overlap \<le> start then e else e - overlap)"

lemma rfind_Some:
  assumes "rfind sub t lo hi = Some i"
  shows "lo \<le> i \<and> i + length sub \<le> hi \<and> take (length sub) (drop i t) = sub \<or> length sub = 0"
proof -
  from assms obtain js where
    "filter (\<lambda>i. take (length sub) (drop i t) = sub) (rev [lo ..< Suc hi - length sub]) = i # js"
    by (auto simp: rfind_def split: list.splits)
  then have "i \<in> set (filter (\<lambda>i. take (length sub) (drop i t) = sub) (rev [lo ..< Suc hi - length sub]))"
    by (metis list.set_intros(1))
  then show ?thesis by auto
qed

lemma viable_in:
  assumes "c \<in> set (filter (\<lambda>c. start < c) (List.map_filter (\<lambda>s. rfind s t start upper) separators))"
  shows "start < c \<and> c < upper \<and> (take 2 (drop c t) = [''.'', '' ''] \<longrightarrow> c + 1 \<le> upper)"
  using assms by (auto simp: separators_def map_filter_simps dest!: rfind_Some split: option.splits)

lemma piece_end_bounds:
  assumes "0 < maximum" "start < length t"
  shows "start < piece_end maximum t start \<and> piece_end maximum t start \<le> start + maximum
    \<and> piece_end maximum t start \<le> length t"
proof -
  let ?u = "min (start + maximum) (length t)"
  let ?v = "filter (\<lambda>c. start < c) (List.map_filter (\<lambda>s. rfind s t start ?u) separators)"
  show ?thesis
  proof (cases "?u < length t \<and> ?v \<noteq> []")
    case True
    then have "set ?v \<noteq> {}" by (simp only: set_empty not_False_eq_True simp_thms)
    then have "Max (set ?v) \<in> set ?v" by (rule Max_in[OF List.finite_set])
    from viable_in[OF this] True show ?thesis
      by (auto simp: piece_end_def Let_def)
  next
    case False
    then have "piece_end maximum t start = ?u" by (auto simp: piece_end_def Let_def)
    with assms show ?thesis by simp
  qed
qed

lemma next_start_bounds: "start < e \<Longrightarrow> start < next_start overlap start e \<and> next_start overlap start e \<le> e"
  by (simp add: next_start_def)

text \<open>The pieces as half-open ranges. The configuration makes \<open>maximum\<close> positive.\<close>

function segments :: "nat \<Rightarrow> nat \<Rightarrow> string list \<Rightarrow> nat \<Rightarrow> (nat \<times> nat) list" where
  "segments maximum overlap t start =
     (if start < length t \<and> 0 < maximum then
        (let e = piece_end maximum t start in
         (start, e) # (if length t \<le> e then [] else segments maximum overlap t (next_start overlap start e)))
      else [])"
  by pat_completeness auto
termination
proof (relation "measure (\<lambda>(maximum, overlap, t, start). length t - start)")
  fix maximum overlap t start and e :: nat
  assume "start < length t \<and> 0 < maximum" "e = piece_end maximum t start" "\<not> length t \<le> e"
  with piece_end_bounds[of maximum start t] next_start_bounds[of start e overlap]
  show "((maximum, overlap, t, next_start overlap start e), maximum, overlap, t, start)
    \<in> measure (\<lambda>(maximum, overlap, t, start). length t - start)"
    by auto
qed simp

declare segments.simps [simp del]

definition slice :: "string list \<Rightarrow> nat \<times> nat \<Rightarrow> string list" where
  "slice t r = take (snd r - fst r) (drop (fst r) t)"

definition split_points :: "nat \<Rightarrow> nat \<Rightarrow> string list \<Rightarrow> string list list" where
  "split_points maximum overlap t =
     (if length t \<le> maximum then [t]
      else filter (\<lambda>p. p \<noteq> []) (map (\<lambda>r. strip_points (slice t r)) (segments maximum overlap t 0)))"

definition split_text :: "chunker_config \<Rightarrow> string \<Rightarrow> string list" where
  "split_text c t = map concat (split_points (nat (ck_max_text c)) (nat (ck_overlap c)) (code_points t))"

section \<open>Chunks of a document\<close>

definition text_chunks :: "chunker_config \<Rightarrow> document_block \<Rightarrow> chunk list" where
  "text_chunks cfg b =
     (let t = strip (blk_text b) in
      if t = [] then []
      else map (\<lambda>(i, part). TextChunk (stable_chunk_id ''text'' part [blk_prov b]) part [blk_prov b]
             [(''block_type'', MStr (block_type_value (blk_type b))), (''part'', MInt (int i))])
           (enumerate 0 (split_text cfg t)))"

text \<open>The index of the block before, else after, that has the type and is on the same page.\<close>

definition adjacent :: "document_block list \<Rightarrow> nat \<Rightarrow> block_type \<Rightarrow> nat option" where
  "adjacent blocks i ty =
     List.find (\<lambda>j. blk_type (blocks ! j) = ty \<and> pv_page (blk_prov (blocks ! j)) = pv_page (blk_prov (blocks ! i)))
       (filter (\<lambda>j. j < length blocks) ((if 0 < i then [i - 1] else []) @ [i + 1]))"

definition preceding_paragraph :: "document_block list \<Rightarrow> nat \<Rightarrow> nat option \<Rightarrow> nat option" where
  "preceding_paragraph blocks i caption =
     (let skip = (if caption \<noteq> None \<and> 0 < i \<and> caption = Some (i - 1) then 2 else 1) in
      if i < skip then None
      else (let j = i - skip in
        if blk_type (blocks ! j) \<notin> {Paragraph, Heading} then None
        else if 1 < pv_page (blk_prov (blocks ! i)) - pv_page (blk_prov (blocks ! j)) then None
        else Some j))"

definition blank_line :: string where
  "blank_line = newline @ newline"

definition nonempty_parts :: "string option list \<Rightarrow> string list" where
  "nonempty_parts xs = filter (\<lambda>x. x \<noteq> []) (List.map_filter id xs)"

definition table_chunk :: "chunker_config \<Rightarrow> document_block list \<Rightarrow> nat \<Rightarrow> chunk res" where
  "table_chunk cfg blocks i =
     (let tbl = blocks ! i in
      raise_if (int (py_len (blk_text tbl)) > ck_max_table cfg)
        (ValueError ''atomic table exceeds configured character limit'')
      (let cap = adjacent blocks i Caption;
           pre = preceding_paragraph blocks i cap;
           caption = map_option (\<lambda>j. blk_text (blocks ! j)) cap;
           preceding = map_option (\<lambda>j. blk_text (blocks ! j)) pre;
           t = join blank_line (nonempty_parts [preceding, caption, Some (blk_text tbl)]);
           prov = uniq (List.map_filter (map_option (\<lambda>j. blk_prov (blocks ! j))) [pre, cap, Some i])
       in Inr (TableChunk (stable_chunk_id ''table'' t prov) t (blk_text tbl) caption preceding prov
            [blk_prov tbl]
            [(''table_id'', case blk_table_id tbl of None \<Rightarrow> MNone | Some x \<Rightarrow> MStr x), (''atomic'', MBool True)])))"

definition is_continuation :: "chunk \<Rightarrow> bool" where
  "is_continuation c =
     (contains ''continued'' (casefold (case tbl_caption c of None \<Rightarrow> [] | Some t \<Rightarrow> t))
      \<or> meta_truthy (map_of (chunk_meta c) ''continued''))"

definition meta_int :: "meta option \<Rightarrow> int \<Rightarrow> int" where
  "meta_int m d = (case m of Some (MInt i) \<Rightarrow> i | _ \<Rightarrow> d)"

definition merge_table_parts :: "chunker_config \<Rightarrow> chunk \<Rightarrow> chunk \<Rightarrow> chunk res" where
  "merge_table_parts cfg a b =
     (let tt = table_text a @ blank_line @ table_text b in
      raise_if (int (py_len tt) > ck_max_table cfg)
        (ValueError ''merged atomic table exceeds configured character limit'')
      (let caps = nonempty_parts [tbl_caption a, tbl_caption b];
           caption = (if caps = [] then None else Some (join '' / '' caps));
           t = join blank_line (nonempty_parts [tbl_preceding a, caption, Some tt]);
           prov = uniq (chunk_prov a @ chunk_prov b);
           m = AList.update ''parts'' (MInt (meta_int (map_of (chunk_meta a) ''parts'') 1 + 1))
                (AList.update ''page_spanning'' (MBool True) (AList.update ''atomic'' (MBool True) (chunk_meta a)))
       in Inr (TableChunk (stable_chunk_id ''table'' t prov) t tt caption (tbl_preceding a) prov
            (table_prov a @ table_prov b) m)))"

text \<open>One block: the state is the chunks so far and the position of the last table chunk.\<close>

definition chunk_step ::
  "chunker_config \<Rightarrow> document_block list \<Rightarrow> nat \<Rightarrow> chunk list \<times> nat option \<Rightarrow> (chunk list \<times> nat option) res" where
  "chunk_step cfg blocks i = (\<lambda>(chunks, last_table).
     (case blk_type (blocks ! i) of
        Table \<Rightarrow>
          res_bind (table_chunk cfg blocks i) (\<lambda>tc.
          (case last_table of
             Some pos \<Rightarrow>
               if is_continuation tc \<and> is_table (chunks ! pos)
               then res_bind (merge_table_parts cfg (chunks ! pos) tc) (\<lambda>m. Inr (chunks[pos := m], last_table))
               else Inr (chunks @ [tc], Some (length chunks))
           | None \<Rightarrow> Inr (chunks @ [tc], Some (length chunks))))
      | Caption \<Rightarrow> Inr (chunks, last_table)
      | Image \<Rightarrow> Inr (chunks, last_table)
      | _ \<Rightarrow> Inr (chunks @ text_chunks cfg (blocks ! i), last_table)))"

fun chunk_loop ::
  "chunker_config \<Rightarrow> document_block list \<Rightarrow> nat list \<Rightarrow> chunk list \<times> nat option \<Rightarrow> (chunk list \<times> nat option) res" where
  "chunk_loop cfg blocks [] s = Inr s"
| "chunk_loop cfg blocks (i # is) s = res_bind (chunk_step cfg blocks i s) (chunk_loop cfg blocks is)"

definition chunk_document :: "chunker_config \<Rightarrow> parsed_document \<Rightarrow> chunk list res" where   \<comment> \<open>\<open>chunk\<close>\<close>
  "chunk_document cfg d =
     (let blocks = doc_blocks d in
      res_bind (chunk_loop cfg blocks [0..<length blocks] ([], None)) (\<lambda>(chunks, _). Inr chunks))"

section \<open>Pieces\<close>

lemma segments_bounds:
  "(s, e) \<in> set (segments maximum overlap t start) \<Longrightarrow>
     start \<le> s \<and> s < e \<and> e \<le> s + maximum \<and> e \<le> length t"
proof (induction maximum overlap t start rule: segments.induct)
  case (1 maximum overlap t start)
  then show ?case
    using piece_end_bounds[of maximum start t] next_start_bounds[of start "piece_end maximum t start" overlap]
    by (subst (asm) (2) segments.simps) (auto simp: Let_def split: if_splits)
qed

text \<open>The ranges start at the start, end at the end, move forward, and never leave a gap.\<close>

fun chained :: "nat \<Rightarrow> (nat \<times> nat) list \<Rightarrow> bool" where
  "chained overlap [] = True"
| "chained overlap [r] = True"
| "chained overlap (r # q # rs) =
     (fst r < fst q \<and> fst q \<le> snd r \<and> snd r \<le> fst q + overlap \<and> chained overlap (q # rs))"

lemma segments_chain:
  assumes "0 < maximum" "start < length t"
  shows "chained overlap (segments maximum overlap t start)
    \<and> segments maximum overlap t start \<noteq> [] \<and> fst (hd (segments maximum overlap t start)) = start
    \<and> snd (last (segments maximum overlap t start)) = length t"
  using assms
proof (induction maximum overlap t start rule: segments.induct)
  case (1 maximum overlap t start)
  define e where "e = piece_end maximum t start"
  from piece_end_bounds[of maximum start t] "1.prems" have e: "start < e" "e \<le> length t"
    by (auto simp: e_def)
  show ?case
  proof (cases "length t \<le> e")
    case True
    with "1.prems" e show ?thesis by (subst (1 2 3 4) segments.simps) (simp add: Let_def flip: e_def)
  next
    case False
    define n where "n = next_start overlap start e"
    have n: "start < n" "n \<le> e" using next_start_bounds[OF e(1)] by (auto simp: n_def)
    have gap: "e \<le> n + overlap" by (simp add: n_def next_start_def)
    have seg: "segments maximum overlap t start = (start, e) # segments maximum overlap t n"
      using "1.prems" False by (subst segments.simps) (simp add: Let_def e_def n_def)
    have ih: "chained overlap (segments maximum overlap t n) \<and> segments maximum overlap t n \<noteq> []
      \<and> fst (hd (segments maximum overlap t n)) = n \<and> snd (last (segments maximum overlap t n)) = length t"
      using "1.IH"[of e] "1.prems" False n by (simp add: e_def n_def)
    then show ?thesis
      unfolding seg using n gap by (cases "segments maximum overlap t n") auto
  qed
qed

lemma chained_cover:
  "chained k rs \<Longrightarrow> rs \<noteq> [] \<Longrightarrow> fst (hd rs) \<le> i \<Longrightarrow> i < snd (last rs) \<Longrightarrow>
     \<exists>r \<in> set rs. fst r \<le> i \<and> i < snd r"
proof (induction k rs rule: chained.induct)
  case (3 overlap r q rs)
  show ?case
  proof (cases "i < snd r")
    case True
    with 3 show ?thesis by auto
  next
    case False
    with 3 show ?thesis by fastforce
  qed
qed auto

text \<open>Every position of the text is inside some piece's range.\<close>

lemma segments_cover:
  assumes "0 < maximum" "i < length t"
  shows "\<exists>r \<in> set (segments maximum overlap t 0). fst r \<le> i \<and> i < snd r"
  using segments_chain[of maximum 0 t overlap] chained_cover[of overlap "segments maximum overlap t 0" i] assms
  by fastforce

lemma length_slice: "length (slice t r) \<le> snd r - fst r"
  by (simp add: slice_def)

lemma length_strip_points: "length (strip_points ps) \<le> length ps"
  unfolding strip_points_def
  by (metis length_dropWhile_le length_rev order_trans)

lemma split_points_length:
  "p \<in> set (split_points maximum overlap t) \<Longrightarrow> length p \<le> maximum"
proof (cases "length t \<le> maximum")
  case False
  assume "p \<in> set (split_points maximum overlap t)"
  with False obtain r where r: "r \<in> set (segments maximum overlap t 0)" "p = strip_points (slice t r)"
    by (auto simp: split_points_def)
  with segments_bounds[of "fst r" "snd r" maximum overlap t 0]
  show ?thesis
    using length_strip_points[of "slice t r"] length_slice[of t r] by auto
qed (simp add: split_points_def)

text \<open>A non-blank code point survives the stripping of the pieces it falls in.\<close>

lemma in_dropWhile: "x \<in> set xs \<Longrightarrow> \<not> P x \<Longrightarrow> x \<in> set (dropWhile P xs)"
  by (induction xs) auto

lemma strip_points_keeps: "x \<in> set ps \<Longrightarrow> \<not> blank x \<Longrightarrow> x \<in> set (strip_points ps)"
  by (simp add: strip_points_def in_dropWhile)

lemma split_points_keeps:
  assumes "0 < maximum" "x \<in> set t" "\<not> blank x"
  shows "\<exists>p \<in> set (split_points maximum overlap t). x \<in> set p"
proof (cases "length t \<le> maximum")
  case True
  with assms show ?thesis by (simp add: split_points_def)
next
  case False
  from assms(2) obtain i where i: "i < length t" "t ! i = x" by (auto simp: in_set_conv_nth)
  from segments_cover[OF assms(1) i(1)] obtain r where
    r: "r \<in> set (segments maximum overlap t 0)" "fst r \<le> i" "i < snd r" by blast
  have "x \<in> set (slice t r)"
    unfolding slice_def in_set_conv_nth using r i by (intro exI[of _ "i - fst r"]) auto
  then have "x \<in> set (strip_points (slice t r))" using assms(3) by (intro strip_points_keeps)
  then have "strip_points (slice t r) \<in> set (split_points maximum overlap t)"
    using False r by (auto simp: split_points_def)
  then show ?thesis using \<open>x \<in> set (strip_points (slice t r))\<close> by blast
qed

section \<open>Tables stay whole\<close>

definition table_ok :: "chunker_config \<Rightarrow> chunk \<Rightarrow> bool" where
  "table_ok cfg c = (is_table c \<longrightarrow> int (py_len (table_text c)) \<le> ck_max_table cfg
     \<and> table_prov c \<noteq> [] \<and> set (table_prov c) \<subseteq> set (chunk_prov c))"

definition holds_table :: "chunk list \<Rightarrow> document_block \<Rightarrow> bool" where
  "holds_table chunks b =
     (\<exists>c \<in> set chunks. is_table c \<and> contains (blk_text b) (table_text c) \<and> blk_prov b \<in> set (table_prov c))"

definition loop_ok :: "chunker_config \<Rightarrow> document_block list \<Rightarrow> nat set \<Rightarrow> chunk list \<times> nat option \<Rightarrow> bool" where
  "loop_ok cfg blocks done s =
     ((\<forall>c \<in> set (fst s). table_ok cfg c) \<and>
      (\<forall>pos. snd s = Some pos \<longrightarrow> pos < length (fst s)) \<and>
      (\<forall>i \<in> done. blk_type (blocks ! i) = Table \<longrightarrow> holds_table (fst s) (blocks ! i)))"

lemma table_chunk_Inr:
  assumes "table_chunk cfg blocks i = Inr c"
  shows "is_table c \<and> table_text c = blk_text (blocks ! i) \<and> table_prov c = [blk_prov (blocks ! i)]
    \<and> table_ok cfg c"
  using assms
  by (auto simp: table_chunk_def Let_def raise_if_Inr_iff is_table_def table_ok_def map_filter_simps
      split: option.splits)

lemma merge_table_parts_Inr:
  assumes "merge_table_parts cfg a b = Inr c"
  shows "is_table c \<and> table_text c = table_text a @ blank_line @ table_text b
    \<and> table_prov c = table_prov a @ table_prov b
    \<and> set (chunk_prov c) = set (chunk_prov a) \<union> set (chunk_prov b)
    \<and> int (py_len (table_text c)) \<le> ck_max_table cfg"
  using assms by (auto simp: merge_table_parts_def Let_def raise_if_Inr_iff is_table_def)

lemma contains_left: "contains p s \<Longrightarrow> contains p (s @ r)"
  unfolding contains_iff by (metis append.assoc)

lemma contains_right: "contains p s \<Longrightarrow> contains p (r @ s)"
  unfolding contains_iff by (metis append.assoc)

lemma contains_self [simp]: "contains p p"
  using contains_append[of p "[]" "[]"] by simp

lemma text_chunks_not_table: "c \<in> set (text_chunks cfg b) \<Longrightarrow> \<not> is_table c"
  by (auto simp: text_chunks_def Let_def is_table_def split: if_splits)

lemma loop_ok_append:
  assumes "loop_ok cfg blocks D (cs, l)" "\<forall>c \<in> set ds. table_ok cfg c"
    and "l' = l \<or> (\<exists>p. l' = Some p \<and> p < length (cs @ ds))"
    and "blk_type (blocks ! i) = Table \<longrightarrow> holds_table (cs @ ds) (blocks ! i)"
  shows "loop_ok cfg blocks (insert i D) (cs @ ds, l')"
  using assms by (fastforce simp: loop_ok_def holds_table_def)

lemma loop_ok_merge:
  assumes ok: "loop_ok cfg blocks D (cs, Some pos)" and a: "is_table (cs ! pos)"
    and b: "table_chunk cfg blocks i = Inr b" and m: "merge_table_parts cfg (cs ! pos) b = Inr m"
  shows "loop_ok cfg blocks (insert i D) (cs[pos := m], Some pos)"
proof -
  from ok have pos: "pos < length cs" by (simp add: loop_ok_def)
  then have in_cs: "cs ! pos \<in> set cs" by simp
  note mm = merge_table_parts_Inr[OF m] and bb = table_chunk_Inr[OF b]
  have tok: "table_ok cfg m"
    using mm bb ok in_cs a by (auto simp: table_ok_def loop_ok_def)
  have "m \<in> set (cs[pos := m])" using pos by (rule set_update_memI)
  moreover have "contains (blk_text (blocks ! i)) (table_text m)" "blk_prov (blocks ! i) \<in> set (table_prov m)"
    using mm bb contains_right[OF contains_right[OF contains_self]] by auto
  ultimately have new: "holds_table (cs[pos := m]) (blocks ! i)"
    using mm unfolding holds_table_def by blast
  have old: "holds_table (cs[pos := m]) b'" if "holds_table cs b'" for b'
  proof -
    from that obtain c where c: "c \<in> set cs" "is_table c" "contains (blk_text b') (table_text c)"
      "blk_prov b' \<in> set (table_prov c)" by (auto simp: holds_table_def)
    then obtain k where k: "k < length cs" "cs ! k = c" by (auto simp: in_set_conv_nth)
    show ?thesis
    proof (cases "k = pos")
      case True
      with c k mm have "contains (blk_text b') (table_text m)" "blk_prov b' \<in> set (table_prov m)"
        by (auto intro: contains_left)
      with mm \<open>m \<in> set (cs[pos := m])\<close> show ?thesis unfolding holds_table_def by blast
    next
      case False
      with k have "cs[pos := m] ! k = c" "k < length (cs[pos := m])" by auto
      then have "c \<in> set (cs[pos := m])" by (metis nth_mem)
      with c show ?thesis unfolding holds_table_def by blast
    qed
  qed
  from ok new old tok pos show ?thesis
    by (auto simp: loop_ok_def dest!: set_update_subset_insert[THEN subsetD])
qed

lemma chunk_step_ok:
  assumes ok: "loop_ok cfg blocks D s" and st: "chunk_step cfg blocks i s = Inr s'"
  shows "loop_ok cfg blocks (insert i D) s'"
proof -
  obtain cs l where s: "s = (cs, l)" by fastforce
  show ?thesis
  proof (cases "blk_type (blocks ! i) = Table")
    case False
    then consider "s' = (cs, l)" | "s' = (cs @ text_chunks cfg (blocks ! i), l)"
      using st s by (cases "blk_type (blocks ! i)") (auto simp: chunk_step_def)
    then show ?thesis
    proof cases
      case 1
      with loop_ok_append[of cfg blocks D cs l "[]" l i] ok s False show ?thesis by simp
    next
      case 2
      have "\<forall>c \<in> set (text_chunks cfg (blocks ! i)). table_ok cfg c"
        by (auto simp: table_ok_def dest: text_chunks_not_table)
      from loop_ok_append[OF ok[unfolded s] this, of l i] 2 False show ?thesis by simp
    qed
  next
    case True
    with st s obtain tc where tc: "table_chunk cfg blocks i = Inr tc"
      by (auto simp: chunk_step_def res_bind_Inr_iff)
    note t = table_chunk_Inr[OF tc]
    have app: "loop_ok cfg blocks (insert i D) (cs @ [tc], Some (length cs))"
      using loop_ok_append[OF ok[unfolded s], of "[tc]" "Some (length cs)" i] t
      by (auto simp: holds_table_def)
    show ?thesis
    proof (cases "\<exists>pos. l = Some pos \<and> is_continuation tc \<and> is_table (cs ! pos)")
      case True
      then obtain pos where pos: "l = Some pos" "is_continuation tc" "is_table (cs ! pos)" by blast
      with st s tc \<open>blk_type (blocks ! i) = Table\<close> obtain m where
        "merge_table_parts cfg (cs ! pos) tc = Inr m" "s' = (cs[pos := m], Some pos)"
        by (auto simp: chunk_step_def res_bind_Inr_iff)
      with loop_ok_merge[OF ok[unfolded s pos(1)] pos(3) tc] show ?thesis by simp
    next
      case False
      with st s tc \<open>blk_type (blocks ! i) = Table\<close> have "s' = (cs @ [tc], Some (length cs))"
        by (auto simp: chunk_step_def split: option.splits if_splits)
      with app show ?thesis by simp
    qed
  qed
qed

lemma chunk_loop_ok:
  "loop_ok cfg blocks D s \<Longrightarrow> chunk_loop cfg blocks is s = Inr s' \<Longrightarrow> loop_ok cfg blocks (D \<union> set is) s'"
proof (induction "is" arbitrary: D s)
  case (Cons i "is")
  from Cons.prems(2) obtain s1 where s1: "chunk_step cfg blocks i s = Inr s1"
    and rest: "chunk_loop cfg blocks is s1 = Inr s'"
    by (auto simp: res_bind_Inr_iff)
  from Cons.IH[OF chunk_step_ok[OF Cons.prems(1) s1] rest] show ?case by simp
qed simp

lemma chunk_document_tables:
  assumes "chunk_document cfg d = Inr chunks"
  shows "(\<forall>c \<in> set chunks. table_ok cfg c) \<and>
    (\<forall>b \<in> set (doc_blocks d). blk_type b = Table \<longrightarrow> holds_table chunks b)"
proof -
  from assms obtain l where l: "chunk_loop cfg (doc_blocks d) [0..<length (doc_blocks d)] ([], None) = Inr (chunks, l)"
    by (auto simp: chunk_document_def Let_def res_bind_Inr_iff)
  have "loop_ok cfg (doc_blocks d) {} ([], None)" by (simp add: loop_ok_def)
  from chunk_loop_ok[OF this l] show ?thesis
    by (fastforce simp: loop_ok_def in_set_conv_nth)
qed

end
