(* ===== verification/Auth.thy ===== *)
theory Auth
  imports Complex_Main Sha256
begin

unbundle bit_operations_syntax

text \<open>
  \<open>security/auth.py\<close> and the replay table of \<open>security/registry.py\<close>: verification of a signed
  service token and the one-time consumption of its identifier. Base64 and HMAC-SHA256 are
  defined; parsing the header as JSON and validating the claims (pydantic) are arguments.
  The locale \<open>replay_ledger\<close> is the \<open>ReplayLedger\<close> protocol; the in-memory dictionary and
  the PostgreSQL table are its two models.
\<close>

section \<open>URL-safe Base64\<close>

definition b64_value :: "char \<Rightarrow> int option" where
  "b64_value c =
     (let n = int (code c) in
      if is_upper c then Some (n - 65) else if is_lower c then Some (n - 71)
      else if is_digit c then Some (n + 4)
      else if c = CHR ''-'' \<or> c = CHR ''+'' then Some 62
      else if c = CHR ''_'' \<or> c = CHR ''/'' then Some 63 else None)"

text \<open>
  \<open>a2b_base64\<close> in its lenient mode: characters outside the alphabet are skipped, a padded
  quartet ends the input. The state is the place in the quartet, the pending bits and the pads.
\<close>

fun b64_decode :: "nat \<Rightarrow> int \<Rightarrow> nat \<Rightarrow> string \<Rightarrow> int list option" where
  "b64_decode q left pads [] = (if q = 0 then Some [] else None)"
| "b64_decode q left pads (c # s) =
     (if c = CHR ''='' then
        (if 2 \<le> q \<and> 4 \<le> q + Suc pads then Some [] else b64_decode q left (Suc pads) s)
      else case b64_value c of
        None \<Rightarrow> b64_decode q left pads s
      | Some v \<Rightarrow>
          if q = 0 then b64_decode 1 v 0 s
          else if q = 1 then map_option ((#) (left * 4 + v div 16)) (b64_decode 2 (v mod 16) 0 s)
          else if q = 2 then map_option ((#) (left * 16 + v div 4)) (b64_decode 3 (v mod 4) 0 s)
          else map_option ((#) (left * 64 + v)) (b64_decode 0 0 0 s))"

definition decode_segment :: "string \<Rightarrow> int list option" where
  "decode_segment v =
     (if list_ex (\<lambda>c. 128 \<le> code c) v then None   \<comment> \<open>\<open>_bytes_from_decode_data\<close> refuses a text that is not ASCII\<close>
      else b64_decode 0 0 0 (v @ replicate ((4 - length v mod 4) mod 4) CHR ''=''))"

section \<open>HMAC-SHA256\<close>

definition word_bytes :: "word32 \<Rightarrow> int list" where
  "word_bytes w = [uint w div 16777216, uint w div 65536 mod 256, uint w div 256 mod 256, uint w mod 256]"

definition sha256_bytes :: "int list \<Rightarrow> int list" where
  "sha256_bytes m = concat (map word_bytes (sha256_words m))"

definition hmac_sha256 :: "int list \<Rightarrow> int list \<Rightarrow> int list" where
  "hmac_sha256 key m =
     (let k = (if 64 < length key then sha256_bytes key else key);
          k = k @ replicate (64 - length k) 0
      in sha256_bytes (map (\<lambda>b. b XOR 0x5c) k @ sha256_bytes (map (\<lambda>b. b XOR 0x36) k @ m)))"

definition bytes_of :: "string \<Rightarrow> int list" where
  "bytes_of s = map (\<lambda>c. int (code c)) s"

section \<open>Verification\<close>

record claims =
  cl_sub :: string
  cl_aud :: "string list"
  cl_iss :: string
  cl_roles :: "string list"
  cl_application :: string
  cl_jti :: string
  cl_iat :: int
  cl_exp :: int

record auth_policy =
  au_issuer :: string
  au_audience :: string
  au_max_age :: int

text \<open>The JSON header: an object with its \<open>alg\<close> and \<open>typ\<close>, or some other JSON value.\<close>

datatype jwt_header = HeaderObject "string option" "string option" | HeaderOther

record jwt_codec =
  jc_header :: "int list \<Rightarrow> jwt_header option"
  jc_claims :: "int list \<Rightarrow> claims option"

definition invalid_authorization :: exc where
  "invalid_authorization = ValueError ''invalid service authorization''"

definition mk_verifier :: "string \<Rightarrow> unit res" where   \<comment> \<open>\<open>__init__\<close>\<close>
  "mk_verifier secret =
     raise_if (py_len secret < 32) (ValueError ''service JWT secret must contain at least 32 characters'') (Inr ())"

definition option_res :: "exc \<Rightarrow> 'a option \<Rightarrow> 'a res" where
  "option_res e x = (case x of None \<Rightarrow> Inl e | Some v \<Rightarrow> Inr v)"

text \<open>The \<open>try\<close> block: a value error inside it becomes one message.\<close>

definition parse_token :: "jwt_codec \<Rightarrow> string \<Rightarrow> string \<Rightarrow> claims res" where
  "parse_token codec secret token =
     (case split_on CHR ''.'' token of
        [h, p, s] \<Rightarrow>
          res_bind (option_res invalid_authorization (decode_segment h)) (\<lambda>hb.
          res_bind (option_res invalid_authorization (jc_header codec hb)) (\<lambda>header.
          (case header of
             HeaderOther \<Rightarrow> Inl (AttributeError ''get'')
           | HeaderObject alg typ \<Rightarrow>
               raise_if (alg \<noteq> Some ''HS256'' \<or> (typ \<noteq> None \<and> typ \<noteq> Some ''JWT'')) invalid_authorization
              (res_bind (option_res invalid_authorization (decode_segment s)) (\<lambda>supplied.
               raise_if (hmac_sha256 (bytes_of secret) (bytes_of (h @ ''.'' @ p)) \<noteq> supplied) invalid_authorization
              (res_bind (option_res invalid_authorization (decode_segment p)) (\<lambda>pb.
               option_res invalid_authorization (jc_claims codec pb)))))))) 
      | _ \<Rightarrow> Inl invalid_authorization)"

definition check_claims :: "auth_policy \<Rightarrow> int \<Rightarrow> string \<Rightarrow> string \<Rightarrow> claims \<Rightarrow> claims res" where
  "check_claims policy now role application c =
     raise_if (cl_iss c \<noteq> au_issuer policy \<or> au_audience policy \<notin> set (cl_aud c))
       (ValueError ''invalid service token issuer or audience'')
    (raise_if (cl_iat c > now + 30 \<or> cl_exp c \<le> now) (ValueError ''service token is expired or not yet valid'')
    (raise_if (cl_application c \<noteq> application)
       (PermissionError ''service token is scoped to a different application'')
    (raise_if (role \<notin> set (cl_roles c)) (PermissionError ''service role is not authorized for this operation'')
    (raise_if (cl_exp c - cl_iat c > au_max_age policy) (ValueError ''service token lifetime exceeds policy'')
    (Inr c)))))"

text \<open>
  A request carries the two readings of the clock the code makes: in \<open>verify\<close>, cut to
  seconds, and in the ledger.
\<close>

record request =
  rq_token :: string
  rq_role :: string
  rq_application :: string
  rq_now :: int
  rq_ledger_now :: rat
  rq_consume :: bool

definition verify ::
  "('s \<Rightarrow> rat \<Rightarrow> string \<Rightarrow> int \<Rightarrow> bool \<times> 's) \<Rightarrow> jwt_codec \<Rightarrow> string \<Rightarrow> auth_policy \<Rightarrow> request \<Rightarrow> 's \<Rightarrow> claims res \<times> 's" where
  "verify consume codec secret policy r s =
     (case res_bind (parse_token codec secret (rq_token r))
             (check_claims policy (rq_now r) (rq_role r) (rq_application r)) of
        Inl e \<Rightarrow> (Inl e, s)
      | Inr c \<Rightarrow>
          if \<not> rq_consume r then (Inr c, s)
          else (case consume s (rq_ledger_now r) (cl_jti c) (cl_exp c) of
                  (True, s') \<Rightarrow> (Inr c, s')
                | (False, s') \<Rightarrow> (Inl (ValueError ''service token replay detected''), s')))"

text \<open>A sequence of requests, each against the ledger the ones before it left.\<close>

fun verify_all ::
  "('s \<Rightarrow> rat \<Rightarrow> string \<Rightarrow> int \<Rightarrow> bool \<times> 's) \<Rightarrow> jwt_codec \<Rightarrow> string \<Rightarrow> auth_policy \<Rightarrow> request list \<Rightarrow> 's \<Rightarrow>
   claims res list \<times> 's" where
  "verify_all consume codec secret policy [] s = ([], s)"
| "verify_all consume codec secret policy (r # rs) s =
     (let (out, s') = verify consume codec secret policy r s;
          (outs, s'') = verify_all consume codec secret policy rs s'
      in (out # outs, s''))"

lemma verify_state:
  assumes "verify consume codec secret policy r s = (out, s')"
  shows "s' = s \<or> (\<exists>c :: claims. s' = snd (consume s (rq_ledger_now r) (cl_jti c) (cl_exp c)))"
proof (cases "res_bind (parse_token codec secret (rq_token r))
    (check_claims policy (rq_now r) (rq_role r) (rq_application r))")
  case (Inl e)
  with assms show ?thesis by (simp add: verify_def)
next
  case (Inr c)
  obtain ok s1 where con: "consume s (rq_ledger_now r) (cl_jti c) (cl_exp c) = (ok, s1)" by fastforce
  have "s' = s \<or> s' = s1"
    using assms Inr con by (cases ok; cases "rq_consume r") (simp_all add: verify_def)
  moreover have "s1 = snd (consume s (rq_ledger_now r) (cl_jti c) (cl_exp c))" by (simp add: con)
  ultimately show ?thesis by blast
qed

section \<open>The ledgers\<close>

type_synonym ledger = "(string, int) dict"

definition memory_consume :: "ledger \<Rightarrow> rat \<Rightarrow> string \<Rightarrow> int \<Rightarrow> bool \<times> ledger" where
  "memory_consume entries now jti expires =
     (let kept = filter (\<lambda>(k, e). of_int e > now) entries in
      if dict_has kept jti then (False, kept) else (True, AList.update jti expires kept))"

text \<open>
  The table \<open>jwt_replay\<close>, \<open>jti\<close> its primary key: \<open>DELETE ... WHERE expires_at <= now()\<close>, then
  \<open>INSERT ... ON CONFLICT (jti) DO NOTHING\<close> and its row count.
\<close>

definition insert_do_nothing :: "string \<Rightarrow> 'v \<Rightarrow> (string, 'v) dict \<Rightarrow> nat \<times> (string, 'v) dict" where
  "insert_do_nothing k v rows = (if dict_has rows k then (0, rows) else (1, rows @ [(k, v)]))"

definition postgres_consume :: "ledger \<Rightarrow> rat \<Rightarrow> string \<Rightarrow> int \<Rightarrow> bool \<times> ledger" where
  "postgres_consume rows now jti expires =
     (let rows' = filter (\<lambda>(k, e). \<not> of_int e \<le> now) rows;
          (count, rows'') = insert_do_nothing jti expires rows'
      in (count = 1, rows''))"

definition ledger_live :: "ledger \<Rightarrow> rat \<Rightarrow> string \<Rightarrow> bool" where
  "ledger_live s now jti = list_ex (\<lambda>(k, e). k = jti \<and> of_int e > now) s"

section \<open>The replay protocol\<close>

text \<open>
  \<open>live s now j\<close>: identifier \<open>j\<close> was consumed and its entry has not expired at \<open>now\<close>.
  Consumption succeeds exactly when the identifier is not live, and records it.
\<close>

locale replay_ledger =
  fixes consume :: "'s \<Rightarrow> rat \<Rightarrow> string \<Rightarrow> int \<Rightarrow> bool \<times> 's"
    and live :: "'s \<Rightarrow> rat \<Rightarrow> string \<Rightarrow> bool"
  assumes consume_iff: "fst (consume s now j e) \<longleftrightarrow> \<not> live s now j"
    and consume_live: "now \<le> now' \<Longrightarrow>
      live (snd (consume s now j e)) now' k \<longleftrightarrow>
        (if k = j \<and> fst (consume s now j e) then of_int e > now' else live s now' k)"
begin

lemma verify_accepts:
  assumes "verify consume codec secret policy r s = (Inr c, s')" "rq_consume r"
  shows "\<not> live s (rq_ledger_now r) (cl_jti c)
    \<and> (\<forall>now'. rq_ledger_now r \<le> now' \<longrightarrow> of_int (cl_exp c) > now' \<longrightarrow> live s' now' (cl_jti c))
    \<and> parse_token codec secret (rq_token r) = Inr c"
proof -
  from assms obtain p where p: "parse_token codec secret (rq_token r) = Inr p"
    and k: "check_claims policy (rq_now r) (rq_role r) (rq_application r) p = Inr c"
    and con: "consume s (rq_ledger_now r) (cl_jti c) (cl_exp c) = (True, s')"
    by (auto simp: verify_def res_bind_def split: sum.splits bool.splits prod.splits)
  from k have "p = c" by (auto simp: check_claims_def raise_if_Inr_iff)
  with p con consume_iff[of s "rq_ledger_now r" "cl_jti c" "cl_exp c"]
    consume_live[of "rq_ledger_now r" _ s "cl_jti c" "cl_exp c" "cl_jti c"]
  show ?thesis by auto
qed

text \<open>A live identifier stays live over a run whose clock does not pass a point before expiry.\<close>

lemma live_after_verify:
  assumes v: "verify consume codec secret policy r s = (out, s')" and t: "rq_ledger_now r \<le> now'"
    and l: "live s now' k" and mono: "\<And>n. n \<le> now' \<Longrightarrow> live s now' k \<Longrightarrow> live s n k"
  shows "live s' now' k"
proof -
  from verify_state[OF v] show ?thesis
  proof
    assume "\<exists>c :: claims. s' = snd (consume s (rq_ledger_now r) (cl_jti c) (cl_exp c))"
    then obtain c :: claims where 2: "s' = snd (consume s (rq_ledger_now r) (cl_jti c) (cl_exp c))" by blast
    have "live s (rq_ledger_now r) k" using mono[OF t l] .
    then have "\<not> (k = cl_jti c \<and> fst (consume s (rq_ledger_now r) (cl_jti c) (cl_exp c)))"
      using consume_iff by auto
    with 2 consume_live[OF t, of s "cl_jti c" "cl_exp c" k] l show ?thesis by auto
  qed (use l in simp)
qed

end

text \<open>Expiry only passes once: what is live later is live earlier.\<close>

locale expiring_ledger = replay_ledger +
  assumes live_antimono: "now \<le> now' \<Longrightarrow> live s now' j \<Longrightarrow> live s now j"
begin

lemma run_keeps_live:
  "verify_all consume codec secret policy rs s = (outs, s') \<Longrightarrow> \<forall>r \<in> set rs. rq_ledger_now r \<le> now' \<Longrightarrow>
     live s now' k \<Longrightarrow> live s' now' k"
proof (induction rs arbitrary: s outs)
  case (Cons r rs)
  obtain out s1 where v: "verify consume codec secret policy r s = (out, s1)" by fastforce
  obtain outs1 s2 where rr: "verify_all consume codec secret policy rs s1 = (outs1, s2)" by fastforce
  have "live s1 now' k"
    using live_after_verify[OF v _ Cons.prems(3)] Cons.prems(2) live_antimono by auto
  moreover have "s2 = s'" using Cons.prems(1) v rr by simp
  ultimately show ?case using Cons.IH[of s1 outs1] rr Cons.prems(2) by simp
qed simp

text \<open>
  A token that was accepted is never accepted again before it expires, whatever other
  requests come in between.
\<close>

lemma no_replay:
  assumes v1: "verify consume codec secret policy r1 s0 = (Inr c, s1)" "rq_consume r1"
    and mid: "verify_all consume codec secret policy rs s1 = (outs, s2)"
    and clock: "rq_ledger_now r1 \<le> rq_ledger_now r2" "\<forall>r \<in> set rs. rq_ledger_now r \<le> rq_ledger_now r2"
    and same: "rq_token r2 = rq_token r1" "rq_consume r2"
    and fresh: "rq_ledger_now r2 < of_int (cl_exp c)"
  shows "fst (verify consume codec secret policy r2 s2) \<noteq> Inr c'"
proof
  assume "fst (verify consume codec secret policy r2 s2) = Inr c'"
  then obtain s3 where v2: "verify consume codec secret policy r2 s2 = (Inr c', s3)"
    by (metis prod.collapse)
  from verify_accepts[OF v1] clock(1) fresh
  have "live s1 (rq_ledger_now r2) (cl_jti c)" and p1: "parse_token codec secret (rq_token r1) = Inr c"
    by blast+
  with run_keeps_live[OF mid clock(2)] have "live s2 (rq_ledger_now r2) (cl_jti c)" by blast
  moreover from verify_accepts[OF v2 same(2)] p1 same(1)
  have "c' = c" "\<not> live s2 (rq_ledger_now r2) (cl_jti c')" by auto
  ultimately show False by simp
qed

end

lemma dict_has_filter_live: "dict_has (filter (\<lambda>(k, e). of_int e > (now :: rat)) s) j \<longleftrightarrow> ledger_live s now j"
  by (induction s) (auto simp: dict_has_def ledger_live_def)

lemma ledger_live_antimono: "now \<le> now' \<Longrightarrow> ledger_live s now' j \<Longrightarrow> ledger_live s now j"
  by (induction s) (auto simp: ledger_live_def)

lemma ledger_live_filter:
  "now \<le> now' \<Longrightarrow> ledger_live (filter (\<lambda>(k, e). of_int e > now) s) now' j \<longleftrightarrow> ledger_live s now' j"
  by (induction s) (auto simp: ledger_live_def)

lemma ledger_live_Cons: "ledger_live ((k, e) # s) now j \<longleftrightarrow> (k = j \<and> of_int e > now) \<or> ledger_live s now j"
  by (simp add: ledger_live_def)

lemma ledger_live_append: "ledger_live (s @ t) now j \<longleftrightarrow> ledger_live s now j \<or> ledger_live t now j"
  by (simp add: ledger_live_def)

lemma update_absent: "\<not> dict_has d k \<Longrightarrow> AList.update k v d = d @ [(k, v)]"
  by (induction d) (auto simp: dict_has_def split: if_splits)

lemma postgres_consume_memory: "postgres_consume rows now j e = memory_consume rows now j e"
  by (auto simp: postgres_consume_def memory_consume_def insert_do_nothing_def Let_def update_absent not_le)

lemma ledger_live_absent: "\<not> dict_has (filter (\<lambda>(k, e). of_int e > now) s) j \<Longrightarrow> now \<le> now' \<Longrightarrow> \<not> ledger_live s now' j"
  by (metis dict_has_filter_live ledger_live_antimono)

interpretation memory_ledger: expiring_ledger memory_consume ledger_live
proof
  fix s now j e
  show "fst (memory_consume s now j e) \<longleftrightarrow> \<not> ledger_live s now j"
    by (simp add: memory_consume_def Let_def dict_has_filter_live)
next
  fix now now' s j e k
  assume le: "now \<le> (now' :: rat)"
  show "ledger_live (snd (memory_consume s now j e)) now' k \<longleftrightarrow>
      (if k = j \<and> fst (memory_consume s now j e) then of_int e > now' else ledger_live s now' k)"
  proof (cases "dict_has (filter (\<lambda>(k, e). of_int e > now) s) j")
    case True
    with le show ?thesis by (simp add: memory_consume_def Let_def ledger_live_filter)
  next
    case False
    with le ledger_live_absent[OF False le] show ?thesis
      by (auto simp: memory_consume_def Let_def update_absent ledger_live_append ledger_live_filter
          ledger_live_Cons) (auto simp: ledger_live_def)
  qed
qed (rule ledger_live_antimono)

interpretation postgres_ledger: expiring_ledger postgres_consume ledger_live
  unfolding postgres_consume_memory[abs_def] by (rule memory_ledger.expiring_ledger_axioms)

section \<open>Segments\<close>

text \<open>The issuer's side: unpadded URL-safe base64. Decoding gives the bytes back.\<close>

definition b64_char :: "int \<Rightarrow> char" where
  "b64_char v =
     (if v < 26 then char_of (nat (v + 65)) else if v < 52 then char_of (nat (v + 71))
      else if v < 62 then char_of (nat (v - 4)) else if v = 62 then CHR ''-'' else CHR ''_'')"

fun encode_segment :: "int list \<Rightarrow> string" where
  "encode_segment [] = []"
| "encode_segment [a] = [b64_char (a div 4), b64_char (a mod 4 * 16)]"
| "encode_segment [a, b] = [b64_char (a div 4), b64_char (a mod 4 * 16 + b div 16), b64_char (b mod 16 * 4)]"
| "encode_segment (a # b # c # xs) =
     [b64_char (a div 4), b64_char (a mod 4 * 16 + b div 16), b64_char (b mod 16 * 4 + c div 64), b64_char (c mod 64)]
     @ encode_segment xs"

lemma code_char_of: "n < 256 \<Longrightarrow> code (char_of n) = n"
  by (simp add: code_def)

lemma b64_char_value:
  assumes "0 \<le> v" "v < 64"
  shows "b64_value (b64_char v) = Some v" "b64_char v \<noteq> CHR ''=''" "b64_char v \<noteq> CHR ''.''"
proof -
  have c: "code (b64_char v) =
     (if v < 26 then nat (v + 65) else if v < 52 then nat (v + 71) else if v < 62 then nat (v - 4)
      else if v = 62 then 45 else 95)"
    using assms by (simp add: b64_char_def code_char_of) (simp add: code_def)
  have "code CHR ''A'' = 65" "code CHR ''Z'' = 90" "code CHR ''a'' = 97" "code CHR ''z'' = 122"
    "code CHR ''0'' = 48" "code CHR ''9'' = 57" "code CHR ''='' = 61" "code CHR ''.'' = 46"
    "code CHR ''-'' = 45" "code CHR ''_'' = 95" "code CHR ''/'' = 47" "code CHR ''+'' = 43"
    by (simp_all add: code_def)
  note k = this
  have "code (b64_char v) \<noteq> 61 \<and> code (b64_char v) \<noteq> 46" using c assms by auto
  with k show "b64_char v \<noteq> CHR ''=''" "b64_char v \<noteq> CHR ''.''" by auto
  consider "v < 26" | "26 \<le> v" "v < 52" | "52 \<le> v" "v < 62" | "v = 62" | "v = 63" using assms by linarith
  then show "b64_value (b64_char v) = Some v"
  proof cases
    case 1
    with c assms have "65 \<le> code (b64_char v)" "code (b64_char v) \<le> 90" "int (code (b64_char v)) = v + 65" by simp_all
    with k show ?thesis by (simp add: b64_value_def Let_def is_upper_def in_range_def)
  next
    case 2
    with c have "97 \<le> code (b64_char v)" "code (b64_char v) \<le> 122" "int (code (b64_char v)) = v + 71" by simp_all
    with k show ?thesis by (simp add: b64_value_def Let_def is_upper_def is_lower_def in_range_def)
  next
    case 3
    with c have "48 \<le> code (b64_char v)" "code (b64_char v) \<le> 57" "int (code (b64_char v)) = v - 4" by simp_all
    with k show ?thesis by (simp add: b64_value_def Let_def is_upper_def is_lower_def is_digit_def in_range_def)
  qed (simp_all add: b64_char_def b64_value_def Let_def is_upper_def is_lower_def is_digit_def in_range_def k)
qed

lemma byte_parts:
  assumes "0 \<le> a" "a < (256 :: int)"
  shows "0 \<le> a div 4" "a div 4 < 64" "0 \<le> a mod 4 * 16" "a mod 4 * 16 \<le> 48" "0 \<le> a div 16" "a div 16 < 16"
    "0 \<le> a mod 16 * 4" "a mod 16 * 4 \<le> 60" "0 \<le> a div 64" "a div 64 < 4"
proof -
  have "a mod 4 < 4" "a mod 16 < 16" "0 \<le> a mod 4" "0 \<le> a mod 16" by simp_all
  then show "0 \<le> a mod 4 * 16" "a mod 4 * 16 \<le> 48" "0 \<le> a mod 16 * 4" "a mod 16 * 4 \<le> 60" by linarith+
qed (use assms in simp_all)

definition byte_list :: "int list \<Rightarrow> bool" where
  "byte_list bs = list_all (\<lambda>b. 0 \<le> b \<and> b < 256) bs"

definition six :: "int \<Rightarrow> bool" where
  "six v = (0 \<le> v \<and> v < 64)"

lemma six_parts:
  assumes a: "0 \<le> a" "a < (256 :: int)" and b: "0 \<le> b" "b < (256 :: int)" and c: "0 \<le> c" "c < (256 :: int)"
  shows "six (a div 4)" "six (a mod 4 * 16)" "six (a mod 4 * 16 + b div 16)" "six (b mod 16 * 4)"
    "six (b mod 16 * 4 + c div 64)" "six (c mod 64)"
proof -
  have one: "0 \<le> x \<Longrightarrow> x < 64 \<Longrightarrow> six x" and le: "0 \<le> x \<Longrightarrow> x \<le> 60 \<Longrightarrow> six x"
    and add: "0 \<le> x \<Longrightarrow> x \<le> 48 \<Longrightarrow> 0 \<le> y \<Longrightarrow> y < 16 \<Longrightarrow> six (x + y)"
    and add': "0 \<le> x \<Longrightarrow> x \<le> 60 \<Longrightarrow> 0 \<le> y \<Longrightarrow> y < 4 \<Longrightarrow> six (x + y)" for x y
    by (simp_all add: six_def)
  note A = byte_parts[OF a] and B = byte_parts[OF b] and C = byte_parts[OF c]
  show "six (a div 4)" by (rule one[OF A(1,2)])
  show "six (a mod 4 * 16)" by (rule le[OF A(3)]) (rule order_trans[OF A(4)], simp)
  show "six (a mod 4 * 16 + b div 16)" by (rule add[OF A(3,4) B(5,6)])
  show "six (b mod 16 * 4)" by (rule le[OF B(7,8)])
  show "six (b mod 16 * 4 + c div 64)" by (rule add'[OF B(7,8) C(9,10)])
  show "six (c mod 64)" by (rule one) simp_all
qed

lemma decode_step:
  assumes "six v"
  shows "b64_decode 0 left pads (b64_char v # s) = b64_decode 1 v 0 s"
    "b64_decode 1 left pads (b64_char v # s) = map_option ((#) (left * 4 + v div 16)) (b64_decode 2 (v mod 16) 0 s)"
    "b64_decode 2 left pads (b64_char v # s) = map_option ((#) (left * 16 + v div 4)) (b64_decode 3 (v mod 4) 0 s)"
    "b64_decode 3 left pads (b64_char v # s) = map_option ((#) (left * 64 + v)) (b64_decode 0 0 0 s)"
  using b64_char_value[of v] assms by (simp_all add: six_def)

lemma sum_parts:
  assumes "0 \<le> a" "a < (256 :: int)"
  shows "(m * 16 + a div 16) div 16 = m" "(m * 16 + a div 16) mod 16 = a div 16"
    "(m * 4 + a div 64) div 4 = m" "(m * 4 + a div 64) mod 4 = a div 64"
proof -
  have d: "0 \<le> x \<Longrightarrow> x < k \<Longrightarrow> (m * k + x) div k = m" and r: "0 \<le> x \<Longrightarrow> x < k \<Longrightarrow> (m * k + x) mod k = x"
    for x k :: int by simp_all
  note A = byte_parts[OF assms]
  show "(m * 16 + a div 16) div 16 = m" "(m * 16 + a div 16) mod 16 = a div 16"
    by (rule d[OF A(5,6)], rule r[OF A(5,6)])
  show "(m * 4 + a div 64) div 4 = m" "(m * 4 + a div 64) mod 4 = a div 64"
    by (rule d[OF A(9,10)], rule r[OF A(9,10)])
qed

lemma parts_whole: "(a :: int) div 4 * 4 + a mod 4 = a" "a div 16 * 16 + a mod 16 = a" "a div 64 * 64 + a mod 64 = a"
  by simp_all

definition padding :: "string \<Rightarrow> string" where
  "padding v = replicate ((4 - length v mod 4) mod 4) CHR ''=''"

lemma padding_more: "length w = 4 \<Longrightarrow> padding (w @ v) = padding v"
  by (simp add: padding_def)

lemma decode_pads: "b64_decode 2 left 0 ''=='' = Some []" "b64_decode 3 left 0 ''='' = Some []"
  by simp_all

lemma decode_encode_padded:
  "byte_list bs \<Longrightarrow> b64_decode 0 0 0 (encode_segment bs @ padding (encode_segment bs)) = Some bs"
proof (induction bs rule: encode_segment.induct)
  case (2 a)
  then have a: "0 \<le> a" "a < 256" by (auto simp: byte_list_def)
  have "length (encode_segment [a]) = 2" by simp
  then have "padding (encode_segment [a]) = ''==''" unfolding padding_def by (simp only:) (simp add: numeral_2_eq_2)
  moreover have "a mod 4 * 16 div 16 = a mod 4" by simp
  ultimately show ?case
    by (simp only: encode_segment.simps append.simps decode_step[OF six_parts(1)[OF a a a]]
        decode_step[OF six_parts(2)[OF a a a]] decode_pads parts_whole option.map)
next
  case (3 a b)
  then have a: "0 \<le> a" "a < 256" and b: "0 \<le> b" "b < 256" by (auto simp: byte_list_def)
  have "length (encode_segment [a, b]) = 3" by simp
  then have "padding (encode_segment [a, b]) = ''=''" unfolding padding_def by (simp only:) simp
  moreover have "b mod 16 * 4 div 4 = b mod 16" by simp
  ultimately show ?case
    by (simp only: encode_segment.simps append.simps decode_step[OF six_parts(1)[OF a b b]]
        decode_step[OF six_parts(3)[OF a b b]] decode_step[OF six_parts(4)[OF a b b]] sum_parts[OF b]
        decode_pads parts_whole option.map)
next
  case (4 a b c xs)
  then have a: "0 \<le> a" "a < 256" and b: "0 \<le> b" "b < 256" and c: "0 \<le> c" "c < 256" and xs: "byte_list xs"
    by (auto simp: byte_list_def)
  have "padding (encode_segment (a # b # c # xs)) = padding (encode_segment xs)"
    by (simp only: encode_segment.simps padding_more list.size)
  then show ?case
    by (simp only: encode_segment.simps append.simps decode_step[OF six_parts(1)[OF a b c]]
        decode_step[OF six_parts(3)[OF a b c]] decode_step[OF six_parts(5)[OF a b c]]
        decode_step[OF six_parts(6)[OF a b c]] sum_parts[OF b] sum_parts[OF c]
        "4.IH"[OF xs] parts_whole option.map)
qed (simp add: padding_def)

lemma encode_ascii: "\<not> list_ex (\<lambda>c. 128 \<le> code c) (encode_segment bs)"
proof -
  have "code (b64_char v) < 128" for v by (auto simp: b64_char_def code_char_of) (simp_all add: code_def)
  then show ?thesis by (induction bs rule: encode_segment.induct) (simp_all add: not_le)
qed

lemma decode_encode: "byte_list bs \<Longrightarrow> decode_segment (encode_segment bs) = Some bs"
  using decode_encode_padded by (simp add: decode_segment_def padding_def encode_ascii)

lemma encode_no_dot: "byte_list bs \<Longrightarrow> CHR ''.'' \<notin> set (encode_segment bs)"
proof -
  have dot: "six v \<Longrightarrow> CHR ''.'' \<noteq> b64_char v" for v using b64_char_value(3)[of v] by (auto simp: six_def)
  show "byte_list bs \<Longrightarrow> CHR ''.'' \<notin> set (encode_segment bs)"
  proof (induction bs rule: encode_segment.induct)
    case (2 a)
    then have a: "0 \<le> a" "a < 256" by (auto simp: byte_list_def)
    show ?case by (simp only: encode_segment.simps list.set insert_iff empty_iff
          dot[OF six_parts(1)[OF a a a]] dot[OF six_parts(2)[OF a a a]]) simp
  next
    case (3 a b)
    then have a: "0 \<le> a" "a < 256" and b: "0 \<le> b" "b < 256" by (auto simp: byte_list_def)
    show ?case by (simp only: encode_segment.simps list.set insert_iff empty_iff
          dot[OF six_parts(1)[OF a b b]] dot[OF six_parts(3)[OF a b b]] dot[OF six_parts(4)[OF a b b]]) simp
  next
    case (4 a b c xs)
    then have a: "0 \<le> a" "a < 256" and b: "0 \<le> b" "b < 256" and c: "0 \<le> c" "c < 256" and xs: "byte_list xs"
      by (auto simp: byte_list_def)
    from "4.IH"[OF xs] show ?case by (simp only: encode_segment.simps list.set set_append Un_iff insert_iff empty_iff
          dot[OF six_parts(1)[OF a b c]] dot[OF six_parts(3)[OF a b c]] dot[OF six_parts(5)[OF a b c]]
          dot[OF six_parts(6)[OF a b c]]) blast
  qed simp
qed

text \<open>Every byte string can be sent: so a token with the expected signature exists.\<close>

lemma sha256_bytes_list: "byte_list (sha256_bytes m)"
proof -
  have "byte_list (word_bytes w)" for w
  proof -
    have "uint w < 4294967296" using uint_bounded[of w] by simp
    then have "uint w div 16777216 < 256" by presburger
    moreover have "0 \<le> uint w div 16777216" by (simp add: pos_imp_zdiv_nonneg_iff)
    ultimately show ?thesis by (simp add: byte_list_def word_bytes_def)
  qed
  then show ?thesis by (simp add: sha256_bytes_def byte_list_def list_all_iff)
qed

lemma hmac_byte_list: "byte_list (hmac_sha256 k m)"
  by (simp add: hmac_sha256_def Let_def sha256_bytes_list)

section \<open>Rejections\<close>

lemma check_claims_Inr_iff:
  "check_claims policy now role app c = Inr c' \<longleftrightarrow>
     c' = c \<and> cl_iss c = au_issuer policy \<and> au_audience policy \<in> set (cl_aud c)
     \<and> cl_iat c \<le> now + 30 \<and> now < cl_exp c \<and> cl_application c = app \<and> role \<in> set (cl_roles c)
     \<and> cl_exp c - cl_iat c \<le> au_max_age policy"
  by (auto simp: check_claims_def raise_if_Inr_iff)

lemma verify_Inr:
  assumes "fst (verify con codec secret policy r s) = Inr c"
  shows "parse_token codec secret (rq_token r) = Inr c
    \<and> check_claims policy (rq_now r) (rq_role r) (rq_application r) c = Inr c
    \<and> (rq_consume r \<longrightarrow> fst (con s (rq_ledger_now r) (cl_jti c) (cl_exp c)))"
  using assms
  by (auto simp: verify_def res_bind_def check_claims_Inr_iff split: sum.splits if_splits prod.splits bool.splits)

text \<open>A rejected request other than a replay leaves the ledger alone.\<close>

lemma verify_rejected_state:
  assumes "res_bind (parse_token codec secret (rq_token r))
      (check_claims policy (rq_now r) (rq_role r) (rq_application r)) = Inl e"
  shows "verify con codec secret policy r s = (Inl e, s)"
  using assms by (simp add: verify_def)

lemma parse_token_signature:
  assumes "parse_token codec secret token = Inr c"
  shows "\<exists>h p s hb pb sig. split_on CHR ''.'' token = [h, p, s] \<and> decode_segment s = Some sig
    \<and> sig = hmac_sha256 (bytes_of secret) (bytes_of (h @ ''.'' @ p))
    \<and> decode_segment h = Some hb \<and> decode_segment p = Some pb \<and> jc_claims codec pb = Some c"
  using assms
  by (auto simp: parse_token_def option_res_def res_bind_Inr_iff raise_if_Inr_iff
      split: list.splits option.splits jwt_header.splits)

lemma split_on_absent: "d \<notin> set s \<Longrightarrow> split_on d s = [s]"
  by (induction s) auto

lemma split_on_first: "d \<notin> set s \<Longrightarrow> split_on d (s @ d # t) = s # split_on d t"
  by (induction s) auto

text \<open>A token signed with the secret gives the claims of its payload.\<close>

lemma parse_signed_token:
  assumes "CHR ''.'' \<notin> set h" "CHR ''.'' \<notin> set p" "decode_segment h = Some hb" "decode_segment p = Some pb"
    and "jc_header codec hb = Some (HeaderObject (Some ''HS256'') None)" "jc_claims codec pb = Some c"
  shows "parse_token codec secret (h @ ''.'' @ p @ ''.'' @
    encode_segment (hmac_sha256 (bytes_of secret) (bytes_of (h @ ''.'' @ p)))) = Inr c"
  using assms
  by (simp add: parse_token_def split_on_first split_on_absent encode_no_dot hmac_byte_list option_res_def raise_if_def
      decode_encode)

end
