(* ===== verification/Registry.thy ===== *)
theory Registry
  imports Sha256 "HOL-Library.List_Lexorder" "HOL-Library.Char_ord"
begin

text \<open>
  \<open>security/registry.py\<close>, \<open>security/local_registry.py\<close> and \<open>security/document_sets.py\<close>: who
  owns which document, in memory, in SQLite and in PostgreSQL, and the immutable document
  sets whose membership is authorised on every read. The locale \<open>document_registry\<close> is the
  \<open>DocumentRegistry\<close> protocol the set store relies on.
\<close>

section \<open>Records\<close>

record document_record =
  dr_application :: string
  dr_document :: string
  dr_sha256 :: string
  dr_state :: string
  dr_policy_hash :: string
  dr_retained :: int

abbreviation dr_key :: "document_record \<Rightarrow> string \<times> string" where
  "dr_key r \<equiv> (dr_application r, dr_document r)"

definition mk_record :: "nat \<Rightarrow> int \<Rightarrow> string \<Rightarrow> string \<Rightarrow> string \<Rightarrow> string \<Rightarrow> document_record res" where
  "mk_record retention_days now application document digest policy_hash =
     raise_if (\<not> is_hex64 digest \<or> \<not> is_hex64 policy_hash) (ValidationError ''DocumentRecord'')
       (Inr \<lparr>dr_application = application, dr_document = document, dr_sha256 = digest,
             dr_state = ''active'', dr_policy_hash = policy_hash,
             dr_retained = now + int retention_days * 86400\<rparr>)"

type_synonym records = "(string \<times> string, document_record) dict"

definition active_record :: "string \<Rightarrow> document_record \<Rightarrow> bool" where
  "active_record policy_hash r = (dr_state r = ''active'' \<and> dr_policy_hash r = policy_hash)"

definition is_active :: "records \<Rightarrow> string \<Rightarrow> string \<Rightarrow> string \<Rightarrow> bool" where
  "is_active s application policy_hash d =
     (case map_of s (application, d) of None \<Rightarrow> False | Some r \<Rightarrow> active_record policy_hash r)"

section \<open>In memory\<close>

record memory_registry =
  mm_records :: records
  mm_receipts :: "(string, string list) dict"

definition memory_register :: "memory_registry \<Rightarrow> document_record \<Rightarrow> memory_registry res" where
  "memory_register s r =
     raise_if (case map_of (mm_records s) (dr_key r) of None \<Rightarrow> False | Some old \<Rightarrow> dr_sha256 old \<noteq> dr_sha256 r)
       (ValueError ''document identity conflicts with registered content'')
       (Inr (s\<lparr>mm_records := AList.update (dr_key r) r (mm_records s)\<rparr>))"

definition memory_owns :: "memory_registry \<Rightarrow> string \<Rightarrow> string list \<Rightarrow> string \<Rightarrow> bool" where
  "memory_owns s application documents policy_hash =
     (documents \<noteq> [] \<and> list_all (is_active (mm_records s) application policy_hash) documents)"

definition mark_deleted :: "string \<Rightarrow> string list \<Rightarrow> records \<Rightarrow> records" where
  "mark_deleted application documents s =
     map (\<lambda>(k, r). (k, if fst k = application \<and> snd k \<in> set documents then r\<lparr>dr_state := ''deleted''\<rparr> else r)) s"

definition memory_delete :: "memory_registry \<Rightarrow> string \<Rightarrow> string \<Rightarrow> memory_registry \<times> string list" where
  "memory_delete s application policy_hash =
     (let ids = map (\<lambda>(k, r). snd k)
            (filter (\<lambda>(k, r). fst k = application \<and> dr_state r \<noteq> ''deleted'') (mm_records s));
          receipts = (if ids \<noteq> [] then AList.update application (sort ids) (mm_receipts s) else mm_receipts s)
      in (\<lparr>mm_records = mark_deleted application ids (mm_records s), mm_receipts = receipts\<rparr>,
          dict_get_default receipts application []))"

section \<open>SQLite\<close>

text \<open>The table \<open>document_owners\<close>; a payload is the record itself.\<close>

definition local_register :: "records \<Rightarrow> document_record \<Rightarrow> records res" where
  "local_register s r =
     raise_if (case map_of s (dr_key r) of None \<Rightarrow> False | Some old \<Rightarrow> dr_sha256 old \<noteq> dr_sha256 r)
       (ValueError ''document_content_conflict'') (Inr (AList.update (dr_key r) r s))"

definition local_rows :: "records \<Rightarrow> string \<Rightarrow> document_record list" where
  "local_rows s application = map snd (filter (\<lambda>(k, r). fst k = application) s)"

definition local_owns :: "records \<Rightarrow> string \<Rightarrow> string list \<Rightarrow> string \<Rightarrow> bool" where
  "local_owns s application documents policy_hash =
     (documents \<noteq> [] \<and>
      set documents \<subseteq> set (map dr_document (filter (active_record policy_hash) (local_rows s application))))"

definition local_delete :: "records \<Rightarrow> string \<Rightarrow> string \<Rightarrow> records \<times> string list" where
  "local_delete s application policy_hash =
     (let ids = map dr_document (local_rows s application)
      in (mark_deleted application ids s, sort ids))"

section \<open>PostgreSQL\<close>

text \<open>
  The tables \<open>documents\<close> and \<open>deletion_receipts\<close> and the statements on them: an upsert that
  sets the state and the later retention date where the digest agrees, a count of active
  rows, an update that returns the rows it changed, and an insert that keeps the first receipt.
\<close>

record postgres_registry =
  pg_documents :: records
  pg_receipts :: "(string, (string \<times> string) list) dict"

definition postgres_register :: "postgres_registry \<Rightarrow> document_record \<Rightarrow> postgres_registry res" where
  "postgres_register s r =
     (case map_of (pg_documents s) (dr_key r) of
        None \<Rightarrow> Inr (s\<lparr>pg_documents := pg_documents s @ [(dr_key r, r)]\<rparr>)
      | Some old \<Rightarrow>
          raise_if (dr_sha256 old \<noteq> dr_sha256 r)
            (ValueError ''document identity conflicts with registered content'')
            (Inr (s\<lparr>pg_documents := AList.update (dr_key r)
               (old\<lparr>dr_state := dr_state r, dr_retained := max (dr_retained old) (dr_retained r)\<rparr>)
               (pg_documents s)\<rparr>)))"

definition postgres_owns :: "postgres_registry \<Rightarrow> string \<Rightarrow> string list \<Rightarrow> string \<Rightarrow> bool" where
  "postgres_owns s application documents policy_hash =
     (documents \<noteq> [] \<and>
      length (uniq (map (\<lambda>(k, r). snd k) (filter (\<lambda>(k, r). fst k = application \<and> snd k \<in> set documents
         \<and> active_record policy_hash r) (pg_documents s)))) = length (uniq documents))"

definition postgres_delete :: "postgres_registry \<Rightarrow> string \<Rightarrow> string \<Rightarrow> postgres_registry \<times> string list" where
  "postgres_delete s application policy_hash =
     (let changed = filter (\<lambda>(k, r). fst k = application \<and> dr_state r \<noteq> ''deleted'') (pg_documents s);
          hashes = map (\<lambda>(k, r). (snd k, dr_sha256 r)) changed;
          receipts = (if dict_has (pg_receipts s) application then pg_receipts s
                      else pg_receipts s @ [(application, hashes)]);
          result = (if hashes \<noteq> [] then hashes else dict_get_default receipts application [])
      in (\<lparr>pg_documents = mark_deleted application (map fst hashes) (pg_documents s), pg_receipts = receipts\<rparr>,
          sort (map fst result)))"

section \<open>Document sets\<close>

record document_set =
  ds_application :: string
  ds_documents :: "string list"
  ds_policy_hash :: string
  ds_id :: string

definition hex4 :: "nat \<Rightarrow> string" where
  "hex4 n = map (\<lambda>i. hex_char (n div 16 ^ (3 - i) mod 16)) [0..<4]"

text \<open>\<open>json.dumps\<close> of a string of ASCII characters.\<close>

definition json_char :: "char \<Rightarrow> string" where
  "json_char c =
     (if c = CHR 0x22 then [CHR 0x5C, CHR 0x22] else if c = CHR 0x5C then [CHR 0x5C, CHR 0x5C]
      else if code c = 10 then [CHR 0x5C] @ ''n'' else if code c = 13 then [CHR 0x5C] @ ''r''
      else if code c = 9 then [CHR 0x5C] @ ''t'' else if code c = 8 then [CHR 0x5C] @ ''b''
      else if code c = 12 then [CHR 0x5C] @ ''f''
      else if code c < 32 then [CHR 0x5C] @ ''u'' @ hex4 (code c) else [c])"

definition json_string :: "string \<Rightarrow> string" where
  "json_string s = [CHR 0x22] @ concat (map json_char s) @ [CHR 0x22]"

definition canonical_set :: "string \<Rightarrow> string list \<Rightarrow> string \<Rightarrow> string" where
  "canonical_set application ids policy_hash =
     ''['' @ json_string application @ '',['' @ join '','' (map json_string ids) @ ''],'' @
     json_string policy_hash @ '']''"

definition freeze :: "string \<Rightarrow> string list \<Rightarrow> string \<Rightarrow> document_set res" where
  "freeze application documents policy_hash =
     (let ids = sort (uniq documents) in
      raise_if (ids = [] \<or> 10000 < length ids \<or> \<not> is_hex64 policy_hash) (ValidationError ''DocumentSet'')
        (Inr \<lparr>ds_application = application, ds_documents = ids, ds_policy_hash = policy_hash,
              ds_id = sha256_hex (canonical_set application ids policy_hash)\<rparr>))"

type_synonym set_store = "(string, string \<times> document_set) dict"

type_synonym ownership = "string \<Rightarrow> string list \<Rightarrow> string \<Rightarrow> bool"

definition put_set :: "ownership \<Rightarrow> set_store \<Rightarrow> document_set \<Rightarrow> document_set res \<times> set_store" where
  "put_set owns store r =
     (if \<not> owns (ds_application r) (ds_documents r) (ds_policy_hash r)
      then (Inl (PermissionError ''evidence_scope_violation''), store)
      else (Inr r, if dict_has store (ds_id r) then store else store @ [(ds_id r, (ds_application r, r))]))"

definition get_set ::
  "ownership \<Rightarrow> set_store \<Rightarrow> string \<Rightarrow> string \<Rightarrow> string \<Rightarrow> document_set res" where
  "get_set owns store set_id application policy_hash =
     (case map_of store set_id of
        None \<Rightarrow> Inl (PermissionError ''evidence_scope_violation'')
      | Some (owner, r) \<Rightarrow>
          raise_if (owner \<noteq> application
              \<or> ds_policy_hash r \<noteq> policy_hash
              \<or> freeze (ds_application r) (ds_documents r) (ds_policy_hash r) \<noteq> Inr r
              \<or> \<not> owns application (ds_documents r) policy_hash)
            (PermissionError ''evidence_scope_violation'') (Inr r))"

section \<open>The registry protocol\<close>

text \<open>
  \<open>active s a h d\<close>: document \<open>d\<close> is usable by application \<open>a\<close> under policy \<open>h\<close>. \<open>legal\<close> is the
  invariant of the state.
\<close>

locale document_registry =
  fixes register :: "'s \<Rightarrow> document_record \<Rightarrow> 's res"
    and owns :: "'s \<Rightarrow> string \<Rightarrow> string list \<Rightarrow> string \<Rightarrow> bool"
    and delete :: "'s \<Rightarrow> string \<Rightarrow> string \<Rightarrow> 's \<times> string list"
    and active :: "'s \<Rightarrow> string \<Rightarrow> string \<Rightarrow> string \<Rightarrow> bool"
    and legal :: "'s \<Rightarrow> bool"
  assumes owns_iff: "legal s \<Longrightarrow> owns s a ds h \<longleftrightarrow> ds \<noteq> [] \<and> list_all (active s a h) ds"
    and register_legal: "legal s \<Longrightarrow> register s r = Inr s' \<Longrightarrow> legal s'"
    and delete_legal: "legal s \<Longrightarrow> legal (fst (delete s a h))"
    and register_other: "legal s \<Longrightarrow> register s r = Inr s' \<Longrightarrow> (a, d) \<noteq> dr_key r \<Longrightarrow> active s' a h d = active s a h d"
    and delete_own: "legal s \<Longrightarrow> \<not> active (fst (delete s a h)) a h' d"
    and delete_other: "legal s \<Longrightarrow> a' \<noteq> a \<Longrightarrow> active (fst (delete s a h)) a' h' d = active s a' h' d"
begin

text \<open>A set is only ever read by its own application, intact, and while it owns every document.\<close>

lemma get_set_owned:
  assumes "legal s" "get_set (owns s) store i a h = Inr r"
  shows "ds_policy_hash r = h \<and> freeze (ds_application r) (ds_documents r) h = Inr r
    \<and> ds_documents r \<noteq> [] \<and> list_all (active s a h) (ds_documents r)"
  using assms owns_iff[OF assms(1)] by (auto simp: get_set_def raise_if_Inr_iff split: option.splits)

lemma get_set_after_delete:
  assumes "legal s"
  shows "get_set (owns (fst (delete s a h'))) store i a h = Inl (PermissionError ''evidence_scope_violation'')"
proof (cases "get_set (owns (fst (delete s a h'))) store i a h")
  case (Inr r)
  from get_set_owned[OF delete_legal[OF assms] Inr] have "ds_documents r \<noteq> []"
    "list_all (active (fst (delete s a h')) a h) (ds_documents r)" by auto
  with delete_own[OF assms] show ?thesis by (cases "ds_documents r") auto
next
  case (Inl e)
  then show ?thesis by (auto simp: get_set_def raise_if_Inl_iff split: option.splits)
qed

lemma get_set_other_application:
  assumes "legal s" "a' \<noteq> a"
  shows "get_set (owns (fst (delete s a h'))) store i a' h = get_set (owns s) store i a' h"
proof -
  have "owns (fst (delete s a h')) a' ds h = owns s a' ds h" for ds
    using assms owns_iff[OF delete_legal[OF assms(1)]] owns_iff[OF assms(1)] delete_other[OF assms]
    by (simp add: list_all_iff)
  then show ?thesis by (simp add: get_set_def split: option.splits)
qed

lemma get_put_set:
  assumes "freeze a ds h = Inr r" "put_set (owns s) [] r = (Inr r', store)"
  shows "get_set (owns s) store (ds_id r) a h = Inr r"
proof -
  have r: "ds_application r = a" "ds_policy_hash r = h" "set (ds_documents r) = set ds"
    "ds_documents r = sort (uniq ds)"
    using assms(1) by (auto simp: freeze_def Let_def raise_if_Inr_iff)
  have "sort (uniq (sort (uniq ds))) = sort (uniq ds)"
    by (rule sorted_distinct_set_unique) auto
  then have "freeze a (ds_documents r) h = freeze a ds h"
    by (simp add: r(4) freeze_def Let_def)
  with assms r show ?thesis
    by (auto simp: put_set_def get_set_def dict_has_def raise_if_def split: if_splits)
qed

text \<open>Sets of other identities already stored do not matter for one that is put and read.\<close>

lemma get_put_set_any:
  assumes f: "freeze a ds h = Inr r" and p: "put_set (owns s) store r = (Inr r', store')"
    and old: "map_of store (ds_id r) = None \<or> map_of store (ds_id r) = Some (a, r)"
  shows "get_set (owns s) store' (ds_id r) a h = Inr r"
proof -
  have r: "ds_application r = a" "ds_policy_hash r = h" "ds_documents r = sort (uniq ds)"
    using f by (auto simp: freeze_def Let_def raise_if_Inr_iff)
  from p have ow: "owns s a (ds_documents r) h" by (auto simp: put_set_def r split: if_splits)
  have "sort (uniq (sort (uniq ds))) = sort (uniq ds)"
    by (rule sorted_distinct_set_unique) auto
  then have fr: "freeze a (ds_documents r) h = Inr r"
    using f by (simp add: r(3) freeze_def Let_def)
  have "map_of store' (ds_id r) = Some (a, r)"
    using p old by (auto simp: put_set_def r dict_has_def map_add_def split: if_splits option.splits)
  with ow fr r show ?thesis by (simp add: get_set_def raise_if_def)
qed

end

text \<open>
  A registry that also takes over the policy of a record registered again: a document
  registered as active is owned under the policy it was registered with.
\<close>

locale policy_registry = document_registry +
  assumes register_active: "legal s \<Longrightarrow> register s r = Inr s' \<Longrightarrow> dr_state r = ''active'' \<Longrightarrow>
    active s' (dr_application r) (dr_policy_hash r) (dr_document r)"
begin

lemma register_owns:
  assumes "legal s" "register s r = Inr s'" "dr_state r = ''active''"
  shows "owns s' (dr_application r) [dr_document r] (dr_policy_hash r)"
  using assms owns_iff[OF register_legal[OF assms(1,2)]] register_active by simp

end

section \<open>The three registries keep the protocol\<close>

definition keyed :: "records \<Rightarrow> bool" where
  "keyed s = (distinct (map fst s) \<and> (\<forall>(k, r) \<in> set s. k = dr_key r))"

lemma keyed_update: "keyed s \<Longrightarrow> keyed (AList.update (dr_key r) r s)"
proof -
  assume k: "keyed s"
  then have d: "distinct (map fst (AList.update (dr_key r) r s))"
    by (simp add: keyed_def distinct_update)
  moreover have "k' = dr_key r'" if "(k', r') \<in> set (AList.update (dr_key r) r s)" for k' r'
  proof -
    from that d have "map_of (AList.update (dr_key r) r s) k' = Some r'" by simp
    then have "map_of s k' = Some r' \<or> (k' = dr_key r \<and> r' = r)"
      by (auto simp: map_of_update split: if_splits)
    with k show ?thesis by (auto simp: keyed_def dest!: map_of_SomeD)
  qed
  ultimately show ?thesis by (auto simp: keyed_def)
qed

lemma map_fst_mark_deleted [simp]: "map fst (mark_deleted a ds s) = map fst s"
  by (auto simp: mark_deleted_def)

lemma keyed_mark_deleted: "keyed s \<Longrightarrow> keyed (mark_deleted a ds s)"
proof -
  assume k: "keyed s"
  then have "\<forall>(k, r) \<in> set (mark_deleted a ds s). k = dr_key r"
    by (auto simp: keyed_def mark_deleted_def)
  with k show ?thesis by (simp add: keyed_def)
qed

lemma map_of_mark_deleted:
  "map_of (mark_deleted a ds s) k =
     map_option (\<lambda>r. if fst k = a \<and> snd k \<in> set ds then r\<lparr>dr_state := ''deleted''\<rparr> else r) (map_of s k)"
  by (induction s) (auto simp: mark_deleted_def)

lemma is_active_mark_deleted:
  "is_active (mark_deleted a ds s) a' h d \<longleftrightarrow> is_active s a' h d \<and> \<not> (a' = a \<and> d \<in> set ds)"
  by (auto simp: is_active_def map_of_mark_deleted active_record_def split: option.splits)

lemma is_active_update:
  "is_active (AList.update (dr_key r) r' s) a h d \<longleftrightarrow>
     (if (a, d) = dr_key r then active_record h r' else is_active s a h d)"
  by (auto simp: is_active_def map_of_update split: option.splits)

lemma undeleted_covers:
  assumes "keyed s" "is_active s a h d"
  shows "d \<in> set (map (\<lambda>(k, r). snd k) (filter (\<lambda>(k, r). fst k = a \<and> dr_state r \<noteq> ''deleted'') s))"
proof -
  from assms(2) obtain r where "map_of s (a, d) = Some r" "dr_state r = ''active''"
    by (auto simp: is_active_def active_record_def split: option.splits)
  then have "((a, d), r) \<in> set (filter (\<lambda>(k, r). fst k = a \<and> dr_state r \<noteq> ''deleted'') s)"
    by (auto dest: map_of_SomeD)
  then show ?thesis by force
qed

interpretation memory_registry: policy_registry memory_register memory_owns memory_delete
  "\<lambda>s. is_active (mm_records s)" "\<lambda>s. keyed (mm_records s)"
proof unfold_locales
  fix s :: memory_registry and a h h' d
  assume k: "keyed (mm_records s)"
  show "\<not> is_active (mm_records (fst (memory_delete s a h))) a h' d"
    using undeleted_covers[OF k, of a h' d]
    by (auto simp: memory_delete_def Let_def is_active_mark_deleted)
qed (auto simp: memory_owns_def memory_register_def memory_delete_def Let_def raise_if_Inr_iff
    keyed_update keyed_mark_deleted is_active_update is_active_mark_deleted active_record_def)

lemma local_active_set:
  assumes "keyed s"
  shows "d \<in> set (map dr_document (filter (active_record h) (local_rows s a))) \<longleftrightarrow> is_active s a h d"
proof
  assume "d \<in> set (map dr_document (filter (active_record h) (local_rows s a)))"
  then obtain k r where kr: "(k, r) \<in> set s" "fst k = a" "active_record h r" "d = dr_document r"
    by (auto simp: local_rows_def)
  with assms have "k = (a, d)" by (auto simp: keyed_def)
  with kr assms have "map_of s (a, d) = Some r" by (simp add: keyed_def)
  with kr show "is_active s a h d" by (simp add: is_active_def)
next
  assume "is_active s a h d"
  then obtain r where r: "map_of s (a, d) = Some r" "active_record h r"
    by (auto simp: is_active_def split: option.splits)
  then have "((a, d), r) \<in> set s" by (auto dest: map_of_SomeD)
  with assms have "dr_document r = d" by (auto simp: keyed_def)
  with \<open>((a, d), r) \<in> set s\<close> r show "d \<in> set (map dr_document (filter (active_record h) (local_rows s a)))"
    by (force simp: local_rows_def)
qed

lemma local_rows_cover:
  assumes "keyed s" "is_active s a h d"
  shows "d \<in> set (map dr_document (local_rows s a))"
  using local_active_set[OF assms(1), of d h a] assms(2) by auto

interpretation local_registry: policy_registry local_register local_owns local_delete is_active keyed
proof unfold_locales
  fix s a ds h
  assume k: "keyed s"
  show "local_owns s a ds h \<longleftrightarrow> ds \<noteq> [] \<and> list_all (is_active s a h) ds"
    unfolding local_owns_def list_all_iff using local_active_set[OF k] by blast
next
  fix s a h h' d
  assume k: "keyed s"
  show "\<not> is_active (fst (local_delete s a h)) a h' d"
    using local_rows_cover[OF k, of a h' d]
    by (auto simp: local_delete_def Let_def is_active_mark_deleted)
qed (auto simp: local_register_def local_delete_def Let_def raise_if_Inr_iff keyed_update
    keyed_mark_deleted is_active_update is_active_mark_deleted active_record_def)

lemma keyed_append: "keyed s \<Longrightarrow> map_of s (dr_key r) = None \<Longrightarrow> keyed (s @ [(dr_key r, r)])"
  by (auto simp: keyed_def map_of_eq_None_iff)

lemma is_active_append:
  "map_of s (dr_key r) = None \<Longrightarrow>
     is_active (s @ [(dr_key r, r)]) a h d \<longleftrightarrow> (if (a, d) = dr_key r then active_record h r else is_active s a h d)"
  by (auto simp: is_active_def map_add_def split: option.splits)

lemma postgres_count:
  assumes k: "keyed s"
  shows "length (uniq (map (\<lambda>(k, r). snd k) (filter (\<lambda>(k, r). fst k = a \<and> snd k \<in> set ds
         \<and> active_record h r) s))) = length (uniq ds) \<longleftrightarrow> list_all (is_active s a h) ds"
proof -
  let ?m = "map (\<lambda>(k, r). snd k) (filter (\<lambda>(k, r). fst k = a \<and> snd k \<in> set ds \<and> active_record h r) s)"
  have eq: "set ?m = {d \<in> set ds. is_active s a h d}"
  proof (intro equalityI subsetI)
    fix d assume "d \<in> set ?m"
    then obtain r where "((a, d), r) \<in> set s" "d \<in> set ds" "active_record h r" by force
    moreover from this k have "map_of s (a, d) = Some r" by (simp add: keyed_def)
    ultimately show "d \<in> {d \<in> set ds. is_active s a h d}" by (simp add: is_active_def)
  next
    fix d assume "d \<in> {d \<in> set ds. is_active s a h d}"
    then obtain r where "map_of s (a, d) = Some r" "active_record h r" "d \<in> set ds"
      by (auto simp: is_active_def split: option.splits)
    then show "d \<in> set ?m" by (force dest: map_of_SomeD)
  qed
  have "card (set ?m) = card (set ds) \<longleftrightarrow> set ?m = set ds"
    using eq card_subset_eq[of "set ds" "set ?m"] by auto
  then show ?thesis
    unfolding length_uniq_set eq by (auto simp: list_all_iff)
qed

lemma postgres_keyed_upd:
  assumes "keyed s" "map_of s (dr_key r) = Some old"
  shows "keyed (AList.update (dr_key r) (old\<lparr>dr_state := st, dr_retained := t\<rparr>) s)"
proof -
  from assms have "dr_key old = dr_key r" by (auto simp: keyed_def dest!: map_of_SomeD)
  with keyed_update[OF assms(1), of "old\<lparr>dr_state := st, dr_retained := t\<rparr>"] show ?thesis by simp
qed

interpretation postgres_registry: document_registry postgres_register postgres_owns postgres_delete
  "\<lambda>s. is_active (pg_documents s)" "\<lambda>s. keyed (pg_documents s)"
proof unfold_locales
  fix s :: postgres_registry and a ds h
  assume k: "keyed (pg_documents s)"
  show "postgres_owns s a ds h \<longleftrightarrow> ds \<noteq> [] \<and> list_all (is_active (pg_documents s) a h) ds"
    unfolding postgres_owns_def postgres_count[OF k] ..
next
  fix s s' :: postgres_registry and r
  assume "keyed (pg_documents s)" "postgres_register s r = Inr s'"
  then show "keyed (pg_documents s')"
    by (auto simp: postgres_register_def raise_if_Inr_iff keyed_append postgres_keyed_upd split: option.splits)
next
  fix s s' :: postgres_registry and r a d h
  assume "keyed (pg_documents s)" "postgres_register s r = Inr s'" "(a, d) \<noteq> dr_key r"
  then show "is_active (pg_documents s') a h d = is_active (pg_documents s) a h d"
    by (auto simp: postgres_register_def raise_if_Inr_iff is_active_append is_active_update split: option.splits)
next
  fix s :: postgres_registry and a h h' d
  assume k: "keyed (pg_documents s)"
  have "map fst (map (\<lambda>(k, r). (snd k, dr_sha256 r)) xs) = map (\<lambda>(k, r). snd k) xs" for xs :: records
    by auto
  then show "\<not> is_active (pg_documents (fst (postgres_delete s a h))) a h' d"
    using undeleted_covers[OF k, of a h' d]
    by (simp only: postgres_delete_def Let_def is_active_mark_deleted fst_conv postgres_registry.simps) auto
qed (auto simp: postgres_delete_def Let_def keyed_mark_deleted is_active_mark_deleted)

text \<open>
  A policy rotation in PostgreSQL: the document is registered again under the new policy, the
  row keeps the old one, and the document is not owned under the new policy.
\<close>

lemma postgres_policy_rotation:
  assumes k: "keyed (pg_documents s)" and old: "map_of (pg_documents s) (dr_key r) = Some old"
    and reg: "postgres_register s r = Inr s'" and h: "dr_policy_hash old \<noteq> dr_policy_hash r"
  shows "\<not> postgres_owns s' (dr_application r) [dr_document r] (dr_policy_hash r)"
proof -
  from postgres_registry.register_legal[OF k reg] have k': "keyed (pg_documents s')" .
  have "\<not> is_active (pg_documents s') (dr_application r) (dr_policy_hash r) (dr_document r)"
    using reg old h
    by (auto simp: postgres_register_def raise_if_Inr_iff is_active_update active_record_def)
  then show ?thesis unfolding postgres_registry.owns_iff[OF k'] by simp
qed

lemma mark_deleted_idle:
  assumes "ds = map (\<lambda>(k, r). snd k) (filter (\<lambda>(k, r). fst k = a \<and> dr_state r \<noteq> ''deleted'') s)"
  shows "filter (\<lambda>(k, r). fst k = a \<and> dr_state r \<noteq> ''deleted'') (mark_deleted a ds s) = []"
proof -
  have "dr_state (if fst k = a \<and> snd k \<in> set ds then r\<lparr>dr_state := ''deleted''\<rparr> else r) = ''deleted''"
    if kr: "(k, r) \<in> set s" and a: "fst k = a" for k r
  proof (cases "dr_state r = ''deleted''")
    case False
    with kr a have "(k, r) \<in> set (filter (\<lambda>(k, r). fst k = a \<and> dr_state r \<noteq> ''deleted'') s)" by simp
    then have "snd k \<in> set ds" unfolding assms set_map by (rule rev_image_eqI) simp
    with a show ?thesis by simp
  qed simp
  then show ?thesis
    unfolding filter_empty_conv mark_deleted_def by auto
qed

lemma memory_delete_idempotent:
  "snd (memory_delete (fst (memory_delete s a h)) a h') = snd (memory_delete s a h)"
  unfolding memory_delete_def[of "fst (memory_delete s a h)"]
  by (simp add: memory_delete_def Let_def mark_deleted_idle[OF refl])

end
