(* ===== verification/Ingestion.thy ===== *)
theory Ingestion
  imports Activity GpuLease Intake Security Policy Chunker Store Auth Registry
begin

text \<open>
  \<open>api/ingestion.py\<close> and the ingestion contracts of \<open>api/schema.py\<close>: a batch is decoded, bounded,
  counted and scanned before the GPU lease is taken; inside the lease each document is stored, parsed,
  chunked, redacted, embedded and written to the index. The parser, the embedder, the PDF and image
  libraries, the cipher and the model server are arguments; every other effect is a field of the state.
\<close>

section \<open>Requests and receipts\<close>

record ingest_request =
  iq_version :: string
  iq_filename :: string
  iq_sha256 :: string
  iq_content :: string
  iq_application :: "string option"
  iq_command :: "string option"
  iq_policy_hash :: "string option"

definition bounded :: "nat \<Rightarrow> nat \<Rightarrow> string \<Rightarrow> bool" where
  "bounded lo hi s = (lo \<le> py_len s \<and> py_len s \<le> hi)"

definition opt_ok :: "('a \<Rightarrow> bool) \<Rightarrow> 'a option \<Rightarrow> bool" where
  "opt_ok p x = (case x of None \<Rightarrow> True | Some v \<Rightarrow> p v)"

text \<open>The pattern \<open>^[^/\\]+\.(?i:pdf|jpe?g|png)$\<close>.\<close>

definition upload_name :: "string \<Rightarrow> bool" where
  "upload_name n =
     (bounded 5 240 n \<and> CHR ''/'' \<notin> set n \<and> CHR 0x5C \<notin> set n
      \<and> list_ex (\<lambda>e. ends_with e (map lower_char n) \<and> length e < length n) [''.pdf'', ''.jpg'', ''.jpeg'', ''.png''])"

definition strip_request :: "ingest_request \<Rightarrow> ingest_request" where
  "strip_request r =
     \<lparr>iq_version = iq_version r, iq_filename = strip (iq_filename r), iq_sha256 = strip (iq_sha256 r),
      iq_content = strip (iq_content r), iq_application = map_option strip (iq_application r),
      iq_command = map_option strip (iq_command r), iq_policy_hash = map_option strip (iq_policy_hash r)\<rparr>"

definition request_fields_ok :: "ingest_request \<Rightarrow> bool" where
  "request_fields_ok r =
     (iq_version r \<in> {''1.0'', ''2.0''} \<and> upload_name (iq_filename r) \<and> is_hex64 (iq_sha256 r)
      \<and> 8 \<le> py_len (iq_content r) \<and> opt_ok (bounded 3 200) (iq_application r)
      \<and> opt_ok (bounded 8 200) (iq_command r) \<and> opt_ok is_hex64 (iq_policy_hash r))"

definition require_v2_scope :: "ingest_request \<Rightarrow> ingest_request res" where
  "require_v2_scope r =
     raise_if (iq_version r = ''2.0'' \<and> \<not> (truthy (iq_application r) \<and> truthy (iq_command r) \<and> truthy (iq_policy_hash r)))
       (ValidationError ''v2 ingestion requires application_id, command_id, and policy_hash'') (Inr r)"

definition mk_ingest_request :: "ingest_request \<Rightarrow> ingest_request res" where
  "mk_ingest_request raw =
     (let r = strip_request raw in
      raise_if (\<not> request_fields_ok r) (ValidationError ''IngestDocumentRequest'') (require_v2_scope r))"

record batch_request =
  bq_version :: string
  bq_batch :: "string option"
  bq_documents :: "ingest_request list"

text \<open>The pattern \<open>^[A-Za-z0-9][A-Za-z0-9._-]+$\<close>.\<close>

definition alnum :: "char \<Rightarrow> bool" where
  "alnum c = (is_upper c \<or> is_lower c \<or> is_digit c)"

definition batch_name :: "string \<Rightarrow> bool" where
  "batch_name b =
     (bounded 3 200 b \<and> alnum (hd b)
      \<and> list_all (\<lambda>c. alnum c \<or> c \<in> {CHR ''.'', CHR ''_'', CHR ''-''}) (List.tl b))"

definition consistent_contract :: "batch_request \<Rightarrow> batch_request res" where
  "consistent_contract b =
     raise_if (list_ex (\<lambda>d. iq_version d \<noteq> bq_version b) (bq_documents b))
       (ValidationError ''batch and document contract versions must match'')
    (raise_if (bq_version b = ''2.0'' \<and> length (uniq (map iq_application (bq_documents b))) \<noteq> 1)
       (ValidationError ''production batch must belong to one application'') (Inr b))"

definition mk_batch_request :: "batch_request \<Rightarrow> batch_request res" where
  "mk_batch_request b =
     res_bind (res_map mk_ingest_request (bq_documents b)) (\<lambda>ds.
     raise_if (bq_version b \<notin> {''1.0'', ''2.0''} \<or> \<not> opt_ok batch_name (bq_batch b) \<or> ds = [] \<or> 10000 < length ds)
       (ValidationError ''IngestBatchRequest'') (consistent_contract (b\<lparr>bq_documents := ds\<rparr>)))"

record ingest_response =
  ir_version :: string
  ir_document :: string
  ir_filename :: string
  ir_sha256 :: string
  ir_pages :: nat
  ir_chunks :: nat
  ir_chunk_ids :: "string list"
  ir_config_hash :: string
  ir_application :: "string option"
  ir_policy_hash :: "string option"
  ir_scan_status :: "string option"
  ir_scan_receipt :: "string option"
  ir_dlp_receipt :: "string option"
  ir_storage_receipt :: "string option"
  ir_ownership_receipt :: "string option"

definition mk_ingest_response :: "ingest_response \<Rightarrow> ingest_response res" where
  "mk_ingest_response r =
     raise_if (ir_version r \<notin> {''1.0'', ''2.0''} \<or> ir_pages r < 1 \<or> ir_chunks r < 1 \<or> ir_chunk_ids r = []
        \<or> \<not> opt_ok is_hex64 (ir_policy_hash r) \<or> \<not> opt_ok is_hex64 (ir_scan_receipt r)
        \<or> \<not> opt_ok is_hex64 (ir_dlp_receipt r) \<or> \<not> opt_ok is_hex64 (ir_storage_receipt r)
        \<or> \<not> opt_ok is_hex64 (ir_ownership_receipt r))
       (ValidationError ''IngestDocumentResponse'') (Inr r)"

section \<open>State and service\<close>

text \<open>
  What a batch can change besides the model server: the encrypted store, the plain files of a
  deployment without one, the points of the index and the activity feed the progress goes to.
\<close>

record ('g, 'e) ingest_world =
  iw_server :: 'g
  iw_store :: "store option"
  iw_plain :: "(path, string) dict"
  iw_points :: "'e points"
  iw_activity :: activity

type_synonym reporter = "string \<Rightarrow> string \<Rightarrow> activity_details \<Rightarrow> (activity, unit) act"

record libraries =
  lb_image :: "string \<Rightarrow> image_info option"
  lb_pdf :: "string \<Rightarrow> pdf_info option"
  lb_pages :: "string \<Rightarrow> int option"             \<comment> \<open>the page count of the document fitz opens\<close>
  lb_nfkc :: "string \<Rightarrow> string"
  lb_aead :: aead
  lb_random :: "store \<Rightarrow> string \<times> string \<times> string"
  lb_scratch :: "string \<Rightarrow> string"               \<comment> \<open>the temporary folder of a plaintext\<close>

type_synonym dlp_provider = "dlp_policy \<times> string"

record ('g, 'e) ingester =
  ig_root :: path
  ig_parse :: "string \<Rightarrow> string \<Rightarrow> (int \<times> int) option \<Rightarrow> ('g lease, parsed_document) act"
  ig_chunker :: chunker_config
  ig_embed :: "string list \<Rightarrow> 'e list res"
  ig_config_hash :: string
  ig_lease :: lease_config
  ig_requester :: "'g requester"
  ig_max_bytes :: int
  ig_policy :: "guardrail_policy option"
  ig_scanner :: "daemon option"
  ig_dlp :: "dlp_provider option"
  ig_image_policy :: "guardrail_policy res"       \<comment> \<open>the policy file read for images without a provider\<close>
  ig_libs :: libraries

type_synonym ('g, 'e, 'a) ingestion = "(('g, 'e) ingest_world lease, 'a) act"

definition no_details :: activity_details where
  "no_details = \<lparr>ad_name = None, ad_index = None, ad_count = None, ad_completed = None, ad_total = None\<rparr>"

definition emit :: "reporter option \<Rightarrow> string \<Rightarrow> string \<Rightarrow> activity_details \<Rightarrow> ('g, 'e, unit) ingestion" where
  "emit reporter stage message details s =
     (case reporter of
        None \<Rightarrow> (Inr (), s)
      | Some f \<Rightarrow>
          (case f stage message details (iw_activity (ls_world s)) of
             (r, a) \<Rightarrow> (r, s\<lparr>ls_world := (ls_world s)\<lparr>iw_activity := a\<rparr>\<rparr>)))"

text \<open>An action of the server and its flag, inside the whole state; the requester of the whole state.\<close>

definition on_server :: "('g lease, 'a) act \<Rightarrow> ('g, 'e, 'a) ingestion" where
  "on_server m s =
     (case m \<lparr>ls_world = iw_server (ls_world s), ls_batch = ls_batch s\<rparr> of
        (r, l) \<Rightarrow> (r, \<lparr>ls_world = (ls_world s)\<lparr>iw_server := ls_world l\<rparr>, ls_batch = ls_batch l\<rparr>))"

definition world_requester :: "'g requester \<Rightarrow> ('g, 'e) ingest_world requester" where
  "world_requester rq how path w = (case rq how path (iw_server w) of (r, g) \<Rightarrow> (r, w\<lparr>iw_server := g\<rparr>))"

section \<open>Admission\<close>

text \<open>\<open>b64decode(..., validate=True)\<close>: \<open>a2b_base64\<close> in strict mode.\<close>

definition std_b64 :: "char \<Rightarrow> int option" where
  "std_b64 c = (if c = CHR ''-'' \<or> c = CHR ''_'' then None else b64_value c)"

fun b64_strict :: "nat \<Rightarrow> int \<Rightarrow> nat \<Rightarrow> bool \<Rightarrow> string \<Rightarrow> int list option" where
  "b64_strict q left pads started [] = (if q = 0 then Some [] else None)"
| "b64_strict q left pads started (c # s) =
     (if c = CHR ''='' then
        (if 2 \<le> q \<and> 4 \<le> q + Suc pads then (if s = [] then Some [] else None)
         else b64_strict q left (Suc pads) True s)
      else case std_b64 c of
        None \<Rightarrow> None
      | Some v \<Rightarrow>
          if started then None
          else if q = 0 then b64_strict 1 v 0 False s
          else if q = 1 then map_option ((#) (left * 4 + v div 16)) (b64_strict 2 (v mod 16) 0 False s)
          else if q = 2 then map_option ((#) (left * 16 + v div 4)) (b64_strict 3 (v mod 4) 0 False s)
          else map_option ((#) (left * 64 + v)) (b64_strict 0 0 0 False s))"

definition b64decode :: "string \<Rightarrow> string option" where
  "b64decode s =
     (if starts_with ''='' s then None
      else map_option (map (\<lambda>b. char_of (nat b))) (b64_strict 0 0 0 False s))"

text \<open>\<open>Path(name).suffix\<close>: from the last dot, unless the dot is the first or the last character.\<close>

definition path_suffix :: "string \<Rightarrow> string" where
  "path_suffix n =
     (let ext = rev (takeWhile (\<lambda>c. c \<noteq> CHR ''.'') (rev n)) in
      if length ext + 1 < length n \<and> ext \<noteq> [] then CHR ''.'' # ext else [])"

definition is_image_name :: "string \<Rightarrow> bool" where
  "is_image_name n = (map lower_char (path_suffix n) \<in> {''.jpg'', ''.jpeg'', ''.png''})"

definition pdf_magic :: string where
  "pdf_magic = ''%PDF-''"

definition rejected :: "string \<Rightarrow> exc" where
  "rejected m = DocumentIngestionError m"

definition size_limit :: "('g, 'e) ingester \<Rightarrow> int" where
  "size_limit G = (case ig_policy G of Some p \<Rightarrow> rp_max_pdf_bytes (gp_resources p) | None \<Rightarrow> ig_max_bytes G)"

definition check_format :: "libraries \<Rightarrow> string \<Rightarrow> string \<Rightarrow> unit res" where
  "check_format L name content =
     (if is_image_name name then
        (case validate_image (lb_image L) content (path_suffix name) of
           Inl (ValueError m) \<Rightarrow> Inl (rejected m) | r \<Rightarrow> r)
      else raise_if (\<not> starts_with pdf_magic content) (rejected ''document is not a PDF'') (Inr ()))"

definition check_production :: "('g, 'e) ingester \<Rightarrow> ingest_request \<Rightarrow> unit res" where
  "check_production G r =
     (case ig_policy G of
        None \<Rightarrow> Inr ()
      | Some p \<Rightarrow>
          raise_if (iq_version r \<noteq> ''2.0'') (rejected ''production ingestion requires contract version 2.0'')
         (raise_if (iq_policy_hash r \<noteq> Some (gp_hash p)) (rejected ''guardrail policy hash mismatch'') (Inr ())))"

definition decode_and_validate :: "('g, 'e) ingester \<Rightarrow> ingest_request \<Rightarrow> string res" where
  "decode_and_validate G r =
     (case b64decode (iq_content r) of
        None \<Rightarrow> Inl (rejected ''document content is not valid base64'')
      | Some content \<Rightarrow>
          raise_if (size_limit G < int (length content)) (rejected ''document exceeds the configured size limit'')
         (res_bind (check_format (ig_libs G) (iq_filename r) content) (\<lambda>_.
          raise_if (sha256_hex content \<noteq> iq_sha256 r) (rejected ''document SHA-256 does not match content'')
         (res_bind (check_production G r) (\<lambda>_. Inr content)))))"

definition check_page_count :: "libraries \<Rightarrow> int \<Rightarrow> string \<Rightarrow> unit res" where
  "check_page_count L maximum content =
     (if \<not> starts_with pdf_magic content then Inr ()
      else case lb_pages L content of
        None \<Rightarrow> Inl (rejected ''malformed_pdf'')
      | Some n \<Rightarrow> raise_if (maximum < n) (rejected ''document exceeds configured page limit'') (Inr ()))"

definition validate_page_counts :: "('g, 'e) ingester \<Rightarrow> string list \<Rightarrow> unit res" where
  "validate_page_counts G contents =
     (case ig_policy G of
        None \<Rightarrow> Inr ()
      | Some p \<Rightarrow>
          res_bind (res_map (check_page_count (ig_libs G) (rp_max_pages (gp_resources p))) contents) (\<lambda>_. Inr ()))"

text \<open>An unsafe document goes to the quarantine of its application before the batch is refused.\<close>

definition quarantine :: "('g, 'e) ingester \<Rightarrow> ingest_request \<Rightarrow> string \<Rightarrow> ('g, 'e) ingest_world \<Rightarrow> ('g, 'e) ingest_world" where
  "quarantine G r content w =
     (case (iw_store w, iq_application r) of
        (Some st, Some application) \<Rightarrow>
          if application = [] then w
          else w\<lparr>iw_store := Some (fst (store_object (lb_aead (ig_libs G)) st (lb_random (ig_libs G) st)
                 application (iq_sha256 r) (iq_sha256 r) content ''quarantined''))\<rparr>
      | _ \<Rightarrow> w)"

fun scan_documents ::
  "('g, 'e) ingester \<Rightarrow> daemon \<Rightarrow> (ingest_request \<times> string) list \<Rightarrow> (string, scan_receipt) dict
   \<Rightarrow> ('g, 'e, (string, scan_receipt) dict) ingestion" where
  "scan_documents G clam [] receipts s = (Inr receipts, s)"
| "scan_documents G clam ((r, content) # rest) receipts s =
     (case scan (lb_image (ig_libs G)) (lb_pdf (ig_libs G)) clam (map lower_char (path_suffix (iq_filename r))) content of
        Inl (ValueError m) \<Rightarrow> (Inl (rejected m), s\<lparr>ls_world := quarantine G r content (ls_world s)\<rparr>)
      | Inl e \<Rightarrow> (Inl e, s)
      | Inr receipt \<Rightarrow> scan_documents G clam rest (AList.update (iq_sha256 r) receipt receipts) s)"

definition scan_before_gpu ::
  "('g, 'e) ingester \<Rightarrow> ingest_request list \<Rightarrow> string list \<Rightarrow> ('g, 'e, (string, scan_receipt) dict) ingestion" where
  "scan_before_gpu G requests contents =
     (if ig_policy G = None then act_return []
      else case ig_scanner G of
        None \<Rightarrow> act_lift (Inl (rejected ''malware_scanner_unavailable''))
      | Some clam \<Rightarrow> scan_documents G clam (zip requests contents) [])"

section \<open>One document\<close>

text \<open>\<open>_parse\<close>: an image is validated, wrapped as a page and parsed; the parser has time and page
  limits only in production.\<close>

definition parse_pdf :: "('g, 'e) ingester \<Rightarrow> string \<Rightarrow> string \<Rightarrow> ('g lease, parsed_document) act" where
  "parse_pdf G p content =
     (case ig_policy G of
        None \<Rightarrow> ig_parse G p content None
      | Some pol \<Rightarrow>
          act_catch (ig_parse G p content (Some (rp_parse_timeout (gp_resources pol), rp_max_pages (gp_resources pol))))
            (\<lambda>e. act_lift (Inl (if e = TimeoutError then rejected ''document_parse_timeout'' else e))))"

definition parse_file :: "('g, 'e) ingester \<Rightarrow> string \<Rightarrow> string \<Rightarrow> string \<Rightarrow> ('g lease, parsed_document) act" where
  "parse_file G p name content s =
     (if \<not> is_image_name name then parse_pdf G p content s
      else case validate_image (lb_image (ig_libs G)) content (path_suffix name) of
        Inl e \<Rightarrow> (Inl e, s)
      | Inr _ \<Rightarrow>
          (case parse_pdf G p content s of
             (r, s') \<Rightarrow> (parse_image (lb_image (ig_libs G)) (\<lambda>_. r) p (path_suffix name) content, s')))"

definition path_text :: "path \<Rightarrow> string" where
  "path_text p = CHR ''/'' # join ''/'' p"

text \<open>The content is stored, then parsed from where it is: the temporary plaintext of the envelope, or
  the plain file. The result carries the name of the envelope.\<close>

definition store_encrypted ::
  "('g, 'e) ingester \<Rightarrow> store \<Rightarrow> string \<Rightarrow> string \<Rightarrow> string \<Rightarrow> ('g, 'e, path) ingestion" where
  "store_encrypted G st application digest content s =
     (case store_object (lb_aead (ig_libs G)) st (lb_random (ig_libs G) st) application digest digest content ''active'' of
        (st', p) \<Rightarrow> (Inr p, s\<lparr>ls_world := (ls_world s)\<lparr>iw_store := Some st'\<rparr>\<rparr>))"

definition read_encrypted :: "('g, 'e) ingester \<Rightarrow> path \<Rightarrow> ('g, 'e, string) ingestion" where
  "read_encrypted G p s =
     (case iw_store (ls_world s) of
        None \<Rightarrow> (Inl (OSError ''FileNotFoundError''), s)
      | Some st \<Rightarrow> (materialize (lb_aead (ig_libs G)) st p, s))"

definition store_plain :: "path \<Rightarrow> string \<Rightarrow> ('g, 'e, unit) ingestion" where
  "store_plain p content s =
     (Inr (), s\<lparr>ls_world := (ls_world s)\<lparr>iw_plain := AList.update p content (iw_plain (ls_world s))\<rparr>\<rparr>)"

definition announce_and_parse ::
  "('g, 'e) ingester \<Rightarrow> reporter option \<Rightarrow> activity_details \<Rightarrow> string \<Rightarrow> string \<Rightarrow> string
   \<Rightarrow> ('g, 'e, parsed_document) ingestion" where
  "announce_and_parse G reporter d name p content =
     act_bind (emit reporter ''parsing_document'' (''Parsing and OCR: '' @ name) d)
       (\<lambda>_. on_server (parse_file G p name content))"

definition parse_encrypted ::
  "('g, 'e) ingester \<Rightarrow> reporter option \<Rightarrow> activity_details \<Rightarrow> string \<Rightarrow> store \<Rightarrow> string \<Rightarrow> string
   \<Rightarrow> ('g, 'e, string option \<times> parsed_document) ingestion" where
  "parse_encrypted G reporter d name st application content =
     act_bind (store_encrypted G st application (sha256_hex content) content) (\<lambda>p.
     act_bind (read_encrypted G p) (\<lambda>plain.
     act_bind (announce_and_parse G reporter d name (lb_scratch (ig_libs G) (sha256_hex content) @ ''/'' @ name) plain)
       (\<lambda>parsed. act_return (Some (last p), parsed))))"

definition parse_plain ::
  "('g, 'e) ingester \<Rightarrow> reporter option \<Rightarrow> activity_details \<Rightarrow> string \<Rightarrow> string
   \<Rightarrow> ('g, 'e, string option \<times> parsed_document) ingestion" where
  "parse_plain G reporter d name content =
     (let p = path_join (path_join (ig_root G) (sha256_hex content)) name in
      act_bind (store_plain p content) (\<lambda>_.
      act_bind (announce_and_parse G reporter d name (path_text p) content) (\<lambda>parsed.
      act_return (None, parsed))))"

definition store_and_parse ::
  "('g, 'e) ingester \<Rightarrow> reporter option \<Rightarrow> activity_details \<Rightarrow> ingest_request \<Rightarrow> string
   \<Rightarrow> ('g, 'e, string option \<times> parsed_document) ingestion" where
  "store_and_parse G reporter d r content s =
     (case (iw_store (ls_world s), iq_application r) of
        (Some st, Some (a # as)) \<Rightarrow> parse_encrypted G reporter d (iq_filename r) st (a # as) content s
      | _ \<Rightarrow> parse_plain G reporter d (iq_filename r) content s)"

text \<open>\<open>chunk.model_copy(update={"metadata": {...}})\<close>\<close>

fun with_metadata :: "metadata \<Rightarrow> chunk \<Rightarrow> chunk" where
  "with_metadata m (TextChunk i t p _) = TextChunk i t p m"
| "with_metadata m (TableChunk i t tt c pr p tp _) = TableChunk i t tt c pr p tp m"

definition stamp :: "('g, 'e) ingester \<Rightarrow> ingest_request \<Rightarrow> chunk \<Rightarrow> chunk" where
  "stamp G r c =
     (let m = AList.update ''config_hash'' (MStr (ig_config_hash G)) (chunk_meta c) in
      with_metadata
        (case iq_application r of
           Some (a # as) \<Rightarrow> AList.update ''application_id'' (MStr (a # as)) m | _ \<Rightarrow> m) c)"

definition evidence_chunks :: "('g, 'e) ingester \<Rightarrow> ingest_request \<Rightarrow> parsed_document \<Rightarrow> chunk list res" where
  "evidence_chunks G r parsed =
     res_bind (chunk_document (ig_chunker G) parsed) (\<lambda>cs.
     raise_if (cs = []) (rejected ''document produced no evidence chunks'') (Inr (map (stamp G r) cs)))"

text \<open>\<open>_redact_chunk\<close>: every textual field is inspected; a risk of instructions refuses the document.\<close>

definition redact_field :: "(string \<Rightarrow> string) \<Rightarrow> dlp_provider \<Rightarrow> string \<Rightarrow> (string \<times> dlp_receipt) res" where
  "redact_field nfkc dlp t =
     res_bind (inspect nfkc (fst dlp) (snd dlp) t) (\<lambda>(u, receipt).
     raise_if (dr_risk receipt) (rejected ''document_prompt_injection_risk'') (Inr (u, receipt)))"

definition redact_optional ::
  "(string \<Rightarrow> string) \<Rightarrow> dlp_provider \<Rightarrow> string option \<Rightarrow> (string option \<times> dlp_receipt list) res" where
  "redact_optional nfkc dlp t =
     (case t of
        None \<Rightarrow> Inr (None, [])
      | Some u \<Rightarrow> res_bind (redact_field nfkc dlp u) (\<lambda>(v, receipt). Inr (Some v, [receipt])))"

fun redact_chunk :: "(string \<Rightarrow> string) \<Rightarrow> dlp_provider \<Rightarrow> chunk \<Rightarrow> (chunk \<times> dlp_receipt list) res" where
  "redact_chunk nfkc dlp (TextChunk i t p m) =
     res_bind (redact_field nfkc dlp t) (\<lambda>(u, receipt). Inr (TextChunk i u p m, [receipt]))"
| "redact_chunk nfkc dlp (TableChunk i t tt caption preceding p tp m) =
     res_bind (redact_field nfkc dlp t) (\<lambda>(u, r1).
     res_bind (redact_field nfkc dlp tt) (\<lambda>(ut, r2).
     res_bind (redact_optional nfkc dlp caption) (\<lambda>(uc, r3).
     res_bind (redact_optional nfkc dlp preceding) (\<lambda>(up, r4).
     Inr (TableChunk i u ut uc up p tp m, [r1, r2] @ r3 @ r4)))))"

definition dlp_of :: "('g, 'e) ingester \<Rightarrow> string \<Rightarrow> dlp_provider option res" where
  "dlp_of G name =
     (case ig_dlp G of
        Some dlp \<Rightarrow> Inr (Some dlp)
      | None \<Rightarrow>
          if \<not> is_image_name name then Inr None
          else res_bind (ig_image_policy G) (\<lambda>p.
               res_bind (mk_dlp (gp_dlp p)) (\<lambda>d. Inr (Some (d, gp_hash p)))))"

definition protect_chunks ::
  "('g, 'e) ingester \<Rightarrow> string \<Rightarrow> chunk list \<Rightarrow> (chunk list \<times> dlp_receipt list) res" where
  "protect_chunks G name chunks =
     res_bind (dlp_of G name) (\<lambda>dlp.
     case dlp of
       None \<Rightarrow> Inr (chunks, [])
     | Some d \<Rightarrow>
         res_bind (res_map (redact_chunk (lb_nfkc (ig_libs G)) d) chunks) (\<lambda>rs.
         Inr (map fst rs, concat (map snd rs))))"

definition upsert_chunks :: "chunk list \<Rightarrow> 'e list \<Rightarrow> ('g, 'e, unit) ingestion" where
  "upsert_chunks chunks embeddings s =
     (if length chunks \<noteq> length embeddings then (Inl (ValueError ''zip() arguments differ in length''), s)
      else (Inr (), s\<lparr>ls_world := (ls_world s)\<lparr>iw_points := upsert (zip chunks embeddings) (iw_points (ls_world s))\<rparr>\<rparr>))"

section \<open>Receipts\<close>

definition json_optional :: "string option \<Rightarrow> string" where
  "json_optional s = (case s of None \<Rightarrow> ''null'' | Some t \<Rightarrow> json_string t)"

definition json_member :: "string \<Rightarrow> string \<Rightarrow> string" where
  "json_member k v = json_string k @ '':'' @ v"

definition json_object :: "string list \<Rightarrow> string" where
  "json_object members = ''{'' @ join '','' members @ ''}''"

text \<open>The digests are over the JSON text with sorted keys; a scan receipt has no reason code.\<close>

definition scan_receipt_digest :: "scan_receipt \<Rightarrow> string \<Rightarrow> string option \<Rightarrow> string" where
  "scan_receipt_digest receipt digest policy =
     sha256_hex (json_object
       [json_member ''artifact_hash'' (json_string digest), json_member ''policy_hash'' (json_optional policy),
        json_member ''reason_code'' ''null'', json_member ''scanner'' (json_string (sr_scanner receipt)),
        json_member ''scanner_version'' (json_string (sr_version receipt)),
        json_member ''status'' (json_string (sr_status receipt))])"

definition dlp_receipt_json :: "dlp_receipt \<Rightarrow> string" where
  "dlp_receipt_json r =
     json_object
       [json_member ''artifact_sha256'' (json_string (dr_artifact r)),
        json_member ''counts'' (json_object (map (\<lambda>(k, n). json_member k (str_of_nat n)) (sort_key fst (dr_counts r)))),
        json_member ''disposition'' (json_string (dr_disposition r)),
        json_member ''instruction_risk'' (if dr_risk r then ''true'' else ''false''),
        json_member ''policy_hash'' (json_string (dr_policy r))]"

definition dlp_receipts_digest :: "dlp_receipt list \<Rightarrow> string option" where
  "dlp_receipts_digest rs =
     (if rs = [] then None else Some (sha256_hex (''['' @ join '','' (map dlp_receipt_json rs) @ '']'')))"

definition or_empty :: "string option \<Rightarrow> string" where
  "or_empty s = (case s of None \<Rightarrow> [] | Some t \<Rightarrow> t)"

definition storage_receipt_digest ::
  "ingest_request \<Rightarrow> string \<Rightarrow> string \<Rightarrow> string option \<Rightarrow> string option" where
  "storage_receipt_digest r document digest encrypted =
     (if \<not> truthy (iq_application r) then None
      else Some (sha256_hex (join ''|''
        [or_empty (iq_application r), document, digest,
         (case encrypted of None \<Rightarrow> ''local_plaintext'' | Some n \<Rightarrow> n), or_empty (iq_policy_hash r)])))"

definition response_of ::
  "('g, 'e) ingester \<Rightarrow> ingest_request \<Rightarrow> string \<Rightarrow> scan_receipt option \<Rightarrow> string option \<Rightarrow> parsed_document
   \<Rightarrow> chunk list \<Rightarrow> dlp_receipt list \<Rightarrow> ingest_response res" where
  "response_of G r digest receipt encrypted parsed chunks dlp_receipts =
     mk_ingest_response
       \<lparr>ir_version = iq_version r, ir_document = pd_document parsed, ir_filename = iq_filename r,
        ir_sha256 = digest, ir_pages = length (pd_pages parsed), ir_chunks = length chunks,
        ir_chunk_ids = map chunk_id chunks, ir_config_hash = ig_config_hash G,
        ir_application = iq_application r, ir_policy_hash = iq_policy_hash r,
        ir_scan_status = (if ig_scanner G = None then None else Some ''clean''),
        ir_scan_receipt = map_option (\<lambda>x. scan_receipt_digest x digest (iq_policy_hash r)) receipt,
        ir_dlp_receipt = dlp_receipts_digest dlp_receipts,
        ir_storage_receipt = storage_receipt_digest r (pd_document parsed) digest encrypted,
        ir_ownership_receipt = None\<rparr>"

section \<open>The batch\<close>

definition check_parsed_pages :: "('g, 'e) ingester \<Rightarrow> parsed_document \<Rightarrow> unit res" where
  "check_parsed_pages G parsed =
     raise_if (case ig_policy G of None \<Rightarrow> False
               | Some p \<Rightarrow> rp_max_pages (gp_resources p) < int (length (pd_pages parsed)))
       (rejected ''document exceeds configured page limit'') (Inr ())"

definition document_details :: "ingest_request \<Rightarrow> nat \<Rightarrow> nat \<Rightarrow> activity_details" where
  "document_details r index count =
     \<lparr>ad_name = Some (iq_filename r), ad_index = Some (int index), ad_count = Some (int count),
      ad_completed = None, ad_total = None\<rparr>"

definition progress_of :: "activity_details \<Rightarrow> nat option \<Rightarrow> nat \<Rightarrow> activity_details" where
  "progress_of d completed whole = d\<lparr>ad_completed := map_option int completed, ad_total := Some (int whole)\<rparr>"

definition ingest_one ::
  "('g, 'e) ingester \<Rightarrow> reporter option \<Rightarrow> nat \<Rightarrow> (string, scan_receipt) dict
   \<Rightarrow> nat \<times> (ingest_request \<times> string) \<Rightarrow> ('g, 'e, ingest_response) ingestion" where
  "ingest_one G reporter count receipts item =
     (let index = fst item; r = fst (snd item); content = snd (snd item);
          digest = sha256_hex content; d = document_details r index count; name = iq_filename r in
      act_bind (emit reporter ''validating_document'' (''Validating '' @ name) d) (\<lambda>_.
      act_bind (store_and_parse G reporter d r content) (\<lambda>(encrypted, parsed).
      let pages = length (pd_pages parsed) in
      act_bind (act_lift (check_parsed_pages G parsed)) (\<lambda>_.
      act_bind (emit reporter ''chunking_document'' (''Creating evidence chunks: '' @ name)
                 (progress_of d (Some pages) pages)) (\<lambda>_.
      act_bind (act_lift (evidence_chunks G r parsed)) (\<lambda>found.
      act_bind (act_lift (protect_chunks G name found)) (\<lambda>(chunks, dlp_receipts).
      let n = length chunks in
      act_bind (emit reporter ''embedding_document''
                 (''Embedding '' @ str_of_nat n @ '' chunks: '' @ name) (progress_of d None n)) (\<lambda>_.
      act_bind (act_lift (ig_embed G (map chunk_text chunks))) (\<lambda>embeddings.
      act_bind (emit reporter ''indexing_document'' (''Indexing evidence in Qdrant: '' @ name)
                 (progress_of d (Some n) n)) (\<lambda>_.
      act_bind (upsert_chunks chunks embeddings) (\<lambda>_.
      act_bind (act_lift (response_of G r digest (map_of receipts (iq_sha256 r)) encrypted parsed chunks dlp_receipts))
        (\<lambda>response.
      act_bind (emit reporter ''document_completed'' (''Completed '' @ name) (progress_of d (Some index) count)) (\<lambda>_.
      act_return response)))))))))))))"

text \<open>The lease speaks of its own errors; its \<open>GpuLeaseError\<close> is a \<open>RuntimeError\<close>.\<close>

fun exc_of_lease :: "lease_error \<Rightarrow> exc" where
  "exc_of_lease (GpuLeaseError m) = RuntimeError m"
| "exc_of_lease (BodyError e) = e"
| "exc_of_lease (RestoreGroup e f) = ExceptionGroup (exc_of_lease e) (exc_of_lease f)"

definition lease_body :: "('s, 'a) act \<Rightarrow> ('s, 'a) action" where
  "lease_body m s = (case m s of (Inl e, s') \<Rightarrow> (Inl (BodyError e), s') | (Inr x, s') \<Rightarrow> (Inr x, s'))"

definition under_lease :: "('g, 'e) ingester \<Rightarrow> ('g, 'e, 'a) ingestion \<Rightarrow> ('g, 'e, 'a) ingestion" where
  "under_lease G m s =
     (case ingestion_batch (ig_lease G) (world_requester (ig_requester G)) (lease_body m) s of
        (Inl e, s') \<Rightarrow> (Inl (exc_of_lease e), s') | (Inr x, s') \<Rightarrow> (Inr x, s'))"

definition admit ::
  "('g, 'e) ingester \<Rightarrow> ingest_request list \<Rightarrow> ('g, 'e, string list \<times> (string, scan_receipt) dict) ingestion" where
  "admit G requests =
     (let over = (\<lambda>n limit. case ig_policy G of None \<Rightarrow> False | Some p \<Rightarrow> limit (gp_resources p) < int n) in
      act_bind (act_lift (raise_if (requests = []) (rejected ''ingestion batch must contain at least one document'')
       (raise_if (over (length requests) rp_max_batch_documents)
          (rejected ''document batch exceeds configured count limit'') (Inr ())))) (\<lambda>_.
      act_bind (act_lift (res_map (decode_and_validate G) requests)) (\<lambda>contents.
      act_bind (act_lift (raise_if (over (sum_list (map length contents)) rp_max_batch_bytes)
          (rejected ''document batch exceeds configured byte limit'') (validate_page_counts G contents))) (\<lambda>_.
      act_bind (scan_before_gpu G requests contents) (\<lambda>receipts.
      act_return (contents, receipts))))))"

definition run_batch ::
  "('g, 'e) ingester \<Rightarrow> reporter option \<Rightarrow> ingest_request list \<Rightarrow> string list \<Rightarrow> (string, scan_receipt) dict
   \<Rightarrow> ('g, 'e, ingest_response list) ingestion" where
  "run_batch G reporter requests contents receipts =
     act_catch
      (act_bind
        (under_lease G
          (act_bind (emit reporter ''gpu_ingestion_ready'' ''vLLM is sleeping; ingestion owns the GPU'' no_details) (\<lambda>_.
           act_finally
            (act_map (ingest_one G reporter (length requests) receipts) (number_from_1 (zip requests contents)))
            (emit reporter ''releasing_gpu'' ''Releasing ingestion models and GPU memory'' no_details)))) (\<lambda>results.
       act_bind (emit reporter ''vllm_ready'' ''vLLM is awake and ready for cited extraction'' no_details) (\<lambda>_.
       act_return results)))
      (\<lambda>e. act_bind (emit reporter ''failed'' ''Document ingestion failed'' no_details) (\<lambda>_. act_lift (Inl e)))"

definition ingest_batch ::
  "('g, 'e) ingester \<Rightarrow> reporter option \<Rightarrow> ingest_request list \<Rightarrow> ('g, 'e, ingest_response list) ingestion" where
  "ingest_batch G reporter requests =
     act_bind (admit G requests) (\<lambda>(contents, receipts).
     act_bind (emit reporter ''waiting_gpu'' ''Waiting for exclusive GPU access''
                (no_details\<lparr>ad_total := Some (int (length requests))\<rparr>)) (\<lambda>_.
     run_batch G reporter requests contents receipts))"

definition ingest :: "('g, 'e) ingester \<Rightarrow> ingest_request \<Rightarrow> ('g, 'e, ingest_response) ingestion" where
  "ingest G request = act_bind (ingest_batch G None [request]) (\<lambda>rs. act_return (hd rs))"

text \<open>\<open>_SwitchingVisionExtractor\<close> and \<open>validate_parser_security\<close>\<close>

definition switching_extract_page ::
  "lease_config \<Rightarrow> 'g requester \<Rightarrow> ('g lease, document_block list) action \<Rightarrow> ('g lease, document_block list) action" where
  "switching_extract_page cfg rq extractor = generation_fallback cfg rq extractor"

definition validate_parser_security :: "bool \<Rightarrow> bool \<Rightarrow> unit res" where
  "validate_parser_security vision_enabled production_enabled =
     raise_if (production_enabled \<and> vision_enabled)
       (RuntimeError ''production ingestion requires disabled raw-page vision; enable vision only behind a pre-model image-redaction boundary'') (Inr ())"

section \<open>What a run may change\<close>

lemma same_server: "\<exists>g. w = w\<lparr>iw_server := g\<rparr>"
  by (rule exI[of _ "iw_server w"]) simp

lemma call_server: "\<exists>g. snd (call (world_requester rq) how path w) = w\<lparr>iw_server := g\<rparr>"
  by (auto simp: call_def world_requester_def split: prod.splits sum.splits lease_error.splits)

lemma seq_server:
  assumes "\<exists>g. snd (m w) = w\<lparr>iw_server := g\<rparr>" "\<And>x w. \<exists>g. snd (k x w) = w\<lparr>iw_server := g\<rparr>"
  shows "\<exists>g. snd (seq_act m k w) = w\<lparr>iw_server := g\<rparr>"
proof (cases "m w")
  case (Pair r w1)
  obtain g where g: "w1 = w\<lparr>iw_server := g\<rparr>" using assms(1) Pair by auto
  show ?thesis
  proof (cases r)
    case (Inr x)
    obtain h where "snd (k x w1) = w1\<lparr>iw_server := h\<rparr>" using assms(2) by blast
    then show ?thesis using Pair Inr g by (auto simp: seq_act_def)
  qed (use Pair g in \<open>auto simp: seq_act_def\<close>)
qed

lemma sleep_state_server: "\<exists>g. snd (sleep_state (world_requester rq) w) = w\<lparr>iw_server := g\<rparr>"
  unfolding sleep_state_def
  by (intro seq_server call_server) (auto simp: same_server split: reply.splits option.splits)

lemma sleep_server: "\<exists>g. snd (sleep (world_requester rq) w) = w\<lparr>iw_server := g\<rparr>"
  unfolding sleep_def by (intro seq_server call_server sleep_state_server) (simp add: same_server)

lemma wake_server: "\<exists>g. snd (wake (world_requester rq) w) = w\<lparr>iw_server := g\<rparr>"
  unfolding wake_def
  by (intro seq_server call_server sleep_state_server) (auto simp: same_server intro!: seq_server call_server)

text \<open>
  A relation between the states before and after that the server and its flag do not matter to, and that the
  reports of the given reporter keep: the parser and the lease itself keep it, so a batch keeps it when
  its documents do.
\<close>

locale ingest_relation = act_relation R
  for R :: "('g, 'e) ingest_world lease \<Rightarrow> ('g, 'e) ingest_world lease \<Rightarrow> bool" +
  fixes reporter :: "reporter option"
  assumes run_server: "R s \<lparr>ls_world = (ls_world s)\<lparr>iw_server := g\<rparr>, ls_batch = b\<rparr>"
    and run_feed: "reporter = Some f \<Longrightarrow> f stage m d (iw_activity (ls_world s)) = (r, a) \<Longrightarrow>
      R s (s\<lparr>ls_world := (ls_world s)\<lparr>iw_activity := a\<rparr>\<rparr>)"
begin

lemma keeps_emit: "keeps R (emit reporter stage message details)"
  by (auto simp: keeps_def emit_def run_refl intro: run_feed split: option.splits prod.splits)

lemma keeps_on_server: "keeps R (on_server m)"
  by (auto simp: keeps_def on_server_def run_server split: prod.splits)

lemma keeps_on_world:
  assumes "\<And>w. \<exists>g. snd (m w) = w\<lparr>iw_server := g\<rparr>"
  shows "R s (snd (on_world m s))" "R s (snd (on_world m s)\<lparr>ls_batch := b\<rparr>)"
proof -
  obtain g where g: "snd (m (ls_world s)) = (ls_world s)\<lparr>iw_server := g\<rparr>" using assms by blast
  have "snd (on_world m s) = s\<lparr>ls_world := snd (m (ls_world s))\<rparr>" by (simp add: on_world_def split: prod.split)
  also have "\<dots> = s\<lparr>ls_world := (ls_world s)\<lparr>iw_server := g\<rparr>\<rparr>" by (simp only: g)
  also have "\<dots> = \<lparr>ls_world = (ls_world s)\<lparr>iw_server := g\<rparr>, ls_batch = ls_batch s\<rparr>" by (cases s) simp
  finally have after: "snd (on_world m s) = \<lparr>ls_world = (ls_world s)\<lparr>iw_server := g\<rparr>, ls_batch = ls_batch s\<rparr>" .
  show "R s (snd (on_world m s))" unfolding after by (rule run_server)
  have "R s \<lparr>ls_world = (ls_world s)\<lparr>iw_server := g\<rparr>, ls_batch = b\<rparr>" by (rule run_server)
  then show "R s (snd (on_world m s)\<lparr>ls_batch := b\<rparr>)" unfolding after by simp
qed

lemma run_flag: "R s (s\<lparr>ls_batch := b\<rparr>)"
  using run_server[of s "iw_server (ls_world s)" b] by (cases s) simp

lemma keeps_under_lease:
  assumes "keeps R m"
  shows "keeps R (under_lease G m)"
proof -
  let ?rq = "world_requester (ig_requester G)"
  have body: "R s (snd (lease_body m s))" for s
    using assms by (auto simp: lease_body_def keeps_def split: prod.splits sum.splits)
      (metis snd_conv)+
  have awake: "R s (snd (on_world (wake ?rq) s'))" if "R s s'" for s s'
    by (rule run_trans[OF that keeps_on_world(1)[OF wake_server]])
  have inner: "R s (snd (end_batch (case lease_body m (s\<lparr>ls_batch := True\<rparr>) of
      (Inl e, s1) \<Rightarrow> (case on_world (wake ?rq) s1 of
          (Inl f, s2) \<Rightarrow> (Inl (RestoreGroup e f), s2) | (Inr _, s2) \<Rightarrow> (Inl e, s2))
    | (Inr x, s1) \<Rightarrow> (case on_world (wake ?rq) s1 of (Inl f, s2) \<Rightarrow> (Inl f, s2) | (Inr _, s2) \<Rightarrow> (Inr x, s2)))))"
    for s
  proof (cases "lease_body m (s\<lparr>ls_batch := True\<rparr>)")
    case (Pair r s1)
    have "R (s\<lparr>ls_batch := True\<rparr>) s1" using body[of "s\<lparr>ls_batch := True\<rparr>"] Pair by simp
    then have "R s s1" by (rule run_trans[OF run_flag])
    then have "R s (snd (on_world (wake ?rq) s1))" by (rule awake)
    then have "R s ((snd (on_world (wake ?rq) s1))\<lparr>ls_batch := False\<rparr>)" by (rule run_trans[OF _ run_flag])
    then show ?thesis using Pair
      by (cases r; cases "on_world (wake ?rq) s1") (auto simp: end_batch_def split: sum.splits)
  qed
  have "R s (snd (ingestion_batch (ig_lease G) ?rq (lease_body m) s))" for s
  proof (cases "lc_enabled (ig_lease G)")
    case True
    show ?thesis
    proof (cases "on_world (sleep ?rq) s")
      case (Pair r s0)
      have "R s (snd (on_world (sleep ?rq) s))" by (rule keeps_on_world(1)[OF sleep_server])
      then have start: "R s s0" by (simp add: Pair)
      show ?thesis
        using inner[of s0] run_trans[OF start] start True Pair
        by (cases r) (simp_all add: ingestion_batch_def seq_act_def)
    qed
  qed (simp add: ingestion_batch_def body)
  then show ?thesis
    by (auto simp: keeps_def under_lease_def split: prod.splits sum.splits) (metis snd_conv)+
qed

end

text \<open>Storing and quarantining content keep it as well; so does a whole batch, when upserting does.\<close>

locale ingest_steps = ingest_relation +
  assumes run_encrypt: "keeps R (store_encrypted G st a digest content)"
    and run_plain: "keeps R (store_plain p content)"
    and run_quarantine: "R s (s\<lparr>ls_world := quarantine G r content (ls_world s)\<rparr>)"
begin

lemma keeps_read: "keeps R (read_encrypted G p)"
  by (auto simp: keeps_def read_encrypted_def run_refl split: option.split)

lemma keeps_parse:
  "keeps R (parse_encrypted G reporter d name st a content)" "keeps R (parse_plain G reporter d name content)"
  unfolding parse_encrypted_def parse_plain_def announce_and_parse_def Let_def
  by (intro run_bind keeps_emit keeps_on_server run_return run_encrypt run_plain keeps_read)+

lemma keeps_store_and_parse: "keeps R (store_and_parse G reporter d r content)"
  by (auto simp: keeps_def store_and_parse_def intro: keeps_parse[unfolded keeps_def, rule_format]
      split: option.splits list.splits)

lemma keeps_ingest_one:
  assumes "\<And>parsed made chunks rs es. evidence_chunks G (fst (snd item)) parsed = Inr made \<Longrightarrow>
      protect_chunks G (iq_filename (fst (snd item))) made = Inr (chunks, rs) \<Longrightarrow> keeps R (upsert_chunks chunks es)"
  shows "keeps R (ingest_one G reporter count receipts item)"
  unfolding ingest_one_def Let_def
  by (intro run_bind keeps_emit keeps_store_and_parse run_lift run_return
    | clarsimp simp: act_lift_def split: prod.splits | erule (1) assms)+

lemma keeps_scan: "keeps R (scan_before_gpu G requests contents)"
proof -
  have "R s (snd (scan_documents G clam items receipts s))" for clam items receipts s
    by (induction G clam items receipts s rule: scan_documents.induct)
      (auto simp: run_refl run_quarantine split: sum.splits exc.splits)
  then have "keeps R (scan_documents G clam items receipts)" for clam items receipts by (simp add: keeps_def)
  then show ?thesis by (auto simp: scan_before_gpu_def intro: run_return run_lift split: option.split)
qed

lemma keeps_admit: "keeps R (admit G requests)"
  unfolding admit_def Let_def by (intro run_bind run_lift keeps_scan run_return)

lemma number_from_1_in:
  assumes "item \<in> set (number_from_1 xs)"
  shows "snd item \<in> set xs"
proof -
  have "snd item = xs ! (fst item - 1)" "fst item - 1 < length xs"
    using assms by (auto simp: number_from_1_def in_set_enumerate_eq)
  then show ?thesis by simp
qed

lemma keeps_run_batch:
  assumes "\<And>item. snd item \<in> set (zip requests contents) \<Longrightarrow>
      keeps R (ingest_one G reporter (length requests) receipts item)"
  shows "keeps R (run_batch G reporter requests contents receipts)"
  unfolding run_batch_def
  by (intro run_catch run_bind keeps_under_lease run_finally run_map keeps_emit run_return run_lift
      assms number_from_1_in)

lemma keeps_ingest_batch:
  assumes "\<And>chunks es. keeps R (upsert_chunks chunks es)"
  shows "keeps R (ingest_batch G reporter requests)"
proof -
  have "keeps R (ingest_one G reporter n receipts item)" for n receipts item
    by (rule keeps_ingest_one) (rule assms)
  then show ?thesis unfolding ingest_batch_def
    by (auto intro!: run_bind keeps_admit keeps_emit keeps_run_batch split: prod.splits)
qed

end

end
