(* ===== verification/Grounding.thy ===== *)
theory Grounding
  imports Retrieval PyRegex PyDecimal Json
begin

text \<open>
  \<open>reason/pass1_extract.py\<close>, \<open>reason/pass2_reason.py\<close>, \<open>reason/single_pass.py\<close>, \<open>reason/prompting.py\<close> and
  \<open>reason/pipeline.py\<close>: answers of a language model are accepted only if their citations, their numbers
  and their vocabulary come from the retrieved evidence. The model is a parameter: a
  function from stage, system prompt and prompt to a text or an error. So are the JSON codec
  and pydantic's validation of decoded JSON.

  The word pattern counts every code point outside ASCII as a letter.
\<close>

section \<open>Values and external tools\<close>

record tools =
  tl_loads :: "string \<Rightarrow> json option"                      \<comment> \<open>\<open>None\<close>: \<open>JSONDecodeError\<close>\<close>
  tl_dumps :: "json \<Rightarrow> string"
  tl_prompt :: "string \<Rightarrow> string"                           \<comment> \<open>the prompt resources of the package\<close>
  tl_citation :: "json \<Rightarrow> citation option"                  \<comment> \<open>\<open>model_validate\<close> of the five models\<close>
  tl_extraction :: "json \<Rightarrow> extraction option"
  tl_answer :: "json \<Rightarrow> answer option"
  tl_selection :: "json \<Rightarrow> (string \<times> string list) option"
  tl_dump_citation :: "citation \<Rightarrow> json"                    \<comment> \<open>\<open>model_dump(mode='json')\<close>\<close>
  tl_dump_provenance :: "provenance \<Rightarrow> json"

type_synonym client = "string \<Rightarrow> string \<Rightarrow> string \<Rightarrow> string res"

section \<open>Prompts\<close>

definition opt_str :: "string option \<Rightarrow> json" where
  "opt_str s = (case s of None \<Rightarrow> JNull | Some t \<Rightarrow> JStr t)"

text \<open>\<open>sort_keys=True\<close>: the keys in order.\<close>

definition render_hit :: "tools \<Rightarrow> hit \<Rightarrow> string" where
  "render_hit T h = tl_dumps T (JObj [(''chunk_id'', JStr (chunk_id (ht_chunk h))),
     (''provenance'', JArr (map (tl_dump_provenance T) (chunk_prov (ht_chunk h)))),
     (''rank'', JNum (of_nat (ht_rank h))), (''score'', JNum (ht_score h)),
     (''text'', JStr (chunk_text (ht_chunk h)))])"

definition render_evidence :: "tools \<Rightarrow> hit list \<Rightarrow> string" where
  "render_evidence T hits = join newline (map (render_hit T) hits)"

definition evidence_id :: "nat \<Rightarrow> string" where
  "evidence_id i = ''evidence_'' @ str_of_nat i"

definition render_extraction :: "tools \<Rightarrow> extraction \<Rightarrow> string" where
  "render_extraction T e = tl_dumps T (JObj [(''question'', JStr (ex_question e)),
     (''figures'', JArr (map (\<lambda>(i, f). JObj [(''evidence_id'', JStr (evidence_id i)), (''label'', JStr (fg_label f)),
        (''value'', JStr (fg_value f)), (''unit'', opt_str (fg_unit f)), (''period'', opt_str (fg_period f))])
        (number_from_1 (ex_figures e)))),
     (''notes'', JArr (map JStr (ex_notes e)))])"

fun substitute :: "string \<Rightarrow> (string, string) dict \<Rightarrow> string" where
  "substitute template [] = template"
| "substitute template ((k, v) # kvs) = substitute (replace_all (''{{'' @ k @ ''}}'') v template) kvs"

section \<open>The object in a response\<close>

text \<open>\<open>s.rsplit(p, 1)[0]\<close>\<close>

fun before_last :: "string \<Rightarrow> string \<Rightarrow> string option" where
  "before_last p [] = (if p = [] then Some [] else None)"
| "before_last p (c # s) =
     (case before_last p s of
        Some t \<Rightarrow> Some (c # t)
      | None \<Rightarrow> if starts_with p (c # s) then Some [] else None)"

definition fence :: string where
  "fence = replicate 3 (CHR 0x60)"

text \<open>A fenced answer without a line break has no element 1 after the split.\<close>

definition strip_fence :: "string \<Rightarrow> string res" where
  "strip_fence s =
     (if \<not> starts_with fence s then Inr s
      else (case dropWhile (\<lambda>c. c \<noteq> CHR 0x0A) s of
              [] \<Rightarrow> Inl IndexError
            | _ # t \<Rightarrow> Inr (case before_last fence t of None \<Rightarrow> t | Some u \<Rightarrow> u)))"

text \<open>From the first opening brace to the last closing one.\<close>

definition brace_slice :: "string \<Rightarrow> string option" where
  "brace_slice s =
     (let t = rev (dropWhile (\<lambda>c. c \<noteq> CHR ''}'') (rev (dropWhile (\<lambda>c. c \<noteq> CHR ''{'') s)))
      in if t = [] then None else Some t)"

definition parse_json :: "tools \<Rightarrow> string \<Rightarrow> json res" where
  "parse_json T raw =
     res_bind (strip_fence (strip raw)) (\<lambda>cleaned.
     res_bind (case tl_loads T cleaned of
         Some v \<Rightarrow> Inr v
       | None \<Rightarrow>
           (case brace_slice cleaned of
              None \<Rightarrow> Inl (ValueError ''generation response did not contain a JSON object'')
            | Some t \<Rightarrow>
                (case tl_loads T t of None \<Rightarrow> Inl (JSONDecodeError ''Expecting value'') | Some v \<Rightarrow> Inr v))) (\<lambda>v.
     case v of JObj _ \<Rightarrow> Inr v | _ \<Rightarrow> Inl (ValueError ''generation response must be a JSON object'')))"

section \<open>Numbers in texts\<close>

definition number_edge :: "(char \<times> char) list" where
  "number_edge = [(CHR ''0'', CHR ''9''), (CHR ''.'', CHR ''.''), (CHR '','', CHR '','')]"

definition number_rx :: rx where
  "number_rx = seqs [NotBehind number_edge, opt_rx (chars_rx ''-+''), digit_rx,
     Star (Cls False [(CHR ''0'', CHR ''9''), (CHR '','', CHR '','')]),
     opt_rx (Seq (Lit ''.'') (plus_rx digit_rx)), NotAhead (Cls False number_edge)]"

definition number_matches :: "string \<Rightarrow> rxm list" where
  "number_matches t = re_finditer False False number_rx t"

definition token_decimal :: "rxm \<Rightarrow> dec option" where
  "token_decimal m = decimal_of_string (replace_all '','' [] (m_text m))"

definition normalized_numbers :: "string \<Rightarrow> dec list" where
  "normalized_numbers t = List.map_filter token_decimal (number_matches t)"

definition scale_words :: "(string \<times> int) list" where
  "scale_words = [(''thousand'', 1000), (''lakh'', 100000), (''million'', 1000000),
     (''crore'', 10000000), (''billion'', 1000000000)]"

text \<open>The value as it stands, and scaled by the word that follows it.\<close>

definition number_variants :: "dec \<Rightarrow> string \<Rightarrow> dec list" where
  "number_variants n after =
     (let suffix = casefold (lstrip after) in
      case List.find (\<lambda>(w, k). starts_with w suffix) scale_words of
        None \<Rightarrow> [n]
      | Some (w, k) \<Rightarrow> [n, dec_mul prec28 n (dec_of_int k)])"

definition numeric_groups :: "string \<Rightarrow> dec list list" where
  "numeric_groups t = List.map_filter (\<lambda>m. map_option (\<lambda>n. number_variants n (m_after m)) (token_decimal m))
     (number_matches t)"

definition numeric_variants :: "string \<Rightarrow> dec list" where
  "numeric_variants t = concat (numeric_groups t)"

text \<open>Intersection of sets of decimals, which compare by value.\<close>

definition share_number :: "dec list \<Rightarrow> dec list \<Rightarrow> bool" where
  "share_number xs ys = list_ex (\<lambda>x. list_ex (dec_eq x) ys) xs"

section \<open>Vocabulary\<close>

definition letter_set :: "(char \<times> char) list" where
  "letter_set = [(CHR ''A'', CHR ''Z''), (CHR ''a'', CHR ''z''), (CHR 0x80, CHR 0xFF)]"

definition word_rx :: rx where
  "word_rx = Seq (plus_rx (Cls False letter_set))
     (Star (Cls False (letter_set @ [(CHR ''0'', CHR ''9''), (CHR ''_'', CHR ''_''), (CHR ''-'', CHR ''-'')])))"

definition stop_words :: "string list" where
  "stop_words = [''a'', ''an'', ''and'', ''about'', ''approximately'', ''amounted'', ''are'', ''as'', ''at'', ''be'',
     ''by'', ''company'', ''for'', ''from'', ''in'', ''is'', ''it'', ''of'', ''on'', ''or'', ''reported'', ''stood'',
     ''the'', ''to'', ''was'', ''were'', ''with'']"

definition canonical_term :: "string \<Rightarrow> string" where
  "canonical_term t =
     (if starts_with ''fy'' t \<and> py_len t = 6 \<and> list_all is_digit (drop 2 t) then ''fy'' @ drop 4 t else t)"

definition grounding_terms :: "string \<Rightarrow> string list" where
  "grounding_terms t =
     map canonical_term (filter (\<lambda>w. 2 < py_len w \<and> w \<notin> set stop_words)
       (map m_text (re_finditer False False word_rx (casefold t))))"

definition unsupported_terms :: "string \<Rightarrow> string list \<Rightarrow> string list" where
  "unsupported_terms answer trusted =
     filter (\<lambda>w. w \<notin> set (grounding_terms (join '' '' trusted))) (grounding_terms answer)"

section \<open>Citations of extracted figures\<close>

definition all_citations :: "hit list \<Rightarrow> citation list" where
  "all_citations hits = concat (map (\<lambda>h. map citation_from_provenance (chunk_prov (ht_chunk h))) hits)"

text \<open>A dictionary keyed by the identity of a citation: the first position, the last object.\<close>

definition by_identity :: "citation list \<Rightarrow> citation list" where
  "by_identity cs = map snd (foldl (\<lambda>d c. AList.update (citation_identity c) c d) [] cs)"

definition loose_iou :: rat where
  "loose_iou = 1 / 100"

definition res_option :: "'a res \<Rightarrow> 'a option" where
  "res_option r = (case r of Inl _ \<Rightarrow> None | Inr x \<Rightarrow> Some x)"

text \<open>The one candidate of the page, or the best match of the proposed box among them.\<close>

definition page_citation :: "citation \<Rightarrow> citation list \<Rightarrow> citation option" where
  "page_citation proposed page =
     (case page of [] \<Rightarrow> None | [c] \<Rightarrow> Some c | _ \<Rightarrow> res_option (ground_citation loose_iou proposed page))"

definition same_page :: "citation \<Rightarrow> citation \<Rightarrow> bool" where
  "same_page a b = (ct_document a = ct_document b \<and> ct_page a = ct_page b)"

text \<open>\<open>SourceCitation.model_validate\<close> of a dictionary, \<open>None\<close> for anything else.\<close>

definition proposed_citation :: "tools \<Rightarrow> json option \<Rightarrow> citation option" where
  "proposed_citation T proposed = (case proposed of Some (JObj d) \<Rightarrow> tl_citation T (JObj d) | _ \<Rightarrow> None)"

definition text_supports :: "string \<Rightarrow> string \<Rightarrow> bool" where
  "text_supports v t =
     (let ns = normalized_numbers v in
      (length ns = 1 \<and> share_number (numeric_variants v) (numeric_variants t))
      \<or> (ns = [] \<and> contains (casefold (strip v)) (casefold t)))"

definition unique_value_citation :: "tools \<Rightarrow> json option \<Rightarrow> hit list \<Rightarrow> json option \<Rightarrow> citation option" where
  "unique_value_citation T v hits proposed =
     (case v of
        Some (JStr s) \<Rightarrow>
          if strip s = [] then None
          else
            let ids = by_identity (all_citations (filter (\<lambda>h. text_supports s (chunk_text (ht_chunk h))) hits)) in
            (case ids of
               [c] \<Rightarrow> Some c
             | _ \<Rightarrow> (case proposed_citation T proposed of None \<Rightarrow> None
                      | Some p \<Rightarrow> page_citation p (filter (\<lambda>c. same_page c p) ids)))
      | _ \<Rightarrow> None)"

definition canonical_evidence_citation :: "tools \<Rightarrow> json option \<Rightarrow> hit list \<Rightarrow> citation option" where
  "canonical_evidence_citation T proposed hits =
     (case proposed_citation T proposed of None \<Rightarrow> None
      | Some p \<Rightarrow> page_citation p (by_identity (filter (\<lambda>c. same_page c p) (all_citations hits))))"

definition repair_item :: "tools \<Rightarrow> hit list \<Rightarrow> json \<Rightarrow> json" where
  "repair_item T hits item =
     (case item of
        JObj d \<Rightarrow>
          (case unique_value_citation T (map_of d ''value'') hits (map_of d ''citation'') of
             Some c \<Rightarrow> JObj (AList.update ''citation'' (tl_dump_citation T c) d)
           | None \<Rightarrow>
               (case canonical_evidence_citation T (map_of d ''citation'') hits of
                  Some c \<Rightarrow> JObj (AList.update ''citation'' (tl_dump_citation T c) d)
                | None \<Rightarrow> item))
      | _ \<Rightarrow> item)"

definition repair_grounded_output :: "tools \<Rightarrow> json \<Rightarrow> string \<Rightarrow> hit list \<Rightarrow> json" where
  "repair_grounded_output T payload question hits =
     (case payload of
        JObj d \<Rightarrow>
          (let repaired = AList.update ''question'' (JStr question) d in
           case map_of repaired ''figures'' of
             Some (JArr items) \<Rightarrow> JObj (AList.update ''figures'' (JArr (map (repair_item T hits) items)) repaired)
           | _ \<Rightarrow> JObj repaired)
      | j \<Rightarrow> j)"

section \<open>Pass 1\<close>

definition cites :: "citation \<Rightarrow> hit \<Rightarrow> bool" where
  "cites c h = list_ex (\<lambda>p. citation_identity (citation_from_provenance p) = citation_identity c) (chunk_prov (ht_chunk h))"

definition hit_supports :: "string \<Rightarrow> hit \<Rightarrow> bool" where
  "hit_supports v h =
     (let t = chunk_text (ht_chunk h) in
      if normalized_numbers v \<noteq> [] then list_all (\<lambda>g. share_number g (numeric_variants t)) (numeric_groups v)
      else contains (casefold (strip v)) (casefold t))"

definition value_supported :: "string \<Rightarrow> citation \<Rightarrow> hit list \<Rightarrow> bool" where
  "value_supported v c hits = list_ex (\<lambda>h. cites c h \<and> hit_supports v h) hits"

definition with_citation :: "citation \<Rightarrow> figure \<Rightarrow> figure" where
  "with_citation c f = Figure (fg_label f) (fg_value f) (fg_unit f) (fg_period f) c (fg_evidence f) (fg_calculation f)"

definition ground_figure :: "hit list \<Rightarrow> figure \<Rightarrow> figure res" where
  "ground_figure hits f =
     (case ground_citation minimum_iou (fg_citation f) (all_citations hits) of
        Inl _ \<Rightarrow> Inl (ValueError ''pass 1 returned a citation not present in retrieved evidence'')
      | Inr c \<Rightarrow>
          raise_if (\<not> value_supported (fg_value f) c hits)
            (ValueError ''pass 1 returned a figure not supported by retrieved evidence'')
            (Inr (with_citation c f)))"

definition ground_citations :: "extraction \<Rightarrow> hit list \<Rightarrow> extraction res" where
  "ground_citations e hits = res_bind (res_map (ground_figure hits) (ex_figures e)) (\<lambda>fs. Inr (e\<lparr>ex_figures := fs\<rparr>))"

definition validated :: "'a option \<Rightarrow> 'a res" where   \<comment> \<open>a \<open>ValidationError\<close> is a \<open>ValueError\<close>\<close>
  "validated v = (case v of None \<Rightarrow> Inl (ValueError ''ValidationError'') | Some x \<Rightarrow> Inr x)"

definition evidence_prompt :: "tools \<Rightarrow> string \<Rightarrow> hit list \<Rightarrow> string" where
  "evidence_prompt T question hits =
     tl_dumps T (JObj [(''question'', JStr question), (''untrusted_evidence'', JStr (render_evidence T hits))])"

definition pass1 :: "tools \<Rightarrow> client \<Rightarrow> string \<Rightarrow> hit list \<Rightarrow> extraction res" where
  "pass1 T ask question hits =
     raise_if (strip question = []) (ValueError ''question must not be blank'')
    (raise_if (hits = []) (ValueError ''pass 1 requires at least one retrieved evidence chunk'')
    (res_bind (ask ''generation.pass1'' (tl_prompt T ''pass1_extract.txt'') (evidence_prompt T question hits)) (\<lambda>raw.
     res_bind (parse_json T raw) (\<lambda>payload.
     res_bind (validated (tl_extraction T (repair_grounded_output T payload question hits))) (\<lambda>e.
     ground_citations e hits)))))"

section \<open>Pass 2\<close>

type_synonym evidence_selection = "string \<times> string list"

definition numbered_figures :: "extraction \<Rightarrow> (string, figure) dict" where
  "numbered_figures e = map (\<lambda>(i, f). (evidence_id i, f)) (number_from_1 (ex_figures e))"

definition validate_selection :: "tools \<Rightarrow> extraction \<Rightarrow> string \<Rightarrow> evidence_selection res" where
  "validate_selection T e raw =
     res_bind (parse_json T raw) (\<lambda>payload.
     res_bind (validated (tl_selection T payload)) (\<lambda>(answer, ids).
     raise_if (list_ex (\<lambda>i. \<not> dict_has (numbered_figures e) i) ids)
       (ValueError (''pass 2 selected unknown evidence IDs: '' @
          join '', '' (sort (uniq (filter (\<lambda>i. \<not> dict_has (numbered_figures e) i) ids)))))
       (Inr (answer, uniq ids))))"

definition nonempty :: "string list \<Rightarrow> string list" where
  "nonempty = filter (\<lambda>s. s \<noteq> [])"

definition figure_text :: "figure \<Rightarrow> string" where
  "figure_text f = join '' '' (nonempty [fg_label f, fg_value f,
     case fg_unit f of None \<Rightarrow> [] | Some u \<Rightarrow> u, case fg_period f of None \<Rightarrow> [] | Some p \<Rightarrow> p])"

definition validate_answer_support :: "string \<Rightarrow> figure list \<Rightarrow> string \<Rightarrow> unit res" where
  "validate_answer_support answer selected question =
     (let evidence_text = join '' '' (map figure_text selected); gs = numeric_groups answer in
      raise_if (gs \<noteq> [] \<and> \<not> list_all (\<lambda>g. share_number g (numeric_variants evidence_text)) gs)
        (ValueError ''pass 2 answer contains a number unsupported by selected evidence'')
     (raise_if (gs = [] \<and> \<not> list_ex (\<lambda>f. contains (casefold (fg_value f)) (casefold answer)) selected)
        (ValueError ''pass 2 answer is not supported by selected evidence'')
     (raise_if (unsupported_terms answer [question, evidence_text] \<noteq> [])
        (ValueError ''pass 2 answer contains factual terms unsupported by selected evidence'') (Inr ()))))"

definition selected_figures :: "extraction \<Rightarrow> string list \<Rightarrow> figure list res" where
  "selected_figures e ids =
     res_map (\<lambda>i. case map_of (numbered_figures e) i of None \<Rightarrow> Inl (KeyError i) | Some f \<Rightarrow> Inr f) ids"

definition checked_selection :: "tools \<Rightarrow> extraction \<Rightarrow> string \<Rightarrow> string \<Rightarrow> evidence_selection res" where
  "checked_selection T e question raw =
     res_bind (validate_selection T e raw) (\<lambda>(answer, ids).
     res_bind (selected_figures e ids) (\<lambda>fs.
     res_bind (validate_answer_support answer fs question) (\<lambda>_. Inr (answer, ids))))"

text \<open>\<open>str(error)\<close> of an error that \<open>except ValueError\<close> caught.\<close>

definition error_text :: "exc \<Rightarrow> string" where
  "error_text e = (case e of ValueError m \<Rightarrow> m | EvidenceInsufficient m \<Rightarrow> m | _ \<Rightarrow> [])"

definition retried_selection :: "tools \<Rightarrow> extraction \<Rightarrow> string \<Rightarrow> string \<Rightarrow> evidence_selection res" where
  "retried_selection T e question retry =
     (case checked_selection T e question retry of
        Inr s \<Rightarrow> Inr s
      | Inl retry_error \<Rightarrow>
          Inl (if is_value_error retry_error
               then ValueError ''pass 2 returned an invalid evidence selection after retry'' else retry_error))"

definition selection_of :: "tools \<Rightarrow> client \<Rightarrow> extraction \<Rightarrow> string \<Rightarrow> string \<Rightarrow> evidence_selection res" where
  "selection_of T ask e question raw =
     (case checked_selection T e question raw of
        Inr s \<Rightarrow> Inr s
      | Inl first_error \<Rightarrow>
          if \<not> is_value_error first_error then Inl first_error
          else
            res_bind (ask ''generation.pass2.retry'' (tl_prompt T ''pass2_retry.txt'')
              (tl_dumps T (JObj [(''question'', JStr question), (''structured_extraction'', JStr (render_extraction T e)),
                 (''invalid_response'', JStr raw), (''validation_error'', JStr (error_text first_error))])))
              (retried_selection T e question))"

definition mk_answer :: "string \<Rightarrow> citation list \<Rightarrow> answer res" where
  "mk_answer t cs =
     (let a = \<lparr>an_text = t, an_citations = cs\<rparr> in
      raise_if (\<not> answer_ok a) (ValueError ''ValidationError'') (Inr a))"

definition pass2 :: "tools \<Rightarrow> client \<Rightarrow> string \<Rightarrow> extraction \<Rightarrow> answer res" where
  "pass2 T ask question e =
     raise_if (strip question = []) (ValueError ''question must not be blank'')
    (res_bind (ask ''generation.pass2'' (tl_prompt T ''pass2_reason.txt'')
        (tl_dumps T (JObj [(''question'', JStr question), (''structured_extraction'', JStr (render_extraction T e))]))) (\<lambda>raw.
     raise_if (ex_figures e = []) (ValueError ''pass 2 cannot produce a cited answer without extracted figures'')
    (res_bind (selection_of T ask e question raw) (\<lambda>(text, ids).
     res_bind (selected_figures e ids) (\<lambda>fs. mk_answer text (map fg_citation fs))))))"

section \<open>The single-pass baseline\<close>

definition cited_text :: "citation list \<Rightarrow> hit list \<Rightarrow> string" where
  "cited_text cs hits = join '' '' (map (chunk_text \<circ> ht_chunk) (filter (\<lambda>h. list_ex (\<lambda>c. cites c h) cs) hits))"

definition single_pass :: "tools \<Rightarrow> client \<Rightarrow> string \<Rightarrow> hit list \<Rightarrow> answer res" where
  "single_pass T ask question hits =
     raise_if (strip question = []) (ValueError ''question must not be blank'')
    (raise_if (hits = []) (ValueError ''single-pass reasoning requires retrieved evidence'')
    (res_bind (ask ''generation.single_pass'' (tl_prompt T ''single_pass_reason.txt'') (evidence_prompt T question hits)) (\<lambda>raw.
     res_bind (parse_json T raw) (\<lambda>payload.
     res_bind (validated (tl_answer T payload)) (\<lambda>a.
     (case res_map (\<lambda>c. ground_citation minimum_iou c (all_citations hits)) (an_citations a) of
        Inl _ \<Rightarrow> Inl (ValueError ''single-pass returned a citation not present in retrieved evidence'')
      | Inr cs \<Rightarrow>
          let cited = cited_text cs hits in
          raise_if (list_ex (\<lambda>g. \<not> share_number g (numeric_variants cited)) (numeric_groups (an_text a)))
            (ValueError ''single-pass answer contains a number unsupported by cited evidence'')
         (raise_if (unsupported_terms (an_text a) [question, cited] \<noteq> [])
            (ValueError ''single-pass answer contains factual terms unsupported by cited evidence'')
            (Inr (a\<lparr>an_citations := cs\<rparr>)))))))))"

section \<open>The pipeline\<close>

record pipeline_config =
  pc_name :: string
  pc_passes :: nat

record reasoning_run =
  rr_mode :: string
  rr_question :: string
  rr_answer :: answer
  rr_extraction :: "extraction option"

definition mk_pipeline_config :: "string \<Rightarrow> nat \<Rightarrow> pipeline_config res" where
  "mk_pipeline_config name passes =
     raise_if (name = [] \<or> passes \<notin> {1, 2}) (ValueError ''reasoning config needs a name and passes of 1 or 2'')
       (Inr \<lparr>pc_name = name, pc_passes = passes\<rparr>)"

text \<open>The trace context of a run refuses a blank question.\<close>

definition run_reasoning :: "pipeline_config \<Rightarrow> tools \<Rightarrow> client \<Rightarrow> string \<Rightarrow> hit list \<Rightarrow> reasoning_run res" where
  "run_reasoning cfg T ask question hits =
     raise_if (strip question = []) (ValueError ''trace query must not be blank'')
     (if pc_passes cfg = 1
      then res_bind (single_pass T ask question hits) (\<lambda>a.
        Inr \<lparr>rr_mode = pc_name cfg, rr_question = question, rr_answer = a, rr_extraction = None\<rparr>)
      else res_bind (pass1 T ask question hits) (\<lambda>e.
        res_bind (pass2 T ask question e) (\<lambda>a.
        Inr \<lparr>rr_mode = pc_name cfg, rr_question = question, rr_answer = a, rr_extraction = Some e\<rparr>)))"

section \<open>What an accepted answer stands on\<close>

lemma ground_figure_Inr:
  assumes "ground_figure hits f = Inr g"
  shows "fg_citation g \<in> set (all_citations hits) \<and> value_supported (fg_value g) (fg_citation g) hits
    \<and> fg_label g = fg_label f \<and> fg_value g = fg_value f"
  using assms ground_citation_sound[of minimum_iou "fg_citation f" "all_citations hits"]
  by (auto simp: ground_figure_def raise_if_Inr_iff with_citation_def split: sum.splits)

definition figure_grounded :: "hit list \<Rightarrow> figure \<Rightarrow> bool" where
  "figure_grounded hits f =
     (fg_citation f \<in> set (all_citations hits) \<and> value_supported (fg_value f) (fg_citation f) hits)"

lemma ground_citations_Inr: "ground_citations e hits = Inr e' \<Longrightarrow> list_all (figure_grounded hits) (ex_figures e')"
  by (auto simp: ground_citations_def res_bind_Inr_iff list_all_iff figure_grounded_def
      dest!: res_map_in_set ground_figure_Inr)

lemma pass1_Inr: "pass1 T ask question hits = Inr e \<Longrightarrow> hits \<noteq> [] \<and> list_all (figure_grounded hits) (ex_figures e)"
  by (auto simp: pass1_def res_simps dest: ground_citations_Inr)

lemma evidence_id_inj: "evidence_id i = evidence_id j \<longleftrightarrow> i = j"
  by (simp add: evidence_id_def str_of_nat_inj)

lemma numbered_figures_in: "map_of (numbered_figures e) i = Some f \<Longrightarrow> f \<in> set (ex_figures e)"
  by (auto simp: numbered_figures_def number_from_1_def in_set_enumerate_eq dest!: map_of_SomeD)

lemma selected_figures_in: "selected_figures e ids = Inr fs \<Longrightarrow> set fs \<subseteq> set (ex_figures e) \<and> length fs = length ids"
  by (auto simp: selected_figures_def dest: res_map_length)
    (auto dest!: res_map_in_set numbered_figures_in split: option.splits)

text \<open>The numbers and words of an answer all occur in the text of the evidence or the question.\<close>

definition answer_supported :: "string \<Rightarrow> string \<Rightarrow> string \<Rightarrow> bool" where
  "answer_supported answer question evidence =
     (list_all (\<lambda>g. share_number g (numeric_variants evidence)) (numeric_groups answer)
      \<and> unsupported_terms answer [question, evidence] = [])"

lemma validate_answer_support_Inr:
  assumes "validate_answer_support a fs q = Inr u"
  shows "answer_supported a q (join '' '' (map figure_text fs))
    \<and> (numeric_groups a = [] \<longrightarrow> (\<exists>f \<in> set fs. contains (casefold (fg_value f)) (casefold a)))"
  using assms by (auto simp: validate_answer_support_def Let_def raise_if_Inr_iff answer_supported_def list_ex_iff)

lemma checked_selection_Inr:
  assumes "checked_selection T e q raw = Inr (a, ids)"
  shows "distinct ids \<and> (\<exists>fs. selected_figures e ids = Inr fs
    \<and> answer_supported a q (join '' '' (map figure_text fs))
    \<and> (numeric_groups a = [] \<longrightarrow> (\<exists>f \<in> set fs. contains (casefold (fg_value f)) (casefold a))))"
  using assms validate_answer_support_Inr
  by (auto simp: checked_selection_def validate_selection_def res_simps)

lemma selection_of_Inr:
  assumes "selection_of T ask e q raw = Inr s"
  shows "\<exists>raw'. checked_selection T e q raw' = Inr s"
proof -
  have "retried_selection T e q r = Inr s \<Longrightarrow> checked_selection T e q r = Inr s" for r
    by (simp add: retried_selection_def split: sum.splits)
  with assms show ?thesis
    by (auto simp: selection_of_def res_bind_Inr_iff split: sum.splits if_splits)
qed

lemma pass2_Inr:
  assumes "pass2 T ask q e = Inr a"
  shows "\<exists>fs. fs \<noteq> [] \<and> set fs \<subseteq> set (ex_figures e) \<and> an_citations a = map fg_citation fs
    \<and> answer_supported (an_text a) q (join '' '' (map figure_text fs))
    \<and> (numeric_groups (an_text a) = [] \<longrightarrow> (\<exists>f \<in> set fs. contains (casefold (fg_value f)) (casefold (an_text a))))"
proof -
  from assms obtain raw w ids fs where s: "selection_of T ask e q raw = Inr (w, ids)"
    and fs: "selected_figures e ids = Inr fs" and a: "mk_answer w (map fg_citation fs) = Inr a"
    by (auto simp: pass2_def res_simps)
  from selection_of_Inr[OF s] obtain raw' where "checked_selection T e q raw' = Inr (w, ids)" ..
  from checked_selection_Inr[OF this] fs
  have "answer_supported w q (join '' '' (map figure_text fs))"
    "numeric_groups w = [] \<longrightarrow> (\<exists>f \<in> set fs. contains (casefold (fg_value f)) (casefold w))" by auto
  moreover have "an_text a = w" "an_citations a = map fg_citation fs" "fs \<noteq> []"
    using a by (auto simp: mk_answer_def Let_def raise_if_Inr_iff answer_ok_def)
  ultimately show ?thesis using selected_figures_in[OF fs] by auto
qed

lemma single_pass_Inr:
  assumes "single_pass T ask q hits = Inr a"
  shows "set (an_citations a) \<subseteq> set (all_citations hits)
    \<and> answer_supported (an_text a) q (cited_text (an_citations a) hits)"
proof -
  let ?ground = "\<lambda>b. res_map (\<lambda>c. ground_citation minimum_iou c (all_citations hits)) (an_citations b)"
  from assms obtain b where b: "(case ?ground b of
      Inl _ \<Rightarrow> Inl (ValueError ''single-pass returned a citation not present in retrieved evidence'')
    | Inr cs \<Rightarrow>
        let cited = cited_text cs hits in
        raise_if (list_ex (\<lambda>g. \<not> share_number g (numeric_variants cited)) (numeric_groups (an_text b)))
          (ValueError ''single-pass answer contains a number unsupported by cited evidence'')
       (raise_if (unsupported_terms (an_text b) [q, cited] \<noteq> [])
          (ValueError ''single-pass answer contains factual terms unsupported by cited evidence'')
          (Inr (b\<lparr>an_citations := cs\<rparr>)))) = Inr a"
    by (auto simp: single_pass_def res_bind_Inr_iff raise_if_Inr_iff)
  then obtain cs where cs: "?ground b = Inr cs" by (cases "?ground b") auto
  with b have ok: "\<not> list_ex (\<lambda>g. \<not> share_number g (numeric_variants (cited_text cs hits))) (numeric_groups (an_text b))"
      "unsupported_terms (an_text b) [q, cited_text cs hits] = []" and a: "a = b\<lparr>an_citations := cs\<rparr>"
    by (auto simp: Let_def raise_if_Inr_iff)
  from cs have "set cs \<subseteq> set (all_citations hits)"
    by (auto dest!: res_map_in_set ground_citation_sound)
  with ok show ?thesis by (auto simp: a answer_supported_def list_ex_iff list_all_iff)
qed

text \<open>Both modes: every citation of an answer is the place of a retrieved chunk.\<close>

lemma run_reasoning_cites:
  assumes "run_reasoning cfg T ask q hits = Inr r"
  shows "set (an_citations (rr_answer r)) \<subseteq> set (all_citations hits)"
proof (cases "pc_passes cfg = 1")
  case True
  with assms show ?thesis using single_pass_Inr by (fastforce simp: run_reasoning_def res_simps)
next
  case False
  with assms obtain e where e: "pass1 T ask q hits = Inr e" and a: "pass2 T ask q e = Inr (rr_answer r)"
    by (auto simp: run_reasoning_def res_simps)
  from pass2_Inr[OF a] obtain fs where "set fs \<subseteq> set (ex_figures e)"
    "an_citations (rr_answer r) = map fg_citation fs" by blast
  with pass1_Inr[OF e] show ?thesis by (auto simp: list_all_iff figure_grounded_def)
qed

section \<open>The slice between the braces\<close>

lemma brace_slice_infix: "brace_slice s = Some t \<Longrightarrow> contains t s \<and> hd t = CHR ''{'' \<and> last t = CHR ''}''"
proof -
  let ?d = "dropWhile (\<lambda>c. c \<noteq> CHR ''{'') s" and ?r = "\<lambda>u. rev (dropWhile (\<lambda>c. c \<noteq> CHR ''}'') (rev u))"
  assume "brace_slice s = Some t"
  then have t: "t = ?r ?d" "t \<noteq> []" by (auto simp: brace_slice_def Let_def split: if_splits)
  have s: "s = takeWhile (\<lambda>c. c \<noteq> CHR ''{'') s @ ?d" by simp
  have d: "?d = t @ rev (takeWhile (\<lambda>c. c \<noteq> CHR ''}'') (rev ?d))"
    unfolding t(1) by (metis rev_append rev_rev_ident takeWhile_dropWhile_id)
  then have "contains t s" unfolding contains_iff by (metis s append.assoc)
  moreover have "?d \<noteq> []" using d t(2) by (metis append_is_Nil_conv)
  then have "hd ?d = CHR ''{''" using hd_dropWhile[of "\<lambda>c. c \<noteq> CHR ''{''" s] by auto
  then have "hd t = CHR ''{''" using d t(2) by (metis hd_append2)
  moreover have "dropWhile (\<lambda>c. c \<noteq> CHR ''}'') (rev ?d) \<noteq> []" using t by auto
  then have "last t = CHR ''}''"
    unfolding t(1) using hd_dropWhile[of "\<lambda>c. c \<noteq> CHR ''}''" "rev ?d"] by (auto simp: last_rev)
  ultimately show ?thesis by blast
qed

text \<open>A fence without a line break is no \<open>ValueError\<close>: it passes every handler of the passes.\<close>

lemma fence_without_line:
  assumes "starts_with fence (strip raw)" "CHR 0x0A \<notin> set (strip raw)"
  shows "parse_json T raw = Inl IndexError"
proof -
  have d: "dropWhile (\<lambda>c. c \<noteq> CHR 0x0A) (strip raw) = []" using assms(2) by (auto simp: dropWhile_eq_Nil_conv)
  show ?thesis by (simp only: parse_json_def strip_fence_def assms(1) d) simp
qed

end
