(* ===== verification/Service.thy ===== *)
theory Service
  imports Ingestion Gate Grounding
begin

text \<open>
  \<open>service.py\<close>: the query service that reads the scoped inventory for the evidence gate and runs retrieval
  under the GPU lease before reasoning. The store's scroll request and the language model are arguments;
  tracing spans have no effect on a result.
\<close>

record ('g, 'e, 'o) query_service =
  qs_policy :: "evidence_policy option"
  qs_scroll :: "condition list option \<Rightarrow> 'e points \<Rightarrow> 'o scroller"
  qs_modes :: "(string, pipeline_config) dict"
  qs_default_mode :: string
  qs_strategy :: strategy
  qs_backend :: backend
  qs_tools :: tools
  qs_client :: client
  qs_lease :: lease_config
  qs_requester :: "'g requester"

text \<open>\<open>TraceContext.for_query\<close> refuses a blank question; the span itself only observes.\<close>

definition traced :: "string \<Rightarrow> 'a res \<Rightarrow> 'a res" where
  "traced question body = raise_if (strip question = []) (ValueError ''trace query must not be blank'') body"

text \<open>
  \<open>store.scoped_chunks\<close> over the points of the index. The fuel is enough for every scroll that
  makes progress (\<open>Store.scoped_chunks_returns\<close>); a scroll that never ends has no result in the code.
\<close>

definition scoped_evidence ::
  "('g, 'e, 'o) query_service \<Rightarrow> evidence_policy \<Rightarrow> 'e points \<Rightarrow> string list \<Rightarrow> string option \<Rightarrow> chunk list res" where
  "scoped_evidence S policy points documents application =
     (case scoped_chunks (qs_scroll S (document_filter documents application) points) (Suc (po_max_chunks policy))
             documents application (po_max_chunks policy) of
        None \<Rightarrow> Inl (OtherError ''the scroll makes no progress'') | Some r \<Rightarrow> r)"

definition known_metric :: "evidence_policy \<Rightarrow> string \<Rightarrow> bool" where
  "known_metric policy metric = (dict_has (po_metrics policy) metric \<or> dict_has (po_operands policy) metric)"

definition link_in_scope :: "string list \<Rightarrow> chunk list \<Rightarrow> basis_interpretation \<Rightarrow> bool" where
  "link_in_scope documents chunks link =
     (ip_document link \<in> set documents
      \<and> list_ex (\<lambda>c. chunk_id c = ip_target_chunk link
            \<and> list_all (\<lambda>p. pv_document p = ip_document link) (chunk_prov c)) chunks)"

definition assess_metrics ::
  "('g, 'e, 'o) query_service \<Rightarrow> 'e points \<Rightarrow> string list \<Rightarrow> string list \<Rightarrow> string \<Rightarrow> basis_interpretation list
   \<Rightarrow> string option \<Rightarrow> string option
   \<Rightarrow> (field_assessment list \<times> section_class list \<times> basis_interpretation list) res" where
  "assess_metrics S points metrics documents application links command date =
     (case qs_policy S of
        None \<Rightarrow> Inl (RuntimeError ''evidence_policy_unavailable'')
      | Some policy \<Rightarrow>
          raise_if (list_ex (\<lambda>m. \<not> known_metric policy m) metrics) (EvidenceInsufficient ''metric_not_allowed'')
         (res_bind (scoped_evidence S policy points documents (Some application)) (\<lambda>chunks.
          raise_if (list_ex (\<lambda>l. \<not> link_in_scope documents chunks l) links) (PermissionError ''evidence_scope_violation'')
         (res_bind (mk_gate \<lparr>gt_policy = policy, gt_links = links, gt_command = command, gt_assessment = date,
                      gt_application = Some application\<rparr>) (\<lambda>gate.
          res_bind (assess gate metrics chunks) (\<lambda>fields.
          res_bind (classify_sections chunks (po_classification policy)) (\<lambda>sections.
          Inr (fields, sections, interpretation_options chunks policy))))))))"

definition inventory_code :: "exc \<Rightarrow> exc" where
  "inventory_code e =
     (case e of
        ValueError m \<Rightarrow>
          EvidenceInsufficient
            (if m \<in> {''evidence_document_scope_missing'', ''evidence_inventory_limit'', ''evidence_document_missing''}
             then m else ''evidence_inventory_invalid'')
      | _ \<Rightarrow> if is_value_error e then EvidenceInsufficient ''evidence_inventory_invalid'' else e)"

definition extract_metrics ::
  "('g, 'e, 'o) query_service \<Rightarrow> 'e points \<Rightarrow> string \<Rightarrow> string list \<Rightarrow> string list \<Rightarrow> string option \<Rightarrow> extraction res" where
  "extract_metrics S points question metrics documents application =
     (case qs_policy S of
        None \<Rightarrow> Inl (RuntimeError ''evidence policy unavailable'')
      | Some policy \<Rightarrow>
          traced question
         (case scoped_evidence S policy points documents application of
            Inl e \<Rightarrow> Inl (inventory_code e)
          | Inr chunks \<Rightarrow>
              res_bind (mk_gate \<lparr>gt_policy = policy, gt_links = [], gt_command = None, gt_assessment = None,
                          gt_application = application\<rparr>) (\<lambda>gate.
              res_bind (res_map (extract_metric gate chunks) metrics) (\<lambda>figures.
              Inr \<lparr>ex_question = question, ex_figures = figures, ex_notes = []\<rparr>))))"

text \<open>What \<open>query\<close> changes: the model server and its lease flag, and the result cache.\<close>

record 'g query_world =
  qw_server :: 'g
  qw_cache :: result_cache

definition query_requester :: "'g requester \<Rightarrow> 'g query_world requester" where
  "query_requester rq how path w = (case rq how path (qw_server w) of (r, g) \<Rightarrow> (r, w\<lparr>qw_server := g\<rparr>))"

definition retrieve_hits ::
  "('g, 'e, 'o) query_service \<Rightarrow> string \<Rightarrow> string option \<Rightarrow> string list \<Rightarrow> ('g query_world lease, hit list) act" where
  "retrieve_hits S question application documents s =
     (case retrieve (qs_strategy S) (qs_backend S) question application documents (qw_cache (ls_world s)) of
        (r, cache) \<Rightarrow> (r, s\<lparr>ls_world := (ls_world s)\<lparr>qw_cache := cache\<rparr>\<rparr>))"

definition query_hits ::
  "('g, 'e, 'o) query_service \<Rightarrow> string \<Rightarrow> string option \<Rightarrow> string list \<Rightarrow> ('g query_world lease, hit list) act" where
  "query_hits S question application documents s =
     (case ingestion_batch (qs_lease S) (query_requester (qs_requester S))
             (lease_body (retrieve_hits S question application documents)) s of
        (Inl e, s') \<Rightarrow> (Inl (exc_of_lease e), s') | (Inr x, s') \<Rightarrow> (Inr x, s'))"

definition query ::
  "('g, 'e, 'o) query_service \<Rightarrow> string \<Rightarrow> string \<Rightarrow> string list \<Rightarrow> string option
   \<Rightarrow> ('g query_world lease, reasoning_run) act" where
  "query S question mode documents application =
     (case map_of (qs_modes S) mode of
        None \<Rightarrow> act_lift (Inl (ValueError (''unsupported reasoning mode: '' @ mode)))
      | Some cfg \<Rightarrow>
          act_bind (act_lift (traced question (Inr ()))) (\<lambda>_.
          act_bind (query_hits S question application documents) (\<lambda>hits.
          act_lift (run_reasoning cfg (qs_tools S) (qs_client S) question hits))))"

end
