(* ===== verification/Assembly.thy ===== *)
theory Assembly
  imports Index Parsing Service
begin

text \<open>
  \<open>ingest/config.py\<close>, the composition roots \<open>build_ingestion_service\<close> of \<open>api/ingestion.py\<close>,
  \<open>build_service\<close> of \<open>service.py\<close> and the two lazily built services of \<open>api/app.py\<close>, \<open>security/secrets.py\<close>,
  and the command lines of ingestion, reasoning and key rotation. Decoded YAML is data; the environment,
  files and libraries are the fields of \<open>plant\<close>.
\<close>

section \<open>The ingestion configuration\<close>

record parser_config =
  pa_prefer_docling :: bool
  pa_fail_on_vision :: bool
  pa_device :: string

record ingestion_config =
  nc_router :: router_config
  nc_parser :: parser_config
  nc_vision :: vision_config
  nc_chunker :: chunker_config
  nc_lease :: lease_config
  nc_observability :: string

definition ingestion_sections :: "string list" where
  "ingestion_sections = [''router'', ''parser'', ''vision'', ''chunker'', ''gpu_lease'', ''observability_config'']"

definition require_sections :: "(string, json) dict \<Rightarrow> unit res" where   \<comment> \<open>\<open>_require_sections\<close>\<close>
  "require_sections payload =
     raise_if (set (map fst payload) \<noteq> set ingestion_sections) (ValueError ''invalid ingestion config sections'') (Inr ())"

definition section_mapping :: "json \<Rightarrow> string \<Rightarrow> (string, json) dict res" where   \<comment> \<open>\<open>_mapping\<close>\<close>
  "section_mapping v name =
     (case v of JObj d \<Rightarrow> Inr d
      | _ \<Rightarrow> Inl (ValueError (''ingestion config section '' @ [CHR 0x27] @ name @ [CHR 0x27] @ '' must be a mapping'')))"

definition payload_item :: "string \<Rightarrow> (string, json) dict \<Rightarrow> json res" where
  "payload_item k d = (case map_of d k of None \<Rightarrow> Inl (KeyError k) | Some v \<Rightarrow> Inr v)"

definition build_section :: "((string, json) dict \<Rightarrow> 'a res) \<Rightarrow> string \<Rightarrow> (string, json) dict \<Rightarrow> 'a res" where
  "build_section build name d =
     res_bind (payload_item name d) (\<lambda>v. res_bind (section_mapping v name) build)"

text \<open>
  The keyword calls of the five configuration classes on the values of their sections; \<open>sb_beside\<close> joins a
  value to the folder of the file and resolves it.
\<close>

record section_builders =
  sb_router :: "(string, json) dict \<Rightarrow> router_config res"
  sb_parser :: "(string, json) dict \<Rightarrow> parser_config res"
  sb_vision :: "(string, json) dict \<Rightarrow> vision_config res"
  sb_chunker :: "(string, json) dict \<Rightarrow> chunker_config res"
  sb_lease :: "(string, json) dict \<Rightarrow> lease_config res"
  sb_beside :: "json \<Rightarrow> string res"

definition ingestion_from_yaml :: "section_builders \<Rightarrow> (string, json) dict option \<Rightarrow> ingestion_config res" where
  "ingestion_from_yaml B payload =
     (case payload of
        None \<Rightarrow> Inl (ValueError ''ingestion config must be a mapping'')
      | Some d \<Rightarrow>
          res_bind (require_sections d) (\<lambda>_.
          res_bind (build_section (\<lambda>x. res_bind (sb_router B x) mk_router_config) ''router'' d) (\<lambda>router.
          res_bind (build_section (sb_parser B) ''parser'' d) (\<lambda>parser.
          res_bind (build_section (\<lambda>x. res_bind (sb_vision B x) mk_vision_config) ''vision'' d) (\<lambda>vision.
          res_bind (build_section (\<lambda>x. res_bind (sb_chunker B x) mk_config) ''chunker'' d) (\<lambda>chunker.
          res_bind (build_section (sb_lease B) ''gpu_lease'' d) (\<lambda>lease.
          res_bind (res_bind (payload_item ''observability_config'' d) (sb_beside B)) (\<lambda>observability.
          Inr \<lparr>nc_router = router, nc_parser = parser, nc_vision = vision, nc_chunker = chunker, nc_lease = lease,
               nc_observability = observability\<rparr>))))))))"

text \<open>
  \<open>config_hash\<close>: \<open>dumps\<close> serialises with sorted keys and no blanks, \<open>vision_dump\<close> and \<open>lease_dump\<close> are
  \<open>model_dump\<close>, \<open>read_bytes\<close> reads the observability file and the prompt of the package.
\<close>

definition config_payload :: "(vision_config \<Rightarrow> json) \<Rightarrow> (lease_config \<Rightarrow> json) \<Rightarrow> ingestion_config \<Rightarrow> string \<Rightarrow> string \<Rightarrow> json" where
  "config_payload vision_dump lease_dump c observability prompt =
     JObj [(''router'', JObj [(''min_digital_characters'', JNum (of_int (rc_min_digital (nc_router c)))),
              (''strong_digital_characters'', JNum (of_int (rc_strong_digital (nc_router c)))),
              (''scanned_image_coverage'', JNum (rc_scanned (nc_router c))),
              (''hybrid_image_coverage'', JNum (rc_hybrid (nc_router c)))]),
           (''parser'', JObj [(''prefer_docling'', JBool (pa_prefer_docling (nc_parser c))),
              (''fail_on_vision_required'', JBool (pa_fail_on_vision (nc_parser c))),
              (''accelerator_device'', JStr (pa_device (nc_parser c))), (''ocr_backend'', JStr ''torch'')]),
           (''vision'', vision_dump (nc_vision c)),
           (''chunker'', JObj [(''max_text_characters'', JNum (of_int (ck_max_text (nc_chunker c)))),
              (''overlap_characters'', JNum (of_int (ck_overlap (nc_chunker c)))),
              (''max_table_characters'', JNum (of_int (ck_max_table (nc_chunker c))))]),
           (''gpu_lease'', lease_dump (nc_lease c)),
           (''observability_config_sha256'', JStr (sha256_hex observability)),
           (''vision_prompt_sha256'', JStr (sha256_hex prompt))]"

definition config_hash ::
  "(json \<Rightarrow> string) \<Rightarrow> (vision_config \<Rightarrow> json) \<Rightarrow> (lease_config \<Rightarrow> json) \<Rightarrow> (string \<Rightarrow> string res) \<Rightarrow> ingestion_config \<Rightarrow> string res" where
  "config_hash dumps vision_dump lease_dump read_bytes c =
     res_bind (read_bytes (nc_observability c)) (\<lambda>observability.
     res_bind (read_bytes ''vision_extract.txt'') (\<lambda>prompt.
     Inr (sha256_hex (dumps (config_payload vision_dump lease_dump c observability prompt)))))"

section \<open>Secrets\<close>

definition read_secret :: "(string \<Rightarrow> string option) \<Rightarrow> (string \<Rightarrow> string res) \<Rightarrow> string \<Rightarrow> string res" where
  "read_secret env read_text name =
     (case env (name @ ''_FILE'') of
        Some (c # cs) \<Rightarrow> res_bind (read_text (c # cs)) (\<lambda>t. Inr (strip t))
      | _ \<Rightarrow>
          (case env name of
             Some (c # cs) \<Rightarrow> Inr (c # cs)
           | _ \<Rightarrow> Inl (RuntimeError (''required secret is not configured: '' @ name))))"

definition decode_key :: "string \<Rightarrow> string res" where   \<comment> \<open>\<open>b64decode(text.strip(), validate=True)\<close>\<close>
  "decode_key t = (case b64decode (strip t) of None \<Rightarrow> Inl (ValueError ''binascii.Error'') | Some key \<Rightarrow> Inr key)"

text \<open>\<open>objects\<close> are the files there already.\<close>

definition from_secret_file ::
  "(string \<Rightarrow> string res) \<Rightarrow> path \<Rightarrow> (path, envelope) dict \<Rightarrow> string \<Rightarrow> string \<Rightarrow> store res" where
  "from_secret_file read_text folder objects secret_file version =
     res_bind (read_text secret_file) (\<lambda>t.
     res_bind (decode_key t) (\<lambda>key.
     mk_store folder key version objects))"

section \<open>The composition roots\<close>

record api_config =
  ac_index :: string
  ac_ingestion :: string
  ac_retrieval :: string
  ac_generation :: string
  ac_single_pass :: string
  ac_two_pass :: string
  ac_observability :: string
  ac_mode :: string
  ac_evidence :: string

definition api_paths :: "string list" where
  "api_paths = [''index_config'', ''ingestion_config'', ''retrieval_config'', ''generation_config'',
     ''single_pass_config'', ''two_pass_config'', ''observability_config'']"

text \<open>\<open>beside\<close> resolves a value against the folder of the configuration file.\<close>

definition api_from_yaml :: "(string \<Rightarrow> string) \<Rightarrow> (string, string) dict option \<Rightarrow> api_config res" where
  "api_from_yaml beside payload =
     (case payload of
        None \<Rightarrow> Inl (ValueError ''API config must be a mapping'')
      | Some d \<Rightarrow>
          res_bind (res_map (\<lambda>k. case map_of d k of None \<Rightarrow> Inl (KeyError k) | Some v \<Rightarrow> Inr (k, beside v)) api_paths) (\<lambda>ps.
          let mode = dict_get_default d ''default_mode'' ''two_pass'' in
          raise_if (\<not> set (map fst d) \<subseteq> set (api_paths @ [''default_mode'', ''evidence_config''])
              \<or> mode \<notin> {''single_pass'', ''two_pass''}) (ValidationError ''ApiConfig'')
          (Inr \<lparr>ac_index = dict_get_default ps ''index_config'' [], ac_ingestion = dict_get_default ps ''ingestion_config'' [],
             ac_retrieval = dict_get_default ps ''retrieval_config'' [], ac_generation = dict_get_default ps ''generation_config'' [],
             ac_single_pass = dict_get_default ps ''single_pass_config'' [], ac_two_pass = dict_get_default ps ''two_pass_config'' [],
             ac_observability = dict_get_default ps ''observability_config'' [], ac_mode = mode,
             ac_evidence = beside (dict_get_default d ''evidence_config'' ''../evidence/borrower.yaml'')\<rparr>)))"

text \<open>
  What the composition roots read and call: the environment, the readers of the configuration files, the
  parser, embedder and scanner constructors, and the arguments of the two services.
\<close>

record ('g, 'e, 'o) plant =
  pn_env :: "string \<Rightarrow> string option"
  pn_read :: "string \<Rightarrow> string res"
  pn_path :: "string \<Rightarrow> path"
  pn_api :: "api_config res"
  pn_ingestion :: "string \<Rightarrow> ingestion_config res"
  pn_hash :: "ingestion_config \<Rightarrow> string res"
  pn_guardrails :: "string \<Rightarrow> guardrail_policy res"
  pn_observability :: "string \<Rightarrow> unit res"
  pn_runtime :: "string \<Rightarrow> string \<Rightarrow> runtime_config res"
  pn_generation :: "string \<Rightarrow> client res"
  pn_reasoning :: "string \<Rightarrow> pipeline_config res"
  pn_evidence :: "string \<Rightarrow> evidence_policy res"
  pn_parser :: "ingestion_config \<Rightarrow> string \<Rightarrow> string \<Rightarrow> (int \<times> int) option \<Rightarrow> ('g lease, parsed_document) act"
  pn_embedder :: "embedding_config \<Rightarrow> string list \<Rightarrow> 'e list res"
  pn_backend :: "runtime_config \<Rightarrow> backend"
  pn_scanner :: "string \<Rightarrow> int \<Rightarrow> daemon"
  pn_objects :: "(path, envelope) dict"
  pn_libraries :: libraries
  pn_requester :: "'g requester"
  pn_scroll :: "condition list option \<Rightarrow> 'e points \<Rightarrow> 'o scroller"
  pn_tools :: tools

definition getenv :: "('g, 'e, 'o) plant \<Rightarrow> string \<Rightarrow> string \<Rightarrow> string" where   \<comment> \<open>\<open>os.getenv(name, default)\<close>\<close>
  "getenv P name otherwise = (case pn_env P name of None \<Rightarrow> otherwise | Some v \<Rightarrow> v)"

definition production_enabled :: "('g, 'e, 'o) plant \<Rightarrow> bool" where
  "production_enabled P =
     (casefold (getenv P ''FINDOCIQ_PRODUCTION_GUARDRAILS_ENABLED'' ''false'') \<in> {''1'', ''true'', ''yes''})"

definition guardrails_file :: "('g, 'e, 'o) plant \<Rightarrow> guardrail_policy res" where
  "guardrails_file P = pn_guardrails P (getenv P ''FINDOCIQ_GUARDRAIL_POLICY'' ''configs/guardrails/production.yaml'')"

definition optional :: "bool \<Rightarrow> 'a res \<Rightarrow> 'a option res" where   \<comment> \<open>\<open>x if c else None\<close>\<close>
  "optional c r = (if c then res_bind r (\<lambda>x. Inr (Some x)) else Inr None)"

definition production_store :: "('g, 'e, 'o) plant \<Rightarrow> path \<Rightarrow> store res" where
  "production_store P folder =
     (let key_file = getenv P ''FINDOCIQ_DOCUMENT_MASTER_KEY_FILE'' [] in
      raise_if (key_file = []) (RuntimeError ''production encrypted storage requires a master key secret file'')
        (from_secret_file (pn_read P) folder (pn_objects P) key_file (getenv P ''FINDOCIQ_DOCUMENT_KEY_VERSION'' ''v1'')))"

definition production_scanner :: "('g, 'e, 'o) plant \<Rightarrow> daemon res" where
  "production_scanner P =
     res_bind (py_int (getenv P ''FINDOCIQ_CLAMAV_PORT'' ''3310'')) (\<lambda>port.
     Inr (pn_scanner P (getenv P ''FINDOCIQ_CLAMAV_HOST'' ''clamav'') port))"

definition dlp_provider_of :: "guardrail_policy \<Rightarrow> dlp_provider res" where
  "dlp_provider_of pol = res_bind (mk_dlp (gp_dlp pol)) (\<lambda>d. Inr (d, gp_hash pol))"

text \<open>The service and its encrypted store.\<close>

definition build_ingestion_service ::
  "('g, 'e, 'o) plant \<Rightarrow> path \<Rightarrow> string \<Rightarrow> string \<Rightarrow> string \<Rightarrow> (('g, 'e) ingester \<times> store option) res" where
  "build_ingestion_service P folder ingestion index retrieval =
     res_bind (pn_ingestion P ingestion) (\<lambda>config.
     res_bind (optional (production_enabled P) (guardrails_file P)) (\<lambda>policy.
     res_bind (validate_parser_security (vc_enabled (nc_vision config)) (policy \<noteq> None)) (\<lambda>_.
     res_bind (optional (policy \<noteq> None) (production_store P folder)) (\<lambda>encrypted.
     res_bind (pn_observability P (nc_observability config)) (\<lambda>_.
     res_bind (pn_runtime P index retrieval) (\<lambda>runtime.
     res_bind (pn_hash P config) (\<lambda>hash.
     res_bind (optional (policy \<noteq> None) (production_scanner P)) (\<lambda>scanner.
     res_bind (case policy of None \<Rightarrow> Inr None | Some pol \<Rightarrow> optional True (dlp_provider_of pol)) (\<lambda>dlp.
     Inr (\<lparr>ig_root = path_resolve folder, ig_parse = pn_parser P config, ig_chunker = nc_chunker config,
           ig_embed = pn_embedder P (ru_embedding runtime), ig_config_hash = hash, ig_lease = nc_lease config,
           ig_requester = pn_requester P, ig_max_bytes = 25 * 1024 * 1024, ig_policy = policy, ig_scanner = scanner,
           ig_dlp = dlp, ig_image_policy = guardrails_file P, ig_libs = pn_libraries P\<rparr>, encrypted))))))))))"

definition build_service :: "('g, 'e, 'o) plant \<Rightarrow> api_config \<Rightarrow> ('g, 'e, 'o) query_service res" where
  "build_service P c =
     res_bind (pn_observability P (ac_observability c)) (\<lambda>_.
     res_bind (pn_runtime P (ac_index c) (ac_retrieval c)) (\<lambda>runtime.
     res_bind (build_local_pipeline runtime :: (unit, unit, unit) pipeline res) (\<lambda>_.
     res_bind (pn_generation P (ac_generation c)) (\<lambda>ask.
     res_bind (pn_reasoning P (ac_single_pass c)) (\<lambda>single.
     res_bind (pn_reasoning P (ac_two_pass c)) (\<lambda>two.
     res_bind (pn_ingestion P (ac_ingestion c)) (\<lambda>ingestion.
     res_bind (pn_evidence P (ac_evidence c)) (\<lambda>policy.
     Inr \<lparr>qs_policy = Some policy, qs_scroll = pn_scroll P,
          qs_modes = [(''single_pass'', single), (''two_pass'', two)], qs_default_mode = ac_mode c,
          qs_strategy = ru_strategy runtime, qs_backend = pn_backend P runtime, qs_tools = pn_tools P, qs_client = ask,
          qs_lease = nc_lease ingestion, qs_requester = pn_requester P\<rparr>))))))))"

text \<open>The two services of the application, built on first use.\<close>

definition get_service :: "('g, 'e, 'o) plant \<Rightarrow> (('g, 'e, 'o) query_service option, ('g, 'e, 'o) query_service) act" where
  "get_service P = lazily (res_bind (pn_api P) (build_service P))"

definition document_root :: "('g, 'e, 'o) plant \<Rightarrow> path res" where
  "document_root P =
     (case pn_env P ''FINDOCIQ_DOCUMENT_ROOT'' of
        Some (c # cs) \<Rightarrow> Inr (pn_path P (c # cs))
      | _ \<Rightarrow> Inl (HTTPException 503 ''document ingestion storage is not configured''))"

definition get_ingestion_service ::
  "('g, 'e, 'o) plant \<Rightarrow> ((('g, 'e) ingester \<times> store option) option, ('g, 'e) ingester \<times> store option) act" where
  "get_ingestion_service P =
     lazily (res_bind (document_root P) (\<lambda>folder. res_bind (pn_api P) (\<lambda>c.
       build_ingestion_service P folder (ac_ingestion c) (ac_index c) (ac_retrieval c))))"

section \<open>The application\<close>

text \<open>
  \<open>create_app\<close>: what the state of the application holds. A policy, verifier or registry may be handed in;
  otherwise production builds them from secrets, and development keeps records in a local file or in memory.
\<close>

datatype registry_kind = SuppliedRegistry | PostgresStore string | LocalSqlite string | InMemory

datatype verifier_kind = SuppliedVerifier | DurableVerifier string string | MemoryVerifier string

record app_settings =
  ck_production :: bool
  ck_policy :: "guardrail_policy option"
  ck_verifier :: "verifier_kind option"
  ck_registry :: registry_kind
  ck_sets_dsn :: "string option"
  ck_sets_path :: "string option"

definition database_url :: "('g, 'e, 'o) plant \<Rightarrow> string res" where
  "database_url P = read_secret (pn_env P) (pn_read P) ''FINDOCIQ_DATABASE_URL''"

definition build_verifier :: "('g, 'e, 'o) plant \<Rightarrow> string option \<Rightarrow> verifier_kind res" where
  "build_verifier P durable =
     res_bind (read_secret (pn_env P) (pn_read P) ''FINDOCIQ_SERVICE_JWT_SECRET'') (\<lambda>secret.
     res_bind (mk_verifier secret) (\<lambda>_.
     Inr (case durable of None \<Rightarrow> MemoryVerifier secret | Some dsn \<Rightarrow> DurableVerifier dsn secret)))"

definition create_app ::
  "('g, 'e, 'o) plant \<Rightarrow> guardrail_policy option \<Rightarrow> bool \<Rightarrow> bool \<Rightarrow> app_settings res" where
  "create_app P policy verifier_given registry_given =
     (let production = production_enabled P;
          local_folder = getenv P ''FINDOCIQ_DOCUMENT_ROOT'' [];
          local_file = (\<lambda>name. if local_folder = [] then None else Some (local_folder @ ''/'' @ name)) in
      res_bind (case policy of Some p \<Rightarrow> Inr policy | None \<Rightarrow> optional production (guardrails_file P)) (\<lambda>pol.
      res_bind (optional (production \<and> \<not> registry_given) (database_url P)) (\<lambda>durable.
      res_bind (if verifier_given then Inr (Some SuppliedVerifier) else optional production (build_verifier P durable)) (\<lambda>verifier.
      Inr \<lparr>ck_production = production, ck_policy = pol, ck_verifier = verifier,
           ck_registry = (if registry_given then SuppliedRegistry
             else case durable of
               Some dsn \<Rightarrow> PostgresStore dsn
             | None \<Rightarrow> (case local_file ''ownership.sqlite'' of Some f \<Rightarrow> LocalSqlite f | None \<Rightarrow> InMemory)),
           ck_sets_dsn = durable, ck_sets_path = local_file ''document_sets.sqlite''\<rparr>))))"

section \<open>Command lines\<close>

text \<open>\<open>ingest/cli.py\<close>: the chunks it writes, one line each. \<open>reads\<close> is the parser built from its configuration.\<close>

definition cli_parser_config :: "bool \<Rightarrow> parser_config \<Rightarrow> parser_config" where
  "cli_parser_config pymupdf_only c =
     (if pymupdf_only
      then \<lparr>pa_prefer_docling = False, pa_fail_on_vision = pa_fail_on_vision c, pa_device = ''auto''\<rparr> else c)"

definition marked :: "string \<Rightarrow> chunk \<Rightarrow> chunk" where
  "marked hash c = with_metadata (AList.update ''config_hash'' (MStr hash) (chunk_meta c)) c"

definition ingest_command ::
  "(string \<Rightarrow> unit res) \<Rightarrow> (parser_config \<Rightarrow> ingestion_config \<Rightarrow> string \<Rightarrow> ('w, parsed_document) act) \<Rightarrow>
   (ingestion_config \<Rightarrow> string res) \<Rightarrow> ingestion_config res \<Rightarrow> bool \<Rightarrow> string \<Rightarrow> ('w, chunk list) act" where
  "ingest_command observability reads hash config pymupdf_only pdf =
     act_bind (act_lift config) (\<lambda>c.
     act_bind (act_lift (observability (nc_observability c))) (\<lambda>_.
     act_bind (reads (cli_parser_config pymupdf_only (nc_parser c)) c pdf) (\<lambda>document.
     act_bind (act_lift (chunk_document (nc_chunker c) document)) (\<lambda>chunks.
     act_lift (res_map (\<lambda>ch. res_bind (hash c) (\<lambda>h. Inr (marked h ch))) chunks)))))"

text \<open>\<open>reason/cli.py\<close>: one JSON document or one per line; \<open>hit\<close> is \<open>RetrievalHit.model_validate\<close>.\<close>

definition decode_hits :: "(string \<Rightarrow> json option) \<Rightarrow> (json \<Rightarrow> hit res) \<Rightarrow> string \<Rightarrow> hit list res" where
  "decode_hits loads hit raw =
     res_bind
       (case loads raw of
          Some (JArr js) \<Rightarrow> Inr js
        | Some j \<Rightarrow> Inr [j]
        | None \<Rightarrow> res_map (\<lambda>l. case loads l of None \<Rightarrow> Inl (JSONDecodeError ''Expecting value'') | Some j \<Rightarrow> Inr j)
            (filter (\<lambda>l. strip l \<noteq> []) (splitlines raw)))
       (res_map hit)"

definition reason_command ::
  "tools \<Rightarrow> (json \<Rightarrow> hit res) \<Rightarrow> client res \<Rightarrow> pipeline_config res \<Rightarrow> string \<Rightarrow> string res \<Rightarrow> reasoning_run res" where
  "reason_command T hit generation pipeline question raw =
     res_bind raw (\<lambda>t.
     res_bind (decode_hits (tl_loads T) hit t) (\<lambda>hits.
     res_bind generation (\<lambda>ask.
     res_bind pipeline (\<lambda>cfg.
     run_reasoning cfg T ask question hits))))"

text \<open>\<open>security/rotate_keys.py\<close>: the event it records after the rotation.\<close>

record rotation_event =
  ro_old_version :: string
  ro_new_version :: string
  ro_count :: nat
  ro_policy_hash :: string

text \<open>\<open>record_event\<close> is the insertion; the store is the folder before and after.\<close>

definition rotate_keys ::
  "aead \<Rightarrow> string res \<Rightarrow> guardrail_policy res \<Rightarrow> string res \<Rightarrow> string res \<Rightarrow> (string \<Rightarrow> rotation_event \<Rightarrow> unit res) \<Rightarrow>
   path \<Rightarrow> string \<Rightarrow> string \<Rightarrow> (path \<Rightarrow> string) \<Rightarrow> ((path, envelope) dict, nat) act" where
  "rotate_keys A database policy old_text new_text record_event folder old_version new_version nonce objects =
     (case res_bind database (\<lambda>dsn. res_bind policy (\<lambda>pol. res_bind old_text (\<lambda>o1. res_bind (decode_key o1) (\<lambda>old.
           res_bind new_text (\<lambda>n1. res_bind (decode_key n1) (\<lambda>new.
           res_bind (mk_store folder old old_version objects) (\<lambda>s. Inr (dsn, gp_hash pol, new, s)))))))) of
        Inl e \<Rightarrow> (Inl e, objects)
      | Inr (dsn, hash, new, s) \<Rightarrow>
          (case rewrap_all A s new new_version nonce of
             (Inl e, s') \<Rightarrow> (Inl e, st_files s')
           | (Inr n, s') \<Rightarrow>
               (case record_event dsn \<lparr>ro_old_version = old_version, ro_new_version = new_version, ro_count = n,
                       ro_policy_hash = hash\<rparr> of
                  Inl e \<Rightarrow> (Inl e, st_files s') | Inr _ \<Rightarrow> (Inr n, st_files s'))))"

section \<open>Lemmas\<close>

lemma optional_Inr_iff: "optional c r = Inr x \<longleftrightarrow> (if c then \<exists>y. r = Inr y \<and> x = Some y else x = None)"
  by (auto simp: optional_def res_bind_Inr_iff)

text \<open>A loaded ingestion configuration is within the bounds of its classes, and its vision endpoint is local.\<close>

lemma ingestion_config_sound:
  assumes "ingestion_from_yaml B payload = Inr c"
  shows "mk_router_config (nc_router c) = Inr (nc_router c) \<and> mk_config (nc_chunker c) = Inr (nc_chunker c)
    \<and> local_endpoint (vc_url (nc_vision c))"
proof -
  from assms obtain d where d: "payload = Some d" by (cases payload) (auto simp: ingestion_from_yaml_def)
  from assms show ?thesis
    by (auto simp: ingestion_from_yaml_def d build_section_def mk_router_config_def mk_config_def mk_vision_config_def res_simps)
qed

lemma api_mode_known: "api_from_yaml beside payload = Inr c \<Longrightarrow> ac_mode c \<in> {''single_pass'', ''two_pass''}"
  by (auto simp: api_from_yaml_def Let_def res_simps split: option.splits)

text \<open>The default mode of a built service is one of its modes, so a query without a mode has a pipeline.\<close>

lemma built_service_answers:
  "build_service P c = Inr S \<Longrightarrow> ac_mode c \<in> {''single_pass'', ''two_pass''} \<Longrightarrow> map_of (qs_modes S) (qs_default_mode S) \<noteq> None"
  by (auto simp: build_service_def res_simps)

lemma production_store_key: "production_store P folder = Inr s \<Longrightarrow> length (st_master s) = 32"
  by (auto simp: production_store_def from_secret_file_def mk_store_def Let_def res_simps)

lemma guarded_build:
  assumes "build_ingestion_service P folder ingestion index retrieval = Inr (G, encrypted)" "production_enabled P"
  shows "\<exists>config pol d s clam. pn_ingestion P ingestion = Inr config \<and> \<not> vc_enabled (nc_vision config)
      \<and> guardrails_file P = Inr pol \<and> ig_policy G = Some pol \<and> ig_scanner G = Some clam \<and> production_scanner P = Inr clam
      \<and> mk_dlp (gp_dlp pol) = Inr d \<and> ig_dlp G = Some (d, gp_hash pol)
      \<and> encrypted = Some s \<and> length (st_master s) = 32"
proof -
  from assms obtain config pol where c: "pn_ingestion P ingestion = Inr config"
    and pol: "guardrails_file P = Inr pol" "ig_policy G = Some pol"
    and vision: "validate_parser_security (vc_enabled (nc_vision config)) True = Inr ()"
    and st: "optional True (production_store P folder) = Inr encrypted"
    and sc: "optional True (production_scanner P) = Inr (ig_scanner G)"
    and dlp: "optional True (dlp_provider_of pol) = Inr (ig_dlp G)"
    by (auto simp: build_ingestion_service_def optional_Inr_iff res_bind_Inr_iff)
  from vision have "\<not> vc_enabled (nc_vision config)" by (simp add: validate_parser_security_def raise_if_Inr_iff)
  moreover from st obtain s where "encrypted = Some s" "length (st_master s) = 32"
    by (auto simp: optional_Inr_iff dest: production_store_key)
  moreover from sc obtain clam where "ig_scanner G = Some clam" "production_scanner P = Inr clam"
    by (auto simp: optional_Inr_iff)
  moreover from dlp obtain d where "mk_dlp (gp_dlp pol) = Inr d" "ig_dlp G = Some (d, gp_hash pol)"
    by (auto simp: optional_Inr_iff dlp_provider_of_def res_bind_Inr_iff)
  ultimately show ?thesis using c pol by blast
qed

text \<open>C31: Fail closed at start: with the production switch on, an ingestion service is built only with a
  policy, a scanner, the redaction of that policy and an encrypted store under a 32 byte key, and never with
  raw-page vision; with the switch off it has none of them.\<close>

theorem production_ingestion_guarded:
  assumes "build_ingestion_service P folder ingestion index retrieval = Inr (G, encrypted)"
  shows "if production_enabled P
    then \<exists>config pol d s. pn_ingestion P ingestion = Inr config \<and> \<not> vc_enabled (nc_vision config)
      \<and> guardrails_file P = Inr pol \<and> ig_policy G = Some pol \<and> ig_scanner G \<noteq> None
      \<and> mk_dlp (gp_dlp pol) = Inr d \<and> ig_dlp G = Some (d, gp_hash pol)
      \<and> encrypted = Some s \<and> length (st_master s) = 32
    else ig_policy G = None \<and> ig_scanner G = None \<and> ig_dlp G = None \<and> encrypted = None"
proof (cases "production_enabled P")
  case True
  then show ?thesis using guarded_build [OF assms True] by auto
next
  case False
  with assms show ?thesis by (auto simp: build_ingestion_service_def optional_Inr_iff res_bind_Inr_iff)
qed

lemma create_app_parts:
  assumes "create_app P policy verifier_given registry_given = Inr a"
  shows "ck_production a = production_enabled P"
    and "(case policy of Some p \<Rightarrow> Inr policy | None \<Rightarrow> optional (production_enabled P) (guardrails_file P)) = Inr (ck_policy a)"
    and "optional (production_enabled P \<and> \<not> registry_given) (database_url P) = Inr (ck_sets_dsn a)"
    and "(if verifier_given then Inr (Some SuppliedVerifier)
          else optional (production_enabled P) (build_verifier P (ck_sets_dsn a))) = Inr (ck_verifier a)"
    and "\<not> registry_given \<Longrightarrow> ck_sets_dsn a = Some dsn \<Longrightarrow> ck_registry a = PostgresStore dsn"
proof -
  from assms obtain pol durable verifier where
    p: "(case policy of Some p \<Rightarrow> Inr policy | None \<Rightarrow> optional (production_enabled P) (guardrails_file P)) = Inr pol"
    and d: "optional (production_enabled P \<and> \<not> registry_given) (database_url P) = Inr durable"
    and v: "(if verifier_given then Inr (Some SuppliedVerifier) else optional (production_enabled P) (build_verifier P durable)) = Inr verifier"
    and a: "ck_production a = production_enabled P" "ck_policy a = pol" "ck_verifier a = verifier" "ck_sets_dsn a = durable"
      "\<And>dsn. \<not> registry_given \<Longrightarrow> durable = Some dsn \<Longrightarrow> ck_registry a = PostgresStore dsn"
    unfolding create_app_def Let_def res_bind_Inr_iff by auto
  show "ck_production a = production_enabled P" by (rule a(1))
  show "(case policy of Some p \<Rightarrow> Inr policy | None \<Rightarrow> optional (production_enabled P) (guardrails_file P)) = Inr (ck_policy a)"
    unfolding a(2) by (rule p)
  show "optional (production_enabled P \<and> \<not> registry_given) (database_url P) = Inr (ck_sets_dsn a)"
    unfolding a(4) by (rule d)
  show "(if verifier_given then Inr (Some SuppliedVerifier)
          else optional (production_enabled P) (build_verifier P (ck_sets_dsn a))) = Inr (ck_verifier a)"
    unfolding a(3,4) by (rule v)
  show "\<not> registry_given \<Longrightarrow> ck_sets_dsn a = Some dsn \<Longrightarrow> ck_registry a = PostgresStore dsn"
    unfolding a(4) by (rule a(5))
qed

text \<open>C32: A production application has a policy and a verifier. Unless the verifier was handed in, it checks
  with the configured secret, of at least 32 characters, whichever ledger it keeps; without a registry of the
  caller, ownership, document sets and that ledger are in one database, and with one the ledger is in memory.\<close>

theorem production_app_guarded:
  assumes "create_app P policy verifier_given registry_given = Inr a" "production_enabled P"
  shows "ck_production a \<and> ck_policy a \<noteq> None
    \<and> (if verifier_given then ck_verifier a = Some SuppliedVerifier
       else \<exists>secret. read_secret (pn_env P) (pn_read P) ''FINDOCIQ_SERVICE_JWT_SECRET'' = Inr secret \<and> 32 \<le> py_len secret
         \<and> (if registry_given then ck_verifier a = Some (MemoryVerifier secret)
            else \<exists>dsn. database_url P = Inr dsn \<and> ck_verifier a = Some (DurableVerifier dsn secret)))
    \<and> (if registry_given then ck_sets_dsn a = None
       else \<exists>dsn. database_url P = Inr dsn \<and> ck_registry a = PostgresStore dsn \<and> ck_sets_dsn a = Some dsn)"
proof -
  note parts = create_app_parts [OF assms(1)] and on = assms(2)
  have policy: "ck_policy a \<noteq> None"
    using parts(2) on by (cases "ck_policy a") (auto simp: optional_Inr_iff split: option.splits)
  have durable: "if registry_given then ck_sets_dsn a = None
      else \<exists>dsn. database_url P = Inr dsn \<and> ck_registry a = PostgresStore dsn \<and> ck_sets_dsn a = Some dsn"
    using parts(3,5) on by (auto simp: optional_Inr_iff)
  have verifier: "if verifier_given then ck_verifier a = Some SuppliedVerifier
      else \<exists>secret. read_secret (pn_env P) (pn_read P) ''FINDOCIQ_SERVICE_JWT_SECRET'' = Inr secret \<and> 32 \<le> py_len secret
         \<and> (if registry_given then ck_verifier a = Some (MemoryVerifier secret)
            else \<exists>dsn. database_url P = Inr dsn \<and> ck_verifier a = Some (DurableVerifier dsn secret))"
  proof (cases verifier_given)
    case False
    with parts(4) on obtain secret where
      "read_secret (pn_env P) (pn_read P) ''FINDOCIQ_SERVICE_JWT_SECRET'' = Inr secret" "32 \<le> py_len secret"
      "ck_verifier a = Some (case ck_sets_dsn a of None \<Rightarrow> MemoryVerifier secret | Some dsn \<Rightarrow> DurableVerifier dsn secret)"
      by (auto simp: optional_Inr_iff build_verifier_def mk_verifier_def raise_if_Inr_iff res_bind_Inr_iff)
    with False durable show ?thesis by auto
  qed (use parts(4) in simp)
  from parts(1) on policy verifier durable show ?thesis by simp
qed

text \<open>
  A registry handed in without a verifier leaves the replay ledger in memory: tokens used before a restart, or at
  another worker, are accepted again.
\<close>

lemma supplied_registry_memory_ledger:
  assumes "create_app P policy False True = Inr a" "production_enabled P"
  shows "\<exists>secret. ck_verifier a = Some (MemoryVerifier secret)"
  using create_app_parts(3,4) [OF assms(1)] assms(2)
  by (auto simp: optional_Inr_iff build_verifier_def res_bind_Inr_iff)

section \<open>A deployment that starts\<close>

definition plant_policy :: guardrail_policy where
  "plant_policy =
     \<lparr>gp_version = ''1'', gp_metrics = [(''sales_crore'', ''sales'')],
      gp_resources = \<lparr>rp_max_pdf_bytes = 100, rp_max_batch_bytes = 100, rp_max_pages = 10, rp_max_batch_documents = 5,
        rp_parse_timeout = 60, rp_max_concurrent_batches = 1\<rparr>,
      gp_auth = \<lparr>ap_issuer = ''i'', ap_audience = ''a'', ap_maximum_age = 300, ap_correlation_header = ''X''\<rparr>,
      gp_dlp = \<lparr>dp_enabled = True, dp_replacement = ''[x]'', dp_kinds = [], dp_instructions = []\<rparr>,
      gp_retention = \<lparr>re_terminal_days = 30, re_quarantine_days = 7\<rparr>, gp_workers = [], gp_limits = [],
      gp_precedent = \<lparr>pc_validity_days = 1, pc_human_decision = True\<rparr>, gp_brand = \<lparr>bp_notice = ''n'', bp_prohibited = []\<rparr>,
      gp_hash = ''h''\<rparr>"

definition plant_config :: ingestion_config where
  "plant_config =
     \<lparr>nc_router = default_router, nc_parser = \<lparr>pa_prefer_docling = True, pa_fail_on_vision = True, pa_device = ''auto''\<rparr>,
      nc_vision = \<lparr>vc_enabled = False, vc_backend = ''vllm'', vc_url = (''http'', Some ''vllm''), vc_model = ''m'',
        vc_revision = ''r'', vc_max_tokens = 1, vc_timeout = 1, vc_dpi = 144\<rparr>,
      nc_chunker = default_config, nc_lease = \<lparr>lc_enabled = True, lc_timeout = 60\<rparr>, nc_observability = ''o.yaml''\<rparr>"

text \<open>The environment of a production host, and one with the switch off.\<close>

definition plant_env :: "string \<Rightarrow> string \<Rightarrow> string option" where
  "plant_env switch =
     map_of [(''FINDOCIQ_PRODUCTION_GUARDRAILS_ENABLED'', switch), (''FINDOCIQ_DOCUMENT_MASTER_KEY_FILE'', ''/run/key''),
       (''FINDOCIQ_DATABASE_URL'', ''postgresql://db''), (''FINDOCIQ_SERVICE_JWT_SECRET'', replicate 40 (CHR ''k''))]"

definition sample_plant :: "string \<Rightarrow> (unit, unit, unit) plant" where
  "sample_plant switch =
     \<lparr>pn_env = plant_env switch, pn_read = (\<lambda>p. Inr (replicate 43 (CHR ''A'') @ ''='')), pn_path = (\<lambda>s. [s]),
      pn_api = Inl (OSError ''''), pn_ingestion = (\<lambda>p. Inr plant_config), pn_hash = (\<lambda>c. Inr ''c''),
      pn_guardrails = (\<lambda>p. Inr plant_policy), pn_observability = (\<lambda>p. Inr ()), pn_runtime = (\<lambda>i r. Inr sample_runtime),
      pn_generation = (\<lambda>p. Inl (OSError '''')), pn_reasoning = (\<lambda>p. Inl (OSError '''')), pn_evidence = (\<lambda>p. Inl (OSError '''')),
      pn_parser = (\<lambda>c p t l s. (Inl (OSError ''''), s)), pn_embedder = (\<lambda>c ts. Inr (map (\<lambda>_. ()) ts)),
      pn_backend = (\<lambda>r. \<lparr>bk_search = (\<lambda>q a d. Inr []), bk_reranker = None\<rparr>), pn_scanner = (\<lambda>h p s. None), pn_objects = [],
      pn_libraries = \<lparr>lb_image = (\<lambda>_. None), lb_pdf = (\<lambda>_. None), lb_pages = (\<lambda>_. None), lb_nfkc = id,
        lb_aead = \<lparr>ae_encrypt = (\<lambda>_ _ p _. p), ae_decrypt = (\<lambda>_ _ c _. Some c)\<rparr>, lb_random = (\<lambda>_. ([], [], [])),
        lb_scratch = id\<rparr>,
      pn_requester = (\<lambda>h p w. (Inr OtherReply, w)), pn_scroll = (\<lambda>f p n c. ([], None)),
      pn_tools = \<lparr>tl_loads = (\<lambda>_. None), tl_dumps = (\<lambda>_. []), tl_prompt = (\<lambda>n. n), tl_citation = (\<lambda>_. None),
        tl_extraction = (\<lambda>_. None), tl_answer = (\<lambda>_. None), tl_selection = (\<lambda>_. None), tl_dump_citation = (\<lambda>_. JNull),
        tl_dump_provenance = (\<lambda>_. JNull)\<rparr>\<rparr>"

lemma sample_plant_starts:
  "case build_ingestion_service (sample_plant ''TRUE'') [''srv''] ''i'' ''x'' ''r'' of
     Inr (G, Some s) \<Rightarrow> True | _ \<Rightarrow> False"
  by code_simp

theorem production_ingestion_guarded_witness:
  "\<exists>G encrypted. build_ingestion_service (sample_plant ''TRUE'') [''srv''] ''i'' ''x'' ''r'' = Inr (G, encrypted)
    \<and> (if production_enabled (sample_plant ''TRUE'')
    then \<exists>config pol d s. pn_ingestion (sample_plant ''TRUE'') ''i'' = Inr config \<and> \<not> vc_enabled (nc_vision config)
      \<and> guardrails_file (sample_plant ''TRUE'') = Inr pol \<and> ig_policy G = Some pol \<and> ig_scanner G \<noteq> None
      \<and> mk_dlp (gp_dlp pol) = Inr d \<and> ig_dlp G = Some (d, gp_hash pol)
      \<and> encrypted = Some s \<and> length (st_master s) = 32
    else ig_policy G = None \<and> ig_scanner G = None \<and> ig_dlp G = None \<and> encrypted = None)"
proof -
  obtain G encrypted where run: "build_ingestion_service (sample_plant ''TRUE'') [''srv''] ''i'' ''x'' ''r'' = Inr (G, encrypted)"
    using sample_plant_starts by (auto split: sum.splits prod.splits option.splits)
  show ?thesis
    by (rule exI, rule exI, rule conjI [OF run production_ingestion_guarded [OF run]])
qed

lemma sample_app_starts:
  "case create_app (sample_plant ''yes'') None False False of Inr a \<Rightarrow> True | _ \<Rightarrow> False"
  "production_enabled (sample_plant ''yes'')"
  by code_simp+

theorem production_app_guarded_witness:
  "\<exists>a. create_app (sample_plant ''yes'') None False False = Inr a
    \<and> ck_production a \<and> ck_policy a \<noteq> None
    \<and> (\<exists>dsn secret. ck_registry a = PostgresStore dsn \<and> ck_sets_dsn a = Some dsn \<and> 32 \<le> py_len secret
        \<and> ck_verifier a = Some (DurableVerifier dsn secret))"
proof -
  obtain a where run: "create_app (sample_plant ''yes'') None False False = Inr a"
    using sample_app_starts(1) by (auto split: sum.splits)
  show ?thesis using run production_app_guarded [OF run sample_app_starts(2)] by auto
qed

text \<open>The switch is on for \<open>1\<close>, \<open>true\<close> and \<open>yes\<close> only: any other spelling starts the service without guardrails.\<close>

lemma unknown_switch_unguarded:
  "\<not> production_enabled (sample_plant ''on'') \<and> \<not> production_enabled (sample_plant ''true '')"
  by code_simp

end
