(* ===== verification/IngestProps.thy ===== *)
theory IngestProps
  imports Ingestion
begin

text \<open>
  What ingestion promises: the index receives only redacted, stamped chunks of documents that passed
  admission; a refused batch touches nothing but the quarantine; a receipt lists what is in the
  index; the model server is awake after every batch.
\<close>

section \<open>Redaction and stamping\<close>

definition protected_text :: "(string \<Rightarrow> string) \<Rightarrow> dlp_provider \<Rightarrow> string \<Rightarrow> bool" where
  "protected_text nfkc dlp t =
     (\<exists>u receipt. inspect nfkc (fst dlp) (snd dlp) u = Inr (t, receipt) \<and> \<not> dr_risk receipt)"

fun chunk_fields :: "chunk \<Rightarrow> string list" where
  "chunk_fields (TextChunk i t p m) = [t]"
| "chunk_fields (TableChunk i t tt c pr p tp m) =
     [t, tt] @ (case c of None \<Rightarrow> [] | Some x \<Rightarrow> [x]) @ (case pr of None \<Rightarrow> [] | Some x \<Rightarrow> [x])"

lemma redact_field_protects: "redact_field nfkc dlp t = Inr (u, r) \<Longrightarrow> protected_text nfkc dlp u"
  by (auto simp: redact_field_def protected_text_def res_simps split: prod.splits)

lemma redact_optional_protects:
  "redact_optional nfkc dlp t = Inr (u, rs) \<Longrightarrow>
     list_all (protected_text nfkc dlp) (case u of None \<Rightarrow> [] | Some x \<Rightarrow> [x])"
  by (auto simp: redact_optional_def res_simps dest: redact_field_protects split: option.splits)

lemma redact_chunk_protects:
  "redact_chunk nfkc dlp c = Inr (c', rs) \<Longrightarrow>
     list_all (protected_text nfkc dlp) (chunk_fields c') \<and> chunk_meta c' = chunk_meta c \<and> chunk_id c' = chunk_id c"
  by (cases c) (auto simp: res_simps dest: redact_field_protects redact_optional_protects)

definition stamped :: "('g, 'e) ingester \<Rightarrow> ingest_request \<Rightarrow> chunk \<Rightarrow> bool" where
  "stamped G r c =
     (map_of (chunk_meta c) ''config_hash'' = Some (MStr (ig_config_hash G))
      \<and> (truthy (iq_application r) \<longrightarrow>
           map_of (chunk_meta c) ''application_id'' = Some (MStr (or_empty (iq_application r)))))"

lemma with_metadata_simps [simp]:
  "chunk_meta (with_metadata m c) = m" "chunk_id (with_metadata m c) = chunk_id c"
  by (cases c; simp)+

lemma stamp_stamped: "stamped G r (stamp G r c)"
  by (auto simp: stamped_def stamp_def Let_def truthy_def or_empty_def dict_simps split: option.splits list.splits)

lemma evidence_chunks_stamped:
  "evidence_chunks G r parsed = Inr cs \<Longrightarrow> list_all (stamped G r) cs \<and> cs \<noteq> []"
  by (auto simp: evidence_chunks_def res_simps list_all_iff stamp_stamped)

definition vetted :: "('g, 'e) ingester \<Rightarrow> dlp_provider \<Rightarrow> ingest_request \<Rightarrow> chunk \<Rightarrow> bool" where
  "vetted G dlp r c = (stamped G r c \<and> list_all (protected_text (lb_nfkc (ig_libs G)) dlp) (chunk_fields c))"

lemma protect_chunks_vetted:
  assumes "ig_dlp G = Some dlp" "evidence_chunks G r parsed = Inr made"
    "protect_chunks G name made = Inr (chunks, rs)"
  shows "list_all (vetted G dlp r) chunks"
proof -
  obtain qs where qs: "res_map (redact_chunk (lb_nfkc (ig_libs G)) dlp) made = Inr qs" "chunks = map fst qs"
    using assms(1,3) by (auto simp: protect_chunks_def dlp_of_def res_simps)
  have "vetted G dlp r (fst q)" if q: "q \<in> set qs" for q
  proof -
    obtain c where c: "c \<in> set made" "redact_chunk (lb_nfkc (ig_libs G)) dlp c = Inr q"
      using res_map_in_set[OF qs(1) q] by blast
    have "stamped G r c" using evidence_chunks_stamped[OF assms(2)] c(1) by (simp add: list_all_iff)
    then show ?thesis using redact_chunk_protects[of _ dlp c "fst q" "snd q"] c(2)
      by (simp add: vetted_def stamped_def)
  qed
  then show ?thesis by (simp add: qs(2) list_all_iff)
qed

section \<open>What reaches the index\<close>

definition points_from :: "(chunk \<Rightarrow> bool) \<Rightarrow> ('g, 'e) ingest_world lease \<Rightarrow> ('g, 'e) ingest_world lease \<Rightarrow> bool" where
  "points_from P s s' =
     (\<forall>p \<in> set (iw_points (ls_world s')). p \<in> set (iw_points (ls_world s)) \<or> P (fst (snd p)))"

interpretation index_grows: ingest_steps "points_from P" reporter for P reporter
  by unfold_locales
    (auto simp: points_from_def keeps_def store_encrypted_def store_plain_def quarantine_def split: prod.splits option.splits)

lemma set_update_subset: "set (AList.update k v d) \<subseteq> insert (k, v) (set d)"
  by (induction d) auto

lemma upsert_subset:
  "p \<in> set (upsert records points) \<Longrightarrow> p \<in> set points \<or> (\<exists>q \<in> set records. snd p = q)"
proof (induction records arbitrary: points)
  case (Cons q qs)
  obtain c e where q: "q = (c, e)" by (cases q)
  have "p \<in> set (upsert qs (AList.update (point_id c) (c, e) points))" using Cons.prems q by (simp add: upsert_def)
  from Cons.IH[OF this] show ?case using set_update_subset[of "point_id c" "(c, e)" points] q by auto
qed (simp add: upsert_def)

lemma upsert_chunks_from: "list_all P chunks \<Longrightarrow> keeps (points_from P) (upsert_chunks chunks es)"
  by (auto simp: keeps_def upsert_chunks_def points_from_def list_all_iff
      dest!: upsert_subset set_zip_leftD split: if_splits)

section \<open>Admission\<close>

definition scanned :: "('g, 'e) ingester \<Rightarrow> daemon \<Rightarrow> ingest_request \<Rightarrow> string \<Rightarrow> scan_receipt \<Rightarrow> bool" where
  "scanned G clam r content receipt =
     (scan (lb_image (ig_libs G)) (lb_pdf (ig_libs G)) clam (map lower_char (path_suffix (iq_filename r))) content
        = Inr receipt)"

lemma scan_documents_Inr:
  "scan_documents G clam items receipts s = (Inr rs, s1) \<Longrightarrow>
     s1 = s \<and> (\<forall>(r, content) \<in> set items. \<exists>receipt. scanned G clam r content receipt)"
  by (induction G clam items receipts s rule: scan_documents.induct)
    (auto simp: scanned_def split: sum.splits exc.splits)

definition only_quarantine ::
  "('g, 'e) ingester \<Rightarrow> ingest_request list \<Rightarrow> ('g, 'e) ingest_world lease \<Rightarrow> ('g, 'e) ingest_world lease \<Rightarrow> bool" where
  "only_quarantine G requests s s1 =
     (s1 = s \<or> (\<exists>r \<in> set requests. \<exists>content. decode_and_validate G r = Inr content
                  \<and> s1 = s\<lparr>ls_world := quarantine G r content (ls_world s)\<rparr>))"

lemma quarantine_fields [simp]:
  "iw_server (quarantine G r content w) = iw_server w" "iw_points (quarantine G r content w) = iw_points w"
  "iw_plain (quarantine G r content w) = iw_plain w" "iw_activity (quarantine G r content w) = iw_activity w"
  by (simp_all add: quarantine_def split: option.split)

lemma scan_documents_Inl:
  "scan_documents G clam items receipts s = (Inl e, s1) \<Longrightarrow>
     s1 = s \<or> (\<exists>(r, content) \<in> set items. s1 = s\<lparr>ls_world := quarantine G r content (ls_world s)\<rparr>)"
  by (induction G clam items receipts s rule: scan_documents.induct)
    (auto split: sum.splits exc.splits)

lemma decoded_pairs:
  assumes "res_map (decode_and_validate G) requests = Inr contents" "(r, content) \<in> set (zip requests contents)"
  shows "r \<in> set requests" "decode_and_validate G r = Inr content"
proof -
  have "list_all2 (\<lambda>r c. decode_and_validate G r = Inr c) requests contents" using assms(1) by (simp add: res_simps)
  then show "decode_and_validate G r = Inr content" using assms(2) by (auto simp: list_all2_iff)
  show "r \<in> set requests" using assms(2) by (rule set_zip_leftD)
qed

lemma admit_Inl:
  assumes "admit G requests s = (Inl e, s1)"
  shows "only_quarantine G requests s s1"
proof -
  have scan: "only_quarantine G requests s s1"
    if "res_map (decode_and_validate G) requests = Inr contents"
      "scan_before_gpu G requests contents s = (Inl e, s1)" for contents
    using that(2) decoded_pairs[OF that(1)]
    by (auto simp: scan_before_gpu_def only_quarantine_def res_simps
        dest!: scan_documents_Inl split: if_splits option.splits) blast
  show ?thesis using assms scan
    by (auto simp: admit_def Let_def act_bind_Inl_iff act_bind_Inr_iff act_lift_iff act_return_iff only_quarantine_def)
qed

lemma admit_Inr:
  assumes "admit G requests s = (Inr (contents, receipts), s1)"
  shows "s1 = s" "requests \<noteq> []" "res_map (decode_and_validate G) requests = Inr contents"
    "validate_page_counts G contents = Inr ()"
    "\<lbrakk>ig_policy G \<noteq> None; ig_scanner G = Some clam; (r, content) \<in> set (zip requests contents)\<rbrakk>
      \<Longrightarrow> \<exists>receipt. scanned G clam r content receipt"
proof -
  have scan: "scan_before_gpu G requests contents s = (Inr receipts, s1)"
    and rest: "requests \<noteq> []" "res_map (decode_and_validate G) requests = Inr contents"
      "validate_page_counts G contents = Inr ()"
    using assms[unfolded admit_def Let_def act_bind_Inr_iff act_lift_iff act_return_iff]
    by (auto simp: raise_if_def split: if_splits)
  show "requests \<noteq> []" "res_map (decode_and_validate G) requests = Inr contents"
    "validate_page_counts G contents = Inr ()" by (fact rest)+
  show "s1 = s" using scan
    by (auto simp: scan_before_gpu_def act_return_iff act_lift_iff dest: scan_documents_Inr split: if_splits option.splits)
  show "\<lbrakk>ig_policy G \<noteq> None; ig_scanner G = Some clam; (r, content) \<in> set (zip requests contents)\<rbrakk>
      \<Longrightarrow> \<exists>receipt. scanned G clam r content receipt"
    using scan by (auto simp: scan_before_gpu_def dest!: scan_documents_Inr)
qed

lemma batch_points_vetted:
  assumes "ig_policy G \<noteq> None" "ig_scanner G = Some clam" "ig_dlp G = Some dlp"
    and "ingest_batch G reporter requests s = (outcome, s')"
    and "p \<in> set (iw_points (ls_world s'))" "p \<notin> set (iw_points (ls_world s))"
  shows "(\<exists>r \<in> set requests. vetted G dlp r (fst (snd p)))
    \<and> (\<forall>r \<in> set requests. \<exists>content receipt. decode_and_validate G r = Inr content \<and> scanned G clam r content receipt)"
proof (cases "admit G requests s")
  case (Pair a s1)
  show ?thesis
  proof (cases a)
    case (Inl e)
    then have "s' = s1" using Pair assms(4) by (auto simp: ingest_batch_def act_bind_def)
    moreover have "iw_points (ls_world s1) = iw_points (ls_world s)"
      using admit_Inl[of G requests s e s1] Pair Inl
      by (auto simp: only_quarantine_def)
    ultimately show ?thesis using assms(5,6) by simp
  next
    case (Inr cr)
    obtain contents receipts where cr: "cr = (contents, receipts)" by (cases cr)
    note ok = admit_Inr[OF Pair[unfolded Inr cr]]
    let ?P = "\<lambda>c. \<exists>r \<in> set requests. vetted G dlp r c"
    have one: "keeps (points_from ?P) (ingest_one G reporter (length requests) receipts item)"
      if "snd item \<in> set (zip requests contents)" for item
    proof (rule index_grows.keeps_ingest_one)
      fix parsed made chunks rs and es :: "'b list"
      assume "evidence_chunks G (fst (snd item)) parsed = Inr made"
        "protect_chunks G (iq_filename (fst (snd item))) made = Inr (chunks, rs)"
      then have "list_all (vetted G dlp (fst (snd item))) chunks" by (rule protect_chunks_vetted[OF assms(3)])
      moreover have "fst (snd item) \<in> set requests" using that by (metis prod.collapse set_zip_leftD)
      ultimately have "list_all ?P chunks" by (auto simp: list_all_iff)
      then show "keeps (points_from ?P) (upsert_chunks chunks es)" by (rule upsert_chunks_from)
    qed
    have "keeps (points_from ?P) (act_bind (emit reporter ''waiting_gpu'' ''Waiting for exclusive GPU access''
        (no_details\<lparr>ad_total := Some (int (length requests))\<rparr>)) (\<lambda>_. run_batch G reporter requests contents receipts))"
      by (intro index_grows.run_bind index_grows.keeps_emit index_grows.keeps_run_batch one)
    then have "points_from ?P s s'"
      using assms(4) Pair ok(1) by (auto simp: ingest_batch_def act_bind_def[of "admit G requests"] Inr cr dest: keepsD)
    then have "?P (fst (snd p))" using assms(5,6) by (auto simp: points_from_def)
    moreover have "\<exists>content receipt. decode_and_validate G r = Inr content \<and> scanned G clam r content receipt"
      if "r \<in> set requests" for r
    proof -
      have "length contents = length requests" using ok(3) by (rule res_map_length)
      then obtain content where c: "(r, content) \<in> set (zip requests contents)"
        using \<open>r \<in> set requests\<close> by (metis in_set_impl_in_set_zip1)
      then show ?thesis using decoded_pairs(2)[OF ok(3) c] ok(5)[OF assms(1,2) c] by blast
    qed
    ultimately show ?thesis by blast
  qed
qed

text \<open>Whether a production batch returns or fails, a point that it puts into the index is of a document of
  the batch, carries the application and the configuration, and every text of it is the output of a
  redaction that found no instructions; and it puts in nothing unless every document of the batch
  decoded to its declared digest within the limits and was reported clean by the scanner.
\<close>

theorem index_vetted:
  assumes "ig_policy G \<noteq> None" "ig_scanner G = Some clam" "ig_dlp G = Some dlp"
    and "ingest_batch G reporter requests s = (outcome, s')"
    and "p \<in> set (iw_points (ls_world s'))" "p \<notin> set (iw_points (ls_world s))"
  shows "(\<exists>r \<in> set requests. vetted G dlp r (fst (snd p)))
    \<and> (\<forall>r \<in> set requests. \<exists>content receipt. decode_and_validate G r = Inr content \<and> scanned G clam r content receipt)"
  using assms by (rule batch_points_vetted)

section \<open>Refusal\<close>

text \<open>
  A batch that admission refuses fails with the refusal and leaves everything as it was, but for the
  copy of one unsafe document in the quarantine: no report, no parsing, no file, no point, no request
  to the model server.
\<close>

theorem refused_batch_touches_nothing:
  assumes "admit G requests s = (Inl e, s1)"
  shows "ingest_batch G reporter requests s = (Inl e, s1) \<and> only_quarantine G requests s s1"
  using admit_Inl[OF assms] assms by (simp add: ingest_batch_def act_bind_def)

section \<open>Receipts\<close>

lemma act_finally_Inr_iff [res_simps]:
  "act_finally m h s = (Inr x, s') \<longleftrightarrow> (\<exists>s1 u. m s = (Inr x, s1) \<and> h s1 = (Inr u, s'))"
  by (auto simp: act_finally_def split: prod.splits sum.splits)

context act_relation
begin

lemma run_map_all2:
  assumes "\<And>x. x \<in> set xs \<Longrightarrow> keeps R (f x)"
    and "\<And>x s y s'. x \<in> set xs \<Longrightarrow> f x s = (Inr y, s') \<Longrightarrow> Q x y s'"
    and "\<And>x y s s'. Q x y s \<Longrightarrow> R s s' \<Longrightarrow> Q x y s'"
    and "act_map f xs s = (Inr ys, s')"
  shows "list_all2 (\<lambda>x y. Q x y s') xs ys"
  using assms(1,2,4)
proof (induction xs arbitrary: s ys)
  case (Cons x xs)
  then obtain y s1 zs where y: "f x s = (Inr y, s1)" "act_map f xs s1 = (Inr zs, s')" "ys = y # zs"
    by (auto simp: act_bind_Inr_iff act_return_iff)
  have "keeps R (act_map f xs)" using Cons.prems(1) by (intro run_map) simp
  then have "R s1 s'" using y(2) by (rule keepsD)
  then have "Q x y s'" using assms(3)[OF Cons.prems(2)[OF _ y(1)]] by simp
  then show ?case using Cons.IH[of s1 zs] Cons.prems y(2,3) by simp
qed (simp add: act_return_iff)

end

context ingest_relation
begin

lemma under_lease_Inr:
  assumes "under_lease G m s = (Inr x, s')"
  shows "\<exists>s0 s1. m s0 = (Inr x, s1) \<and> R s1 s'"
proof (cases "lc_enabled (ig_lease G)")
  case True
  let ?rq = "world_requester (ig_requester G)"
  have "ingestion_batch (ig_lease G) ?rq (lease_body m) s = (Inr x, s')"
    using assms by (auto simp: under_lease_def split: prod.splits sum.splits)
  from ingestion_batch_Inr[OF True this] obtain s0 s1 v where body: "lease_body m (s0\<lparr>ls_batch := True\<rparr>) = (Inr x, s1)"
    and awake: "wake ?rq (ls_world s1) = (Inr v, ls_world s')" "\<not> ls_batch s'" by blast
  obtain g where "ls_world s' = (ls_world s1)\<lparr>iw_server := g\<rparr>"
    using wake_server[of "ig_requester G" "ls_world s1"] awake(1) by auto
  then have "s' = \<lparr>ls_world = (ls_world s1)\<lparr>iw_server := g\<rparr>, ls_batch = ls_batch s'\<rparr>" by (cases s') simp
  then have "R s1 s'" using run_server by metis
  then show ?thesis using body by (auto simp: lease_body_def split: prod.splits sum.splits)
next
  case False
  then have "m s = (Inr x, s')" using assms
    by (auto simp: under_lease_def ingestion_batch_def lease_body_def split: prod.splits sum.splits)
  then show ?thesis using run_refl by blast
qed

lemma run_batch_Inr:
  assumes "run_batch G reporter requests contents receipts s = (Inr ys, s')"
  shows "\<exists>s0 s1. act_map (ingest_one G reporter (length requests) receipts) (number_from_1 (zip requests contents)) s0
           = (Inr ys, s1) \<and> R s1 s'"
proof -
  obtain s2 s3 where lease: "under_lease G
      (act_bind (emit reporter ''gpu_ingestion_ready'' ''vLLM is sleeping; ingestion owns the GPU'' no_details) (\<lambda>_.
         act_finally
          (act_map (ingest_one G reporter (length requests) receipts) (number_from_1 (zip requests contents)))
          (emit reporter ''releasing_gpu'' ''Releasing ingestion models and GPU memory'' no_details))) s2 = (Inr ys, s3)"
    and ready: "emit reporter ''vllm_ready'' ''vLLM is awake and ready for cited extraction'' no_details s3 = (Inr (), s')"
    using assms
    by (auto simp: run_batch_def act_catch_def act_bind_Inr_iff act_bind_Inl_iff act_lift_iff act_return_iff
        split: prod.splits sum.splits)
  from under_lease_Inr[OF lease] obtain s4 s5 where body:
    "act_bind (emit reporter ''gpu_ingestion_ready'' ''vLLM is sleeping; ingestion owns the GPU'' no_details) (\<lambda>_.
         act_finally
          (act_map (ingest_one G reporter (length requests) receipts) (number_from_1 (zip requests contents)))
          (emit reporter ''releasing_gpu'' ''Releasing ingestion models and GPU memory'' no_details)) s4 = (Inr ys, s5)"
    "R s5 s3" by blast
  obtain s0 s1 where run: "act_map (ingest_one G reporter (length requests) receipts) (number_from_1 (zip requests contents)) s0
      = (Inr ys, s1)"
    and release: "emit reporter ''releasing_gpu'' ''Releasing ingestion models and GPU memory'' no_details s1 = (Inr (), s5)"
    using body(1) by (auto simp: act_bind_Inr_iff act_finally_Inr_iff)
  have "R s1 s5" "R s3 s'" using release ready keepsD[OF keeps_emit] by blast+
  then have "R s1 s'" using body(2) run_trans by blast
  then show ?thesis using run by blast
qed

end

definition keys_grow :: "('g, 'e) ingest_world lease \<Rightarrow> ('g, 'e) ingest_world lease \<Rightarrow> bool" where
  "keys_grow s s' = (fst ` set (iw_points (ls_world s)) \<subseteq> fst ` set (iw_points (ls_world s')))"

interpretation index_keys: ingest_steps keys_grow reporter for reporter
  by unfold_locales
    (auto simp: keys_grow_def keeps_def store_encrypted_def store_plain_def quarantine_def split: prod.splits option.splits)

lemma upsert_keys: "fst ` set (upsert records points) = fst ` set points \<union> (point_id \<circ> fst) ` set records"
proof (induction records arbitrary: points)
  case (Cons q qs)
  obtain c e where "q = (c, e)" by (cases q)
  then show ?case using Cons.IH[of "AList.update (point_id c) (c, e) points"]
    by (simp add: upsert_def dom_update insert_commute)
qed (simp add: upsert_def)

lemma upsert_chunks_keys:
  "upsert_chunks chunks es s = (Inr u, s') \<Longrightarrow> c \<in> set chunks \<Longrightarrow> point_id c \<in> fst ` set (iw_points (ls_world s'))"
  by (auto simp: upsert_chunks_def upsert_keys split: if_splits) (metis fst_conv image_eqI in_set_impl_in_set_zip1 comp_apply)

lemma upsert_grows: "keeps keys_grow (upsert_chunks chunks es)"
  by (auto simp: keeps_def upsert_chunks_def keys_grow_def upsert_keys)

lemma protect_chunks_stamped:
  assumes "evidence_chunks G r parsed = Inr made" "protect_chunks G name made = Inr (chunks, rs)"
  shows "list_all (stamped G r) chunks"
proof -
  have made: "list_all (stamped G r) made" using evidence_chunks_stamped[OF assms(1)] by simp
  show ?thesis
  proof (cases "dlp_of G name")
    case (Inr d)
    show ?thesis
    proof (cases d)
      case (Some dlp)
      then obtain qs where qs: "res_map (redact_chunk (lb_nfkc (ig_libs G)) dlp) made = Inr qs" "chunks = map fst qs"
        using assms(2) Inr by (auto simp: protect_chunks_def res_simps)
      have "stamped G r (fst q)" if q: "q \<in> set qs" for q
      proof -
        obtain c where "c \<in> set made" "redact_chunk (lb_nfkc (ig_libs G)) dlp c = Inr q"
          using res_map_in_set[OF qs(1) q] by blast
        then show ?thesis using redact_chunk_protects[of _ dlp c "fst q" "snd q"] made
          by (simp add: stamped_def list_all_iff)
      qed
      then show ?thesis by (simp add: qs(2) list_all_iff)
    qed (use assms(2) Inr made in \<open>simp add: protect_chunks_def\<close>)
  qed (use assms(2) in \<open>simp add: protect_chunks_def\<close>)
qed

definition receipt_holds ::
  "('g, 'e) ingester \<Rightarrow> ingest_request \<Rightarrow> ingest_response \<Rightarrow> ('g, 'e) ingest_world lease \<Rightarrow> bool" where
  "receipt_holds G r x s =
     (ir_filename x = iq_filename r \<and> ir_application x = iq_application r \<and> ir_policy_hash x = iq_policy_hash r
      \<and> ir_chunks x = length (ir_chunk_ids x) \<and> ir_chunks x \<ge> 1
      \<and> (\<forall>i \<in> set (ir_chunk_ids x). \<exists>c. chunk_id c = i \<and> stamped G r c
            \<and> point_id c \<in> fst ` set (iw_points (ls_world s))))"

lemma response_of_Inr:
  assumes "response_of G r digest receipt encrypted parsed chunks rs = Inr x"
  shows "ir_filename x = iq_filename r" "ir_application x = iq_application r" "ir_policy_hash x = iq_policy_hash r"
    "ir_sha256 x = digest" "ir_chunk_ids x = map chunk_id chunks" "ir_chunks x = length chunks" "chunks \<noteq> []"
  using assms by (auto simp: response_of_def mk_ingest_response_def raise_if_Inr_iff)

lemma ingest_one_receipt:
  assumes "ingest_one G reporter count receipts item s = (Inr x, s')"
  shows "receipt_holds G (fst (snd item)) x s' \<and> ir_sha256 x = sha256_hex (snd (snd item))"
proof -
  let ?r = "fst (snd item)"
  obtain ep made q es s1 s2 u where
    made: "evidence_chunks G ?r (snd ep) = Inr made" "protect_chunks G (iq_filename ?r) made = Inr q"
    and up: "upsert_chunks (fst q) es s1 = (Inr u, s2)"
    and resp: "response_of G ?r (sha256_hex (snd (snd item))) (map_of receipts (iq_sha256 ?r)) (fst ep) (snd ep)
        (fst q) (snd q) = Inr x"
    and closing: "\<exists>stage m d v. emit reporter stage m d s2 = (Inr v, s')"
    using assms[unfolded ingest_one_def Let_def case_prod_beta act_bind_Inr_iff act_lift_iff act_return_iff sum.inject]
    by (elim exE conjE) (hypsubst, rule that, assumption+, intro exI, assumption)
  have grow: "keys_grow s2 s'" using closing by (elim exE) (rule keepsD[OF index_keys.keeps_emit])
  have "point_id c \<in> fst ` set (iw_points (ls_world s'))" if "c \<in> set (fst q)" for c
    using upsert_chunks_keys[OF up that] grow by (auto simp: keys_grow_def)
  moreover have "list_all (stamped G ?r) (fst q)" using protect_chunks_stamped[OF made(1)] made(2) by (cases q) simp
  ultimately have "\<exists>c. chunk_id c = i \<and> stamped G ?r c \<and> point_id c \<in> fst ` set (iw_points (ls_world s'))"
    if "i \<in> set (ir_chunk_ids x)" for i
    using that response_of_Inr(5)[OF resp] by (auto simp: list_all_iff)
  then show ?thesis using response_of_Inr[OF resp] by (cases "fst q") (simp_all add: receipt_holds_def)
qed

text \<open>C37: A batch that succeeds gives one receipt per document, in order: it names the file, the digest of
  the content received and the application, and at the end of the batch the index has a point for every chunk the
  receipt lists, filed under that application.
\<close>

theorem receipts_complete:
  assumes "ingest_batch G reporter requests s = (Inr responses, s')"
  shows "list_all2 (\<lambda>r x. receipt_holds G r x s' \<and> ir_sha256 x = iq_sha256 r) requests responses"
proof -
  obtain contents receipts s1 s2 where admitted: "admit G requests s = (Inr (contents, receipts), s1)"
    and batch: "run_batch G reporter requests contents receipts s2 = (Inr responses, s')"
    using assms by (auto simp: ingest_batch_def act_bind_Inr_iff)
  note ok = admit_Inr[OF admitted]
  obtain s3 s4 where run: "act_map (ingest_one G reporter (length requests) receipts)
      (number_from_1 (zip requests contents)) s3 = (Inr responses, s4)" and grow: "keys_grow s4 s'"
    using index_keys.run_batch_Inr[OF batch] by blast
  let ?Q = "\<lambda>item x s. receipt_holds G (fst (snd item)) x s \<and> ir_sha256 x = sha256_hex (snd (snd item))"
  have later: "?Q item x s'" if "?Q item x s" "keys_grow s s'" for item x s s'
    using that unfolding receipt_holds_def keys_grow_def by blast
  have "list_all2 (\<lambda>item x. ?Q item x s4) (number_from_1 (zip requests contents)) responses"
    by (rule index_keys.run_map_all2[OF index_keys.keeps_ingest_one[OF upsert_grows] ingest_one_receipt later run])
  then have all: "list_all2 (\<lambda>item x. ?Q item x s') (number_from_1 (zip requests contents)) responses"
    by (rule list_all2_mono) (rule later[OF _ grow])
  have len: "length contents = length requests" using ok(3) by (rule res_map_length)
  show ?thesis
  proof (rule list_all2_all_nthI)
    show "length requests = length responses"
      using list_all2_lengthD[OF all] len by (simp add: number_from_1_def)
    fix i assume i: "i < length requests"
    have "decode_and_validate G (requests ! i) = Inr (contents ! i)"
      using ok(3) i by (auto simp: res_simps list_all2_conv_all_nth)
    then have "sha256_hex (contents ! i) = iq_sha256 (requests ! i)"
      by (auto simp: decode_and_validate_def res_simps split: option.splits)
    then show "receipt_holds G (requests ! i) (responses ! i) s' \<and> ir_sha256 (responses ! i) = iq_sha256 (requests ! i)"
      using list_all2_nthD[OF all, of i] i len by (simp add: number_from_1_def nth_enumerate_eq)
  qed
qed

section \<open>The model server\<close>

definition awake :: "('g \<Rightarrow> bool) \<Rightarrow> ('g, 'e) ingest_world lease \<Rightarrow> bool" where
  "awake asleep s = (\<not> asleep (iw_server (ls_world s)) \<and> \<not> ls_batch s)"

lemma emit_awake: "emit reporter stage m d s = (r, s') \<Longrightarrow> awake asleep s' = awake asleep s"
  by (auto simp: emit_def awake_def split: option.splits prod.splits)

lemma world_obedient:
  assumes "obedient rq asleep put"
  shows "obedient (world_requester rq) (asleep \<circ> iw_server) (\<lambda>b w. w\<lparr>iw_server := put b (iw_server w)\<rparr>)"
  unfolding obedient_def
proof
  fix w
  show "(\<exists>r. world_requester rq Post ''/sleep?level=1'' w = (Inr r, w\<lparr>iw_server := put True (iw_server w)\<rparr>))
    \<and> (\<exists>r. world_requester rq Post ''/wake_up'' w = (Inr r, w\<lparr>iw_server := put False (iw_server w)\<rparr>))
    \<and> (world_requester rq Get ''/is_sleeping'' w = (Inr (BoolReply ((asleep \<circ> iw_server) w)), w)
       \<or> world_requester rq Get ''/is_sleeping'' w = (Inr (ObjectReply (Some ((asleep \<circ> iw_server) w))), w))
    \<and> (\<exists>r. world_requester rq Get ''/health'' w = (Inr r, w))
    \<and> (asleep \<circ> iw_server) (w\<lparr>iw_server := put True (iw_server w)\<rparr>)
    \<and> \<not> (asleep \<circ> iw_server) (w\<lparr>iw_server := put False (iw_server w)\<rparr>)"
    using assms[unfolded obedient_def, rule_format, of "iw_server w"] by (auto simp: world_requester_def)
qed

lemma under_lease_awake:
  assumes "obedient (ig_requester G) asleep put" "lc_enabled (ig_lease G)" "under_lease G m s = (r, s')"
  shows "awake asleep s'"
proof -
  have "\<not> asleep (put False g)" for g using assms(1) by (simp add: obedient_def)
  then show ?thesis using assms(3) ingestion_batch_refines[OF world_obedient[OF assms(1)] assms(2), of "lease_body m"]
    by (auto simp: under_lease_def batch_spec_def awake_def split: prod.splits sum.splits)
qed

lemma run_batch_awake:
  assumes "obedient (ig_requester G) asleep put" "lc_enabled (ig_lease G)"
    "run_batch G reporter requests contents receipts s = (r, s')"
  shows "awake asleep s'"
  using assms(3) under_lease_awake[OF assms(1,2)]
  unfolding run_batch_def
  by (auto simp: act_catch_def act_bind_def act_return_def act_lift_def emit_awake split: prod.splits sum.splits)

text \<open>However a batch ends, by success, refusal, an error of the parser, the embedder or the index, the
  language-model server is awake afterwards and the lease is not held, when the server obeys its sleep and wake
  requests.
\<close>

theorem server_awake_after_batch:
  assumes "obedient (ig_requester G) asleep put" "lc_enabled (ig_lease G)" "awake asleep s"
    and "ingest_batch G reporter requests s = (outcome, s')"
  shows "awake asleep s'"
proof (cases "admit G requests s")
  case (Pair a s1)
  show ?thesis
  proof (cases a)
    case (Inl e)
    have "awake asleep s1" using admit_Inl[of G requests s e s1] Pair Inl assms(3)
      by (auto simp: only_quarantine_def awake_def)
    then show ?thesis using assms(4) Pair Inl by (simp add: ingest_batch_def act_bind_def)
  next
    case (Inr cr)
    then have "s1 = s" using admit_Inr(1)[of G requests s "fst cr" "snd cr" s1] Pair by simp
    then show ?thesis using assms(3,4) Pair Inr run_batch_awake[OF assms(1,2)]
      by (auto simp: ingest_batch_def act_bind_def emit_awake split: prod.splits sum.splits)
  qed
qed

section \<open>Witnesses\<close>

text \<open>A production service with a clean scanner, an obedient server and one digital document.\<close>

definition sample_prov :: provenance where
  "sample_prov = \<lparr>pv_document = ''d'', pv_source = ''s'', pv_page = 1,
     pv_bbox = \<lparr>bx0 = 0, by0 = 0, bx1 = 1, by1 = 1\<rparr>, pv_width = 10, pv_height = 10\<rparr>"

definition sample_parsed :: parsed_document where
  "sample_parsed = \<lparr>pd_document = ''d'', pd_source = ''s'', pd_pages =
     [\<lparr>pg_number = 1, pg_route = Digital, pg_blocks =
        [\<lparr>blk_type = Table, blk_text = ''a 1'', blk_prov = sample_prov, blk_order = 0, blk_table_id = None, blk_meta = []\<rparr>]\<rparr>],
     pd_parser = ''p''\<rparr>"

definition sample_dlp :: dlp_policy where
  "sample_dlp = \<lparr>dp_enabled = True, dp_replacement = ''[x]'', dp_kinds = [], dp_instructions = []\<rparr>"

definition sample_guard :: guardrail_policy where
  "sample_guard = \<lparr>gp_version = ''1'', gp_metrics = [(''sales_crore'', ''sales'')],
     gp_resources = \<lparr>rp_max_pdf_bytes = 100, rp_max_batch_bytes = 100, rp_max_pages = 10, rp_max_batch_documents = 5,
       rp_parse_timeout = 60, rp_max_concurrent_batches = 1\<rparr>,
     gp_auth = \<lparr>ap_issuer = ''i'', ap_audience = ''a'', ap_maximum_age = 300, ap_correlation_header = ''X''\<rparr>,
     gp_dlp = sample_dlp, gp_retention = \<lparr>re_terminal_days = 30, re_quarantine_days = 7\<rparr>, gp_workers = [], gp_limits = [],
     gp_precedent = \<lparr>pc_validity_days = 1, pc_human_decision = True\<rparr>, gp_brand = \<lparr>bp_notice = ''n'', bp_prohibited = []\<rparr>,
     gp_hash = sha256_hex ''p''\<rparr>"

definition sample_libs :: libraries where
  "sample_libs = \<lparr>lb_image = (\<lambda>_. None), lb_pdf = (\<lambda>_. Some \<lparr>pi_needs_pass = False, pi_embedded = 0\<rparr>),
     lb_pages = (\<lambda>_. Some 1), lb_nfkc = id,
     lb_aead = \<lparr>ae_encrypt = (\<lambda>_ _ p _. p), ae_decrypt = (\<lambda>_ _ c _. Some c)\<rparr>, lb_random = (\<lambda>_. ([], [], [])),
     lb_scratch = id\<rparr>"

definition sample_server :: "bool requester" where
  "sample_server how path w =
     (if path = ''/sleep?level=1'' then (Inr OtherReply, True)
      else if path = ''/wake_up'' then (Inr OtherReply, False) else (Inr (BoolReply w), w))"

definition sample_daemon :: daemon where
  "sample_daemon sent = (if starts_with ''zVERSION'' sent then Some ''ClamAV 1'' else Some ''stream: OK'')"

definition sample_service :: "(bool, unit) ingester" where
  "sample_service = \<lparr>ig_root = [''srv''], ig_parse = (\<lambda>_ _ _ s. (Inr sample_parsed, s)), ig_chunker = default_config,
     ig_embed = (\<lambda>ts. Inr (map (\<lambda>_. ()) ts)), ig_config_hash = ''c'',
     ig_lease = \<lparr>lc_enabled = True, lc_timeout = 60\<rparr>, ig_requester = sample_server, ig_max_bytes = 25 * 1024 * 1024,
     ig_policy = Some sample_guard, ig_scanner = Some sample_daemon, ig_dlp = Some (sample_dlp, gp_hash sample_guard),
     ig_image_policy = Inr sample_guard, ig_libs = sample_libs\<rparr>"

definition sample_upload :: ingest_request where
  "sample_upload = \<lparr>iq_version = ''2.0'', iq_filename = ''a.pdf'', iq_sha256 = sha256_hex ''%PDF-1'', iq_content = ''JVBERi0x'',
     iq_application = Some ''app-1'', iq_command = Some ''command-1'', iq_policy_hash = Some (sha256_hex ''p'')\<rparr>"

definition sample_state :: "(bool, unit) ingest_world lease" where
  "sample_state = \<lparr>ls_world = \<lparr>iw_server = False, iw_store = None, iw_plain = [], iw_points = [], iw_activity = new_activity 1 1\<rparr>,
     ls_batch = False\<rparr>"

lemma sample_obedient: "obedient sample_server id (\<lambda>b _. b)"
  by (simp add: obedient_def sample_server_def)

lemma sample_decoded: "decode_and_validate sample_service sample_upload = Inr ''%PDF-1''"
proof -
  have "b64decode ''JVBERi0x'' = Some ''%PDF-1''" by code_simp
  moreover have "is_image_name ''a.pdf'' = False" by code_simp
  ultimately show ?thesis
    by (simp add: decode_and_validate_def sample_upload_def sample_service_def size_limit_def sample_guard_def check_format_def
        check_production_def pdf_magic_def starts_with_def raise_if_def)
qed

lemma sample_fields [simp]:
  "ig_policy sample_service = Some sample_guard" "ig_scanner sample_service = Some sample_daemon" "ig_libs sample_service = sample_libs"
  "ig_dlp sample_service = Some (sample_dlp, gp_hash sample_guard)" "ig_chunker sample_service = default_config"
  "ig_embed sample_service = (\<lambda>ts. Inr (map (\<lambda>_. ()) ts))" "ig_parse sample_service = (\<lambda>_ _ _ s. (Inr sample_parsed, s))"
  "ig_lease sample_service = \<lparr>lc_enabled = True, lc_timeout = 60\<rparr>" "ig_requester sample_service = sample_server"
  "rp_max_batch_documents (gp_resources sample_guard) = 5" "rp_max_batch_bytes (gp_resources sample_guard) = 100"
  "rp_max_pages (gp_resources sample_guard) = 10" "lb_pages sample_libs = (\<lambda>_. Some 1)"
  "lb_nfkc sample_libs = id"
  "iq_filename sample_upload = ''a.pdf''" "iq_application sample_upload = Some ''app-1''" "iq_version sample_upload = ''2.0''"
  "iq_policy_hash sample_upload = Some (sha256_hex ''p'')"
  "iw_store (ls_world sample_state) = None" "iw_points (ls_world sample_state) = []" "iw_server (ls_world sample_state) = False"
  "ls_batch sample_state = False"
  by (simp_all add: sample_service_def sample_guard_def sample_libs_def sample_upload_def sample_state_def)

lemma sample_scanned:
  "scan (lb_image sample_libs) (lb_pdf sample_libs) sample_daemon (map lower_char (path_suffix ''a.pdf'')) ''%PDF-1''
     = Inr \<lparr>sr_scanner = ''clamav'', sr_version = ''ClamAV 1'', sr_status = ''clean''\<rparr>"
proof -
  have name: "map lower_char (path_suffix ''a.pdf'') = ''.pdf''" by code_simp
  have "dict_has image_formats (map lower_char ''.pdf'') = False" by code_simp
  moreover have "list_ex (\<lambda>m. contains m ''%PDF-1'') forbidden_markers = False" by code_simp
  ultimately have "reject_active_content (lb_image sample_libs) (lb_pdf sample_libs) ''.pdf'' ''%PDF-1'' = Inr ()"
    by (simp add: reject_active_content_def sample_libs_def)
  moreover have "scanner_version sample_daemon = Inr ''ClamAV 1''" by code_simp
  moreover have "sample_daemon (instream block_size ''%PDF-1'') = Some ''stream: OK''"
    by (simp add: sample_daemon_def instream_def starts_with_def)
  moreover have "contains ''FOUND'' ''stream: OK'' = False" "contains ''OK'' ''stream: OK'' = True" by code_simp+
  ultimately show ?thesis by (simp add: scan_def name)
qed

lemma sample_admitted:
  "\<exists>receipts. admit sample_service [sample_upload] sample_state = (Inr ([''%PDF-1''], receipts), sample_state)"
proof -
  have "validate_page_counts sample_service [''%PDF-1''] = Inr ()"
    by (simp add: validate_page_counts_def check_page_count_def)
  then show ?thesis
    by (simp add: admit_def act_bind_def act_lift_def act_return_def sample_decoded scan_before_gpu_def sample_scanned)
qed

lemma sample_chunks: "\<exists>c. evidence_chunks sample_service sample_upload sample_parsed = Inr [c]"
  by (simp add: evidence_chunks_def chunk_document_def doc_blocks_def sample_parsed_def chunk_step_def table_chunk_def Let_def
      default_config_def upt_rec raise_if_def py_len_def code_def is_continuation_def meta_truthy_def)

lemma sample_redact: "\<exists>c' rs. redact_chunk id (sample_dlp, gp_hash sample_guard) c = Inr (c', rs)"
  by (cases c) (auto simp: redact_field_def redact_optional_def inspect_def sample_dlp_def instruction_risk_def
      split: option.split)

lemma sample_one:
  assumes "iw_store (ls_world s) = None"
  shows "\<exists>x s'. ingest_one sample_service None 1 receipts (1, sample_upload, ''%PDF-1'') s = (Inr x, s')
     \<and> iw_points (ls_world s') \<noteq> []"
proof -
  obtain c where c: "evidence_chunks sample_service sample_upload sample_parsed = Inr [c]" using sample_chunks by blast
  obtain c' rs where red: "redact_chunk id (sample_dlp, gp_hash sample_guard) c = Inr (c', rs)" using sample_redact by blast
  have prot: "protect_chunks sample_service ''a.pdf'' [c] = Inr ([c'], rs)"
    by (simp add: protect_chunks_def dlp_of_def red)
  have no_image: "is_image_name ''a.pdf'' = False" by code_simp
  have parsed: "\<exists>s'. store_and_parse sample_service None d sample_upload ''%PDF-1'' s = (Inr (None, sample_parsed), s')" for d
    using assms by (simp add: store_and_parse_def parse_plain_def store_plain_def announce_and_parse_def on_server_def
        parse_file_def no_image parse_pdf_def act_bind_def act_catch_def act_return_def emit_def Let_def)
  obtain s1 where s1: "store_and_parse sample_service None (document_details sample_upload 1 1) sample_upload ''%PDF-1'' s
      = (Inr (None, sample_parsed), s1)" using parsed by blast
  have pages: "check_parsed_pages sample_service sample_parsed = Inr ()"
    by (simp add: check_parsed_pages_def sample_parsed_def)
  have "\<exists>x. response_of sample_service sample_upload d m None sample_parsed [c'] rs = Inr x" for d m
    by (cases m) (simp_all add: response_of_def mk_ingest_response_def raise_if_def opt_ok_def sha256_hex_shape
        scan_receipt_digest_def dlp_receipts_digest_def storage_receipt_digest_def sample_parsed_def truthy_def)
  then obtain x where x: "response_of sample_service sample_upload (sha256_hex ''%PDF-1'')
      (map_of receipts (iq_sha256 sample_upload)) None sample_parsed [c'] rs = Inr x" by blast
  obtain k where "upsert [(c', ())] (iw_points (ls_world s1)) = k" by blast
  moreover have "k \<noteq> []" using upsert_keys[of "[(c', ())]" "iw_points (ls_world s1)"] calculation by auto
  ultimately show ?thesis
    by (simp add: ingest_one_def Let_def act_bind_def emit_def s1[simplified] act_lift_def pages c prot upsert_chunks_def x act_return_def)
qed

lemma sample_batch:
  "\<exists>responses s'. ingest_batch sample_service None [sample_upload] sample_state = (Inr responses, s')
     \<and> iw_points (ls_world s') \<noteq> []"
proof -
  obtain receipts where admitted: "admit sample_service [sample_upload] sample_state = (Inr ([''%PDF-1''], receipts), sample_state)"
    using sample_admitted by blast
  let ?s = "\<lparr>ls_world = (ls_world sample_state)\<lparr>iw_server := True\<rparr>, ls_batch = True\<rparr>"
  obtain x s' where one: "ingest_one sample_service None 1 receipts (1, sample_upload, ''%PDF-1'') ?s = (Inr x, s')"
    "iw_points (ls_world s') \<noteq> []" using sample_one[of ?s receipts] by auto
  show ?thesis using one(2)
    by (simp add: ingest_batch_def act_bind_def admitted emit_def run_batch_def act_catch_def under_lease_def
        ingestion_batch_refines[OF world_obedient[OF sample_obedient]] batch_spec_def lease_body_def act_finally_def
        number_from_1_def one(1)[simplified] act_return_def)
qed

theorem index_vetted_witness:
  "\<exists>(s' :: (bool, unit) ingest_world lease) p. p \<in> set (iw_points (ls_world s')) \<and> vetted sample_service (sample_dlp, gp_hash sample_guard) sample_upload (fst (snd p))"
proof -
  obtain responses s' where run: "ingest_batch sample_service None [sample_upload] sample_state = (Inr responses, s')"
    "iw_points (ls_world s') \<noteq> []" using sample_batch by blast
  then obtain p where p: "p \<in> set (iw_points (ls_world s'))" by (cases "iw_points (ls_world s')") auto
  have "p \<notin> set (iw_points (ls_world sample_state))" by simp
  from index_vetted[OF _ _ _ run(1) p this, of sample_daemon "(sample_dlp, gp_hash sample_guard)"]
  have "vetted sample_service (sample_dlp, gp_hash sample_guard) sample_upload (fst (snd p))" by simp
  then show ?thesis using p by blast
qed

theorem receipts_complete_witness:
  "\<exists>x (s' :: (bool, unit) ingest_world lease). receipt_holds sample_service sample_upload x s' \<and> ir_sha256 x = iq_sha256 sample_upload"
proof -
  obtain responses s' where "ingest_batch sample_service None [sample_upload] sample_state = (Inr responses, s')"
    using sample_batch by blast
  from receipts_complete[OF this] show ?thesis by (auto simp: list_all2_Cons1)
qed

theorem server_awake_after_batch_witness:
  "\<exists>outcome s'. ingest_batch sample_service None [sample_upload] sample_state = (outcome, s') \<and> awake id s'"
proof -
  obtain responses s' where run: "ingest_batch sample_service None [sample_upload] sample_state = (Inr responses, s')"
    using sample_batch by blast
  have "awake id sample_state" by (simp add: awake_def)
  from server_awake_after_batch[OF _ _ this run, of "\<lambda>b _. b"] run show ?thesis using sample_obedient by auto
qed

theorem refused_batch_touches_nothing_witness:
  "fst (ingest_batch sample_service None [] sample_state) = Inl (rejected ''ingestion batch must contain at least one document'')"
proof -
  have "admit sample_service [] sample_state
      = (Inl (rejected ''ingestion batch must contain at least one document''), sample_state)"
    by (simp add: admit_def act_bind_def act_lift_def)
  from refused_batch_touches_nothing[OF this, of None] show ?thesis by simp
qed

end
