(* ===== verification/AssemblyProps.thy ===== *)
theory AssemblyProps
  imports Assembly IngestProps
begin

text \<open>
  From the environment of a process to the index: what a service built by \<open>build_ingestion_service\<close> with the
  production switch on lets into the collection. The instance builds the production service of \<open>IngestProps\<close>
  from an environment and files, and ingests a document with it.
\<close>

theorem started_service_vets_index:
  assumes build: "build_ingestion_service P folder ingestion index retrieval = Inr (G, encrypted)"
    and production: "production_enabled P"
    and batch: "ingest_batch G reporter requests s = (outcome, s')"
    and fresh: "p \<in> set (iw_points (ls_world s'))" "p \<notin> set (iw_points (ls_world s))"
  shows "\<exists>config pol d clam. pn_ingestion P ingestion = Inr config \<and> \<not> vc_enabled (nc_vision config) \<and> encrypted \<noteq> None
    \<and> guardrails_file P = Inr pol \<and> mk_dlp (gp_dlp pol) = Inr d \<and> production_scanner P = Inr clam
    \<and> Bex (set requests) (\<lambda>r. vetted G (d, gp_hash pol) r (fst (snd p)))
    \<and> Ball (set requests) (\<lambda>r. \<exists>content receipt. decode_and_validate G r = Inr content \<and> scanned G clam r content receipt)"
proof -
  obtain config pol d st clam where config: "pn_ingestion P ingestion = Inr config" "\<not> vc_enabled (nc_vision config)"
    and pol: "guardrails_file P = Inr pol" "ig_policy G = Some pol"
    and clam: "ig_scanner G = Some clam" "production_scanner P = Inr clam"
    and dlp: "mk_dlp (gp_dlp pol) = Inr d" "ig_dlp G = Some (d, gp_hash pol)" and st: "encrypted = Some st"
    using guarded_build [OF build production] by blast
  from pol(2) have "ig_policy G \<noteq> None" by simp
  from batch_points_vetted [OF this clam(1) dlp(2) batch fresh] show ?thesis
    using config pol clam dlp st by auto
qed

section \<open>A process that starts and ingests\<close>

definition host_config :: ingestion_config where
  "host_config = plant_config\<lparr>nc_lease := ig_lease sample_service\<rparr>"

definition host_plant :: "(bool, unit, unit) plant" where
  "host_plant =
     \<lparr>pn_env = plant_env ''true'', pn_read = (\<lambda>p. Inr (replicate 43 (CHR ''A'') @ ''='')), pn_path = (\<lambda>s. [s]),
      pn_api = Inl (OSError ''''), pn_ingestion = (\<lambda>p. Inr host_config), pn_hash = (\<lambda>c. Inr ''c''),
      pn_guardrails = (\<lambda>p. Inr sample_guard), pn_observability = (\<lambda>p. Inr ()), pn_runtime = (\<lambda>i r. Inr sample_runtime),
      pn_generation = (\<lambda>p. Inl (OSError '''')), pn_reasoning = (\<lambda>p. Inl (OSError '''')), pn_evidence = (\<lambda>p. Inl (OSError '''')),
      pn_parser = (\<lambda>c. ig_parse sample_service), pn_embedder = (\<lambda>c. ig_embed sample_service),
      pn_backend = (\<lambda>r. \<lparr>bk_search = (\<lambda>q a d. Inr []), bk_reranker = None\<rparr>), pn_scanner = (\<lambda>h n. sample_daemon),
      pn_objects = [], pn_libraries = sample_libs, pn_requester = sample_server, pn_scroll = (\<lambda>f p n c. ([], None)),
      pn_tools = \<lparr>tl_loads = (\<lambda>_. None), tl_dumps = (\<lambda>_. []), tl_prompt = (\<lambda>n. n), tl_citation = (\<lambda>_. None),
        tl_extraction = (\<lambda>_. None), tl_answer = (\<lambda>_. None), tl_selection = (\<lambda>_. None), tl_dump_citation = (\<lambda>_. JNull),
        tl_dump_provenance = (\<lambda>_. JNull)\<rparr>\<rparr>"

lemma host_fields:
  "pn_env host_plant = plant_env ''true''" "pn_objects host_plant = []"
  "pn_read host_plant = (\<lambda>p. Inr (replicate 43 (CHR ''A'') @ ''=''))" "pn_scanner host_plant = (\<lambda>h n. sample_daemon)"
  "pn_guardrails host_plant = (\<lambda>p. Inr sample_guard)"
  by (simp_all add: host_plant_def)

lemma host_key:
  "from_secret_file (\<lambda>p. Inr (replicate 43 (CHR ''A'') @ ''='')) [''srv''] [] ''/run/key'' ''v1''
     = Inr \<lparr>st_root = [''srv''], st_master = replicate 32 (CHR 0x00), st_version = ''v1'', st_files = []\<rparr>"
  "py_int ''3310'' = Inr 3310" "casefold ''true'' = ''true''" "path_resolve [''srv''] = [''srv'']"
  by code_simp+

lemma host_env:
  "getenv host_plant ''FINDOCIQ_PRODUCTION_GUARDRAILS_ENABLED'' ''false'' = ''true''"
  "getenv host_plant ''FINDOCIQ_DOCUMENT_MASTER_KEY_FILE'' [] = ''/run/key''"
  "getenv host_plant ''FINDOCIQ_DOCUMENT_KEY_VERSION'' ''v1'' = ''v1''"
  "getenv host_plant ''FINDOCIQ_CLAMAV_PORT'' ''3310'' = ''3310''"
  by (simp_all add: getenv_def host_fields plant_env_def)

lemma host_production: "production_enabled host_plant"
  by (simp add: production_enabled_def host_env host_key)

lemma host_builds:
  "\<exists>encrypted. build_ingestion_service host_plant [''srv''] i x r = Inr (sample_service, encrypted)"
proof -
  have guard: "guardrails_file host_plant = Inr sample_guard" by (simp add: guardrails_file_def host_fields)
  have store: "\<exists>st. production_store host_plant [''srv''] = Inr st"
    by (simp add: production_store_def host_env host_fields host_key)
  have clam: "production_scanner host_plant = Inr sample_daemon"
    by (simp add: production_scanner_def host_env host_fields host_key)
  have dlp: "dlp_provider_of sample_guard = Inr (sample_dlp, gp_hash sample_guard)"
    by (simp add: dlp_provider_of_def mk_dlp_def sample_guard_def sample_dlp_def)
  obtain st where st: "production_store host_plant [''srv''] = Inr st" using store by blast
  show ?thesis
    by (simp add: build_ingestion_service_def host_production optional_def guard st clam dlp host_key)
      (simp add: host_plant_def host_config_def plant_config_def validate_parser_security_def raise_if_def sample_service_def)
qed

theorem started_service_vets_index_witness:
  "\<exists>G encrypted (s' :: (bool, unit) ingest_world lease) p outcome.
     build_ingestion_service host_plant [''srv''] ''i'' ''x'' ''r'' = Inr (G, encrypted)
     \<and> ingest_batch G None [sample_upload] sample_state = (outcome, s') \<and> p \<in> set (iw_points (ls_world s'))
     \<and> encrypted \<noteq> None \<and> vetted G (sample_dlp, gp_hash sample_guard) sample_upload (fst (snd p))"
proof -
  obtain encrypted where build: "build_ingestion_service host_plant [''srv''] ''i'' ''x'' ''r'' = Inr (sample_service, encrypted)"
    using host_builds by blast
  obtain responses s' where run: "ingest_batch sample_service None [sample_upload] sample_state = (Inr responses, s')"
    "iw_points (ls_world s') \<noteq> []" using sample_batch by blast
  then obtain p where p: "p \<in> set (iw_points (ls_world s'))" by (cases "iw_points (ls_world s')") auto
  have "p \<notin> set (iw_points (ls_world sample_state))" by simp
  from started_service_vets_index [OF build host_production run(1) p this]
  obtain pol d where parts: "guardrails_file host_plant = Inr pol" "mk_dlp (gp_dlp pol) = Inr d" and enc: "encrypted \<noteq> None"
    and vet: "vetted sample_service (d, gp_hash pol) sample_upload (fst (snd p))" by auto
  have "pol = sample_guard" using parts(1) by (simp add: guardrails_file_def host_fields)
  moreover have "d = sample_dlp" using parts(2) calculation by (simp add: mk_dlp_def sample_guard_def sample_dlp_def)
  ultimately have vet': "vetted sample_service (sample_dlp, gp_hash sample_guard) sample_upload (fst (snd p))" using vet by simp
  show ?thesis by (intro exI conjI, rule build, rule run(1), rule p, rule enc, rule vet')
qed

end
