(* ===== verification/Histories.thy ===== *)
theory Histories
  imports Retrieval Activity Security
begin

text \<open>
  What a client sees of shared state when other operations come in between: answers from the result cache
  while the index changes, polls of the activity feed while other batches run, and the objects of the
  encrypted store across a change of the master key.
\<close>

section \<open>The result cache while the index changes\<close>

text \<open>
  A question with its scope, a change of what the backend answers (documents indexed or deleted, a model
  replaced), and the invalidation that a registration sends.
\<close>

datatype cache_event =
    Ask string "string option" "string list"
  | Reindex backend
  | Invalidate string

fun cache_step :: "strategy \<Rightarrow> cache_event \<Rightarrow> backend \<times> result_cache \<Rightarrow> backend \<times> result_cache" where
  "cache_step cfg (Ask q a ds) (b, c) = (b, snd (retrieve cfg b q a ds c))"
| "cache_step cfg (Reindex b') (b, c) = (b', c)"
| "cache_step cfg (Invalidate app) (b, c) = (b, invalidate_application app c)"

text \<open>
  The backends in force since the last invalidation of an application, the present one last; a question
  without an application is never invalidated by name.
\<close>

fun backends_since :: "string option \<Rightarrow> cache_event list \<Rightarrow> backend list \<Rightarrow> backend list" where
  "backends_since a [] bs = bs"
| "backends_since a (Ask q a' ds # es) bs = backends_since a es bs"
| "backends_since a (Reindex b # es) bs = backends_since a es (bs @ [b])"
| "backends_since a (Invalidate app # es) bs = backends_since a es (if a = Some app then [last bs] else bs)"

fun readable_event :: "cache_event \<Rightarrow> bool" where
  "readable_event (Ask q a ds) = readable q a ds"
| "readable_event (Reindex b) = True"
| "readable_event (Invalidate app) = True"

text \<open>Every entry is what one of the backends in force since the invalidation of its application answered.\<close>

definition dated_cache :: "strategy \<Rightarrow> (string option \<Rightarrow> backend list) \<Rightarrow> result_cache \<Rightarrow> bool" where
  "dated_cache cfg B c =
     (\<forall>q a ds hits. readable q a ds \<longrightarrow> map_of c (cache_key q a ds) = Some hits \<longrightarrow>
        (\<exists>b \<in> set (B a). fresh_results cfg b q a ds = Inr hits))"

lemma dated_mono: "dated_cache cfg B c \<Longrightarrow> (\<And>a. set (B a) \<subseteq> set (B' a)) \<Longrightarrow> dated_cache cfg B' c"
  unfolding dated_cache_def by blast

lemma dated_sub:
  assumes "dated_cache cfg B c" "\<And>k v. map_of c' k = Some v \<Longrightarrow> map_of c k = Some v"
  shows "dated_cache cfg B c'"
  using assms unfolding dated_cache_def by blast

lemma dated_update:
  assumes "dated_cache cfg B c" "readable q a ds" "b \<in> set (B a)" "fresh_results cfg b q a ds = Inr hits"
  shows "dated_cache cfg B (move_to_end (cache_key q a ds) hits c)"
  unfolding dated_cache_def map_of_move_to_end
proof (intro allI impI)
  fix q' a' ds' hs
  assume r: "readable q' a' ds'" and m: "((map_of c)(cache_key q a ds \<mapsto> hits)) (cache_key q' a' ds') = Some hs"
  show "\<exists>b \<in> set (B a'). fresh_results cfg b q' a' ds' = Inr hs"
  proof (cases "cache_key q' a' ds' = cache_key q a ds")
    case True
    with cache_key_inj[OF r assms(2)] m assms(3,4) show ?thesis by auto
  next
    case False
    with m r assms(1) show ?thesis unfolding dated_cache_def by simp
  qed
qed

lemma retrieve_dated:
  assumes d: "dated_cache cfg B c" and inv: "cache_inv cfg c" and r: "readable q a ds" and b: "b \<in> set (B a)"
  shows "dated_cache cfg B (snd (retrieve cfg b q a ds c))"
    and "strip q \<noteq> [] \<Longrightarrow> \<exists>b' \<in> set (B a). fst (retrieve cfg b q a ds c) = fresh_results cfg b' q a ds"
proof -
  let ?k = "cache_key q a ds"
  have "dated_cache cfg B (snd (retrieve cfg b q a ds c))
      \<and> (strip q \<noteq> [] \<longrightarrow> (\<exists>b' \<in> set (B a). fst (retrieve cfg b q a ds c) = fresh_results cfg b' q a ds))"
  proof (cases "strip q = [] \<or> map_of c ?k \<noteq> None")
    case True
    show ?thesis
    proof (cases "strip q = []")
      case False
      with True obtain hits where h: "map_of c ?k = Some hits" by auto
      with d r obtain b' where b': "b' \<in> set (B a)" "fresh_results cfg b' q a ds = Inr hits"
        unfolding dated_cache_def by blast
      have "retrieve cfg b q a ds c = (Inr hits, move_to_end ?k hits c)" using h False by (simp add: retrieve_def Let_def)
      with dated_update[OF d r b'] b' show ?thesis by (intro conjI impI bexI[of _ b']) simp_all
    qed (simp add: retrieve_def d)
  next
    case False
    then have q: "strip q \<noteq> []" "map_of c ?k = None" by auto
    show ?thesis
    proof (cases "fresh_results cfg b q a ds")
      case (Inl e)
      have "retrieve cfg b q a ds c = (Inl e, c)" using q Inl by (simp add: retrieve_def Let_def)
      with d b Inl show ?thesis by (intro conjI impI bexI[of _ b]) simp_all
    next
      case (Inr hits)
      have "distinct (map fst (move_to_end ?k hits c))" using inv by (simp add: cache_inv_def distinct_move_to_end)
      then have "dated_cache cfg B (drop n (move_to_end ?k hits c))" for n
        by (intro dated_sub[OF dated_update[OF d r b Inr]]) (rule map_of_drop)
      moreover have "retrieve cfg b q a ds c
          = (Inr hits, drop (length (move_to_end ?k hits c) - nat (st_cache cfg)) (move_to_end ?k hits c))"
        using q Inr by (simp add: retrieve_def Let_def)
      ultimately show ?thesis using b Inr by (intro conjI impI bexI[of _ b]) simp_all
    qed
  qed
  then show "dated_cache cfg B (snd (retrieve cfg b q a ds c))"
    "strip q \<noteq> [] \<Longrightarrow> \<exists>b' \<in> set (B a). fst (retrieve cfg b q a ds c) = fresh_results cfg b' q a ds" by auto
qed

lemma map_of_filter_key: "map_of (filter (\<lambda>(k, v). P k) c) k = (if P k then map_of c k else None)"
  by (induction c) auto

lemma invalidate_dated:
  assumes d: "dated_cache cfg B c"
  shows "dated_cache cfg (\<lambda>a. if a = Some app then [last (B a)] else B a) (invalidate_application app c)"
  unfolding dated_cache_def
proof (intro allI impI)
  fix q a ds hits
  assume r: "readable q a ds" and m: "map_of (invalidate_application app c) (cache_key q a ds) = Some hits"
  from m invalidate_application_misses[of app c q ds] have "a \<noteq> Some app" by auto
  moreover have "map_of c (cache_key q a ds) = Some hits"
    using m by (simp add: invalidate_application_def map_of_filter_key[of "\<lambda>k. \<not> contains (nul @ app @ nul) k"] split: if_splits)
  ultimately show "\<exists>b \<in> set (if a = Some app then [last (B a)] else B a). fresh_results cfg b q a ds = Inr hits"
    using d r unfolding dated_cache_def by auto
qed

lemma invalidate_cache_inv: "cache_inv cfg c \<Longrightarrow> cache_inv cfg (invalidate_application app c)"
proof -
  have "distinct (map fst c) \<Longrightarrow> distinct (map fst (filter P c))" for P :: "string \<times> hit list \<Rightarrow> bool"
    by (induction c) auto
  then show "cache_inv cfg c \<Longrightarrow> cache_inv cfg (invalidate_application app c)"
    unfolding cache_inv_def invalidate_application_def by (meson length_filter_le of_nat_mono order_trans)
qed

lemma history_dated:
  assumes "0 < st_cache cfg" "list_all readable_event es" "dated_cache cfg B c" "cache_inv cfg c"
    and "\<And>a. B a \<noteq> [] \<and> last (B a) = b" and "fold (cache_step cfg) es (b, c) = (b', c')"
  shows "dated_cache cfg (\<lambda>a. backends_since a es (B a)) c' \<and> cache_inv cfg c'
    \<and> (\<forall>a. backends_since a es (B a) \<noteq> [] \<and> last (backends_since a es (B a)) = b')"
  using assms(2-6)
proof (induction es arbitrary: B b c)
  case (Cons e es)
  then have b: "b \<in> set (B a)" for a by (metis last_in_set)
  show ?case
  proof (cases e)
    case (Ask q a ds)
    with Cons.prems have "dated_cache cfg B (snd (retrieve cfg b q a ds c))"
      by (intro retrieve_dated(1)) (auto intro: b)
    moreover have "cache_inv cfg (snd (retrieve cfg b q a ds c))"
      by (rule retrieve_cache_inv[OF Cons.prems(3) assms(1)])
    ultimately show ?thesis using Cons.IH[of B _ b] Cons.prems Ask by simp
  next
    case (Reindex b1)
    have "dated_cache cfg (\<lambda>a. B a @ [b1]) c" by (rule dated_mono[OF Cons.prems(2)]) auto
    then show ?thesis using Cons.IH[of "\<lambda>a. B a @ [b1]" c b1] Cons.prems Reindex by simp
  next
    case (Invalidate app)
    note d = invalidate_dated[OF Cons.prems(2), of app]
    show ?thesis
      using Cons.IH[OF _ d invalidate_cache_inv[OF Cons.prems(3)], of b] Cons.prems Invalidate
      by (simp add: if_distrib[of "backends_since _ es"] cong: if_cong)
  qed
qed simp

section \<open>The activity feed while other batches run\<close>

text \<open>The events of a batch among any operations: numbers go on also over a report that is refused.\<close>

fun feed :: "string \<Rightarrow> nat \<Rightarrow> activity_op list \<Rightarrow> activity_event list" where
  "feed b n [] = []"
| "feed b n (Report now b' stage message d # ops) =
     (if b' \<noteq> b then feed b n ops
      else if details_ok d then event_of b (Suc n) (now, stage, message, d) # feed b (Suc n) ops
      else feed b (Suc n) ops)"
| "feed b n (Start b' a # ops) = feed b n ops"
| "feed b n (Finish b' st # ops) = feed b n ops"

fun starts :: "string \<Rightarrow> activity_op \<Rightarrow> bool" where
  "starts b (Start b' a) = (b' = b)"
| "starts b op = False"

fun starts_other :: "string \<Rightarrow> activity_op \<Rightarrow> bool" where
  "starts_other b (Start b' a) = (b' \<noteq> b)"
| "starts_other b op = False"

text \<open>The batch is in the registry at every moment and is not started again.\<close>

fun stays :: "string \<Rightarrow> activity_op list \<Rightarrow> activity \<Rightarrow> bool" where
  "stays b [] s = dict_has (ac_events s) b"
| "stays b (op # ops) s = (dict_has (ac_events s) b \<and> \<not> starts b op \<and> stays b ops (apply_op op s))"

text \<open>The batches that would be evicted before it.\<close>

definition older :: "string \<Rightarrow> activity \<Rightarrow> nat" where
  "older b s = length (takeWhile (\<lambda>x. fst x \<noteq> b) (ac_events s))"

lemma dict_has_keys: "dict_has d k \<longleftrightarrow> k \<in> fst ` set d"
  unfolding dict_has_def by (simp add: map_of_eq_None_iff del: not_None_eq)

lemma takeWhile_update:
  "length (takeWhile (\<lambda>x. fst x \<noteq> b) (AList.update k v d)) =
     length (takeWhile (\<lambda>x. fst x \<noteq> b) d) + (if b \<in> fst ` set d \<or> k \<in> fst ` set d \<or> k = b then 0 else 1)"
  by (induction d) auto

lemma takeWhile_append_other:
  "b \<in> fst ` set d \<Longrightarrow> takeWhile (\<lambda>x. fst x \<noteq> b) (d @ d') = takeWhile (\<lambda>x. fst x \<noteq> b) d"
  by (induction d) auto

lemma keys_update: "fst ` set (AList.update k v d) = insert k (fst ` set d)"
  by (simp add: dom_update)

lemma older_report:
  assumes "dict_has (ac_events s) b"
  shows "dict_has (ac_events (snd (report s now b' stage message d))) b
    \<and> older b (snd (report s now b' stage message d)) = older b s"
proof -
  have b: "b \<in> fst ` set (ac_events s)" using assms by (simp add: dict_has_keys)
  then have sd: "takeWhile (\<lambda>x. fst x \<noteq> b) (setdefault b' [] (ac_events s)) = takeWhile (\<lambda>x. fst x \<noteq> b) (ac_events s)"
    "b \<in> fst ` set (setdefault b' [] (ac_events s))"
    by (simp_all add: setdefault_def takeWhile_append_other image_Un)
  then show ?thesis
    by (simp add: report_def Let_def older_def dict_has_keys takeWhile_update keys_update)
qed

lemma older_start:
  assumes inv: "activity_inv s" and b: "dict_has (ac_events s) b" and ne: "b' \<noteq> b" and room: "0 < older b s"
  shows "dict_has (ac_events (apply_op (Start b' a) s)) b \<and> older b s \<le> Suc (older b (apply_op (Start b' a) s))"
proof -
  from b have k: "b \<in> fst ` set (ac_events s)" by (simp add: dict_has_keys)
  from room obtain x xs where ev: "ac_events s = x # xs" "fst x \<noteq> b"
    by (cases "ac_events s") (auto simp: older_def split: if_splits)
  from inv ev have nx: "fst x \<notin> fst ` set xs" by (auto simp: activity_inv_def)
  have del: "AList.delete (fst x) (x # xs) = xs"
    using nx by (cases x) (auto simp: delete_notin_dom)
  obtain s' where s': "start_batch s b' a = Inr s'"
    by (auto simp: start_batch_def Let_def raise_if_def ev)
  then have "ac_events s' = AList.update b' [] (ac_events s) \<or> ac_events s' = AList.update b' [] xs"
    using del by (cases x) (auto simp: start_batch_def Let_def raise_if_Inr_iff evict_oldest_def ev del)
  moreover have "b \<in> fst ` set xs" using k ev by auto
  ultimately show ?thesis
    using k ev by (elim disjE) (simp_all add: s' older_def dict_has_keys takeWhile_update keys_update del: update.simps)
qed

lemma enough_room_stays:
  assumes "activity_inv s" "dict_has (ac_events s) b" "\<not> list_ex (starts b) ops"
    and "length (filter (starts_other b) ops) \<le> older b s"
  shows "stays b ops s"
  using assms
proof (induction ops arbitrary: s)
  case (Cons op ops)
  note inv = apply_op_inv[OF Cons.prems(1), of op]
  have "dict_has (ac_events (apply_op op s)) b \<and> older b s \<le> older b (apply_op op s) + (if starts_other b op then 1 else 0)"
  proof (cases op)
    case (Start b' a)
    with Cons.prems older_start[OF Cons.prems(1,2), of b' a] show ?thesis by simp
  next
    case (Report now b' stage message d)
    with older_report[OF Cons.prems(2)] show ?thesis by simp
  next
    case (Finish b' st)
    with Cons.prems(2) show ?thesis by (simp add: finish_batch_def older_def)
  qed
  with Cons.IH[OF inv] Cons.prems show ?case by (auto split: if_splits)
qed simp

lemma start_other_state:
  assumes "start_batch s b' a = Inr s'" "b' \<noteq> b" "dict_has (ac_events s') b"
  shows "map_of (ac_events s') b = map_of (ac_events s) b" "ac_max_events s' = ac_max_events s"
    and "map_of (ac_events s) b \<noteq> None \<Longrightarrow> dict_get_default (ac_sequences s') b 0 = dict_get_default (ac_sequences s) b 0"
proof -
  define s0 where "s0 = (if \<not> dict_has (ac_events s) b' \<and> ac_max_batches s \<le> length (ac_events s)
    then evict_oldest s else s)"
  have ev: "ac_events s' = AList.update b' [] (ac_events s0)"
    "ac_sequences s' = AList.update b' 0 (ac_sequences s0)" "ac_max_events s' = ac_max_events s0"
    using assms(1) by (simp_all add: start_batch_def Let_def raise_if_Inr_iff s0_def del: if_image_distrib) auto
  have "map_of (ac_events s0) b \<noteq> None" using assms(2,3) by (simp add: ev dict_has_def map_of_update)
  then have "map_of (ac_events s0) b = map_of (ac_events s) b \<and> map_of (ac_sequences s0) b = map_of (ac_sequences s) b"
    by (auto simp: s0_def evict_oldest_def map_of_delete split: list.splits prod.splits if_splits)
  then show "map_of (ac_events s') b = map_of (ac_events s) b" "ac_max_events s' = ac_max_events s"
    "map_of (ac_events s) b \<noteq> None \<Longrightarrow> dict_get_default (ac_sequences s') b 0 = dict_get_default (ac_sequences s) b 0"
    using assms(2) by (auto simp: ev map_of_update dict_get_default_def s0_def evict_oldest_def split: list.splits prod.splits)
qed

text \<open>The kept events of a batch that stays are the last of what it had and what was reported since.\<close>

lemma feed_kept:
  assumes "stays b ops s" "map_of (ac_events s) b = Some es" "length es \<le> ac_max_events s"
  shows "map_of (ac_events (fold apply_op ops s)) b =
    Some (let g = es @ feed b (dict_get_default (ac_sequences s) b 0) ops in drop (length g - ac_max_events s) g)"
  using assms
proof (induction ops arbitrary: s es)
  case (Cons op ops)
  let ?s = "apply_op op s" and ?n = "dict_get_default (ac_sequences s) b 0"
  from Cons.prems(1) have st: "stays b ops ?s" "\<not> starts b op" by auto
  then have here: "dict_has (ac_events ?s) b" by (cases ops) auto
  show ?case
  proof (cases op)
    case (Start b' a)
    with st have ne: "b' \<noteq> b" by auto
    show ?thesis
    proof (cases "start_batch s b' a")
      case (Inl e)
      with Cons Start st show ?thesis by simp
    next
      case (Inr s')
      have "?s = s'" by (simp add: Start Inr)
      with start_other_state[OF Inr ne] here Cons.prems(2,3) Cons.IH[OF st(1), of es] show ?thesis
        by (simp add: Start Inr)
    qed
  next
    case (Report now b' stage message d)
    show ?thesis
    proof (cases "b' = b \<and> details_ok d")
      case True
      let ?g = "es @ [event_of b (Suc ?n) (now, stage, message, d)]"
      note r = report_ok_state[of d s b es now stage message]
      have m: "map_of (ac_events ?s) b = Some (drop (length ?g - ac_max_events s) ?g)"
        "dict_get_default (ac_sequences ?s) b 0 = Suc ?n" "ac_max_events ?s = ac_max_events s"
        using r True Cons.prems(2) Report by (simp_all add: Let_def)
      have "length (drop (length ?g - ac_max_events s) ?g) \<le> ac_max_events ?s" by (simp add: m(3))
      from Cons.IH[OF st(1) m(1) this] m(2,3) True Report drop_excess[of ?g "ac_max_events s" "feed b (Suc ?n) ops"]
      show ?thesis by (simp add: Let_def del: drop_append)
    next
      case False
      have m: "map_of (ac_events ?s) b = Some es" "ac_max_events ?s = ac_max_events s"
        "dict_get_default (ac_sequences ?s) b 0 = (if b' = b then Suc ?n else ?n)"
        using False Cons.prems(2) by (auto simp: Report report_def Let_def dict_simps dict_get_default_def)
      from Cons.IH[OF st(1) m(1)] m(2,3) Cons.prems(3) False Report show ?thesis by auto
    qed
  next
    case (Finish b' x)
    then have m: "map_of (ac_events ?s) b = Some es" "ac_max_events ?s = ac_max_events s"
      "ac_sequences ?s = ac_sequences s" using Cons.prems(2) by (simp_all add: finish_batch_def)
    from Cons.IH[OF st(1) m(1)] m(2,3) Cons.prems(3) Finish show ?thesis by simp
  qed
qed simp

lemma feed_numbers: "e \<in> set (feed b n ops) \<Longrightarrow> n < ae_sequence e"
  by (induction b n ops rule: feed.induct) (auto simp: event_of_def split: if_splits)

text \<open>A poll from the last number of an earlier poll.\<close>

lemma poll_between:
  assumes inv: "activity_inv s" and earlier: "snapshot s b k = Some r" and st: "stays b ops s"
    and n: "length (feed b (dict_get_default (ac_sequences s) b 0) ops) \<le> ac_max_events s"
  shows "\<exists>r'. snapshot (fold apply_op ops s) b (ar_last r) = Some r'
    \<and> ar_events r' = feed b (dict_get_default (ac_sequences s) b 0) ops"
proof -
  let ?c = "dict_get_default (ac_sequences s) b 0"
  let ?new = "feed b ?c ops"
  from earlier obtain es where b: "map_of (ac_events s) b = Some es"
    and ar: "ar_last r = (if es = [] then 0 else ae_sequence (last es))"
    by (auto simp: snapshot_def split: option.splits)
  have bo: "batch_ok (ac_max_events s) b ?c es"
    using inv b by (auto simp: activity_inv_def simp del: map_of_eq_Some_iff)
  have last: "ae_sequence e \<le> ar_last r" if "e \<in> set es" for e
    using bo that by (cases es rule: rev_cases) (auto simp: ar batch_ok_def sorted_wrt_append)
  let ?k = "length (es @ ?new) - ac_max_events s"
  have "?k \<le> length es" using n by simp
  moreover have "map_of (ac_events (fold apply_op ops s)) b = Some (drop ?k (es @ ?new))"
    using feed_kept[OF st b] bo by (simp add: batch_ok_def Let_def)
  ultimately have ev: "map_of (ac_events (fold apply_op ops s)) b = Some (drop ?k es @ ?new)" by simp
  have old: "filter (\<lambda>e. ar_last r < ae_sequence e) (drop ?k es) = []"
    using last by (fastforce simp: filter_empty_conv dest: in_set_dropD)
  have "ar_last r \<le> ?c" using bo by (cases es rule: rev_cases) (auto simp: ar batch_ok_def)
  then have "filter (\<lambda>e. ar_last r < ae_sequence e) ?new = ?new"
    by (auto simp: filter_id_conv dest!: feed_numbers)
  with ev old show ?thesis by (simp add: snapshot_def)
qed

text \<open>
  Without that condition the feed loses events: in a full registry the start of another batch removes the
  oldest one with its counter, and a later report of the removed batch is numbered from one again, so that a
  client that polls with the last number it has seen gets nothing.
\<close>

lemma evicted_feed_restarts:
  assumes "ac_events s = (b, es) # rest" "b \<notin> fst ` set rest" "ac_max_batches s \<le> length (ac_events s)"
    "\<not> dict_has (ac_events s) b'" "start_batch s b' a = Inr s1" "report s1 now b stage message d = (Inr (), s2)" "0 < n"
  shows "snapshot s1 b n = None \<and> (\<exists>r. snapshot s2 b n = Some r \<and> ar_events r = [])"
proof -
  have ne: "b' \<noteq> b" using assms(1,4) by (auto simp: dict_has_def)
  have del: "AList.delete b ((b, es) # rest) = rest" using assms(2) by (simp add: delete_notin_dom)
  have e: "ac_events s1 = AList.update b' [] rest" "ac_sequences s1 = AList.update b' 0 (AList.delete b (ac_sequences s))"
    using assms(1,3-5) del by (auto simp: start_batch_def Let_def raise_if_Inr_iff evict_oldest_def)
  have m: "map_of (ac_events s1) b = None" "map_of (ac_sequences s1) b = None"
    using assms(2) ne by (simp_all add: e map_of_update map_of_delete map_of_eq_None_iff)
  have "map_of (ac_events s2) b = Some (let g = [event_of b 1 (now, stage, message, d)]
      in drop (length g - ac_max_events s1) g)"
    using assms(6) m by (auto simp: report_def Let_def dict_simps event_of_def dict_get_default_def split: if_splits)
  then show ?thesis using m assms(7)
    by (cases "ac_max_events s1") (simp_all add: snapshot_def event_of_def)
qed

section \<open>A change of the master key\<close>

text \<open>An envelope before and after: the data key is wrapped anew, everything else is what it was.\<close>

definition rewrapped :: "string \<Rightarrow> envelope \<Rightarrow> envelope \<Rightarrow> bool" where
  "rewrapped version e e' =
     (e' = e\<lparr>ev_key_version := version, ev_key_nonce := ev_key_nonce e', ev_wrapped_key := ev_wrapped_key e'\<rparr>)"

lemma rewrapped_keeps:
  "rewrapped version e e' \<Longrightarrow> ev_ciphertext e' = ev_ciphertext e \<and> ev_data_nonce e' = ev_data_nonce e
     \<and> ev_application e' = ev_application e \<and> ev_document e' = ev_document e \<and> ev_sha256 e' = ev_sha256 e
     \<and> ev_state e' = ev_state e \<and> ev_key_version e' = version"
  by (cases e; cases e') (auto simp: rewrapped_def)

lemma rewrap_rewrapped: "rewrap A old new version nonce e = Inr e' \<Longrightarrow> rewrapped version e e'"
  by (auto simp: rewrap_def rewrapped_def split: option.splits)

lemma rewrap_files_each:
  assumes "aead_ok A"
  shows "rewrap_files A old new version nonce ps files n = (Inr m, files') \<Longrightarrow> distinct ps \<Longrightarrow>
    m = n + length ps \<and> (\<forall>p \<in> set ps. \<exists>e e'. map_of files p = Some e \<and> map_of files' p = Some e'
      \<and> open_envelope A new e' = open_envelope A old e \<and> rewrapped version e e')"
proof (induction ps arbitrary: files n)
  case (Cons p ps)
  then obtain e e' where e: "map_of files p = Some e" "rewrap A old new version (nonce p) e = Inr e'"
    and rest: "rewrap_files A old new version nonce ps (AList.update p e' files) (Suc n) = (Inr m, files')"
    by (auto split: option.splits sum.splits)
  have p: "p \<notin> set ps" "distinct ps" using Cons.prems(2) by auto
  from Cons.IH[OF rest p(2)] have IH: "m = Suc n + length ps"
    "\<forall>q \<in> set ps. \<exists>e e''. map_of (AList.update p e' files) q = Some e \<and> map_of files' q = Some e''
      \<and> open_envelope A new e'' = open_envelope A old e \<and> rewrapped version e e''" by auto
  have "map_of files' p = Some e'" using rewrap_files_other[OF rest p(1)] by (simp add: dict_simps)
  moreover have "map_of (AList.update p e' files) q = map_of files q" if "q \<in> set ps" for q
    using that p(1) by (auto simp: dict_simps)
  ultimately show ?case using e rewrap_opens[OF assms e(2)] rewrap_rewrapped[OF e(2)] IH by simp
qed simp

lemma rewrap_all_each:
  assumes A: "aead_ok A" and d: "distinct (map fst (st_files s))" and r: "rewrap_all A s new version nonce = (Inr n, s')"
  shows "st_master s' = new \<and> st_version s' = version \<and> n = length (filter (rewrap_target s) (map fst (st_files s)))
    \<and> (\<forall>q e. map_of (st_files s) q = Some e \<longrightarrow>
        (if rewrap_target s q
         then \<exists>e'. map_of (st_files s') q = Some e' \<and> open_envelope A new e' = open_envelope A (st_master s) e \<and> rewrapped version e e'
         else map_of (st_files s') q = Some e))"
proof -
  let ?ps = "filter (rewrap_target s) (map fst (st_files s))"
  from r obtain files' where f: "rewrap_files A (st_master s) new version nonce ?ps (st_files s) 0 = (Inr n, files')"
    and s': "s' = s\<lparr>st_files := files', st_master := new, st_version := version\<rparr>"
    by (auto simp: rewrap_all_def split: if_splits prod.splits sum.splits)
  have "distinct ?ps" using d by simp
  from rewrap_files_each[OF A f this] have "n = length ?ps" and all: "\<forall>p \<in> set ?ps. \<exists>e e'. map_of (st_files s) p = Some e
      \<and> map_of files' p = Some e' \<and> open_envelope A new e' = open_envelope A (st_master s) e \<and> rewrapped version e e'" by auto
  moreover have "if rewrap_target s q
         then \<exists>e'. map_of files' q = Some e' \<and> open_envelope A new e' = open_envelope A (st_master s) e \<and> rewrapped version e e'
         else map_of files' q = Some e" if e: "map_of (st_files s) q = Some e" for q e
  proof (cases "rewrap_target s q")
    case True
    from e have "q \<in> fst ` set (st_files s)" by (metis domI dom_map_of_conv_image_fst)
    with True have "q \<in> set ?ps" by auto
    from bspec[OF all this] e True show ?thesis by auto
  next
    case False
    then show ?thesis using rewrap_files_other[OF f, of q] e by simp
  qed
  ultimately show ?thesis by (simp add: s')
qed

lemma store_object_distinct:
  assumes "store_object A s rnd application document digest content state = (s', p)" "distinct (map fst (st_files s))"
  shows "distinct (map fst (st_files s'))"
  using assms by (auto simp: store_object_def Let_def distinct_update)

end
