(* ===== verification/SystemProps.thy ===== *)
theory SystemProps
  imports Chunker Store Auth Registry GpuLease Intake Layout Histories
begin

text \<open>
  The properties of the services around the evidence gate: chunking, retrieval, the vector
  store's inventory, the registries and their document sets, the activity feed, the GPU
  lease, the encrypted store, the scanner's stream and the restored OCR lines. Each property
  rests on its component's lemmas and is followed by a concrete instance.
\<close>

section \<open>Chunking\<close>

text \<open>C19: Chunking a document loses no table: the whole text and the provenance of every table
  block stand in one table chunk, no table chunk exceeds the configured size, and every table
  citation is one of the chunk's own sources.\<close>

theorem tables_kept_whole:
  assumes "chunk_document cfg d = Inr chunks"
  shows "list_all (\<lambda>c. is_table c \<longrightarrow> int (py_len (table_text c)) \<le> ck_max_table cfg
      \<and> table_prov c \<noteq> [] \<and> set (table_prov c) \<subseteq> set (chunk_prov c)) chunks
    \<and> list_all (\<lambda>b. list_ex (\<lambda>c. is_table c \<and> contains (blk_text b) (table_text c)
        \<and> blk_prov b \<in> set (table_prov c)) chunks) (filter (\<lambda>b. blk_type b = Table) (doc_blocks d))"
  using chunk_document_tables[OF assms]
  by (auto simp: table_ok_def holds_table_def list_all_iff list_ex_iff)

definition ex_prov :: "nat \<Rightarrow> provenance" where
  "ex_prov n = \<lparr>pv_document = ''d'', pv_source = ''s'', pv_page = 1,
     pv_bbox = \<lparr>bx0 = 0, by0 = of_nat n, bx1 = 1, by1 = of_nat n + 1\<rparr>, pv_width = 10, pv_height = 10\<rparr>"

definition ex_doc :: parsed_document where
  "ex_doc = \<lparr>pd_document = ''d'', pd_source = ''s'', pd_pages =
     [\<lparr>pg_number = 1, pg_route = Digital, pg_blocks =
        [\<lparr>blk_type = Caption, blk_text = ''T'', blk_prov = ex_prov 0, blk_order = 0, blk_table_id = None, blk_meta = []\<rparr>,
         \<lparr>blk_type = Table, blk_text = ''a 1'', blk_prov = ex_prov 1, blk_order = 1, blk_table_id = None, blk_meta = []\<rparr>]\<rparr>], pd_parser = ''p''\<rparr>"

lemma ex_doc_chunks: "\<exists>c chunks. chunk_document default_config ex_doc = Inr (chunks @ [c]) \<and> table_text c = ''a 1''"
  by (simp add: chunk_document_def doc_blocks_def ex_doc_def chunk_step_def table_chunk_def Let_def default_config_def
      upt_rec raise_if_def py_len_def code_def is_continuation_def meta_truthy_def split: option.splits)

theorem tables_kept_whole_witness:
  "\<exists>c chunks. chunk_document default_config ex_doc = Inr (chunks @ [c]) \<and> py_len (table_text c) \<le> 50000"
proof -
  obtain c chunks where c: "chunk_document default_config ex_doc = Inr (chunks @ [c])" "table_text c = ''a 1''"
    using ex_doc_chunks by blast
  from tables_kept_whole[OF c(1)] c show ?thesis by (auto simp: py_len_def)
qed

text \<open>C20: Splitting a text at a positive size always ends, gives pieces of at most that many
  characters, and loses no character but white space at the edges of a piece; consecutive
  pieces overlap by at most the configured amount and leave no gap.\<close>

theorem split_covers:
  assumes "0 < maximum"
  shows "list_all (\<lambda>p. length p \<le> maximum) (split_points maximum overlap t)
    \<and> list_all (\<lambda>x. list_ex (\<lambda>p. x \<in> set p) (split_points maximum overlap t)) (filter (\<lambda>x. \<not> blank x) t)
    \<and> chained overlap (segments maximum overlap t 0)"
proof -
  have "chained overlap (segments maximum overlap t 0)"
  proof (cases "t = []")
    case False
    then show ?thesis using segments_chain[OF assms, of 0 t overlap] by simp
  qed (simp add: segments.simps)
  moreover have "list_all (\<lambda>x. list_ex (\<lambda>p. x \<in> set p) (split_points maximum overlap t)) (filter (\<lambda>x. \<not> blank x) t)"
    using split_points_keeps[OF assms] by (auto simp: list_all_iff list_ex_iff)
  ultimately show ?thesis using split_points_length by (auto simp: list_all_iff)
qed

theorem split_covers_witness:
  "list_ex (\<lambda>p. ''b'' \<in> set p) (split_points 3 1 (code_points ''a b c d'')) \<and> 0 < (3 :: nat)"
  using split_covers[of 3 1 "code_points ''a b c d''"]
  by (simp add: list_all_iff blank_def continues_def is_space_def code_def)

section \<open>Retrieval\<close>

text \<open>Reciprocal-rank fusion returns each chunk once, numbered from one in descending
  order of score, and the score of a chunk is the sum of 1 / (k + rank) over its appearances;
  without a limit no retrieved chunk is lost.\<close>

theorem fusion_ranks:
  assumes "reciprocal_rank_fusion k limit rankings = Inr hits"
  shows "map ht_rank hits = [1..<Suc (length hits)] \<and> sorted_wrt (\<ge>) (map ht_score hits)
    \<and> distinct (map (\<lambda>h. chunk_id (ht_chunk h)) hits)
    \<and> list_all (\<lambda>h. ht_score h =
         rrf_score (nat k) (concat (map number_from_1 rankings)) (chunk_id (ht_chunk h))) hits
    \<and> (case limit of
         None \<Rightarrow> set (map (\<lambda>h. chunk_id (ht_chunk h)) hits) = set (map (\<lambda>h. chunk_id (ht_chunk h)) (concat rankings))
       | Some l \<Rightarrow> int (length hits) \<le> l)"
  using rrf_Inr[OF assms] by blast

definition ex_hit :: "string \<Rightarrow> nat \<Rightarrow> hit" where
  "ex_hit i r = \<lparr>ht_chunk = TextChunk i i [ex_prov 0] [], ht_score = 1, ht_rank = r, ht_method = ''dense'', ht_retrieval = None\<rparr>"

theorem fusion_ranks_witness:
  "\<exists>hits. reciprocal_rank_fusion 60 None [[ex_hit ''a'' 1, ex_hit ''b'' 2], [ex_hit ''b'' 1]] = Inr hits
     \<and> distinct (map (\<lambda>h. chunk_id (ht_chunk h)) hits)"
proof -
  have "\<exists>hits. reciprocal_rank_fusion 60 None [[ex_hit ''a'' 1, ex_hit ''b'' 2], [ex_hit ''b'' 1]] = Inr hits"
    by (simp add: reciprocal_rank_fusion_def)
  with fusion_ranks show ?thesis by blast
qed

text \<open>C21: In any history of questions, changes of what the backend answers, and invalidations, the next answer
  is what a backend that was in force since the last invalidation of its application gives for exactly this
  question, application and documents: an entry of another request is never returned, and an answer is out of
  date only when the index changed after that invalidation. Without such a change it is the present backend's
  answer. Queries and identifiers contain no separator of the cache key, and the cache keeps its bound.\<close>

theorem cached_retrieval_fresh:
  assumes "0 < st_cache cfg" "list_all readable_event es" "readable q a ds" "strip q \<noteq> []"
    and "fold (cache_step cfg) es (b0, []) = (b, c)"
  shows "list_ex (\<lambda>b'. fst (retrieve cfg b q a ds c) = fresh_results cfg b' q a ds) (backends_since a es [b0])
    \<and> last (backends_since a es [b0]) = b
    \<and> int (length c) \<le> st_cache cfg \<and> int (length (snd (retrieve cfg b q a ds c))) \<le> st_cache cfg"
proof -
  have start: "dated_cache cfg (\<lambda>a. [b0]) []" "cache_inv cfg []"
    using assms(1) by (simp_all add: dated_cache_def cache_inv_def)
  have bs: "[b0] \<noteq> [] \<and> last [b0] = b0" by simp
  from history_dated[OF assms(1,2) start bs assms(5)] have
    d: "dated_cache cfg (\<lambda>a. backends_since a es [b0]) c" and inv: "cache_inv cfg c"
    and now: "backends_since a es [b0] \<noteq> []" "last (backends_since a es [b0]) = b" by auto
  then have "b \<in> set (backends_since a es [b0])" by (metis last_in_set)
  from retrieve_dated(2)[OF d inv assms(3) this assms(4)] have
    "\<exists>b' \<in> set (backends_since a es [b0]). fst (retrieve cfg b q a ds c) = fresh_results cfg b' q a ds" .
  with now inv retrieve_cache_inv[OF inv assms(1)] show ?thesis
    by (simp add: list_ex_iff cache_inv_def)
qed

definition ex_strategy :: strategy where
  "ex_strategy = \<lparr>st_name = ''n'', st_mode = Dense, st_retrieve = 5, st_rerank = None, st_prefetch = 5, st_rrf_k = 60, st_cache = 8\<rparr>"

definition ex_backend :: "string \<Rightarrow> backend" where
  "ex_backend i = \<lparr>bk_search = (\<lambda>q a ds. Inr [ex_hit i 1]), bk_reranker = None\<rparr>"

lemma ex_fresh: "fresh_results ex_strategy (ex_backend i) q a ds = Inr [ex_hit i 1]"
  by (simp add: fresh_results_def ex_backend_def ex_strategy_def normalize_ranks_def number_from_1_def ex_hit_def)

lemma ex_readable: "readable ''q'' (Some ''app'') [''d'']" "strip ''q'' = ''q''"
  by code_simp+

theorem cached_retrieval_fresh_witness:
  "fst (retrieve ex_strategy (ex_backend ''new'') ''q'' (Some ''app'') [''d'']
     (snd (fold (cache_step ex_strategy) [Ask ''q'' (Some ''app'') [''d''], Reindex (ex_backend ''new''), Invalidate ''app'']
        (ex_backend ''old'', [])))) = Inr [ex_hit ''new'' 1]"
proof -
  let ?es = "[Ask ''q'' (Some ''app'') [''d''], Reindex (ex_backend ''new''), Invalidate ''app'']"
  obtain b c where run: "fold (cache_step ex_strategy) ?es (ex_backend ''old'', []) = (b, c)" by fastforce
  have "0 < st_cache ex_strategy" by (simp add: ex_strategy_def)
  from cached_retrieval_fresh[OF this _ ex_readable(1) _ run] have
    "fst (retrieve ex_strategy b ''q'' (Some ''app'') [''d''] c)
       = fresh_results ex_strategy (ex_backend ''new'') ''q'' (Some ''app'') [''d'']" "b = ex_backend ''new''"
    by (simp_all add: ex_readable)
  with run show ?thesis by (simp add: ex_fresh)
qed

text \<open>Without the invalidation the old answer stays: this is what a deletion of documents leaves behind.\<close>

lemma unannounced_change_hidden:
  "fst (retrieve ex_strategy (ex_backend ''new'') ''q'' (Some ''app'') [''d'']
     (snd (fold (cache_step ex_strategy) [Ask ''q'' (Some ''app'') [''d''], Reindex (ex_backend ''new'')]
        (ex_backend ''old'', [])))) = Inr [ex_hit ''old'' 1]"
  by (simp add: retrieve_def Let_def ex_readable ex_fresh) (simp add: ex_strategy_def move_to_end_def)

text \<open>Invalidating an application removes every cached answer given for it, whatever the query
  and the documents, and leaves the entries that do not mention it.\<close>

theorem invalidation_complete:
  "map_of (invalidate_application app c) (cache_key q (Some app) ds) = None
   \<and> list_all (\<lambda>(k, v). contains (nul @ app @ nul) k \<or> (k, v) \<in> set (invalidate_application app c)) c"
  using invalidate_application_misses by (auto simp: invalidate_application_def list_all_iff)

section \<open>The evidence inventory\<close>

text \<open>C22: The inventory of a scope always returns within max_chunks + 1 pages when the store
  gives no empty page with a further offset; what it returns lies in the scope, is no more than
  max_chunks chunks, and covers every requested document.\<close>

theorem inventory_sound:
  assumes "progressing sc"
  shows "case scoped_chunks sc (Suc mx) ds a mx of
      None \<Rightarrow> False
    | Some (Inl e) \<Rightarrow> True
    | Some (Inr chunks) \<Rightarrow> list_all (in_scope ds a) chunks \<and> length chunks \<le> mx
        \<and> set (concat (map (\<lambda>c. map pv_document (chunk_prov c)) chunks)) = set ds"
  using scoped_chunks_returns[OF assms, of mx ds a] scoped_chunks_sound[of sc "Suc mx" ds a mx]
  by (auto split: option.splits sum.splits)

definition ex_scroll :: "nat scroller" where
  "ex_scroll n off = (case off of None \<Rightarrow> ([TextChunk ''a'' ''x'' [ex_prov 0] []], Some 1)
     | Some _ \<Rightarrow> ([TextChunk ''b'' ''y'' [ex_prov 1] []], None))"

theorem inventory_sound_witness:
  "\<exists>chunks. scoped_chunks ex_scroll 4 [''d''] None 3 = Some (Inr chunks) \<and> length chunks \<le> 3"
proof -
  have p: "progressing ex_scroll" by (auto simp: progressing_def ex_scroll_def split: option.splits)
  have "\<exists>chunks. scoped_chunks ex_scroll 4 [''d''] None 3 = Some (Inr chunks)"
    by (simp add: scoped_chunks_def ex_scroll_def in_scope_def ex_prov_def raise_if_def check_inventory_def eval_nat_numeral)
  with inventory_sound[OF p, where mx = 3 and ds = "[''d'']" and a = None] show ?thesis by (auto simp: eval_nat_numeral)
qed

section \<open>Registries and document sets\<close>

text \<open>Once an application's documents are deleted, no document set of it can be read any more,
  in any of the three registries and under any policy, and no other application's set is
  affected.\<close>

theorem deletion_closes_sets:
  assumes "keyed (mm_records m)" "keyed l" "keyed (pg_documents p)"
  shows "get_set (memory_owns (fst (memory_delete m a h'))) store i a h = Inl (PermissionError ''evidence_scope_violation'')
    \<and> get_set (local_owns (fst (local_delete l a h'))) store i a h = Inl (PermissionError ''evidence_scope_violation'')
    \<and> get_set (postgres_owns (fst (postgres_delete p a h'))) store i a h = Inl (PermissionError ''evidence_scope_violation'')
    \<and> (if b = a then True else get_set (postgres_owns (fst (postgres_delete p a h'))) store i b h = get_set (postgres_owns p) store i b h)"
  using memory_registry.get_set_after_delete[OF assms(1)] local_registry.get_set_after_delete[OF assms(2)]
    postgres_registry.get_set_after_delete[OF assms(3)] postgres_registry.get_set_other_application[OF assms(3), of b a h']
  by simp

definition ex_record :: document_record where
  "ex_record = \<lparr>dr_application = ''app'', dr_document = ''d'', dr_sha256 = replicate 64 CHR ''0'',
     dr_state = ''active'', dr_policy_hash = replicate 64 CHR ''1'', dr_retained = 0\<rparr>"

definition ex_records :: records where "ex_records = [((''app'', ''d''), ex_record)]"

lemma ex_keyed: "keyed ex_records"
  by (simp add: keyed_def ex_records_def ex_record_def)

theorem deletion_closes_sets_witness:
  "\<forall>h' store i. local_owns ex_records ''app'' [''d''] (replicate 64 CHR ''1'')
   \<and> get_set (local_owns (fst (local_delete ex_records ''app'' h'))) store i ''app'' (replicate 64 CHR ''1'')
       = Inl (PermissionError ''evidence_scope_violation'')"
proof (intro allI)
  fix h' store i
  have "local_owns ex_records ''app'' [''d''] (replicate 64 CHR ''1'')"
    by (simp add: local_owns_def local_rows_def ex_records_def ex_record_def active_record_def)
  with deletion_closes_sets[of "\<lparr>mm_records = ex_records, mm_receipts = []\<rparr>" ex_records
      "\<lparr>pg_documents = ex_records, pg_receipts = []\<rparr>" "''app''" h' store i "replicate 64 CHR ''1''"]
  show "local_owns ex_records ''app'' [''d''] (replicate 64 CHR ''1'')
   \<and> get_set (local_owns (fst (local_delete ex_records ''app'' h'))) store i ''app'' (replicate 64 CHR ''1'')
       = Inl (PermissionError ''evidence_scope_violation'')" by (simp add: ex_keyed)
qed

text \<open>A frozen document set that the registry accepts is read back unchanged by its application
  under its policy.\<close>

theorem document_set_round_trip:
  assumes "freeze a ds h = Inr r" "put_set (postgres_owns p) store r = (Inr r', store')" "keyed (pg_documents p)"
    "map_of store (ds_id r) = None"
  shows "get_set (postgres_owns p) store' (ds_id r) a h = Inr r"
  using postgres_registry.get_put_set_any[OF assms(1,2)] assms(4) by blast

theorem document_set_round_trip_witness:
  "\<exists>r. freeze ''app'' [''d''] (replicate 64 CHR ''1'') = Inr r \<and>
     get_set (postgres_owns \<lparr>pg_documents = ex_records, pg_receipts = []\<rparr>) [(ds_id r, ''app'', r)] (ds_id r) ''app'' (replicate 64 CHR ''1'') = Inr r"
proof -
  let ?h = "replicate 64 CHR ''1''"
  let ?p = "\<lparr>pg_documents = ex_records, pg_receipts = []\<rparr>"
  have hex: "is_hex64 ?h" by (simp add: is_hex64_def list_all_iff is_digit_def in_range_def code_def)
  then obtain r where r: "freeze ''app'' [''d''] ?h = Inr r" by (auto simp: freeze_def Let_def)
  then have sel: "ds_application r = ''app''" "ds_documents r = [''d'']" "ds_policy_hash r = ?h"
    by (auto simp: freeze_def Let_def res_simps)
  then have "put_set (postgres_owns ?p) [] r = (Inr r, [(ds_id r, ''app'', r)])"
    by (simp add: put_set_def postgres_owns_def ex_records_def ex_record_def active_record_def dict_has_def)
  from document_set_round_trip[OF r this] r show ?thesis by (simp add: ex_keyed)
qed

text \<open>The PostgreSQL registry does not follow a policy rotation: a document registered again
  under a new policy hash is not owned under it, while the in-memory registry owns it.\<close>

theorem rotation_diverges:
  assumes "keyed (pg_documents p)" "map_of (pg_documents p) (dr_key r) = Some old"
    "postgres_register p r = Inr p'" "dr_policy_hash old \<noteq> dr_policy_hash r"
    "keyed (mm_records m)" "memory_register m r = Inr m'" "dr_state r = ''active''"
  shows "\<not> postgres_owns p' (dr_application r) [dr_document r] (dr_policy_hash r)
    \<and> memory_owns m' (dr_application r) [dr_document r] (dr_policy_hash r)"
  using postgres_policy_rotation[OF assms(1-4)] memory_registry.register_owns[OF assms(5-7)] by blast

theorem rotation_diverges_witness:
  "\<exists>p'. postgres_register \<lparr>pg_documents = ex_records, pg_receipts = []\<rparr> (ex_record\<lparr>dr_policy_hash := ''new''\<rparr>) = Inr p'
     \<and> \<not> postgres_owns p' ''app'' [''d''] ''new''"
proof -
  let ?r = "ex_record\<lparr>dr_policy_hash := ''new''\<rparr>"
  let ?p = "\<lparr>pg_documents = ex_records, pg_receipts = []\<rparr>"
  let ?m = "\<lparr>mm_records = ex_records, mm_receipts = []\<rparr>"
  have old: "map_of (pg_documents ?p) (dr_key ?r) = Some ex_record" by (simp add: ex_records_def ex_record_def)
  obtain p' m' where reg: "postgres_register ?p ?r = Inr p'" "memory_register ?m ?r = Inr m'"
    by (simp add: postgres_register_def memory_register_def ex_records_def ex_record_def)
  have ne: "replicate 64 CHR ''1'' \<noteq> ''new''" by (rule notI, drule arg_cong[where f = length]) simp
  from rotation_diverges[OF _ old reg(1) _ _ reg(2)] have "\<not> postgres_owns p' ''app'' [''d''] ''new''"
    using ne by (simp add: ex_keyed ex_record_def)
  with reg(1) show ?thesis by blast
qed

section \<open>The activity feed\<close>

text \<open>Whatever is started, reported and finished, the feed of a batch holds only that batch's
  events, strictly ascending in sequence, at most as many as the bound, and none beyond the
  batch's counter.\<close>

theorem activity_bounded:
  "let s = fold apply_op ops (new_activity m n) in
   distinct (map fst (ac_events s))
   \<and> list_all (\<lambda>(b, es). batch_ok (ac_max_events s) b (dict_get_default (ac_sequences s) b 0) es) (ac_events s)"
  using fold_ops_inv[OF new_activity_inv, of ops m n]
  by (auto simp: activity_inv_def Let_def list_all_iff simp del: map_of_eq_Some_iff dest!: map_of_is_SomeI)

text \<open>C40: A client that polls from the last number of its previous answer receives exactly the events that were
  reported for its batch since, in order, numbered on, whatever operations of other batches come in between,
  provided the batch is not started anew, is not evicted by the start of others, and no more events than the
  bound were reported. It is not evicted when no more starts of other batches follow than there are batches
  older than it; a report that is refused for its details uses up a number without an event.\<close>

theorem polling_loses_nothing:
  assumes "s = fold apply_op earlier (new_activity batches bound)" "snapshot s b k = Some r"
    "stays b ops s \<or> \<not> list_ex (starts b) ops \<and> length (filter (starts_other b) ops) \<le> older b s"
    "length (feed b (dict_get_default (ac_sequences s) b 0) ops) \<le> ac_max_events s"
  shows "case snapshot (fold apply_op ops s) b (ar_last r) of
      None \<Rightarrow> False
    | Some r' \<Rightarrow> ar_events r' = feed b (dict_get_default (ac_sequences s) b 0) ops"
proof -
  have inv: "activity_inv s" using fold_ops_inv[OF new_activity_inv] assms(1) by simp
  have "dict_has (ac_events s) b" using assms(2) by (auto simp: snapshot_def dict_has_def split: option.splits)
  with assms(3) enough_room_stays[OF inv] have "stays b ops s" by blast
  from poll_between[OF inv assms(2) this assms(4)] show ?thesis by auto
qed

definition ex_details :: activity_details where
  "ex_details = \<lparr>ad_name = None, ad_index = Some 1, ad_count = Some 2, ad_completed = None, ad_total = None\<rparr>"

text \<open>Two batches in a registry of two; a third starts while the second reports, and evicts the first.\<close>

definition ex_activity :: activity where
  "ex_activity = fold apply_op [Start ''a'' None, Start ''b'' None, Report 6 ''b'' ''s'' ''m'' ex_details] (new_activity 2 3)"

definition ex_between :: "activity_op list" where
  "ex_between = [Report 7 ''b'' ''s'' ''m'' ex_details, Start ''c'' None, Report 8 ''c'' ''s'' ''m'' ex_details,
     Report 9 ''b'' ''s'' ''m'' (ex_details\<lparr>ad_index := Some 0\<rparr>), Report 10 ''b'' ''s'' ''m'' ex_details, Finish ''b'' Completed]"

theorem polling_loses_nothing_witness:
  "\<exists>r. snapshot (fold apply_op ex_between ex_activity) ''b'' 1 = Some r \<and> map ae_sequence (ar_events r) = [2, 4]
     \<and> map_of (ac_events (fold apply_op ex_between ex_activity)) ''a'' = None"
proof -
  obtain r where r: "snapshot ex_activity ''b'' 0 = Some r" "ar_last r = 1"
  proof -
    have "map_option ar_last (snapshot ex_activity ''b'' 0) = Some 1" by code_simp
    then show thesis using that by (cases "snapshot ex_activity ''b'' 0") simp_all
  qed
  have room: "\<not> list_ex (starts ''b'') ex_between \<and> length (filter (starts_other ''b'') ex_between) \<le> older ''b'' ex_activity"
    "length (feed ''b'' (dict_get_default (ac_sequences ex_activity) ''b'' 0) ex_between) \<le> ac_max_events ex_activity"
    by code_simp+
  have new: "map ae_sequence (feed ''b'' (dict_get_default (ac_sequences ex_activity) ''b'' 0) ex_between) = [2, 4]"
    "map_of (ac_events (fold apply_op ex_between ex_activity)) ''a'' = None" by code_simp+
  from polling_loses_nothing[OF ex_activity_def r(1) disjI2[OF room(1)] room(2)] r(2) new show ?thesis
    by (auto split: option.splits)
qed

section \<open>The GPU lease\<close>

text \<open>C38: With leasing enabled and an inference server that obeys its sleep and wake requests, an
  ingestion batch runs its body while the server sleeps and the batch flag is set, returns the
  body's result or error, and always ends with the server awake and the flag clear.\<close>

theorem gpu_batch_refines:
  assumes "obedient rq asleep put" "lc_enabled cfg"
  shows "ingestion_batch cfg rq body s =
    (case body \<lparr>ls_world = put True (ls_world s), ls_batch = True\<rparr> of
       (r, s1) \<Rightarrow> (r, \<lparr>ls_world = put False (ls_world s1), ls_batch = False\<rparr>))
    \<and> \<not> asleep (ls_world (snd (ingestion_batch cfg rq body s)))"
  using assms(1) ingestion_batch_refines[OF assms, of body]
  by (auto simp: batch_spec_def obedient_def split: prod.splits)

definition ex_server :: "bool requester" where
  "ex_server m path w =
     (if m = Post then (Inr OtherReply, path = ''/sleep?level=1'') else (Inr (BoolReply w), w))"

theorem gpu_batch_refines_witness:
  "ingestion_batch \<lparr>lc_enabled = True, lc_timeout = 5\<rparr> ex_server (\<lambda>s. (Inl (BodyError (ValueError ''x'')), s)) \<lparr>ls_world = False, ls_batch = False\<rparr>
     = (Inl (BodyError (ValueError ''x'')) :: lease_error + nat, \<lparr>ls_world = False, ls_batch = False\<rparr>)"
proof -
  have "obedient ex_server (\<lambda>w. w) (\<lambda>b w. b)" by (simp add: obedient_def ex_server_def)
  from gpu_batch_refines[OF this, of "\<lparr>lc_enabled = True, lc_timeout = 5\<rparr>"
      "\<lambda>s. (Inl (BodyError (ValueError ''x'')) :: lease_error + nat, s)" "\<lparr>ls_world = False, ls_batch = False\<rparr>"]
  show ?thesis by simp
qed

text \<open>In every reachable state of the process lock all running sections belong to one thread,
  the owner, so ingestion batches and GPU operations of different threads never overlap.\<close>

theorem gpu_sections_exclusive:
  assumes "lock_step\<^sup>*\<^sup>* free_lock l"
  shows "list_all (\<lambda>f. gl_owner l = Some (fst f)) (gl_frames l)"
  using lock_reachable_inv[OF assms] by (simp add: lock_inv_def)

theorem gpu_sections_exclusive_witness:
  "\<exists>l. lock_step\<^sup>*\<^sup>* free_lock l \<and> gl_frames l = [(7, Operation), (7, Batch)] \<and> gl_owner l = Some 7"
proof -
  let ?l1 = "\<lparr>gl_owner = Some 7, gl_frames = [(7, Batch)]\<rparr>"
  let ?l2 = "\<lparr>gl_owner = Some 7, gl_frames = [(7, Operation), (7, Batch)]\<rparr>"
  have "lock_step free_lock ?l1" using lock_step.enter[of free_lock 7 Batch] by (simp add: free_lock_def)
  moreover have "lock_step ?l1 ?l2" using lock_step.enter[of ?l1 7 Operation] by simp
  ultimately have r: "lock_step\<^sup>*\<^sup>* free_lock ?l2" by (meson converse_rtranclp_into_rtranclp r_into_rtranclp)
  from gpu_sections_exclusive[OF this] r show ?thesis by (intro exI[of _ ?l2]) simp
qed

section \<open>The encrypted store\<close>

text \<open>C39: What is stored is read back byte for byte, and every other object reads as before. After a successful
  change of the master key the count returned is the number of \<open>.enc.json\<close> objects under the two state folders,
  and each of them opens under the new key to what it opened to under the old one; its ciphertext, data nonce and
  identity are the ones it had, only the wrapped data key, its nonce and the key version are new. No other file
  is touched.\<close>

theorem stored_content_survives:
  assumes "aead_ok A" "store_object A s rnd application document digest content state = (s', p)"
    "distinct (map fst (st_files s))" "rewrap_all A s' new version nonce = (Inr n, s'')"
  shows "let object = (\<lambda>q. (under (path_join (st_root s') ''active'') q \<or> under (path_join (st_root s') ''quarantined'') q)
                \<and> q \<noteq> [] \<and> ends_with ''.enc.json'' (last q))
      in materialize A s' p = Inr content
    \<and> (if q = p then True else materialize A s' q = materialize A s q)
    \<and> st_master s'' = new \<and> n = length (filter object (map fst (st_files s')))
    \<and> list_all (\<lambda>(q, e). if object q
        then \<exists>e'. map_of (st_files s'') q = Some e' \<and> open_envelope A new e' = open_envelope A (st_master s') e
          \<and> materialize A s'' q = materialize A s' q
          \<and> ev_ciphertext e' = ev_ciphertext e \<and> ev_data_nonce e' = ev_data_nonce e
          \<and> ev_application e' = ev_application e \<and> ev_document e' = ev_document e
          \<and> ev_sha256 e' = ev_sha256 e \<and> ev_state e' = ev_state e \<and> ev_key_version e' = version
        else map_of (st_files s'') q = Some e) (st_files s')"
proof -
  have object: "rewrap_target s' = (\<lambda>q. (under (path_join (st_root s') ''active'') q \<or> under (path_join (st_root s') ''quarantined'') q)
      \<and> q \<noteq> [] \<and> ends_with ''.enc.json'' (last q))"
    by (simp add: rewrap_target_def states_def fun_eq_iff)
  have d: "distinct (map fst (st_files s'))" by (rule store_object_distinct[OF assms(2,3)])
  from rewrap_all_each[OF assms(1) d assms(4)] have r: "st_master s'' = new"
      "n = length (filter (rewrap_target s') (map fst (st_files s')))"
    and each: "\<And>q e. map_of (st_files s') q = Some e \<Longrightarrow> if rewrap_target s' q
         then \<exists>e'. map_of (st_files s'') q = Some e' \<and> open_envelope A new e' = open_envelope A (st_master s') e
           \<and> rewrapped version e e'
         else map_of (st_files s'') q = Some e" by blast+
  have files: "if rewrap_target s' q
        then \<exists>e'. map_of (st_files s'') q = Some e' \<and> open_envelope A new e' = open_envelope A (st_master s') e
          \<and> materialize A s'' q = materialize A s' q
          \<and> ev_ciphertext e' = ev_ciphertext e \<and> ev_data_nonce e' = ev_data_nonce e
          \<and> ev_application e' = ev_application e \<and> ev_document e' = ev_document e
          \<and> ev_sha256 e' = ev_sha256 e \<and> ev_state e' = ev_state e \<and> ev_key_version e' = version
        else map_of (st_files s'') q = Some e" if "(q, e) \<in> set (st_files s')" for q e
  proof -
    have e: "map_of (st_files s') q = Some e" using that d by simp
    show ?thesis
    proof (cases "rewrap_target s' q")
      case True
      with each[OF e] obtain e' where e': "map_of (st_files s'') q = Some e'"
        "open_envelope A new e' = open_envelope A (st_master s') e" "rewrapped version e e'" by auto
      then show ?thesis using rewrapped_keeps[OF e'(3)] True e r(1) by (simp add: materialize_def)
    qed (use each[OF e] in simp)
  qed
  show ?thesis
    unfolding Let_def object[symmetric]
    using materialize_stored[OF assms(1,2)] materialize_other[OF assms(2)] r files by (auto simp: list_all_iff)
qed

definition ex_aead :: aead where
  "ex_aead = \<lparr>ae_encrypt = (\<lambda>k n d ad. k @ n @ ad @ d),
     ae_decrypt = (\<lambda>k n d ad. if starts_with (k @ n @ ad) d then Some (drop (length (k @ n @ ad)) d) else None)\<rparr>"

lemma ex_aead_ok: "aead_ok ex_aead"
  by (simp add: aead_ok_def ex_aead_def starts_with_def)

definition ex_store :: store where
  "ex_store = \<lparr>st_root = [''r''], st_master = replicate 32 CHR ''k'', st_version = ''v1'', st_files = []\<rparr>"

theorem stored_content_survives_witness:
  "\<exists>s' p n s''. store_object ex_aead ex_store (''dek'', ''n'', ''m'') ''a'' ''d'' ''h'' ''pdf'' ''active'' = (s', p)
     \<and> rewrap_all ex_aead s' (replicate 32 CHR ''z'') ''v2'' (\<lambda>_. ''w'') = (Inr n, s'')
     \<and> materialize ex_aead s'' p = Inr ''pdf''"
proof -
  define s' where "s' = fst (store_object ex_aead ex_store (''dek'', ''n'', ''m'') ''a'' ''d'' ''h'' ''pdf'' ''active'')"
  define p where "p = [''r'', ''active'', ''a'', ''d.enc.json'']"
  have p: "path_resolve (object_path ex_store ''active'' ''a'' ''d'') = p"
    by (simp add: p_def path_resolve_def object_path_def path_join_def ex_store_def starts_with_def)
  have st: "store_object ex_aead ex_store (''dek'', ''n'', ''m'') ''a'' ''d'' ''h'' ''pdf'' ''active'' = (s', p)"
    by (simp add: s'_def store_object_def Let_def p)
  have fs: "st_files s' = [(p, seal ex_aead ex_store (''dek'', ''n'', ''m'') ''a'' ''d'' ''h'' ''pdf'' ''active'')]"
    "st_root s' = [''r'']" "st_master s' = replicate 32 CHR ''k''"
    by (simp_all add: s'_def store_object_def Let_def p) (simp_all add: ex_store_def)
  have t: "rewrap_target s' p"
    by (simp add: rewrap_target_def fs states_def under_def path_join_def starts_with_def ends_with_def p_def)
  obtain n s'' where rw: "rewrap_all ex_aead s' (replicate 32 CHR ''z'') ''v2'' (\<lambda>_. ''w'') = (Inr n, s'')"
    by (simp add: rewrap_all_def fs t rewrap_def seal_def Let_def envelope_ad_def ex_aead_def starts_with_def ex_store_def)
  have d: "distinct (map fst (st_files ex_store))" by (simp add: ex_store_def)
  have "((under (path_join (st_root s') ''active'') p \<or> under (path_join (st_root s') ''quarantined'') p)
      \<and> p \<noteq> [] \<and> ends_with ''.enc.json'' (last p)) = True" using t by (simp add: rewrap_target_def states_def)
  from stored_content_survives[OF ex_aead_ok st d rw, of p, unfolded Let_def fs(1) list.pred_inject prod.case this if_True]
  have "materialize ex_aead s'' p = materialize ex_aead s' p" "materialize ex_aead s' p = Inr ''pdf''" by blast+
  then show ?thesis using st rw by metis
qed

text \<open>Deleting an application's files removes its folders of both states and touches nothing
  outside them, and nothing outside the configured root, whatever the application identifier.\<close>

theorem deletion_confined:
  assumes "delete_application s application = (r, s')"
  shows "(map_of (st_files s') p = map_of (st_files s) p
      \<or> below (st_root s) p \<and> list_ex (\<lambda>st. under (path_resolve (path_join (path_join (st_root s) st) application)) p) states)
    \<and> (case r of Inl e \<Rightarrow> True
        | Inr u \<Rightarrow> list_all (\<lambda>st. if under (path_resolve (path_join (path_join (st_root s) st) application)) p
            then map_of (st_files s') p = None else True) states)"
proof -
  note d = assms[unfolded delete_application_def]
  show ?thesis using delete_states_keeps[OF d, of p] delete_states_removes[of states s application _ s' _ p] d
    by (auto simp: list_ex_iff list_all_iff split: sum.splits)
qed

theorem deletion_confined_witness:
  "\<forall>e. \<exists>s'. delete_application (ex_store\<lparr>st_files := [([''r'', ''active'', ''a'', ''x''], e), ([''o''], e)]\<rparr>) ''a'' = (Inr (), s')
     \<and> map_of (st_files s') [''r'', ''active'', ''a'', ''x''] = None \<and> map_of (st_files s') [''o''] = Some e"
proof
  fix e
  let ?s = "ex_store\<lparr>st_files := [([''r'', ''active'', ''a'', ''x''], e), ([''o''], e)]\<rparr>"
  obtain s' where d: "delete_application ?s ''a'' = (Inr (), s')"
    by (simp add: delete_application_def states_def Let_def ex_store_def path_join_def path_resolve_def starts_with_def below_def)
  from deletion_confined[OF d, of "[''r'', ''active'', ''a'', ''x'']"] deletion_confined[OF d, of "[''o'']"] d
  show "\<exists>s'. delete_application ?s ''a'' = (Inr (), s')
     \<and> map_of (st_files s') [''r'', ''active'', ''a'', ''x''] = None \<and> map_of (st_files s') [''o''] = Some e"
    by (auto simp: states_def ex_store_def path_join_def path_resolve_def starts_with_def under_def below_def)
qed

section \<open>Intake\<close>

text \<open>The stream sent to the malware daemon can be cut back into exactly the document's bytes,
  whatever its size: the length-prefixed framing loses, adds and reorders nothing.\<close>

theorem scanned_stream_exact:
  "unframe (drop 10 (instream block_size raw)) = Some raw"
  by (rule unframe_instream) (simp_all add: block_size_def)

text \<open>Restoring physical OCR lines never adds, deletes, changes or reorders a recognised word.\<close>

theorem restored_words_same:
  "words_of (restore_lines original block cells) = words_of original"
  by (rule restore_lines_words)

end
