(* ===== verification/TrustProps.thy ===== *)
theory TrustProps
  imports Auth Grounding "HOL-Library.Code_Target_Nat"
begin

text \<open>
  The properties of service authorisation and of answers taken from a language model, each
  with a concrete instance: a signed token whose HMAC is computed by evaluation, and a run of
  the two-pass pipeline.
\<close>

section \<open>Service tokens\<close>

text \<open>Both ledgers drop the entries that have expired, refuse an identifier with an entry left, and add one otherwise.\<close>

lemma consume_cases:
  assumes "consume = memory_consume \<or> consume = postgres_consume"
  shows "consume s now j x = (let kept = filter (\<lambda>(k, e). now < of_int e) s in
     if list_ex (\<lambda>(k, e). k = j \<and> now < of_int e) s then (False, kept) else (True, kept @ [(j, x)]))"
proof -
  have "consume = memory_consume" using assms postgres_consume_memory[abs_def] by auto
  moreover have "dict_has (filter (\<lambda>(k, e). now < of_int e) s) j = list_ex (\<lambda>(k, e). k = j \<and> now < of_int e) s"
    by (simp add: dict_has_filter_live ledger_live_def)
  ultimately show ?thesis by (auto simp: memory_consume_def Let_def update_absent)
qed

text \<open>C14: A request is accepted only with a token whose signature is the HMAC-SHA-256 of its first
  two segments under the secret, whose issuer, audience, application and role fit the request,
  which is neither expired nor issued more than 30 seconds ahead, and which lives no longer
  than the policy allows; where it is to be consumed, its identifier had no unexpired entry in the ledger and has
  one afterwards. A request that the checks refuse leaves the ledger as it was. The only other refusal is
  that of an identifier with an unexpired entry; it leaves the ledger without its expired entries, as every
  consumption does. This holds of the in-memory and of the PostgreSQL ledger.\<close>

theorem accepted_token_checked:
  assumes "consume = memory_consume \<or> consume = postgres_consume"
  shows "let unexpired = filter (\<lambda>(k, x). rq_ledger_now r < of_int x) s;
        consumed = (\<lambda>c. list_ex (\<lambda>(k, x). k = cl_jti c \<and> rq_ledger_now r < of_int x) s)
   in case verify consume codec secret policy r s of
     (Inl e, s') \<Rightarrow>
       (case res_bind (parse_token codec secret (rq_token r))
            (check_claims policy (rq_now r) (rq_role r) (rq_application r)) of
          Inl e' \<Rightarrow> e = e' \<and> s' = s
        | Inr c \<Rightarrow> e = ValueError ''service token replay detected'' \<and> rq_consume r \<and> consumed c \<and> s' = unexpired)
   | (Inr c, s') \<Rightarrow>
       (\<exists>h p sg. split_on CHR ''.'' (rq_token r) = [h, p, sg]
          \<and> decode_segment sg = Some (hmac_sha256 (bytes_of secret) (bytes_of (h @ ''.'' @ p))))
       \<and> cl_iss c = au_issuer policy \<and> au_audience policy \<in> set (cl_aud c) \<and> cl_application c = rq_application r
       \<and> rq_role r \<in> set (cl_roles c) \<and> cl_iat c \<le> rq_now r + 30 \<and> rq_now r < cl_exp c
       \<and> cl_exp c - cl_iat c \<le> au_max_age policy
       \<and> (if rq_consume r then \<not> consumed c \<and> s' = unexpired @ [(cl_jti c, cl_exp c)] else s' = s)"
proof (cases "res_bind (parse_token codec secret (rq_token r)) (check_claims policy (rq_now r) (rq_role r) (rq_application r))")
  case (Inl e)
  then show ?thesis by (simp add: verify_def Let_def)
next
  case (Inr c)
  then have p: "parse_token codec secret (rq_token r) = Inr c"
    and k: "check_claims policy (rq_now r) (rq_role r) (rq_application r) c = Inr c"
    by (auto simp: res_bind_Inr_iff check_claims_Inr_iff)
  from parse_token_signature[OF p] k[unfolded check_claims_Inr_iff] Inr show ?thesis
    unfolding verify_def Let_def consume_cases[OF assms] by auto
qed

text \<open>C13: A token that was accepted once is never accepted again before it expires, whatever other
  requests were served in between, by the in-memory and by the PostgreSQL ledger, provided the
  ledger's clock does not run backwards.\<close>

theorem no_token_replay:
  assumes "consume = memory_consume \<or> consume = postgres_consume"
    "verify consume codec secret policy r1 s0 = (Inr c, s1)" "rq_consume r1"
    "verify_all consume codec secret policy rs s1 = (outs, s2)"
    "rq_ledger_now r1 \<le> rq_ledger_now r2" "\<forall>r \<in> set rs. rq_ledger_now r \<le> rq_ledger_now r2"
    "rq_token r2 = rq_token r1" "rq_consume r2" "rq_ledger_now r2 < of_int (cl_exp c)"
  shows "fst (verify consume codec secret policy r2 s2) \<noteq> Inr c'"
  using assms(1)
proof
  assume "consume = memory_consume"
  with memory_ledger.no_replay assms(2-) show ?thesis by blast
next
  assume "consume = postgres_consume"
  with postgres_ledger.no_replay assms(2-) show ?thesis by blast
qed

definition ex_claims :: claims where
  "ex_claims = \<lparr>cl_sub = ''svc'', cl_aud = [''findociq''], cl_iss = ''bank'', cl_roles = [''read''],
     cl_application = ''app'', cl_jti = ''j1'', cl_iat = 100, cl_exp = 200\<rparr>"

definition ex_codec :: jwt_codec where
  "ex_codec = \<lparr>jc_header = (\<lambda>b. Some (HeaderObject (Some ''HS256'') None)), jc_claims = (\<lambda>b. Some ex_claims)\<rparr>"

definition ex_policy :: auth_policy where
  "ex_policy = \<lparr>au_issuer = ''bank'', au_audience = ''findociq'', au_max_age = 300\<rparr>"

definition ex_secret :: string where
  "ex_secret = replicate 32 CHR ''k''"

text \<open>The token \<open>e30.e30\<close> with its signature.\<close>

definition ex_request :: request where
  "ex_request = \<lparr>rq_token = ''e30.e30.'' @ encode_segment (hmac_sha256 (bytes_of ex_secret) (bytes_of ''e30.e30'')),
     rq_role = ''read'', rq_application = ''app'', rq_now = 120, rq_ledger_now = 120, rq_consume = True\<rparr>"

lemma ex_segment: "decode_segment ''e30'' = Some [123, 125]"
  by code_simp

lemma token_parsed: "parse_token ex_codec ex_secret (rq_token ex_request) = Inr ex_claims"
  using parse_signed_token[of "''e30''" "''e30''" _ _ ex_codec ex_claims ex_secret] ex_segment
  by (simp add: ex_request_def ex_codec_def)

lemma ex_accepted:
  "verify postgres_consume ex_codec ex_secret ex_policy ex_request [] = (Inr ex_claims, [(''j1'', 200)])"
  by (simp add: verify_def token_parsed)
    (simp add: check_claims_def raise_if_def ex_claims_def ex_policy_def ex_request_def postgres_consume_def
      insert_do_nothing_def dict_has_def)

theorem accepted_token_checked_witness:
  "verify memory_consume ex_codec ex_secret ex_policy ex_request [(''j1'', 200), (''j0'', 110)]
     = (Inl (ValueError ''service token replay detected''), [(''j1'', 200)])"
proof -
  have checks: "res_bind (parse_token ex_codec ex_secret (rq_token ex_request))
      (check_claims ex_policy (rq_now ex_request) (rq_role ex_request) (rq_application ex_request)) = Inr ex_claims"
    by (simp add: token_parsed) (simp add: check_claims_def raise_if_def ex_claims_def ex_policy_def ex_request_def)
  have sel: "rq_ledger_now ex_request = 120" "cl_jti ex_claims = ''j1''" by (simp_all add: ex_request_def ex_claims_def)
  have "verify memory_consume ex_codec ex_secret ex_policy ex_request [(''j1'', 200), (''j0'', 110)] \<noteq> (Inr c, s')" for c s'
  proof
    assume run: "verify memory_consume ex_codec ex_secret ex_policy ex_request [(''j1'', 200), (''j0'', 110)] = (Inr c, s')"
    then have "c = ex_claims" using checks by (auto simp: verify_def split: if_splits prod.splits bool.splits)
    with accepted_token_checked[of memory_consume ex_request "[(''j1'', 200), (''j0'', 110)]" ex_codec ex_secret ex_policy] run sel
    show False by (auto simp: Let_def ex_request_def)
  qed
  then obtain e s' where run: "verify memory_consume ex_codec ex_secret ex_policy ex_request [(''j1'', 200), (''j0'', 110)] = (Inl e, s')"
    by (metis old.sum.exhaust surj_pair)
  with accepted_token_checked[of memory_consume ex_request "[(''j1'', 200), (''j0'', 110)]" ex_codec ex_secret ex_policy] checks sel
  show ?thesis by (auto simp: Let_def)
qed

theorem no_token_replay_witness:
  "verify postgres_consume ex_codec ex_secret ex_policy ex_request [] = (Inr ex_claims, [(''j1'', 200)])
   \<and> fst (verify postgres_consume ex_codec ex_secret ex_policy ex_request [(''j1'', 200)]) \<noteq> Inr ex_claims"
  using no_token_replay[OF _ ex_accepted, of "[]" "[]" "[(''j1'', 200)]" ex_request ex_claims] ex_accepted
  by (simp add: ex_request_def ex_claims_def)

section \<open>Grounded answers\<close>

text \<open>C7: Whatever the language model writes, an answer of either pipeline cites only provenance of
  the retrieved chunks; in the two-pass pipeline every extracted figure's value is found in a
  chunk it cites, and the answer's numbers and words come from the selected figures or the
  question, stop words and words of at most two letters excepted.\<close>

theorem answers_grounded:
  assumes "run_reasoning cfg T ask question hits = Inr r"
  shows "set (an_citations (rr_answer r)) \<subseteq> set (all_citations hits)
    \<and> (case rr_extraction r of None \<Rightarrow> True
       | Some e \<Rightarrow> list_all (figure_grounded hits) (ex_figures e)
           \<and> (\<exists>fs. fs \<noteq> [] \<and> set fs \<subseteq> set (ex_figures e) \<and> an_citations (rr_answer r) = map fg_citation fs
               \<and> answer_supported (an_text (rr_answer r)) question (join '' '' (map figure_text fs))))"
proof -
  have "case rr_extraction r of None \<Rightarrow> True
      | Some e \<Rightarrow> pass1 T ask question hits = Inr e \<and> pass2 T ask question e = Inr (rr_answer r)"
    using assms by (auto simp: run_reasoning_def res_simps split: if_splits)
  with pass1_Inr[of T ask question hits] pass2_Inr[of T ask question] run_reasoning_cites[OF assms]
  show ?thesis by (fastforce split: option.splits)
qed

definition ex_citation :: citation where
  "ex_citation = \<lparr>ct_document = ''d'', ct_page = 1, ct_bbox = \<lparr>bx0 = 0, by0 = 0, bx1 = 1, by1 = 1\<rparr>\<rparr>"

definition ex_hits :: "hit list" where
  "ex_hits = [\<lparr>ht_chunk = TextChunk ''c'' ''Revenue was 120'' [\<lparr>pv_document = ''d'', pv_source = ''s'', pv_page = 1,
      pv_bbox = \<lparr>bx0 = 0, by0 = 0, bx1 = 1, by1 = 1\<rparr>, pv_width = 9, pv_height = 9\<rparr>] [],
     ht_score = 1, ht_rank = 1, ht_method = ''dense'', ht_retrieval = None\<rparr>]"

definition ex_extraction :: extraction where
  "ex_extraction = \<lparr>ex_question = ''q'', ex_figures = [Figure ''Revenue'' ''120'' None None ex_citation None None], ex_notes = []\<rparr>"

definition ex_tools :: tools where
  "ex_tools = \<lparr>tl_loads = (\<lambda>s. Some (JObj [])), tl_dumps = (\<lambda>j. []), tl_prompt = (\<lambda>n. n),
     tl_citation = (\<lambda>j. None), tl_extraction = (\<lambda>j. Some ex_extraction), tl_answer = (\<lambda>j. None),
     tl_selection = (\<lambda>j. Some (''Revenue was 120'', [''evidence_1''])), tl_dump_citation = (\<lambda>c. JNull),
     tl_dump_provenance = (\<lambda>p. JNull)\<rparr>"

definition ex_run :: "reasoning_run res" where
  "ex_run = run_reasoning \<lparr>pc_name = ''two_pass'', pc_passes = 2\<rparr> ex_tools (\<lambda>st sys p. Inr ''{}'') ''What was revenue'' ex_hits"

lemma ex_run_returns: "case ex_run of Inl e \<Rightarrow> False | Inr r \<Rightarrow> an_citations (rr_answer r) = [ex_citation]"
  by code_simp

theorem answers_grounded_witness:
  "\<exists>r. ex_run = Inr r \<and> an_citations (rr_answer r) = [ex_citation] \<and> ex_citation \<in> set (all_citations ex_hits)"
proof (cases ex_run)
  case (Inl e)
  show ?thesis using ex_run_returns unfolding Inl sum.case by (rule FalseE)
next
  case (Inr r)
  have "an_citations (rr_answer r) = [ex_citation]" using ex_run_returns unfolding Inr sum.case .
  with answers_grounded[OF Inr[unfolded ex_run_def]] Inr show ?thesis by auto
qed

end
