(* ===== verification/Api.thy ===== *)
theory Api
  imports Service
begin

text \<open>
  \<open>api/app.py\<close> and the request models of \<open>api/schema.py\<close>: every route as an action over the state of the
  application. A request has passed its pydantic model before a handler sees it. An \<open>HTTPException\<close> is the
  response with its status and detail; any other error is the framework's 500.
\<close>

section \<open>State and configuration\<close>

record 'r registry_ops =
  ro_register :: "'r \<Rightarrow> document_record \<Rightarrow> 'r res"
  ro_owns :: "'r \<Rightarrow> ownership"
  ro_delete :: "'r \<Rightarrow> string \<Rightarrow> string \<Rightarrow> 'r \<times> string list"

definition memory_ops :: "memory_registry registry_ops" where
  "memory_ops = \<lparr>ro_register = memory_register, ro_owns = memory_owns, ro_delete = memory_delete\<rparr>"

definition local_ops :: "records registry_ops" where
  "local_ops = \<lparr>ro_register = local_register, ro_owns = local_owns, ro_delete = local_delete\<rparr>"

definition postgres_ops :: "postgres_registry registry_ops" where
  "postgres_ops = \<lparr>ro_register = postgres_register, ro_owns = postgres_owns, ro_delete = postgres_delete\<rparr>"

record ('g, 'e, 'o, 'r, 'l) app =
  app_production :: bool
  app_policy :: guardrail_policy
  app_token :: "string option"                 \<comment> \<open>the ingestion token of the application or the environment\<close>
  app_consume :: "'l \<Rightarrow> rat \<Rightarrow> string \<Rightarrow> int \<Rightarrow> bool \<times> 'l"
  app_codec :: jwt_codec
  app_secret :: string
  app_registry :: "'r registry_ops"
  app_sets_ready :: bool                       \<comment> \<open>the set store has a path or a database\<close>
  app_ingester :: "('g, 'e) ingester"
  app_service :: "('g, 'e, 'o) query_service"
  app_store_deletes :: bool                    \<comment> \<open>the retrieval store has \<open>delete_application\<close>\<close>
  app_clock :: "activity \<Rightarrow> int"

record ('g, 'e, 'r, 'l) app_state =
  as_world :: "('g, 'e) ingest_world lease"
  as_query_flag :: bool
  as_cache :: result_cache
  as_registry :: 'r
  as_sets :: set_store
  as_ledger :: 'l

type_synonym ('g, 'e, 'r, 'l, 'a) route = "(('g, 'e, 'r, 'l) app_state, 'a) act"

text \<open>The headers of a request and the clock readings while it is served.\<close>

record headers =
  hd_authorization :: "string option"
  hd_correlation :: "string option"
  hd_token :: "string option"
  hd_now :: int
  hd_ledger_now :: rat

definition http :: "nat \<Rightarrow> string \<Rightarrow> ('s, 'a) act" where
  "http status detail = act_lift (Inl (HTTPException status detail))"

definition guard :: "bool \<Rightarrow> exc \<Rightarrow> ('s, unit) act" where   \<comment> \<open>\<open>if c: raise e\<close>\<close>
  "guard c e = act_lift (raise_if c e (Inr ()))"

definition map_error :: "(exc \<Rightarrow> exc) \<Rightarrow> ('s, 'a) act \<Rightarrow> ('s, 'a) act" where
  "map_error f m = act_catch m (\<lambda>e. act_lift (Inl (f e)))"

definition on_ingest :: "('g, 'e, 'a) ingestion \<Rightarrow> ('g, 'e, 'r, 'l, 'a) route" where
  "on_ingest m s = (case m (as_world s) of (r, w) \<Rightarrow> (r, s\<lparr>as_world := w\<rparr>))"

definition on_activity :: "(activity, 'a) act \<Rightarrow> ('g, 'e, 'r, 'l, 'a) route" where
  "on_activity m s =
     (case m (iw_activity (ls_world (as_world s))) of
        (r, a) \<Rightarrow> (r, s\<lparr>as_world := (as_world s)\<lparr>ls_world := (ls_world (as_world s))\<lparr>iw_activity := a\<rparr>\<rparr>\<rparr>))"

definition points_of :: "('g, 'e, 'r, 'l) app_state \<Rightarrow> 'e points" where
  "points_of s = iw_points (ls_world (as_world s))"

section \<open>Authorization\<close>

definition auth_of :: "service_auth_policy \<Rightarrow> auth_policy" where
  "auth_of p = \<lparr>au_issuer = ap_issuer p, au_audience = ap_audience p, au_max_age = ap_maximum_age p\<rparr>"

definition bearer :: string where
  "bearer = ''Bearer ''"

definition token_request :: "headers \<Rightarrow> string \<Rightarrow> string \<Rightarrow> request" where
  "token_request h role application =
     \<lparr>rq_token = drop (length bearer) (or_empty (hd_authorization h)), rq_role = role, rq_application = application,
      rq_now = hd_now h, rq_ledger_now = hd_ledger_now h, rq_consume = True\<rparr>"

definition verify_error :: "exc \<Rightarrow> exc" where
  "verify_error e =
     (case e of
        PermissionError _ \<Rightarrow> HTTPException 403 ''authorization_scope_denied''
      | _ \<Rightarrow> if is_value_error e then HTTPException 401 ''service_token_invalid'' else e)"

definition verify_token ::
  "('g, 'e, 'o, 'r, 'l) app \<Rightarrow> headers \<Rightarrow> string \<Rightarrow> string \<Rightarrow> ('g, 'e, 'r, 'l, claims) route" where
  "verify_token A h role application s =
     (case verify (app_consume A) (app_codec A) (app_secret A) (auth_of (gp_auth (app_policy A)))
             (token_request h role application) (as_ledger s) of
        (r, l) \<Rightarrow> (r, s\<lparr>as_ledger := l\<rparr>))"

definition authorize ::
  "('g, 'e, 'o, 'r, 'l) app \<Rightarrow> headers \<Rightarrow> string \<Rightarrow> string \<Rightarrow> ('g, 'e, 'r, 'l, unit) route" where
  "authorize A h role application =
     (if \<not> app_production A then act_return ()
      else act_bind (guard (\<not> truthy (hd_correlation h)) (HTTPException 400 ''correlation ID required'')) (\<lambda>_.
           act_bind (guard (\<not> truthy (hd_authorization h) \<or> \<not> starts_with bearer (or_empty (hd_authorization h)))
             (HTTPException 401 ''valid service authorization required'')) (\<lambda>_.
           act_bind (map_error verify_error (verify_token A h role application)) (\<lambda>_.
           act_return ()))))"

text \<open>\<open>secrets.compare_digest\<close> takes ASCII text only.\<close>

definition ascii :: "string \<Rightarrow> bool" where
  "ascii s = list_all (\<lambda>c. code c < 128) s"

definition check_token :: "('g, 'e, 'o, 'r, 'l) app \<Rightarrow> headers \<Rightarrow> ('g, 'e, 'r, 'l, unit) route" where
  "check_token A h =
     (if \<not> truthy (app_token A) \<or> \<not> truthy (hd_token h) then http 401 ''valid ingestion token required''
      else act_bind (guard (\<not> ascii (or_empty (app_token A)) \<or> \<not> ascii (or_empty (hd_token h)))
             (TypeError ''comparing strings with non-ASCII characters is not supported'')) (\<lambda>_.
           guard (app_token A \<noteq> hd_token h) (HTTPException 401 ''valid ingestion token required'')))"

definition authorize_set ::
  "('g, 'e, 'o, 'r, 'l) app \<Rightarrow> headers \<Rightarrow> string \<Rightarrow> string \<Rightarrow> ('g, 'e, 'r, 'l, unit) route" where
  "authorize_set A h role application =
     (if app_production A then authorize A h role application else check_token A h)"

definition local_policy_hash :: string where
  "local_policy_hash = sha256_hex ''findociq-local-document-ownership-v1''"

definition set_policy_hash :: "('g, 'e, 'o, 'r, 'l) app \<Rightarrow> string" where
  "set_policy_hash A = (if app_production A then gp_hash (app_policy A) else local_policy_hash)"

section \<open>Document sets\<close>

definition owns_now :: "('g, 'e, 'o, 'r, 'l) app \<Rightarrow> ('g, 'e, 'r, 'l) app_state \<Rightarrow> ownership" where
  "owns_now A s = ro_owns (app_registry A) (as_registry s)"

text \<open>\<open>put\<close> asks for ownership before it opens the database, \<open>get\<close> opens it first.\<close>

definition put_document_set :: "('g, 'e, 'o, 'r, 'l) app \<Rightarrow> document_set \<Rightarrow> ('g, 'e, 'r, 'l, document_set) route" where
  "put_document_set A r s =
     (case put_set (owns_now A s) (as_sets s) r of
        (Inl e, _) \<Rightarrow> (Inl e, s)
      | (Inr x, sets) \<Rightarrow>
          if app_sets_ready A then (Inr x, s\<lparr>as_sets := sets\<rparr>)
          else (Inl (RuntimeError ''document_set_store_unavailable''), s))"

definition get_document_set ::
  "('g, 'e, 'o, 'r, 'l) app \<Rightarrow> string \<Rightarrow> string \<Rightarrow> ('g, 'e, 'r, 'l, document_set) route" where
  "get_document_set A set_id application s =
     (if \<not> app_sets_ready A then (Inl (RuntimeError ''document_set_store_unavailable''), s)
      else (get_set (owns_now A s) (as_sets s) set_id application (set_policy_hash A), s))"

record set_response =
  sr_application :: string
  sr_set :: string
  sr_count :: nat
  sr_policy_hash :: string

definition set_response_of :: "document_set \<Rightarrow> set_response" where
  "set_response_of r = \<lparr>sr_application = ds_application r, sr_set = ds_id r, sr_count = length (ds_documents r),
     sr_policy_hash = ds_policy_hash r\<rparr>"

definition create_document_set ::
  "('g, 'e, 'o, 'r, 'l) app \<Rightarrow> headers \<Rightarrow> string \<Rightarrow> string list \<Rightarrow> ('g, 'e, 'r, 'l, set_response) route" where
  "create_document_set A h application documents =
     act_bind (authorize_set A h ''document_ingest'' application) (\<lambda>_.
     act_bind
       (map_error (\<lambda>e. case e of PermissionError _ \<Rightarrow> HTTPException 403 ''evidence_scope_violation'' | _ \<Rightarrow> e)
         (act_bind (act_lift (freeze application documents (set_policy_hash A))) (put_document_set A))) (\<lambda>r.
     act_return (set_response_of r)))"

text \<open>The handlers that answer every other error with 503.\<close>

definition assessment_error :: "string \<Rightarrow> exc \<Rightarrow> exc" where
  "assessment_error unavailable e =
     (case e of
        PermissionError _ \<Rightarrow> HTTPException 403 ''evidence_scope_violation''
      | HTTPException _ _ \<Rightarrow> e
      | _ \<Rightarrow> if is_value_error e then HTTPException 422 ''evidence_inventory_invalid'' else HTTPException 503 unavailable)"

definition evidence_policy_of :: "('g, 'e, 'o, 'r, 'l) app \<Rightarrow> evidence_policy res" where
  "evidence_policy_of A =
     (case qs_policy (app_service A) of
        None \<Rightarrow> Inl (HTTPException 503 ''evidence_policy_unavailable'') | Some p \<Rightarrow> Inr p)"

definition validate_document_set ::
  "('g, 'e, 'o, 'r, 'l) app \<Rightarrow> headers \<Rightarrow> string \<Rightarrow> string \<Rightarrow> ('g, 'e, 'r, 'l, set_response \<times> string) route" where
  "validate_document_set A h application set_id =
     act_bind (authorize_set A h ''document_extract'' application) (\<lambda>_.
     map_error (assessment_error ''evidence_validation_unavailable'')
      (act_bind (get_document_set A set_id application) (\<lambda>r.
       act_bind (act_lift (evidence_policy_of A)) (\<lambda>policy.
       act_return (set_response_of r, policy_hash policy)))))"

section \<open>Assessment and extraction\<close>

text \<open>The three models of \<open>/extract\<close>.\<close>

record plain_request =
  pq_question :: string
  pq_question_id :: "string option"
  pq_documents :: "string list"
  pq_metric :: "string option"

record production_request =
  pe_application :: string
  pe_documents :: "string list"
  pe_metrics :: "string list"
  pe_command :: string

record set_request =
  sq_application :: string
  sq_set :: string
  sq_metrics :: "string list"
  sq_command :: string
  sq_links :: "basis_interpretation list"
  sq_link_command :: "string option"
  sq_date :: "string option"

datatype extract_payload =
  PlainRequest plain_request | ProductionRequest production_request | SetRequest set_request

definition listed :: "nat \<Rightarrow> nat \<Rightarrow> 'a list \<Rightarrow> bool" where
  "listed lo hi xs = (lo \<le> length xs \<and> length xs \<le> hi)"

text \<open>\<open>str_strip_whitespace\<close>, which the model of document-set requests does not set.\<close>

fun strip_payload :: "extract_payload \<Rightarrow> extract_payload" where
  "strip_payload (PlainRequest q) =
     PlainRequest \<lparr>pq_question = strip (pq_question q), pq_question_id = map_option strip (pq_question_id q),
       pq_documents = map strip (pq_documents q), pq_metric = map_option strip (pq_metric q)\<rparr>"
| "strip_payload (ProductionRequest q) =
     ProductionRequest \<lparr>pe_application = strip (pe_application q), pe_documents = map strip (pe_documents q),
       pe_metrics = map strip (pe_metrics q), pe_command = strip (pe_command q)\<rparr>"
| "strip_payload (SetRequest q) = SetRequest q"

definition is_command_id :: "string \<Rightarrow> bool" where   \<comment> \<open>\<open>^[0-9a-f-]{36}$\<close>\<close>
  "is_command_id s =
     (length s = 36 \<and> list_all (\<lambda>c. is_digit c \<or> in_range CHR ''a'' CHR ''f'' c \<or> c = CHR ''-'') s)"

definition is_iso_date :: "string \<Rightarrow> bool" where   \<comment> \<open>\<open>^\d{4}-\d{2}-\d{2}$\<close> in ASCII digits\<close>
  "is_iso_date s =
     (length s = 10 \<and> list_all (\<lambda>i. if i \<in> {4, 7} then s ! i = CHR ''-'' else is_digit (s ! i)) [0..<10])"

fun payload_ok :: "extract_payload \<Rightarrow> bool" where
  "payload_ok (PlainRequest q) =
     (bounded 1 4000 (pq_question q) \<and> opt_ok (bounded 1 200) (pq_question_id q) \<and> listed 0 20 (pq_documents q)
      \<and> opt_ok (bounded 1 100) (pq_metric q))"
| "payload_ok (ProductionRequest q) =
     (bounded 3 200 (pe_application q) \<and> listed 1 20 (pe_documents q) \<and> listed 1 20 (pe_metrics q)
      \<and> bounded 8 200 (pe_command q))"
| "payload_ok (SetRequest q) =
     (bounded 3 200 (sq_application q) \<and> is_hex64 (sq_set q) \<and> listed 1 20 (sq_metrics q) \<and> bounded 8 200 (sq_command q)
      \<and> listed 0 20 (sq_links q) \<and> opt_ok is_command_id (sq_link_command q) \<and> opt_ok is_iso_date (sq_date q))"

record assessment_response =
  rs_application :: string
  rs_set :: string
  rs_policy_hash :: string
  rs_link_command :: "string option"
  rs_fields :: "field_assessment list"
  rs_options :: "basis_interpretation list"
  rs_sections :: "section_class list"

definition allowed_questions :: "('g, 'e, 'o, 'r, 'l) app \<Rightarrow> string list \<Rightarrow> string list res" where
  "allowed_questions A metrics = res_map (extraction_question (app_policy A)) metrics"

definition assess_evidence ::
  "('g, 'e, 'o, 'r, 'l) app \<Rightarrow> headers \<Rightarrow> set_request \<Rightarrow> ('g, 'e, 'r, 'l, assessment_response) route" where
  "assess_evidence A h q =
     act_bind (authorize_set A h ''document_extract'' (sq_application q)) (\<lambda>_.
     map_error (assessment_error ''evidence_assessment_unavailable'')
      (act_bind (get_document_set A (sq_set q) (sq_application q)) (\<lambda>r.
       act_bind (act_lift (evidence_policy_of A)) (\<lambda>policy.
       act_bind (guard (list_ex (\<lambda>m. \<not> known_metric policy m) (sq_metrics q)) (HTTPException 422 ''metric_not_allowed'')) (\<lambda>_.
       act_bind (act_lift (if app_production A then allowed_questions A (sq_metrics q) else Inr [])) (\<lambda>_.
       act_bind (\<lambda>s. (assess_metrics (app_service A) (points_of s) (sq_metrics q) (ds_documents r) (ds_application r)
                        (sq_links q) (sq_link_command q) (sq_date q), s)) (\<lambda>(fields, sections, options).
       act_return \<lparr>rs_application = sq_application q, rs_set = ds_id r, rs_policy_hash = policy_hash policy,
         rs_link_command = sq_link_command q, rs_fields = fields, rs_options = options, rs_sections = sections\<rparr>)))))))"

record extract_response =
  xr_version :: string
  xr_question :: string
  xr_figures :: "figure list"
  xr_notes :: "string list"
  xr_application :: "string option"
  xr_command :: "string option"
  xr_policy_hash :: "string option"

definition mk_extract_response :: "extract_response \<Rightarrow> extract_response res" where
  "mk_extract_response x =
     raise_if (xr_figures x = [] \<or> \<not> opt_ok is_hex64 (xr_policy_hash x)) (ValidationError ''ExtractResponse'') (Inr x)"

definition set_extract_error :: "exc \<Rightarrow> exc" where
  "set_extract_error e =
     (case e of
        PermissionError _ \<Rightarrow> HTTPException 403 ''evidence_scope_violation''
      | EvidenceInsufficient c \<Rightarrow> HTTPException 422 c
      | _ \<Rightarrow> if is_value_error e then HTTPException 422 ''metric_not_allowed''
             else HTTPException 503 ''evidence_extraction_unavailable'')"

definition extract_set ::
  "('g, 'e, 'o, 'r, 'l) app \<Rightarrow> headers \<Rightarrow> set_request \<Rightarrow> ('g, 'e, 'r, 'l, extract_response) route" where
  "extract_set A h q =
     act_bind (authorize_set A h ''document_extract'' (sq_application q)) (\<lambda>_.
     act_bind (guard (sq_links q \<noteq> [] \<or> truthy (sq_link_command q))
       (HTTPException 422 ''use_evidence_assessments_for_interpretations'')) (\<lambda>_.
     act_bind
       (map_error set_extract_error
         (act_bind (get_document_set A (sq_set q) (sq_application q)) (\<lambda>r.
          act_bind (act_lift (if app_production A then allowed_questions A (sq_metrics q) else Inr [])) (\<lambda>_ s.
            (extract_metrics (app_service A) (points_of s) ''Application-scoped metric extraction'' (sq_metrics q)
               (ds_documents r) (Some (sq_application q)), s))))) (\<lambda>x.
     act_lift (mk_extract_response
       \<lparr>xr_version = ''2.1'', xr_question = ex_question x, xr_figures = ex_figures x, xr_notes = [],
        xr_application = Some (sq_application q), xr_command = Some (sq_command q),
        xr_policy_hash = Some (set_policy_hash A)\<rparr>))))"

text \<open>\<open>service.query\<close> on the state of the application: its lease has a flag of its own.\<close>

definition run_query ::
  "('g, 'e, 'o, 'r, 'l) app \<Rightarrow> string \<Rightarrow> string \<Rightarrow> string list \<Rightarrow> string option
   \<Rightarrow> ('g, 'e, 'r, 'l, reasoning_run) route" where
  "run_query A question mode documents application s =
     (case query (app_service A) question mode documents application
             \<lparr>ls_world = \<lparr>qw_server = iw_server (ls_world (as_world s)), qw_cache = as_cache s\<rparr>, ls_batch = as_query_flag s\<rparr> of
        (r, l) \<Rightarrow> (r, s\<lparr>as_world := (as_world s)\<lparr>ls_world := (ls_world (as_world s))\<lparr>iw_server := qw_server (ls_world l)\<rparr>\<rparr>,
                      as_query_flag := ls_batch l, as_cache := qw_cache (ls_world l)\<rparr>))"

definition pipeline_error :: "exc \<Rightarrow> exc" where
  "pipeline_error e =
     (if is_runtime_or_os_error e \<or> is_value_error e then HTTPException 503 ''local inference pipeline unavailable'' else e)"

definition extract_error :: "exc \<Rightarrow> exc" where
  "extract_error e =
     (case e of
        EvidenceInsufficient c \<Rightarrow> HTTPException 422 c
      | PermissionError _ \<Rightarrow> HTTPException 403 ''evidence_scope_violation''
      | _ \<Rightarrow> pipeline_error e)"

text \<open>Question, identifier, documents, application and metrics of a request that has no set.\<close>

type_synonym scope = "string \<times> string option \<times> string list \<times> string option \<times> string list"

definition production_scope ::
  "('g, 'e, 'o, 'r, 'l) app \<Rightarrow> headers \<Rightarrow> extract_payload \<Rightarrow> ('g, 'e, 'r, 'l, scope) route" where
  "production_scope A h payload =
     (case payload of
        ProductionRequest q \<Rightarrow>
          act_bind (authorize A h ''document_extract'' (pe_application q)) (\<lambda>_.
          act_bind (\<lambda>s. (raise_if (\<not> owns_now A s (pe_application q) (pe_documents q) (gp_hash (app_policy A)))
                          (HTTPException 403 ''evidence_scope_violation'') (Inr ()), s)) (\<lambda>_.
          act_bind (map_error (\<lambda>e. if is_value_error e then HTTPException 422 ''metric_not_allowed'' else e)
                     (act_lift (allowed_questions A (pe_metrics q)))) (\<lambda>questions.
          act_return (join newline questions, Some (pe_command q), pe_documents q, Some (pe_application q), pe_metrics q))))
      | _ \<Rightarrow> http 422 ''production extraction requires contract version 2.0'')"

definition local_scope :: "extract_payload \<Rightarrow> ('s, scope) act" where
  "local_scope payload =
     (case payload of
        PlainRequest q \<Rightarrow>
          act_return (pq_question q, pq_question_id q, pq_documents q, None,
            if truthy (pq_metric q) then [or_empty (pq_metric q)] else [])
      | _ \<Rightarrow> http 422 ''contract version 2.0 requires production guardrails'')"

definition extract_answer ::
  "('g, 'e, 'o, 'r, 'l) app \<Rightarrow> string option \<Rightarrow> string option \<Rightarrow> extraction \<Rightarrow> string list \<Rightarrow> extract_response res" where
  "extract_answer A question_id application x notes =
     mk_extract_response
       \<lparr>xr_version = (if app_production A then ''2.0'' else ''1.0''), xr_question = ex_question x,
        xr_figures = ex_figures x, xr_notes = notes, xr_application = application,
        xr_command = (if app_production A then question_id else None),
        xr_policy_hash = (if app_production A then Some (gp_hash (app_policy A)) else None)\<rparr>"

definition checked_extraction ::
  "('g, 'e, 'o, 'r, 'l) app \<Rightarrow> string list \<Rightarrow> reasoning_run \<Rightarrow> extraction res" where
  "checked_extraction A documents run =
     (case rr_extraction run of
        None \<Rightarrow> Inl (HTTPException 502 ''structured extraction unavailable'')
      | Some x \<Rightarrow>
          raise_if (ex_figures x = []) (HTTPException 502 ''structured extraction unavailable'')
         (raise_if (app_production A \<and> list_ex (\<lambda>f. ct_document (fg_citation f) \<notin> set documents) (ex_figures x))
            (HTTPException 502 ''extraction returned foreign evidence'') (Inr x)))"

definition extract_route ::
  "('g, 'e, 'o, 'r, 'l) app \<Rightarrow> headers \<Rightarrow> extract_payload \<Rightarrow> ('g, 'e, 'r, 'l, extract_response) route" where
  "extract_route A h payload =
     (case payload of
        SetRequest q \<Rightarrow> extract_set A h q
      | _ \<Rightarrow>
          act_bind (if app_production A then production_scope A h payload else local_scope payload)
           (\<lambda>(question, question_id, documents, application, metrics).
           if metrics \<noteq> [] then
             map_error extract_error
              (act_bind (\<lambda>s. (extract_metrics (app_service A) (points_of s) question metrics documents application, s)) (\<lambda>x.
               act_lift (extract_answer A question_id application x [])))
           else
             act_bind (map_error extract_error (run_query A question ''two_pass'' documents application)) (\<lambda>run.
             act_bind (act_lift (checked_extraction A documents run)) (\<lambda>x.
             act_lift (extract_answer A question_id application x (ex_notes x))))))"

record query_request =
  qq_question :: string
  qq_mode :: "string option"
  qq_question_id :: "string option"
  qq_documents :: "string list"

definition strip_query :: "query_request \<Rightarrow> query_request" where
  "strip_query q = \<lparr>qq_question = strip (qq_question q), qq_mode = qq_mode q,
     qq_question_id = map_option strip (qq_question_id q), qq_documents = map strip (qq_documents q)\<rparr>"

definition query_ok :: "query_request \<Rightarrow> bool" where
  "query_ok q = (bounded 1 4000 (qq_question q) \<and> opt_ok (\<lambda>m. m \<in> {''single_pass'', ''two_pass''}) (qq_mode q)
     \<and> opt_ok (bounded 1 200) (qq_question_id q) \<and> listed 0 20 (qq_documents q))"

definition query_route ::
  "('g, 'e, 'o, 'r, 'l) app \<Rightarrow> query_request \<Rightarrow> ('g, 'e, 'r, 'l, string \<times> answer) route" where
  "query_route A q =
     (if app_production A then http 404 ''not found''
      else let mode = (if truthy (qq_mode q) then or_empty (qq_mode q) else qs_default_mode (app_service A)) in
        act_bind (map_error pipeline_error (run_query A (qq_question q) mode (qq_documents q) None)) (\<lambda>run.
        act_return (mode, rr_answer run)))"

definition health :: "('g, 'e, 'o, 'r, 'l) app \<Rightarrow> string option" where
  "health A = (if app_production A then Some (gp_hash (app_policy A)) else None)"

section \<open>Ingestion\<close>

definition safe_codes :: "string list" where
  "safe_codes =
     [''active_pdf_content'', ''document_prompt_injection_risk'', ''document_parse_timeout'', ''embedded_file'',
      ''encrypted_pdf'', ''malformed_pdf'', ''malware_detected'', ''malware_scan_inconclusive'',
      ''malware_scanner_unavailable'', ''malware_scanner_version_unavailable'']"

definition safe_document_code :: "string \<Rightarrow> string" where
  "safe_document_code m = (if m \<in> set safe_codes then m else ''document_rejected'')"

definition ingestion_error :: "bool \<Rightarrow> exc \<Rightarrow> exc" where
  "ingestion_error production e =
     (let detail = (\<lambda>m. if production then safe_document_code m else m) in
      case e of
        DocumentIngestionError m \<Rightarrow> HTTPException 422 (detail m)
      | ValidationError m \<Rightarrow> HTTPException 422 (detail m)
      | _ \<Rightarrow> if is_runtime_or_os_error e then HTTPException 503 ''document ingestion pipeline unavailable'' else e)"

definition register_record ::
  "('g, 'e, 'o, 'r, 'l) app \<Rightarrow> document_record res \<Rightarrow> ('g, 'e, 'r, 'l, unit) route" where
  "register_record A record s =
     (case res_bind record (ro_register (app_registry A) (as_registry s)) of
        Inl e \<Rightarrow> (Inl e, s) | Inr r \<Rightarrow> (Inr (), s\<lparr>as_registry := r\<rparr>))"

definition ownership_digest :: "string list \<Rightarrow> string" where
  "ownership_digest parts = sha256_hex (join ''|'' parts)"

definition invalidate :: "string \<Rightarrow> ('g, 'e, 'r, 'l, unit) route" where
  "invalidate application s = (Inr (), s\<lparr>as_cache := invalidate_application application (as_cache s)\<rparr>)"

text \<open>\<open>_register_document\<close>\<close>

definition register_document ::
  "('g, 'e, 'o, 'r, 'l) app \<Rightarrow> headers \<Rightarrow> ingest_response \<Rightarrow> ('g, 'e, 'r, 'l, ingest_response) route" where
  "register_document A h x =
     (if \<not> app_production A then
        (if truthy (ir_application x)
         then act_bind (register_record A (mk_record 30 (hd_now h) (or_empty (ir_application x)) (ir_document x)
                 (ir_sha256 x) local_policy_hash)) (\<lambda>_. act_return x)
         else act_return x)
      else
        act_bind (guard (\<not> truthy (ir_application x) \<or> \<not> truthy (ir_policy_hash x))
          (RuntimeError ''production ingestion returned an unscoped receipt'')) (\<lambda>_.
        let application = or_empty (ir_application x); policy = or_empty (ir_policy_hash x) in
        act_bind (register_record A (mk_record (nat (re_terminal_days (gp_retention (app_policy A)))) (hd_now h)
            application (ir_document x) (ir_sha256 x) policy)) (\<lambda>_.
        act_bind (invalidate application) (\<lambda>_.
        act_return (x\<lparr>ir_ownership_receipt :=
          Some (ownership_digest [application, ir_document x, ir_sha256 x, policy])\<rparr>)))))"

definition ingest_scope ::
  "('g, 'e, 'o, 'r, 'l) app \<Rightarrow> headers \<Rightarrow> string \<Rightarrow> string option \<Rightarrow> ('g, 'e, 'r, 'l, unit) route" where
  "ingest_scope A h version application =
     (if app_production A
      then act_bind (guard (version \<noteq> ''2.0'' \<or> \<not> truthy application)
             (HTTPException 422 ''production ingestion requires application scope'')) (\<lambda>_.
           authorize A h ''document_ingest'' (or_empty application))
      else check_token A h)"

definition ingest_document ::
  "('g, 'e, 'o, 'r, 'l) app \<Rightarrow> headers \<Rightarrow> ingest_request \<Rightarrow> ('g, 'e, 'r, 'l, ingest_response) route" where
  "ingest_document A h r =
     act_bind (ingest_scope A h (iq_version r) (iq_application r)) (\<lambda>_.
     map_error (ingestion_error (app_production A))
      (act_bind (on_ingest (ingest (app_ingester A) r)) (register_document A h)))"

record batch_response =
  br_version :: string
  br_documents :: "ingest_response list"
  br_set :: "string option"
  br_policy_hash :: "string option"

definition batch_reporter :: "('g, 'e, 'o, 'r, 'l) app \<Rightarrow> string option \<Rightarrow> reporter" where
  "batch_reporter A batch phase message details a =
     (if truthy batch then report a (app_clock A a) (or_empty batch) phase message details else (Inr (), a))"

definition start_activity :: "string option \<Rightarrow> string option \<Rightarrow> ('g, 'e, 'r, 'l, unit) route" where
  "start_activity batch application =
     on_activity (\<lambda>a.
       if \<not> truthy batch then (Inr (), a)
       else case start_batch a (or_empty batch) application of Inl e \<Rightarrow> (Inl e, a) | Inr a' \<Rightarrow> (Inr (), a'))"

definition finish_activity :: "string option \<Rightarrow> activity_status \<Rightarrow> ('g, 'e, 'r, 'l, unit) route" where
  "finish_activity batch status =
     on_activity (\<lambda>a. (Inr (), if truthy batch then finish_batch a (or_empty batch) status else a))"

definition batch_set ::
  "('g, 'e, 'o, 'r, 'l) app \<Rightarrow> string option \<Rightarrow> ingest_response list \<Rightarrow> ('g, 'e, 'r, 'l, document_set option) route" where
  "batch_set A application documents =
     (if truthy application \<and> list_all (\<lambda>d. ir_application d = application) documents
      then act_bind (act_bind (act_lift (freeze (or_empty application) (map ir_document documents) (set_policy_hash A)))
             (put_document_set A)) (\<lambda>r. act_return (Some r))
      else act_return None)"

text \<open>The whole batch is ingested before the first document is registered.\<close>

definition run_document_batch ::
  "('g, 'e, 'o, 'r, 'l) app \<Rightarrow> headers \<Rightarrow> batch_request \<Rightarrow> string option \<Rightarrow> ('g, 'e, 'r, 'l, batch_response) route" where
  "run_document_batch A h b application =
     act_bind (on_ingest (ingest_batch (app_ingester A) (Some (batch_reporter A (bq_batch b))) (bq_documents b))) (\<lambda>xs.
     act_bind (act_map (register_document A h) xs) (\<lambda>documents.
     act_bind (finish_activity (bq_batch b) Completed) (\<lambda>_.
     act_bind (batch_set A application documents) (\<lambda>r.
     act_return \<lparr>br_version = bq_version b, br_documents = documents, br_set = map_option ds_id r,
       br_policy_hash = map_option ds_policy_hash r\<rparr>))))"

definition ingest_document_batch ::
  "('g, 'e, 'o, 'r, 'l) app \<Rightarrow> headers \<Rightarrow> batch_request \<Rightarrow> ('g, 'e, 'r, 'l, batch_response) route" where
  "ingest_document_batch A h b =
     (let application = iq_application (hd (bq_documents b)) in
      act_bind (ingest_scope A h (bq_version b) application) (\<lambda>_.
      act_bind (start_activity (bq_batch b) application) (\<lambda>_.
      act_catch (run_document_batch A h b application) (\<lambda>e.
        act_bind (finish_activity (bq_batch b) Failed) (\<lambda>_.
        act_lift (Inl (ingestion_error (app_production A) e)))))))"

definition document_batch_activity ::
  "('g, 'e, 'o, 'r, 'l) app \<Rightarrow> headers \<Rightarrow> string \<Rightarrow> int \<Rightarrow> ('g, 'e, 'r, 'l, activity_response) route" where
  "document_batch_activity A h batch after =
     act_bind
      (if app_production A
       then (\<lambda>s. case application_of (iw_activity (ls_world (as_world s))) batch of
              Some (a # as) \<Rightarrow> authorize A h ''activity_read'' (a # as) s
            | _ \<Rightarrow> http 404 ''document batch activity not found'' s)
       else check_token A h) (\<lambda>_.
     act_bind (on_activity (\<lambda>a. (Inr (snapshot a batch (nat (max 0 after))), a))) (\<lambda>found.
     case found of None \<Rightarrow> http 404 ''document batch activity not found'' | Some x \<Rightarrow> act_return x))"

section \<open>Deletion\<close>

record deletion_response =
  dl_application :: string
  dl_documents :: "string list"
  dl_receipt :: string
  dl_policy_hash :: string

definition delete_ownership ::
  "('g, 'e, 'o, 'r, 'l) app \<Rightarrow> string \<Rightarrow> ('g, 'e, 'r, 'l, string list) route" where
  "delete_ownership A application s =
     (case ro_delete (app_registry A) (as_registry s) application (gp_hash (app_policy A)) of
        (r, ids) \<Rightarrow> (Inr ids, s\<lparr>as_registry := r\<rparr>))"

definition delete_evidence :: "string \<Rightarrow> ('g, 'e, unit) ingestion" where
  "delete_evidence application s =
     (Inr (), s\<lparr>ls_world := (ls_world s)\<lparr>iw_points := delete_points application (iw_points (ls_world s))\<rparr>\<rparr>)"

definition delete_files :: "string \<Rightarrow> ('g, 'e, unit) ingestion" where
  "delete_files application s =
     (case iw_store (ls_world s) of
        None \<Rightarrow> (Inr (), s)
      | Some st \<Rightarrow>
          (case delete_application st application of
             (r, st') \<Rightarrow> (r, s\<lparr>ls_world := (ls_world s)\<lparr>iw_store := Some st'\<rparr>\<rparr>)))"

definition retention_delete ::
  "('g, 'e, 'o, 'r, 'l) app \<Rightarrow> headers \<Rightarrow> string \<Rightarrow> string \<Rightarrow> ('g, 'e, 'r, 'l, deletion_response) route" where
  "retention_delete A h application command =
     (if \<not> app_production A then http 404 ''not found''
      else act_bind (authorize A h ''document_delete'' application) (\<lambda>_.
           act_bind (delete_ownership A application) (\<lambda>ids.
           act_bind (guard (\<not> app_store_deletes A) (HTTPException 503 ''document deletion store unavailable'')) (\<lambda>_.
           act_bind (on_ingest (delete_evidence application)) (\<lambda>_.
           act_bind (on_ingest (delete_files application)) (\<lambda>_.
           act_return \<lparr>dl_application = application, dl_documents = ids,
             dl_receipt = sha256_hex (join ''|'' ([application, command] @ ids @ [gp_hash (app_policy A)])),
             dl_policy_hash = gp_hash (app_policy A)\<rparr>))))))"

section \<open>The service as a whole\<close>

text \<open>
  One request to any route. The framework validates the body by its model first; a request that fails
  there gets status 422 and no handler runs.
\<close>

datatype api_call =
    CreateSet string "string list"
  | ValidateSet string string
  | Assess set_request
  | Extract extract_payload
  | Query query_request
  | IngestDocument ingest_request
  | IngestBatch batch_request
  | BatchActivity string int
  | Delete string string
  | Health

datatype api_response =
    SetCreated set_response
  | SetValid set_response string
  | Assessed assessment_response
  | Extracted extract_response
  | Answered string answer
  | Ingested ingest_response
  | BatchIngested batch_response
  | ActivityShown activity_response
  | Deleted deletion_response
  | Healthy "string option"

definition act_result :: "('a \<Rightarrow> 'b) \<Rightarrow> ('s, 'a) act \<Rightarrow> ('s, 'b) act" where
  "act_result f m = act_bind m (\<lambda>x. act_return (f x))"

definition unprocessable :: exc where
  "unprocessable = HTTPException 422 ''request validation''"

definition validated_as :: "'a res \<Rightarrow> ('a \<Rightarrow> ('s, 'b) act) \<Rightarrow> ('s, 'b) act" where
  "validated_as r k = (case r of Inl _ \<Rightarrow> act_lift (Inl unprocessable) | Inr x \<Rightarrow> k x)"

definition valid_if :: "bool \<Rightarrow> ('s, 'b) act \<Rightarrow> ('s, 'b) act" where
  "valid_if c m = (if c then m else act_lift (Inl unprocessable))"

fun serve ::
  "('g, 'e, 'o, 'r, 'l) app \<Rightarrow> headers \<Rightarrow> api_call \<Rightarrow> ('g, 'e, 'r, 'l, api_response) route" where
  "serve A h (CreateSet application documents) =
     valid_if (bounded 3 200 application \<and> listed 1 10000 documents)
       (act_result SetCreated (create_document_set A h application documents))"
| "serve A h (ValidateSet application set_id) =
     valid_if (bounded 3 200 application \<and> is_hex64 set_id)
       (act_result (\<lambda>(r, p). SetValid r p) (validate_document_set A h application set_id))"
| "serve A h (Assess q) = valid_if (payload_ok (SetRequest q)) (act_result Assessed (assess_evidence A h q))"
| "serve A h (Extract payload) = valid_if (payload_ok (strip_payload payload))
       (act_result Extracted (extract_route A h (strip_payload payload)))"
| "serve A h (Query q) = valid_if (query_ok (strip_query q))
       (act_result (\<lambda>(m, a). Answered m a) (query_route A (strip_query q)))"
| "serve A h (IngestDocument raw) =
     validated_as (mk_ingest_request raw) (\<lambda>r. act_result Ingested (ingest_document A h r))"
| "serve A h (IngestBatch raw) =
     validated_as (mk_batch_request raw) (\<lambda>b. act_result BatchIngested (ingest_document_batch A h b))"
| "serve A h (BatchActivity batch after) = act_result ActivityShown (document_batch_activity A h batch after)"
| "serve A h (Delete application command) =
     valid_if (bounded 8 200 command) (act_result Deleted (retention_delete A h application command))"
| "serve A h Health = act_return (Healthy (health A))"

text \<open>The states an application goes through while it serves requests, one after the other.\<close>

inductive served :: "('g, 'e, 'o, 'r, 'l) app \<Rightarrow> ('g, 'e, 'r, 'l) app_state \<Rightarrow> ('g, 'e, 'r, 'l) app_state \<Rightarrow> bool"
  for A where
  start: "served A s s"
| step: "served A s t \<Longrightarrow> serve A h c t = (outcome, u) \<Longrightarrow> served A s u"

end
