(* ===== verification/ApiProps.thy ===== *)
theory ApiProps
  imports Api IngestProps
begin

text \<open>
  What the service promises over any sequence of requests: who is let in, what the index, the document
  sets and the activity feed hold, what an extraction may cite and what a deletion leaves.
\<close>

section \<open>Relations every request keeps\<close>

definition admissible :: "ingest_request list \<Rightarrow> bool" where
  "admissible rs = list_all (\<lambda>r. iq_version r = ''2.0'' \<longrightarrow> truthy (iq_application r)) rs"

text \<open>
  A relation between states that the elementary steps of the handlers keep is kept by every request:
  consuming a token, running a query, registering and deleting ownership, storing a frozen set, starting,
  finishing and reporting a batch, ingesting validated requests and deleting evidence and files.
\<close>

locale api_relation = act_relation R
  for R :: "('g, 'e, 'r, 'l) app_state \<Rightarrow> ('g, 'e, 'r, 'l) app_state \<Rightarrow> bool"
    and A :: "('g, 'e, 'o, 'r, 'l) app" +
  assumes run_ledger: "R s (s\<lparr>as_ledger := l\<rparr>)"
    and run_server: "R s (s\<lparr>as_world := (as_world s)\<lparr>ls_world := (ls_world (as_world s))\<lparr>iw_server := g\<rparr>\<rparr>,
        as_query_flag := b, as_cache := c\<rparr>)"
    and run_cache: "R s (s\<lparr>as_cache := c\<rparr>)"
    and run_register: "keeps R (register_record A x)"
    and run_disown: "keeps R (delete_ownership A a)"
    and run_put: "freeze a ds (set_policy_hash A) = Inr r \<Longrightarrow> keeps R (put_document_set A r)"
    and run_start: "keeps R (start_activity batch ownr)"
    and run_finish: "keeps R (finish_activity batch st)"
    and run_ingest: "admissible rs \<Longrightarrow> keeps R (on_ingest (ingest_batch (app_ingester A) None rs))"
      "admissible rs \<Longrightarrow> keeps R (on_ingest (ingest_batch (app_ingester A) (Some (batch_reporter A batch)) rs))"
    and run_unindex: "keeps R (on_ingest (delete_evidence a))"
    and run_unlink: "keeps R (on_ingest (delete_files a))"
begin

lemma run_guard: "keeps R (guard c e)" "keeps R (http n d)"
  by (simp_all add: guard_def http_def run_lift)

lemma run_map_error: "keeps R m \<Longrightarrow> keeps R (map_error f m)"
  by (simp add: map_error_def run_catch run_lift)

lemma run_pure: "keeps R (\<lambda>s. (f s, s))"
  by (simp add: keeps_def run_refl)

lemma run_verify: "keeps R (verify_token A h role a)"
  by (auto simp: keeps_def verify_token_def run_ledger split: prod.splits)

lemma run_authorize: "keeps R (authorize A h role a)"
  by (auto simp: authorize_def intro!: run_return run_bind run_guard run_map_error run_verify)

lemma run_check_token: "keeps R (check_token A h)"
  by (auto simp: check_token_def intro!: run_bind run_guard)

lemma run_authorize_set: "keeps R (authorize_set A h role a)"
  by (simp add: authorize_set_def run_authorize run_check_token)

lemma run_run_query: "keeps R (run_query A q m ds a)"
  by (auto simp: keeps_def run_query_def run_server split: prod.splits)

lemma run_get: "keeps R (get_document_set A i a)"
  by (simp add: keeps_def get_document_set_def run_refl)

lemma run_freeze_put:
  "keeps R (act_bind (act_lift (freeze a ds (set_policy_hash A))) (put_document_set A))"
  by (intro run_bind_lift run_put)

lemma run_create: "keeps R (create_document_set A h a ds)"
  unfolding create_document_set_def
  by (intro run_bind run_authorize_set run_map_error run_freeze_put run_return)

lemma run_validate: "keeps R (validate_document_set A h a i)"
  unfolding validate_document_set_def
  by (intro run_bind run_authorize_set run_map_error run_get run_lift run_return)

lemma run_assess: "keeps R (assess_evidence A h q)"
  unfolding assess_evidence_def
  by (intro run_bind run_authorize_set run_map_error run_get run_lift run_guard run_pure)
    (auto intro: run_return split: prod.splits)

lemma run_extract_set: "keeps R (extract_set A h q)"
  unfolding extract_set_def
  by (intro run_bind run_authorize_set run_map_error run_get run_lift run_guard run_pure)

lemma run_scope: "keeps R (production_scope A h payload)" "keeps R (local_scope payload)"
  unfolding production_scope_def local_scope_def
  by (auto intro!: run_bind run_authorize run_map_error run_lift run_guard run_pure run_return split: extract_payload.split)

lemma run_extract: "keeps R (extract_route A h payload)"
  unfolding extract_route_def
  by (auto intro!: run_bind run_extract_set run_scope run_map_error run_lift run_pure run_run_query
      split: extract_payload.split prod.splits)

lemma run_query_route: "keeps R (query_route A q)"
  unfolding query_route_def Let_def
  by (auto intro!: run_bind run_guard run_map_error run_run_query run_return)

lemma run_invalidate: "keeps R (invalidate a)"
  by (simp add: keeps_def invalidate_def run_cache)

lemma run_register_document: "keeps R (register_document A h x)"
  unfolding register_document_def Let_def
  by (auto intro!: run_bind run_guard run_register run_return run_invalidate)

lemma run_ingest_scope: "keeps R (ingest_scope A h v a)"
  unfolding ingest_scope_def by (auto intro!: run_bind run_guard run_authorize run_check_token)

lemma run_ingest_document:
  assumes "admissible [r]"
  shows "keeps R (ingest_document A h r)"
proof -
  have alone: "on_ingest (ingest (app_ingester A) r)
      = act_bind (on_ingest (ingest_batch (app_ingester A) None [r])) (\<lambda>rs. act_return (hd rs))"
    by (rule ext) (auto simp: on_ingest_def ingest_def act_bind_def act_return_def split: prod.splits sum.splits)
  show ?thesis unfolding ingest_document_def alone
    by (auto intro!: run_bind run_ingest_scope run_map_error run_ingest(1)[OF assms] run_return run_register_document)
qed

lemma run_batch_set: "keeps R (batch_set A ownr ds)"
  unfolding batch_set_def by (auto intro!: run_bind run_freeze_put run_return)

lemma run_document_batch:
  assumes "admissible (bq_documents b)"
  shows "keeps R (ingest_document_batch A h b)"
  unfolding ingest_document_batch_def run_document_batch_def Let_def
  by (intro run_bind run_ingest_scope run_start run_catch run_ingest(2)[OF assms] run_map run_register_document
      run_finish run_batch_set run_return run_lift)

lemma run_activity: "keeps R (document_batch_activity A h batch after)"
proof -
  have same: "on_activity (\<lambda>a. (Inr (f a), a)) = (\<lambda>s. (Inr (f (iw_activity (ls_world (as_world s)))), s))" for f
    by (rule ext) (simp add: on_activity_def)
  have scope: "keeps R (\<lambda>s. case application_of (iw_activity (ls_world (as_world s))) batch of
      Some (a # as) \<Rightarrow> authorize A h ''activity_read'' (a # as) s
    | _ \<Rightarrow> http 404 ''document batch activity not found'' s)"
    unfolding keeps_def
    by (auto intro: run_authorize[unfolded keeps_def, rule_format] run_guard(2)[unfolded keeps_def, rule_format]
        split: option.splits list.splits)
  show ?thesis unfolding document_batch_activity_def same
    by (intro run_bind run_pure) (auto simp: scope run_check_token intro: run_guard run_return split: option.splits)
qed

lemma run_delete: "keeps R (retention_delete A h a command)"
  unfolding retention_delete_def
  by (auto intro!: run_bind run_guard run_authorize run_disown run_unindex run_unlink run_return)

lemma run_result: "keeps R m \<Longrightarrow> keeps R (act_result f m)"
  by (simp add: act_result_def run_bind run_return)

lemma run_valid: "keeps R m \<Longrightarrow> keeps R (valid_if c m)"
  by (simp add: valid_if_def run_lift)

lemma run_validated: "(\<And>x. r = Inr x \<Longrightarrow> keeps R (k x)) \<Longrightarrow> keeps R (validated_as r k)"
  by (auto simp: validated_as_def run_lift split: sum.split)

end

lemma mk_ingest_request_admissible: "mk_ingest_request raw = Inr r \<Longrightarrow> admissible [r]"
  by (auto simp: mk_ingest_request_def require_v2_scope_def Let_def raise_if_Inr_iff admissible_def)

lemma mk_batch_request_admissible:
  assumes "mk_batch_request raw = Inr b"
  shows "admissible (bq_documents b)"
proof -
  obtain ds where ds: "res_map mk_ingest_request (bq_documents raw) = Inr ds" "bq_documents b = ds"
    using assms by (auto simp: mk_batch_request_def consistent_contract_def res_simps)
  have "iq_version r = ''2.0'' \<longrightarrow> truthy (iq_application r)" if r: "r \<in> set ds" for r
    using res_map_in_set[OF ds(1) r] mk_ingest_request_admissible by (auto simp: admissible_def)
  then show ?thesis by (simp add: ds(2) admissible_def list_all_iff)
qed

context api_relation
begin

lemma run_serve: "keeps R (serve A h c)"
  by (cases c) (auto intro!: run_valid run_result run_validated run_create run_validate run_assess run_extract
      run_query_route run_ingest_document run_document_batch run_activity run_delete run_return
      dest: mk_ingest_request_admissible mk_batch_request_admissible)

lemma run_served: "served A s t \<Longrightarrow> R s t"
proof (induction rule: served.induct)
  case (step s t h c outcome u)
  then show ?case using keepsD[OF run_serve] run_trans by blast
qed (rule run_refl)

end

section \<open>The index over any sequence of requests\<close>

definition production_ready :: "('g, 'e, 'o, 'r, 'l) app \<Rightarrow> dlp_provider \<Rightarrow> bool" where
  "production_ready A dlp =
     (ig_policy (app_ingester A) \<noteq> None \<and> ig_scanner (app_ingester A) \<noteq> None \<and> ig_dlp (app_ingester A) = Some dlp)"

definition owned_and_vetted :: "('g, 'e, 'o, 'r, 'l) app \<Rightarrow> dlp_provider \<Rightarrow> chunk \<Rightarrow> bool" where
  "owned_and_vetted A dlp c =
     (\<exists>r. truthy (iq_application r) \<and> vetted (app_ingester A) dlp r c)"

definition index_kept ::
  "('g, 'e, 'o, 'r, 'l) app \<Rightarrow> dlp_provider \<Rightarrow> ('g, 'e, 'r, 'l) app_state \<Rightarrow> ('g, 'e, 'r, 'l) app_state \<Rightarrow> bool" where
  "index_kept A dlp s s' =
     (production_ready A dlp \<longrightarrow>
        (\<forall>p \<in> set (points_of s'). p \<in> set (points_of s) \<or> owned_and_vetted A dlp (fst (snd p))))"

lemma production_scope_of_request:
  assumes "ig_policy G \<noteq> None" "decode_and_validate G r = Inr content" "admissible rs" "r \<in> set rs"
  shows "truthy (iq_application r)"
proof -
  have "iq_version r = ''2.0''" using assms(1,2)
    by (auto simp: decode_and_validate_def check_production_def res_simps split: option.splits)
  then show ?thesis using assms(3,4) by (auto simp: admissible_def list_all_iff)
qed

lemma ingest_index_kept:
  fixes A :: "('g, 'e, 'o, 'r, 'l) app"
  assumes "admissible rs"
  shows "keeps (index_kept A dlp) (on_ingest (ingest_batch (app_ingester A) reporter rs))"
  unfolding keeps_def
proof
  fix s :: "('g, 'e, 'r, 'l) app_state"
  obtain outcome w where run: "ingest_batch (app_ingester A) reporter rs (as_world s) = (outcome, w)"
    by (cases "ingest_batch (app_ingester A) reporter rs (as_world s)")
  have "owned_and_vetted A dlp (fst (snd p))"
    if "production_ready A dlp" "p \<in> set (iw_points (ls_world w))" "p \<notin> set (points_of s)" for p
  proof -
    from that(1) obtain clam where ready: "ig_policy (app_ingester A) \<noteq> None"
      "ig_scanner (app_ingester A) = Some clam" "ig_dlp (app_ingester A) = Some dlp"
      by (auto simp: production_ready_def)
    from batch_points_vetted[OF ready run that(2) that(3)[unfolded points_of_def]]
    obtain r content where r: "r \<in> set rs" "vetted (app_ingester A) dlp r (fst (snd p))"
      "decode_and_validate (app_ingester A) r = Inr content" by blast
    then show ?thesis using production_scope_of_request[OF ready(1) r(3) assms r(1)]
      by (auto simp: owned_and_vetted_def)
  qed
  then show "index_kept A dlp s (snd (on_ingest (ingest_batch (app_ingester A) reporter rs) s))"
    using run by (auto simp: index_kept_def on_ingest_def points_of_def)
qed

interpretation api_index: api_relation "index_kept A dlp" A for A dlp
proof unfold_locales
  show "keeps (index_kept A dlp) (on_ingest (delete_evidence a))" for A :: "('a, 'b, 'c, 'd, 'e) app" and dlp a
    by (auto simp: keeps_def index_kept_def on_ingest_def delete_evidence_def points_of_def delete_points_def)
  show "keeps (index_kept A dlp) (on_ingest (delete_files a))" for A :: "('a, 'b, 'c, 'd, 'e) app" and dlp a
    by (auto simp: keeps_def index_kept_def on_ingest_def delete_files_def points_of_def split: option.splits prod.splits)
qed (auto simp: index_kept_def points_of_def keeps_def register_record_def delete_ownership_def put_document_set_def
    start_activity_def finish_activity_def on_activity_def ingest_index_kept[unfolded keeps_def points_of_def index_kept_def]
    split: sum.splits prod.splits)

lemma served_points:
  assumes "production_ready A dlp" "served A s t" "points_of s = []" "p \<in> set (points_of t)"
  shows "owned_and_vetted A dlp (fst (snd p))"
  using api_index.run_served[OF assms(2)] assms(1,3,4) by (auto simp: index_kept_def)

text \<open>C10: Starting from an empty index, after any sequence of requests to a production service, each point of the
  index is of a document of some application, stamped with that application and with the
  configuration, and every text of it is the output of a redaction that found no instructions.\<close>

theorem served_index_vetted:
  assumes "production_ready A dlp" "served A s t" "points_of s = []" "p \<in> set (points_of t)"
  shows "owned_and_vetted A dlp (fst (snd p))"
  using assms by (rule served_points)

section \<open>Document sets, ownership and the activity feed\<close>

definition feed_of :: "('g, 'e, 'r, 'l) app_state \<Rightarrow> activity" where
  "feed_of s = iw_activity (ls_world (as_world s))"

definition sets_ok :: "('g, 'e, 'o, 'r, 'l) app \<Rightarrow> set_store \<Rightarrow> bool" where
  "sets_ok A sets =
     (distinct (map fst sets)
      \<and> list_all (\<lambda>(k, a, r). k = ds_id r \<and> ds_application r = a \<and> ds_policy_hash r = set_policy_hash A
           \<and> freeze a (ds_documents r) (set_policy_hash A) = Inr r) sets)"

definition sets_kept :: "('g, 'e, 'o, 'r, 'l) app \<Rightarrow> ('g, 'e, 'r, 'l) app_state \<Rightarrow> ('g, 'e, 'r, 'l) app_state \<Rightarrow> bool" where
  "sets_kept A s t = (sets_ok A (as_sets s) \<longrightarrow> sets_ok A (as_sets t) \<and> map_of (as_sets s) \<subseteq>\<^sub>m map_of (as_sets t))"

lemma freeze_frozen:
  assumes "freeze a ds h = Inr r"
  shows "ds_application r = a" "ds_policy_hash r = h" "freeze a (ds_documents r) h = Inr r"
proof -
  have r: "ds_application r = a" "ds_policy_hash r = h" "ds_documents r = sort (uniq ds)"
    using assms by (auto simp: freeze_def Let_def raise_if_Inr_iff)
  show "ds_application r = a" "ds_policy_hash r = h" by (fact r)+
  have "sort (uniq (sort (uniq ds))) = sort (uniq ds)" by (rule sorted_distinct_set_unique) auto
  then show "freeze a (ds_documents r) h = Inr r" using assms by (simp add: r(3) freeze_def Let_def)
qed

lemma put_sets_kept:
  assumes "freeze a ds (set_policy_hash A) = Inr r"
  shows "keeps (sets_kept A) (put_document_set A r)"
  using freeze_frozen[OF assms]
  by (auto simp: keeps_def sets_kept_def put_document_set_def put_set_def sets_ok_def dict_has_iff map_le_def map_add_def
      split: prod.splits sum.splits if_splits option.splits dest: map_of_SomeD)

lemma ingest_elsewhere:
  "as_sets (snd (on_ingest m s)) = as_sets s" "as_registry (snd (on_ingest m s)) = as_registry s"
  "as_sets (snd (on_activity f s)) = as_sets s" "as_registry (snd (on_activity f s)) = as_registry s"
  by (auto simp: on_ingest_def on_activity_def split: prod.splits)

lemma register_elsewhere: "as_sets (snd (register_record A x s)) = as_sets s" "as_sets (snd (delete_ownership A a s)) = as_sets s"
  by (auto simp: register_record_def delete_ownership_def split: sum.splits prod.splits)

interpretation api_sets: api_relation "sets_kept A" A for A
  by unfold_locales
    (auto simp: put_sets_kept, auto simp: sets_kept_def keeps_def ingest_elsewhere register_elsewhere start_activity_def
      finish_activity_def intro: map_le_trans)

text \<open>Which records of ownership are legal is the registry's; every request keeps them legal.\<close>

lemma registry_relation:
  assumes "document_registry (ro_register (app_registry A)) (ro_owns (app_registry A)) (ro_delete (app_registry A)) active legal"
  shows "api_relation (\<lambda>s t. legal (as_registry s) \<longrightarrow> legal (as_registry t)) A"
proof -
  have put: "as_registry (snd (put_document_set A r s)) = as_registry s" for r s
    by (auto simp: put_document_set_def split: prod.splits sum.splits)
  have "legal (as_registry (snd (register_record A x s)))" if "legal (as_registry s)" for x s
    using document_registry.register_legal[OF assms that]
    by (auto simp: register_record_def that res_bind_def split: sum.splits)
  moreover have "legal (as_registry (snd (delete_ownership A a s)))" if "legal (as_registry s)" for a s
    using document_registry.delete_legal[OF assms that] by (auto simp: delete_ownership_def split: prod.splits) (metis fst_conv)
  ultimately show ?thesis
    by unfold_locales (auto simp: keeps_def put ingest_elsewhere start_activity_def finish_activity_def)
qed

text \<open>The feed.\<close>

definition feed_sound :: "('g, 'e) ingest_world lease \<Rightarrow> ('g, 'e) ingest_world lease \<Rightarrow> bool" where
  "feed_sound w w' = (activity_inv (iw_activity (ls_world w)) \<longrightarrow> activity_inv (iw_activity (ls_world w')))"

definition sound_reporter :: "reporter option \<Rightarrow> bool" where
  "sound_reporter reporter =
     (case reporter of None \<Rightarrow> True
      | Some f \<Rightarrow> \<forall>stage m d a. activity_inv a \<longrightarrow> activity_inv (snd (f stage m d a)))"

lemma batch_reporter_sound: "sound_reporter None" "sound_reporter (Some (batch_reporter A batch))"
  using report_inv[OF _ prod.collapse[symmetric]] by (simp_all add: sound_reporter_def batch_reporter_def)

lemma feed_steps:
  assumes "sound_reporter reporter"
  shows "ingest_steps feed_sound reporter"
proof unfold_locales
  show "feed_sound s (s\<lparr>ls_world := (ls_world s)\<lparr>iw_activity := a\<rparr>\<rparr>)"
    if "reporter = Some f" "f stage m d (iw_activity (ls_world s)) = (r, a)" for s f stage m d r a
    using assms that by (auto simp: feed_sound_def sound_reporter_def) (metis snd_conv)
qed (auto simp: feed_sound_def keeps_def store_encrypted_def store_plain_def quarantine_def split: prod.splits option.splits)

lemma feed_upsert: "keeps feed_sound (upsert_chunks chunks es)"
  by (auto simp: keeps_def feed_sound_def upsert_chunks_def)

definition feed_kept :: "('g, 'e, 'r, 'l) app_state \<Rightarrow> ('g, 'e, 'r, 'l) app_state \<Rightarrow> bool" where
  "feed_kept s t = (activity_inv (feed_of s) \<longrightarrow> activity_inv (feed_of t))"

lemma ingest_feed_kept:
  assumes "sound_reporter reporter"
  shows "keeps feed_kept (on_ingest (ingest_batch G reporter rs))"
  using ingest_steps.keeps_ingest_batch[OF feed_steps[OF assms] feed_upsert, of G rs]
  by (auto simp: keeps_def feed_kept_def feed_sound_def feed_of_def on_ingest_def split: prod.splits)

interpretation api_feed: api_relation feed_kept A for A
proof unfold_locales
  show "keeps feed_kept (start_activity batch ownr)" for batch ownr
    using start_batch_inv
    by (auto simp: keeps_def feed_kept_def feed_of_def start_activity_def on_activity_def split: sum.splits)
  show "keeps feed_kept (finish_activity batch st)" for batch st
    by (simp add: keeps_def feed_kept_def feed_of_def finish_activity_def on_activity_def finish_batch_inv)
qed (auto simp: ingest_feed_kept batch_reporter_sound, auto simp: feed_kept_def keeps_def feed_of_def put_document_set_def register_record_def
    delete_ownership_def on_ingest_def delete_evidence_def delete_files_def split: prod.splits sum.splits option.splits if_splits)

text \<open>C11: Whatever requests a service has served, a document set once stored is stored unchanged for ever, under its
  digest, for its application and the policy of the service; the registry is in a legal state; and the feed of every
  batch is bounded, in order and numbered without repetition.\<close>

theorem service_state_sound:
  assumes "document_registry (ro_register (app_registry A)) (ro_owns (app_registry A)) (ro_delete (app_registry A)) active legal"
    and "served A s t" "sets_ok A (as_sets s)" "legal (as_registry s)" "activity_inv (feed_of s)"
  shows "sets_ok A (as_sets t) \<and> map_of (as_sets s) \<subseteq>\<^sub>m map_of (as_sets t)
    \<and> legal (as_registry t) \<and> activity_inv (feed_of t)"
  using api_sets.run_served[OF assms(2)] api_feed.run_served[OF assms(2)]
    api_relation.run_served[OF registry_relation[OF assms(1)] assms(2)] assms(3-5)
  by (simp add: sets_kept_def feed_kept_def)

end
