(* ===== verification/ApiExamples.thy ===== *)
theory ApiExamples
  imports AccessProps ReasonExamples
begin

text \<open>
  A production service with a signed token, an in-memory registry that holds one document and an index with two
  chunks of it, and the requests on which the properties of the service are instantiated.
\<close>

section \<open>The service\<close>

definition service_claims :: claims where
  "service_claims = \<lparr>cl_sub = ''svc'', cl_aud = [''a''], cl_iss = ''i'',
     cl_roles = [''document_ingest'', ''document_extract'', ''document_delete''], cl_application = ''app-1'',
     cl_jti = ''j1'', cl_iat = 100, cl_exp = 200\<rparr>"

definition service_codec :: jwt_codec where
  "service_codec = \<lparr>jc_header = (\<lambda>b. Some (HeaderObject (Some ''HS256'') None)), jc_claims = (\<lambda>b. Some service_claims)\<rparr>"

definition service_token :: string where
  "service_token = ''e30.e30.'' @ encode_segment (hmac_sha256 (bytes_of ''k'') (bytes_of ''e30.e30''))"

definition service_queries :: "(bool, unit, unit) query_service" where
  "service_queries = \<lparr>qs_policy = Some ex_policy,
     qs_scroll = (\<lambda>filter points n offset. (map (fst \<circ> snd) points, None)), qs_modes = [], qs_default_mode = ''two_pass'',
     qs_strategy = \<lparr>st_name = ''n'', st_mode = Dense, st_retrieve = 5, st_rerank = None, st_prefetch = 5, st_rrf_k = 60,
       st_cache = 8\<rparr>,
     qs_backend = \<lparr>bk_search = (\<lambda>q a ds. Inr []), bk_reranker = None\<rparr>,
     qs_tools = \<lparr>tl_loads = (\<lambda>s. None), tl_dumps = (\<lambda>j. []), tl_prompt = (\<lambda>n. n), tl_citation = (\<lambda>j. None),
       tl_extraction = (\<lambda>j. None), tl_answer = (\<lambda>j. None), tl_selection = (\<lambda>j. None), tl_dump_citation = (\<lambda>c. JNull),
       tl_dump_provenance = (\<lambda>p. JNull)\<rparr>,
     qs_client = (\<lambda>st sys p. Inl (RuntimeError '''')), qs_lease = \<lparr>lc_enabled = True, lc_timeout = 60\<rparr>,
     qs_requester = sample_server\<rparr>"

definition service_app :: "(bool, unit, unit, memory_registry, ledger) app" where
  "service_app = \<lparr>app_production = True, app_policy = sample_guard, app_token = None, app_consume = memory_consume,
     app_codec = service_codec, app_secret = ''k'', app_registry = memory_ops, app_sets_ready = True,
     app_ingester = sample_service, app_service = service_queries, app_store_deletes = True, app_clock = (\<lambda>_. 0)\<rparr>"

definition service_headers :: headers where
  "service_headers = \<lparr>hd_authorization = Some (bearer @ service_token), hd_correlation = Some ''c'', hd_token = None,
     hd_now = 120, hd_ledger_now = 120\<rparr>"

definition service_record :: document_record where
  "service_record = \<lparr>dr_application = ''app-1'', dr_document = ''d'', dr_sha256 = sha256_hex ''%PDF-1'', dr_state = ''active'',
     dr_policy_hash = sha256_hex ''p'', dr_retained = 0\<rparr>"

definition service_state :: "(bool, unit, memory_registry, ledger) app_state" where
  "service_state = \<lparr>as_world = sample_state\<lparr>ls_world := (ls_world sample_state)\<lparr>iw_points :=
       [(''1'', ex_chunk ''c'' 1, ()), (''2'', ex_chunk ''k'' 2, ())]\<rparr>\<rparr>,
     as_query_flag = False, as_cache = [], as_registry = \<lparr>mm_records = [((''app-1'', ''d''), service_record)], mm_receipts = []\<rparr>,
     as_sets = [], as_ledger = []\<rparr>"

lemma service_fields [simp]:
  "app_production service_app" "app_policy service_app = sample_guard" "app_consume service_app = memory_consume"
  "app_codec service_app = service_codec" "app_secret service_app = ''k''" "app_registry service_app = memory_ops"
  "app_sets_ready service_app" "app_ingester service_app = sample_service" "app_service service_app = service_queries"
  "app_store_deletes service_app" "gp_hash sample_guard = sha256_hex ''p''"
  "hd_authorization service_headers = Some (bearer @ service_token)" "hd_correlation service_headers = Some ''c''"
  "hd_now service_headers = 120" "hd_ledger_now service_headers = 120"
  "as_ledger service_state = []" "as_sets service_state = []"
  "as_registry service_state = \<lparr>mm_records = [((''app-1'', ''d''), service_record)], mm_receipts = []\<rparr>"
  "ro_owns memory_ops = memory_owns" "ro_register memory_ops = memory_register" "ro_delete memory_ops = memory_delete"
  by (simp_all add: service_app_def service_headers_def service_state_def memory_ops_def sample_guard_def)

section \<open>The token\<close>

lemma service_parsed: "parse_token service_codec ''k'' service_token = Inr service_claims"
proof -
  have "decode_segment ''e30'' = Some [123, 125]" by code_simp
  from parse_signed_token[OF _ _ this this, of service_codec service_claims "''k''"] show ?thesis
    by (simp add: service_token_def service_codec_def)
qed

lemma service_auth: "auth_of (gp_auth sample_guard) = \<lparr>au_issuer = ''i'', au_audience = ''a'', au_max_age = 300\<rparr>"
  by (simp add: auth_of_def sample_guard_def)

lemma service_request: "token_request service_headers role a = \<lparr>rq_token = service_token, rq_role = role, rq_application = a,
    rq_now = 120, rq_ledger_now = 120, rq_consume = True\<rparr>"
  by (simp add: token_request_def or_empty_def)

lemma service_authorized:
  assumes "role \<in> {''document_ingest'', ''document_extract'', ''document_delete''}" "as_ledger s = []"
  shows "authorize service_app service_headers role ''app-1'' s = (Inr (), s\<lparr>as_ledger := [(''j1'', 200)]\<rparr>)"
proof -
  have "starts_with bearer (bearer @ service_token)" by (simp add: starts_with_def)
  moreover have "truthy (Some (bearer @ service_token))" by (simp add: truthy_def bearer_def)
  moreover have "verify memory_consume service_codec ''k'' (auth_of (gp_auth sample_guard))
      (token_request service_headers role ''app-1'') [] = (Inr service_claims, [(''j1'', 200)])"
    using assms(1)
    by (auto simp: service_request service_auth verify_def service_parsed check_claims_def service_claims_def raise_if_def
        memory_consume_def dict_has_def)
  ultimately show ?thesis
    by (simp add: authorize_def guard_def act_bind_def act_lift_def act_return_def map_error_def act_catch_def
        verify_token_def assms(2) raise_if_def truthy_def or_empty_def)
qed

section \<open>Authorization and deletion\<close>

theorem unauthorized_changes_nothing_witness:
  "\<exists>outcome s'. serve service_app (service_headers\<lparr>hd_authorization := None\<rparr>) (Delete ''app-1'' ''command-1'') service_state = (outcome, s')
     \<and> isl outcome \<and> (\<exists>l. s' = service_state\<lparr>as_ledger := l\<rparr>)"
proof -
  let ?h = "service_headers\<lparr>hd_authorization := None\<rparr>"
  have "parse_token service_codec ''k'' [] = Inl invalid_authorization" by (simp add: parse_token_def)
  then have "\<not> authorized service_app ?h (Delete ''app-1'' ''command-1'') service_state"
    by (simp add: authorized_def needs_def token_request_def or_empty_def verify_def)
  from unauthorized_changes_nothing[OF _ _ this] show ?thesis
    by (cases "serve service_app ?h (Delete ''app-1'' ''command-1'') service_state") auto
qed

lemma command_bounded: "bounded 8 200 ''command-1''" "bounded 3 200 ''app-1''"
  by code_simp+

lemma service_points: "points_of (service_state\<lparr>as_ledger := l\<rparr>) = [(''1'', ex_chunk ''c'' 1, ()), (''2'', ex_chunk ''k'' 2, ())]"
  by (simp add: points_of_def service_state_def)

lemma service_deleted:
  "\<exists>x s'. serve service_app service_headers (Delete ''app-1'' ''command-1'') service_state = (Inr (Deleted x), s')"
proof -
  obtain r ids where "memory_delete \<lparr>mm_records = [((''app-1'', ''d''), service_record)], mm_receipts = []\<rparr> ''app-1'' (sha256_hex ''p'')
      = (r, ids)" by fastforce
  then show ?thesis
    by (simp add: command_bounded valid_if_def act_result_def retention_delete_def act_bind_def service_authorized
        delete_ownership_def guard_def act_lift_def raise_if_def on_ingest_def delete_evidence_def delete_files_def)
      (simp add: service_state_def sample_state_def act_return_def)
qed

theorem deletion_complete_witness:
  "\<exists>x s'. serve service_app service_headers (Delete ''app-1'' ''command-1'') service_state = (Inr (Deleted x), s')
     \<and> (\<forall>i. isl (fst (get_document_set service_app i ''app-1'' s'))) \<and> points_of s' = []"
proof -
  obtain x s' where run: "serve service_app service_headers (Delete ''app-1'' ''command-1'') service_state = (Inr (Deleted x), s')"
    using service_deleted by blast
  have "keyed (mm_records (as_registry service_state))" by (simp add: keyed_def service_record_def)
  then have all: "isl (fst (get_document_set service_app i ''app-1'' s')) \<and> p \<notin> set (points_of s')" for i p
    using deletion_complete[OF _ _ _ run, of "\<lambda>s. is_active (mm_records s)" "\<lambda>s. keyed (mm_records s)" i p]
      memory_registry.document_registry_axioms service_points[of "[]"]
    by (auto simp: ex_chunk_def service_state_def points_of_def)
  then show ?thesis using run by (metis list.set_intros(1) neq_Nil_conv)
qed

lemma service_owned: "memory_owns \<lparr>mm_records = [((''app-1'', ''d''), service_record)], mm_receipts = []\<rparr> ''app-1'' [''d''] (sha256_hex ''p'')"
  by (simp add: memory_owns_def is_active_def active_record_def service_record_def)

lemma service_frozen: "\<exists>r. freeze ''app-1'' [''d''] (sha256_hex ''p'') = Inr r \<and> ds_application r = ''app-1'' \<and> ds_documents r = [''d'']
   \<and> ds_policy_hash r = sha256_hex ''p''"
  by (simp add: freeze_def uniq_def sha256_hex_shape raise_if_def Let_def)

lemma service_set_created:
  "\<exists>x s'. serve service_app service_headers (CreateSet ''app-1'' [''d'']) service_state = (Inr (SetCreated x), s')
     \<and> as_sets s' \<noteq> []"
proof -
  obtain r where r: "freeze ''app-1'' [''d''] (sha256_hex ''p'') = Inr r" "ds_application r = ''app-1''"
    "ds_documents r = [''d'']" "ds_policy_hash r = sha256_hex ''p''" using service_frozen by blast
  show ?thesis
    by (simp add: valid_if_def listed_def command_bounded act_result_def create_document_set_def authorize_set_def act_bind_def
        service_authorized map_error_def act_catch_def set_policy_hash_def r act_lift_def put_document_set_def put_set_def
        owns_now_def service_owned dict_has_def act_return_def)
qed

theorem announced_set_readable_witness:
  "\<exists>x s'. serve service_app service_headers (CreateSet ''app-1'' [''d'']) service_state = (Inr (SetCreated x), s')
     \<and> set_readable service_app ''app-1'' [''d''] (sr_set x) s'"
proof -
  obtain x s' where run: "serve service_app service_headers (CreateSet ''app-1'' [''d'']) service_state = (Inr (SetCreated x), s')"
    using service_set_created by blast
  from announced_set_readable[OF run, of "''app-1''" "[''d'']" "sr_set x"] run show ?thesis
    by (auto simp: announced_set_def)
qed

theorem service_state_sound_witness:
  "\<exists>s'. served service_app service_state s' \<and> as_sets s' \<noteq> [] \<and> sets_ok service_app (as_sets s') \<and> keyed (mm_records (as_registry s'))"
proof -
  obtain x s' where run: "serve service_app service_headers (CreateSet ''app-1'' [''d'']) service_state = (Inr (SetCreated x), s')"
    "as_sets s' \<noteq> []" using service_set_created by blast
  have history: "served service_app service_state s'" by (rule served.step[OF served.start run(1)])
  have "sets_ok service_app (as_sets service_state)" by (simp add: sets_ok_def)
  moreover have "keyed (mm_records (as_registry service_state))" by (simp add: keyed_def service_record_def)
  moreover have "activity_inv (feed_of service_state)"
    by (simp add: feed_of_def service_state_def sample_state_def new_activity_inv)
  ultimately have "sets_ok service_app (as_sets s') \<and> keyed (mm_records (as_registry s'))"
    using service_state_sound[OF _ history, of "\<lambda>s. is_active (mm_records s)" "\<lambda>s. keyed (mm_records s)"] memory_registry.document_registry_axioms by simp
  then show ?thesis using history run(2) by blast
qed

section \<open>Extraction\<close>








section \<open>Ingestion\<close>

lemma strip_hex:
  assumes "is_hex64 s"
  shows "strip s = s"
proof -
  have "\<not> is_space c" if "c \<in> set s" for c
    using assms that by (auto simp: is_hex64_def list_all_iff is_space_def is_digit_def in_range_def Let_def code_def)
  then have "dropWhile is_space xs = xs" if "set xs \<subseteq> set s" for xs
    using that by (cases xs) auto
  then show ?thesis by (simp add: strip_def lstrip_def rstrip_def)
qed

lemma upload_valid: "mk_ingest_request sample_upload = Inr sample_upload"
proof -
  have "strip ''a.pdf'' = ''a.pdf''" "strip ''JVBERi0x'' = ''JVBERi0x''" "strip ''app-1'' = ''app-1''"
    "strip ''command-1'' = ''command-1''" by code_simp+
  then have "strip_request sample_upload = sample_upload"
    by (simp add: strip_request_def sample_upload_def strip_hex sha256_hex_shape)
  moreover have "upload_name ''a.pdf''" "8 \<le> py_len ''JVBERi0x''" by code_simp+
  then have "request_fields_ok sample_upload"
    by (simp add: request_fields_ok_def sample_upload_def opt_ok_def sha256_hex_shape command_bounded)
  moreover have "sha256_hex ''p'' \<noteq> []" using sha256_hex_shape[of "''p''"] by (auto simp: is_hex64_def)
  ultimately show ?thesis
    by (simp add: mk_ingest_request_def require_v2_scope_def Let_def raise_if_def) (simp add: sample_upload_def truthy_def)
qed

definition empty_state :: "(bool, unit, memory_registry, ledger) app_state" where
  "empty_state = service_state\<lparr>as_world := sample_state\<rparr>"

lemma register_points: "points_of (snd (register_document A h x s)) = points_of s"
  by (auto simp: register_document_def act_bind_def register_record_def act_return_def guard_def act_lift_def invalidate_def
      points_of_def Let_def split: sum.splits prod.splits if_splits)

lemma service_ingested:
  "\<exists>outcome s'. serve service_app service_headers (IngestDocument sample_upload) empty_state = (outcome, s') \<and> points_of s' \<noteq> []"
proof -
  obtain xs w where run: "ingest_batch sample_service None [sample_upload] sample_state = (Inr xs, w)"
    "iw_points (ls_world w) \<noteq> []" using sample_batch by blast
  let ?s = "empty_state\<lparr>as_ledger := [(''j1'', 200)], as_world := w\<rparr>"
  have auth: "authorize service_app service_headers ''document_ingest'' ''app-1'' empty_state
      = (Inr (), empty_state\<lparr>as_ledger := [(''j1'', 200)]\<rparr>)"
    by (rule service_authorized) (simp_all add: empty_state_def)
  have world: "as_world (empty_state\<lparr>as_ledger := [(''j1'', 200)]\<rparr>) = sample_state" by (simp add: empty_state_def)
  have points: "points_of (snd (register_document service_app service_headers (hd xs) ?s)) \<noteq> []"
    using run(2) by (simp add: register_points) (simp add: points_of_def)
  have split_result: "\<exists>outcome s'. act_result Ingested m t = (outcome, s') \<and> points_of s' = points_of (snd (m t))" for m t
    by (auto simp: act_result_def act_bind_def act_return_def split: prod.split sum.split)
  have "snd (ingest_document service_app service_headers sample_upload empty_state)
      = snd (register_document service_app service_headers (hd xs) ?s)"
    by (simp add: ingest_document_def act_bind_def ingest_scope_def guard_def act_lift_def raise_if_def truthy_def or_empty_def
        auth map_error_def act_catch_def on_ingest_def ingest_def world run(1))
      (auto simp: act_return_def act_lift_def split: prod.split sum.split)
  then show ?thesis using points split_result[of "ingest_document service_app service_headers sample_upload" empty_state]
    by (auto simp: validated_as_def upload_valid)
qed

theorem served_index_vetted_witness:
  "\<exists>s' p. served service_app empty_state s' \<and> p \<in> set (points_of s')
     \<and> owned_and_vetted service_app (sample_dlp, sha256_hex ''p'') (fst (snd p))"
proof -
  obtain outcome s' where run: "serve service_app service_headers (IngestDocument sample_upload) empty_state = (outcome, s')"
    "points_of s' \<noteq> []" using service_ingested by blast
  have history: "served service_app empty_state s'" by (rule served.step[OF served.start run(1)])
  obtain p where p: "p \<in> set (points_of s')" using run(2) by (cases "points_of s'") auto
  have "production_ready service_app (sample_dlp, sha256_hex ''p'')" by (simp add: production_ready_def)
  moreover have "points_of empty_state = []" by (simp add: points_of_def empty_state_def)
  ultimately show ?thesis using served_index_vetted[OF _ history _ p] history p by blast
qed

section \<open>A failed batch\<close>

definition bad_batch :: batch_request where
  "bad_batch = \<lparr>bq_version = ''2.0'', bq_batch = Some ''batch-1'', bq_documents = [sample_upload\<lparr>iq_content := ''!!!!!!!!''\<rparr>]\<rparr>"

lemma bad_batch_valid: "mk_batch_request bad_batch = Inr bad_batch"
proof -
  have "strip ''!!!!!!!!'' = ''!!!!!!!!''" "8 \<le> py_len ''!!!!!!!!''" "batch_name ''batch-1''" by code_simp+
  then have "mk_ingest_request (sample_upload\<lparr>iq_content := ''!!!!!!!!''\<rparr>) = Inr (sample_upload\<lparr>iq_content := ''!!!!!!!!''\<rparr>)"
    using upload_valid
    by (auto simp: mk_ingest_request_def Let_def raise_if_Inr_iff strip_request_def request_fields_ok_def require_v2_scope_def
        sample_upload_def)
  then show ?thesis using \<open>batch_name ''batch-1''\<close>
    by (simp add: mk_batch_request_def bad_batch_def opt_ok_def raise_if_def consistent_contract_def uniq_def)
qed

lemma bad_batch_refused:
  "\<exists>e s'. serve service_app service_headers (IngestBatch bad_batch) empty_state = (Inl e, s') \<and> feed_of s' \<noteq> feed_of empty_state"
proof -
  have "b64decode ''!!!!!!!!'' = None" by code_simp
  then obtain e where refused: "admit sample_service (bq_documents bad_batch) w = (Inl e, w)" for w
    by (simp add: admit_def act_bind_def act_lift_def bad_batch_def decode_and_validate_def)
  obtain a where a: "start_batch (new_activity 1 1) ''batch-1'' (Some ''app-1'') = Inr a"
    by (simp add: start_batch_def new_activity_def dict_has_def raise_if_def)
  have auth: "authorize service_app service_headers ''document_ingest'' ''app-1'' empty_state
      = (Inr (), empty_state\<lparr>as_ledger := [(''j1'', 200)]\<rparr>)"
    by (rule service_authorized) (simp_all add: empty_state_def)
  have fields: "bq_version bad_batch = ''2.0''" "bq_batch bad_batch = Some ''batch-1''"
    "iq_application (hd (bq_documents bad_batch)) = Some ''app-1''" by (simp_all add: bad_batch_def)
  have feed: "iw_activity (ls_world (as_world empty_state)) = new_activity 1 1" by (simp add: empty_state_def sample_state_def)
  let ?w = "(as_world empty_state)\<lparr>ls_world := (ls_world (as_world empty_state))\<lparr>iw_activity := a\<rparr>\<rparr>"
  have "ingest_batch sample_service reporter (bq_documents bad_batch) ?w = (Inl e, ?w)" for reporter
    by (simp add: ingest_batch_def act_bind_def refused)
  note refused_batch = this
  let ?s = "empty_state\<lparr>as_ledger := [(''j1'', 200)], as_world := ?w\<rparr>"
  have start: "start_activity (Some ''batch-1'') (Some ''app-1'') (empty_state\<lparr>as_ledger := [(''j1'', 200)]\<rparr>) = (Inr (), ?s)"
    by (simp add: start_activity_def on_activity_def truthy_def or_empty_def feed[simplified] a[simplified])
  have run: "run_document_batch service_app service_headers bad_batch x ?s = (Inl e, ?s)" for x
    by (simp add: run_document_batch_def act_bind_def on_ingest_def refused_batch)
  have scope: "ingest_scope service_app service_headers ''2.0'' (Some ''app-1'') empty_state
      = (Inr (), empty_state\<lparr>as_ledger := [(''j1'', 200)]\<rparr>)"
    by (simp add: ingest_scope_def act_bind_def guard_def act_lift_def raise_if_def truthy_def or_empty_def auth)
  obtain s' where finish: "finish_activity (Some ''batch-1'') Failed ?s = (Inr (), s')"
    "ac_statuses (feed_of s') = AList.update ''batch-1'' Failed (ac_statuses a)"
    by (simp add: finish_activity_def on_activity_def truthy_def or_empty_def finish_batch_def feed_of_def)
  have "\<exists>e s'. serve service_app service_headers (IngestBatch bad_batch) empty_state = (Inl e, s')
      \<and> ac_statuses (feed_of s') = AList.update ''batch-1'' Failed (ac_statuses a)"
    by (simp add: validated_as_def bad_batch_valid act_result_def act_bind_def ingest_document_batch_def Let_def fields
        scope start run act_catch_def finish act_lift_def)
  moreover have "AList.update ''batch-1'' Failed (ac_statuses a) \<noteq> ac_statuses (feed_of empty_state)"
    by (simp add: feed_of_def feed new_activity_def update_conv')
  ultimately show ?thesis by metis
qed

theorem batch_status_truthful_witness:
  "\<exists>e s'. serve service_app service_headers (IngestBatch bad_batch) empty_state = (Inl e, s')
     \<and> map_of (ac_statuses (feed_of s')) ''batch-1'' = Some Failed"
proof -
  obtain e s' where run: "serve service_app service_headers (IngestBatch bad_batch) empty_state = (Inl e, s')"
    "feed_of s' \<noteq> feed_of empty_state" using bad_batch_refused by blast
  from batch_status_truthful[OF run(1), of "''batch-1''"] run show ?thesis by (simp add: bad_batch_def)
qed

end
