(* ===== verification/ParsingProps.thy ===== *)
theory ParsingProps
  imports Parsing "HOL-Library.Multiset"
begin

text \<open>
  What the page readers and the parser promise to the chunker: the blocks of a page are all there, in
  reading order and on that page, whichever reader they come from.
\<close>

section \<open>Two stable sorts\<close>

definition lex_on :: "('a \<Rightarrow> 'k::linorder) \<Rightarrow> ('a \<Rightarrow> 'a \<Rightarrow> bool) \<Rightarrow> 'a \<Rightarrow> 'a \<Rightarrow> bool" where
  "lex_on f R a b = (f a < f b \<or> f a = f b \<and> R a b)"

lemma insort_lex:
  assumes "sorted_wrt (lex_on f R) ys" "\<forall>y \<in> set ys. R x y"
  shows "sorted_wrt (lex_on f R) (insort_key f x ys)"
  using assms by (induction ys) (auto simp: lex_on_def set_insort_key)

lemma sort_key_lex: "sorted_wrt R xs \<Longrightarrow> sorted_wrt (lex_on f R) (sort_key f xs)"
  by (induction xs) (auto intro: insort_lex)

lemma sort_by2_sorted: "sorted_wrt (lex_on f (\<lambda>a b. g a \<le> g b)) (sort_by2 f g xs)"
proof -
  have "sorted_wrt (\<lambda>a b. g a \<le> g b) (sort_key g xs)"
    by (metis sorted_map sorted_sort_key)
  then show ?thesis unfolding sort_by2_def by (rule sort_key_lex)
qed

lemma mset_sort_by2 [simp]: "mset (sort_by2 f g xs) = mset xs"
  by (simp add: sort_by2_def)

section \<open>Blocks of a page\<close>

definition block_on :: "string \<Rightarrow> string \<Rightarrow> int \<Rightarrow> document_block \<Rightarrow> bool" where
  "block_on document source page b =
     (pv_document (blk_prov b) = document \<and> pv_source (blk_prov b) = source \<and> pv_page (blk_prov b) = page
      \<and> provenance_ok (blk_prov b))"

definition above :: "document_block \<Rightarrow> document_block \<Rightarrow> bool" where
  "above = lex_on (\<lambda>b. by0 (pv_bbox (blk_prov b))) (\<lambda>b c. bx0 (pv_bbox (blk_prov b)) \<le> bx0 (pv_bbox (blk_prov c)))"

definition in_reading_order :: "document_block list \<Rightarrow> bool" where
  "in_reading_order bs = (map blk_order bs = [0..<length bs] \<and> sorted_wrt above bs)"

lemma above_order [simp]: "above (b\<lparr>blk_order := i\<rparr>) c = above b c" "above b (c\<lparr>blk_order := i\<rparr>) = above b c"
  by (simp_all add: above_def lex_on_def)

lemma map_enumerate: "(\<And>i x. g (f (i, x)) = h x) \<Longrightarrow> map (g \<circ> f) (enumerate n xs) = map h xs"
  by (induction xs arbitrary: n) auto

lemma map_renumber: "(\<And>i b. g (b\<lparr>blk_order := i\<rparr>) = g b) \<Longrightarrow> map g (renumber bs) = map g bs"
  by (simp add: renumber_def map_enumerate del: comp_apply)

lemma map_order_enumerate: "map (blk_order \<circ> (\<lambda>(i, b). b\<lparr>blk_order := i\<rparr>)) (enumerate n bs) = [n..<n + length bs]"
proof -
  have "map (blk_order \<circ> (\<lambda>(i, b). b\<lparr>blk_order := i\<rparr>)) (enumerate n bs) = map fst (enumerate n bs)"
    by (rule map_cong) auto
  then show ?thesis by simp
qed

lemma sorted_above_enumerate:
  "sorted_wrt above bs \<Longrightarrow> sorted_wrt above (map (\<lambda>(i, b). b\<lparr>blk_order := i\<rparr>) (enumerate n bs))"
  by (induction bs arbitrary: n) (auto simp: in_set_enumerate_eq)

lemma ordered_blocks: "in_reading_order (renumber (reading_sort bs))"
  unfolding in_reading_order_def renumber_def reading_sort_def
  by (simp add: map_order_enumerate)
    (rule sorted_above_enumerate, unfold above_def, rule sort_by2_sorted)

lemma mset_ordered:
  assumes "\<And>i b. g (b\<lparr>blk_order := i\<rparr>) = g b"
  shows "mset (map g (renumber (reading_sort bs))) = mset (map g bs)"
  by (simp add: map_renumber assms reading_sort_def)

lemma block_on_order [simp]: "block_on d s p (b\<lparr>blk_order := i\<rparr>) = block_on d s p b"
  by (simp add: block_on_def)

lemma list_all_ordered:
  assumes "\<And>i b. P (b\<lparr>blk_order := i\<rparr>) = P b"
  shows "list_all P (renumber (reading_sort bs)) = list_all P bs"
proof -
  have "mset (map P (renumber (reading_sort bs))) = mset (map P bs)"
    using assms by (rule mset_ordered)
  then have "set (map P (renumber (reading_sort bs))) = set (map P bs)"
    by (metis set_mset_mset)
  then show ?thesis by (simp add: list_all_iff) (metis (mono_tags) imageE imageI)
qed

lemma block_on_ordered: "list_all (block_on d s p) (renumber (reading_sort bs)) = list_all (block_on d s p) bs"
  by (rule list_all_ordered) simp

lemma mk_provenance_Inr_iff [res_simps]:
  "mk_provenance d s p box w h = Inr q \<longleftrightarrow>
     q = \<lparr>pv_document = d, pv_source = s, pv_page = p, pv_bbox = box, pv_width = w, pv_height = h\<rparr> \<and> provenance_ok q"
  by (auto simp: mk_provenance_def Let_def res_simps)

section \<open>Vision\<close>

lemma scaled_bounds:
  assumes "0 \<le> x" "x \<le> 1000" "0 < (w::rat)"
  shows "0 \<le> x * w / 1000 \<and> x * w / 1000 \<le> w"
  using assms mult_right_mono [of x 1000 w] by simp

lemma pdf_box_inside:
  assumes "pdf_box b w h = Inr box" "0 < w" "0 < h"
    "list_all (\<lambda>v. 0 \<le> v \<and> v \<le> 1000) [bx0 b, by0 b, bx1 b, by1 b]"
  shows "0 \<le> bx0 box \<and> bx0 box \<le> bx1 box \<and> bx1 box \<le> w \<and> 0 \<le> by0 box \<and> by0 box \<le> by1 box \<and> by1 box \<le> h"
  using assms scaled_bounds [of "bx0 b" w] scaled_bounds [of "bx1 b" w] scaled_bounds [of "by0 b" h]
    scaled_bounds [of "by1 b" h]
  by (auto simp: pdf_box_def res_simps)

definition inside_page :: "document_block \<Rightarrow> bool" where
  "inside_page b =
     (let box = pv_bbox (blk_prov b) in
      0 \<le> bx0 box \<and> bx0 box \<le> bx1 box \<and> bx1 box \<le> pv_width (blk_prov b)
      \<and> 0 \<le> by0 box \<and> by0 box \<le> by1 box \<and> by1 box \<le> pv_height (blk_prov b))"

lemma inside_page_ordered: "list_all inside_page (renumber (reading_sort bs)) = list_all inside_page bs"
  by (rule list_all_ordered) (simp add: inside_page_def)

lemma vision_document_block_Inr:
  assumes "vision_document_block d s p w h (i, v) = Inr b" "vision_block_ok v"
  shows "block_on d s (int p) b \<and> inside_page b \<and> blk_text b = strip (vb_text v) \<and> blk_type b = vb_type v"
proof -
  obtain box where box: "pdf_box (vb_box v) w h = Inr box"
    and b: "blk_prov b = \<lparr>pv_document = d, pv_source = s, pv_page = int p, pv_bbox = box, pv_width = w, pv_height = h\<rparr>"
      "provenance_ok (blk_prov b)" "blk_text b = strip (vb_text v)" "blk_type b = vb_type v"
    using assms(1) by (auto simp: vision_document_block_def res_simps)
  have pos: "0 < w" "0 < h" using b(1,2) by (auto simp: provenance_ok_def)
  have "list_all (\<lambda>v. 0 \<le> v \<and> v \<le> 1000) [bx0 (vb_box v), by0 (vb_box v), bx1 (vb_box v), by1 (vb_box v)]"
    using assms(2) unfolding vision_block_ok_def by blast
  from pdf_box_inside [OF box pos this] b show ?thesis
    by (simp add: inside_page_def block_on_def Let_def)
qed

lemma vision_blocks_Inr:
  assumes "vision_blocks d s p w h vs = Inr bs" "list_all vision_block_ok vs"
  shows "in_reading_order bs \<and> list_all (block_on d s (int p)) bs \<and> list_all inside_page bs
    \<and> mset (map (\<lambda>b. (blk_type b, blk_text b)) bs) = mset (map (\<lambda>v. (vb_type v, strip (vb_text v))) vs)"
proof -
  obtain cs where cs: "res_map (vision_document_block d s p w h) (enumerate 0 vs) = Inr cs"
    and bs: "bs = renumber (reading_sort cs)"
    using assms(1) by (auto simp: vision_blocks_def res_bind_Inr_iff)
  have each: "block_on d s (int p) c \<and> inside_page c" if c: "c \<in> set cs" for c
  proof -
    obtain x where x: "x \<in> set (enumerate 0 vs)" "vision_document_block d s p w h x = Inr c"
      using res_map_in_set [OF cs c] by blast
    from x(1) have "snd x \<in> set vs" by (metis image_eqI map_snd_enumerate set_map)
    then have "vision_block_ok (snd x)" using assms(2) by (auto simp: list_all_iff)
    with x(2) show ?thesis using vision_document_block_Inr [of d s p w h "fst x" "snd x" c] by simp
  qed
  have rel: "list_all2 (\<lambda>x c. vision_document_block d s p w h x = Inr c) (enumerate 0 vs) cs"
    using cs by (simp add: res_map_Inr_iff)
  have "list_all2 (\<lambda>x c. (blk_type c, blk_text c) = (vb_type (snd x), strip (vb_text (snd x)))) (enumerate 0 vs) cs"
    by (rule list_all2_mono [OF rel]) (auto simp: vision_document_block_def res_simps)
  then have "map (\<lambda>c. (blk_type c, blk_text c)) cs = map (\<lambda>x. (vb_type (snd x), strip (vb_text (snd x)))) (enumerate 0 vs)"
    by (induction rule: list_all2_induct) auto
  then have content: "map (\<lambda>c. (blk_type c, blk_text c)) cs = map (\<lambda>v. (vb_type v, strip (vb_text v))) vs"
    using map_map [of "\<lambda>v. (vb_type v, strip (vb_text v))" snd "enumerate 0 vs"] by (simp add: comp_def)
  have "list_all (block_on d s (int p)) bs" "list_all inside_page bs"
    using each by (simp_all add: bs block_on_ordered inside_page_ordered) (simp_all add: list_all_iff)
  then show ?thesis
    using content mset_ordered [of "\<lambda>b. (blk_type b, blk_text b)" cs] by (simp add: bs ordered_blocks)
qed

lemma page_response_ok: "page_response decode content = Inr vs \<Longrightarrow> list_all vision_block_ok vs"
  by (auto simp: page_response_def res_simps list_ex_iff list_all_iff split: option.splits)

lemma extract_page_Inr:
  assumes "extract_page c V F d s p w = (Inr bs, w')"
  shows "in_reading_order bs \<and> list_all (block_on d s (int p)) bs \<and> list_all inside_page bs"
  using assms vision_blocks_Inr
  by (fastforce simp: extract_page_def res_simps Let_def dest: page_response_ok)

section \<open>Digital pages\<close>

lemma infer_not_table: "infer_text_type t \<noteq> Table"
  by (simp add: infer_text_type_def Let_def)

text \<open>What a block is made of: whether it is a table, its place and its text.\<close>

definition block_content :: "document_block \<Rightarrow> bool \<times> bbox \<times> string" where
  "block_content b = (blk_type b = Table, pv_bbox (blk_prov b), blk_text b)"

lemma page_provenance_Inr:
  "page_provenance d s p v box = Inr q \<Longrightarrow>
     pv_document q = d \<and> pv_source q = s \<and> pv_page q = int p \<and> pv_bbox q = box \<and> provenance_ok q"
  by (auto simp: page_provenance_def res_simps)

lemma table_block_Inr:
  "table_block d s p v x = Inr b \<Longrightarrow> block_on d s (int p) b \<and> block_content b = (True, snd x)"
  by (cases x) (auto simp: table_block_def res_simps block_on_def block_content_def dest: page_provenance_Inr)

lemma text_block_Inr:
  "text_block d s p v x = Inr b \<Longrightarrow> block_on d s (int p) b \<and> block_content b = (False, snd x)"
  by (cases x) (auto simp: text_block_def res_simps block_on_def block_content_def infer_not_table
      dest: page_provenance_Inr)

lemma enumerated_blocks:
  assumes "res_map f (enumerate n xs) = Inr bs"
    "\<And>x b. f x = Inr b \<Longrightarrow> block_on d s p b \<and> block_content b = (k, snd x)"
  shows "list_all (block_on d s p) bs \<and> map block_content bs = map (Pair k) xs"
proof -
  have rel: "list_all2 (\<lambda>x b. f x = Inr b) (enumerate n xs) bs"
    using assms(1) by (simp add: res_map_Inr_iff)
  have "list_all2 (\<lambda>x b. block_on d s p b \<and> block_content b = (k, snd x)) (enumerate n xs) bs"
    by (rule list_all2_mono [OF rel]) (rule assms(2))
  then have "list_all (block_on d s p) bs \<and> map block_content bs = map (\<lambda>x. (k, snd x)) (enumerate n xs)"
    by (induction rule: list_all2_induct) auto
  then show ?thesis
    using map_map [of "Pair k" snd "enumerate n xs"] by (simp add: comp_def)
qed

lemma digital_page_Inr:
  assumes "parse_digital_page meets d s p v = Inr bs"
  obtains tables where "table_rectangles meets v = Inr tables" "in_reading_order bs" "list_all (block_on d s (int p)) bs"
    "mset (map block_content bs) = mset (map (Pair True) tables @ map (Pair False) (free_texts meets tables v))"
proof -
  obtain tables cs ts where tables: "table_rectangles meets v = Inr tables"
    and cs: "res_map (table_block d s p v) (enumerate 0 tables) = Inr cs"
    and ts: "res_map (text_block d s p v) (enumerate (length tables) (free_texts meets tables v)) = Inr ts"
    and bs: "bs = renumber (reading_sort (cs @ ts))"
    using assms by (auto simp: parse_digital_page_def res_bind_Inr_iff)
  note parts = enumerated_blocks [OF cs table_block_Inr] enumerated_blocks [OF ts text_block_Inr]
  have order: "in_reading_order bs" by (simp add: bs ordered_blocks)
  have place: "list_all (block_on d s (int p)) bs"
    using parts by (simp only: bs block_on_ordered list_all_append)
  have "mset (map block_content bs) = mset (map block_content (cs @ ts))"
    unfolding bs by (rule mset_ordered) (simp add: block_content_def)
  then have "mset (map block_content bs)
      = mset (map (Pair True) tables @ map (Pair False) (free_texts meets tables v))"
    using parts by (simp only: map_append)
  then show ?thesis using that tables order place by blast
qed

section \<open>Docling\<close>

lemma docling_block_Inr:
  assumes "docling_block d s cv order i = Inr (Some (page, b))"
  shows "block_on d s page b"
  using assms
  by (auto simp: docling_block_def res_simps block_on_def Let_def split: option.splits if_splits)

lemma docling_blocks_Inr:
  assumes "docling_blocks d s cv by_page items = Inr by_page'"
    "\<forall>(page, bs) \<in> set by_page. list_all (block_on d s page) bs"
  shows "\<forall>(page, bs) \<in> set by_page'. list_all (block_on d s page) bs"
  using assms
proof (induction items arbitrary: by_page)
  case (Cons x items)
  obtain order i where x: "x = (order, i)" by (cases x)
  obtain r where r: "docling_block d s cv order i = Inr r" using Cons.prems(1) by (auto simp: x res_bind_Inr_iff)
  show ?case
  proof (cases r)
    case None
    then show ?thesis using Cons r by (simp add: x)
  next
    case (Some y)
    obtain page b where y: "y = (page, b)" by (cases y)
    obtain bs where bs: "map_of by_page page = Some bs"
      and rest: "docling_blocks d s cv (AList.update page (bs @ [b]) by_page) items = Inr by_page'"
      using Cons.prems(1) r Some by (auto simp: x y split: option.splits)
    have "block_on d s page b" using r Some y docling_block_Inr by simp
    moreover have "list_all (block_on d s page) bs" using Cons.prems(2) map_of_SomeD [OF bs] by auto
    ultimately have "\<forall>(q, cs) \<in> set (AList.update page (bs @ [b]) by_page). list_all (block_on d s q) cs"
      using Cons.prems(2) by (induction by_page) auto
    with Cons.IH [OF rest] show ?thesis by blast
  qed
qed simp

lemma docling_document_Inr:
  assumes "docling_document d s decisions cv = Inr (Some doc)"
  shows "pd_document doc = d \<and> pd_source doc = s
    \<and> map pg_number (pd_pages doc) = map (\<lambda>x. int (rd_page x)) decisions
    \<and> map pg_route (pd_pages doc) = map rd_route decisions
    \<and> (\<forall>p \<in> set (pd_pages doc). list_all (block_on d s (pg_number p)) (pg_blocks p))"
proof -
  obtain by_page where run: "docling_blocks d s cv (map (\<lambda>x. (int (rd_page x), [])) decisions) (enumerate 0 (cv_items cv))
      = Inr by_page" and doc: "doc = \<lparr>pd_document = d, pd_source = s, pd_pages = map (docling_page by_page) decisions,
        pd_parser = ''docling''\<rparr>"
    using assms by (auto simp: docling_document_def res_bind_Inr_iff split: if_splits)
  have inv: "\<forall>(page, bs) \<in> set by_page. list_all (block_on d s page) bs"
    by (rule docling_blocks_Inr [OF run]) auto
  have "list_all (block_on d s page) (dict_get_default by_page page [])" for page
    using inv by (auto simp: dict_get_default_def split: option.splits dest: map_of_SomeD)
  then show ?thesis by (simp add: doc docling_page_def comp_def)
qed

section \<open>The parser\<close>

lemma route_file_Inr:
  assumes "route_file P F = Inr decisions"
  shows "pf_is_pdf F" "length decisions = length (pf_pages F)"
    "map rd_page decisions = [1..<Suc (length (pf_pages F))]"
    "decisions = map (route_page (ps_geometry P) (ps_router P))
       (zip [0..<length (pf_pages F)] (map page_route_view (pf_pages F)))"
proof -
  show "decisions = map (route_page (ps_geometry P) (ps_router P))
       (zip [0..<length (pf_pages F)] (map page_route_view (pf_pages F)))" and "pf_is_pdf F"
    using assms by (auto simp: route_file_def route_document_def raise_if_def split: if_splits)
  then show "length decisions = length (pf_pages F)" by simp
  show "map rd_page decisions = [1..<Suc (length (pf_pages F))]"
    by (rule nth_equalityI)
      (simp_all add: \<open>decisions = _\<close> route_page_def page_route_view_def Let_def del: upt_Suc)
qed

lemma read_page_Inr:
  assumes "read_page P F d s p w = (Inr bs, w')"
  shows "in_reading_order bs \<and> list_all (block_on d s (int p)) bs \<and> list_all inside_page bs"
  using assms extract_page_Inr
  by (fastforce simp: read_page_def unconfigured_page_def act_lift_def split: option.splits prod.splits)

lemma vision_page_Inr:
  assumes "parser_vision_blocks P F d s p w = (Inr bs, w')"
  shows "in_reading_order bs \<and> list_all (block_on d s (int p)) bs \<and> list_all inside_page bs"
proof (cases "read_page P F d s p w")
  case (Pair r w1)
  show ?thesis
  proof (cases r)
    case (Inl e)
    then have "bs = []" using assms Pair
      by (auto simp: parser_vision_blocks_def act_catch_def res_simps split: exc.splits if_splits)
    then show ?thesis by (simp add: in_reading_order_def)
  next
    case (Inr cs)
    then have "read_page P F d s p w = (Inr bs, w')"
      using assms Pair by (simp add: parser_vision_blocks_def act_catch_def)
    then show ?thesis by (rule read_page_Inr)
  qed
qed

lemma parse_page_Inr:
  assumes "parse_page P F deadline d s (x, p) w = (Inr page, w')"
  shows "pg_number page = int (rd_page x) \<and> pg_route page = rd_route x
    \<and> list_all (block_on d s (pg_number page)) (pg_blocks page) \<and> in_reading_order (pg_blocks page)"
proof -
  obtain bs w1 w2 where page: "page = \<lparr>pg_number = int (rd_page x), pg_route = rd_route x, pg_blocks = bs\<rparr>"
    and run: "(if rd_route x = Digital
        then (case parse_digital_page (ps_intersects P) d s (rd_page x) (pq_view p) of
                Inl e \<Rightarrow> if e = table_failed then parser_vision_blocks P F d s (rd_page x) else act_lift (Inl e)
              | Inr bs \<Rightarrow> act_return bs)
        else parser_vision_blocks P F d s (rd_page x)) w1 = (Inr bs, w2)"
    using assms unfolding parse_page_def prod.case act_bind_Inr_iff act_return_iff by blast
  have "list_all (block_on d s (int (rd_page x))) bs \<and> in_reading_order bs"
  proof (cases "parse_digital_page (ps_intersects P) d s (rd_page x) (pq_view p)")
    case (Inl e)
    then have "parser_vision_blocks P F d s (rd_page x) w1 = (Inr bs, w2)"
      using run by (auto simp: act_lift_def split: if_splits)
    from vision_page_Inr [OF this] show ?thesis by blast
  next
    case (Inr cs)
    then have "bs = cs \<or> parser_vision_blocks P F d s (rd_page x) w1 = (Inr bs, w2)"
      using run by (auto simp: act_return_def split: if_splits)
    then show ?thesis using digital_page_Inr [OF Inr] by (blast dest: vision_page_Inr)
  qed
  then show ?thesis by (simp add: page)
qed

lemma map_zip_fst: "length xs = length ys \<Longrightarrow> map (\<lambda>x. h (fst x)) (zip xs ys) = map h xs"
  by (induction xs ys rule: list_induct2) simp_all

definition pages_of :: "string \<Rightarrow> string \<Rightarrow> routing_decision list \<Rightarrow> parsed_document \<Rightarrow> bool" where
  "pages_of d s decisions doc =
     (pd_document doc = d \<and> pd_source doc = s
      \<and> map pg_number (pd_pages doc) = map (\<lambda>x. int (rd_page x)) decisions
      \<and> map pg_route (pd_pages doc) = map rd_route decisions
      \<and> (\<forall>p \<in> set (pd_pages doc). list_all (block_on d s (pg_number p)) (pg_blocks p)))"

lemma parse_pages_Inr:
  assumes "parse_pages P F deadline d s decisions w = (Inr doc, w')"
  shows "pages_of d s decisions doc \<and> list_all (\<lambda>p. in_reading_order (pg_blocks p)) (pd_pages doc)"
proof -
  obtain pages w1 where run: "act_map (parse_page P F deadline d s) (zip decisions (pf_pages F)) w = (Inr pages, w1)"
    and len: "length decisions = length (pf_pages F)"
    and doc: "doc = \<lparr>pd_document = d, pd_source = s, pd_pages = pages, pd_parser = ''pymupdf-fast-path+gemma-vision''\<rparr>"
    using assms by (auto simp: parse_pages_def act_bind_Inr_iff act_lift_iff raise_if_Inr_iff)
  have rel: "list_all2 (\<lambda>x page. pg_number page = int (rd_page (fst x)) \<and> pg_route page = rd_route (fst x)
      \<and> list_all (block_on d s (pg_number page)) (pg_blocks page) \<and> in_reading_order (pg_blocks page))
      (zip decisions (pf_pages F)) pages"
  proof (rule act_map_list_all2 [OF run])
    fix x w page w'
    assume "parse_page P F deadline d s x w = (Inr page, w')"
    then have "parse_page P F deadline d s (fst x, snd x) w = (Inr page, w')" by simp
    then show "pg_number page = int (rd_page (fst x)) \<and> pg_route page = rd_route (fst x)
      \<and> list_all (block_on d s (pg_number page)) (pg_blocks page) \<and> in_reading_order (pg_blocks page)"
      by (rule parse_page_Inr)
  qed
  have "map pg_number pages = map (\<lambda>x. int (rd_page (fst x))) (zip decisions (pf_pages F))
    \<and> map pg_route pages = map (\<lambda>x. rd_route (fst x)) (zip decisions (pf_pages F))
    \<and> list_all (\<lambda>p. list_all (block_on d s (pg_number p)) (pg_blocks p) \<and> in_reading_order (pg_blocks p)) pages"
    using rel by (induction rule: list_all2_induct) auto
  then show ?thesis by (simp add: pages_of_def doc list_all_iff len map_zip_fst
        map_zip_fst [of decisions _ "\<lambda>x. int (rd_page x)"])
qed

lemma try_docling_Inr:
  assumes "try_docling P d s decisions timeout w = (Inr (Some doc), w')"
  shows "pages_of d s decisions doc"
  using assms docling_document_Inr [of d s decisions _ doc]
  by (fastforce simp: try_docling_def act_catch_def pages_of_def res_simps act_bind_def act_lift_def act_return_def
      split: option.splits prod.splits sum.splits if_splits)

lemma parse_Inr:
  assumes "parse P s content timeout limit w = (Inr doc, w')"
  obtains F decisions where "ps_open P s content = Inr F" "route_file P F = Inr decisions"
    "pages_of (stable_document_id content) s decisions doc"
    "\<forall>n. limit = Some n \<longrightarrow> int (length (pf_pages F)) \<le> n"
proof -
  obtain F decisions result deadline w1 w2 where F: "ps_open P s content = Inr F"
    and small: "\<forall>n. limit = Some n \<longrightarrow> int (length (pf_pages F)) \<le> n"
    and routed: "route_file P F = Inr decisions"
    and docling: "(if ps_prefer_docling P \<and> list_ex (\<lambda>d. rd_route d \<noteq> Digital) decisions
        then try_docling P (stable_document_id content) s decisions timeout else act_return None) w1 = (Inr result, w2)"
    and rest: "(case result of
       Some d \<Rightarrow> act_bind (check_deadline P deadline) (\<lambda>_. act_return d)
     | None \<Rightarrow> parse_pages P F deadline (stable_document_id content) s decisions) w2 = (Inr doc, w')"
    using assms unfolding parse_def Let_def act_bind_Inr_iff act_lift_iff raise_if_Inr_iff
    by (fastforce split: option.splits)
  have "pages_of (stable_document_id content) s decisions doc"
  proof (cases result)
    case None
    then have "parse_pages P F deadline (stable_document_id content) s decisions w2 = (Inr doc, w')"
      using rest by simp
    from parse_pages_Inr [OF this] show ?thesis ..
  next
    case (Some d)
    then have "d = doc" using rest by (simp add: act_bind_Inr_iff act_return_iff)
    then show ?thesis using docling by (auto simp: Some act_return_def split: if_splits dest: try_docling_Inr)
  qed
  then show ?thesis using that F routed small by blast
qed

section \<open>A sample file\<close>

text \<open>A digital page with one line of text and a scanned page that the vision model reads.\<close>

definition sample_box :: "rat \<Rightarrow> rat \<Rightarrow> rat \<Rightarrow> rat \<Rightarrow> bbox" where
  "sample_box a b c d = \<lparr>bx0 = a, by0 = b, bx1 = c, by1 = d\<rparr>"

definition sample_view :: "(bbox \<times> string) list \<Rightarrow> digital_view" where
  "sample_view bs =
     \<lparr>dv_page = \<lparr>vw_height = 800, vw_words = [], vw_sorted_words = [], vw_drawings = [], vw_tables = [],
        vw_clipped = (\<lambda>_ _. [])\<rparr>, dv_finder = Inr (), dv_blocks = bs, dv_width = 600, dv_height = 800\<rparr>"

definition sample_file :: pdf_file where
  "sample_file =
     \<lparr>pf_is_pdf = True, pf_pages =
       [\<lparr>pq_text = ''Net worth'', pq_rect = sample_box 0 0 600 800, pq_images = [],
         pq_view = sample_view [(sample_box 50 90 500 110, ''of the firm''), (sample_box 50 60 500 80, ''Net worth '')]\<rparr>,
        \<lparr>pq_text = [], pq_rect = sample_box 0 0 600 800, pq_images = [sample_box 0 0 600 800],
         pq_view = sample_view []\<rparr>]\<rparr>"

definition sample_reply :: json where
  "sample_reply = JObj [(''choices'', JArr [JObj [(''message'', JObj [(''content'', JStr ''{}'')])]])]"

definition sample_vision :: "unit vision" where
  "sample_vision = \<lparr>vn_request = (\<lambda>_ _ _ w. (Inr sample_reply, w)),
     vn_decode = (\<lambda>_. Some [\<lparr>vb_type = Table, vb_text = ''| a |'', vb_box = sample_box 0 500 1000 1000\<rparr>])\<rparr>"

definition sample_vision_config :: vision_config where
  "sample_vision_config = \<lparr>vc_enabled = True, vc_backend = ''ollama'', vc_url = (''http'', Some ''localhost''),
     vc_model = ''gemma3'', vc_revision = ''r1'', vc_max_tokens = 4096, vc_timeout = 180, vc_dpi = 144\<rparr>"

definition sample_parser :: "unit parser" where
  "sample_parser = \<lparr>ps_prefer_docling = True, ps_fail_on_vision = True, ps_device = ''auto'', ps_cuda = None,
     ps_router = default_router,
     ps_geometry = \<lparr>ge_meet = (\<lambda>a b. a), ge_empty = (\<lambda>_. False),
        ge_area = (\<lambda>b. (bx1 b - bx0 b) * (by1 b - by0 b))\<rparr>,
     ps_intersects = (\<lambda>_ _. False), ps_vision = Some (sample_vision_config, sample_vision),
     ps_clock = (\<lambda>w. (Inr 0, w)), ps_open = (\<lambda>_ _. Inr sample_file), ps_docling = None\<rparr>"

lemma sample_routed: "route_file sample_parser sample_file
    = Inr [\<lparr>rd_page = 1, rd_route = Digital, rd_characters = 9, rd_coverage = 0\<rparr>,
           \<lparr>rd_page = 2, rd_route = Scanned, rd_characters = 0, rd_coverage = 1\<rparr>]"
  by code_simp

lemma sample_parser_simps [simp]:
  "ps_prefer_docling sample_parser" "ps_docling sample_parser = None"
  "ps_intersects sample_parser = (\<lambda>_ _. False)" "ps_vision sample_parser = Some (sample_vision_config, sample_vision)"
  "ps_open sample_parser = (\<lambda>_ _. Inr sample_file)"
  by (simp_all add: sample_parser_def)

lemma sample_file_pages: "pf_pages sample_file = [hd (pf_pages sample_file), pf_pages sample_file ! 1]"
  by (simp add: sample_file_def)

lemma not_isl: "\<not> isl r \<Longrightarrow> \<exists>x. r = Inr x"
  by (cases r) simp_all

lemma sample_digital:
  "\<exists>bs. parse_digital_page (\<lambda>_ _. False) d s 1 (pq_view (hd (pf_pages sample_file))) = Inr bs"
  by (rule not_isl) code_simp

lemma sample_vision_read:
  "\<exists>bs. extract_page sample_vision_config sample_vision sample_file d s 2 () = (Inr bs, ())"
proof -
  have "\<exists>bs. fst (extract_page sample_vision_config sample_vision sample_file d s 2 ()) = Inr bs"
    by (rule not_isl) code_simp
  then show ?thesis by (metis fst_conv old.unit.exhaust surj_pair)
qed

lemma sample_parsed: "\<exists>doc. parse sample_parser s content None (Some 2) () = (Inr doc, ())"
proof -
  let ?d = "stable_document_id content"
  obtain bs where bs: "parse_digital_page (\<lambda>_ _. False) ?d s 1 (pq_view (hd (pf_pages sample_file))) = Inr bs"
    using sample_digital by blast
  obtain cs where cs: "extract_page sample_vision_config sample_vision sample_file ?d s 2 () = (Inr cs, ())"
    using sample_vision_read by blast
  let ?D = "[\<lparr>rd_page = 1, rd_route = Digital, rd_characters = 9, rd_coverage = 0\<rparr>,
             \<lparr>rd_page = 2, rd_route = Scanned, rd_characters = 0, rd_coverage = 1\<rparr>]"
  have first: "parse_page sample_parser sample_file None ?d s (?D ! 0, hd (pf_pages sample_file)) ()
    = (Inr \<lparr>pg_number = 1, pg_route = Digital, pg_blocks = bs\<rparr>, ())"
    using bs by (simp add: parse_page_def check_deadline_def act_bind_def act_return_def)
  have second: "parse_page sample_parser sample_file None ?d s (?D ! 1, pf_pages sample_file ! 1) ()
    = (Inr \<lparr>pg_number = 2, pg_route = Scanned, pg_blocks = cs\<rparr>, ())"
    using cs by (simp add: parse_page_def check_deadline_def act_bind_def act_return_def parser_vision_blocks_def
        read_page_def act_catch_def)
  have "\<exists>doc. parse_pages sample_parser sample_file None ?d s ?D () = (Inr doc, ())"
    using first second
    by (subst parse_pages_def, subst sample_file_pages) (simp add: act_bind_def act_return_def act_lift_def raise_if_def sample_file_def)
  then show ?thesis
    by (simp add: parse_def Let_def parse_deadline_def act_bind_def act_return_def act_lift_def check_deadline_def
        sample_routed try_docling_def raise_if_def) (simp add: sample_file_def)
qed

section \<open>Properties\<close>

text \<open>C23: A parsed document has one page for every page of the file, numbered from 1 in order, each with the
  route that the router's thresholds give to its text and images, and never more than the limit allows. It
  carries the identity of the bytes it was read from. Whichever reader a page went through (the digital
  reader, the vision model, Docling), every block of it names that document, that file and that page, in a
  rectangle with ordered corners on a page of positive size.\<close>

theorem parsed_blocks_located:
  assumes "parse P source content timeout limit w = (Inr doc, w')"
  shows "\<exists>F. ps_open P source content = Inr F \<and> pf_is_pdf F
    \<and> (\<forall>n. limit = Some n \<longrightarrow> int (length (pf_pages F)) \<le> n)
    \<and> pd_document doc = stable_document_id content \<and> pd_source doc = source
    \<and> map pg_number (pd_pages doc) = map int [1..<Suc (length (pf_pages F))]
    \<and> map pg_route (pd_pages doc) = map (\<lambda>p. classify_page (ps_router P) (int (py_len (strip (pq_text p))))
         (image_coverage (ps_geometry P) (pq_rect p) (pq_images p))) (pf_pages F)
    \<and> (\<forall>page \<in> set (pd_pages doc). \<forall>b \<in> set (pg_blocks page).
         pv_document (blk_prov b) = pd_document doc \<and> pv_source (blk_prov b) = source
         \<and> pv_page (blk_prov b) = pg_number page \<and> ordered_coordinates (pv_bbox (blk_prov b))
         \<and> 0 < pv_width (blk_prov b) \<and> 0 < pv_height (blk_prov b))"
proof -
  obtain F decisions where F: "ps_open P source content = Inr F" and routed: "route_file P F = Inr decisions"
    and pages: "pages_of (stable_document_id content) source decisions doc"
    and small: "\<forall>n. limit = Some n \<longrightarrow> int (length (pf_pages F)) \<le> n"
    using assms by (rule parse_Inr)
  have "map pg_number (pd_pages doc) = map int (map rd_page decisions)"
    using pages by (simp add: pages_of_def)
  moreover have "map pg_route (pd_pages doc) = map rd_route decisions" using pages by (simp add: pages_of_def)
  moreover have "map rd_route decisions = map (\<lambda>p. classify_page (ps_router P) (int (py_len (strip (pq_text p))))
      (image_coverage (ps_geometry P) (pq_rect p) (pq_images p))) (pf_pages F)"
    by (rule nth_equalityI) (simp_all add: route_file_Inr(4) [OF routed] route_page_def page_route_view_def Let_def)
  ultimately show ?thesis
    using F small pages route_file_Inr(1,3) [OF routed]
    by (auto simp: pages_of_def list_all_iff block_on_def provenance_ok_def)
qed

theorem parsed_blocks_located_witness:
  "\<exists>doc. parse sample_parser ''f.pdf'' ''%PDF'' None (Some 2) () = (Inr doc, ())
    \<and> map pg_number (pd_pages doc) = map int [1..<3] \<and> map pg_route (pd_pages doc) = [Digital, Scanned]"
proof -
  obtain doc where doc: "parse sample_parser ''f.pdf'' ''%PDF'' None (Some 2) () = (Inr doc, ())"
    using sample_parsed by blast
  have "map rd_route [\<lparr>rd_page = 1, rd_route = Digital, rd_characters = 9, rd_coverage = 0\<rparr>,
           \<lparr>rd_page = 2, rd_route = Scanned, rd_characters = 0, rd_coverage = 1\<rparr>]
    = map (\<lambda>p. classify_page (ps_router sample_parser) (int (py_len (strip (pq_text p))))
      (image_coverage (ps_geometry sample_parser) (pq_rect p) (pq_images p))) (pf_pages sample_file)"
    by code_simp
  then show ?thesis
    using parsed_blocks_located [OF doc] doc by (auto simp: sample_file_def numeral_3_eq_3 numeral_2_eq_2)
qed









text \<open>The vision reader adds nothing and keeps everything. When a page is read through the model, the
  extractor was enabled and the page exists; the model's text was the content of the server's reply and had
  only valid blocks. The blocks of the page are those, each with its text stripped, in reading order, on that
  page of that document, and inside the rectangle of the page.\<close>

theorem vision_page_complete:
  assumes "extract_page c V F document source page w = (Inr bs, w')"
  shows "vc_enabled c \<and> page \<le> length (pf_pages F)
    \<and> (\<exists>payload content vs. vn_request V c source page w = (Inr payload, w')
         \<and> response_content payload = Inr content \<and> vn_decode V content = Some vs \<and> list_all vision_block_ok vs
         \<and> mset (map (\<lambda>b. (blk_type b, blk_text b)) bs) = mset (map (\<lambda>v. (vb_type v, strip (vb_text v))) vs))
    \<and> map blk_order bs = [0..<length bs] \<and> sorted_wrt above bs
    \<and> (\<forall>b \<in> set bs. block_on document source (int page) b
         \<and> 0 \<le> bx0 (pv_bbox (blk_prov b)) \<and> bx1 (pv_bbox (blk_prov b)) \<le> pv_width (blk_prov b)
         \<and> 0 \<le> by0 (pv_bbox (blk_prov b)) \<and> by1 (pv_bbox (blk_prov b)) \<le> pv_height (blk_prov b))"
proof -
  obtain payload content vs where on: "vc_enabled c" "page \<le> length (pf_pages F)"
    and request: "vn_request V c source page w = (Inr payload, w')"
    and content: "response_content payload = Inr content" and vs: "page_response (vn_decode V) content = Inr vs"
    and bs: "vision_blocks document source page (dv_width (pq_view (page_at F page)))
      (dv_height (pq_view (page_at F page))) vs = Inr bs"
    using assms by (auto simp: extract_page_def act_bind_Inr_iff act_lift_iff res_bind_Inr_iff raise_if_Inr_iff Let_def)
  have "vn_decode V content = Some vs" using vs by (auto simp: page_response_def res_simps split: option.splits)
  with vision_blocks_Inr [OF bs page_response_ok [OF vs]] page_response_ok [OF vs] on request content show ?thesis
    by (auto simp: in_reading_order_def list_all_iff inside_page_def Let_def)
qed

theorem vision_page_complete_witness:
  "\<exists>bs. extract_page sample_vision_config sample_vision sample_file ''d'' ''f.pdf'' 2 () = (Inr bs, ())
    \<and> mset (map (\<lambda>b. (blk_type b, blk_text b)) bs) = {#(Table, ''| a |'')#}
    \<and> (\<forall>b \<in> set bs. block_on ''d'' ''f.pdf'' 2 b)"
proof -
  obtain bs where bs: "extract_page sample_vision_config sample_vision sample_file ''d'' ''f.pdf'' 2 () = (Inr bs, ())"
    using sample_vision_read by blast
  have "strip ''| a |'' = ''| a |''" by code_simp
  then show ?thesis using vision_page_complete [OF bs] bs by (auto simp: sample_vision_def)
qed

end
