(* ===== verification/Scorers.thy ===== *)
theory Scorers
  imports Schema PyRegex PyDecimal "HOL-Library.Multiset"
begin

text \<open>
  The evaluation scorers: \<open>evals/scorers/citation.py\<close>, \<open>numeric_exact.py\<close>, \<open>retrieval.py\<close>,
  \<open>answers.py\<close>, the language split of \<open>evals/cross_lingual.py\<close>, the contracts of
  \<open>evals/schema.py\<close> and the percentiles of \<open>observability/aggregate.py\<close> and
  \<open>staging_agent_impl/eval_metrics.py\<close>. Floats are rationals; the binary logarithm and
  Unicode normalisation are parameters.
\<close>

section \<open>Contracts\<close>

record citation_target =
  tg_document :: string
  tg_page :: int
  tg_bbox :: "bbox option"

datatype answer_type = Numeric | NumericMulti | TextAnswer | Abstain

record answer_expectation =
  xp_type :: answer_type
  xp_value :: "string option"
  xp_values :: "(string \<times> string) list"   \<comment> \<open>label and value\<close>
  xp_direction :: "string option"
  xp_tolerance :: "rat option"

definition blank_option :: "string option \<Rightarrow> bool" where
  "blank_option v = (case v of None \<Rightarrow> True | Some s \<Rightarrow> strip s = [])"

definition mk_expectation :: "answer_expectation \<Rightarrow> answer_expectation res" where   \<comment> \<open>\<open>validate_answer_shape\<close>\<close>
  "mk_expectation e =
     (let shaped =
        raise_if (xp_type e \<in> {Numeric, NumericMulti} \<and> xp_tolerance e = None)
          (ValueError ''answer requires tolerance'') (Inr e)
      in if xp_type e = NumericMulti
         then raise_if (xp_values e = []) (ValueError ''numeric_multi answer requires labeled values'')
             (raise_if (blank_option (xp_direction e)) (ValueError ''numeric_multi answer requires direction'')
             (raise_if (xp_value e \<noteq> None) (ValueError ''numeric_multi answer must use values, not value'') shaped))
         else raise_if (blank_option (xp_value e)) (ValueError ''answer requires value'') shaped)"

datatype question_category = SingleLookup | MultiYearNumeric | DerivedMetric | QualitativeFlag | CrossDocument | Negative

datatype difficulty = Easy | Medium | Hard

record eval_case =
  ec_question :: string                     \<comment> \<open>the identifier\<close>
  ec_pair :: "string option"
  ec_text :: string                         \<comment> \<open>the question itself\<close>
  ec_language :: string
  ec_category :: "question_category option"
  ec_difficulty :: "difficulty option"
  ec_relevant :: "string list"
  ec_expected :: "answer_expectation option"
  ec_citations :: "citation_target list"
  ec_notes :: "string option"

record prediction =
  pn_answer :: string
  pn_citations :: "citation_target list"

definition no_prediction :: prediction where
  "no_prediction = \<lparr>pn_answer = [], pn_citations = []\<rparr>"

section \<open>Citations\<close>

definition citation_matches :: "citation_target \<Rightarrow> citation_target \<Rightarrow> bool" where
  "citation_matches predicted expected =
     (if tg_document predicted \<noteq> tg_document expected \<or> tg_page predicted \<noteq> tg_page expected then False
      else case (tg_bbox expected, tg_bbox predicted) of
        (Some e, Some p) \<Rightarrow> 1 / 2 \<le> bbox_iou p e
      | _ \<Rightarrow> True)"

text \<open>The first unmatched target a prediction matches, and the set of matched indices.\<close>

definition first_target :: "nat list \<Rightarrow> citation_target \<Rightarrow> citation_target list \<Rightarrow> nat option" where
  "first_target used c expected =
     List.find (\<lambda>i. i \<notin> set used \<and> citation_matches c (expected ! i)) [0..<length expected]"

fun match_all :: "citation_target list \<Rightarrow> citation_target list \<Rightarrow> nat list \<Rightarrow> nat list" where
  "match_all [] expected used = used"
| "match_all (c # cs) expected used =
     (case first_target used c expected of
        None \<Rightarrow> match_all cs expected used
      | Some i \<Rightarrow> match_all cs expected (i # used))"

definition harmonic :: "rat \<Rightarrow> rat \<Rightarrow> rat" where
  "harmonic p r = (if p + r \<noteq> 0 then 2 * p * r / (p + r) else 0)"

definition score_citations :: "citation_target list \<Rightarrow> citation_target list \<Rightarrow> rat \<times> rat \<times> rat" where
  "score_citations predicted expected =
     (if predicted = [] \<and> expected = [] then (1, 1, 1)
      else
        let matched = length (match_all predicted expected []);
            p = (if predicted \<noteq> [] then of_nat matched / of_nat (length predicted) else 0);
            r = (if expected \<noteq> [] then of_nat matched / of_nat (length expected) else 0)
        in (p, r, harmonic p r))"

section \<open>Values\<close>

definition answer_number_rx :: rx where
  "answer_number_rx = seqs [opt_rx (chars_rx ''-+''), opt_rx (Lit ''(''), Star space_rx, digit_rx,
     Star (Cls False [(CHR ''0'', CHR ''9''), (CHR '','', CHR '','')]),
     opt_rx (Seq (Lit ''.'') (plus_rx digit_rx)), Star space_rx, opt_rx (Lit '')'')]"

text \<open>
  \<open>float(token)\<close> of what the pattern can leave: an optional sign, digits and a fraction.
  White space other than the blank may remain at the edges, which \<open>float\<close> ignores.
\<close>

definition float_of :: "string \<Rightarrow> rat option" where
  "float_of t = map_option dec_val (decimal_of_string (strip t))"

definition token_number :: "string \<Rightarrow> rat option" where
  "token_number m =
     (let token = replace_all '' '' [] (replace_all '','' [] m);
          negative = (starts_with ''('' token \<and> ends_with '')'' token)
      in map_option (\<lambda>n. if negative then - n else n) (float_of (strip_chars ''()'' token)))"

definition parse_numbers :: "string \<Rightarrow> rat list" where
  "parse_numbers v = List.map_filter (\<lambda>m. token_number (m_text m)) (re_finditer False False answer_number_rx v)"

definition parse_number :: "string \<Rightarrow> rat option" where
  "parse_number v = (case parse_numbers v of [] \<Rightarrow> None | n # _ \<Rightarrow> Some n)"

definition non_word_rx :: rx where
  "non_word_rx = Alt (Cls True ([(CHR ''A'', CHR ''Z''), (CHR ''a'', CHR ''z''), (CHR ''0'', CHR ''9''),
     (CHR ''_'', CHR ''_''), (CHR 0x80, CHR 0xFF)] @ space_set)) (Lit ''_'')"

definition normalized_text :: "(string \<Rightarrow> string) \<Rightarrow> string \<Rightarrow> string" where
  "normalized_text nfkc v = join '' '' (words_of (re_sub False False non_word_rx '' '' (casefold (nfkc v))))"

definition near :: "rat \<Rightarrow> rat list \<Rightarrow> rat option \<Rightarrow> bool" where
  "near tolerance actuals target =
     (case target of None \<Rightarrow> False | Some t \<Rightarrow> list_ex (\<lambda>a. \<bar>a - t\<bar> \<le> tolerance) actuals)"

text \<open>The assertions are guaranteed by the expectation's validator.\<close>

definition score_answer_value :: "(string \<Rightarrow> string) \<Rightarrow> string \<Rightarrow> answer_expectation \<Rightarrow> bool" where
  "score_answer_value nfkc predicted e =
     (case xp_type e of
        Numeric \<Rightarrow> near (the (xp_tolerance e)) (parse_numbers predicted) (parse_number (the (xp_value e)))
      | NumericMulti \<Rightarrow>
          list_all (\<lambda>(_, v). near (the (xp_tolerance e)) (parse_numbers predicted) (parse_number v)) (xp_values e)
      | _ \<Rightarrow> normalized_text nfkc predicted = normalized_text nfkc (the (xp_value e)))"

section \<open>Answers\<close>

definition mean :: "rat list \<Rightarrow> rat" where
  "mean xs = (if xs = [] then 0 else sum_list xs / of_nat (length xs))"

definition of_flag :: "bool \<Rightarrow> rat" where
  "of_flag b = (if b then 1 else 0)"

record answer_metrics =
  am_count :: nat
  am_exact :: rat
  am_numeric :: "rat option"
  am_text :: "rat option"
  am_precision :: rat
  am_recall :: rat
  am_f1 :: rat

definition mean_option :: "rat list \<Rightarrow> rat option" where
  "mean_option xs = (if xs = [] then None else Some (mean xs))"

definition aggregate_answers :: "(string \<Rightarrow> string) \<Rightarrow> eval_case list \<Rightarrow> (string, prediction) dict \<Rightarrow> answer_metrics" where
  "aggregate_answers nfkc cases predictions =
     (let answered = filter (\<lambda>c. ec_expected c \<noteq> None) cases;
          scored = map (\<lambda>c. let p = dict_get_default predictions (ec_question c) no_prediction; e = the (ec_expected c) in
             (xp_type e, of_flag (score_answer_value nfkc (pn_answer p) e), score_citations (pn_citations p) (ec_citations c)))
             answered
      in \<lparr>am_count = length answered, am_exact = mean (map (\<lambda>(t, m, s). m) scored),
          am_numeric = mean_option (map (\<lambda>(t, m, s). m) (filter (\<lambda>(t, m, s). t \<in> {Numeric, NumericMulti}) scored)),
          am_text = mean_option (map (\<lambda>(t, m, s). m) (filter (\<lambda>(t, m, s). t \<notin> {Numeric, NumericMulti}) scored)),
          am_precision = mean (map (\<lambda>(t, m, (p, r, f)). p) scored),
          am_recall = mean (map (\<lambda>(t, m, (p, r, f)). r) scored),
          am_f1 = mean (map (\<lambda>(t, m, (p, r, f)). f) scored)\<rparr>)"

section \<open>Retrieval\<close>

record retrieved_item =
  ri_chunk :: string
  ri_rank :: int

record retrieval_scores =
  rs_recall1 :: rat
  rs_recall5 :: rat
  rs_recall8 :: rat
  rs_mrr :: rat
  rs_ndcg8 :: rat

text \<open>\<open>len(relevant & set(ids)) / len(relevant)\<close>\<close>

definition recall_of :: "string list \<Rightarrow> string list \<Rightarrow> rat" where
  "recall_of relevant ids = of_nat (card (set relevant \<inter> set ids)) / of_nat (card (set relevant))"

definition ranked_positions :: "string list \<Rightarrow> string list \<Rightarrow> nat list" where
  "ranked_positions relevant ids = filter (\<lambda>i. ids ! i \<in> set relevant) [0..<length ids]"

text \<open>The gain of the item at 0-based position \<open>i\<close> is \<open>1 / log2(i + 2)\<close>.\<close>

definition dcg :: "(nat \<Rightarrow> rat) \<Rightarrow> nat list \<Rightarrow> rat" where
  "dcg log2 positions = sum_list (map (\<lambda>i. 1 / log2 (i + 2)) positions)"

definition zero_scores :: retrieval_scores where
  "zero_scores = \<lparr>rs_recall1 = 0, rs_recall5 = 0, rs_recall8 = 0, rs_mrr = 0, rs_ndcg8 = 0\<rparr>"

definition score_retrieval_case :: "(nat \<Rightarrow> rat) \<Rightarrow> string list \<Rightarrow> retrieved_item list \<Rightarrow> retrieval_scores" where
  "score_retrieval_case log2 relevant retrieved =
     (let ids = map ri_chunk (sort_key ri_rank retrieved) in
      if relevant = [] then zero_scores
      else
        let ideal = dcg log2 [0..<min (card (set relevant)) 8] in
        \<lparr>rs_recall1 = recall_of relevant (take 1 ids), rs_recall5 = recall_of relevant (take 5 ids),
         rs_recall8 = recall_of relevant (take 8 ids),
         rs_mrr = (case ranked_positions relevant ids of [] \<Rightarrow> 0 | i # _ \<Rightarrow> 1 / of_nat (i + 1)),
         rs_ndcg8 = (if ideal \<noteq> 0 then dcg log2 (ranked_positions relevant (take 8 ids)) / ideal else 0)\<rparr>)"

record retrieval_metrics =
  rm_count :: nat
  rm_scores :: retrieval_scores

definition aggregate_retrieval ::
  "(nat \<Rightarrow> rat) \<Rightarrow> eval_case list \<Rightarrow> (string, retrieved_item list) dict \<Rightarrow> retrieval_metrics" where
  "aggregate_retrieval log2 cases predictions =
     (let vs = map (\<lambda>c. score_retrieval_case log2 (ec_relevant c) (dict_get_default predictions (ec_question c) [])) cases
      in \<lparr>rm_count = length vs,
          rm_scores = (if vs = [] then zero_scores
            else \<lparr>rs_recall1 = mean (map rs_recall1 vs), rs_recall5 = mean (map rs_recall5 vs),
                  rs_recall8 = mean (map rs_recall8 vs), rs_mrr = mean (map rs_mrr vs),
                  rs_ndcg8 = mean (map rs_ndcg8 vs)\<rparr>)\<rparr>)"

text \<open>The construction of the metrics record checks that every score lies between 0 and 1.\<close>

definition unit_score :: "rat \<Rightarrow> bool" where
  "unit_score x = (0 \<le> x \<and> x \<le> 1)"

definition scores_ok :: "retrieval_scores \<Rightarrow> bool" where
  "scores_ok s = list_all unit_score [rs_recall1 s, rs_recall5 s, rs_recall8 s, rs_mrr s, rs_ndcg8 s]"

section \<open>Language pairs\<close>

fun check_pair :: "eval_case \<Rightarrow> eval_case list \<Rightarrow> unit res" where
  "check_pair ref [] = Inr ()"
| "check_pair ref (c # cs) =
     raise_if (ec_relevant c \<noteq> ec_relevant ref) (ValueError ''mismatched relevant chunks'')
    (raise_if (ec_expected c \<noteq> ec_expected ref) (ValueError ''mismatched expected answers'')
    (raise_if (ec_citations c \<noteq> ec_citations ref) (ValueError ''mismatched expected citations'')
    (check_pair ref cs)))"

fun group_pairs :: "eval_case list \<Rightarrow> (string, eval_case list) dict \<Rightarrow> (string, eval_case list) dict res" where
  "group_pairs [] d = Inr d"
| "group_pairs (c # cs) d =
     (case ec_pair c of
        None \<Rightarrow> Inl (ValueError ''cross-lingual case needs pair_id'')
      | Some p \<Rightarrow>
          raise_if (p = []) (ValueError ''cross-lingual case needs pair_id'') (group_pairs cs (dict_append p c d)))"

fun check_groups :: "string list \<Rightarrow> (string, eval_case list) dict \<Rightarrow> unit res" where
  "check_groups required [] = Inr ()"
| "check_groups required ((p, cs) # rest) =
     raise_if (set (map ec_language cs) \<noteq> set required \<or> length cs \<noteq> length (uniq required))
       (ValueError ''pair must contain exactly the required languages'')
    (res_bind (check_pair (hd cs) (tl cs)) (\<lambda>_. check_groups required rest))"

definition validate_paired_cases :: "string list \<Rightarrow> eval_case list \<Rightarrow> unit res" where
  "validate_paired_cases required cases =
     res_bind (group_pairs cases []) (\<lambda>d.
     raise_if (d = []) (ValueError ''cross-lingual dataset has no pairs'') (check_groups required d))"

fun group_by_language :: "eval_case list \<Rightarrow> (string, eval_case list) dict \<Rightarrow> (string, eval_case list) dict res" where
  "group_by_language [] d = Inr d"
| "group_by_language (c # cs) d =
     raise_if (strip (ec_language c) = []) (ValueError ''case language must not be blank'')
       (group_by_language cs (dict_append (ec_language c) c d))"

definition by_language :: "(eval_case list \<Rightarrow> 'a) \<Rightarrow> eval_case list \<Rightarrow> (string \<times> 'a) list res" where
  "by_language score cases =
     res_bind (group_by_language cases []) (\<lambda>d. Inr (map (\<lambda>(l, cs). (l, score cs)) (sort_key fst d)))"

definition aggregate_retrieval_by_language ::
  "(nat \<Rightarrow> rat) \<Rightarrow> eval_case list \<Rightarrow> (string, retrieved_item list) dict \<Rightarrow> (string \<times> retrieval_metrics) list res" where
  "aggregate_retrieval_by_language log2 cases predictions =
     by_language (\<lambda>cs. aggregate_retrieval log2 cs predictions) cases"

definition aggregate_answers_by_language ::
  "(string \<Rightarrow> string) \<Rightarrow> eval_case list \<Rightarrow> (string, prediction) dict \<Rightarrow> (string \<times> answer_metrics) list res" where
  "aggregate_answers_by_language nfkc cases predictions =
     by_language (\<lambda>cs. aggregate_answers nfkc cs predictions) cases"

section \<open>Percentiles\<close>

definition percentile :: "rat list \<Rightarrow> rat \<Rightarrow> rat" where
  "percentile values p =
     (if values = [] then 0
      else sort values ! nat (max 0 (\<lceil>p * of_nat (length values)\<rceil> - 1)))"

section \<open>Citation lemmas\<close>

lemma first_target_Some:
  "first_target used c expected = Some i \<Longrightarrow> i < length expected \<and> i \<notin> set used \<and> citation_matches c (expected ! i)"
  unfolding first_target_def using find_Some_in by fastforce

lemma match_all_ok:
  "distinct used \<Longrightarrow> set used \<subseteq> {..<length expected} \<Longrightarrow>
     distinct (match_all cs expected used) \<and> set (match_all cs expected used) \<subseteq> {..<length expected}
     \<and> length (match_all cs expected used) \<le> length used + length cs"
proof (induction cs expected used rule: match_all.induct)
  case (2 c cs expected used)
  show ?case
  proof (cases "first_target used c expected")
    case None
    with 2 show ?thesis by simp
  next
    case (Some i)
    from first_target_Some[OF Some] 2(2)[OF Some] "2.prems" show ?thesis by (simp add: Some)
  qed
qed simp

lemma matched_bounds: "length (match_all cs expected []) \<le> length cs \<and> length (match_all cs expected []) \<le> length expected"
proof -
  from match_all_ok[of "[]" expected cs] have m: "distinct (match_all cs expected [])"
    "set (match_all cs expected []) \<subseteq> {..<length expected}" "length (match_all cs expected []) \<le> length cs" by auto
  have "length (match_all cs expected []) = card (set (match_all cs expected []))" by (simp add: distinct_card m(1))
  also have "\<dots> \<le> length expected" using card_mono[OF _ m(2)] by simp
  finally show ?thesis using m(3) by simp
qed

lemma harmonic_bounds:
  assumes "0 \<le> p" "p \<le> 1" "0 \<le> r" "r \<le> 1"
  shows "0 \<le> harmonic p r \<and> harmonic p r \<le> 1"
proof (cases "p + r = 0")
  case False
  with assms have pos: "0 < p + r" by linarith
  have "2 * p * r \<le> p + r"
  proof -
    have "p * r \<le> p" "p * r \<le> r" using assms by (simp_all add: mult_left_le mult_left_le_one_le)
    then show ?thesis by simp
  qed
  with pos assms show ?thesis by (simp add: harmonic_def)
qed (simp add: harmonic_def)

lemma fraction_unit: "a \<le> b \<Longrightarrow> 0 \<le> (of_nat a / of_nat b :: rat) \<and> (of_nat a / of_nat b :: rat) \<le> 1"
  by (cases "b = 0") (simp_all add: divide_le_eq_1)

lemma score_citations_unit:
  "score_citations predicted expected = (p, r, f) \<Longrightarrow> unit_score p \<and> unit_score r \<and> unit_score f"
  using matched_bounds[of predicted expected] fraction_unit harmonic_bounds
  by (auto simp: score_citations_def unit_score_def Let_def split: if_splits)

text \<open>Predicting exactly the expected citations scores one, whenever the boxes have an area.\<close>

lemma iou_with_itself: "ordered_coordinates b \<Longrightarrow> bbox_area b \<noteq> 0 \<Longrightarrow> bbox_iou b b = 1"
  by (simp add: bbox_iou_def bbox_intersection_def bbox_area_def ordered_coordinates_def Let_def)

definition proper_target :: "citation_target \<Rightarrow> bool" where
  "proper_target t = (case tg_bbox t of None \<Rightarrow> True | Some b \<Rightarrow> ordered_coordinates b \<and> bbox_area b \<noteq> 0)"

lemma citation_matches_self: "proper_target t \<Longrightarrow> citation_matches t t"
  by (auto simp: citation_matches_def proper_target_def iou_with_itself split: option.splits)

lemma find_upt: "i < n \<Longrightarrow> p i \<Longrightarrow> (\<And>j. j < i \<Longrightarrow> \<not> p j) \<Longrightarrow> List.find p [0..<n] = Some i"
  by (auto simp: find_Some_iff intro!: exI[of _ i])

lemma match_all_self:
  assumes "list_all proper_target ts"
  shows "k + length cs = length ts \<Longrightarrow> cs = drop k ts \<Longrightarrow> set used = {..<k} \<Longrightarrow>
     length (match_all cs ts used) = length used + length cs"
proof (induction cs arbitrary: k used)
  case (Cons c cs)
  have "k < length ts" using Cons.prems(1) by simp
  moreover from Cons_nth_drop_Suc[OF this] have "c = ts ! k" "cs = drop (Suc k) ts"
    using Cons.prems(2) by (metis list.inject)+
  ultimately have k: "k < length ts" "c = ts ! k" "cs = drop (Suc k) ts" by blast+
  then have "citation_matches c (ts ! k)" using assms by (simp add: citation_matches_self list_all_length)
  then have "first_target used c ts = Some k"
    unfolding first_target_def by (intro find_upt) (simp_all add: k(1) Cons.prems(3))
  moreover have "set (k # used) = {..<Suc k}" by (simp only: list.set Cons.prems(3) lessThan_Suc)
  moreover have "Suc k + length cs = length ts" using Cons.prems(1) by simp
  ultimately have "length (match_all cs ts (k # used)) = Suc (length used) + length cs" "first_target used c ts = Some k"
    using Cons.IH[of "Suc k" "k # used"] k(3) by simp_all
  then show ?case by (simp only: match_all.simps option.case) simp
qed simp

lemma score_citations_self:
  assumes "list_all proper_target ts"
  shows "score_citations ts ts = (1, 1, 1)"
  using match_all_self[OF assms, of 0 ts "[]"] by (simp add: score_citations_def harmonic_def Let_def)

section \<open>Retrieval lemmas\<close>

text \<open>What the scorer relies on: the logarithm is positive and ascending from 2 on.\<close>

definition log_ok :: "(nat \<Rightarrow> rat) \<Rightarrow> bool" where
  "log_ok lg = (\<forall>m n. 2 \<le> m \<and> m \<le> n \<longrightarrow> 0 < lg m \<and> lg m \<le> lg n)"

lemma log_pos: "log_ok lg \<Longrightarrow> 2 \<le> n \<Longrightarrow> 0 < lg n" and log_mono: "log_ok lg \<Longrightarrow> 2 \<le> m \<Longrightarrow> m \<le> n \<Longrightarrow> lg m \<le> lg n"
  by (auto simp: log_ok_def)

lemma dcg_nonneg: "log_ok lg \<Longrightarrow> 0 \<le> dcg lg ps"
proof (induction ps)
  case (Cons i ps)
  then have "0 < lg (i + 2)" by (intro log_pos) simp_all
  with Cons show ?case by (simp add: dcg_def)
qed (simp add: dcg_def)

lemma ascending_at_least:
  "sorted_wrt (<) ps \<Longrightarrow> list_all (\<lambda>i. k \<le> i) ps \<Longrightarrow> log_ok lg \<Longrightarrow> dcg lg ps \<le> dcg lg [k..<k + length ps]"
proof (induction ps arbitrary: k)
  case (Cons i ps)
  have k: "k \<le> i" using Cons.prems(2) by simp
  have rest: "list_all (\<lambda>j. Suc k \<le> j) ps" using Cons.prems(1) k by (auto simp: list_all_iff)
  have "0 < lg (k + 2)" "lg (k + 2) \<le> lg (i + 2)"
    using log_pos[OF Cons.prems(3), of "k + 2"] log_mono[OF Cons.prems(3), of "k + 2" "i + 2"] k by simp_all
  then have "1 / lg (i + 2) \<le> 1 / lg (k + 2)" by (simp add: frac_le)
  moreover have "dcg lg ps \<le> dcg lg [Suc k..<Suc k + length ps]" using Cons by (intro Cons.IH rest) auto
  moreover have "[k..<k + length (i # ps)] = k # [Suc k..<Suc k + length ps]" by (simp add: upt_conv_Cons del: upt_Suc)
  ultimately show ?case by (simp add: dcg_def del: upt_Suc)
qed simp

lemma dcg_mono:
  assumes "log_ok lg" "m \<le> n"
  shows "dcg lg [0..<m] \<le> dcg lg [0..<n]"
proof -
  have "[0..<n] = [0..<m] @ [m..<n]" using assms(2) by (metis le0 le_add_diff_inverse upt_add_eq_append)
  then have "dcg lg [0..<n] = dcg lg [0..<m] + dcg lg [m..<n]" by (simp add: dcg_def)
  with dcg_nonneg[OF assms(1)] show ?thesis by simp
qed

lemma ranked_positions_ascending: "sorted_wrt (<) (ranked_positions relevant ids)"
  by (simp add: ranked_positions_def sorted_wrt_filter)

lemma ranked_positions_length:
  assumes "distinct ids"
  shows "length (ranked_positions relevant ids) = card (set relevant \<inter> set ids)"
proof -
  have "filter (\<lambda>i. i \<in> set relevant) (map ((!) ids) [0..<length ids]) = map ((!) ids) (ranked_positions relevant ids)"
    by (simp add: ranked_positions_def filter_map comp_def)
  then have "length (ranked_positions relevant ids) = length (filter (\<lambda>i. i \<in> set relevant) ids)"
    by (metis length_map map_nth)
  also have "\<dots> = card (set (filter (\<lambda>i. i \<in> set relevant) ids))"
    using assms by (intro distinct_card[symmetric] distinct_filter)
  also have "set (filter (\<lambda>i. i \<in> set relevant) ids) = set relevant \<inter> set ids" by auto
  finally show ?thesis .
qed

lemma recall_unit: "unit_score (recall_of relevant ids)"
proof -
  have "card (set relevant \<inter> set ids) \<le> card (set relevant)" by (intro card_mono) auto
  from fraction_unit[OF this] show ?thesis by (simp add: unit_score_def recall_of_def)
qed

lemma sort_ids: "distinct (map ri_chunk retrieved) \<Longrightarrow> distinct (map ri_chunk (sort_key ri_rank retrieved))"
  by (metis mset_map mset_sort mset_eq_imp_distinct_iff)

lemma ndcg_bound:
  assumes "log_ok lg" "distinct ids"
  shows "dcg lg (ranked_positions relevant (take k ids)) \<le> dcg lg [0..<min (card (set relevant)) k]"
proof -
  let ?ps = "ranked_positions relevant (take k ids)"
  have "length ?ps = card (set relevant \<inter> set (take k ids))" using assms(2) by (intro ranked_positions_length) simp
  moreover have "card (set relevant \<inter> set (take k ids)) \<le> card (set relevant)" by (intro card_mono) auto
  moreover have "card (set relevant \<inter> set (take k ids)) \<le> k"
    by (rule order_trans[OF card_mono[of "set (take k ids)"]]) (auto intro: order_trans[OF card_length])
  ultimately have "length ?ps \<le> min (card (set relevant)) k" by simp
  with dcg_mono[OF assms(1) this] ascending_at_least[OF ranked_positions_ascending _ assms(1), of 0 relevant "take k ids"]
  show ?thesis by (simp add: list_all_iff)
qed

lemma scores_unit:
  assumes "log_ok lg" "distinct (map ri_chunk retrieved)"
  shows "scores_ok (score_retrieval_case lg relevant retrieved)"
proof (cases "relevant = []")
  case True
  then show ?thesis by (simp add: score_retrieval_case_def zero_scores_def scores_ok_def unit_score_def)
next
  case False
  let ?ids = "map ri_chunk (sort_key ri_rank retrieved)"
  let ?d = "dcg lg (ranked_positions relevant (take 8 ?ids))"
  let ?i = "dcg lg [0..<min (card (set relevant)) 8]"
  have "?d \<le> ?i" using ndcg_bound[OF assms(1) sort_ids[OF assms(2)]] .
  moreover have "0 \<le> ?d" by (rule dcg_nonneg[OF assms(1)])
  ultimately have "unit_score (if ?i \<noteq> 0 then ?d / ?i else 0)" by (simp add: unit_score_def divide_le_eq_1)
  moreover have "unit_score (case ranked_positions relevant ?ids of [] \<Rightarrow> 0 | i # _ \<Rightarrow> 1 / of_nat (i + 1))"
    using fraction_unit[of 1] by (auto simp: unit_score_def split: list.split)
  ultimately show ?thesis using False recall_unit by (simp add: score_retrieval_case_def scores_ok_def Let_def)
qed

lemma mean_unit:
  assumes "list_all unit_score xs"
  shows "unit_score (mean xs)"
proof -
  have "0 \<le> sum_list xs" using assms by (intro sum_list_nonneg) (auto simp: list_all_iff unit_score_def)
  moreover have "sum_list xs \<le> of_nat (length xs)"
    using assms by (induction xs) (auto simp: unit_score_def)
  ultimately show ?thesis by (auto simp: unit_score_def mean_def divide_le_eq_1)
qed

text \<open>A chunk that is ranked twice counts twice, and the gain exceeds the ideal one.\<close>

lemma duplicate_exceeds_ideal:
  assumes "log_ok lg"
  shows "1 < rs_ndcg8 (score_retrieval_case lg [a] [\<lparr>ri_chunk = a, ri_rank = 1\<rparr>, \<lparr>ri_chunk = a, ri_rank = 2\<rparr>])"
proof -
  let ?r = "[\<lparr>ri_chunk = a, ri_rank = 1\<rparr>, \<lparr>ri_chunk = a, ri_rank = 2\<rparr>]"
  have l: "0 < lg 2" "0 < lg 3" using assms by (simp_all add: log_pos)
  have "map ri_chunk (sort_key ri_rank ?r) = [a, a]" by simp
  moreover have "ranked_positions [a] (take 8 [a, a]) = [0, 1]" by (simp add: ranked_positions_def upt_rec)
  moreover have "dcg lg [0..<min (card (set [a])) 8] = 1 / lg 2" "dcg lg [0, 1] = 1 / lg 2 + 1 / lg 3"
    by (simp_all add: dcg_def numeral_3_eq_3 numeral_2_eq_2)
  ultimately have "rs_ndcg8 (score_retrieval_case lg [a] ?r) = (1 / lg 2 + 1 / lg 3) / (1 / lg 2)"
    using l by (simp add: score_retrieval_case_def Let_def)
  also have "\<dots> = 1 + lg 2 / lg 3" using l by (simp add: field_simps)
  finally show ?thesis using l by simp
qed

section \<open>Pairs and percentiles\<close>

lemma check_pair_Inr: "check_pair ref cs = Inr u \<Longrightarrow>
    list_all (\<lambda>c. ec_relevant c = ec_relevant ref \<and> ec_expected c = ec_expected ref \<and> ec_citations c = ec_citations ref) cs"
  by (induction ref cs rule: check_pair.induct) (auto simp: res_simps)

lemma check_groups_Inr: "check_groups required d = Inr u \<Longrightarrow> (p, cs) \<in> set d \<Longrightarrow>
    set (map ec_language cs) = set required \<and> length cs = length (uniq required)
    \<and> list_all (\<lambda>c. ec_relevant c = ec_relevant (hd cs) \<and> ec_expected c = ec_expected (hd cs)
        \<and> ec_citations c = ec_citations (hd cs)) cs"
proof (induction required d rule: check_groups.induct)
  case (2 required p' cs' rest)
  show ?case
  proof (cases "(p, cs) = (p', cs')")
    case True
    with 2 check_pair_Inr[of "hd cs" "tl cs"] show ?thesis by (cases cs) (auto simp: res_simps)
  next
    case False
    with 2 show ?thesis by (auto simp: res_simps)
  qed
qed simp

text \<open>The percentile is one of the values, and at least the given share of them are not above it.\<close>

lemma percentile_index:
  assumes "values \<noteq> []" "0 \<le> p" "p \<le> 1"
  defines "i \<equiv> nat (max 0 (\<lceil>p * of_nat (length values)\<rceil> - 1))"
  shows "i < length values" "p * of_nat (length values) \<le> of_nat (i + 1)"
proof -
  have "p * of_nat (length values) \<le> of_nat (length values)" using assms(2,3) by (simp add: mult_left_le_one_le)
  then have c: "\<lceil>p * of_nat (length values)\<rceil> \<le> int (length values)" by (simp add: ceiling_le_iff)
  then show "i < length values" using assms(1) by (auto simp: i_def nat_less_iff)
  have "p * of_nat (length values) \<le> of_int \<lceil>p * of_nat (length values)\<rceil>" by (rule le_of_int_ceiling)
  also have "\<dots> \<le> of_int (int (i + 1))" unfolding of_int_le_iff i_def by linarith
  finally show "p * of_nat (length values) \<le> of_nat (i + 1)" by simp
qed

lemma percentile_share:
  assumes "values \<noteq> []" "0 \<le> p" "p \<le> 1"
  shows "percentile values p \<in> set values
    \<and> p * of_nat (length values) \<le> of_nat (length (filter (\<lambda>v. v \<le> percentile values p) values))"
proof -
  define i where "i = nat (max 0 (\<lceil>p * of_nat (length values)\<rceil> - 1))"
  note i = percentile_index[OF assms, folded i_def]
  let ?s = "sort values"
  have v: "percentile values p = ?s ! i" using assms(1) by (simp add: percentile_def i_def)
  have "set (take (i + 1) ?s) \<subseteq> {v. v \<le> ?s ! i}"
    using i(1) sorted_nth_mono[of "sort values" _ i] by (auto simp: in_set_conv_nth)
  then have "i + 1 \<le> length (filter (\<lambda>v. v \<le> ?s ! i) (take (i + 1) ?s))" using i(1) by (subst filter_True) auto
  also have "\<dots> \<le> length (filter (\<lambda>v. v \<le> ?s ! i) ?s)"
    by (metis append_take_drop_id filter_append le_add1 length_append)
  also have "\<dots> = length (filter (\<lambda>v. v \<le> ?s ! i) values)"
    by (metis filter_sort length_sort)
  finally have "i + 1 \<le> length (filter (\<lambda>v. v \<le> percentile values p) values)" by (simp add: v)
  moreover have "percentile values p \<in> set values" using i(1) nth_mem[of i ?s] by (simp add: v)
  ultimately show ?thesis using i(2) by (metis of_nat_le_iff order_trans)
qed

end
