(* ===== verification/Trace.thy ===== *)
theory Trace
  imports Scorers "HOL-Library.AList"
begin

text \<open>
  \<open>observability/\<close>: the identifiers of a pipeline run, the observer that times a stage and hands one event to
  its recorders, the recorders, and the aggregation of the events of a run into operational metrics. The
  clock and the recorders act on a world of their own.
\<close>

section \<open>Contexts and events\<close>

datatype attribute = AStr string | AInt int | AFloat rat | ABool bool | ANone

record trace_context =
  tc_run :: string
  tc_operation :: string
  tc_query :: string
  tc_question :: "string option"
  tc_config :: "string option"
  tc_dataset :: "string option"
  tc_template :: "string option"
  tc_version :: "string option"
  tc_prompt :: "string option"

definition template_ok :: "string \<Rightarrow> bool" where   \<comment> \<open>\<open>^[a-z0-9][a-z0-9_.-]{0,119}$\<close>\<close>
  "template_ok s =
     (case s of
        [] \<Rightarrow> False
      | c # cs \<Rightarrow> (is_lower c \<or> is_digit c) \<and> length cs \<le> 119
          \<and> list_all (\<lambda>d. is_lower d \<or> is_digit d \<or> d \<in> set ''_.-'') cs)"

definition is_hex :: "nat \<Rightarrow> string \<Rightarrow> bool" where
  "is_hex n s = (length s = n \<and> list_all (\<lambda>c. is_digit c \<or> in_range (CHR ''a'') (CHR ''f'') c) s)"

definition opt_holds :: "('a \<Rightarrow> bool) \<Rightarrow> 'a option \<Rightarrow> bool" where
  "opt_holds P x = (case x of None \<Rightarrow> True | Some a \<Rightarrow> P a)"

definition context_ok :: "trace_context \<Rightarrow> bool" where
  "context_ok c =
     (py_len (tc_query c) = 64 \<and> opt_holds template_ok (tc_template c) \<and> opt_holds (is_hex 12) (tc_version c)
      \<and> opt_holds (is_hex 64) (tc_prompt c))"

definition mk_context :: "trace_context \<Rightarrow> trace_context res" where
  "mk_context c = raise_if (\<not> context_ok c) (ValidationError ''TraceContext'') (Inr c)"

definition or_empty :: "string option \<Rightarrow> string" where
  "or_empty s = (case s of None \<Rightarrow> [] | Some x \<Rightarrow> x)"

definition for_query ::
  "string \<Rightarrow> string \<Rightarrow> string option \<Rightarrow> string option \<Rightarrow> string option \<Rightarrow> trace_context res" where
  "for_query query operation question config dataset =
     raise_if (strip query = []) (ValueError ''trace query must not be blank'')
      (let query_hash = sha256_hex query;
           identity = join ''|'' [operation, or_empty question, or_empty config, or_empty dataset, query_hash] in
       mk_context \<lparr>tc_run = take 24 (sha256_hex identity), tc_operation = operation, tc_query = query_hash,
         tc_question = map_option sha256_hex question, tc_config = config, tc_dataset = dataset,
         tc_template = None, tc_version = None, tc_prompt = None\<rparr>)"

definition with_prompt :: "trace_context \<Rightarrow> string \<Rightarrow> string \<Rightarrow> trace_context res" where
  "with_prompt c template_id template =
     raise_if (strip template = []) (ValueError ''prompt template must not be blank'')
      (let digest = sha256_hex template in
       mk_context (c\<lparr>tc_template := Some template_id, tc_version := Some (take 12 digest), tc_prompt := Some digest\<rparr>))"

record span_event =
  sp_context :: trace_context
  sp_stage :: string
  sp_failed :: bool                       \<comment> \<open>\<open>status == "error"\<close>\<close>
  sp_duration :: rat
  sp_attributes :: "(string, attribute) dict"
  sp_error :: "string option"

text \<open>\<open>type(error).__name__\<close>, for the classes that the model keeps apart.\<close>

fun exc_name :: "exc \<Rightarrow> string" where
  "exc_name (EvidenceInsufficient _) = ''EvidenceInsufficient''"
| "exc_name (ValueError _) = ''ValueError''"
| "exc_name (JSONDecodeError _) = ''JSONDecodeError''"
| "exc_name (PermissionError _) = ''PermissionError''"
| "exc_name (RuntimeError _) = ''RuntimeError''"
| "exc_name (KeyError _) = ''KeyError''"
| "exc_name (TypeError _) = ''TypeError''"
| "exc_name (AttributeError _) = ''AttributeError''"
| "exc_name (OSError _) = ''OSError''"
| "exc_name IndexError = ''IndexError''"
| "exc_name InvalidOperation = ''InvalidOperation''"
| "exc_name StopIteration = ''StopIteration''"
| "exc_name (HTTPException _ _) = ''HTTPException''"
| "exc_name (DocumentIngestionError _) = ''DocumentIngestionError''"
| "exc_name (ValidationError _) = ''ValidationError''"
| "exc_name TimeoutError = ''TimeoutError''"
| "exc_name (ExceptionGroup _ _) = ''ExceptionGroup''"
| "exc_name (OtherError s) = s"

section \<open>Recorders\<close>

type_synonym 'w recorder = "span_event \<Rightarrow> ('w, unit) act"

definition no_recorder :: "'w recorder" where
  "no_recorder e = act_return ()"

text \<open>\<open>except Exception\<close> around one call of a recorder.\<close>

definition try_record :: "'w recorder \<Rightarrow> 'w recorder" where
  "try_record r e = act_catch (r e) (\<lambda>_. act_return ())"

fun record_all :: "'w recorder list \<Rightarrow> 'w recorder" where
  "record_all [] e = act_return ()"
| "record_all (r # rs) e = act_bind (try_record r e) (\<lambda>_. record_all rs e)"

definition composite :: "'w recorder list \<Rightarrow> 'w recorder res" where
  "composite rs = raise_if (rs = []) (ValueError ''composite recorder requires at least one backend'') (Inr (record_all rs))"

text \<open>\<open>InMemoryRecorder\<close>, on the list of its events.\<close>

definition memory_recorder :: "span_event list recorder" where
  "memory_recorder e events = (Inr (), events @ [e])"

text \<open>\<open>JsonlRecorder\<close>, on the text of its file; the lock makes the append one step.\<close>

definition jsonl_recorder :: "(span_event \<Rightarrow> string) \<Rightarrow> string recorder" where
  "jsonl_recorder dump e file = (Inr (), file @ dump e @ newline)"

section \<open>The observer\<close>

record 'w observer =
  ob_clock :: "'w \<Rightarrow> int \<times> 'w"
  ob_record :: "'w recorder"

definition record_span ::
  "'w observer \<Rightarrow> trace_context \<Rightarrow> string \<Rightarrow> int \<Rightarrow> (string, attribute) dict \<Rightarrow> exc option \<Rightarrow> 'w \<Rightarrow> 'w" where
  "record_span ob ctx stage started attributes error w =
     (let (now, w1) = ob_clock ob w;
          event = \<lparr>sp_context = ctx, sp_stage = stage, sp_failed = (error \<noteq> None),
            sp_duration = max 0 (of_int (now - started) / 1000000), sp_attributes = attributes,
            sp_error = map_option exc_name error\<rparr> in
      snd (try_record (ob_record ob) event w1))"

text \<open>
  \<open>with observer.span(...) as attributes: body\<close>: the body runs on the world and on the dictionary of
  attributes, which it may extend before it fails.
\<close>

definition span ::
  "'w observer \<Rightarrow> trace_context \<Rightarrow> string \<Rightarrow> (string, attribute) dict
   \<Rightarrow> ('w \<times> (string, attribute) dict, 'a) act \<Rightarrow> ('w, 'a) act" where
  "span ob ctx stage attributes body w =
     (let (started, w1) = ob_clock ob w; (r, w2, attrs) = body (w1, attributes) in
      (r, record_span ob ctx stage started attrs (case r of Inl e \<Rightarrow> Some e | Inr _ \<Rightarrow> None) w2))"

definition set_attribute :: "string \<Rightarrow> attribute \<Rightarrow> ('w \<times> (string, attribute) dict, unit) act" where
  "set_attribute k v = (\<lambda>(w, attrs). (Inr (), (w, AList.update k v attrs)))"

text \<open>An action of the world inside the body of a span.\<close>

definition in_span :: "('w, 'a) act \<Rightarrow> ('w \<times> (string, attribute) dict, 'a) act" where
  "in_span m = (\<lambda>(w, attrs). case m w of (r, w') \<Rightarrow> (r, (w', attrs)))"

section \<open>Configuration\<close>

record langfuse_config =
  lf_enabled :: bool
  lf_url :: "string \<times> string option"
  lf_public :: string
  lf_secret :: string
  lf_service :: string
  lf_timeout :: int

definition langfuse_hosts :: "string list" where
  "langfuse_hosts = [''localhost'', ''127.0.0.1'', ''::1'', ''host.docker.internal'']"

definition mk_langfuse_config :: "langfuse_config \<Rightarrow> langfuse_config res" where
  "mk_langfuse_config c =
     raise_if (lf_timeout c \<le> 0) (ValidationError ''LangfuseOtlpConfig'')
    (raise_if (fst (lf_url c) \<noteq> ''http'' \<or> (case snd (lf_url c) of None \<Rightarrow> True | Some h \<Rightarrow> h \<notin> set langfuse_hosts))
       (ValidationError ''Langfuse must use a self-hosted local HTTP endpoint'') (Inr c))"

record observability_config =
  oc_enabled :: bool
  oc_langfuse :: "langfuse_config option"

type_synonym environ = "string \<Rightarrow> string option"

definition credential_available :: "environ \<Rightarrow> string \<Rightarrow> bool" where
  "credential_available env name = (truthy (env name) \<or> truthy (env (name @ ''_FILE'')))"

text \<open>\<open>_credential\<close>: \<open>read\<close> is the text of a file.\<close>

definition credential :: "(string \<Rightarrow> string res) \<Rightarrow> environ \<Rightarrow> string \<Rightarrow> string option res" where
  "credential read env name =
     (if truthy (env (name @ ''_FILE'')) then res_bind (read (the (env (name @ ''_FILE'')))) (\<lambda>t. Inr (Some (strip t)))
      else Inr (env name))"

text \<open>
  \<open>build_observer\<close> with the two backends it can build: \<open>Inl\<close> when the constructor fails.
\<close>

definition build_recorder ::
  "environ \<Rightarrow> 'w recorder res \<Rightarrow> (langfuse_config \<Rightarrow> 'w recorder res) \<Rightarrow> observability_config \<Rightarrow> 'w recorder" where
  "build_recorder env jsonl langfuse c =
     (if \<not> oc_enabled c then no_recorder
      else
        let file = (case jsonl of Inl _ \<Rightarrow> [] | Inr r \<Rightarrow> [r]);
            remote = (case oc_langfuse c of
                None \<Rightarrow> []
              | Some l \<Rightarrow>
                  if lf_enabled l \<and> credential_available env (lf_public l) \<and> credential_available env (lf_secret l)
                  then (case langfuse l of Inl _ \<Rightarrow> [] | Inr r \<Rightarrow> [r]) else [])
        in case file @ remote of [] \<Rightarrow> no_recorder | [r] \<Rightarrow> r | rs \<Rightarrow> record_all rs)"

section \<open>The exporter\<close>

definition hex_val :: "char \<Rightarrow> nat" where
  "hex_val c = (if is_digit c then digit_val c else code c - code (CHR ''a'') + 10)"

definition nat_of_hex :: "string \<Rightarrow> nat" where
  "nat_of_hex s = foldl (\<lambda>n c. 16 * n + hex_val c) 0 s"

definition nonzero_hash :: "string \<Rightarrow> nat \<Rightarrow> nat" where
  "nonzero_hash value n = (let h = nat_of_hex (take n (sha256_hex value)) in if h = 0 then 1 else h)"

definition prefixed :: "string \<Rightarrow> string" where
  "prefixed k = ''findociq.'' @ k"

text \<open>The attributes of an exported span: later keys win, and \<open>None\<close> values are left out.\<close>

definition exported_attributes :: "span_event \<Rightarrow> (string, attribute) dict" where
  "exported_attributes e =
     (let c = sp_context e;
          fixed = [(prefixed ''run_id'', AStr (tc_run c)), (prefixed ''operation'', AStr (tc_operation c)),
            (prefixed ''query_sha256'', AStr (tc_query c)),
            (prefixed ''status'', AStr (if sp_failed e then ''error'' else ''success''))];
          own = map (\<lambda>(k, v). (prefixed k, v)) (sp_attributes e);
          optional = [(''question_id'', tc_question c), (''config_hash'', tc_config c), (''dataset_sha256'', tc_dataset c),
            (''prompt_template_id'', tc_template c), (''prompt_version'', tc_version c), (''prompt_sha256'', tc_prompt c),
            (''error_type'', sp_error e)];
          named = concat (map (\<lambda>(k, v). case v of None \<Rightarrow> [] | Some s \<Rightarrow> [(prefixed k, AStr s)]) optional)
      in filter (\<lambda>(k, v). v \<noteq> ANone) (fold (\<lambda>(k, v). AList.update k v) (own @ named) fixed))"

section \<open>Trace files\<close>

text \<open>\<open>load_trace_events\<close>: \<open>parse\<close> is the JSON reader of an event; blank lines are skipped but counted.\<close>

fun load_lines :: "(string \<Rightarrow> span_event res) \<Rightarrow> nat \<Rightarrow> string list \<Rightarrow> span_event list res" where
  "load_lines parse n [] = Inr []"
| "load_lines parse n (l # ls) =
     (if strip l = [] then load_lines parse (n + 1) ls
      else case parse l of
        Inl e \<Rightarrow> Inl (if is_value_error e then ValueError (''invalid trace event at line '' @ str_of_nat n) else e)
      | Inr ev \<Rightarrow> res_bind (load_lines parse (n + 1) ls) (\<lambda>evs. Inr (ev # evs)))"

definition load_trace_events :: "(string \<Rightarrow> span_event res) \<Rightarrow> string list \<Rightarrow> span_event list res" where
  "load_trace_events parse = load_lines parse 1"

section \<open>Aggregation\<close>

record stage_summary =
  sg_stage :: string
  sg_spans :: nat
  sg_errors :: nat
  sg_p50 :: rat
  sg_p95 :: rat

record summary =
  sm_runs :: nat
  sm_spans :: nat
  sm_failed_runs :: nat
  sm_errors :: nat
  sm_cache_rate :: "rat option"
  sm_non_empty_rate :: "rat option"
  sm_stages :: "stage_summary list"

definition by_stage :: "span_event list \<Rightarrow> (string, span_event list) dict" where
  "by_stage events = foldl (\<lambda>d e. dict_append (sp_stage e) e d) [] events"

definition stage_of :: "string \<times> span_event list \<Rightarrow> stage_summary" where
  "stage_of = (\<lambda>(stage, items).
     \<lparr>sg_stage = stage, sg_spans = length items, sg_errors = length (filter sp_failed items),
      sg_p50 = percentile (map sp_duration items) (50 / 100), sg_p95 = percentile (map sp_duration items) (95 / 100)\<rparr>)"

definition cache_hit :: "span_event \<Rightarrow> bool" where
  "cache_hit e = (map_of (sp_attributes e) ''cache_hit'' = Some (ABool True))"

text \<open>\<open>isinstance(v, int)\<close> holds of booleans too.\<close>

definition non_empty :: "span_event \<Rightarrow> bool" where
  "non_empty e =
     (case map_of (sp_attributes e) ''hit_count'' of
        Some (AInt n) \<Rightarrow> 0 < n
      | Some (ABool b) \<Rightarrow> b
      | _ \<Rightarrow> False)"

definition share :: "'a list \<Rightarrow> 'b list \<Rightarrow> rat option" where
  "share part whole = (if whole = [] then None else Some (of_nat (length part) / of_nat (length whole)))"

definition aggregate_traces :: "span_event list \<Rightarrow> summary" where
  "aggregate_traces events =
     (let retrievals = filter (\<lambda>e. sp_stage e = ''retrieval.total'') events in
      \<lparr>sm_runs = length (uniq (map (tc_run \<circ> sp_context) events)), sm_spans = length events,
       sm_failed_runs = length (uniq (map (tc_run \<circ> sp_context) (filter sp_failed events))),
       sm_errors = length (filter sp_failed events),
       sm_cache_rate = share (filter cache_hit retrievals) retrievals,
       sm_non_empty_rate = share (filter non_empty retrievals) retrievals,
       sm_stages = map stage_of (sort_key fst (by_stage events))\<rparr>)"

section \<open>The report\<close>

text \<open>\<open>format(x, ".3f")\<close> of a number that is not negative: three digits, ties to even.\<close>

definition round_even :: "rat \<Rightarrow> int" where
  "round_even x =
     (let q = \<lfloor>x\<rfloor>; r = x - of_int q in
      if r < 1 / 2 then q else if 1 / 2 < r then q + 1 else if even q then q else q + 1)"

definition fixed3 :: "rat \<Rightarrow> string" where
  "fixed3 x =
     (let n = nat (round_even (x * 1000)); f = str_of_nat (n mod 1000) in
      str_of_nat (n div 1000) @ ''.'' @ replicate (3 - length f) (CHR ''0'') @ f)"

definition rate_text :: "rat option \<Rightarrow> string" where
  "rate_text r = (case r of None \<Rightarrow> ''-'' | Some x \<Rightarrow> fixed3 x)"

definition stage_row :: "stage_summary \<Rightarrow> string" where
  "stage_row s =
     ''| '' @ sg_stage s @ '' | '' @ str_of_nat (sg_spans s) @ '' | '' @ str_of_nat (sg_errors s) @ '' | ''
     @ fixed3 (sg_p50 s) @ '' | '' @ fixed3 (sg_p95 s) @ '' |''"

definition render_summary :: "summary \<Rightarrow> string" where
  "render_summary s =
     join newline
      ([''# FinDocIQ operational observability'', [],
        ''Operational metrics are reported separately from retrieval and answer quality.'', [],
        ''- Runs: '' @ str_of_nat (sm_runs s), ''- Spans: '' @ str_of_nat (sm_spans s),
        ''- Failed runs: '' @ str_of_nat (sm_failed_runs s), ''- Span errors: '' @ str_of_nat (sm_errors s),
        ''- Query-cache hit rate: '' @ rate_text (sm_cache_rate s),
        ''- Non-empty retrieval rate: '' @ rate_text (sm_non_empty_rate s), [],
        ''| Stage | Spans | Errors | p50 ms | p95 ms |'', ''|---|---:|---:|---:|---:|'']
       @ map stage_row (sm_stages s))
     @ newline"

end
