(* ===== verification/Generation.thy ===== *)
theory Generation
  imports Trace Json
begin

text \<open>
  \<open>reason/generation.py\<close>: the client of the local model server. The HTTP transport and the JSON codec are
  parameters; every request runs inside a span of the observer. The state of a client is whether it has
  checked the model's revision, next to the world of the server and the recorders.
\<close>

section \<open>Configuration\<close>

text \<open>A URL with the parts that \<open>urlparse\<close> gives.\<close>

record url =
  ul_text :: string
  ul_scheme :: string
  ul_host :: "string option"
  ul_netloc :: string

datatype backend = Ollama | Vllm
datatype tier_name = Laptop | SingleGpu | Ceiling

record model_tier =
  mt_name :: tier_name
  mt_source :: string
  mt_model :: string
  mt_revision :: string
  mt_seed :: int
  mt_length :: int
  mt_memory :: rat

definition mk_model_tier :: "model_tier \<Rightarrow> model_tier res" where
  "mk_model_tier t =
     raise_if (mt_source t = [] \<or> mt_model t = [] \<or> mt_revision t = [] \<or> mt_length t \<le> 0 \<or> mt_memory t \<le> 0
        \<or> 1 < mt_memory t) (ValidationError ''ModelTierConfig'') (Inr t)"

record generation_config =
  gc_url :: url
  gc_model :: string
  gc_revision :: string
  gc_backend :: backend
  gc_temperature :: rat
  gc_seed :: int
  gc_max_tokens :: int
  gc_timeout :: int
  gc_tier :: "tier_name option"
  gc_quantized :: bool                 \<comment> \<open>\<open>quantization == "awq-int4"\<close>\<close>

definition generation_hosts :: "string list" where
  "generation_hosts = [''localhost'', ''127.0.0.1'', ''::1'', ''vllm'']"

definition mk_generation_config :: "generation_config \<Rightarrow> generation_config res" where
  "mk_generation_config c =
     raise_if (gc_model c = [] \<or> gc_revision c = [] \<or> gc_max_tokens c \<le> 0 \<or> gc_timeout c \<le> 0)
       (ValidationError ''GenerationConfig'')
    (raise_if (ul_scheme (gc_url c) \<noteq> ''http''
        \<or> (case ul_host (gc_url c) of None \<Rightarrow> True | Some h \<Rightarrow> h \<notin> set generation_hosts))
       (ValidationError ''generation base_url must be a local HTTP endpoint'')
    (raise_if (\<not> (0 \<le> gc_temperature c \<and> gc_temperature c \<le> 2))
       (ValidationError ''temperature must be between 0 and 2'') (Inr c)))"

text \<open>
  \<open>GenerationConfig.from_yaml\<close>: what the file gives, a missing key as \<open>None\<close>. \<open>load_tier\<close> reads the tier
  file; \<open>model\<close> builds a configuration from the keys of a file.
\<close>

record generation_yaml =
  gy_url :: url
  gy_model :: "string option"
  gy_revision :: "string option"
  gy_backend :: "backend option"
  gy_temperature :: "rat option"
  gy_seed :: "int option"
  gy_max_tokens :: "int option"
  gy_timeout :: "int option"
  gy_tier :: "tier_name option"
  gy_quantized :: bool
  gy_tier_path :: "string option"

definition or_default :: "'a \<Rightarrow> 'a option \<Rightarrow> 'a" where
  "or_default d x = (case x of None \<Rightarrow> d | Some v \<Rightarrow> v)"

definition config_of_yaml :: "generation_yaml \<Rightarrow> generation_config res" where
  "config_of_yaml y =
     (case (gy_model y, gy_revision y) of
        (Some m, Some r) \<Rightarrow> mk_generation_config
          \<lparr>gc_url = gy_url y, gc_model = m, gc_revision = r, gc_backend = or_default Vllm (gy_backend y),
           gc_temperature = or_default 0 (gy_temperature y), gc_seed = or_default 17 (gy_seed y),
           gc_max_tokens = or_default 1024 (gy_max_tokens y), gc_timeout = or_default 600 (gy_timeout y),
           gc_tier = gy_tier y, gc_quantized = gy_quantized y\<rparr>
      | _ \<Rightarrow> Inl (ValidationError ''GenerationConfig''))"

definition generation_from_yaml ::
  "(string \<Rightarrow> model_tier res) \<Rightarrow> generation_yaml \<Rightarrow> generation_config res" where
  "generation_from_yaml load_tier y =
     (case gy_tier_path y of
        None \<Rightarrow>
          raise_if (or_default Vllm (gy_backend y) = Vllm) (ValueError ''vLLM generation YAML must select a model tier'')
            (config_of_yaml y)
      | Some path \<Rightarrow>
          raise_if (gy_model y \<noteq> None \<or> gy_revision y \<noteq> None)
            (ValueError ''generation config cannot mix tier_config with model_id/revision'')
          (res_bind (load_tier path) (\<lambda>t.
           config_of_yaml (y\<lparr>gy_model := Some (mt_source t), gy_revision := Some (mt_revision t),
             gy_tier := Some (mt_name t), gy_quantized := True\<rparr>))))"

section \<open>Transport\<close>

text \<open>\<open>Refused\<close> stands for \<open>HTTPError\<close>, \<open>URLError\<close> and \<open>TimeoutError\<close>.\<close>

datatype reply = Body string | Refused

record 'w transport =
  tr_post :: "string \<Rightarrow> json \<Rightarrow> int \<Rightarrow> ('w, reply) act"
  tr_get :: "string \<Rightarrow> int \<Rightarrow> ('w, reply) act"
  tr_json :: "string \<Rightarrow> json option"

definition reply_json :: "(string \<Rightarrow> json option) \<Rightarrow> string \<Rightarrow> reply \<Rightarrow> json res" where
  "reply_json decode failure r =
     (case r of
        Refused \<Rightarrow> Inl (RuntimeError failure)
      | Body b \<Rightarrow> (case decode b of None \<Rightarrow> Inl (JSONDecodeError ''Expecting value'') | Some j \<Rightarrow> Inr j))"

section \<open>The revision check\<close>

type_synonym 'w client_state = "bool \<times> 'w"

definition on_server :: "('w, 'a) act \<Rightarrow> ('w client_state, 'a) act" where
  "on_server m = (\<lambda>(v, w). case m w of (r, w') \<Rightarrow> (r, (v, w')))"

definition mark_validated :: "('w client_state, unit) act" where
  "mark_validated = (\<lambda>(v, w). (Inr (), (True, w)))"

text \<open>Iteration over a decoded value: a list, the keys of an object, the characters of a string.\<close>

definition json_items :: "json \<Rightarrow> json list res" where
  "json_items j =
     (case j of
        JArr xs \<Rightarrow> Inr xs
      | JObj d \<Rightarrow> Inr (map (JStr \<circ> fst) d)
      | JStr s \<Rightarrow> Inr (map (\<lambda>c. JStr [c]) s)
      | _ \<Rightarrow> Inl (TypeError ''not iterable''))"

definition model_names :: "string \<Rightarrow> string list" where
  "model_names model = [model, model @ '':latest'']"

text \<open>The first object with one of the names; a list or an object as a name is not hashable.\<close>

fun find_model :: "string \<Rightarrow> json list \<Rightarrow> json option res" where
  "find_model model [] = Inr None"
| "find_model model (i # items) =
     (case i of
        JObj d \<Rightarrow>
          (case map_of d ''name'' of
             Some (JStr s) \<Rightarrow> if s \<in> set (model_names model) then Inr (Some i) else find_model model items
           | Some (JArr _) \<Rightarrow> Inl (TypeError ''unhashable'')
           | Some (JObj _) \<Rightarrow> Inl (TypeError ''unhashable'')
           | _ \<Rightarrow> find_model model items)
      | _ \<Rightarrow> find_model model items)"

definition check_models :: "generation_config \<Rightarrow> json \<Rightarrow> unit res" where
  "check_models c payload =
     res_bind (json_items (case payload of
        JObj d \<Rightarrow> (case map_of d ''models'' of None \<Rightarrow> JArr [] | Some m \<Rightarrow> m)
      | _ \<Rightarrow> JArr [])) (\<lambda>items.
     res_bind (find_model (gc_model c) items) (\<lambda>found_model.
     case found_model of
       None \<Rightarrow> Inl (RuntimeError ''local Ollama model is not installed'')
     | Some m \<Rightarrow> raise_if (obj_get ''digest'' m \<noteq> Some (JStr (gc_revision c)))
         (RuntimeError ''local Ollama model revision mismatch'') (Inr ())))"

definition tags_url :: "url \<Rightarrow> string" where
  "tags_url u = ul_scheme u @ ''://'' @ ul_netloc u @ ''/api/tags''"

definition fetch_models :: "generation_config \<Rightarrow> 'w transport \<Rightarrow> ('w, json) act" where
  "fetch_models c T =
     act_bind (tr_get T (tags_url (gc_url c)) (gc_timeout c)) (\<lambda>r.
     act_lift (reply_json (tr_json T) ''local Ollama revision check failed'' r))"

definition validate_revision :: "generation_config \<Rightarrow> 'w transport \<Rightarrow> ('w client_state, unit) act" where
  "validate_revision c T = (\<lambda>(v, w).
     if v \<or> gc_backend c \<noteq> Ollama then (Inr (), (v, w))
     else act_bind (on_server (fetch_models c T)) (\<lambda>payload.
          act_bind (act_lift (check_models c payload)) (\<lambda>_. mark_validated)) (v, w))"

section \<open>A completion\<close>

definition chat_url :: "url \<Rightarrow> string" where
  "chat_url u = rev (dropWhile (\<lambda>c. c = CHR ''/'') (rev (ul_text u))) @ ''/chat/completions''"

definition chat_message :: "string \<Rightarrow> string \<Rightarrow> json" where
  "chat_message role content = JObj [(''role'', JStr role), (''content'', JStr content)]"

definition chat_payload :: "generation_config \<Rightarrow> string \<Rightarrow> string option \<Rightarrow> json" where
  "chat_payload c prompt system =
     JObj [(''model'', JStr (gc_model c)),
       (''messages'', JArr ((if truthy system then [chat_message ''system'' (or_empty system)] else [])
          @ [chat_message ''user'' prompt])),
       (''temperature'', JNum (gc_temperature c)), (''seed'', JNum (of_int (gc_seed c))),
       (''max_tokens'', JNum (of_int (gc_max_tokens c))),
       (''response_format'', JObj [(''type'', JStr ''json_object'')])]"

definition backend_name :: "backend \<Rightarrow> string" where
  "backend_name b = (case b of Ollama \<Rightarrow> ''ollama'' | Vllm \<Rightarrow> ''vllm'')"

definition generation_attributes :: "generation_config \<Rightarrow> string \<Rightarrow> string option \<Rightarrow> (string, attribute) dict" where
  "generation_attributes c prompt system =
     [(''backend'', AStr (backend_name (gc_backend c))), (''model_id'', AStr (gc_model c)),
      (''model_revision'', AStr (gc_revision c)),
      (''prompt_characters'', AInt (int (py_len prompt + py_len (or_empty system)))),
      (''max_tokens'', AInt (gc_max_tokens c))]"

definition missing_content :: string where
  "missing_content = ''local Gemma response did not contain message content''"

definition empty_content :: string where
  "empty_content = ''local Gemma returned empty message content''"

definition request_completion ::
  "generation_config \<Rightarrow> 'w transport \<Rightarrow> string \<Rightarrow> string option \<Rightarrow> ('w client_state, string) act" where
  "request_completion c T prompt system =
     act_bind (validate_revision c T) (\<lambda>_.
     act_bind (on_server (tr_post T (chat_url (gc_url c)) (chat_payload c prompt system) (gc_timeout c))) (\<lambda>r.
     act_lift (res_bind (reply_json (tr_json T) ''local Gemma generation failed'' r)
       (message_text missing_content empty_content))))"

definition generation_body ::
  "generation_config \<Rightarrow> 'w transport \<Rightarrow> string \<Rightarrow> string option
   \<Rightarrow> ('w client_state \<times> (string, attribute) dict, string) act" where
  "generation_body c T prompt system =
     act_bind (in_span (request_completion c T prompt system)) (\<lambda>content.
     act_bind (set_attribute ''response_characters'' (AInt (int (py_len content)))) (\<lambda>_.
     act_return content))"

text \<open>The observer works on the world, not on the client.\<close>

definition client_observer :: "'w observer \<Rightarrow> 'w client_state observer" where
  "client_observer ob =
     \<lparr>ob_clock = (\<lambda>(v, w). case ob_clock ob w of (t, w') \<Rightarrow> (t, (v, w'))), ob_record = (\<lambda>e. on_server (ob_record ob e))\<rparr>"

definition generate ::
  "generation_config \<Rightarrow> 'w transport \<Rightarrow> 'w observer \<Rightarrow> string \<Rightarrow> string option \<Rightarrow> trace_context option
   \<Rightarrow> string \<Rightarrow> ('w client_state, string) act" where
  "generate c T ob prompt system context stage =
     act_bind (act_lift (raise_if (strip prompt = []) (ValueError ''generation prompt must not be blank'') (Inr ()))) (\<lambda>_.
     act_bind (act_lift (case context of Some ctx \<Rightarrow> Inr ctx | None \<Rightarrow> for_query prompt ''generation'' None None None)) (\<lambda>ctx.
     span (client_observer ob) ctx stage (generation_attributes c prompt system) (generation_body c T prompt system)))"

section \<open>Clients\<close>

definition client_for :: "backend \<Rightarrow> generation_config \<Rightarrow> generation_config res" where
  "client_for b c = raise_if (gc_backend c \<noteq> b) (ValueError ''client requires its own generation config'') (Inr c)"

definition build_generation_client :: "generation_config \<Rightarrow> generation_config res" where
  "build_generation_client c = (if gc_backend c = Vllm then client_for Vllm c else client_for Ollama c)"

text \<open>\<open>reason/serve.py\<close>: \<open>show\<close> is \<open>str\<close> of a float.\<close>

definition vllm_command :: "(rat \<Rightarrow> string) \<Rightarrow> string \<Rightarrow> model_tier \<Rightarrow> string list" where
  "vllm_command show executable t =
     [executable, ''-m'', ''vllm.entrypoints.openai.api_server'', ''--model'', mt_model t, ''--revision'', mt_revision t,
      ''--served-model-name'', mt_source t, ''--quantization'', ''awq'', ''--max-model-len'', str_of_int (mt_length t),
      ''--gpu-memory-utilization'', show (mt_memory t), ''--limit-mm-per-prompt'', ''{\"image\":1}'']"

end
