(* ===== verification/GenerationProps.thy ===== *)
theory GenerationProps
  imports Generation
begin

text \<open>
  What the model client and its tracing promise: a completion comes from the pinned model and is not blank,
  tracing changes no answer, and the events of a trace tell nothing about a text but its length.
\<close>

section \<open>Spans\<close>

lemma span_eq:
  "span ob ctx stage attributes body w =
     (let w1 = snd (ob_clock ob w); (r, w2, attrs) = body (w1, attributes) in
      (r, record_span ob ctx stage (fst (ob_clock ob w)) attrs (case r of Inl e \<Rightarrow> Some e | Inr _ \<Rightarrow> None) w2))"
  by (simp add: span_def Let_def case_prod_unfold)

lemma generation_body_eq:
  "generation_body c T prompt system (s, attrs) =
     (case request_completion c T prompt system s of
        (Inl e, s') \<Rightarrow> (Inl e, (s', attrs))
      | (Inr t, s') \<Rightarrow> (Inr t, (s', AList.update ''response_characters'' (AInt (int (py_len t))) attrs)))"
  by (simp add: generation_body_def act_bind_def in_span_def set_attribute_def act_return_def
      split: prod.splits sum.splits)

definition outcome_attributes :: "(string, attribute) dict \<Rightarrow> string res \<Rightarrow> (string, attribute) dict" where
  "outcome_attributes attrs r =
     (case r of Inl e \<Rightarrow> attrs | Inr t \<Rightarrow> AList.update ''response_characters'' (AInt (int (py_len t))) attrs)"

text \<open>A completion is the request between two looks at the clock and one record.\<close>

lemma generate_eq:
  assumes "strip prompt \<noteq> []" "context = Some ctx \<or> context = None \<and> for_query prompt ''generation'' None None None = Inr ctx"
  shows "generate c T ob prompt system context stage (v, w) =
    (let (started, w1) = ob_clock ob w; (r, v', w2) = request_completion c T prompt system (v, w1) in
     (r, (v', record_span ob ctx stage started (outcome_attributes (generation_attributes c prompt system) r)
        (case r of Inl e \<Rightarrow> Some e | Inr _ \<Rightarrow> None) w2)))"
proof -
  have rec: "record_span (client_observer ob) ctx stage started attrs e (v', w2) = (v', record_span ob ctx stage started attrs e w2)"
    for started attrs e v' w2
    by (simp add: record_span_def client_observer_def try_record_def act_catch_def on_server_def act_return_def Let_def
        split: prod.splits sum.splits)
  have clock: "ob_clock (client_observer ob) (v, w) = (case ob_clock ob w of (t, w') \<Rightarrow> (t, (v, w')))"
    by (simp add: client_observer_def)
  have ctx: "(case context of Some ctx \<Rightarrow> Inr ctx | None \<Rightarrow> for_query prompt ''generation'' None None None) = Inr ctx"
    using assms(2) by auto
  show ?thesis
    using assms(1)
    by (simp add: generate_def ctx act_bind_def act_lift_def raise_if_def span_eq generation_body_eq rec
        outcome_attributes_def clock Let_def split: prod.splits sum.splits)
qed

lemma hex_py_len: "is_hex64 s \<Longrightarrow> py_len s = 64"
proof -
  assume hex: "is_hex64 s"
  have "filter (\<lambda>c. \<not> (128 \<le> code c \<and> code c < 192)) s = s"
    using hex by (auto simp: is_hex64_def list_all_iff filter_id_conv is_digit_def in_range_def code_def)
  then show ?thesis using hex by (simp add: py_len_def is_hex64_def)
qed

text \<open>Without a context the client makes one from the hash of the prompt; this cannot fail.\<close>

lemma for_query_ok:
  assumes "strip query \<noteq> []"
  shows "\<exists>ctx. for_query query operation question config dataset = Inr ctx \<and> tc_query ctx = sha256_hex query"
  using assms sha256_hex_shape [of query]
  by (simp add: for_query_def mk_context_def context_ok_def opt_holds_def raise_if_def Let_def hex_py_len)

lemma generation_context:
  assumes "strip prompt \<noteq> []"
  obtains ctx where "context = Some ctx \<or> context = None \<and> for_query prompt ''generation'' None None None = Inr ctx"
  using for_query_ok [OF assms, of "''generation''" None None None] by (cases "context") auto

lemma generate_blank: "strip prompt = [] \<Longrightarrow>
    generate c T ob prompt system context stage s = (Inl (ValueError ''generation prompt must not be blank''), s)"
  by (simp add: generate_def act_bind_def act_lift_def raise_if_def)

section \<open>Revision\<close>

text \<open>The tags of the server list the model under one of its names, with the pinned digest.\<close>

definition installed :: "generation_config \<Rightarrow> json \<Rightarrow> bool" where
  "installed c payload =
     (\<exists>models d. obj_get ''models'' payload = Some (JArr models) \<and> JObj d \<in> set models
        \<and> (map_of d ''name'' = Some (JStr (gc_model c)) \<or> map_of d ''name'' = Some (JStr (gc_model c @ '':latest'')))
        \<and> map_of d ''digest'' = Some (JStr (gc_revision c)))"

definition named_model :: "string \<Rightarrow> json \<Rightarrow> bool" where
  "named_model model i = (\<exists>d. i = JObj d \<and> (\<exists>s \<in> set (model_names model). map_of d ''name'' = Some (JStr s)))"

lemma find_model_Cons:
  "find_model model (x # items) = Inr (Some i) \<Longrightarrow> i = x \<and> named_model model x \<or> find_model model items = Inr (Some i)"
  by (auto simp: named_model_def split: json.splits option.splits if_splits)

lemma find_model_Some: "find_model model items = Inr (Some i) \<Longrightarrow> i \<in> set items \<and> named_model model i"
proof (induction items)
  case (Cons x items)
  show ?case using find_model_Cons [OF Cons.prems] Cons.IH by auto
qed simp

lemma no_objects: "\<forall>i \<in> set items. \<exists>s. i = JStr s \<Longrightarrow> find_model model items = Inr None"
  by (induction items) auto

lemma check_models_installed:
  assumes "check_models c payload = Inr u"
  shows "installed c payload"
proof -
  obtain items m where items: "json_items (case payload of
        JObj d \<Rightarrow> (case map_of d ''models'' of None \<Rightarrow> JArr [] | Some m \<Rightarrow> m) | _ \<Rightarrow> JArr []) = Inr items"
    and m: "find_model (gc_model c) items = Inr (Some m)" "obj_get ''digest'' m = Some (JStr (gc_revision c))"
    using assms by (auto simp: check_models_def res_simps split: option.splits)
  obtain d where d: "m = JObj d" "m \<in> set items" "\<exists>s \<in> set (model_names (gc_model c)). map_of d ''name'' = Some (JStr s)"
    using find_model_Some [OF m(1)] by (auto simp: named_model_def)
  then have "items \<noteq> []" by auto
  moreover have "\<not> (\<forall>i \<in> set items. \<exists>s. i = JStr s)" using no_objects m(1) by fastforce
  ultimately have "obj_get ''models'' payload = Some (JArr items)"
    using items by (auto simp: json_items_def obj_get_def split: json.splits option.splits)
  with d m(2) show ?thesis by (auto simp: installed_def obj_get_def model_names_def)
qed

definition listed :: "generation_config \<Rightarrow> 'w transport \<Rightarrow> 'w \<Rightarrow> bool" where
  "listed c T w = (\<exists>payload w'. fetch_models c T w = (Inr payload, w') \<and> installed c payload)"

section \<open>Requests\<close>

lemma validate_revision_unchecked:
  "gc_backend c = Ollama \<Longrightarrow> validate_revision c T (False, w) =
     (case fetch_models c T w of
        (Inl e, w') \<Rightarrow> (Inl e, (False, w'))
      | (Inr payload, w') \<Rightarrow> (case check_models c payload of Inl e \<Rightarrow> (Inl e, (False, w')) | Inr u \<Rightarrow> (Inr (), (True, w'))))"
  by (simp add: validate_revision_def act_bind_def on_server_def act_lift_def mark_validated_def
      split: prod.splits sum.splits)

lemma request_Inr:
  assumes "request_completion c T prompt system s = (Inr t, s')"
  obtains s1 r where "validate_revision c T s = (Inr (), s1)"
    "on_server (tr_post T (chat_url (gc_url c)) (chat_payload c prompt system) (gc_timeout c)) s1 = (Inr r, s')"
    "res_bind (reply_json (tr_json T) ''local Gemma generation failed'' r) (message_text missing_content empty_content) = Inr t"
  using assms by (auto simp: request_completion_def res_simps)

lemma request_unpinned:
  assumes "validate_revision c T s = (Inl e, s')"
  shows "request_completion c (T\<lparr>tr_post := post\<rparr>) prompt system s = (Inl e, s')"
proof -
  have "fetch_models c (T\<lparr>tr_post := post\<rparr>) = fetch_models c T" by (simp add: fetch_models_def)
  then have "validate_revision c (T\<lparr>tr_post := post\<rparr>) = validate_revision c T" unfolding validate_revision_def by metis
  then show ?thesis using assms by (simp add: request_completion_def act_bind_def)
qed

section \<open>A trace beside the world\<close>

text \<open>
  The world of the model server and the world of the clock and the recorders, side by side: the transport
  acts on the first, the observer on the second.
\<close>

definition beside :: "('w, 'a) act \<Rightarrow> ('w \<times> 't, 'a) act" where
  "beside m = (\<lambda>(w, t). case m w of (r, w') \<Rightarrow> (r, (w', t)))"

definition beside_transport :: "'w transport \<Rightarrow> ('w \<times> 't) transport" where
  "beside_transport T =
     \<lparr>tr_post = (\<lambda>u j n. beside (tr_post T u j n)), tr_get = (\<lambda>u n. beside (tr_get T u n)), tr_json = tr_json T\<rparr>"

definition aside :: "'t observer \<Rightarrow> ('w \<times> 't) observer" where
  "aside ob =
     \<lparr>ob_clock = (\<lambda>(w, t). case ob_clock ob t of (n, t') \<Rightarrow> (n, (w, t'))),
      ob_record = (\<lambda>e (w, t). case ob_record ob e t of (r, t') \<Rightarrow> (r, (w, t')))\<rparr>"

definition silent :: "'w observer" where
  "silent = \<lparr>ob_clock = (\<lambda>w. (0, w)), ob_record = no_recorder\<rparr>"

definition client_beside :: "('w client_state, 'a) act \<Rightarrow> (('w \<times> 't) client_state, 'a) act" where
  "client_beside m = (\<lambda>(v, w, t). case m (v, w) of (r, v', w') \<Rightarrow> (r, (v', w', t)))"

lemma client_beside_server: "on_server (beside m) = client_beside (on_server m)"
  by (auto simp: on_server_def beside_def client_beside_def fun_eq_iff split: prod.splits)

lemma client_beside_bind:
  "act_bind (client_beside m) (\<lambda>x. client_beside (k x)) = client_beside (act_bind m k)"
  by (auto simp: act_bind_def client_beside_def fun_eq_iff split: prod.splits sum.splits)

lemma client_beside_lift: "act_lift r = client_beside (act_lift r)"
  by (auto simp: act_lift_def client_beside_def fun_eq_iff)

lemma client_beside_mark: "mark_validated = client_beside mark_validated"
  by (auto simp: mark_validated_def client_beside_def fun_eq_iff)

lemmas beside_simps = client_beside_bind [symmetric] client_beside_lift [symmetric] client_beside_mark [symmetric]
  client_beside_server [symmetric]

lemma fetch_beside: "fetch_models c (beside_transport T) = beside (fetch_models c T)"
  by (auto simp: fetch_models_def beside_transport_def beside_def act_bind_def act_lift_def fun_eq_iff
      split: prod.splits sum.splits)

lemma validate_beside: "validate_revision c (beside_transport T) = client_beside (validate_revision c T)"
proof (rule ext, clarify)
  fix v w and t :: 'b
  have "act_bind (on_server (fetch_models c (beside_transport T))) (\<lambda>payload.
          act_bind (act_lift (check_models c payload)) (\<lambda>_. mark_validated))
      = client_beside (act_bind (on_server (fetch_models c T)) (\<lambda>payload.
          act_bind (act_lift (check_models c payload)) (\<lambda>_. mark_validated)))"
    by (simp only: fetch_beside [symmetric] beside_simps)
  note step = fun_cong [OF this, of "(v, w, t)"]
  show "validate_revision c (beside_transport T) (v, w, t) = client_beside (validate_revision c T) (v, w, t)"
    unfolding validate_revision_def prod.case step by (simp add: client_beside_def)
qed

lemma request_beside:
  "request_completion c (beside_transport T) prompt system = client_beside (request_completion c T prompt system)"
proof -
  have post: "tr_post (beside_transport T) u j n = beside (tr_post T u j n)" for u j n
    by (simp add: beside_transport_def)
  have decode: "tr_json (beside_transport T) = tr_json T"
    by (simp add: beside_transport_def)
  show ?thesis
    unfolding request_completion_def post decode by (simp only: validate_beside [symmetric] beside_simps)
qed

lemma record_aside:
  "record_span (aside ob) ctx stage n attrs e (w, t) = (w, record_span ob ctx stage n attrs e t)"
  by (simp add: record_span_def aside_def try_record_def act_catch_def act_return_def Let_def
      split: prod.splits sum.splits)

text \<open>What a traced completion is: the untraced one, and an event made from the lengths of its texts.\<close>

lemma generate_aside:
  assumes "strip prompt \<noteq> []" "context = Some ctx \<or> context = None \<and> for_query prompt ''generation'' None None None = Inr ctx"
  shows "generate c (beside_transport T) (aside ob) prompt system context stage (v, w, t) =
    (let (started, t1) = ob_clock ob t; (r, v', w') = request_completion c T prompt system (v, w) in
     (r, (v', w', record_span ob ctx stage started (outcome_attributes (generation_attributes c prompt system) r)
        (case r of Inl e \<Rightarrow> Some e | Inr _ \<Rightarrow> None) t1)))"
proof -
  have clock: "ob_clock (aside ob) (w, t) = (case ob_clock ob t of (n, t') \<Rightarrow> (n, (w, t')))" by (simp add: aside_def)
  show ?thesis
    unfolding generate_eq [OF assms] request_beside clock
    by (simp add: client_beside_def record_aside Let_def split: prod.splits)
qed

lemma generate_silent:
  assumes "strip prompt \<noteq> []" "context = Some ctx \<or> context = None \<and> for_query prompt ''generation'' None None None = Inr ctx"
  shows "generate c T silent prompt system context stage (v, w) = request_completion c T prompt system (v, w)"
  unfolding generate_eq [OF assms]
  by (simp add: silent_def record_span_def try_record_def act_catch_def no_recorder_def act_return_def Let_def
      split: prod.splits)

section \<open>Aggregation\<close>

lemma by_stage_snoc: "by_stage (events @ [e]) = dict_append (sp_stage e) e (by_stage events)"
  by (simp add: by_stage_def)

lemma by_stage_distinct: "distinct (map fst (by_stage events))"
  by (induction events rule: rev_induct) (simp_all add: by_stage_snoc distinct_keys_dict_append, simp add: by_stage_def)

lemma by_stage_get:
  "map_of (by_stage events) k =
     (if \<exists>e \<in> set events. sp_stage e = k then Some (filter (\<lambda>e. sp_stage e = k) events) else None)"
proof (induction events rule: rev_induct)
  case (snoc e events)
  then show ?case
    by (cases "sp_stage e = k") (auto simp: by_stage_snoc dict_append_def map_of_update split: option.splits)
qed (simp add: by_stage_def)

lemma by_stage_items:
  assumes "(k, items) \<in> set (by_stage events)"
  shows "items = filter (\<lambda>e. sp_stage e = k) events \<and> items \<noteq> []"
proof -
  have "map_of (by_stage events) k = Some items" using by_stage_distinct assms by (rule map_of_is_SomeI)
  then show ?thesis by (auto simp: by_stage_get filter_empty_conv split: if_splits)
qed

lemma by_stage_keys: "fst ` set (by_stage events) = sp_stage ` set events"
proof (intro set_eqI iffI)
  fix k assume "k \<in> fst ` set (by_stage events)"
  then obtain items where "(k, items) \<in> set (by_stage events)" by force
  from by_stage_items [OF this] have "filter (\<lambda>e. sp_stage e = k) events \<noteq> []" by metis
  then show "k \<in> sp_stage ` set events" by (auto simp: filter_empty_conv)
next
  fix k assume "k \<in> sp_stage ` set events"
  then have "map_of (by_stage events) k \<noteq> None" by (auto simp: by_stage_get)
  then show "k \<in> fst ` set (by_stage events)" by (simp add: map_of_eq_None_iff)
qed

text \<open>Counting by stage counts everything once.\<close>

lemma sum_update:
  fixes g :: "'v \<Rightarrow> nat"
  assumes "distinct (map fst d)"
  shows "(\<Sum>p \<leftarrow> AList.update k v d. g (snd p)) + (case map_of d k of None \<Rightarrow> 0 | Some u \<Rightarrow> g u)
    = (\<Sum>p \<leftarrow> d. g (snd p)) + g v"
  using assms
proof (induction d)
  case (Cons p d)
  show ?case
  proof (cases "fst p = k")
    case True
    then show ?thesis by (cases p) simp
  next
    case False
    then show ?thesis using Cons by (cases p) simp
  qed
qed simp

lemma by_stage_sum: "(\<Sum>p \<leftarrow> by_stage events. length (filter P (snd p))) = length (filter P events)"
proof (induction events rule: rev_induct)
  case (snoc e events)
  let ?k = "sp_stage e" and ?d = "by_stage events"
  define vs where "vs = (case map_of ?d ?k of None \<Rightarrow> [e] | Some us \<Rightarrow> us @ [e])"
  have "(\<Sum>p \<leftarrow> AList.update ?k vs ?d. length (filter P (snd p)))
      + (case map_of ?d ?k of None \<Rightarrow> 0 | Some u \<Rightarrow> length (filter P u))
    = (\<Sum>p \<leftarrow> ?d. length (filter P (snd p))) + length (filter P vs)"
    using by_stage_distinct by (rule sum_update [where g = "\<lambda>u. length (filter P u)"])
  then show ?case
    using snoc by (auto simp: by_stage_snoc dict_append_def vs_def split: option.splits)
qed (simp add: by_stage_def)

lemma percentile_mono:
  assumes "0 \<le> p" "p \<le> q" "q \<le> 1"
  shows "percentile values p \<le> percentile values q"
proof (cases "values = []")
  case False
  define i j where "i = nat (max 0 (\<lceil>p * of_nat (length values)\<rceil> - 1))"
    and "j = nat (max 0 (\<lceil>q * of_nat (length values)\<rceil> - 1))"
  have "\<lceil>p * of_nat (length values)\<rceil> \<le> \<lceil>q * of_nat (length values)\<rceil>"
    using assms by (intro ceiling_mono mult_right_mono) auto
  then have "i \<le> j" by (simp add: i_def j_def nat_mono)
  moreover have "j < length (sort values)"
    using percentile_index(1) [OF False, of q] assms by (simp add: j_def)
  ultimately have "sort values ! i \<le> sort values ! j" by (simp add: sorted_nth_mono)
  then show ?thesis using False by (simp add: percentile_def i_def j_def)
qed (simp add: percentile_def)

lemma share_bounds: "share (filter P xs) xs = Some r \<Longrightarrow> 0 \<le> r \<and> r \<le> 1"
  by (auto simp: share_def divide_le_eq split: if_splits)

section \<open>Properties\<close>

text \<open>C25: An answer comes from the pinned model. A client of an Ollama server that returns a text on its first
  completion has seen, in the server's own list, the configured model with exactly the configured digest, and
  the text is not blank. When the list does not show that, the call raises, the client stays unchecked,
  and the completion endpoint is never asked: whatever it would answer, the outcome is the same.\<close>

theorem generation_pinned:
  assumes "gc_backend c = Ollama"
    "generate c T ob prompt system context stage (False, w) = (r, (v', w'))"
  shows "(\<forall>t. r = Inr t \<longrightarrow> strip t \<noteq> [] \<and> listed c T (snd (ob_clock ob w)) \<and> v')
    \<and> (\<not> listed c T (snd (ob_clock ob w)) \<longrightarrow> (\<exists>e. r = Inl e) \<and> \<not> v'
         \<and> (\<forall>post. generate c (T\<lparr>tr_post := post\<rparr>) ob prompt system context stage (False, w) = (r, (v', w'))))"
proof (cases "strip prompt = []")
  case True
  then show ?thesis using assms(2) by (auto simp: generate_blank)
next
  case False
  obtain ctx where ctx: "context = Some ctx \<or> context = None \<and> for_query prompt ''generation'' None None None = Inr ctx"
    using False by (rule generation_context)
  obtain n w1 where clock: "ob_clock ob w = (n, w1)" by (cases "ob_clock ob w")
  obtain w2 where run: "request_completion c T prompt system (False, w1) = (r, (v', w2))"
    using assms(2) by (auto simp: generate_eq [OF False ctx] clock Let_def split: prod.splits)
  have step: "validate_revision c T (False, w1) = (Inr (), s1) \<Longrightarrow> listed c T w1 \<and> fst s1" for s1
    using assms(1) check_models_installed
    by (auto simp: validate_revision_unchecked listed_def split: prod.splits sum.splits)
  have good: "strip t \<noteq> [] \<and> listed c T w1 \<and> v'" if t: "r = Inr t" for t
  proof -
    obtain s1 q where s1: "validate_revision c T (False, w1) = (Inr (), s1)"
      and post: "on_server (tr_post T (chat_url (gc_url c)) (chat_payload c prompt system) (gc_timeout c)) s1 = (Inr q, (v', w2))"
      and reply: "res_bind (reply_json (tr_json T) ''local Gemma generation failed'' q)
        (message_text missing_content empty_content) = Inr t"
      using run t by (auto elim: request_Inr)
    have "fst s1 = v'" using post by (auto simp: on_server_def split: prod.splits)
    then show ?thesis using step [OF s1] reply message_text_Inr by (auto simp: res_bind_Inr_iff)
  qed
  moreover have "(\<exists>e. r = Inl e) \<and> \<not> v'
      \<and> (\<forall>post. generate c (T\<lparr>tr_post := post\<rparr>) ob prompt system context stage (False, w) = (r, (v', w')))"
    if unlisted: "\<not> listed c T w1"
  proof -
    obtain e w3 where v: "validate_revision c T (False, w1) = (Inl e, (False, w3))"
      using step unlisted assms(1)
      by (cases "validate_revision c T (False, w1)") (auto simp: validate_revision_unchecked split: prod.splits sum.splits)
    have same: "request_completion c (T\<lparr>tr_post := post\<rparr>) prompt system (False, w1) = (Inl e, (False, w3))" for post
      using v by (rule request_unpinned)
    have "request_completion c T prompt system (False, w1) = (Inl e, (False, w3))"
      using same [of "tr_post T"] by simp
    with same run have "r = Inl e" "\<not> v'"
      and all: "\<forall>post. request_completion c (T\<lparr>tr_post := post\<rparr>) prompt system (False, w1)
        = request_completion c T prompt system (False, w1)" by auto
    moreover have "generate c (T\<lparr>tr_post := post\<rparr>) ob prompt system context stage (False, w) = (r, (v', w'))" for post
      using assms(2) all by (simp add: generate_eq [OF False ctx] clock)
    ultimately show ?thesis by blast
  qed
  ultimately show ?thesis by (simp add: clock)
qed

text \<open>C26: Tracing changes no answer. With the clock and the recorders in a world of their own, a traced completion
  returns the same text or raises the same error as the untraced one, and leaves the client and the server
  in the same state, whatever the recorders do, also when they fail.\<close>

theorem tracing_transparent:
  "(case generate c (beside_transport T) (aside ob) prompt system context stage (v, w, t) of (r, v', w', t') \<Rightarrow> (r, v', w'))
    = generate c T silent prompt system context stage (v, w)"
proof (cases "strip prompt = []")
  case False
  obtain ctx where ctx: "context = Some ctx \<or> context = None \<and> for_query prompt ''generation'' None None None = Inr ctx"
    using False by (rule generation_context)
  show ?thesis
    unfolding generate_aside [OF False ctx] generate_silent [OF False ctx] by (simp add: Let_def split: prod.splits)
qed (simp add: generate_blank)

definition outcome_shape :: "string res \<Rightarrow> string + nat" where
  "outcome_shape r = (case r of Inl e \<Rightarrow> Inl (exc_name e) | Inr t \<Rightarrow> Inr (py_len t))"

text \<open>C27: A trace tells nothing about a text but its length. Two completions with the same configuration, context
  and stage whose prompts together with their system prompts have the same number of characters, and whose
  outcomes agree in the length of the text or in the class of the error, leave the recorders in the same
  state, whatever the texts are and whichever servers answered.\<close>

theorem trace_content_free:
  assumes "strip p1 \<noteq> []" "strip p2 \<noteq> []"
    "py_len p1 + py_len (or_empty sys1) = py_len p2 + py_len (or_empty sys2)"
    "generate c (beside_transport T1) (aside ob) p1 sys1 (Some ctx) stage (v1, w1, t) = (r1, (v1', w1', t1))"
    "generate c (beside_transport T2) (aside ob) p2 sys2 (Some ctx) stage (v2, w2, t) = (r2, (v2', w2', t2))"
    "outcome_shape r1 = outcome_shape r2"
  shows "t1 = t2"
proof -
  obtain n u where clock: "ob_clock ob t = (n, u)" by (cases "ob_clock ob t")
  have attrs: "generation_attributes c p1 sys1 = generation_attributes c p2 sys2"
    using assms(3) by (simp add: generation_attributes_def)
  let ?after = "\<lambda>r. record_span ob ctx stage n (outcome_attributes (generation_attributes c p2 sys2) r)
        (case r of Inl e \<Rightarrow> Some e | Inr _ \<Rightarrow> None) u"
  have "t1 = ?after r1"
    using assms(4) by (auto simp: generate_aside [OF assms(1)] clock attrs Let_def split: prod.splits)
  moreover have "t2 = ?after r2"
    using assms(5) by (auto simp: generate_aside [OF assms(2)] clock Let_def split: prod.splits)
  moreover have "?after r1 = ?after r2"
    using assms(6)
    by (auto simp: outcome_shape_def outcome_attributes_def record_span_def Let_def split: sum.splits prod.splits)
  ultimately show ?thesis by simp
qed

text \<open>The operational summary accounts for every span once. The stages are the names that occur, in order and
  without repetition; their span and error counts add up to the totals; the failed runs are among the runs;
  both percentiles of a stage are durations of its own spans, the median not above the 95th percentile; and
  the two rates lie between 0 and 1.\<close>

theorem summary_accounts:
  "map sg_stage (sm_stages (aggregate_traces events)) = sorted_list_of_set (sp_stage ` set events)
    \<and> sm_spans (aggregate_traces events) = length events
    \<and> sum_list (map sg_spans (sm_stages (aggregate_traces events))) = length events
    \<and> sum_list (map sg_errors (sm_stages (aggregate_traces events))) = sm_errors (aggregate_traces events)
    \<and> sm_failed_runs (aggregate_traces events) \<le> sm_runs (aggregate_traces events)
    \<and> (\<forall>g \<in> set (sm_stages (aggregate_traces events)).
         0 < sg_spans g \<and> sg_errors g \<le> sg_spans g \<and> sg_p50 g \<le> sg_p95 g
         \<and> {sg_p50 g, sg_p95 g} \<subseteq> sp_duration ` {e \<in> set events. sp_stage e = sg_stage g})
    \<and> (\<forall>r \<in> set_option (sm_cache_rate (aggregate_traces events)) \<union> set_option (sm_non_empty_rate (aggregate_traces events)).
         0 \<le> r \<and> r \<le> 1)"
proof -
  let ?S = "aggregate_traces events" and ?d = "by_stage events"
  have stages: "sm_stages ?S = map stage_of (sort_key fst ?d)" by (simp add: aggregate_traces_def Let_def)
  have "map sg_stage (sm_stages ?S) = map fst (sort_key fst ?d)"
    by (simp add: stages stage_of_def case_prod_unfold comp_def)
  moreover have "distinct (map fst (sort_key fst ?d))"
    using by_stage_distinct by (simp add: distinct_map)
  moreover have "set (map fst (sort_key fst ?d)) = sp_stage ` set events" by (simp add: by_stage_keys)
  moreover have "sorted (map fst (sort_key fst ?d))" by (rule sorted_sort_key)
  ultimately have names: "map sg_stage (sm_stages ?S) = sorted_list_of_set (sp_stage ` set events)"
    using sorted_distinct_set_unique [of "map fst (sort_key fst ?d)" "sorted_list_of_set (sp_stage ` set events)"] by simp
  have sums: "sum_list (map h (sort_key fst ?d)) = sum_list (map h ?d)" for h :: "string \<times> span_event list \<Rightarrow> nat"
  proof -
    have "mset (map h (sort_key fst ?d)) = mset (map h ?d)" by simp
    then show ?thesis by (metis sum_mset_sum_list)
  qed
  have "sum_list (map sg_spans (sm_stages ?S)) = sum_list (map (\<lambda>p. length (snd p)) (sort_key fst ?d))"
    "sum_list (map sg_errors (sm_stages ?S)) = sum_list (map (\<lambda>p. length (filter sp_failed (snd p))) (sort_key fst ?d))"
    by (simp_all add: stages stage_of_def case_prod_unfold comp_def)
  then have counts: "sum_list (map sg_spans (sm_stages ?S)) = length events"
    "sum_list (map sg_errors (sm_stages ?S)) = length (filter sp_failed events)"
    using sums by_stage_sum [of "\<lambda>_. True" events] by_stage_sum [of sp_failed events] by simp_all
  have runs: "sm_failed_runs ?S \<le> sm_runs ?S"
    by (simp add: aggregate_traces_def Let_def length_uniq_set) (rule card_mono, auto)
  have rates: "\<forall>r \<in> set_option (sm_cache_rate ?S) \<union> set_option (sm_non_empty_rate ?S). 0 \<le> r \<and> r \<le> 1"
    by (auto simp: aggregate_traces_def Let_def simp del: filter_filter dest!: share_bounds)
  have each: "0 < sg_spans g \<and> sg_errors g \<le> sg_spans g \<and> sg_p50 g \<le> sg_p95 g
      \<and> {sg_p50 g, sg_p95 g} \<subseteq> sp_duration ` {e \<in> set events. sp_stage e = sg_stage g}"
    if member: "g \<in> set (sm_stages ?S)" for g
  proof -
    obtain k items where g: "g = stage_of (k, items)" and "(k, items) \<in> set ?d" using member by (auto simp: stages)
    from by_stage_items [OF this(2)] have items: "items = filter (\<lambda>e. sp_stage e = k) events" "map sp_duration items \<noteq> []"
      by auto
    have "percentile (map sp_duration items) p \<in> set (map sp_duration items)" if "0 \<le> p" "p \<le> 1" for p
      using percentile_share [OF items(2) that] by blast
    then show ?thesis
      using items percentile_mono [of "50 / 100" "95 / 100" "map sp_duration items"] length_filter_le [of sp_failed items]
      by (auto simp: g stage_of_def simp del: filter_filter)
  qed
  show ?thesis using names counts runs rates each by (simp add: aggregate_traces_def Let_def)
qed

section \<open>Instances\<close>

definition sample_generation :: generation_config where
  "sample_generation =
     \<lparr>gc_url = \<lparr>ul_text = ''http://localhost:11434/v1/'', ul_scheme = ''http'', ul_host = Some ''localhost'',
        ul_netloc = ''localhost:11434''\<rparr>, gc_model = ''gemma3'', gc_revision = ''sha-1'', gc_backend = Ollama,
      gc_temperature = 0, gc_seed = 17, gc_max_tokens = 1024, gc_timeout = 600, gc_tier = None, gc_quantized = False\<rparr>"

text \<open>A server that lists one model with the digest and answers every prompt with one text.\<close>

definition sample_transport :: "string \<Rightarrow> string \<Rightarrow> unit transport" where
  "sample_transport digest answer =
     \<lparr>tr_post = (\<lambda>u j n w. (Inr (Body ''chat''), w)), tr_get = (\<lambda>u n w. (Inr (Body ''tags''), w)),
      tr_json = (\<lambda>b. Some (if b = ''tags''
        then JObj [(''models'', JArr [JObj [(''name'', JStr ''gemma3:latest''), (''digest'', JStr digest)]])]
        else JObj [(''choices'', JArr [JObj [(''message'', JObj [(''content'', JStr answer)])]])]))\<rparr>"

definition sample_context :: trace_context where
  "sample_context = \<lparr>tc_run = ''run'', tc_operation = ''generation'', tc_query = replicate 64 (CHR ''0''), tc_question = None,
     tc_config = None, tc_dataset = None, tc_template = None, tc_version = None, tc_prompt = None\<rparr>"

definition memory_observer :: "span_event list observer" where
  "memory_observer = \<lparr>ob_clock = (\<lambda>w. (0, w)), ob_record = memory_recorder\<rparr>"

lemma sample_answer:
  "generate sample_generation (sample_transport ''sha-1'' ''{}'') silent ''q'' None (Some sample_context) ''s'' (False, ())
     = (Inr ''{}'', (True, ()))"
  by code_simp

lemma sample_refused:
  "generate sample_generation (sample_transport ''sha-2'' ''{}'') silent ''q'' None (Some sample_context) ''s'' (False, ())
     = (Inl (RuntimeError ''local Ollama model revision mismatch''), (False, ()))"
  by code_simp

lemma sample_unlisted: "\<not> listed sample_generation (sample_transport ''sha-2'' ''{}'') ()"
  by (simp add: listed_def fetch_models_def sample_transport_def act_bind_def act_lift_def reply_json_def installed_def
      obj_get_def sample_generation_def)

theorem generation_pinned_witness:
  "strip ''{}'' \<noteq> [] \<and> listed sample_generation (sample_transport ''sha-1'' ''{}'') ()
    \<and> generate sample_generation (sample_transport ''sha-2'' ''{}''\<lparr>tr_post := (\<lambda>u j n w. (Inr Refused, w))\<rparr>) silent ''q'' None
        (Some sample_context) ''s'' (False, ()) = (Inl (RuntimeError ''local Ollama model revision mismatch''), (False, ()))"
proof -
  have "gc_backend sample_generation = Ollama" by (simp add: sample_generation_def)
  note pinned = generation_pinned [OF this]
  have "snd (ob_clock silent ()) = ()" by simp
  then show ?thesis using pinned [OF sample_answer] pinned [OF sample_refused] sample_unlisted by simp
qed

lemma sample_traced:
  assumes "p = ''aa'' \<or> p = ''bb''" "a = ''cc'' \<or> a = ''dd''"
  shows "\<exists>events. generate sample_generation (beside_transport (sample_transport ''sha-1'' a)) (aside memory_observer) p None
    (Some sample_context) ''s'' (False, (), []) = (Inr a, (True, (), events)) \<and> length events = 1"
proof -
  have run: "request_completion sample_generation (sample_transport ''sha-1'' a) p None (False, ()) = (Inr a, (True, ()))"
    using assms by (elim disjE) (simp only:, code_simp)+
  have "strip p \<noteq> []" using assms(1) by (elim disjE) (simp only:, code_simp)+
  then show ?thesis
    by (simp add: generate_aside run memory_observer_def record_span_def try_record_def act_catch_def memory_recorder_def Let_def)
qed

theorem trace_content_free_witness:
  "\<exists>t1 t2. generate sample_generation (beside_transport (sample_transport ''sha-1'' ''cc'')) (aside memory_observer) ''aa'' None
      (Some sample_context) ''s'' (False, (), []) = (Inr ''cc'', (True, (), t1))
    \<and> generate sample_generation (beside_transport (sample_transport ''sha-1'' ''dd'')) (aside memory_observer) ''bb'' None
      (Some sample_context) ''s'' (False, (), []) = (Inr ''dd'', (True, (), t2))
    \<and> t1 = t2 \<and> length t1 = 1"
proof -
  obtain t1 where t1: "generate sample_generation (beside_transport (sample_transport ''sha-1'' ''cc'')) (aside memory_observer)
      ''aa'' None (Some sample_context) ''s'' (False, (), []) = (Inr ''cc'', (True, (), t1))" "length t1 = 1"
    using sample_traced [of "''aa''" "''cc''"] by blast
  obtain t2 where t2: "generate sample_generation (beside_transport (sample_transport ''sha-1'' ''dd'')) (aside memory_observer)
      ''bb'' None (Some sample_context) ''s'' (False, (), []) = (Inr ''dd'', (True, (), t2))" "length t2 = 1"
    using sample_traced [of "''bb''" "''dd''"] by blast
  have blank: "strip ''aa'' \<noteq> []" "strip ''bb'' \<noteq> []" by code_simp+
  have len: "py_len ''aa'' + py_len (or_empty None) = py_len ''bb'' + py_len (or_empty None)" by code_simp
  have shape: "outcome_shape (Inr ''cc'') = outcome_shape (Inr ''dd'')" by code_simp
  show ?thesis using trace_content_free [OF blank len t1(1) t2(1) shape] t1 t2 by blast
qed

definition sample_event :: "string \<Rightarrow> bool \<Rightarrow> rat \<Rightarrow> span_event" where
  "sample_event stage failed ms = \<lparr>sp_context = sample_context, sp_stage = stage, sp_failed = failed, sp_duration = ms,
     sp_attributes = [(''cache_hit'', ABool True)], sp_error = None\<rparr>"

theorem summary_accounts_witness:
  "map sg_stage (sm_stages (aggregate_traces [sample_event ''retrieval.total'' False 3, sample_event ''generation'' True 5,
       sample_event ''generation'' False 4])) = [''generation'', ''retrieval.total'']
    \<and> sum_list (map sg_spans (sm_stages (aggregate_traces [sample_event ''retrieval.total'' False 3,
       sample_event ''generation'' True 5, sample_event ''generation'' False 4]))) = 3"
proof -
  have "sorted_list_of_set {''generation'', ''retrieval.total''} = [''generation'', ''retrieval.total'']"
    by (rule sorted_distinct_set_unique) (auto simp: less_char_def)
  then show ?thesis
    using summary_accounts [of "[sample_event ''retrieval.total'' False 3, sample_event ''generation'' True 5,
      sample_event ''generation'' False 4]"]
    by (simp add: sample_event_def insert_commute)
qed

end
