(* ===== verification/Workspace.thy ===== *)
theory Workspace
  imports Security
begin

text \<open>
  \<open>staging_agent_impl/workspace.py\<close> and \<open>prompts.py\<close>: the files of an application, uploaded documents and the
  artifacts of its workers, as a map from paths to contents. Symbolic links are not modelled; the JSON
  codecs of the artifacts are parameters.
\<close>

section \<open>Paths\<close>

text \<open>\<open>Path(s).parts\<close> and \<open>Path(s).name\<close>.\<close>

definition path_components :: "string \<Rightarrow> string list" where
  "path_components s = filter (\<lambda>c. c \<noteq> [] \<and> c \<noteq> ''.'') (split_on CHR ''/'' s)"

definition path_parts :: "string \<Rightarrow> string list" where
  "path_parts s = (if starts_with ''/'' s then [''/''] else []) @ path_components s"

definition path_name :: "string \<Rightarrow> string" where
  "path_name s = (if path_components s = [] then [] else last (path_components s))"

type_synonym files = "(path, string) dict"

section \<open>The workspace\<close>

record staged_file =
  sf_filename :: string
  sf_sha256 :: string

text \<open>A reference to an input, of type \<open>staged_pdf\<close>.\<close>

record input_reference =
  rf_id :: string
  rf_sha256 :: string

definition mk_staged_file :: "string \<Rightarrow> string \<Rightarrow> staged_file res" where
  "mk_staged_file filename digest =
     raise_if (filename = [] \<or> 255 < py_len filename \<or> \<not> is_hex64 digest) (ValidationError ''StagedFile'')
       (Inr \<lparr>sf_filename = filename, sf_sha256 = digest\<rparr>)"

definition app_folder :: "path \<Rightarrow> string \<Rightarrow> path res" where
  "app_folder root application =
     raise_if (application = [] \<or> path_name application \<noteq> application) (ValueError ''unsafe application identifier'')
       (let folder = path_resolve (path_join root application) in
        raise_if (\<not> below root folder) (ValueError ''application storage boundary violation'') (Inr folder))"

definition artifact_path :: "path \<Rightarrow> string \<Rightarrow> string \<Rightarrow> path res" where
  "artifact_path root application name =
     raise_if (name = [] \<or> list_ex (\<lambda>p. p \<in> {[], ''.'', ''..''}) (path_parts name)) (ValueError ''unsafe artifact name'')
       (res_bind (app_folder root application) (\<lambda>folder.
        Inr (path_join (path_join folder ''agent'') (name @ ''.json''))))"

text \<open>\<open>with_suffix(".tmp")\<close> of a path whose name ends with \<open>.json\<close>; a name that is only that has no suffix.\<close>

definition temporary :: "path \<Rightarrow> path" where
  "temporary p =
     (let n = last p in butlast p @ [(if 5 < length n then take (length n - 5) n else n) @ ''.tmp''])"

definition read_file :: "path \<Rightarrow> (files, string) act" where
  "read_file p fs = (case map_of fs p of None \<Rightarrow> Inl (OSError ''FileNotFoundError'') | Some c \<Rightarrow> Inr c, fs)"

definition write_file :: "path \<Rightarrow> string \<Rightarrow> (files, unit) act" where
  "write_file p c fs = (Inr (), AList.update p c fs)"

text \<open>\<open>temporary.replace(target)\<close>\<close>

definition move_file :: "path \<Rightarrow> path \<Rightarrow> (files, unit) act" where
  "move_file p q fs =
     (case map_of fs p of
        None \<Rightarrow> (Inl (OSError ''FileNotFoundError''), fs)
      | Some c \<Rightarrow> (Inr (), AList.update q c (AList.delete p fs)))"

definition save_artifact :: "path \<Rightarrow> string \<Rightarrow> string \<Rightarrow> string \<Rightarrow> (files, string) act" where
  "save_artifact root application name payload =
     act_bind (act_lift (artifact_path root application name)) (\<lambda>target.
     act_bind (write_file (temporary target) payload) (\<lambda>_.
     act_bind (move_file (temporary target) target) (\<lambda>_.
     act_return (sha256_hex payload))))"

definition load_artifact :: "path \<Rightarrow> (string \<Rightarrow> 'm option) \<Rightarrow> string \<Rightarrow> string \<Rightarrow> (files, 'm) act" where
  "load_artifact root decode application name =
     act_bind (act_lift (artifact_path root application name)) (\<lambda>target.
     act_bind (read_file target) (\<lambda>payload.
     act_lift (case decode payload of None \<Rightarrow> Inl (ValidationError ''artifact'') | Some m \<Rightarrow> Inr m)))"

definition artifact_exists :: "path \<Rightarrow> string \<Rightarrow> string \<Rightarrow> (files, bool) act" where
  "artifact_exists root application name =
     act_bind (act_lift (artifact_path root application name)) (\<lambda>target fs. (Inr (map_of fs target \<noteq> None), fs))"

definition artifact_hash :: "path \<Rightarrow> string \<Rightarrow> string \<Rightarrow> (files, string) act" where
  "artifact_hash root application name =
     act_bind (act_lift (artifact_path root application name)) (\<lambda>target.
     act_bind (read_file target) (\<lambda>payload. act_return (sha256_hex payload)))"

text \<open>One uploaded file: the checks, then the file is written unless it is there with the same hash.\<close>

definition check_upload :: "nat \<Rightarrow> string \<Rightarrow> string \<Rightarrow> unit res" where
  "check_upload max_file filename content =
     raise_if (path_name filename \<noteq> filename \<or> \<not> ends_with ''.pdf'' (map lower_char (path_name filename)))
       (ValueError ''all uploaded files must be safely named PDFs'')
    (raise_if (\<not> starts_with ''%PDF-'' content) (ValueError ''not a PDF'')
    (raise_if (max_file < length content) (ValueError ''exceeds the configured PDF limit'') (Inr ())))"

definition place_file :: "path \<Rightarrow> string \<Rightarrow> (files, unit) act" where
  "place_file target content fs =
     (case map_of fs target of
        None \<Rightarrow> write_file target content fs
      | Some old \<Rightarrow> (raise_if (sha256_hex old \<noteq> sha256_hex content) (ValueError ''staged file collision'') (Inr ()), fs))"

definition stage_file :: "nat \<Rightarrow> path \<Rightarrow> string \<times> string \<Rightarrow> (files, staged_file) act" where
  "stage_file max_file documents = (\<lambda>(filename, content).
     act_bind (act_lift (check_upload max_file filename content)) (\<lambda>_.
     act_bind (place_file (path_join documents filename) content) (\<lambda>_.
     act_lift (mk_staged_file filename (sha256_hex content)))))"

definition reference_of :: "staged_file \<Rightarrow> input_reference" where
  "reference_of s = \<lparr>rf_id = sf_filename s, rf_sha256 = sf_sha256 s\<rparr>"

text \<open>\<open>encode\<close> is the JSON of a \<open>StagedApplication\<close> with its metadata.\<close>

definition stage_application ::
  "path \<Rightarrow> (staged_file list \<Rightarrow> string) \<Rightarrow> nat \<Rightarrow> nat \<Rightarrow> string \<Rightarrow> (string \<times> string) list
   \<Rightarrow> (files, input_reference list) act" where
  "stage_application root encode max_file max_batch application uploads =
     act_bind (act_lift (raise_if (uploads = []) (ValueError ''at least one borrower PDF is required'')
       (raise_if (max_batch < sum_list (map (\<lambda>(f, c). length c) uploads))
         (ValueError ''PDF batch exceeds the configured aggregate limit'') (Inr ())))) (\<lambda>_.
     act_bind (act_lift (app_folder root application)) (\<lambda>folder.
     act_bind (act_map (stage_file max_file (path_join folder ''documents'')) uploads) (\<lambda>staged.
     act_bind (save_artifact root application ''request'' (encode staged)) (\<lambda>_.
     act_return (map reference_of staged)))))"

definition read_pdf :: "path \<Rightarrow> string \<Rightarrow> string \<Rightarrow> string \<Rightarrow> (files, string) act" where
  "read_pdf root application filename expected =
     act_bind (act_lift (raise_if (path_name filename \<noteq> filename) (ValueError ''unsafe staged filename'') (Inr ()))) (\<lambda>_.
     act_bind (act_lift (app_folder root application)) (\<lambda>folder.
     act_bind (read_file (path_join (path_join folder ''documents'') filename)) (\<lambda>payload.
     act_lift (raise_if (sha256_hex payload \<noteq> expected) (ValueError ''staged PDF hash mismatch'') (Inr payload)))))"

section \<open>Prompts\<close>

definition load_prompt :: "path \<Rightarrow> string \<Rightarrow> (files, string) act" where
  "load_prompt root name =
     act_bind (act_lift (raise_if (name = [] \<or> path_name name \<noteq> name) (ValueError ''unsafe prompt name'') (Inr ()))) (\<lambda>_.
     act_bind (read_file (path_join root (name @ ''.txt''))) (\<lambda>content.
     act_lift (raise_if (strip content = []) (ValueError ''prompt is empty'') (Inr (strip content)))))"

section \<open>Where the files are\<close>

lemma split_on_parts: "\<forall>c \<in> set (split_on d s). d \<notin> set c"
  by (induction d s rule: split_on.induct) (auto split: list.splits)

lemma split_on_extend: "d \<notin> set t \<Longrightarrow> split_on d (s @ t) = butlast (split_on d s) @ [last (split_on d s) @ t]"
proof (induction s)
  case Nil
  then show ?case by (simp add: split_on_no_sep)
next
  case (Cons c s)
  then show ?case by (cases "split_on d s") auto
qed

lemma path_name_single:
  assumes "path_name s = s" "s \<noteq> []"
  shows "path_components s = [s]" "CHR ''/'' \<notin> set s" "s \<noteq> ''.''"
proof -
  have cs: "path_components s \<noteq> []" and "last (path_components s) = s"
    using assms by (auto simp: path_name_def split: if_splits)
  then have "s \<in> set (path_components s)" by (metis last_in_set)
  then have "s \<noteq> ''.''" "s \<in> set (split_on CHR ''/'' s)" by (auto simp: path_components_def)
  then show "CHR ''/'' \<notin> set s" "s \<noteq> ''.''" using split_on_parts by auto
  then show "path_components s = [s]" using assms(2) by (simp add: path_components_def split_on_no_sep)
qed

lemma no_slash_start: "CHR ''/'' \<notin> set s \<Longrightarrow> \<not> starts_with ''/'' s"
  by (cases s) (auto simp: starts_with_def)

lemma path_join_relative: "\<not> starts_with ''/'' s \<Longrightarrow> path_join base s = base @ path_components s"
  by (simp add: path_join_def path_components_def)

lemma path_join_name: "path_name s = s \<Longrightarrow> s \<noteq> [] \<Longrightarrow> path_join base s = base @ [s]"
  using path_name_single [of s] by (simp add: path_join_relative no_slash_start)

lemma resolve_plain: "''..'' \<notin> set p \<Longrightarrow> resolve_from acc p = rev acc @ p"
  by (induction p arbitrary: acc) auto

lemma app_folder_Inr:
  assumes "app_folder root application = Inr folder" "''..'' \<notin> set root"
  shows "folder = root @ [application]" "application \<noteq> ''..''"
proof -
  have name: "path_name application = application" "application \<noteq> []"
    and folder: "folder = path_resolve (root @ [application])" and inside: "below root folder"
    using assms(1) by (auto simp: app_folder_def raise_if_Inr_iff Let_def path_join_name)
  have "resolve_from [] (root @ [''..'']) = rev (tl (rev root))"
  proof -
    have "resolve_from acc (p @ [''..'']) = rev (tl (rev p @ acc))" if "''..'' \<notin> set p" for acc p
      using that by (induction p arbitrary: acc) auto
    from this [OF assms(2), of "[]"] show ?thesis by simp
  qed
  then have "\<not> below root (path_resolve (root @ [''..'']))" by (auto simp: path_resolve_def below_def)
  then show "application \<noteq> ''..''" using folder inside by auto
  then show "folder = root @ [application]" using folder assms(2) by (simp add: path_resolve_def resolve_plain)
qed

lemma artifact_path_Inr:
  assumes "artifact_path root application name = Inr p" "''..'' \<notin> set root" "\<not> starts_with ''/'' name"
  shows "p = root @ [application, ''agent''] @ path_components (name @ ''.json'')" "application \<noteq> ''..''"
proof -
  obtain folder where folder: "app_folder root application = Inr folder"
    and p: "p = path_join (path_join folder ''agent'') (name @ ''.json'')" and "name \<noteq> []"
    using assms(1) by (auto simp: artifact_path_def raise_if_Inr_iff res_bind_Inr_iff)
  then have "\<not> starts_with ''/'' (name @ ''.json'')" using assms(3) by (cases name) (auto simp: starts_with_def)
  moreover have "path_join folder ''agent'' = folder @ [''agent'']"
    by (rule path_join_name) code_simp+
  ultimately show "p = root @ [application, ''agent''] @ path_components (name @ ''.json'')" "application \<noteq> ''..''"
    using p app_folder_Inr [OF folder assms(2)] by (simp_all add: path_join_relative)
qed

text \<open>An absolute name leaves the folder of the application.\<close>

lemma absolute_artifact_escapes: "artifact_path [''srv''] ''app-1'' ''/etc/x'' = Inr [''etc'', ''x.json'']"
  by code_simp

section \<open>What an operation may touch\<close>

definition outside :: "path \<Rightarrow> files \<Rightarrow> files \<Rightarrow> bool" where
  "outside folder fs fs' = (\<forall>p. \<not> under folder p \<longrightarrow> map_of fs' p = map_of fs p)"

interpretation folder_relation: act_relation "outside folder" for folder
  by unfold_locales (auto simp: outside_def)

lemma keeps_read_file: "keeps (outside folder) (read_file p)"
  by (simp add: keeps_def read_file_def outside_def)

lemma keeps_write: "under folder p \<Longrightarrow> keeps (outside folder) (write_file p c)"
  by (auto simp: keeps_def write_file_def outside_def dict_simps)

lemma keeps_move: "under folder p \<Longrightarrow> under folder q \<Longrightarrow> keeps (outside folder) (move_file p q)"
  by (auto simp: keeps_def move_file_def outside_def dict_simps split: option.splits)

lemma components_json: "path_components (s @ ''.json'') \<noteq> []"
proof
  assume none: "path_components (s @ ''.json'') = []"
  have "last (split_on CHR ''/'' (s @ ''.json'')) = last (split_on CHR ''/'' s) @ ''.json''"
    by (subst split_on_extend) simp_all
  moreover have "last (split_on CHR ''/'' (s @ ''.json'')) \<in> set (split_on CHR ''/'' (s @ ''.json''))" by simp
  ultimately have "last (split_on CHR ''/'' s) @ ''.json'' \<in> set (path_components (s @ ''.json''))"
    by (simp add: path_components_def)
  with none show False by simp
qed

lemma under_artifact:
  assumes "artifact_path root application name = Inr p" "''..'' \<notin> set root" "\<not> starts_with ''/'' name"
  shows "under (root @ [application]) p" "under (root @ [application]) (temporary p)"
proof -
  have p: "p = (root @ [application]) @ ''agent'' # path_components (name @ ''.json'')"
    using artifact_path_Inr(1) [OF assms] by simp
  then show "under (root @ [application]) p" by (simp add: under_def)
  show "under (root @ [application]) (temporary p)"
    using components_json [of name] by (simp add: p under_def temporary_def Let_def butlast_append)
qed

lemma keeps_act_map: "act_relation R \<Longrightarrow> (\<And>x. x \<in> set xs \<Longrightarrow> keeps R (f x)) \<Longrightarrow> keeps R (act_map f xs)"
proof (induction xs)
  case Nil
  then show ?case by (simp add: act_relation.run_return)
next
  case (Cons x xs)
  then show ?case
    by (simp, intro act_relation.run_bind [OF Cons.prems(1)] Cons.IH act_relation.run_return [OF Cons.prems(1)]) auto
qed

lemma keeps_save:
  assumes "''..'' \<notin> set root" "\<not> starts_with ''/'' name"
  shows "keeps (outside (root @ [application])) (save_artifact root application name payload)"
  unfolding save_artifact_def
  by (intro folder_relation.run_bind_lift folder_relation.run_bind folder_relation.run_return keeps_write keeps_move)
    (auto dest: under_artifact [OF _ assms])

definition documents_path :: "path \<Rightarrow> string \<Rightarrow> string \<Rightarrow> path" where
  "documents_path root application filename = root @ [application, ''documents'', filename]"

lemma document_place:
  assumes "app_folder root application = Inr folder" "''..'' \<notin> set root" "path_name filename = filename" "filename \<noteq> []"
  shows "path_join (path_join folder ''documents'') filename = documents_path root application filename"
proof -
  have "path_join folder ''documents'' = folder @ [''documents'']" by (rule path_join_name) code_simp+
  then show ?thesis
    using app_folder_Inr (1) [OF assms(1,2)] assms(3,4) by (simp add: path_join_name documents_path_def)
qed

lemma check_upload_Inr:
  assumes "check_upload n filename content = Inr u"
  shows "path_name filename = filename" "filename \<noteq> []"
  using assms by (auto simp: check_upload_def raise_if_Inr_iff ends_with_def path_name_def path_components_def)

lemma keeps_stage_file:
  assumes "app_folder root application = Inr folder" "''..'' \<notin> set root"
  shows "keeps (outside (root @ [application])) (stage_file n (path_join folder ''documents'') x)"
proof -
  obtain filename content where x: "x = (filename, content)" by (cases x)
  have "keeps (outside (root @ [application])) (place_file (documents_path root application filename) content)"
    by (auto simp: keeps_def place_file_def write_file_def outside_def under_def documents_path_def dict_simps
        split: option.splits)
  then have "keeps (outside (root @ [application])) (place_file (path_join (path_join folder ''documents'') filename) content)"
    if "check_upload n filename content = Inr u" for u
    using document_place [OF assms check_upload_Inr [OF that]] by simp
  then show ?thesis
    unfolding stage_file_def x prod.case
    by (intro folder_relation.run_bind_lift folder_relation.run_bind folder_relation.run_lift)
qed

lemma keeps_stage:
  assumes "''..'' \<notin> set root"
  shows "keeps (outside (root @ [application])) (stage_application root encode max_file max_batch application uploads)"
proof -
  have "\<not> starts_with ''/'' ''request''" by code_simp
  note save = keeps_save [OF assms this]
  show ?thesis
    unfolding stage_application_def
    by (intro folder_relation.run_bind_lift folder_relation.run_bind folder_relation.run_return save
        keeps_act_map [OF folder_relation.act_relation_axioms] keeps_stage_file assms)
qed

section \<open>Reading\<close>

text \<open>Two states of the files agree on the folder of an application: every read of it answers the same.\<close>

definition agree :: "path \<Rightarrow> files \<Rightarrow> files \<Rightarrow> bool" where
  "agree folder fs fs' = (\<forall>p. under folder p \<longrightarrow> map_of fs' p = map_of fs p)"

lemma outside_agree:
  assumes "outside (root @ [a]) fs fs'" "a \<noteq> b"
  shows "agree (root @ [b]) fs fs'"
  using assms by (auto simp: outside_def agree_def under_def take_Suc_conv_app_nth)

lemma agree_read: "agree folder fs fs' \<Longrightarrow> under folder p \<Longrightarrow> fst (read_file p fs') = fst (read_file p fs)"
  by (simp add: agree_def read_file_def)

lemma agree_load:
  assumes "agree (root @ [b]) fs fs'" "''..'' \<notin> set root" "\<not> starts_with ''/'' name"
  shows "fst (load_artifact root decode b name fs') = fst (load_artifact root decode b name fs)
    \<and> fst (artifact_exists root b name fs') = fst (artifact_exists root b name fs)"
proof (cases "artifact_path root b name")
  case (Inr p)
  note same = assms(1) [unfolded agree_def, rule_format, OF under_artifact(1) [OF Inr assms(2,3)]]
  show ?thesis
    using Inr same
    by (auto simp: load_artifact_def artifact_exists_def act_bind_def act_lift_def read_file_def split: option.splits)
qed (auto simp: load_artifact_def artifact_exists_def act_bind_def act_lift_def)

lemma agree_read_pdf:
  assumes "agree (root @ [b]) fs fs'" "''..'' \<notin> set root"
  shows "fst (read_pdf root b filename expected fs') = fst (read_pdf root b filename expected fs)"
proof (cases "app_folder root b")
  case (Inr folder)
  have documents: "path_join folder ''documents'' = folder @ [''documents'']" by (rule path_join_name) code_simp+
  have "map_of fs' (path_join (path_join folder ''documents'') filename) = map_of fs (path_join (path_join folder ''documents'') filename)"
    if "path_name filename = filename"
  proof (cases "filename = []")
    case True
    then show ?thesis
      using assms(1) app_folder_Inr (1) [OF Inr assms(2)]
      by (simp add: documents agree_def path_join_def under_def starts_with_def)
  next
    case False
    then show ?thesis
      using assms(1) document_place [OF Inr assms(2) that] by (simp add: agree_def under_def documents_path_def)
  qed
  then show ?thesis
    using Inr by (auto simp: read_pdf_def act_bind_def act_lift_def raise_if_def read_file_def split: option.splits)
qed (auto simp: read_pdf_def act_bind_def act_lift_def raise_if_def)

section \<open>Staging\<close>

text \<open>Staging adds files and never changes one that is there.\<close>

definition staged_in :: "(string \<Rightarrow> path) \<Rightarrow> (string \<times> string) list \<Rightarrow> files \<Rightarrow> files \<Rightarrow> bool" where
  "staged_in place uploads fs fs' =
     ((\<forall>p v. map_of fs p = Some v \<longrightarrow> map_of fs' p = Some v)
      \<and> (\<forall>p. map_of fs p = None \<longrightarrow> map_of fs' p = None
           \<or> (\<exists>f c. (f, c) \<in> set uploads \<and> p = place f \<and> map_of fs' p = Some c)))"

lemma staged_in_new:
  "staged_in place uploads fs fs' \<Longrightarrow> map_of fs p = None \<Longrightarrow> map_of fs' p = Some c \<Longrightarrow>
     \<exists>f. (f, c) \<in> set uploads \<and> p = place f"
  unfolding staged_in_def by (metis option.distinct(1) option.inject)

lemma staged_in_trans:
  assumes "staged_in place xs fs fs1" "staged_in place ys fs1 fs2"
  shows "staged_in place (xs @ ys) fs fs2"
  unfolding staged_in_def
proof (intro conjI allI impI)
  fix p v
  show "map_of fs p = Some v \<Longrightarrow> map_of fs2 p = Some v" using assms by (simp add: staged_in_def)
  assume none: "map_of fs p = None"
  show "map_of fs2 p = None \<or> (\<exists>f c. (f, c) \<in> set (xs @ ys) \<and> p = place f \<and> map_of fs2 p = Some c)"
  proof (cases "map_of fs1 p")
    case None
    then have "map_of fs2 p = None \<or> (\<exists>f c. (f, c) \<in> set ys \<and> p = place f \<and> map_of fs2 p = Some c)"
      using assms(2) unfolding staged_in_def by blast
    then show ?thesis unfolding set_append by blast
  next
    case (Some c)
    then have "map_of fs2 p = Some c" using assms(2) by (simp add: staged_in_def)
    moreover obtain f where "(f, c) \<in> set xs" "p = place f"
      using staged_in_new [OF assms(1) none Some] by blast
    ultimately show ?thesis by auto
  qed
qed

lemma stage_file_Inr:
  assumes "stage_file n documents (f, c) fs = (Inr st, fs')"
  shows "st = \<lparr>sf_filename = f, sf_sha256 = sha256_hex c\<rparr>" "path_name f = f" "f \<noteq> []"
    "staged_in (path_join documents) [(f, c)] fs fs'"
    "\<exists>v. map_of fs' (path_join documents f) = Some v \<and> sha256_hex v = sha256_hex c"
proof -
  have checked: "check_upload n f c = Inr ()" and placed: "place_file (path_join documents f) c fs = (Inr (), fs')"
    and st: "mk_staged_file f (sha256_hex c) = Inr st"
    using assms by (auto simp: stage_file_def act_bind_Inr_iff act_lift_iff)
  show "st = \<lparr>sf_filename = f, sf_sha256 = sha256_hex c\<rparr>"
    using st by (simp add: mk_staged_file_def raise_if_Inr_iff)
  show "path_name f = f" "f \<noteq> []" using check_upload_Inr [OF checked] by auto
  show "staged_in (path_join documents) [(f, c)] fs fs'"
    using placed by (auto simp: place_file_def write_file_def staged_in_def dict_simps raise_if_def
        split: option.splits if_splits)
  show "\<exists>v. map_of fs' (path_join documents f) = Some v \<and> sha256_hex v = sha256_hex c"
    using placed by (auto simp: place_file_def write_file_def dict_simps raise_if_def split: option.splits if_splits)
qed

lemma stage_files_Inr:
  assumes "act_map (stage_file n documents) uploads fs = (Inr sts, fs')"
  shows "sts = map (\<lambda>(f, c). \<lparr>sf_filename = f, sf_sha256 = sha256_hex c\<rparr>) uploads
    \<and> staged_in (path_join documents) uploads fs fs'
    \<and> (\<forall>(f, c) \<in> set uploads. path_name f = f \<and> f \<noteq> []
         \<and> (\<exists>v. map_of fs' (path_join documents f) = Some v \<and> sha256_hex v = sha256_hex c))"
  using assms
proof (induction uploads arbitrary: fs sts)
  case Nil
  then show ?case by (simp add: act_return_def staged_in_def)
next
  case (Cons x uploads)
  obtain f c where x: "x = (f, c)" by (cases x)
  obtain st fs1 rest where one: "stage_file n documents (f, c) fs = (Inr st, fs1)"
    and more: "act_map (stage_file n documents) uploads fs1 = (Inr rest, fs')" and sts: "sts = st # rest"
    using Cons.prems by (auto simp: x act_bind_Inr_iff act_return_iff)
  note first = stage_file_Inr [OF one] and others = Cons.IH [OF more]
  have "staged_in (path_join documents) ([(f, c)] @ uploads) fs fs'"
    using first(4) others staged_in_trans by blast
  moreover obtain v where v: "map_of fs1 (path_join documents f) = Some v" "sha256_hex v = sha256_hex c"
    using first(5) by blast
  moreover have "map_of fs' (path_join documents f) = Some v" using others v(1) by (simp add: staged_in_def)
  ultimately show ?case using first others by (auto simp: x sts)
qed

lemma save_artifact_Inr:
  assumes "save_artifact root application name payload fs = (Inr h, fs')"
  shows "\<exists>p. artifact_path root application name = Inr p \<and> h = sha256_hex payload \<and> map_of fs' p = Some payload
    \<and> (\<forall>q. q \<noteq> p \<longrightarrow> q \<noteq> temporary p \<longrightarrow> map_of fs' q = map_of fs q)"
proof -
  obtain p fs1 where p: "artifact_path root application name = Inr p"
    and moved: "move_file (temporary p) p (AList.update (temporary p) payload fs) = (Inr (), fs')" and "h = sha256_hex payload"
    using assms by (auto simp: save_artifact_def act_bind_Inr_iff act_lift_iff act_return_iff write_file_def)
  have fs': "fs' = AList.update p payload (AList.delete (temporary p) (AList.update (temporary p) payload fs))"
    using moved by (simp add: move_file_def dict_simps)
  show ?thesis
    using p \<open>h = sha256_hex payload\<close> by (simp add: fs' dict_simps)
qed

section \<open>Properties\<close>

text \<open>C30: Applications do not reach each other's files. Whatever one application stages or saves under a
  relative name, and whether it succeeds or fails, every read of another application answers as before: its
  uploaded documents, and its artifacts with whether they exist.\<close>

theorem workspace_isolated:
  assumes "''..'' \<notin> set root" "a \<noteq> b"
    "fs' = snd (stage_application root encode max_file max_batch a uploads fs)
     \<or> (\<exists>name payload. \<not> starts_with ''/'' name \<and> fs' = snd (save_artifact root a name payload fs))"
  shows "fst (read_pdf root b filename expected fs') = fst (read_pdf root b filename expected fs)
    \<and> (\<not> starts_with ''/'' artifact \<longrightarrow>
         fst (load_artifact root decode b artifact fs') = fst (load_artifact root decode b artifact fs)
         \<and> fst (artifact_exists root b artifact fs') = fst (artifact_exists root b artifact fs))"
proof -
  have "outside (root @ [a]) fs fs'"
    using assms(3) keeps_stage [OF assms(1)] keeps_save [OF assms(1)] by (auto simp: keeps_def)
  then have same: "agree (root @ [b]) fs fs'" using assms(2) by (rule outside_agree)
  show ?thesis using agree_read_pdf [OF same assms(1)] agree_load [OF same assms(1)] by blast
qed

text \<open>What is staged can be read back. After a successful staging there is one reference per uploaded file, in
  order, with its name and the hash of its bytes. Reading the file by its reference succeeds with bytes of that
  hash: those of an upload of that name when the name was new. A file that was there before is unchanged.
  The saved request lists exactly those references.\<close>

theorem staged_files_read_back:
  assumes "stage_application root encode max_file max_batch a uploads fs = (Inr refs, fs')" "''..'' \<notin> set root"
    "\<And>xs. map reference_of xs = map (\<lambda>(f, c). \<lparr>rf_id = f, rf_sha256 = sha256_hex c\<rparr>) uploads \<Longrightarrow> decode (encode xs) = Some xs"
  shows "refs = map (\<lambda>(f, c). \<lparr>rf_id = f, rf_sha256 = sha256_hex c\<rparr>) uploads
    \<and> (\<forall>(f, c) \<in> set uploads. \<exists>bytes. read_pdf root a f (sha256_hex c) fs' = (Inr bytes, fs')
         \<and> sha256_hex bytes = sha256_hex c
         \<and> (case map_of fs (documents_path root a f) of None \<Rightarrow> (f, bytes) \<in> set uploads | Some old \<Rightarrow> bytes = old))
    \<and> (\<exists>staged. load_artifact root decode a ''request'' fs' = (Inr staged, fs') \<and> map reference_of staged = refs)"
proof -
  obtain folder staged fs1 h where folder: "app_folder root a = Inr folder"
    and staged: "act_map (stage_file max_file (path_join folder ''documents'')) uploads fs = (Inr staged, fs1)"
    and saved: "save_artifact root a ''request'' (encode staged) fs1 = (Inr h, fs')" and refs: "refs = map reference_of staged"
    using assms(1) by (auto simp: stage_application_def act_bind_Inr_iff act_lift_iff act_return_iff)
  note files = stage_files_Inr [OF staged]
  obtain p where p: "artifact_path root a ''request'' = Inr p" "map_of fs' p = Some (encode staged)"
    and rest: "\<forall>q. q \<noteq> p \<longrightarrow> q \<noteq> temporary p \<longrightarrow> map_of fs' q = map_of fs1 q"
    using save_artifact_Inr [OF saved] by blast
  have "path_components ''request.json'' = [''request.json'']" "\<not> starts_with ''/'' ''request''" by code_simp+
  then have target: "p = root @ [a, ''agent'', ''request.json'']"
    using artifact_path_Inr(1) [OF p(1) assms(2)] by simp
  have kept: "map_of fs' (documents_path root a f) = map_of fs1 (documents_path root a f)" for f
    by (rule rest [rule_format]) (simp_all add: target documents_path_def temporary_def Let_def butlast_append)
  have place: "path_join (path_join folder ''documents'') f = documents_path root a f" if "(f, c) \<in> set uploads" for f c
    using files that by (auto intro!: document_place [OF folder assms(2)])
  have each: "\<exists>bytes. read_pdf root a f (sha256_hex c) fs' = (Inr bytes, fs') \<and> sha256_hex bytes = sha256_hex c
      \<and> (case map_of fs (documents_path root a f) of None \<Rightarrow> (f, bytes) \<in> set uploads | Some old \<Rightarrow> bytes = old)"
    if upload: "(f, c) \<in> set uploads" for f c
  proof -
    obtain bytes where bytes: "map_of fs1 (documents_path root a f) = Some bytes" "sha256_hex bytes = sha256_hex c"
      and name: "path_name f = f"
      using files upload place [OF upload] by fastforce
    have "read_pdf root a f (sha256_hex c) fs' = (Inr bytes, fs')"
      using kept bytes name folder place [OF upload]
      by (simp add: read_pdf_def act_bind_def act_lift_def raise_if_def read_file_def)
    moreover have "case map_of fs (documents_path root a f) of None \<Rightarrow> (f, bytes) \<in> set uploads | Some old \<Rightarrow> bytes = old"
    proof (cases "map_of fs (documents_path root a f)")
      case None
      then obtain g where "(g, bytes) \<in> set uploads" "documents_path root a f = path_join (path_join folder ''documents'') g"
        using staged_in_new [OF conjunct1 [OF conjunct2 [OF files]] None bytes(1)] by blast
      then show ?thesis using None place by (auto simp: documents_path_def)
    next
      case (Some old)
      then have "map_of fs1 (documents_path root a f) = Some old"
        using files unfolding staged_in_def by blast
      then show ?thesis using bytes(1) Some by simp
    qed
    ultimately show ?thesis using bytes(2) by blast
  qed
  have listed: "refs = map (\<lambda>(f, c). \<lparr>rf_id = f, rf_sha256 = sha256_hex c\<rparr>) uploads"
    using files by (auto simp: refs reference_of_def)
  then have "decode (encode staged) = Some staged" using assms(3) refs by simp
  then have "load_artifact root decode a ''request'' fs' = (Inr staged, fs')"
    using p by (simp add: load_artifact_def act_bind_def act_lift_def read_file_def)
  then show ?thesis using each refs listed by blast
qed

section \<open>Instances\<close>

definition sample_encode :: "staged_file list \<Rightarrow> string" where
  "sample_encode xs = concat (map (\<lambda>x. sf_filename x @ [CHR 0x00] @ sf_sha256 x @ [CHR 0x00]) xs)"

lemma sample_staged:
  "\<exists>refs fs'. stage_application [''srv''] encode 100 1000 ''app-1'' [(''a.pdf'', ''%PDF-1'')] [] = (Inr refs, fs')"
proof -
  have folder: "app_folder [''srv''] ''app-1'' = Inr [''srv'', ''app-1'']" by code_simp
  have check: "check_upload 100 ''a.pdf'' ''%PDF-1'' = Inr ()" by code_simp
  have artifact: "artifact_path [''srv''] ''app-1'' ''request'' = Inr [''srv'', ''app-1'', ''agent'', ''request.json'']" by code_simp
  have name: "py_len ''a.pdf'' = 5" by code_simp
  show ?thesis
    by (simp add: stage_application_def act_bind_def act_lift_def act_return_def raise_if_def folder stage_file_def check
        place_file_def write_file_def mk_staged_file_def name sha256_hex_shape save_artifact_def artifact move_file_def
        dict_simps)
qed

definition sample_decode :: "string \<Rightarrow> staged_file list option" where
  "sample_decode s = Some [\<lparr>sf_filename = ''a.pdf'', sf_sha256 = sha256_hex ''%PDF-1''\<rparr>]"

theorem workspace_isolated_witness:
  "\<exists>refs fs'. stage_application [''srv''] sample_encode 100 1000 ''app-1'' [(''a.pdf'', ''%PDF-1'')] [] = (Inr refs, fs')
    \<and> fst (read_pdf [''srv''] ''app-2'' ''a.pdf'' [] fs') = fst (read_pdf [''srv''] ''app-2'' ''a.pdf'' [] [])"
proof -
  obtain refs fs' where run: "stage_application [''srv''] sample_encode 100 1000 ''app-1'' [(''a.pdf'', ''%PDF-1'')] [] = (Inr refs, fs')"
    using sample_staged by blast
  have names: "''..'' \<notin> set [''srv'']" "''app-1'' \<noteq> ''app-2''" by code_simp+
  have "fs' = snd (stage_application [''srv''] sample_encode 100 1000 ''app-1'' [(''a.pdf'', ''%PDF-1'')] [])" by (simp add: run)
  then show ?thesis using workspace_isolated [OF names disjI1] run by blast
qed

theorem staged_files_read_back_witness:
  "\<exists>refs fs' bytes. stage_application [''srv''] sample_encode 100 1000 ''app-1'' [(''a.pdf'', ''%PDF-1'')] [] = (Inr refs, fs')
    \<and> read_pdf [''srv''] ''app-1'' ''a.pdf'' (sha256_hex ''%PDF-1'') fs' = (Inr bytes, fs') \<and> bytes = ''%PDF-1''"
proof -
  obtain refs fs' where run: "stage_application [''srv''] sample_encode 100 1000 ''app-1'' [(''a.pdf'', ''%PDF-1'')] [] = (Inr refs, fs')"
    using sample_staged by blast
  have root: "''..'' \<notin> set [''srv'']" by code_simp
  have "sample_decode (sample_encode xs) = Some xs"
    if "map reference_of xs = map (\<lambda>(f, c). \<lparr>rf_id = f, rf_sha256 = sha256_hex c\<rparr>) [(''a.pdf'', ''%PDF-1'')]" for xs
    using that by (auto simp: sample_decode_def reference_of_def)
  note again = staged_files_read_back [OF run root this]
  then show ?thesis using run by fastforce
qed

end
