(* ===== verification/Agent.thy ===== *)
theory Agent
  imports Workspace Schema PyDecimal Json
begin

text \<open>
  The staging agent (\<open>staging_agent_impl/\<close>): the fixed workers that take an application from its PDFs to a
  human reviewer, the guardrails before the handoff, the runtime around the graph, the router for
  send-backs and the telemetry. The agent's host library (its graph, workflow service, rules, retriever
  and JSON models) is not part of this repository: its records carry the fields that the code uses, its
  functions are parameters. The validation in the constructors of its models and the identifiers of its
  commands belong to it; the targets of \<open>advance\<close> are members of its \<open>WorkflowState\<close>.
\<close>

section \<open>Records\<close>

datatype worker = DocumentProcessing | FinancialAnalysis | Eligibility | PrecedentRetrieval | Suggestion | Guardrails | HumanReview

datatype graph_status = FailedRetryable | NeedsAttention | FailedTerminal | Cancelled | WaitingForReview | OtherStatus string

record document_reference =
  dc_document :: string
  dc_sha256 :: string
  dc_pages :: nat
  dc_chunks :: nat
  dc_config :: string

record evidence_metric =
  em_name :: string
  em_value :: dec
  em_unit :: string
  em_period :: string
  em_citation :: citation

record evidence_reference =
  er_id :: string
  er_metric :: string
  er_value :: string
  er_unit :: string
  er_period :: string
  er_document :: string
  er_page :: int
  er_bbox :: bbox

record funder_eligibility =
  fe_funder :: string
  fe_eligible :: bool
  fe_checks :: "(string \<times> bool) list"

record eligibility_reference =
  el_funder :: string
  el_eligible :: bool
  el_failed :: "string list"

text \<open>\<open>BorrowerApplication\<close>: \<open>'m\<close> is what it takes from the intake metadata.\<close>

record 'm borrower =
  ba_application :: string
  ba_revenue :: dec
  ba_margin :: dec
  ba_dscr :: dec
  ba_evidence :: "evidence_metric list"
  ba_metadata :: 'm

record retrieval_result =
  rr_application :: string
  rr_eligibility :: "funder_eligibility list"
  rr_funders :: "string list"           \<comment> \<open>the funder of each match\<close>

record suggestion_bundle =
  su_application :: string
  su_candidates :: "string list"        \<comment> \<open>the funder of each candidate\<close>
  su_authority :: string
  su_requires_human :: bool
  su_notice :: string

record agent_error =
  ge_code :: string
  ge_retryable :: bool

record memory_state =
  ms_application :: string
  ms_job :: "string option"
  ms_documents :: "document_reference list"
  ms_evidence :: "evidence_reference list"
  ms_eligibility :: "eligibility_reference list"
  ms_status :: graph_status
  ms_node :: worker
  ms_attempts :: "(worker, nat) dict"
  ms_completed :: "worker list"
  ms_pending :: "worker list"
  ms_error :: "agent_error option"

record worker_result =
  wr_worker :: worker
  wr_output :: string
  wr_documents :: "document_reference list"
  wr_evidence :: "evidence_reference list"
  wr_eligibility :: "eligibility_reference list"
  wr_guardrails :: "(string \<times> bool) list"
  wr_review :: "(nat \<times> string list) option"
  wr_workflow :: "(string \<times> nat) option"
  wr_config :: "string option"

definition plain_result :: "worker \<Rightarrow> string \<Rightarrow> worker_result" where
  "plain_result wk output =
     \<lparr>wr_worker = wk, wr_output = output, wr_documents = [], wr_evidence = [], wr_eligibility = [], wr_guardrails = [],
      wr_review = None, wr_workflow = None, wr_config = None\<rparr>"

text \<open>\<open>WorkerFailure\<close>: retryable unless it says otherwise, or a matter for a human.\<close>

datatype failure_mode = Retryable | Terminal | Attention

definition failure :: "failure_mode \<Rightarrow> string \<Rightarrow> exc" where
  "failure m fail_code =
     OtherError ((case m of Retryable \<Rightarrow> ''retryable:'' | Terminal \<Rightarrow> ''terminal:'' | Attention \<Rightarrow> ''attention:'') @ fail_code)"

section \<open>Guardrails\<close>

definition subset_of :: "string list \<Rightarrow> string list \<Rightarrow> bool" where
  "subset_of xs ys = list_all (\<lambda>x. x \<in> set ys) xs"

definition expected_values :: "'m borrower \<Rightarrow> (string \<times> string) list" where
  "expected_values a =
     [(''annual_revenue_crore'', dec_str (ba_revenue a)), (''ebitda_margin_pct'', dec_str (ba_margin a)),
      (''dscr'', dec_str (ba_dscr a))]"

definition ungrounded :: "'m borrower \<Rightarrow> evidence_reference \<Rightarrow> bool" where
  "ungrounded a e = (case map_of (expected_values a) (er_metric e) of None \<Rightarrow> False | Some v \<Rightarrow> er_value e \<noteq> v)"

definition eligible_funders :: "memory_state \<Rightarrow> string list" where
  "eligible_funders s = map el_funder (filter el_eligible (ms_eligibility s))"

definition check_guardrails ::
  "memory_state \<Rightarrow> 'm borrower \<Rightarrow> retrieval_result \<Rightarrow> suggestion_bundle \<Rightarrow> unit res" where
  "check_guardrails s a r g =
     raise_if (ba_application a \<noteq> ms_application s) (failure Terminal ''cross_application_artifact'')
    (raise_if (rr_application r \<noteq> ms_application s) (failure Terminal ''cross_application_retrieval'')
    (raise_if (su_application g \<noteq> ms_application s) (failure Terminal ''cross_application_suggestion'')
    (raise_if (ms_evidence s = []) (failure Attention ''missing_evidence'')
    (raise_if (list_ex (\<lambda>e. er_document e \<notin> set (map dc_document (ms_documents s))) (ms_evidence s))
       (failure Terminal ''cross_application_evidence'')
    (raise_if (list_ex (ungrounded a) (ms_evidence s)) (failure Attention ''unsupported_numeric_claim'')
    (raise_if (\<not> subset_of (rr_funders r) (eligible_funders s) \<or> \<not> subset_of (su_candidates g) (eligible_funders s))
       (failure Terminal ''ineligible_funder_leakage'')
    (raise_if (su_authority g \<noteq> ''advisory_only'' \<or> \<not> su_requires_human g) (failure Terminal ''automatic_lending_decision'')
    (raise_if (su_notice g = []) (failure Attention ''missing_advisory_notice'') (Inr ())))))))))"

definition passed_guardrails :: "(string \<times> bool) list" where
  "passed_guardrails =
     [(''citation_presence'', True), (''evidence_ownership'', True), (''numeric_grounding'', True),
      (''eligible_only'', True), (''human_authority'', True), (''checkpoint_schema'', True)]"

section \<open>The world of a worker\<close>

text \<open>The files of the workspace beside the services; \<open>codec\<close> is the JSON of a model.\<close>

record 'm codec =
  cd_encode :: "'m \<Rightarrow> string"
  cd_decode :: "string \<Rightarrow> 'm option"

record 'm staged_application =
  sa_metadata :: 'm
  sa_files :: "staged_file list"

record ingest_item =
  ii_filename :: string
  ii_sha256 :: string
  ii_document :: string
  ii_pages :: nat
  ii_chunks :: nat
  ii_chunk_ids :: "string list"
  ii_config :: string

record intake_document =
  id_filename :: string
  id_sha256 :: string
  id_document :: string
  id_pages :: nat
  id_chunks :: nat

record document_artifact =
  da_documents :: "intake_document list"
  da_chunk_ids :: "(string, string list) dict"
  da_config :: "(string, string) dict"

record workflow =
  wf_state :: string
  wf_version :: nat

record ('x, 'm) agent =
  ag_root :: path
  ag_name :: "worker \<Rightarrow> string"                                   \<comment> \<open>\<open>WorkerName.value\<close>\<close>
  ag_hash :: "worker \<Rightarrow> string list \<Rightarrow> string"                    \<comment> \<open>\<open>result_hash\<close>\<close>
  ag_tool :: "('x, unit) act"                                      \<comment> \<open>\<open>context.consume_tool_call\<close>\<close>
  ag_command :: string
  ag_report :: "string \<Rightarrow> string \<Rightarrow> ('x, unit) act"
  ag_ingest :: "string \<Rightarrow> (staged_file \<times> string) list \<Rightarrow> ('x, ingest_item list) act"
  ag_extract :: "string \<Rightarrow> string \<Rightarrow> string list \<Rightarrow> ('x, figure list) act"
  ag_select :: "figure list \<Rightarrow> string \<Rightarrow> figure res"
  ag_decimal :: "string \<Rightarrow> dec res"
  ag_unit :: "string \<Rightarrow> string"
  ag_box :: "bbox \<Rightarrow> string"                                       \<comment> \<open>the JSON of a box\<close>
  ag_find_workflow :: "string \<Rightarrow> ('x, workflow option) act"        \<comment> \<open>\<open>None\<close>: \<open>WorkflowNotFoundError\<close>\<close>
  ag_create_workflow :: "string \<Rightarrow> string \<Rightarrow> ('x, workflow) act"
  ag_advance :: "string \<Rightarrow> nat \<Rightarrow> string \<Rightarrow> suggestion_bundle option \<Rightarrow> ('x, workflow) act"
  ag_states :: "string list"                                       \<comment> \<open>\<open>tuple(WorkflowState)\<close>\<close>
  ag_evaluate :: "'m borrower \<Rightarrow> funder_eligibility list"
  ag_retrieve :: "'m borrower \<Rightarrow> ('x, retrieval_result) act"
  ag_assemble :: "'m borrower \<Rightarrow> retrieval_result \<Rightarrow> suggestion_bundle res"
  cd_request :: "'m staged_application codec"
  cd_documents :: "document_artifact codec"
  cd_metric :: "(string \<times> figure) codec"
  cd_borrower :: "'m borrower codec"
  cd_eligibility :: "(string \<times> funder_eligibility list) codec"
  cd_retrieval :: "retrieval_result codec"
  cd_suggestion :: "suggestion_bundle codec"

type_synonym 'x agent_world = "files \<times> 'x"

definition on_files :: "(files, 'a) act \<Rightarrow> ('x agent_world, 'a) act" where
  "on_files m = (\<lambda>(fs, x). case m fs of (r, fs') \<Rightarrow> (r, (fs', x)))"

definition on_services :: "('x, 'a) act \<Rightarrow> ('x agent_world, 'a) act" where
  "on_services m = (\<lambda>(fs, x). case m x of (r, x') \<Rightarrow> (r, (fs, x')))"

definition load_model :: "('x, 'm) agent \<Rightarrow> 'a codec \<Rightarrow> string \<Rightarrow> string \<Rightarrow> ('x agent_world, 'a) act" where
  "load_model A c application name = on_files (load_artifact (ag_root A) (cd_decode c) application name)"

definition save_model :: "('x, 'm) agent \<Rightarrow> 'a codec \<Rightarrow> string \<Rightarrow> string \<Rightarrow> 'a \<Rightarrow> ('x agent_world, string) act" where
  "save_model A c application name v = on_files (save_artifact (ag_root A) application name (cd_encode c v))"

definition has_model :: "('x, 'm) agent \<Rightarrow> string \<Rightarrow> string \<Rightarrow> ('x agent_world, bool) act" where
  "has_model A application name = on_files (artifact_exists (ag_root A) application name)"

text \<open>\<open>except Exception as error: raise WorkerFailure(...)\<close>\<close>

definition or_failure :: "exc \<Rightarrow> ('s, 'a) act \<Rightarrow> ('s, 'a) act" where
  "or_failure e m = act_catch m (\<lambda>_. act_lift (Inl e))"

section \<open>Workflow\<close>

definition ensure_workflow :: "('x, 'm) agent \<Rightarrow> string \<Rightarrow> ('x agent_world, workflow) act" where
  "ensure_workflow A application =
     act_bind (on_services (ag_find_workflow A application)) (\<lambda>w.
     case w of
       Some w \<Rightarrow> act_return w
     | None \<Rightarrow> on_services (ag_create_workflow A application (ag_command A)))"

fun position :: "string list \<Rightarrow> string \<Rightarrow> nat res" where   \<comment> \<open>\<open>order.index(state)\<close>\<close>
  "position [] s = Inl (ValueError ''tuple.index'')"
| "position (x # xs) s = (if x = s then Inr 0 else res_bind (position xs s) (\<lambda>n. Inr (n + 1)))"

definition advance ::
  "('x, 'm) agent \<Rightarrow> string \<Rightarrow> string \<Rightarrow> suggestion_bundle option \<Rightarrow> ('x agent_world, workflow) act" where
  "advance A application target bundle =
     act_bind (ensure_workflow A application) (\<lambda>w.
     act_bind (act_lift (position (ag_states A) (wf_state w))) (\<lambda>i.
     act_bind (act_lift (position (ag_states A) target)) (\<lambda>j.
     if j \<le> i then act_return w
     else on_services (ag_advance A application (wf_version w) target bundle))))"

section \<open>Document processing\<close>

definition dict_eq :: "(string, 'v) dict \<Rightarrow> (string, 'v) dict \<Rightarrow> bool" where
  "dict_eq d e = (list_all (\<lambda>(k, v). map_of e k = map_of d k) d \<and> list_all (\<lambda>(k, v). map_of d k = map_of e k) e)"

definition read_staged :: "('x, 'm) agent \<Rightarrow> string \<Rightarrow> staged_file \<Rightarrow> ('x agent_world, staged_file \<times> string) act" where
  "read_staged A application st =
     act_bind (on_services (ag_tool A)) (\<lambda>_.
     act_bind (on_files (read_pdf (ag_root A) application (sf_filename st) (sf_sha256 st))) (\<lambda>content.
     act_return (st, content)))"

definition intake_of :: "ingest_item \<Rightarrow> intake_document" where
  "intake_of i = \<lparr>id_filename = ii_filename i, id_sha256 = ii_sha256 i, id_document = ii_document i, id_pages = ii_pages i,
     id_chunks = ii_chunks i\<rparr>"

definition mk_document_artifact :: "ingest_item list \<Rightarrow> document_artifact res" where
  "mk_document_artifact items =
     raise_if (items = []) (ValidationError ''DocumentArtifact'')
       (Inr \<lparr>da_documents = map intake_of items, da_chunk_ids = dict_of (map (\<lambda>i. (ii_document i, ii_chunk_ids i)) items),
          da_config = dict_of (map (\<lambda>i. (ii_document i, ii_config i)) items)\<rparr>)"

definition ingest_documents :: "('x, 'm) agent \<Rightarrow> memory_state \<Rightarrow> ('x agent_world, document_artifact) act" where
  "ingest_documents A s =
     (let app = ms_application s in
      act_bind (load_model A (cd_request A) app ''request'') (\<lambda>request.
      act_bind (act_map (read_staged A app) (sa_files request)) (\<lambda>uploads.
      act_bind (on_services (ag_report A app ''document_processing'')) (\<lambda>_.
      act_bind (on_services (ag_tool A)) (\<lambda>_.
      act_bind (or_failure (failure Retryable ''findociq_ingest_unavailable'')
        (on_services (ag_ingest A (if truthy (ms_job s) then the (ms_job s) else ag_command A) uploads))) (\<lambda>items.
      act_bind (act_lift (raise_if
        (\<not> dict_eq (dict_of (map (\<lambda>i. (ii_filename i, ii_sha256 i)) items))
             (dict_of (map (\<lambda>f. (sf_filename f, sf_sha256 f)) (sa_files request))))
        (failure Terminal ''ingest_receipt_mismatch'') (mk_document_artifact items))) (\<lambda>artifact.
      act_bind (save_model A (cd_documents A) app (ag_name A DocumentProcessing) artifact) (\<lambda>_.
      act_return artifact))))))))"

definition combined_hash :: "string list \<Rightarrow> string" where
  "combined_hash hashes = sha256_hex (join ''|'' (sort hashes))"

definition document_reference_of :: "document_artifact \<Rightarrow> intake_document \<Rightarrow> document_reference res" where
  "document_reference_of artifact d =
     (case map_of (da_config artifact) (id_document d) of
        None \<Rightarrow> Inl (KeyError (id_document d))
      | Some h \<Rightarrow> Inr \<lparr>dc_document = id_document d, dc_sha256 = id_sha256 d, dc_pages = id_pages d, dc_chunks = id_chunks d,
          dc_config = h\<rparr>)"

definition process_documents :: "('x, 'm) agent \<Rightarrow> memory_state \<Rightarrow> ('x agent_world, worker_result) act" where
  "process_documents A s =
     (let app = ms_application s; name = ag_name A DocumentProcessing in
      act_bind (has_model A app name) (\<lambda>known.
      act_bind (if known then load_model A (cd_documents A) app name else ingest_documents A s) (\<lambda>artifact.
      act_bind (ensure_workflow A app) (\<lambda>w.
      act_bind (act_lift (res_map (document_reference_of artifact) (da_documents artifact))) (\<lambda>refs.
      act_return ((plain_result DocumentProcessing (ag_hash A DocumentProcessing (map dc_document refs)))
        \<lparr>wr_documents := refs, wr_workflow := Some (wf_state w, wf_version w),
         wr_config := Some (combined_hash (map snd (da_config artifact)))\<rparr>))))))"

section \<open>Financial analysis\<close>

definition metric_specs :: "(string \<times> string) list" where
  "metric_specs =
     [(''annual_revenue_crore'', ''Extract the latest annual revenue in INR crore.''),
      (''ebitda_margin_pct'', ''Extract the latest EBITDA margin percentage.''),
      (''dscr'', ''Extract the latest debt service coverage ratio (DSCR).'')]"

definition metric_name :: "string \<Rightarrow> string" where
  "metric_name metric = ''financial/'' @ metric"

definition extract_metric_artifact ::
  "('x, 'm) agent \<Rightarrow> string \<Rightarrow> string list \<Rightarrow> string \<times> string \<Rightarrow> ('x agent_world, string \<times> figure) act" where
  "extract_metric_artifact A app documents = (\<lambda>(metric, question).
     act_bind (on_services (ag_tool A)) (\<lambda>_.
     act_bind (on_services (ag_report A app ''extracting_metric'')) (\<lambda>_.
     act_bind (or_failure (failure Retryable ''findociq_extract_unavailable'')
       (on_services (ag_extract A question (app @ '':'' @ metric) documents))) (\<lambda>figures.
     act_bind (act_lift (ag_select A figures metric)) (\<lambda>figure.
     act_bind (save_model A (cd_metric A) app (metric_name metric) (metric, figure)) (\<lambda>_.
     act_return (metric, figure)))))))"

definition metric_artifact ::
  "('x, 'm) agent \<Rightarrow> string \<Rightarrow> string list \<Rightarrow> string \<times> string \<Rightarrow> ('x agent_world, string \<times> figure) act" where
  "metric_artifact A app documents spec =
     act_bind (has_model A app (metric_name (fst spec))) (\<lambda>known.
     if known then load_model A (cd_metric A) app (metric_name (fst spec))
     else extract_metric_artifact A app documents spec)"

text \<open>\<open>figure.unit or _default_unit(metric)\<close> and its like.\<close>

definition or_else :: "string option \<Rightarrow> string \<Rightarrow> string" where
  "or_else s d = (if truthy s then the s else d)"

definition metric_evidence ::
  "('x, 'm) agent \<Rightarrow> string \<Rightarrow> string list \<Rightarrow> string \<times> string \<Rightarrow> ('x agent_world, evidence_metric) act" where
  "metric_evidence A app documents spec =
     act_bind (metric_artifact A app documents spec) (\<lambda>(_, figure).
     act_bind (act_lift (raise_if (ct_document (fg_citation figure) \<notin> set documents)
        (failure Terminal ''cross_application_evidence'') (ag_decimal A (fg_value figure)))) (\<lambda>amount.
     act_return \<lparr>em_name = fst spec, em_value = amount, em_unit = or_else (fg_unit figure) (ag_unit A (fst spec)),
       em_period = or_else (fg_period figure) ''latest reported period'', em_citation = fg_citation figure\<rparr>))"

definition value_of_metric :: "evidence_metric list \<Rightarrow> string \<Rightarrow> dec res" where
  "value_of_metric evidence metric =
     (case map_of (dict_of (map (\<lambda>e. (em_name e, em_value e)) evidence)) metric of
        None \<Rightarrow> Inl (KeyError metric) | Some v \<Rightarrow> Inr v)"

definition borrower_of :: "string \<Rightarrow> 'm \<Rightarrow> evidence_metric list \<Rightarrow> 'm borrower res" where
  "borrower_of app metadata evidence =
     res_bind (value_of_metric evidence ''annual_revenue_crore'') (\<lambda>revenue.
     res_bind (value_of_metric evidence ''ebitda_margin_pct'') (\<lambda>margin.
     res_bind (value_of_metric evidence ''dscr'') (\<lambda>coverage.
     Inr \<lparr>ba_application = app, ba_revenue = revenue, ba_margin = margin, ba_dscr = coverage, ba_evidence = evidence,
       ba_metadata = metadata\<rparr>)))"

definition evidence_reference_of :: "('x, 'm) agent \<Rightarrow> evidence_metric \<Rightarrow> evidence_reference" where
  "evidence_reference_of A e =
     (let c = em_citation e;
          canonical = join ''|'' [ct_document c, str_of_int (ct_page c), ag_box A (ct_bbox c), em_name e] in
      \<lparr>er_id = sha256_hex canonical, er_metric = em_name e, er_value = dec_str (em_value e), er_unit = em_unit e,
       er_period = em_period e, er_document = ct_document c, er_page = ct_page c, er_bbox = ct_bbox c\<rparr>)"

definition analyse_finances :: "('x, 'm) agent \<Rightarrow> memory_state \<Rightarrow> ('x agent_world, worker_result) act" where
  "analyse_finances A s =
     (let app = ms_application s in
      act_bind (load_model A (cd_request A) app ''request'') (\<lambda>request.
      act_bind (load_model A (cd_documents A) app (ag_name A DocumentProcessing)) (\<lambda>documents.
      act_bind (act_map (metric_evidence A app (map id_document (da_documents documents))) metric_specs) (\<lambda>evidence.
      act_bind (act_lift (borrower_of app (sa_metadata request) evidence)) (\<lambda>b.
      act_bind (save_model A (cd_borrower A) app (ag_name A FinancialAnalysis) b) (\<lambda>digest.
      act_bind (advance A app ''EXTRACTED'' None) (\<lambda>w.
      act_return ((plain_result FinancialAnalysis digest)
        \<lparr>wr_evidence := map (evidence_reference_of A) evidence, wr_workflow := Some (wf_state w, wf_version w)\<rparr>))))))))"

section \<open>Eligibility, precedents, suggestion, handoff\<close>

definition eligibility_reference_of :: "funder_eligibility \<Rightarrow> eligibility_reference" where
  "eligibility_reference_of f =
     \<lparr>el_funder = fe_funder f, el_eligible = fe_eligible f, el_failed = map fst (filter (\<lambda>(c, ok). \<not> ok) (fe_checks f))\<rparr>"

definition check_eligibility :: "('x, 'm) agent \<Rightarrow> memory_state \<Rightarrow> ('x agent_world, worker_result) act" where
  "check_eligibility A s =
     (let app = ms_application s in
      act_bind (load_model A (cd_borrower A) app (ag_name A FinancialAnalysis)) (\<lambda>b.
      act_bind (save_model A (cd_eligibility A) app (ag_name A Eligibility) (app, ag_evaluate A b)) (\<lambda>digest.
      act_bind (advance A app ''RULE_GATED'' None) (\<lambda>w.
      act_return ((plain_result Eligibility digest)
        \<lparr>wr_eligibility := map eligibility_reference_of (ag_evaluate A b), wr_workflow := Some (wf_state w, wf_version w)\<rparr>)))))"

definition retrieve_precedents :: "('x, 'm) agent \<Rightarrow> memory_state \<Rightarrow> ('x agent_world, worker_result) act" where
  "retrieve_precedents A s =
     (let app = ms_application s in
      act_bind (on_services (ag_tool A)) (\<lambda>_.
      act_bind (load_model A (cd_borrower A) app (ag_name A FinancialAnalysis)) (\<lambda>b.
      act_bind (load_model A (cd_eligibility A) app (ag_name A Eligibility)) (\<lambda>(_, expected).
      act_bind (act_catch (on_services (ag_retrieve A b))
        (\<lambda>e. act_lift (Inl (case e of RuntimeError _ \<Rightarrow> failure Terminal ''ineligible_precedent''
                                 | _ \<Rightarrow> failure Retryable ''qdrant_unavailable'')))) (\<lambda>r.
      act_bind (act_lift (raise_if (rr_eligibility r \<noteq> expected) (failure Attention ''eligibility_changed'') (Inr ()))) (\<lambda>_.
      act_bind (save_model A (cd_retrieval A) app (ag_name A PrecedentRetrieval) r) (\<lambda>digest.
      act_return (plain_result PrecedentRetrieval digest))))))))"

definition suggest :: "('x, 'm) agent \<Rightarrow> memory_state \<Rightarrow> ('x agent_world, worker_result) act" where
  "suggest A s =
     (let app = ms_application s in
      act_bind (load_model A (cd_borrower A) app (ag_name A FinancialAnalysis)) (\<lambda>b.
      act_bind (load_model A (cd_retrieval A) app (ag_name A PrecedentRetrieval)) (\<lambda>r.
      act_bind (act_lift (ag_assemble A b r)) (\<lambda>g.
      act_bind (save_model A (cd_suggestion A) app (ag_name A Suggestion) g) (\<lambda>digest.
      act_bind (advance A app ''AI_SUGGESTED'' (Some g)) (\<lambda>w.
      act_return ((plain_result Suggestion digest)\<lparr>wr_workflow := Some (wf_state w, wf_version w)\<rparr>)))))))"

definition guard :: "('x, 'm) agent \<Rightarrow> memory_state \<Rightarrow> ('x agent_world, worker_result) act" where
  "guard A s =
     (let app = ms_application s in
      act_bind (on_services (ag_tool A)) (\<lambda>_.
      act_bind (load_model A (cd_borrower A) app (ag_name A FinancialAnalysis)) (\<lambda>b.
      act_bind (load_model A (cd_retrieval A) app (ag_name A PrecedentRetrieval)) (\<lambda>r.
      act_bind (load_model A (cd_suggestion A) app (ag_name A Suggestion)) (\<lambda>g.
      act_bind (act_lift (check_guardrails s b r g)) (\<lambda>_.
      act_return ((plain_result Guardrails (ag_hash A Guardrails (app # map fst passed_guardrails)))
        \<lparr>wr_guardrails := passed_guardrails\<rparr>)))))))"

definition hand_off :: "('x, 'm) agent \<Rightarrow> memory_state \<Rightarrow> ('x agent_world, worker_result) act" where
  "hand_off A s =
     act_bind (advance A (ms_application s) ''AWAITING_HUMAN'' None) (\<lambda>w.
     act_return ((plain_result HumanReview (ag_hash A HumanReview [ms_application s, str_of_nat (wf_version w)]))
       \<lparr>wr_review := Some (wf_version w, [''approve'', ''reject'', ''approve_with_conditions'', ''send_back'']),
        wr_workflow := Some (wf_state w, wf_version w)\<rparr>))"

definition fixed_workers :: "('x, 'm) agent \<Rightarrow> (memory_state \<Rightarrow> ('x agent_world, worker_result) act) list" where
  "fixed_workers A =
     [process_documents A, analyse_finances A, check_eligibility A, retrieve_precedents A, suggest A, guard A, hand_off A]"

end
