(* ===== verification/AgentRuntime.thy ===== *)
theory AgentRuntime
  imports Agent Scorers
begin

text \<open>
  The agent's surroundings: the intake runtime with its job store (\<open>runtime.py\<close>), the send-back router
  (\<open>supervisor.py\<close>), maintenance, the telemetry and its content check (\<open>observability.py\<close>), and the release
  evaluation (\<open>eval_metrics.py\<close>, \<open>eval_schema.py\<close>). The graph, the job store and the model server are parameters.
\<close>

section \<open>The intake runtime\<close>

record 'x runtime =
  rt_root :: path
  rt_encode :: "staged_file list \<Rightarrow> string"
  rt_max_file :: nat
  rt_max_batch :: nat
  rt_start :: "string \<Rightarrow> string \<Rightarrow> input_reference list \<Rightarrow> ('x, memory_state) act"
  rt_state :: "string \<Rightarrow> ('x, memory_state) act"
  rt_resume :: "string \<Rightarrow> ('x, memory_state) act"
  rt_mark :: "string \<Rightarrow> graph_status \<Rightarrow> ('x, memory_state) act"
  rt_updated :: "string \<Rightarrow> ('x, string option) act"
  rt_job :: "string \<Rightarrow> ('x, string) act"                                  \<comment> \<open>the application of a job\<close>
  rt_append :: "string \<Rightarrow> string \<Rightarrow> agent_error option \<Rightarrow> ('x, unit) act"
  rt_finish :: "string \<Rightarrow> string \<Rightarrow> (string \<times> bool) option \<Rightarrow> ('x, unit) act"
  rt_terminal :: "graph_status \<Rightarrow> bool"                                  \<comment> \<open>\<open>GraphStatus.terminal\<close>\<close>
  rt_status_name :: "graph_status \<Rightarrow> string"                             \<comment> \<open>\<open>GraphStatus.value\<close>\<close>

text \<open>The jobs that the activity bridge knows, the files, and the services.\<close>

type_synonym 'x runtime_world = "(string, string) dict \<times> files \<times> 'x"

definition on_workspace :: "(files, 'a) act \<Rightarrow> ('x runtime_world, 'a) act" where
  "on_workspace m = (\<lambda>(jobs, fs, x). case m fs of (r, fs') \<Rightarrow> (r, (jobs, fs', x)))"

definition on_graph :: "('x, 'a) act \<Rightarrow> ('x runtime_world, 'a) act" where
  "on_graph m = (\<lambda>(jobs, fs, x). case m x of (r, x') \<Rightarrow> (r, (jobs, fs, x')))"

definition bind_job :: "string \<Rightarrow> string \<Rightarrow> ('x runtime_world, unit) act" where
  "bind_job application job = (\<lambda>(jobs, w). (Inr (), (AList.update application job jobs, w)))"

text \<open>\<open>AgentActivityBridge.__call__\<close>: without a job nothing is reported.\<close>

definition report_activity :: "'x runtime \<Rightarrow> string \<Rightarrow> string \<Rightarrow> ('x runtime_world, unit) act" where
  "report_activity R application stage = (\<lambda>(jobs, w).
     case map_of jobs application of
       None \<Rightarrow> (Inr (), (jobs, w))
     | Some job \<Rightarrow> on_graph (rt_append R job stage None) (jobs, w))"

definition failed_status :: "graph_status \<Rightarrow> bool" where
  "failed_status st = (st = FailedRetryable \<or> st = NeedsAttention \<or> st = FailedTerminal)"

definition finish_job :: "'x runtime \<Rightarrow> string \<Rightarrow> memory_state \<Rightarrow> ('x, unit) act" where
  "finish_job R job s =
     (if ms_status s = WaitingForReview
      then act_bind (rt_append R job ''waiting_for_review'' None) (\<lambda>_. rt_finish R job ''completed'' None)
      else if failed_status (ms_status s)
      then rt_finish R job ''failed'' (Some
         (case ms_error s of Some e \<Rightarrow> ge_code e | None \<Rightarrow> rt_status_name R (ms_status s), ms_status s = FailedRetryable))
      else act_return ())"

definition execute :: "'x runtime \<Rightarrow> string \<Rightarrow> ('x, memory_state) act \<Rightarrow> ('x, memory_state) act" where
  "execute R job run =
     act_bind run (\<lambda>s.
     act_bind (rt_append R job ''checkpoint'' (ms_error s)) (\<lambda>_.
     act_bind (finish_job R job s) (\<lambda>_. act_return s)))"

definition start_intake ::
  "'x runtime \<Rightarrow> string \<Rightarrow> (string \<times> string) list \<Rightarrow> string \<Rightarrow> ('x runtime_world, memory_state) act" where
  "start_intake R application uploads job =
     act_bind (bind_job application job) (\<lambda>_.
     act_bind (on_workspace (stage_application (rt_root R) (rt_encode R) (rt_max_file R) (rt_max_batch R) application uploads)) (\<lambda>refs.
     on_graph (execute R job (rt_start R application job refs))))"

definition resumable :: "graph_status \<Rightarrow> bool" where
  "resumable st = (st = FailedRetryable \<or> st = NeedsAttention)"

definition resume_intake :: "'x runtime \<Rightarrow> string \<Rightarrow> ('x runtime_world, memory_state) act" where
  "resume_intake R job =
     act_bind (on_graph (rt_job R job)) (\<lambda>application.
     act_bind (bind_job application job) (\<lambda>_.
     act_bind (on_graph (rt_state R application)) (\<lambda>s.
     if \<not> resumable (ms_status s) then act_return s
     else act_bind (on_graph (rt_append R job ''resume'' None)) (\<lambda>_.
          on_graph (execute R job (rt_resume R application))))))"

definition cancel_intake :: "'x runtime \<Rightarrow> string \<Rightarrow> ('x runtime_world, memory_state) act" where
  "cancel_intake R job =
     act_bind (on_graph (rt_job R job)) (\<lambda>application.
     act_bind (on_graph (rt_state R application)) (\<lambda>s.
     if ms_status s = Cancelled then act_return s
     else if rt_terminal R (ms_status s) then act_return s
     else act_bind (on_graph (rt_mark R application Cancelled)) (\<lambda>c.
          act_bind (on_graph (rt_append R job ''cancelled'' None)) (\<lambda>_.
          act_bind (on_graph (rt_finish R job ''cancelled'' None)) (\<lambda>_. act_return c)))))"

text \<open>\<open>MemoryStatus\<close>: the state without its documents, evidence and eligibility.\<close>

record memory_status =
  mu_application :: string
  mu_job :: "string option"
  mu_status :: graph_status
  mu_worker :: worker
  mu_attempt :: nat
  mu_completed :: "worker list"
  mu_pending :: "worker list"
  mu_error :: "(string \<times> bool) option"
  mu_time :: "string option"

definition memory_view :: "'x runtime \<Rightarrow> string \<Rightarrow> ('x runtime_world, memory_status) act" where
  "memory_view R application =
     act_bind (on_graph (rt_state R application)) (\<lambda>s.
     act_bind (on_graph (rt_updated R application)) (\<lambda>time.
     act_return \<lparr>mu_application = ms_application s, mu_job = ms_job s, mu_status = ms_status s, mu_worker = ms_node s,
       mu_attempt = (case map_of (ms_attempts s) (ms_node s) of None \<Rightarrow> 0 | Some n \<Rightarrow> n),
       mu_completed = ms_completed s, mu_pending = ms_pending s,
       mu_error = map_option (\<lambda>e. (ge_code e, ge_retryable e)) (ms_error s), mu_time = time\<rparr>))"

section \<open>The send-back router\<close>

record supervisor_config =
  sv_max_tokens :: int
  sv_min_confidence :: rat

definition mk_supervisor_config :: "supervisor_config \<Rightarrow> supervisor_config res" where
  "mk_supervisor_config c =
     raise_if (sv_max_tokens c < 64 \<or> 500 < sv_max_tokens c \<or> sv_min_confidence c < 0 \<or> 1 < sv_min_confidence c)
       (ValidationError ''SupervisorRoutingConfig'') (Inr c)"

record supervisor_route =
  sp_worker :: "worker option"
  sp_confidence :: rat
  sp_ambiguous :: bool

text \<open>
  The reply is the decoded body, or the error of the transport. \<open>decode\<close> reads the fields of the route from
  the content of the message.
\<close>

definition parse_route :: "(json \<Rightarrow> supervisor_route option) \<Rightarrow> json \<Rightarrow> supervisor_route res" where
  "parse_route decode content =
     (case decode content of
        None \<Rightarrow> Inl (ValidationError ''SupervisorRoute'')
      | Some r \<Rightarrow> raise_if (sp_confidence r < 0 \<or> 1 < sp_confidence r) (ValidationError ''SupervisorRoute'') (Inr r))"

definition caught_by_router :: "exc \<Rightarrow> bool" where
  "caught_by_router e =
     (case e of KeyError _ \<Rightarrow> True | TypeError _ \<Rightarrow> True | ValidationError _ \<Rightarrow> True | OSError _ \<Rightarrow> True
      | PermissionError _ \<Rightarrow> True | TimeoutError \<Rightarrow> True | OtherError s \<Rightarrow> s = ''httpx.HTTPError'' | _ \<Rightarrow> False)"

definition accepted_stage :: "supervisor_config \<Rightarrow> supervisor_route \<Rightarrow> worker option" where
  "accepted_stage c r =
     (if sp_ambiguous r \<or> sp_confidence r < sv_min_confidence c then None
      else if sp_worker r = None \<or> sp_worker r = Some HumanReview then None
      else sp_worker r)"

definition route_sendback ::
  "supervisor_config \<Rightarrow> (json \<Rightarrow> supervisor_route option) \<Rightarrow> json res \<Rightarrow> worker option res" where
  "route_sendback c decode reply =
     (case res_bind reply (\<lambda>body. res_bind (message_value body) (parse_route decode)) of
        Inl e \<Rightarrow> if caught_by_router e then Inr None else Inl e
      | Inr r \<Rightarrow> Inr (accepted_stage c r))"

section \<open>Maintenance\<close>

definition run_maintenance ::
  "('x, string list) act \<Rightarrow> ('x, string list) act \<Rightarrow> ('x, 'c) act \<Rightarrow> ('x, string list \<times> string list \<times> 'c) act" where
  "run_maintenance flag_stale cleanup counts =
     act_bind flag_stale (\<lambda>stale. act_bind cleanup (\<lambda>deleted. act_bind counts (\<lambda>n. act_return (stale, deleted, n))))"

section \<open>Telemetry\<close>

definition forbidden_keys :: "string list" where
  "forbidden_keys =
     [''borrower_name'', ''financial_value'', ''pdf'', ''text'', ''prompt'', ''answer'', ''messages'', ''checkpoint_state'',
      ''exception'', ''credential'', ''token'']"

definition content_safe :: "string list \<Rightarrow> unit res" where
  "content_safe payload_keys =
     raise_if (list_ex (\<lambda>k. casefold k \<in> set forbidden_keys) payload_keys) (ValueError ''forbidden trace fields'') (Inr ())"

record agent_span =
  as_id :: string
  as_application :: string
  as_job :: "string option"
  as_run :: string
  as_thread :: string
  as_checkpoint :: "string option"
  as_worker :: "worker option"
  as_attempt :: int
  as_latency :: rat
  as_status :: graph_status
  as_revision :: "string option"
  as_config :: "string option"
  as_documents :: int
  as_evidence :: int
  as_candidates :: int
  as_guardrail :: "string option"
  as_error :: "string option"
  as_event :: string
  as_time :: string

definition event_ok :: "string \<Rightarrow> bool" where   \<comment> \<open>\<open>^[a-z][a-z0-9_]{1,79}$\<close>\<close>
  "event_ok s =
     (case s of
        [] \<Rightarrow> False
      | c # cs \<Rightarrow> is_lower c \<and> 1 \<le> length cs \<and> length cs \<le> 79
          \<and> list_all (\<lambda>d. is_lower d \<or> is_digit d \<or> d = CHR ''_'') cs)"

definition mk_agent_span :: "agent_span \<Rightarrow> agent_span res" where
  "mk_agent_span s =
     raise_if (as_attempt s < 0 \<or> as_latency s < 0 \<or> as_documents s < 0 \<or> as_evidence s < 0 \<or> as_candidates s < 0
        \<or> \<not> event_ok (as_event s)) (ValidationError ''AgentSpan'') (Inr s)"

text \<open>The keys of the JSON of a span, in the order of its fields.\<close>

definition span_keys :: "string list" where
  "span_keys =
     [''span_id'', ''application_id'', ''job_id'', ''run_id'', ''thread_id'', ''checkpoint_id'', ''worker'', ''attempt'',
      ''latency_ms'', ''status'', ''model_revision'', ''config_hash'', ''document_count'', ''evidence_count'',
      ''candidate_count'', ''guardrail_code'', ''error_code'', ''event'', ''occurred_at'']"

definition record_agent_span :: "(agent_span \<Rightarrow> string) \<Rightarrow> agent_span \<Rightarrow> (string, unit) act" where
  "record_agent_span dump s =
     act_bind (act_lift (content_safe span_keys)) (\<lambda>_ file. (Inr (), file @ dump s @ newline))"

text \<open>\<open>asyncio.gather\<close> over recorders that swallow their errors, in order.\<close>

fun record_spans :: "(agent_span \<Rightarrow> ('x, unit) act) list \<Rightarrow> agent_span \<Rightarrow> ('x, unit) act" where
  "record_spans [] s = act_return ()"
| "record_spans (r # rs) s = act_bind (act_catch (r s) (\<lambda>_. act_return ())) (\<lambda>_. record_spans rs s)"

section \<open>Release evaluation\<close>

record retrieval_observation =
  ro_case :: string
  ro_expected :: "string list"
  ro_ranked :: "string list"
  ro_leak :: bool

record retrieval_summary =
  rm_n :: nat
  rm_recall :: rat
  rm_mrr :: rat
  rm_ndcg :: rat

definition mk_observation :: "retrieval_observation \<Rightarrow> retrieval_observation res" where
  "mk_observation r = raise_if (ro_expected r = []) (ValidationError ''RetrievalObservation'') (Inr r)"

definition recall_top3 :: "retrieval_observation \<Rightarrow> rat" where
  "recall_top3 r =
     of_nat (card (set (ro_expected r) \<inter> set (take 3 (ro_ranked r)))) / of_nat (card (set (ro_expected r)))"

definition reciprocal_rank :: "retrieval_observation \<Rightarrow> rat" where
  "reciprocal_rank r =
     (case ranked_positions (ro_expected r) (ro_ranked r) of [] \<Rightarrow> 0 | i # _ \<Rightarrow> 1 / of_nat (i + 1))"

definition ndcg_top3 :: "(nat \<Rightarrow> rat) \<Rightarrow> retrieval_observation \<Rightarrow> rat" where
  "ndcg_top3 lg r =
     dcg lg (ranked_positions (ro_expected r) (take 3 (ro_ranked r)))
     / dcg lg [0..<min 3 (card (set (ro_expected r)))]"

definition retrieval_metrics :: "(nat \<Rightarrow> rat) \<Rightarrow> retrieval_observation list \<Rightarrow> retrieval_summary res" where
  "retrieval_metrics lg obs =
     raise_if (obs = []) (ValueError ''retrieval metrics require at least one observation'')
    (raise_if (list_ex ro_leak obs) (ValueError ''eligible-only retrieval contained a forbidden funder'')
    (let m = \<lparr>rm_n = length obs, rm_recall = mean (map recall_top3 obs), rm_mrr = mean (map reciprocal_rank obs),
          rm_ndcg = mean (map (ndcg_top3 lg) obs)\<rparr> in
     raise_if (\<not> list_all (\<lambda>v. 0 \<le> v \<and> v \<le> 1) [rm_recall m, rm_mrr m, rm_ndcg m])
       (ValidationError ''RetrievalMetrics'') (Inr m)))"

record performance_observation =
  po_environment :: string
  po_stage :: string
  po_latency :: rat

record performance_summary =
  pm_environment :: string
  pm_stage :: string
  pm_n :: nat
  pm_p50 :: rat
  pm_p95 :: rat

definition median :: "rat list \<Rightarrow> rat" where
  "median xs =
     (let s = sort xs; n = length s in
      if odd n then s ! (n div 2) else (s ! (n div 2 - 1) + s ! (n div 2)) / 2)"

definition group_latencies :: "performance_observation list \<Rightarrow> (string \<times> string, rat list) dict" where
  "group_latencies obs = foldl (\<lambda>d o'. dict_append (po_environment o', po_stage o') (po_latency o') d) [] obs"

definition performance_of :: "(string \<times> string) \<times> rat list \<Rightarrow> performance_summary" where
  "performance_of = (\<lambda>((environment, stage), values').
     \<lparr>pm_environment = environment, pm_stage = stage, pm_n = length values', pm_p50 = median values',
      pm_p95 = percentile values' (95 / 100)\<rparr>)"

text \<open>The keys are sorted as pairs: two stable sorts.\<close>

definition performance_metrics :: "performance_observation list \<Rightarrow> performance_summary list" where
  "performance_metrics obs =
     map performance_of (sort_key (fst \<circ> fst) (sort_key (snd \<circ> fst) (group_latencies obs)))"

datatype cohort = EligibleAligned | HardRule | NoClosePrecedent | Adversarial

record invented_application =
  iv_application :: string
  iv_industry :: string
  iv_region :: string
  iv_requested :: dec
  iv_revenue :: dec
  iv_margin :: dec
  iv_dscr :: dec
  iv_debt :: dec
  iv_collateral :: dec
  iv_years :: int
  iv_employees :: int

record release_case =
  rl_case :: string
  rl_cohort :: cohort
  rl_application :: invented_application
  rl_eligible :: "string list"
  rl_forbidden :: "string list"
  rl_metrics :: "string list"
  rl_precedents :: "string list"
  rl_guardrails :: "string list"
  rl_stop :: graph_status

datatype routing_mode = ReviewerSelected | SupervisorClear | SupervisorAmbiguous

record routing_case =
  rc_case :: string
  rc_mode :: routing_mode
  rc_reason :: string
  rc_selected :: "string option"
  rc_expected :: "string option"
  rc_stop :: graph_status

definition mk_release_case :: "release_case \<Rightarrow> release_case res" where
  "mk_release_case c =
     raise_if (list_ex (\<lambda>f. f \<in> set (rl_forbidden c)) (rl_eligible c))
       (ValidationError ''eligible and forbidden funders must be disjoint'')
    (raise_if (rl_cohort c = Adversarial \<and> rl_guardrails c = [])
       (ValidationError ''adversarial cases require expected guardrail codes'')
    (raise_if (rl_cohort c \<noteq> Adversarial \<and> rl_stop c \<noteq> WaitingForReview)
       (ValidationError ''non-adversarial cases must reach human review'') (Inr c)))"

end
