(* ===== verification/AgentProps.thy ===== *)
theory AgentProps
  imports AgentRuntime
begin

text \<open>
  What the agent's workers promise each other: the figures that the analysis reports are cited, belong to the
  application and are the ones that the guardrails check; an interrupted analysis does not ask twice; what
  passes the guardrails is fit for a human reviewer.
\<close>

section \<open>Running on files and services\<close>

lemma on_files_iff [res_simps]: "on_files m (fs, x) = (r, w') \<longleftrightarrow> (\<exists>fs'. m fs = (r, fs') \<and> w' = (fs', x))"
  by (auto simp: on_files_def split: prod.splits)

lemma on_services_iff [res_simps]: "on_services m (fs, x) = (r, w') \<longleftrightarrow> (\<exists>x'. m x = (r, x') \<and> w' = (fs, x'))"
  by (auto simp: on_services_def split: prod.splits)

lemma load_artifact_state: "load_artifact base decode app name fs = (r, fs') \<Longrightarrow> fs' = fs"
  by (auto simp: load_artifact_def act_bind_def act_lift_def read_file_def split: prod.splits sum.splits option.splits)

lemma load_model_Inr:
  assumes "load_model A c app name (fs, x) = (Inr v, w')"
  shows "w' = (fs, x)" "load_artifact (ag_root A) (cd_decode c) app name fs = (Inr v, fs)"
  using assms load_artifact_state by (fastforce simp: load_model_def res_simps)+

lemma has_model_Inr:
  assumes "has_model A app name (fs, x) = (Inr v, w')"
  obtains p where "w' = (fs, x)" "artifact_path (ag_root A) app name = Inr p" "v = (map_of fs p \<noteq> None)"
  using assms by (auto simp: has_model_def artifact_exists_def res_simps)

lemma or_failure_Inr: "or_failure e m s = (Inr v, s') \<Longrightarrow> m s = (Inr v, s')"
  by (auto simp: or_failure_def act_catch_def act_lift_def split: prod.splits sum.splits)

text \<open>A model that was saved is loaded again.\<close>

lemma saved_model:
  assumes "save_model A c app name v (fs, x) = (Inr h, (fs', x'))"
  obtains p where "x' = x" "artifact_path (ag_root A) app name = Inr p" "map_of fs' p = Some (cd_encode c v)"
proof -
  have run: "save_artifact (ag_root A) app name (cd_encode c v) fs = (Inr h, fs')" and "x' = x"
    using assms by (auto simp: save_model_def on_files_iff)
  show ?thesis using that \<open>x' = x\<close> save_artifact_Inr [OF run] by blast
qed

lemma load_saved:
  assumes "artifact_path (ag_root A) app name = Inr p" "map_of fs p = Some (cd_encode c v)"
    "cd_decode c (cd_encode c v) = Some v"
  shows "load_model A c app name (fs, x) = (Inr v, (fs, x))"
  using assms by (simp add: load_model_def on_files_def load_artifact_def act_bind_def act_lift_def read_file_def)

section \<open>Guardrails\<close>

lemma subset_of_iff: "subset_of xs ys \<longleftrightarrow> set xs \<subseteq> set ys"
  by (auto simp: subset_of_def list_all_iff)

lemma check_guardrails_Inr:
  assumes "check_guardrails s b r g = Inr u"
  shows "ba_application b = ms_application s \<and> rr_application r = ms_application s \<and> su_application g = ms_application s
    \<and> ms_evidence s \<noteq> []
    \<and> (\<forall>e \<in> set (ms_evidence s). er_document e \<in> dc_document ` set (ms_documents s) \<and> \<not> ungrounded b e)
    \<and> set (rr_funders r) \<union> set (su_candidates g) \<subseteq> {el_funder f |f. f \<in> set (ms_eligibility s) \<and> el_eligible f}
    \<and> su_authority g = ''advisory_only'' \<and> su_requires_human g \<and> su_notice g \<noteq> []"
  using assms
  by (auto simp: check_guardrails_def raise_if_Inr_iff list_ex_iff subset_of_iff eligible_funders_def)

lemma ungrounded_iff:
  "\<not> ungrounded b e \<longleftrightarrow>
     (er_metric e = ''annual_revenue_crore'' \<longrightarrow> er_value e = dec_str (ba_revenue b))
     \<and> (er_metric e = ''ebitda_margin_pct'' \<longrightarrow> er_value e = dec_str (ba_margin b))
     \<and> (er_metric e = ''dscr'' \<longrightarrow> er_value e = dec_str (ba_dscr b))"
  by (auto simp: ungrounded_def expected_values_def)

lemma guard_Inr:
  assumes "guard A s (fs, x) = (Inr result, w')"
  obtains b r g where "fst w' = fs"
    "load_artifact (ag_root A) (cd_decode (cd_borrower A)) (ms_application s) (ag_name A FinancialAnalysis) fs = (Inr b, fs)"
    "load_artifact (ag_root A) (cd_decode (cd_retrieval A)) (ms_application s) (ag_name A PrecedentRetrieval) fs = (Inr r, fs)"
    "load_artifact (ag_root A) (cd_decode (cd_suggestion A)) (ms_application s) (ag_name A Suggestion) fs = (Inr g, fs)"
    "check_guardrails s b r g = Inr ()"
proof -
  obtain x1 b w2 r w3 g w4 u where tool: "ag_tool A x = (Inr (), x1)"
    and b: "load_model A (cd_borrower A) (ms_application s) (ag_name A FinancialAnalysis) (fs, x1) = (Inr b, w2)"
    and r: "load_model A (cd_retrieval A) (ms_application s) (ag_name A PrecedentRetrieval) w2 = (Inr r, w3)"
    and g: "load_model A (cd_suggestion A) (ms_application s) (ag_name A Suggestion) w3 = (Inr g, w4)"
    and u: "check_guardrails s b r g = Inr u" "w' = w4"
    using assms unfolding guard_def Let_def act_bind_Inr_iff act_lift_iff act_return_iff on_services_iff by auto
  have w2: "w2 = (fs, x1)" using load_model_Inr(1) [OF b] .
  have w3: "w3 = (fs, x1)" using load_model_Inr(1) [OF r [unfolded w2]] .
  have "w4 = (fs, x1)" using load_model_Inr(1) [OF g [unfolded w3]] .
  then show ?thesis
    using that load_model_Inr(2) [OF b] load_model_Inr(2) [OF r [unfolded w2]] load_model_Inr(2) [OF g [unfolded w3]] u
    by simp
qed

section \<open>Metrics\<close>

lemma metric_artifact_again:
  assumes run: "metric_artifact A app documents spec (fs, x) = (Inr v, (fs', x'))"
    and codec: "cd_decode (cd_metric A) (cd_encode (cd_metric A) v) = Some v"
  shows "metric_artifact A app documents' spec (fs', y) = (Inr v, (fs', y))"
proof -
  let ?name = "metric_name (fst spec)"
  obtain known w1 where known: "has_model A app ?name (fs, x) = (Inr known, w1)"
    and next_step: "(if known then load_model A (cd_metric A) app ?name else extract_metric_artifact A app documents spec) w1
      = (Inr v, (fs', x'))"
    using run by (auto simp: metric_artifact_def act_bind_Inr_iff)
  obtain p where p: "w1 = (fs, x)" "artifact_path (ag_root A) app ?name = Inr p" "known = (map_of fs p \<noteq> None)"
    using known by (rule has_model_Inr)
  have "map_of fs' p \<noteq> None \<and> load_model A (cd_metric A) app ?name (fs', y) = (Inr v, (fs', y))"
  proof (cases known)
    case True
    then have loaded: "load_model A (cd_metric A) app ?name (fs, x) = (Inr v, (fs', x'))" using next_step p(1) by simp
    have "fs' = fs" using load_model_Inr(1) [OF loaded] by simp
    then show ?thesis
      using True p load_model_Inr(2) [OF loaded] by (simp add: load_model_def on_files_def)
  next
    case False
    obtain metric question where spec: "spec = (metric, question)" by (cases spec)
    obtain figure w2 h where v: "v = (metric, figure)"
      and saved: "save_model A (cd_metric A) app ?name v w2 = (Inr h, (fs', x'))"
      using next_step False p(1)
      by (auto simp: extract_metric_artifact_def spec act_bind_Inr_iff act_return_iff)
    obtain fs2 x2 where w2: "w2 = (fs2, x2)" by (cases w2)
    obtain q where q: "artifact_path (ag_root A) app ?name = Inr q" "map_of fs' q = Some (cd_encode (cd_metric A) v)"
      using saved unfolding w2 by (auto elim: saved_model)
    show ?thesis using load_saved [OF q] codec q p(2) by (simp add: v)
  qed
  then show ?thesis
    using p(2) by (simp add: metric_artifact_def act_bind_def has_model_def on_files_def artifact_exists_def act_lift_def)
qed

lemma metric_evidence_Inr:
  assumes "metric_evidence A app documents spec w = (Inr e, w')"
  shows "em_name e = fst spec" "ct_document (em_citation e) \<in> set documents"
  using assms
  by (auto simp: metric_evidence_def act_bind_Inr_iff act_lift_iff act_return_iff raise_if_Inr_iff split: prod.splits)

text \<open>Moving the workflow on touches no file.\<close>

lemma ensure_workflow_files: "ensure_workflow A app w = (r, w') \<Longrightarrow> fst w' = fst w"
  by (cases w) (auto simp: ensure_workflow_def act_bind_def act_return_def on_services_def split: prod.splits sum.splits option.splits)

lemma advance_files: "advance A app target g w = (r, w') \<Longrightarrow> fst w' = fst w"
  by (cases w)
    (auto simp: advance_def act_bind_def act_lift_def act_return_def on_services_def dest!: ensure_workflow_files
      split: prod.splits sum.splits if_splits)

lemma borrower_of_Inr:
  assumes "borrower_of app metadata evidence = Inr b" "map em_name evidence = map fst metric_specs"
  shows "ba_application b = app \<and> ba_evidence b = evidence
    \<and> map (\<lambda>e. (em_name e, em_value e)) evidence
        = [(''annual_revenue_crore'', ba_revenue b), (''ebitda_margin_pct'', ba_margin b), (''dscr'', ba_dscr b)]"
proof -
  obtain e1 e2 e3 where "evidence = [e1, e2, e3]" "em_name e1 = ''annual_revenue_crore''" "em_name e2 = ''ebitda_margin_pct''"
    "em_name e3 = ''dscr''"
    using assms(2) by (auto simp: metric_specs_def map_eq_Cons_conv)
  then show ?thesis
    using assms(1) by (auto simp: borrower_of_def value_of_metric_def dict_of_def res_bind_def)
qed

lemma metric_evidences_Inr:
  assumes "act_map (metric_evidence A app documents) metric_specs w = (Inr evidence, w')"
  shows "map em_name evidence = map fst metric_specs \<and> (\<forall>e \<in> set evidence. ct_document (em_citation e) \<in> set documents)"
proof -
  have "list_all2 (\<lambda>spec e. em_name e = fst spec \<and> ct_document (em_citation e) \<in> set documents) metric_specs evidence"
    using assms by (rule act_map_list_all2) (use metric_evidence_Inr in blast)
  then show ?thesis
    by (auto simp: list_all2_conv_all_nth in_set_conv_nth intro!: nth_equalityI)
qed

section \<open>Release metrics\<close>

lemma top3_recall_unit: "unit_score (recall_top3 r)"
proof -
  have "card (set (ro_expected r) \<inter> set (take 3 (ro_ranked r))) \<le> card (set (ro_expected r))" by (intro card_mono) auto
  from fraction_unit [OF this] show ?thesis by (simp add: unit_score_def recall_top3_def)
qed

lemma reciprocal_rank_unit: "unit_score (reciprocal_rank r)"
  by (auto simp: reciprocal_rank_def unit_score_def split: list.split)

lemma top3_ndcg_unit:
  assumes "log_ok lg" "ro_expected r \<noteq> []" "distinct (ro_ranked r)"
  shows "unit_score (ndcg_top3 lg r)"
proof -
  let ?d = "dcg lg (ranked_positions (ro_expected r) (take 3 (ro_ranked r)))"
  let ?i = "dcg lg [0..<min 3 (card (set (ro_expected r)))]"
  have "?d \<le> ?i" using ndcg_bound [OF assms(1,3), of "ro_expected r" 3] by (simp add: min.commute)
  moreover have "0 \<le> ?d" by (rule dcg_nonneg [OF assms(1)])
  ultimately show ?thesis by (auto simp: unit_score_def ndcg_top3_def divide_le_eq_1)
qed

section \<open>Properties\<close>

text \<open>C29: The figures of the financial analysis are grounded. When the worker succeeds it reports one evidence
  reference for each of the three metrics, in the fixed order, each citing a document of the application's
  stored document artifact; the application it has saved carries exactly the reported values, so that the numeric
  check of the guardrails finds nothing ungrounded.\<close>

theorem financial_evidence_grounded:
  assumes "analyse_finances A s (fs, x) = (Inr result, w')"
  shows "map er_metric (wr_evidence result) = map fst metric_specs
    \<and> (\<exists>artifact. load_artifact (ag_root A) (cd_decode (cd_documents A)) (ms_application s) (ag_name A DocumentProcessing) fs
          = (Inr artifact, fs)
        \<and> er_document ` set (wr_evidence result) \<subseteq> id_document ` set (da_documents artifact))
    \<and> (\<exists>b p. artifact_path (ag_root A) (ms_application s) (ag_name A FinancialAnalysis) = Inr p
        \<and> map_of (fst w') p = Some (cd_encode (cd_borrower A) b) \<and> ba_application b = ms_application s
        \<and> map er_value (wr_evidence result) = map snd (expected_values b)
        \<and> \<not> list_ex (ungrounded b) (wr_evidence result))"
proof -
  let ?app = "ms_application s"
  obtain request w1 documents w2 evidence w3 b digest w4 w
    where request: "load_model A (cd_request A) ?app ''request'' (fs, x) = (Inr request, w1)"
      and documents: "load_model A (cd_documents A) ?app (ag_name A DocumentProcessing) w1 = (Inr documents, w2)"
      and evidence: "act_map (metric_evidence A ?app (map id_document (da_documents documents))) metric_specs w2 = (Inr evidence, w3)"
      and b: "borrower_of ?app (sa_metadata request) evidence = Inr b"
      and saved: "save_model A (cd_borrower A) ?app (ag_name A FinancialAnalysis) b w3 = (Inr digest, w4)"
      and advanced: "advance A ?app ''EXTRACTED'' None w4 = (Inr w, w')"
      and refs: "wr_evidence result = map (evidence_reference_of A) evidence"
    using assms unfolding analyse_finances_def Let_def act_bind_Inr_iff act_lift_iff act_return_iff by auto
  have w1: "w1 = (fs, x)" using load_model_Inr(1) [OF request] .
  note loaded = load_model_Inr(2) [OF documents [unfolded w1]]
  have listed: "map em_name evidence = map fst metric_specs"
    and owned: "\<forall>e \<in> set evidence. ct_document (em_citation e) \<in> set (map id_document (da_documents documents))"
    using metric_evidences_Inr [OF evidence] by simp_all
  note borrower = borrower_of_Inr [OF b listed]
  obtain p where p: "artifact_path (ag_root A) ?app (ag_name A FinancialAnalysis) = Inr p"
    "map_of (fst w4) p = Some (cd_encode (cd_borrower A) b)"
    using saved by (cases w3; cases w4) (auto elim: saved_model)
  have names: "map er_metric (wr_evidence result) = map em_name evidence"
    and figures: "map er_value (wr_evidence result) = map (dec_str \<circ> em_value) evidence"
    by (simp_all add: refs evidence_reference_of_def Let_def)
  have pairs: "map (\<lambda>e. (er_metric e, er_value e)) (wr_evidence result) = expected_values b"
    using arg_cong [OF conjunct2 [OF conjunct2 [OF borrower]], of "map (map_prod id dec_str)"]
    by (simp add: refs evidence_reference_of_def Let_def expected_values_def comp_def)
  have "\<not> ungrounded b e" if e: "e \<in> set (wr_evidence result)" for e
  proof -
    have "(er_metric e, er_value e) \<in> set (expected_values b)" using e by (force simp flip: pairs)
    then show ?thesis by (auto simp: ungrounded_def expected_values_def)
  qed
  moreover have "map er_value (wr_evidence result) = map snd (expected_values b)"
    using arg_cong [OF pairs, of "map snd"] by (simp add: comp_def)
  moreover have "er_document ` set (wr_evidence result) \<subseteq> id_document ` set (da_documents documents)"
    using owned by (auto simp: refs evidence_reference_of_def Let_def)
  ultimately show ?thesis
    using names listed loaded borrower p advance_files [OF advanced] by (auto simp: list_ex_iff)
qed

text \<open>C28: The guardrails fail closed. A handoff that passes them changed no file, and the borrower, the
  precedents and the suggestion that it read are of this application; there is evidence, all of it cites the
  application's own documents, and every figure of a financial metric is the one of the borrower; only eligible funders were
  matched or suggested; the suggestion is advisory, asks for a human and carries its notice.\<close>

theorem guardrails_fail_closed:
  assumes "guard A s (fs, x) = (Inr result, w')"
  shows "fst w' = fs \<and> wr_guardrails result = passed_guardrails
    \<and> (\<exists>b r g. load_artifact (ag_root A) (cd_decode (cd_borrower A)) (ms_application s) (ag_name A FinancialAnalysis) fs = (Inr b, fs)
        \<and> load_artifact (ag_root A) (cd_decode (cd_retrieval A)) (ms_application s) (ag_name A PrecedentRetrieval) fs = (Inr r, fs)
        \<and> load_artifact (ag_root A) (cd_decode (cd_suggestion A)) (ms_application s) (ag_name A Suggestion) fs = (Inr g, fs)
        \<and> ba_application b = ms_application s \<and> rr_application r = ms_application s \<and> su_application g = ms_application s
        \<and> ms_evidence s \<noteq> [] \<and> er_document ` set (ms_evidence s) \<subseteq> dc_document ` set (ms_documents s)
        \<and> (\<forall>e \<in> set (ms_evidence s). \<forall>v. (er_metric e, v) \<in> set (expected_values b) \<longrightarrow> er_value e = v)
        \<and> set (rr_funders r) \<union> set (su_candidates g) \<subseteq> {el_funder f |f. f \<in> set (ms_eligibility s) \<and> el_eligible f}
        \<and> su_authority g = ''advisory_only'' \<and> su_requires_human g \<and> su_notice g \<noteq> [])"
proof -
  obtain b r g where files: "fst w' = fs"
    and read: "load_artifact (ag_root A) (cd_decode (cd_borrower A)) (ms_application s) (ag_name A FinancialAnalysis) fs = (Inr b, fs)"
      "load_artifact (ag_root A) (cd_decode (cd_retrieval A)) (ms_application s) (ag_name A PrecedentRetrieval) fs = (Inr r, fs)"
      "load_artifact (ag_root A) (cd_decode (cd_suggestion A)) (ms_application s) (ag_name A Suggestion) fs = (Inr g, fs)"
    and passed: "check_guardrails s b r g = Inr ()"
    using assms by (rule guard_Inr)
  have "wr_guardrails result = passed_guardrails"
    using assms unfolding guard_def Let_def act_bind_Inr_iff act_lift_iff act_return_iff by auto
  moreover have "\<forall>e \<in> set (ms_evidence s). \<forall>v. (er_metric e, v) \<in> set (expected_values b) \<longrightarrow> er_value e = v"
    using check_guardrails_Inr [OF passed] by (auto simp: ungrounded_iff expected_values_def)
  ultimately show ?thesis using files read check_guardrails_Inr [OF passed] by blast
qed

text \<open>A resumed analysis does not ask again. Once a metric's figure is there, repeating the step, even for
  other documents, gives the same figure, calls no service and changes nothing.\<close>

theorem metrics_resume:
  assumes "metric_artifact A app documents spec (fs, x) = (Inr v, (fs', x'))"
    "cd_decode (cd_metric A) (cd_encode (cd_metric A) v) = Some v"
  shows "metric_artifact A app other spec (fs', y) = (Inr v, (fs', y))"
  using metric_artifact_again [OF assms] .

text \<open>The release metrics are always reported. For observations that expect something, rank without
  repeating and show no forbidden funder, the summary exists, counts them all, and each of its three
  averages is a fraction.\<close>

theorem release_metrics_unit:
  assumes "log_ok lg" "obs \<noteq> []"
    "\<And>r. r \<in> set obs \<Longrightarrow> \<not> ro_leak r \<and> mk_observation r = Inr r \<and> distinct (ro_ranked r)"
  shows "\<exists>m. retrieval_metrics lg obs = Inr m \<and> rm_n m = length obs
    \<and> unit_score (rm_recall m) \<and> unit_score (rm_mrr m) \<and> unit_score (rm_ndcg m)"
proof -
  have expected: "ro_expected r \<noteq> []" if "r \<in> set obs" for r
    using assms(3) [OF that] by (auto simp: mk_observation_def raise_if_def split: if_splits)
  have "list_all unit_score (map recall_top3 obs)"
    using top3_recall_unit by (simp add: list_all_iff)
  moreover have "list_all unit_score (map reciprocal_rank obs)"
    using reciprocal_rank_unit by (simp add: list_all_iff)
  moreover have "list_all unit_score (map (ndcg_top3 lg) obs)"
    using top3_ndcg_unit [OF assms(1)] assms(3) expected by (simp add: list_all_iff)
  ultimately have "unit_score (mean (map recall_top3 obs))" "unit_score (mean (map reciprocal_rank obs))"
    "unit_score (mean (map (ndcg_top3 lg) obs))"
    by (auto intro: mean_unit)
  then show ?thesis
    using assms(2,3) by (auto simp: retrieval_metrics_def raise_if_def list_ex_iff Let_def unit_score_def)
qed

section \<open>Instances\<close>

text \<open>An application with one document and stored figures; its artifacts decode to fixed models.\<close>

definition sample_figure :: figure where
  "sample_figure = Figure ''DSCR'' ''2'' None None
     \<lparr>ct_document = ''d'', ct_page = 1, ct_bbox = \<lparr>bx0 = 0, by0 = 0, bx1 = 1, by1 = 1\<rparr>\<rparr> None None"

definition two :: dec where
  "two = \<lparr>dsign = False, dcoef = 2, dexp = 0\<rparr>"

fun sample_name :: "worker \<Rightarrow> string" where
  "sample_name DocumentProcessing = ''documents''"
| "sample_name FinancialAnalysis = ''financial''"
| "sample_name PrecedentRetrieval = ''retrieval''"
| "sample_name _ = ''suggestion''"

definition fixed_codec :: "'m \<Rightarrow> 'm codec" where
  "fixed_codec v = \<lparr>cd_encode = (\<lambda>_. ''{}''), cd_decode = (\<lambda>_. Some v)\<rparr>"

definition sample_borrower :: "unit borrower" where
  "sample_borrower =
     \<lparr>ba_application = ''app-1'', ba_revenue = two, ba_margin = two, ba_dscr = two, ba_evidence = [], ba_metadata = ()\<rparr>"

definition sample_agent :: "(nat, unit) agent" where
  "sample_agent =
     \<lparr>ag_root = [''srv''], ag_name = sample_name, ag_hash = (\<lambda>_ _. ''h''), ag_tool = (\<lambda>n. (Inr (), n + 1)), ag_command = ''c'',
      ag_report = (\<lambda>_ _. act_return ()), ag_ingest = (\<lambda>_ _. act_return []),
      ag_extract = (\<lambda>_ _ _. act_return [sample_figure]), ag_select = (\<lambda>figures _. Inr (hd figures)), ag_decimal = (\<lambda>_. Inr two),
      ag_unit = (\<lambda>_. ''x''), ag_box = (\<lambda>_. ''[]''), ag_find_workflow = (\<lambda>_. act_return (Some \<lparr>wf_state = ''INTAKE'', wf_version = 1\<rparr>)),
      ag_create_workflow = (\<lambda>_ _. act_return \<lparr>wf_state = ''INTAKE'', wf_version = 1\<rparr>),
      ag_advance = (\<lambda>_ n t _. act_return \<lparr>wf_state = t, wf_version = n + 1\<rparr>), ag_states = [''INTAKE'', ''EXTRACTED''],
      ag_evaluate = (\<lambda>_. []), ag_retrieve = (\<lambda>_. act_return \<lparr>rr_application = ''app-1'', rr_eligibility = [], rr_funders = []\<rparr>),
      ag_assemble = (\<lambda>_ _. Inl InvalidOperation), cd_request = fixed_codec \<lparr>sa_metadata = (), sa_files = []\<rparr>,
      cd_documents = fixed_codec \<lparr>da_documents = [\<lparr>id_filename = ''a.pdf'', id_sha256 = ''s'', id_document = ''d'', id_pages = 1,
        id_chunks = 1\<rparr>], da_chunk_ids = [], da_config = []\<rparr>,
      cd_metric = fixed_codec (''annual_revenue_crore'', sample_figure), cd_borrower = fixed_codec sample_borrower,
      cd_eligibility = fixed_codec (''app-1'', []),
      cd_retrieval = fixed_codec \<lparr>rr_application = ''app-1'', rr_eligibility = [], rr_funders = [''f'']\<rparr>,
      cd_suggestion = fixed_codec \<lparr>su_application = ''app-1'', su_candidates = [''f''], su_authority = ''advisory_only'',
        su_requires_human = True, su_notice = ''advice''\<rparr>\<rparr>"

definition sample_artifact :: "string \<Rightarrow> path" where
  "sample_artifact file = [''srv'', ''app-1'', ''agent'', file]"

definition sample_files :: files where
  "sample_files = map (\<lambda>file. (sample_artifact file, ''{}''))
     [''request.json'', ''documents.json'', ''financial.json'', ''retrieval.json'', ''suggestion.json'']"

definition sample_memory :: memory_state where
  "sample_memory =
     \<lparr>ms_application = ''app-1'', ms_job = None,
      ms_documents = [\<lparr>dc_document = ''d'', dc_sha256 = ''s'', dc_pages = 1, dc_chunks = 1, dc_config = ''c''\<rparr>],
      ms_evidence = [\<lparr>er_id = ''e'', er_metric = ''dscr'', er_value = ''2'', er_unit = ''x'', er_period = ''p'', er_document = ''d'',
        er_page = 1, er_bbox = \<lparr>bx0 = 0, by0 = 0, bx1 = 1, by1 = 1\<rparr>\<rparr>],
      ms_eligibility = [\<lparr>el_funder = ''f'', el_eligible = True, el_failed = []\<rparr>], ms_status = WaitingForReview,
      ms_node = Guardrails, ms_attempts = [], ms_completed = [], ms_pending = [], ms_error = None\<rparr>"

lemma sample_guards: "check_guardrails sample_memory sample_borrower
    \<lparr>rr_application = ''app-1'', rr_eligibility = [], rr_funders = [''f'']\<rparr>
    \<lparr>su_application = ''app-1'', su_candidates = [''f''], su_authority = ''advisory_only'', su_requires_human = True,
      su_notice = ''advice''\<rparr> = Inr ()"
  by code_simp

lemma sample_paths:
  "artifact_path [''srv''] ''app-1'' ''request'' = Inr (sample_artifact ''request.json'')"
  "artifact_path [''srv''] ''app-1'' ''documents'' = Inr (sample_artifact ''documents.json'')"
  "artifact_path [''srv''] ''app-1'' ''financial'' = Inr (sample_artifact ''financial.json'')"
  "artifact_path [''srv''] ''app-1'' ''retrieval'' = Inr (sample_artifact ''retrieval.json'')"
  "artifact_path [''srv''] ''app-1'' ''suggestion'' = Inr (sample_artifact ''suggestion.json'')"
  by code_simp+

lemma sample_stored:
  "map_of sample_files (sample_artifact ''request.json'') = Some ''{}''"
  "map_of sample_files (sample_artifact ''documents.json'') = Some ''{}''"
  "map_of sample_files (sample_artifact ''financial.json'') = Some ''{}''"
  "map_of sample_files (sample_artifact ''retrieval.json'') = Some ''{}''"
  "map_of sample_files (sample_artifact ''suggestion.json'') = Some ''{}''"
  by code_simp+

lemma agent_fields:
  "ag_root sample_agent = [''srv'']" "ag_tool sample_agent = (\<lambda>n. (Inr (), n + 1))"
  "ag_name sample_agent = sample_name" "ms_application sample_memory = ''app-1''"
  by (simp_all add: sample_agent_def sample_memory_def)

lemma load_sample:
  assumes "artifact_path [''srv''] ''app-1'' name = Inr p" "map_of fs p \<noteq> None"
  shows "load_model sample_agent (fixed_codec v) ''app-1'' name (fs, x) = (Inr v, (fs, x))"
  using assms
  by (auto simp: load_model_def on_files_def load_artifact_def act_bind_def act_lift_def read_file_def fixed_codec_def
      agent_fields)

lemma guard_runs:
  assumes "ag_tool A x = (Inr (), x1)"
    "load_model A (cd_borrower A) (ms_application s) (ag_name A FinancialAnalysis) (fs, x1) = (Inr b, (fs, x1))"
    "load_model A (cd_retrieval A) (ms_application s) (ag_name A PrecedentRetrieval) (fs, x1) = (Inr r, (fs, x1))"
    "load_model A (cd_suggestion A) (ms_application s) (ag_name A Suggestion) (fs, x1) = (Inr g, (fs, x1))"
    "check_guardrails s b r g = Inr ()"
  shows "\<exists>result. guard A s (fs, x) = (Inr result, (fs, x1))"
  using assms by (simp add: guard_def Let_def act_bind_def on_services_def act_lift_def act_return_def)

lemma sample_guard: "\<exists>result w. guard sample_agent sample_memory (sample_files, 0) = (Inr result, w)"
proof -
  have codecs: "cd_borrower sample_agent = fixed_codec sample_borrower"
    "cd_retrieval sample_agent = fixed_codec \<lparr>rr_application = ''app-1'', rr_eligibility = [], rr_funders = [''f'']\<rparr>"
    "cd_suggestion sample_agent = fixed_codec \<lparr>su_application = ''app-1'', su_candidates = [''f''],
      su_authority = ''advisory_only'', su_requires_human = True, su_notice = ''advice''\<rparr>"
    by (simp_all add: sample_agent_def)
  have names: "sample_name FinancialAnalysis = ''financial''" "sample_name PrecedentRetrieval = ''retrieval''"
    "sample_name Suggestion = ''suggestion''"
    by simp_all
  have stored: "map_of sample_files (sample_artifact ''financial.json'') \<noteq> None"
    "map_of sample_files (sample_artifact ''retrieval.json'') \<noteq> None"
    "map_of sample_files (sample_artifact ''suggestion.json'') \<noteq> None"
    unfolding sample_stored by simp_all
  note reads = load_sample [OF sample_paths(3) stored(1)] load_sample [OF sample_paths(4) stored(2)]
    load_sample [OF sample_paths(5) stored(3)]
  show ?thesis
    using guard_runs [where A = sample_agent and s = sample_memory and fs = sample_files and x = 0, unfolded agent_fields
        codecs names, OF refl reads sample_guards] by blast
qed

theorem guardrails_fail_closed_witness:
  "\<exists>result w. guard sample_agent sample_memory (sample_files, 0) = (Inr result, w) \<and> fst w = sample_files
    \<and> wr_guardrails result = passed_guardrails"
proof -
  obtain result w where run: "guard sample_agent sample_memory (sample_files, 0) = (Inr result, w)"
    using sample_guard by blast
  note safe = guardrails_fail_closed [OF run]
  show ?thesis by (intro exI conjI, rule run, rule safe [THEN conjunct1], rule safe [THEN conjunct2, THEN conjunct1])
qed

theorem metrics_resume_witness:
  "\<exists>fs' x'. metric_artifact sample_agent ''app-1'' [''d''] (''annual_revenue_crore'', ''q'') ([], 0)
        = (Inr (''annual_revenue_crore'', sample_figure), (fs', x'))
    \<and> metric_artifact sample_agent ''app-1'' [] (''annual_revenue_crore'', ''q'') (fs', 5)
        = (Inr (''annual_revenue_crore'', sample_figure), (fs', 5))"
proof -
  have path: "artifact_path [''srv''] ''app-1'' (metric_name ''annual_revenue_crore'')
      = Inr [''srv'', ''app-1'', ''agent'', ''financial'', ''annual_revenue_crore.json'']"
    by code_simp
  have fields: "cd_metric sample_agent = fixed_codec (''annual_revenue_crore'', sample_figure)"
    "ag_report sample_agent = (\<lambda>_ _. act_return ())" "ag_extract sample_agent = (\<lambda>_ _ _. act_return [sample_figure])"
    "ag_select sample_agent = (\<lambda>figures _. Inr (hd figures))"
    by (simp_all add: sample_agent_def)
  have "\<exists>fs' x'. metric_artifact sample_agent ''app-1'' [''d''] (''annual_revenue_crore'', ''q'') ([], 0)
      = (Inr (''annual_revenue_crore'', sample_figure), (fs', x'))"
    by (simp add: metric_artifact_def extract_metric_artifact_def has_model_def save_model_def on_files_def on_services_def
        artifact_exists_def save_artifact_def move_file_def write_file_def or_failure_def act_catch_def act_bind_def
        act_lift_def act_return_def agent_fields fields path dict_simps)
  then obtain fs' x' where run: "metric_artifact sample_agent ''app-1'' [''d''] (''annual_revenue_crore'', ''q'') ([], 0)
      = (Inr (''annual_revenue_crore'', sample_figure), (fs', x'))"
    by blast
  have "cd_decode (cd_metric sample_agent) (cd_encode (cd_metric sample_agent) (''annual_revenue_crore'', sample_figure))
      = Some (''annual_revenue_crore'', sample_figure)"
    by (simp add: fields fixed_codec_def)
  with metrics_resume [OF run] run show ?thesis by blast
qed

text \<open>An analysis whose figures are stored already.\<close>

definition metric_file :: "string \<Rightarrow> path" where
  "metric_file file = [''srv'', ''app-1'', ''agent'', ''financial'', file]"

definition finance_files :: files where
  "finance_files = sample_files @ map (\<lambda>file. (metric_file file, ''{}''))
     [''annual_revenue_crore.json'', ''ebitda_margin_pct.json'', ''dscr.json'']"

definition sample_evidence :: "string \<times> string \<Rightarrow> evidence_metric" where
  "sample_evidence spec = \<lparr>em_name = fst spec, em_value = two, em_unit = ''x'', em_period = ''latest reported period'',
     em_citation = fg_citation sample_figure\<rparr>"

lemma stored_evidence:
  assumes "artifact_path [''srv''] ''app-1'' (metric_name (fst spec)) = Inr p" "map_of fs p \<noteq> None"
  shows "metric_evidence sample_agent ''app-1'' [''d''] spec (fs, x) = (Inr (sample_evidence spec), (fs, x))"
proof -
  have "cd_metric sample_agent = fixed_codec (''annual_revenue_crore'', sample_figure)" by (simp add: sample_agent_def)
  then have "metric_artifact sample_agent ''app-1'' [''d''] spec (fs, x)
      = (Inr (''annual_revenue_crore'', sample_figure), (fs, x))"
    using assms load_sample [OF assms]
    by (simp add: metric_artifact_def has_model_def on_files_def artifact_exists_def act_bind_def act_lift_def agent_fields)
  then show ?thesis
    by (simp add: metric_evidence_def act_bind_def act_lift_def act_return_def raise_if_def sample_evidence_def or_else_def
        sample_agent_def sample_figure_def truthy_def)
qed

lemma save_runs:
  assumes "artifact_path (ag_root A) app name = Inr p"
  shows "\<exists>h fs'. save_model A c app name v (fs, x) = (Inr h, (fs', x))"
  using assms
  by (simp add: save_model_def on_files_def save_artifact_def act_bind_def act_lift_def act_return_def write_file_def
      move_file_def dict_simps)

lemma sample_metric_files:
  "list_all (\<lambda>spec. case artifact_path [''srv''] ''app-1'' (metric_name (fst spec)) of
     Inl _ \<Rightarrow> False | Inr p \<Rightarrow> map_of finance_files p \<noteq> None) metric_specs"
  by code_simp

lemma sample_evidences:
  "act_map (metric_evidence sample_agent ''app-1'' [''d'']) metric_specs (finance_files, x)
    = (Inr (map sample_evidence metric_specs), (finance_files, x))"
proof -
  have each: "metric_evidence sample_agent ''app-1'' [''d''] spec (finance_files, x)
      = (Inr (sample_evidence spec), (finance_files, x))" if "spec \<in> set metric_specs" for spec
  proof -
    have "case artifact_path [''srv''] ''app-1'' (metric_name (fst spec)) of
        Inl _ \<Rightarrow> False | Inr p \<Rightarrow> map_of finance_files p \<noteq> None"
      using sample_metric_files that by (simp only: list_all_iff)
    then obtain p where "artifact_path [''srv''] ''app-1'' (metric_name (fst spec)) = Inr p" "map_of finance_files p \<noteq> None"
      by (cases "artifact_path [''srv''] ''app-1'' (metric_name (fst spec))") simp_all
    then show ?thesis by (rule stored_evidence)
  qed
  have "act_map (metric_evidence sample_agent ''app-1'' [''d'']) specs (finance_files, x)
      = (Inr (map sample_evidence specs), (finance_files, x))" if "set specs \<subseteq> set metric_specs" for specs
    using that by (induction specs) (simp_all add: act_return_def act_bind_def each)
  then show ?thesis by simp
qed

lemma sample_borrower_of: "\<exists>b. borrower_of ''app-1'' () (map sample_evidence metric_specs) = Inr b"
  by (simp add: borrower_of_def value_of_metric_def dict_of_def metric_specs_def sample_evidence_def res_bind_def)

lemma sample_advance: "\<exists>w. advance sample_agent ''app-1'' ''EXTRACTED'' None (fs, x) = (Inr w, (fs, x))"
  by (simp add: advance_def ensure_workflow_def on_services_def act_bind_def act_lift_def act_return_def sample_agent_def
      res_bind_def)

lemma sample_analysis: "\<exists>result w'. analyse_finances sample_agent sample_memory (finance_files, 0) = (Inr result, w')"
proof -
  let ?docs = "\<lparr>da_documents = [\<lparr>id_filename = ''a.pdf'', id_sha256 = ''s'', id_document = ''d'', id_pages = 1, id_chunks = 1\<rparr>],
    da_chunk_ids = [], da_config = []\<rparr>"
  have codecs: "cd_request sample_agent = fixed_codec \<lparr>sa_metadata = (), sa_files = []\<rparr>"
    "cd_documents sample_agent = fixed_codec ?docs"
    by (simp_all add: sample_agent_def)
  have stored: "map_of finance_files (sample_artifact ''request.json'') \<noteq> None"
    "map_of finance_files (sample_artifact ''documents.json'') \<noteq> None"
    by code_simp+
  note reads = load_sample [OF sample_paths(1) stored(1)] load_sample [OF sample_paths(2) stored(2)]
  obtain b where b: "borrower_of ''app-1'' () (map sample_evidence metric_specs) = Inr b" using sample_borrower_of by blast
  have path: "artifact_path (ag_root sample_agent) ''app-1'' ''financial'' = Inr (sample_artifact ''financial.json'')"
    using sample_paths(3) by (simp add: agent_fields)
  obtain h fs' where saved: "save_model sample_agent (cd_borrower sample_agent) ''app-1'' ''financial'' b (finance_files, 0)
      = (Inr h, (fs', 0))"
    using save_runs [OF path, of "cd_borrower sample_agent" b finance_files 0] by (elim exE)
  obtain w where advanced: "advance sample_agent ''app-1'' ''EXTRACTED'' None (fs', 0) = (Inr w, (fs', 0))"
    using sample_advance by blast
  show ?thesis
    by (simp add: analyse_finances_def Let_def agent_fields codecs reads act_bind_def sample_evidences b saved advanced
        act_lift_def act_return_def)
qed

theorem financial_evidence_grounded_witness:
  "\<exists>result w'. analyse_finances sample_agent sample_memory (finance_files, 0) = (Inr result, w')
    \<and> map er_metric (wr_evidence result) = map fst metric_specs"
proof -
  obtain result w' where run: "analyse_finances sample_agent sample_memory (finance_files, 0) = (Inr result, w')"
    using sample_analysis by blast
  show ?thesis by (intro exI conjI, rule run, rule financial_evidence_grounded [OF run, THEN conjunct1])
qed

definition sample_observation :: retrieval_observation where
  "sample_observation = \<lparr>ro_case = ''c'', ro_expected = [''p'', ''q''], ro_ranked = [''q'', ''r''], ro_leak = False\<rparr>"

theorem release_metrics_unit_witness:
  "\<exists>m. retrieval_metrics of_nat [sample_observation] = Inr m \<and> rm_n m = 1 \<and> unit_score (rm_ndcg m)"
proof -
  have "log_ok of_nat" by (simp add: log_ok_def)
  moreover have "[sample_observation] \<noteq> []" by simp
  moreover have "\<not> ro_leak r \<and> mk_observation r = Inr r \<and> distinct (ro_ranked r)" if "r \<in> set [sample_observation]" for r
    using that by (simp add: sample_observation_def mk_observation_def raise_if_def)
  ultimately show ?thesis using release_metrics_unit [of of_nat "[sample_observation]"] by fastforce
qed

end
