(* ===== verification/Datasets.thy ===== *)
theory Datasets
  imports Scorers Json
begin

text \<open>
  \<open>scripts/validate_dataset.py\<close>: the check that an evaluation dataset is ready for scoring. The decoding
  of a line and the validation of \<open>EvalCase\<close> are pydantic's and the JSON library's, and parameters here;
  messages are values of \<open>issue_kind\<close>.
\<close>

section \<open>Files and objects\<close>

text \<open>What a path is, a folder with its sorted \<open>rglob("*.jsonl")\<close>; the lines of a file; the decoder.\<close>

datatype path_kind = Folder "string list" | RegularFile | NoPath

record dataset_source =
  dt_kind :: "string \<Rightarrow> path_kind"
  dt_lines :: "string \<Rightarrow> string list res"
  dt_loads :: "string \<Rightarrow> json option"

type_synonym json_object = "(string \<times> json) list"

fun path_files :: "(string \<Rightarrow> path_kind) \<Rightarrow> string list \<Rightarrow> string list res" where
  "path_files kind [] = Inr []"
| "path_files kind (p # ps) =
     (case kind p of
        Folder names \<Rightarrow> res_bind (path_files kind ps) (\<lambda>rest. Inr (names @ rest))
      | RegularFile \<Rightarrow> res_bind (path_files kind ps) (\<lambda>rest. Inr (p # rest))
      | NoPath \<Rightarrow> Inl (ValueError ''path does not exist''))"

definition jsonl_files :: "(string \<Rightarrow> path_kind) \<Rightarrow> string list \<Rightarrow> string list res" where
  "jsonl_files kind paths =
     res_bind (path_files kind paths) (\<lambda>files. raise_if (files = []) (ValueError ''no JSONL files found'') (Inr files))"

text \<open>
  \<open>for line_number, payload in _objects(path): ...\<close>: the generator hands each object to the body of the loop
  before it reads the next line. Blank lines count, but yield nothing.
\<close>

definition object_of :: "(string \<Rightarrow> json option) \<Rightarrow> string \<Rightarrow> json_object res" where
  "object_of loads line =
     (case loads line of
        None \<Rightarrow> Inl (ValueError ''invalid JSON'')
      | Some (JObj d) \<Rightarrow> Inr d
      | Some _ \<Rightarrow> Inl (ValueError ''expected a JSON object''))"

fun each_object ::
  "(string \<Rightarrow> json option) \<Rightarrow> (nat \<Rightarrow> json_object \<Rightarrow> 's \<Rightarrow> 's res) \<Rightarrow> nat \<Rightarrow> string list \<Rightarrow> 's \<Rightarrow> 's res" where
  "each_object loads body n [] s = Inr s"
| "each_object loads body n (line # rest) s =
     (if strip line = [] then each_object loads body (n + 1) rest s
      else res_bind (object_of loads line) (\<lambda>d. res_bind (body n d s) (\<lambda>s'. each_object loads body (n + 1) rest s')))"

fun each_file ::
  "dataset_source \<Rightarrow> (string \<Rightarrow> nat \<Rightarrow> json_object \<Rightarrow> 's \<Rightarrow> 's res) \<Rightarrow> string list \<Rightarrow> 's \<Rightarrow> 's res" where
  "each_file D body [] s = Inr s"
| "each_file D body (file # files) s =
     res_bind (dt_lines D file) (\<lambda>ls.
     res_bind (each_object (dt_loads D) (body file) 1 ls s) (\<lambda>s'. each_file D body files s'))"

section \<open>The corpus\<close>

definition text_field :: "string \<Rightarrow> json_object \<Rightarrow> string option" where   \<comment> \<open>a text that is not blank\<close>
  "text_field k d = (case map_of d k of Some (JStr s) \<Rightarrow> if strip s = [] then None else Some s | _ \<Rightarrow> None)"

definition load_corpus_ids :: "dataset_source \<Rightarrow> string list \<Rightarrow> string list res" where
  "load_corpus_ids D paths =
     res_bind (jsonl_files (dt_kind D) paths) (\<lambda>files.
     each_file D (\<lambda>_ _ d ids.
       case text_field ''chunk_id'' d of
         None \<Rightarrow> Inl (ValueError ''missing non-empty chunk_id'')
       | Some c \<Rightarrow> Inr (if c \<in> set ids then ids else ids @ [c])) files [])"

definition is_text :: "json \<Rightarrow> bool" where
  "is_text j = (case j of JStr s \<Rightarrow> strip s \<noteq> [] | _ \<Rightarrow> False)"

definition text_of :: "json \<Rightarrow> string" where
  "text_of j = (case j of JStr s \<Rightarrow> s | _ \<Rightarrow> [])"

definition load_corpus_manifest :: "json option \<Rightarrow> string list res" where
  "load_corpus_manifest payload =
     (case payload of
        None \<Rightarrow> Inl (ValueError ''invalid manifest JSON'')
      | Some (JObj d) \<Rightarrow>
          (case map_of d ''chunk_ids'' of
             Some (JArr xs) \<Rightarrow>
               raise_if (xs = [] \<or> list_ex (\<lambda>x. \<not> is_text x) xs) (ValueError ''chunk_ids must contain non-empty strings'')
              (raise_if (\<not> distinct (map text_of xs)) (ValueError ''chunk_ids contains duplicates'') (Inr (map text_of xs)))
           | _ \<Rightarrow> Inl (ValueError ''manifest must contain a chunk_ids list''))
      | Some _ \<Rightarrow> Inl (ValueError ''manifest must contain a chunk_ids list''))"

section \<open>The checks of a question\<close>

definition is_verify :: "string \<Rightarrow> bool" where
  "is_verify s = (casefold (strip s) = ''verify'')"

function verify_paths :: "string \<Rightarrow> json \<Rightarrow> string list"
  and verify_fields :: "string \<Rightarrow> (string \<times> json) list \<Rightarrow> string list"
  and verify_items :: "string \<Rightarrow> nat \<Rightarrow> json list \<Rightarrow> string list" where
  "verify_paths path j =
     (case j of
        JStr s \<Rightarrow> if is_verify s then [path] else []
      | JObj d \<Rightarrow> verify_fields path d
      | JArr xs \<Rightarrow> verify_items path 0 xs
      | _ \<Rightarrow> [])"
| "verify_fields path [] = []"
| "verify_fields path ((k, v) # rest) = verify_paths (path @ ''.'' @ k) v @ verify_fields path rest"
| "verify_items path i [] = []"
| "verify_items path i (v # rest) = verify_paths (path @ ''['' @ str_of_nat i @ '']'') v @ verify_items path (i + 1) rest"
  by pat_completeness auto
termination
  by (relation "measure (\<lambda>x. case x of Inl (_, j) \<Rightarrow> size j
      | Inr (Inl (_, d)) \<Rightarrow> size_list (size_prod (\<lambda>_. 0) size) d | Inr (Inr (_, _, xs)) \<Rightarrow> size_list size xs)") auto

datatype issue_kind =
    MissingQuestion
  | DuplicateQuestion "string \<times> nat"     \<comment> \<open>where it was first seen\<close>
  | InvalidCase
  | UnresolvedVerify string
  | MissingDirection
  | NoRelevantChunks
  | BlankChunk nat
  | UnknownChunk nat string

record issue =
  iu_place :: "string \<times> nat"
  iu_label :: string
  iu_kind :: issue_kind

record check_state =
  vs_errors :: "issue list"
  vs_seen :: "(string, string \<times> nat) dict"
  vs_count :: nat

definition question_label :: "json_object \<Rightarrow> string" where
  "question_label d = (case text_field ''question_id'' d of None \<Rightarrow> ''<unknown>'' | Some q \<Rightarrow> q)"

definition question_issues :: "(string, string \<times> nat) dict \<Rightarrow> json_object \<Rightarrow> issue_kind list" where
  "question_issues seen d =
     (case text_field ''question_id'' d of
        None \<Rightarrow> [MissingQuestion]
      | Some q \<Rightarrow> (case map_of seen q of None \<Rightarrow> [] | Some first \<Rightarrow> [DuplicateQuestion first]))"

definition note_question :: "string \<times> nat \<Rightarrow> json_object \<Rightarrow> (string, string \<times> nat) dict \<Rightarrow> (string, string \<times> nat) dict" where
  "note_question place d seen =
     (case text_field ''question_id'' d of
        None \<Rightarrow> seen
      | Some q \<Rightarrow> if dict_has seen q then seen else seen @ [(q, place)])"

definition lacks_direction :: "json_object \<Rightarrow> bool" where
  "lacks_direction d =
     (case map_of d ''expected_answer'' of
        Some (JObj e) \<Rightarrow> map_of e ''answer_type'' = Some (JStr ''numeric_multi'') \<and> text_field ''direction'' e = None
      | _ \<Rightarrow> False)"

definition chunk_issue :: "string list \<Rightarrow> nat \<times> json \<Rightarrow> issue_kind list" where
  "chunk_issue corpus = (\<lambda>(i, c).
     if \<not> is_text c then [BlankChunk i]
     else if text_of c \<notin> set corpus then [UnknownChunk i (text_of c)] else [])"

definition relevant_issues :: "string list \<Rightarrow> json_object \<Rightarrow> issue_kind list" where
  "relevant_issues corpus d =
     (case map_of d ''relevant_chunk_ids'' of
        Some (JArr xs) \<Rightarrow> if xs = [] then [NoRelevantChunks] else concat (map (chunk_issue corpus) (enumerate 0 xs))
      | _ \<Rightarrow> [NoRelevantChunks])"

text \<open>\<open>valid\<close> is whether \<open>EvalCase.model_validate\<close> accepts the object.\<close>

definition case_issues ::
  "(json_object \<Rightarrow> bool) \<Rightarrow> string list \<Rightarrow> (string, string \<times> nat) dict \<Rightarrow> json_object \<Rightarrow> issue_kind list" where
  "case_issues valid corpus seen d =
     question_issues seen d @ (if valid d then [] else [InvalidCase])
     @ map UnresolvedVerify (verify_paths ''$'' (JObj d))
     @ (if lacks_direction d then [MissingDirection] else []) @ relevant_issues corpus d"

definition check_case ::
  "(json_object \<Rightarrow> bool) \<Rightarrow> string list \<Rightarrow> string \<Rightarrow> nat \<Rightarrow> json_object \<Rightarrow> check_state \<Rightarrow> check_state res" where
  "check_case valid corpus file n d s =
     Inr \<lparr>vs_errors = vs_errors s
            @ map (\<lambda>k. \<lparr>iu_place = (file, n), iu_label = question_label d, iu_kind = k\<rparr>) (case_issues valid corpus (vs_seen s) d),
          vs_seen = note_question (file, n) d (vs_seen s), vs_count = vs_count s + 1\<rparr>"

definition validate_datasets ::
  "dataset_source \<Rightarrow> (json_object \<Rightarrow> bool) \<Rightarrow> string list \<Rightarrow> string list \<Rightarrow> nat res" where
  "validate_datasets D valid paths corpus =
     raise_if (corpus = []) (ValueError ''corpus contains no chunk IDs'')
    (res_bind (jsonl_files (dt_kind D) paths) (\<lambda>files.
     res_bind (each_file D (check_case valid corpus) files \<lparr>vs_errors = [], vs_seen = [], vs_count = 0\<rparr>) (\<lambda>s.
     raise_if (vs_errors s \<noteq> []) (ValueError ''dataset validation failed'') (Inr (vs_count s)))))"

text \<open>\<open>main\<close>: a \<open>ValueError\<close> is printed and becomes the exit status 1.\<close>

definition validate_main ::
  "dataset_source \<Rightarrow> (json_object \<Rightarrow> bool) \<Rightarrow> string list \<Rightarrow> string list option \<Rightarrow> json option \<Rightarrow> nat res" where
  "validate_main D valid dataset corpus manifest =
     (case res_bind (case corpus of Some paths \<Rightarrow> load_corpus_ids D paths | None \<Rightarrow> load_corpus_manifest manifest)
             (\<lambda>ids. validate_datasets D valid dataset ids) of
        Inl e \<Rightarrow> if is_value_error e then Inr 1 else Inl e
      | Inr _ \<Rightarrow> Inr 0)"

section \<open>The generator as a list\<close>

text \<open>All objects of the files with their places, read first.\<close>

fun objects_from :: "(string \<Rightarrow> json option) \<Rightarrow> string \<Rightarrow> nat \<Rightarrow> string list \<Rightarrow> ((string \<times> nat) \<times> json_object) list res" where
  "objects_from loads file n [] = Inr []"
| "objects_from loads file n (line # rest) =
     (if strip line = [] then objects_from loads file (n + 1) rest
      else res_bind (object_of loads line) (\<lambda>d.
           res_bind (objects_from loads file (n + 1) rest) (\<lambda>ds. Inr (((file, n), d) # ds))))"

fun all_objects :: "dataset_source \<Rightarrow> string list \<Rightarrow> ((string \<times> nat) \<times> json_object) list res" where
  "all_objects D [] = Inr []"
| "all_objects D (file # files) =
     res_bind (dt_lines D file) (\<lambda>ls.
     res_bind (objects_from (dt_loads D) file 1 ls) (\<lambda>xs.
     res_bind (all_objects D files) (\<lambda>ys. Inr (xs @ ys))))"

definition steps :: "(string \<Rightarrow> nat \<Rightarrow> json_object \<Rightarrow> 's \<Rightarrow> 's) \<Rightarrow> ((string \<times> nat) \<times> json_object) list \<Rightarrow> 's \<Rightarrow> 's" where
  "steps f xs s = foldl (\<lambda>s ((file, n), d). f file n d s) s xs"

text \<open>For a body that never fails the lazy loop is a fold over them.\<close>

lemma each_object_steps:
  assumes "\<And>file n d s. body file n d s = Inr (f file n d s)"
  shows "each_object loads (body file) n ls s = res_bind (objects_from loads file n ls) (\<lambda>xs. Inr (steps f xs s))"
proof (induction ls arbitrary: n s)
  case (Cons line rest)
  then show ?case
    by (cases "object_of loads line"; cases "objects_from loads file (n + 1) rest") (auto simp: assms steps_def)
qed (simp add: steps_def)

lemma each_file_steps:
  assumes "\<And>file n d s. body file n d s = Inr (f file n d s)"
  shows "each_file D body files s = res_bind (all_objects D files) (\<lambda>xs. Inr (steps f xs s))"
proof (induction files arbitrary: s)
  case (Cons name files)
  show ?case
  proof (cases "dt_lines D name")
    case (Inr ls)
    then show ?thesis
      using Cons each_object_steps [of body f, OF assms]
      by (cases "objects_from (dt_loads D) name 1 ls"; cases "all_objects D files") (auto simp: steps_def)
  qed simp
qed (simp add: steps_def)

section \<open>Ready datasets\<close>

text \<open>The texts of a JSON value at any depth; keys are not among them.\<close>

inductive leaf :: "string \<Rightarrow> json \<Rightarrow> bool" where
  here: "leaf s (JStr s)"
| field: "(k, j) \<in> set d \<Longrightarrow> leaf s j \<Longrightarrow> leaf s (JObj d)"
| item: "j \<in> set xs \<Longrightarrow> leaf s j \<Longrightarrow> leaf s (JArr xs)"

inductive_simps leaf_simps [simp]: "leaf s (JStr t)" "leaf s JNull" "leaf s (JBool b)" "leaf s (JNum n)"
  "leaf s (JObj d)" "leaf s (JArr xs)"

lemma verify_paths_iff:
  "verify_paths p j = [] \<longleftrightarrow> (\<forall>s. leaf s j \<longrightarrow> \<not> is_verify s)"
  "verify_fields p d = [] \<longleftrightarrow> (\<forall>(k, j) \<in> set d. \<forall>s. leaf s j \<longrightarrow> \<not> is_verify s)"
  "verify_items p i xs = [] \<longleftrightarrow> (\<forall>j \<in> set xs. \<forall>s. leaf s j \<longrightarrow> \<not> is_verify s)"
proof (induction p j and p d and p i xs rule: verify_paths_verify_fields_verify_items.induct)
  case (1 path j)
  then show ?case by (cases j) auto
qed (auto simp del: verify_paths.simps)

definition ready_case :: "(json_object \<Rightarrow> bool) \<Rightarrow> string list \<Rightarrow> json_object \<Rightarrow> bool" where
  "ready_case valid corpus d =
     (text_field ''question_id'' d \<noteq> None \<and> valid d \<and> (\<forall>s. leaf s (JObj d) \<longrightarrow> \<not> is_verify s) \<and> \<not> lacks_direction d
      \<and> (\<exists>xs. map_of d ''relevant_chunk_ids'' = Some (JArr xs) \<and> xs \<noteq> []
           \<and> (\<forall>x \<in> set xs. is_text x \<and> text_of x \<in> set corpus)))"

lemma relevant_issues_iff:
  "relevant_issues corpus d = [] \<longleftrightarrow>
     (\<exists>xs. map_of d ''relevant_chunk_ids'' = Some (JArr xs) \<and> xs \<noteq> [] \<and> (\<forall>x \<in> set xs. is_text x \<and> text_of x \<in> set corpus))"
proof (cases "map_of d ''relevant_chunk_ids''")
  case (Some j)
  have "concat (map (chunk_issue corpus) (enumerate 0 xs)) = [] \<longleftrightarrow> (\<forall>x \<in> set xs. is_text x \<and> text_of x \<in> set corpus)" for xs
  proof -
    have "concat (map (chunk_issue corpus) (enumerate n xs)) = [] \<longleftrightarrow> (\<forall>x \<in> set xs. is_text x \<and> text_of x \<in> set corpus)" for n
      by (induction xs arbitrary: n) (auto simp: chunk_issue_def)
    then show ?thesis .
  qed
  with Some show ?thesis by (cases j) (auto simp: relevant_issues_def)
qed (simp add: relevant_issues_def)

lemma case_issues_iff:
  "case_issues valid corpus seen d = [] \<longleftrightarrow> ready_case valid corpus d \<and> map_of seen (question_label d) = None"
proof -
  have "question_issues seen d = [] \<longleftrightarrow> text_field ''question_id'' d \<noteq> None \<and> map_of seen (question_label d) = None"
    by (auto simp: question_issues_def question_label_def split: option.splits)
  then show ?thesis
    using verify_paths_iff(1) [of "''$''" "JObj d"]
    by (auto simp: case_issues_def ready_case_def relevant_issues_iff simp del: verify_paths.simps leaf_simps)
qed

definition case_step ::
  "(json_object \<Rightarrow> bool) \<Rightarrow> string list \<Rightarrow> string \<Rightarrow> nat \<Rightarrow> json_object \<Rightarrow> check_state \<Rightarrow> check_state" where
  "case_step valid corpus file n d s =
     \<lparr>vs_errors = vs_errors s
        @ map (\<lambda>k. \<lparr>iu_place = (file, n), iu_label = question_label d, iu_kind = k\<rparr>) (case_issues valid corpus (vs_seen s) d),
      vs_seen = note_question (file, n) d (vs_seen s), vs_count = vs_count s + 1\<rparr>"

lemma steps_count: "vs_count (steps (case_step valid corpus) xs s) = vs_count s + length xs"
  by (induction xs arbitrary: s) (auto simp: steps_def case_step_def split: prod.splits)

lemma steps_errors:
  "vs_errors (steps (case_step valid corpus) xs s) = [] \<longleftrightarrow>
     vs_errors s = [] \<and> (\<forall>x \<in> set xs. ready_case valid corpus (snd x) \<and> map_of (vs_seen s) (question_label (snd x)) = None)
     \<and> distinct (map (\<lambda>x. question_label (snd x)) xs)"
proof (induction xs arbitrary: s)
  case (Cons x xs)
  obtain name n d where x: "x = ((name, n), d)" by (cases x) auto
  let ?s = "case_step valid corpus name n d s"
  have errors: "vs_errors ?s = [] \<longleftrightarrow> vs_errors s = [] \<and> ready_case valid corpus d \<and> map_of (vs_seen s) (question_label d) = None"
    using case_issues_iff by (simp add: case_step_def)
  have seen: "map_of (vs_seen ?s) q = None \<longleftrightarrow> map_of (vs_seen s) q = None \<and> q \<noteq> question_label d"
    if "ready_case valid corpus d" "map_of (vs_seen s) (question_label d) = None" for q
    using that
    by (auto simp: case_step_def note_question_def question_label_def ready_case_def dict_has_def map_add_def
        split: option.splits)
  have "steps (case_step valid corpus) (x # xs) s = steps (case_step valid corpus) xs ?s" by (simp add: steps_def x)
  then have split: "vs_errors (steps (case_step valid corpus) (x # xs) s) = [] \<longleftrightarrow>
      vs_errors ?s = [] \<and> (\<forall>x \<in> set xs. ready_case valid corpus (snd x) \<and> map_of (vs_seen ?s) (question_label (snd x)) = None)
      \<and> distinct (map (\<lambda>x. question_label (snd x)) xs)"
    using Cons [of ?s] by simp
  show ?case
  proof (cases "ready_case valid corpus d \<and> map_of (vs_seen s) (question_label d) = None")
    case True
    show ?thesis unfolding split errors using seen True by (auto simp: x image_iff)
  next
    case False
    then show ?thesis unfolding split errors by (auto simp: x)
  qed
qed (simp add: steps_def)

text \<open>A dataset without a single question is accepted.\<close>

lemma blank_dataset_accepted:
  assumes "corpus \<noteq> []" "dt_kind D file = RegularFile" "dt_lines D file = Inr []"
  shows "validate_datasets D valid [file] corpus = Inr 0"
  using assms by (simp add: validate_datasets_def jsonl_files_def raise_if_def)

section \<open>Properties\<close>

text \<open>A dataset is accepted exactly when it is ready. The check returns \<open>n\<close> if and only if the corpus is not
  empty, the files can be listed and read, they hold \<open>n\<close> objects, no two of which have the same question
  identifier, and each of them names its question, is a valid case, contains nothing marked VERIFY at any depth, has
  a direction where one is needed, and cites at least one chunk, all of the corpus.\<close>

theorem datasets_accepted_iff_ready:
  "validate_datasets D valid paths corpus = Inr n \<longleftrightarrow>
     corpus \<noteq> []
     \<and> (\<exists>files objects. jsonl_files (dt_kind D) paths = Inr files \<and> all_objects D files = Inr objects \<and> n = length objects
          \<and> distinct (map (\<lambda>x. question_label (snd x)) objects) \<and> list_all (\<lambda>x. ready_case valid corpus (snd x)) objects)"
proof -
  have body: "check_case valid corpus f m d s = Inr (case_step valid corpus f m d s)" for f m d s
    by (simp add: check_case_def case_step_def)
  let ?init = "\<lparr>vs_errors = [], vs_seen = [], vs_count = 0\<rparr>"
  have "res_bind (each_file D (check_case valid corpus) files ?init) (\<lambda>s.
      raise_if (vs_errors s \<noteq> []) (ValueError ''dataset validation failed'') (Inr (vs_count s))) = Inr n
    \<longleftrightarrow> (\<exists>objects. all_objects D files = Inr objects \<and> n = length objects
          \<and> distinct (map (\<lambda>x. question_label (snd x)) objects) \<and> list_all (\<lambda>x. ready_case valid corpus (snd x)) objects)" for files
    using steps_errors [of valid corpus _ ?init] steps_count [of valid corpus _ ?init]
    by (cases "all_objects D files")
      (auto simp: each_file_steps [of "check_case valid corpus", OF body] raise_if_Inr_iff list_all_iff)
  then show ?thesis
    by (cases "jsonl_files (dt_kind D) paths") (auto simp: validate_datasets_def raise_if_Inr_iff)
qed

end
