(* ===== verification/Corpus.thy ===== *)
theory Corpus
  imports Parsing Ingestion Json
begin

text \<open>
  The scripts that build the evaluation corpus: \<open>scripts/fetch_corpus.py\<close> downloads the documents of a manifest
  and locks their hashes, \<open>scripts/audit_corpus.py\<close> checks the lock and ingests every digital document.
  The folder of the corpus is a map from file names to contents. The network, the JSON decoder and the
  text of a JSON value that is not a text (\<open>str\<close>) are parameters.
\<close>

section \<open>The manifest\<close>

record corpus_entry =
  co_id :: string
  co_kind :: string
  co_source :: string
  co_url :: string

record locked_entry =
  lk_entry :: corpus_entry
  lk_filename :: string
  lk_sha256 :: string
  lk_bytes :: nat

definition same_keys :: "string list \<Rightarrow> (string \<times> json) list \<Rightarrow> bool" where   \<comment> \<open>\<open>set(value) == keys\<close>\<close>
  "same_keys keys d = (list_all (\<lambda>(k, v). k \<in> set keys) d \<and> list_all (\<lambda>k. k \<in> set (map fst d)) keys)"

definition check_entry :: "corpus_entry \<Rightarrow> corpus_entry res" where
  "check_entry e =
     raise_if (co_id e = [] \<or> \<not> list_all (\<lambda>c. is_lower c \<or> is_digit c \<or> c = CHR ''-'') (co_id e)) (ValueError ''invalid corpus id'')
    (raise_if (co_kind e \<notin> {''annual_report'', ''rating_rationale''}) (ValueError ''invalid corpus kind'')
    (raise_if (\<not> starts_with ''https://'' (co_url e)) (ValueError ''corpus URL must use HTTPS'') (Inr e)))"

text \<open>The four fields are texts, as the class declares; other values are not modelled further.\<close>

definition entry_from_mapping :: "json \<Rightarrow> corpus_entry res" where
  "entry_from_mapping j =
     (case j of
        JObj d \<Rightarrow>
          raise_if (\<not> same_keys [''id'', ''kind'', ''source'', ''url''] d) (ValueError ''invalid keys for corpus document'')
            (case (map_of d ''id'', map_of d ''kind'', map_of d ''source'', map_of d ''url'') of
               (Some (JStr i), Some (JStr k), Some (JStr s), Some (JStr u)) \<Rightarrow>
                 check_entry \<lparr>co_id = i, co_kind = k, co_source = s, co_url = u\<rparr>
             | _ \<Rightarrow> Inl (TypeError ''corpus document''))
      | _ \<Rightarrow> Inl (ValueError ''each corpus document must be a mapping''))"

definition load_manifest :: "(json \<Rightarrow> string) \<Rightarrow> json \<Rightarrow> (string \<times> corpus_entry list) res" where
  "load_manifest str payload =
     (case payload of
        JObj d \<Rightarrow>
          raise_if (\<not> same_keys [''name'', ''documents''] d) (ValueError ''manifest must contain exactly name and documents'')
            (res_bind (json_key ''documents'' payload) (\<lambda>documents.
             res_bind (json_items documents) (\<lambda>items.
             res_bind (res_map entry_from_mapping items) (\<lambda>entries.
             raise_if (\<not> distinct (map co_id entries)) (ValueError ''corpus document IDs must be unique'')
               (res_bind (json_key ''name'' payload) (\<lambda>name. Inr (str name, entries)))))))
      | _ \<Rightarrow> Inl (ValueError ''manifest must contain exactly name and documents''))"

section \<open>Downloads\<close>

text \<open>
  How an attempt fails: an \<open>HTTPError\<close> with its status, one of the other connection errors that are tried
  again, or anything else. A transfer is the blocks that are read and the failure that ends it, if any.
\<close>

datatype fetch_failure = HttpStatus nat | Transient | Raised exc

record transfer =
  tr_blocks :: "string list"
  tr_failure :: "fetch_failure option"

type_synonym 'x network = "corpus_entry \<Rightarrow> ('x \<Rightarrow> (fetch_failure + transfer) \<times> 'x)"

text \<open>The files of the output folder, the temporary files left behind, the pauses, and the network.\<close>

record 'x corpus_world =
  cw_files :: "(string, string) dict"
  cw_leftover :: "string list"
  cw_pauses :: "nat list"
  cw_net :: 'x

definition max_attempts :: nat where
  "max_attempts = 4"

definition retried_statuses :: "nat list" where
  "retried_statuses = [408, 425, 429, 500, 502, 503, 504]"

definition entry_file :: "corpus_entry \<Rightarrow> string" where
  "entry_file e = co_id e @ ''.pdf''"

definition lock_of :: "corpus_entry \<Rightarrow> string \<Rightarrow> locked_entry" where
  "lock_of e content = \<lparr>lk_entry = e, lk_filename = entry_file e, lk_sha256 = sha256_hex content, lk_bytes = length content\<rparr>"

text \<open>\<open>while block := response.read(READ_SIZE)\<close>: an empty block is the end.\<close>

definition received :: "transfer \<Rightarrow> string list \<times> fetch_failure option" where
  "received t =
     (let bs = takeWhile (\<lambda>b. b \<noteq> []) (tr_blocks t) in
      (bs, if length bs < length (tr_blocks t) then None else tr_failure t))"

definition pdf_prefix :: "string list \<Rightarrow> string" where
  "pdf_prefix bs = (case bs of [] \<Rightarrow> [] | b # _ \<Rightarrow> take 5 b)"

definition download_once ::
  "'x network \<Rightarrow> corpus_entry \<Rightarrow> 'x corpus_world \<Rightarrow> (fetch_failure + locked_entry) \<times> 'x corpus_world" where
  "download_once net e w =
     (case net e (cw_net w) of
        (Inl failure, x) \<Rightarrow> (Inl failure, w\<lparr>cw_net := x\<rparr>)
      | (Inr t, x) \<Rightarrow>
          (case received t of
             (bs, Some failure) \<Rightarrow> (Inl failure, w\<lparr>cw_net := x, cw_leftover := cw_leftover w @ [concat bs]\<rparr>)
           | (bs, None) \<Rightarrow>
               if pdf_prefix bs \<noteq> ''%PDF-'' then (Inl (Raised (ValueError ''source did not return a PDF'')), w\<lparr>cw_net := x\<rparr>)
               else (Inr (lock_of e (concat bs)),
                     w\<lparr>cw_net := x, cw_files := AList.update (entry_file e) (concat bs) (cw_files w)\<rparr>)))"

text \<open>The attempts that are left; only a connection error pauses before the next.\<close>

fun download_attempts ::
  "'x network \<Rightarrow> corpus_entry \<Rightarrow> nat \<Rightarrow> ('x corpus_world, locked_entry) act" where
  "download_attempts net e 0 w = (Inl (RuntimeError ''failed to download''), w)"
| "download_attempts net e (Suc n) w =
     (case download_once net e w of
        (Inr locked, w') \<Rightarrow> (Inr locked, w')
      | (Inl (Raised x), w') \<Rightarrow> (Inl x, w')
      | (Inl (HttpStatus status), w') \<Rightarrow>
          if status \<notin> set retried_statuses then (Inl (RuntimeError ''source returned HTTP status''), w')
          else download_attempts net e n w'
      | (Inl Transient, w') \<Rightarrow>
          if n = 0 then (Inl (RuntimeError ''failed to download''), w')
          else download_attempts net e n (w'\<lparr>cw_pauses := cw_pauses w' @ [max_attempts - n]\<rparr>))"

definition lock_existing :: "corpus_entry \<Rightarrow> string \<Rightarrow> locked_entry res" where
  "lock_existing e content =
     raise_if (take 5 content \<noteq> ''%PDF-'') (ValueError ''cached source is not a PDF'') (Inr (lock_of e content))"

definition download :: "'x network \<Rightarrow> corpus_entry \<Rightarrow> ('x corpus_world, locked_entry) act" where
  "download net e w =
     (case map_of (cw_files w) (entry_file e) of
        Some content \<Rightarrow> (lock_existing e content, w)
      | None \<Rightarrow> download_attempts net e max_attempts w)"

text \<open>The lock: the fields of an entry in the order of \<open>sort_keys\<close>.\<close>

definition lock_item :: "locked_entry \<Rightarrow> (string \<times> json) list" where
  "lock_item l =
     [(''bytes'', JNum (of_nat (lk_bytes l))), (''filename'', JStr (lk_filename l)), (''id'', JStr (co_id (lk_entry l))),
      (''kind'', JStr (co_kind (lk_entry l))), (''sha256'', JStr (lk_sha256 l)), (''source'', JStr (co_source (lk_entry l))),
      (''url'', JStr (co_url (lk_entry l)))]"

definition lock_payload :: "string \<Rightarrow> locked_entry list \<Rightarrow> json" where
  "lock_payload name locked =
     JObj [(''documents'', JArr (map (JObj \<circ> lock_item) locked)), (''name'', JStr name)]"

definition fetch_corpus :: "'x network \<Rightarrow> (json \<Rightarrow> string) \<Rightarrow> json \<Rightarrow> ('x corpus_world, json) act" where
  "fetch_corpus net str payload =
     act_bind (act_lift (load_manifest str payload)) (\<lambda>(name, entries).
     act_bind (act_map (download net) entries) (\<lambda>locked.
     act_return (lock_payload name locked)))"

section \<open>The audit\<close>

definition verify_pdf :: "(json \<Rightarrow> string) \<Rightarrow> (string, string) dict \<Rightarrow> json \<Rightarrow> string res" where
  "verify_pdf str files item =
     res_bind (json_key ''filename'' item) (\<lambda>name.
     case map_of files (str name) of
       None \<Rightarrow> Inl (OSError ''FileNotFoundError'')
     | Some content \<Rightarrow>
         res_bind (json_key ''sha256'' item) (\<lambda>expected.
         raise_if (sha256_hex content \<noteq> str expected) (ValueError ''checksum mismatch'') (Inr content)))"

datatype audit_outcome =
    VisionRequired
  | Ingested (ao_parser: string) (ao_blocks: nat) (ao_chunks: nat) (ao_tables: nat) (ao_file: string)

record audit_result =
  au_id :: json
  au_kind :: json
  au_filename :: json
  au_sha256 :: json
  au_pages :: nat
  au_digital :: nat
  au_hybrid :: nat
  au_scanned :: nat
  au_outcome :: audit_outcome

text \<open>\<open>write_chunks\<close>: the chunks with the hash of the configuration among their metadata.\<close>

definition stamped :: "string \<Rightarrow> chunk \<Rightarrow> chunk" where
  "stamped config_hash c = with_metadata (AList.update ''config_hash'' (MStr config_hash) (chunk_meta c)) c"

definition audit_parser :: "'w parser \<Rightarrow> 'w parser" where
  "audit_parser P = P\<lparr>ps_prefer_docling := False, ps_fail_on_vision := True\<rparr>"

definition route_count :: "page_route \<Rightarrow> routing_decision list \<Rightarrow> nat" where
  "route_count r decisions = length (filter (\<lambda>d. rd_route d = r) decisions)"

text \<open>The result with the routes of the pages, before the decision to ingest.\<close>

definition audit_routes :: "'w parser \<Rightarrow> (json \<Rightarrow> string) \<Rightarrow> json \<Rightarrow> string \<Rightarrow> audit_result res" where
  "audit_routes P str item content =
     res_bind (json_key ''filename'' item) (\<lambda>name.
     res_bind (res_bind (ps_open P (str name) content) (route_file P)) (\<lambda>decisions.
     res_bind (json_key ''id'' item) (\<lambda>i.
     res_bind (json_key ''kind'' item) (\<lambda>kind.
     res_bind (json_key ''sha256'' item) (\<lambda>hash.
     Inr \<lparr>au_id = i, au_kind = kind, au_filename = name, au_sha256 = hash, au_pages = length decisions,
       au_digital = route_count Digital decisions, au_hybrid = route_count Hybrid decisions,
       au_scanned = route_count Scanned decisions, au_outcome = VisionRequired\<rparr>)))))"

text \<open>The chunk files written so far stand beside the world of the parser.\<close>

definition ingest_digital ::
  "'w parser \<Rightarrow> chunker_config \<Rightarrow> string \<Rightarrow> (json \<Rightarrow> string) \<Rightarrow> string \<Rightarrow> audit_result \<Rightarrow>
     ((string, chunk list) dict \<times> 'w, audit_result) act" where
  "ingest_digital P cfg config_hash str content r = (\<lambda>(written, w).
     case parse (audit_parser P) (str (au_filename r)) content None None w of
       (Inl e, w') \<Rightarrow> (Inl e, (written, w'))
     | (Inr d, w') \<Rightarrow>
         (case chunk_document cfg d of
            Inl e \<Rightarrow> (Inl e, (written, w'))
          | Inr chunks \<Rightarrow>
              let output = str (au_id r) @ ''.jsonl'' in
              (Inr (r\<lparr>au_outcome := Ingested (pd_parser d) (length (doc_blocks d)) (length chunks)
                      (length (filter is_table chunks)) output\<rparr>),
               (AList.update output (map (stamped config_hash) chunks) written, w'))))"

definition audit_document ::
  "'w parser \<Rightarrow> chunker_config \<Rightarrow> string \<Rightarrow> (json \<Rightarrow> string) \<Rightarrow> json \<Rightarrow> string \<Rightarrow>
     ((string, chunk list) dict \<times> 'w, audit_result) act" where
  "audit_document P cfg config_hash str item content =
     act_bind (act_lift (audit_routes P str item content)) (\<lambda>r.
     if 0 < au_hybrid r \<or> 0 < au_scanned r then act_return r
     else ingest_digital P cfg config_hash str content r)"

definition chunks_of_result :: "audit_result \<Rightarrow> nat" where   \<comment> \<open>\<open>result["chunks"] or 0\<close>\<close>
  "chunks_of_result r = (case au_outcome r of VisionRequired \<Rightarrow> 0 | Ingested _ _ n _ _ \<Rightarrow> n)"

definition tables_of_result :: "audit_result \<Rightarrow> nat" where
  "tables_of_result r = (case au_outcome r of VisionRequired \<Rightarrow> 0 | Ingested _ _ _ n _ \<Rightarrow> n)"

definition is_ingested :: "audit_result \<Rightarrow> bool" where
  "is_ingested r = (au_outcome r \<noteq> VisionRequired)"

record audit_summary =
  um_documents :: nat
  um_ingested :: nat
  um_vision :: nat
  um_pages :: nat
  um_chunks :: nat
  um_tables :: nat

definition summarize_audit :: "audit_result list \<Rightarrow> audit_summary" where
  "summarize_audit rs =
     \<lparr>um_documents = length rs, um_ingested = length (filter is_ingested rs),
      um_vision = length (filter (\<lambda>r. \<not> is_ingested r) rs), um_pages = sum_list (map au_pages rs),
      um_chunks = sum_list (map chunks_of_result rs), um_tables = sum_list (map tables_of_result rs)\<rparr>"

text \<open>\<open>main\<close>: the report is written before the gate decides; the gate is the exit status.\<close>

definition audit_item ::
  "'w parser \<Rightarrow> chunker_config \<Rightarrow> string \<Rightarrow> (json \<Rightarrow> string) \<Rightarrow> (string, string) dict \<Rightarrow> json \<Rightarrow>
     ((string, chunk list) dict \<times> 'w, audit_result) act" where
  "audit_item P cfg config_hash str files item =
     act_bind (act_lift (verify_pdf str files item)) (\<lambda>content. audit_document P cfg config_hash str item content)"

definition audit_corpus ::
  "'w parser \<Rightarrow> chunker_config \<Rightarrow> string \<Rightarrow> (json \<Rightarrow> string) \<Rightarrow> (string, string) dict \<Rightarrow> nat \<Rightarrow> json \<Rightarrow>
     ((string, chunk list) dict \<times> 'w, json \<times> audit_result list \<times> audit_summary \<times> bool) act" where
  "audit_corpus P cfg config_hash str files min_ingested lock =
     act_bind (act_lift (res_bind (json_key ''documents'' lock) json_items)) (\<lambda>documents.
     act_bind (act_map (audit_item P cfg config_hash str files) documents) (\<lambda>results.
     act_bind (act_lift (json_key ''name'' lock)) (\<lambda>name.
     let summary = summarize_audit results in
     act_return (name, results, summary, min_ingested \<le> um_ingested summary))))"

section \<open>Downloads keep what is there\<close>

definition keeps_files :: "(string, string) dict \<Rightarrow> (string, string) dict \<Rightarrow> bool" where
  "keeps_files old new = (\<forall>f c. map_of old f = Some c \<longrightarrow> map_of new f = Some c)"

lemma keeps_files_refl [simp]: "keeps_files fs fs"
  by (simp add: keeps_files_def)

lemma keeps_files_trans: "keeps_files a b \<Longrightarrow> keeps_files b c \<Longrightarrow> keeps_files a c"
  by (simp add: keeps_files_def)

text \<open>The entry's file holds a PDF and the lock describes it.\<close>

definition locked_in :: "(string, string) dict \<Rightarrow> corpus_entry \<Rightarrow> locked_entry \<Rightarrow> bool" where
  "locked_in fs e l = (\<exists>c. map_of fs (entry_file e) = Some c \<and> take 5 c = ''%PDF-'' \<and> l = lock_of e c)"

lemma locked_in_kept: "locked_in a e l \<Longrightarrow> keeps_files a b \<Longrightarrow> locked_in b e l"
  by (auto simp: locked_in_def keeps_files_def)

lemma prefix_of_content:
  assumes "pdf_prefix bs = ''%PDF-''"
  shows "take 5 (concat bs) = ''%PDF-''"
proof -
  obtain b rest where bs: "bs = b # rest" "take 5 b = ''%PDF-''" using assms by (cases bs) (auto simp: pdf_prefix_def)
  then have "length (take 5 b) = 5" by simp
  then have "5 \<le> length b" by simp
  then show ?thesis using bs by simp
qed

lemma download_once_Inr:
  assumes "download_once net e w = (Inr l, w')" "map_of (cw_files w) (entry_file e) = None"
  shows "locked_in (cw_files w') e l \<and> keeps_files (cw_files w) (cw_files w')"
  using assms
  by (auto simp: download_once_def locked_in_def keeps_files_def dict_simps prefix_of_content
      split: prod.splits sum.splits option.splits if_splits)

lemma download_once_Inl: "download_once net e w = (Inl f, w') \<Longrightarrow> cw_files w' = cw_files w"
  by (auto simp: download_once_def split: prod.splits sum.splits option.splits if_splits)

lemma download_attempts_Inr:
  assumes "download_attempts net e n w = (Inr l, w')" "map_of (cw_files w) (entry_file e) = None"
  shows "locked_in (cw_files w') e l \<and> keeps_files (cw_files w) (cw_files w')"
  using assms
proof (induction n arbitrary: w)
  case (Suc n)
  obtain r w1 where once: "download_once net e w = (r, w1)" by fastforce
  show ?case
  proof (cases r)
    case (Inr l')
    then show ?thesis using Suc.prems once download_once_Inr by fastforce
  next
    case (Inl f)
    have files: "cw_files w1 = cw_files w" using once Inl download_once_Inl by fastforce
    show ?thesis
    proof (cases f)
      case (HttpStatus status)
      then show ?thesis
        using Suc.prems once Inl files Suc.IH [of w1] by (auto split: if_splits)
    next
      case Transient
      then show ?thesis
        using Suc.prems once Inl files Suc.IH [of "w1\<lparr>cw_pauses := cw_pauses w1 @ [max_attempts - n]\<rparr>"]
        by (auto split: if_splits)
    next
      case (Raised x)
      then show ?thesis using Suc.prems once Inl by simp
    qed
  qed
qed simp

lemma download_Inr:
  assumes "download net e w = (Inr l, w')"
  shows "locked_in (cw_files w') e l \<and> keeps_files (cw_files w) (cw_files w')"
proof (cases "map_of (cw_files w) (entry_file e)")
  case None
  then show ?thesis using assms download_attempts_Inr by (fastforce simp: download_def)
next
  case (Some content)
  then show ?thesis
    using assms by (auto simp: download_def lock_existing_def raise_if_Inr_iff locked_in_def)
qed

lemma download_again:
  assumes "locked_in (cw_files w) e l"
  shows "download net e w = (Inr l, w)"
  using assms by (auto simp: locked_in_def download_def lock_existing_def raise_if_def)

lemma downloads_Inr:
  assumes "act_map (download net) es w = (Inr ls, w')"
  shows "list_all2 (locked_in (cw_files w')) es ls \<and> keeps_files (cw_files w) (cw_files w')"
  using assms
proof (induction es arbitrary: w ls)
  case (Cons e es)
  obtain l w1 rest where one: "download net e w = (Inr l, w1)" and more: "act_map (download net) es w1 = (Inr rest, w')"
    and ls: "ls = l # rest"
    using Cons.prems by (auto simp: act_bind_Inr_iff act_return_iff)
  note first = download_Inr [OF one] and others = Cons.IH [OF more]
  then show ?case using keeps_files_trans locked_in_kept by (auto simp: ls)
qed (simp add: act_return_def)

lemma downloads_again:
  assumes "list_all2 (locked_in (cw_files w)) es ls"
  shows "act_map (download net) es w = (Inr ls, w)"
  using assms
  by (induction rule: list_all2_induct) (simp_all add: act_return_def act_bind_def download_again)

lemma verify_locked:
  assumes "locked_in files e l" "\<And>s. str (JStr s) = s"
  shows "\<exists>c. verify_pdf str files (JObj (lock_item l)) = Inr c \<and> take 5 c = ''%PDF-''"
  using assms by (auto simp: locked_in_def verify_pdf_def lock_item_def json_key_def lock_of_def raise_if_def)

section \<open>The audit adds up\<close>

lemma route_counts: "route_count Digital ds + route_count Hybrid ds + route_count Scanned ds = length ds"
proof (induction ds)
  case (Cons d ds)
  then show ?case by (cases "rd_route d") (simp_all add: route_count_def)
qed (simp add: route_count_def)

text \<open>A document is ingested only when all its pages are digital; its file then holds the chunks of the parsed
  document, and the counts are theirs. Otherwise nothing is written.\<close>

lemma audit_document_Inr:
  assumes "audit_document P cfg h str item content (written, w) = (Inr r, (written', w'))"
  shows "au_digital r + au_hybrid r + au_scanned r = au_pages r
    \<and> (if is_ingested r
       then au_digital r = au_pages r
         \<and> (\<exists>d chunks. parse (audit_parser P) (str (au_filename r)) content None None w = (Inr d, w')
              \<and> chunk_document cfg d = Inr chunks \<and> chunks_of_result r = length chunks
              \<and> tables_of_result r = length (filter is_table chunks)
              \<and> written' = AList.update (str (au_id r) @ ''.jsonl'') (map (stamped h) chunks) written)
       else written' = written \<and> au_digital r < au_pages r)"
proof -
  obtain q where q: "audit_routes P str item content = Inr q"
    and rest: "(if 0 < au_hybrid q \<or> 0 < au_scanned q then act_return q
      else ingest_digital P cfg h str content q) (written, w) = (Inr r, (written', w'))"
    using assms by (auto simp: audit_document_def act_bind_Inr_iff act_lift_iff)
  have counts: "au_digital q + au_hybrid q + au_scanned q = au_pages q" "au_outcome q = VisionRequired"
    using q route_counts by (auto simp: audit_routes_def res_bind_Inr_iff)
  show ?thesis
  proof (cases "0 < au_hybrid q \<or> 0 < au_scanned q")
    case True
    then have "r = q" "written' = written" using rest by (auto simp: act_return_iff)
    then show ?thesis using counts True by (auto simp: is_ingested_def)
  next
    case False
    then obtain d chunks where "parse (audit_parser P) (str (au_filename q)) content None None w = (Inr d, w')"
      "chunk_document cfg d = Inr chunks"
      "r = q\<lparr>au_outcome := Ingested (pd_parser d) (length (doc_blocks d)) (length chunks)
         (length (filter is_table chunks)) (str (au_id q) @ ''.jsonl'')\<rparr>"
      "written' = AList.update (str (au_id q) @ ''.jsonl'') (map (stamped h) chunks) written"
      using rest by (auto simp: ingest_digital_def Let_def split: prod.splits sum.splits)
    then show ?thesis
      using counts False by (auto simp: is_ingested_def chunks_of_result_def tables_of_result_def)
  qed
qed

lemma audit_summary_adds_up: "um_documents (summarize_audit rs) = um_ingested (summarize_audit rs) + um_vision (summarize_audit rs)"
  by (simp add: summarize_audit_def sum_length_filter_compl)

section \<open>Properties\<close>

text \<open>C36: What is fetched can be audited and fetched again. After a successful fetch every document of the lock passes the audit's
  check of its file, with a content that starts as a PDF does; files that were there before are
  unchanged; and fetching the same manifest again, whatever the network does, yields the same lock and changes nothing.\<close>

theorem locked_corpus_verifies:
  assumes "fetch_corpus net str payload w = (Inr lock, w')" "\<And>s. str (JStr s) = s"
  shows "(\<exists>items. json_key ''documents'' lock = Inr (JArr items)
        \<and> list_all (\<lambda>item. \<exists>c. verify_pdf str (cw_files w') item = Inr c \<and> take 5 c = ''%PDF-'') items)
    \<and> (\<forall>f c. map_of (cw_files w) f = Some c \<longrightarrow> map_of (cw_files w') f = Some c)
    \<and> fetch_corpus other str payload w' = (Inr lock, w')"
proof -
  obtain name entries locked where manifest: "load_manifest str payload = Inr (name, entries)"
    and run: "act_map (download net) entries w = (Inr locked, w')" and lock: "lock = lock_payload name locked"
    using assms(1) by (auto simp: fetch_corpus_def act_bind_Inr_iff act_lift_iff act_return_iff)
  note done' = downloads_Inr [OF run]
  have "list_all (\<lambda>item. \<exists>c. verify_pdf str (cw_files w') item = Inr c \<and> take 5 c = ''%PDF-'')
      (map (JObj \<circ> lock_item) locked)"
    using done' verify_locked [where files = "cw_files w'" and str = str, OF _ assms(2)]
    by (fastforce simp: list_all_iff list_all2_conv_all_nth in_set_conv_nth)
  moreover have "json_key ''documents'' lock = Inr (JArr (map (JObj \<circ> lock_item) locked))"
    by (simp add: lock lock_payload_def json_key_def)
  moreover have "fetch_corpus other str payload w' = (Inr lock, w')"
    using downloads_again [OF conjunct1 [OF done']] manifest lock
    by (simp add: fetch_corpus_def act_bind_def act_lift_def act_return_def)
  ultimately show ?thesis using done' unfolding keeps_files_def by blast
qed

section \<open>An instance\<close>

definition sample_manifest :: json where
  "sample_manifest = JObj [(''name'', JStr ''n''), (''documents'', JArr [JObj [(''id'', JStr ''a''), (''kind'', JStr ''annual_report''),
     (''source'', JStr ''s''), (''url'', JStr ''https://x'')]])]"

text \<open>The first answer is a 503, the second the document in two blocks.\<close>

definition sample_network :: "nat network" where
  "sample_network = (\<lambda>_ n. (if n = 0 then Inl (HttpStatus 503) else Inr \<lparr>tr_blocks = [''%PDF-1'', ''x''], tr_failure = None\<rparr>, n + 1))"

definition fresh_world :: "nat corpus_world" where
  "fresh_world = \<lparr>cw_files = [], cw_leftover = [], cw_pauses = [], cw_net = 0\<rparr>"

lemma sample_fetch: "\<exists>lock w'. fetch_corpus sample_network text_only sample_manifest fresh_world = (Inr lock, w')"
  if "text_only = (\<lambda>j. case j of JStr s \<Rightarrow> s | _ \<Rightarrow> [])"
proof -
  have "load_manifest text_only sample_manifest
      = Inr (''n'', [\<lparr>co_id = ''a'', co_kind = ''annual_report'', co_source = ''s'', co_url = ''https://x''\<rparr>])"
    unfolding that by code_simp
  then show ?thesis
    by (simp add: fetch_corpus_def act_bind_def act_lift_def act_return_def download_def fresh_world_def max_attempts_def
        numeral_eq_Suc download_once_def sample_network_def retried_statuses_def received_def pdf_prefix_def)
qed

theorem locked_corpus_verifies_witness:
  "\<exists>lock w'. fetch_corpus sample_network (\<lambda>j. case j of JStr s \<Rightarrow> s | _ \<Rightarrow> []) sample_manifest fresh_world = (Inr lock, w')
    \<and> fetch_corpus (\<lambda>_ n. (Inl Transient, n)) (\<lambda>j. case j of JStr s \<Rightarrow> s | _ \<Rightarrow> []) sample_manifest w' = (Inr lock, w')"
proof -
  obtain lock w' where run: "fetch_corpus sample_network (\<lambda>j. case j of JStr s \<Rightarrow> s | _ \<Rightarrow> []) sample_manifest fresh_world
      = (Inr lock, w')"
    using sample_fetch [OF refl] by blast
  have "(case JStr s of JStr s \<Rightarrow> s | _ \<Rightarrow> []) = s" for s by simp
  from locked_corpus_verifies [OF run this] run show ?thesis by blast
qed

end
