(* ===== verification/EvalRun.thy ===== *)
theory EvalRun
  imports Grounding GenerationProps
begin

text \<open>
  \<open>evals/run.py\<close>: loading the evaluation data, the retrieval sweep over fixtures or live pipelines, live
  reasoning in both modes, and the report. Reading files, decoding JSON and YAML with the contracts of
  \<open>evals/schema.py\<close>, and the retrieval pipelines are parameters; reasoning is \<open>Grounding.run_reasoning\<close>.
\<close>

section \<open>Loading\<close>

text \<open>\<open>CASE_ADAPTER.validate_json\<close> of the lines that are not blank.\<close>

fun read_cases :: "(string \<Rightarrow> eval_case res) \<Rightarrow> string list \<Rightarrow> eval_case list res" where
  "read_cases decode [] = Inr []"
| "read_cases decode (line # rest) =
     (if strip line = [] then read_cases decode rest
      else case decode line of
          Inl e \<Rightarrow> Inl (if is_value_error e then ValueError ''invalid eval case'' else e)
        | Inr c \<Rightarrow> res_bind (read_cases decode rest) (\<lambda>cs. Inr (c # cs)))"

definition load_cases :: "(string \<Rightarrow> eval_case res) \<Rightarrow> string list res \<Rightarrow> eval_case list res" where
  "load_cases decode content =
     res_bind content (\<lambda>ls.
     res_bind (read_cases decode ls) (\<lambda>cases.
     raise_if (cases = []) (ValueError ''evaluation dataset is empty'')
    (raise_if (\<not> distinct (map ec_question cases)) (ValueError ''evaluation question_id values must be unique'')
    (Inr cases))))"

definition load_retrieval_records ::
  "(json \<Rightarrow> retrieved_item res) \<Rightarrow> json \<Rightarrow> (string, (string, retrieved_item list) dict) dict res" where
  "load_retrieval_records item payload =
     (case payload of
        JObj d \<Rightarrow>
          res_map (\<lambda>(strategy, questions).
            case questions of
              JObj qs \<Rightarrow>
                res_bind (res_map (\<lambda>(q, items). res_bind (json_items items) (\<lambda>xs.
                    res_bind (res_map item xs) (\<lambda>is. Inr (q, is)))) qs) (\<lambda>r. Inr (strategy, r))
            | _ \<Rightarrow> Inl (ValueError ''retrieval records must be an object'')) d
      | _ \<Rightarrow> Inl (ValueError ''retrieval records must be an object keyed by strategy''))"

definition load_answer_records ::
  "(json \<Rightarrow> prediction res) \<Rightarrow> json \<Rightarrow> (string, (string, prediction) dict) dict res" where
  "load_answer_records prediction payload =
     (case payload of
        JObj d \<Rightarrow>
          res_map (\<lambda>(strategy, questions).
            case questions of
              JObj qs \<Rightarrow>
                res_bind (res_map (\<lambda>(q, p). res_bind (prediction p) (\<lambda>v. Inr (q, v))) qs) (\<lambda>r. Inr (strategy, r))
            | _ \<Rightarrow> Inl (AttributeError ''items'')) d
      | _ \<Rightarrow> Inl (ValueError ''answer records must be an object keyed by strategy''))"

definition file_hash :: "(string \<Rightarrow> string res) \<Rightarrow> string list \<Rightarrow> string res" where
  "file_hash read paths = res_bind (res_map read paths) (\<lambda>contents. Inr (sha256_hex (concat contents)))"

definition prompt_folder :: string where
  "prompt_folder = ''src/findociq/reason/prompts/''"

definition reasoning_prompt_paths :: "string \<Rightarrow> string list res" where
  "reasoning_prompt_paths mode =
     (if mode = ''single_pass'' then Inr [prompt_folder @ ''single_pass_reason.txt'']
      else if mode = ''two_pass''
      then Inr [prompt_folder @ ''pass1_extract.txt'', prompt_folder @ ''pass2_reason.txt'', prompt_folder @ ''pass2_retry.txt'']
      else Inl (ValueError ''unsupported reasoning mode''))"

text \<open>\<open>load\<close> is the YAML reader, \<open>relative\<close> resolves a path against the folder of another.\<close>

definition generation_config_paths ::
  "(string \<Rightarrow> json res) \<Rightarrow> (string \<Rightarrow> json \<Rightarrow> string) \<Rightarrow> string \<Rightarrow> string list res" where
  "generation_config_paths load relative source =
     res_bind (load source) (\<lambda>payload.
     case payload of
       JObj d \<Rightarrow> (case map_of d ''tier_config'' of
           None \<Rightarrow> Inr [source] | Some JNull \<Rightarrow> Inr [source] | Some tier \<Rightarrow> Inr [source, relative source tier])
     | _ \<Rightarrow> Inl (ValueError ''generation config must be a mapping''))"

section \<open>Results\<close>

datatype backend = Live | Fixture

record strategy_result =
  sr_strategy :: string
  sr_config :: string
  sr_backend :: backend
  sr_retrieval :: retrieval_metrics
  sr_answer :: "answer_metrics option"
  sr_retrieval_by :: "(string \<times> retrieval_metrics) list"
  sr_answer_by :: "(string \<times> answer_metrics) list"

record reasoning_result =
  rn_mode :: string
  rn_config :: string
  rn_backend :: backend
  rn_model :: "string option"
  rn_revision :: "string option"
  rn_retrieval :: "string option"
  rn_answer :: answer_metrics
  rn_answer_by :: "(string \<times> answer_metrics) list"

record sweep_result =
  sw_dataset :: string
  sw_results :: "strategy_result list"
  sw_reasoning :: "reasoning_result list"

record reasoning_prediction = prediction +
  rp_error :: "string option"

section \<open>The sweep\<close>

text \<open>
  A live pipeline retrieves the hits of a question under a trace context; \<open>sv_factory\<close> is \<open>pipeline_factory\<close>.
\<close>

type_synonym 'x live_pipeline = "string \<Rightarrow> trace_context \<Rightarrow> ('x, hit list) act"

record 'x sweep_env =
  sv_log :: "nat \<Rightarrow> rat"
  sv_nfkc :: "string \<Rightarrow> string"
  sv_read :: "string \<Rightarrow> string res"
  sv_index :: string                     \<comment> \<open>\<open>index_config_path\<close>\<close>
  sv_reasoning :: string                 \<comment> \<open>\<open>reasoning_config_dir\<close>\<close>
  sv_dataset :: string                   \<comment> \<open>\<open>dataset_sha256\<close>\<close>
  sv_factory :: "string \<Rightarrow> string \<Rightarrow> ('x, 'x live_pipeline) act"

text \<open>The contract of \<open>RetrievalMetrics\<close>.\<close>

definition checked_metrics :: "retrieval_metrics \<Rightarrow> retrieval_metrics res" where
  "checked_metrics m = raise_if (\<not> scores_ok (rm_scores m)) (ValidationError ''RetrievalMetrics'') (Inr m)"

definition item_of_hit :: "hit \<Rightarrow> retrieved_item res" where
  "item_of_hit h =
     raise_if (ht_rank h < 1) (ValidationError ''RetrievedItem'') (Inr \<lparr>ri_chunk = chunk_id (ht_chunk h), ri_rank = int (ht_rank h)\<rparr>)"

definition retrieve_live ::
  "'x live_pipeline \<Rightarrow> string \<Rightarrow> string \<Rightarrow> string \<Rightarrow> eval_case list \<Rightarrow> ('x, (string, retrieved_item list) dict) act" where
  "retrieve_live pipeline strategy config_hash dataset cases =
     act_bind (act_map (\<lambda>c.
       act_bind (act_lift (for_query (ec_text c) (''retrieval:'' @ strategy) (Some (ec_question c)) (Some config_hash)
         (Some dataset))) (\<lambda>context'.
       act_bind (pipeline (ec_text c) context') (\<lambda>hits.
       act_bind (act_lift (res_map item_of_hit hits)) (\<lambda>items.
       act_return (ec_question c, items))))) cases) (\<lambda>kvs. act_return (dict_of kvs))"

definition strategy_predictions ::
  "'x sweep_env \<Rightarrow> (string, (string, retrieved_item list) dict) dict option \<Rightarrow> eval_case list \<Rightarrow> string \<Rightarrow> string \<Rightarrow>
     ('x, (string, retrieved_item list) dict \<times> backend) act" where
  "strategy_predictions E records cases strategy config_path =
     (case records of
        Some r \<Rightarrow> act_return (dict_get_default r strategy [], Fixture)
      | None \<Rightarrow>
          act_bind (sv_factory E strategy config_path) (\<lambda>pipeline.
          act_bind (act_lift (file_hash (sv_read E) [sv_index E, config_path])) (\<lambda>h.
          act_bind (retrieve_live pipeline strategy h (sv_dataset E) cases) (\<lambda>predictions.
          act_return (predictions, Live)))))"

definition retrieval_by_language ::
  "'x sweep_env \<Rightarrow> eval_case list \<Rightarrow> (string, retrieved_item list) dict \<Rightarrow> (string \<times> retrieval_metrics) list res" where
  "retrieval_by_language E cases predictions =
     res_bind (aggregate_retrieval_by_language (sv_log E) cases predictions) (\<lambda>ms.
     res_map (\<lambda>(l, m). res_bind (checked_metrics m) (\<lambda>m. Inr (l, m))) ms)"

definition score_strategy ::
  "'x sweep_env \<Rightarrow> (string, (string, prediction) dict) dict option \<Rightarrow> eval_case list \<Rightarrow> string \<Rightarrow> string \<Rightarrow>
     (string, retrieved_item list) dict \<times> backend \<Rightarrow> strategy_result res" where
  "score_strategy E answers cases strategy config_path = (\<lambda>(predictions, origin).
     (let own = Option.bind answers (\<lambda>a. map_of a strategy) in
      res_bind (file_hash (sv_read E) [sv_index E, config_path]) (\<lambda>h.
      res_bind (checked_metrics (aggregate_retrieval (sv_log E) cases predictions)) (\<lambda>m.
      res_bind (retrieval_by_language E cases predictions) (\<lambda>by_language.
      res_bind (case own of None \<Rightarrow> Inr [] | Some a \<Rightarrow> aggregate_answers_by_language (sv_nfkc E) cases a) (\<lambda>answers_by.
      Inr \<lparr>sr_strategy = strategy, sr_config = h, sr_backend = origin, sr_retrieval = m,
        sr_answer = map_option (aggregate_answers (sv_nfkc E) cases) own, sr_retrieval_by = by_language,
        sr_answer_by = answers_by\<rparr>))))))"

definition run_strategy ::
  "'x sweep_env \<Rightarrow> (string, (string, retrieved_item list) dict) dict option \<Rightarrow>
     (string, (string, prediction) dict) dict option \<Rightarrow> eval_case list \<Rightarrow> string \<times> string \<Rightarrow> ('x, strategy_result) act" where
  "run_strategy E records answers cases = (\<lambda>(strategy, config_path).
     act_bind (strategy_predictions E records cases strategy config_path) (\<lambda>p.
     act_lift (score_strategy E answers cases strategy config_path p)))"

definition reasoning_path :: "'x sweep_env \<Rightarrow> string \<Rightarrow> string" where
  "reasoning_path E mode = sv_reasoning E @ ''/'' @ mode @ ''.yaml''"

definition fixture_reasoning ::
  "'x sweep_env \<Rightarrow> eval_case list \<Rightarrow> string \<times> (string, prediction) dict \<Rightarrow> reasoning_result res" where
  "fixture_reasoning E cases = (\<lambda>(mode, predictions).
     res_bind (reasoning_prompt_paths mode) (\<lambda>prompts.
     res_bind (file_hash (sv_read E) (reasoning_path E mode # prompts)) (\<lambda>h.
     res_bind (aggregate_answers_by_language (sv_nfkc E) cases predictions) (\<lambda>by_language.
     Inr \<lparr>rn_mode = mode, rn_config = h, rn_backend = Fixture, rn_model = None, rn_revision = None, rn_retrieval = None,
       rn_answer = aggregate_answers (sv_nfkc E) cases predictions, rn_answer_by = by_language\<rparr>))))"

definition run_sweep ::
  "'x sweep_env \<Rightarrow> (string \<times> string) list \<Rightarrow> (string, (string, retrieved_item list) dict) dict option \<Rightarrow>
     (string, (string, prediction) dict) dict option \<Rightarrow> (string, (string, prediction) dict) dict option \<Rightarrow>
     eval_case list \<Rightarrow> ('x, sweep_result) act" where
  "run_sweep E strategies records answers reasoning cases =
     act_bind (act_map (run_strategy E records answers cases) strategies) (\<lambda>results.
     act_bind (act_lift (res_map (fixture_reasoning E cases) (case reasoning of None \<Rightarrow> [] | Some r \<Rightarrow> r))) (\<lambda>modes.
     act_return \<lparr>sw_dataset = sv_dataset E, sw_results = results, sw_reasoning = modes\<rparr>))"

section \<open>The pipelines of a live sweep\<close>

text \<open>
  \<open>_default_pipeline_factory\<close>: the models that are loaded so far and the pipelines that are built. A
  strategy without \<open>rerank_top_k\<close> has no reranker.
\<close>

record ('e, 's, 'r) built_pipeline =
  bp_strategy :: string
  bp_embedder :: 'e
  bp_store :: 's
  bp_reranker :: "'r option"

record ('e, 's, 'r) factory =
  fy_embedder :: "'e option"
  fy_store :: "'s option"
  fy_reranker :: "'r option"
  fy_pipelines :: "(string, ('e, 's, 'r) built_pipeline) dict"

text \<open>\<open>RetrievalRuntimeConfig.from_yaml\<close> says whether the strategy reranks; the three constructors.\<close>

record ('x, 'e, 's, 'r) loaders =
  ld_reranks :: "string \<Rightarrow> ('x, bool) act"
  ld_embedder :: "('x, 'e) act"
  ld_store :: "('x, 's) act"
  ld_reranker :: "('x, 'r) act"

definition on_models :: "('x, 'a) act \<Rightarrow> ('f \<times> 'x, 'a) act" where
  "on_models m = (\<lambda>(f, x). case m x of (r, x') \<Rightarrow> (r, (f, x')))"

definition keep_loaded :: "('f \<Rightarrow> 'm option) \<Rightarrow> ('m \<Rightarrow> 'f \<Rightarrow> 'f) \<Rightarrow> ('x, 'm) act \<Rightarrow> ('f \<times> 'x, 'm) act" where
  "keep_loaded get put load = (\<lambda>(f, x).
     case get f of
       Some m \<Rightarrow> (Inr m, (f, x))
     | None \<Rightarrow> act_bind (on_models load) (\<lambda>m (f, x). (Inr m, (put m f, x))) (f, x))"

definition pipeline_for ::
  "('x, 'e, 's, 'r) loaders \<Rightarrow> string \<Rightarrow> string \<Rightarrow> (('e, 's, 'r) factory \<times> 'x, ('e, 's, 'r) built_pipeline) act" where
  "pipeline_for L strategy strategy_path = (\<lambda>(f, x).
     case map_of (fy_pipelines f) strategy of
       Some p \<Rightarrow> (Inr p, (f, x))
     | None \<Rightarrow>
         act_bind (on_models (ld_reranks L strategy_path)) (\<lambda>reranks.
         act_bind (keep_loaded fy_embedder (\<lambda>m. fy_embedder_update (\<lambda>_. Some m)) (ld_embedder L)) (\<lambda>embedder.
         act_bind (keep_loaded fy_store (\<lambda>m. fy_store_update (\<lambda>_. Some m)) (ld_store L)) (\<lambda>store.
         act_bind (if reranks
                   then act_bind (keep_loaded fy_reranker (\<lambda>m. fy_reranker_update (\<lambda>_. Some m)) (ld_reranker L))
                          (\<lambda>r. act_return (Some r))
                   else act_return None) (\<lambda>reranker (f, x).
         let p = \<lparr>bp_strategy = strategy, bp_embedder = embedder, bp_store = store, bp_reranker = reranker\<rparr> in
         (Inr p, (f\<lparr>fy_pipelines := AList.update strategy p (fy_pipelines f)\<rparr>, x)))))) (f, x))"

section \<open>Live reasoning\<close>

text \<open>\<open>CitationTarget.model_validate(item.model_dump(mode="json"))\<close>\<close>

definition target_of :: "citation \<Rightarrow> citation_target" where
  "target_of c = \<lparr>tg_document = ct_document c, tg_page = ct_page c, tg_bbox = Some (ct_bbox c)\<rparr>"

definition evidence_hits ::
  "'x live_pipeline \<Rightarrow> string \<Rightarrow> string \<Rightarrow> string option \<Rightarrow> eval_case list \<Rightarrow> ('x, (string, hit list) dict) act" where
  "evidence_hits pipeline strategy config_hash dataset cases =
     act_bind (act_map (\<lambda>c.
       act_bind (act_lift (for_query (ec_text c) (''reasoning_evidence:'' @ strategy) (Some (ec_question c))
         (Some config_hash) dataset)) (\<lambda>context'.
       act_bind (pipeline (ec_text c) context') (\<lambda>hits. act_return (ec_question c, hits)))) cases)
     (\<lambda>kvs. act_return (dict_of kvs))"

definition caught_error :: "exc \<Rightarrow> bool" where   \<comment> \<open>\<open>except (RuntimeError, ValueError)\<close>\<close>
  "caught_error e = (is_value_error e \<or> (case e of RuntimeError _ \<Rightarrow> True | _ \<Rightarrow> False))"

definition reasoning_prediction_of ::
  "(exc \<Rightarrow> string) \<Rightarrow> reasoning_run res \<Rightarrow> reasoning_prediction res" where
  "reasoning_prediction_of message run =
     (case run of
        Inr r \<Rightarrow> Inr \<lparr>pn_answer = an_text (rr_answer r), pn_citations = map target_of (an_citations (rr_answer r)), rp_error = None\<rparr>
      | Inl e \<Rightarrow>
          if caught_error e
          then Inr \<lparr>pn_answer = [], pn_citations = [], rp_error = Some (exc_name e @ '': '' @ message e)\<rparr>
          else Inl e)"

record 'x reasoning_env =
  re_sweep :: "'x sweep_env"
  re_pipeline :: "'x live_pipeline"
  re_strategy :: string                               \<comment> \<open>\<open>retrieval_strategy\<close>\<close>
  re_retrieval_path :: string
  re_generation_paths :: "string list res"            \<comment> \<open>\<open>_generation_config_paths\<close>\<close>
  re_config :: "string \<Rightarrow> pipeline_config res"         \<comment> \<open>\<open>ReasoningPipelineConfig.from_yaml\<close>\<close>
  re_tools :: tools
  re_client :: client
  re_model :: string
  re_revision :: string
  re_dataset :: "string option"
  re_message :: "exc \<Rightarrow> string"                      \<comment> \<open>\<open>str(error)\<close>\<close>

definition reason_case ::
  "'x reasoning_env \<Rightarrow> string \<Rightarrow> string \<Rightarrow> pipeline_config \<Rightarrow> (string, hit list) dict \<Rightarrow> eval_case \<Rightarrow>
     (string \<times> reasoning_prediction) res" where
  "reason_case R mode config_hash cfg hits c =
     res_bind (for_query (ec_text c) (''reasoning:'' @ mode) (Some (ec_question c)) (Some config_hash) (re_dataset R)) (\<lambda>_.
     res_bind (reasoning_prediction_of (re_message R)
       (run_reasoning cfg (re_tools R) (re_client R) (ec_text c) (dict_get_default hits (ec_question c) []))) (\<lambda>p.
     Inr (ec_question c, p)))"

definition reason_mode ::
  "'x reasoning_env \<Rightarrow> eval_case list \<Rightarrow> (string, hit list) dict \<Rightarrow> string \<Rightarrow>
     (reasoning_result \<times> (string, reasoning_prediction) dict) res" where
  "reason_mode R cases hits mode =
     (let E = re_sweep R; pipeline_path = reasoning_path E mode in
      res_bind (re_config R pipeline_path) (\<lambda>cfg.
      res_bind (re_generation_paths R) (\<lambda>generation.
      res_bind (reasoning_prompt_paths mode) (\<lambda>prompts.
      res_bind (file_hash (sv_read E) (pipeline_path # generation @ [re_retrieval_path R, sv_index E] @ prompts)) (\<lambda>h.
      res_bind (res_map (reason_case R mode h cfg hits) cases) (\<lambda>kvs.
      let predictions = dict_of kvs; plain = map (\<lambda>(q, p). (q, prediction.truncate p)) predictions in
      res_bind (aggregate_answers_by_language (sv_nfkc E) cases plain) (\<lambda>by_language.
      Inr (\<lparr>rn_mode = mode, rn_config = h, rn_backend = Live, rn_model = Some (re_model R), rn_revision = Some (re_revision R),
             rn_retrieval = Some (re_strategy R), rn_answer = aggregate_answers (sv_nfkc E) cases plain,
             rn_answer_by = by_language\<rparr>, predictions))))))))"

definition reasoning_modes :: "string list" where
  "reasoning_modes = [''single_pass'', ''two_pass'']"

definition run_live_reasoning ::
  "'x reasoning_env \<Rightarrow> eval_case list \<Rightarrow>
     ('x, reasoning_result list \<times> (string, (string, reasoning_prediction) dict) dict) act" where
  "run_live_reasoning R cases =
     act_bind (act_lift (file_hash (sv_read (re_sweep R)) [sv_index (re_sweep R), re_retrieval_path R])) (\<lambda>h.
     act_bind (evidence_hits (re_pipeline R) (re_strategy R) h (re_dataset R) cases) (\<lambda>hits.
     act_bind (act_lift (res_map (reason_mode R cases hits) reasoning_modes)) (\<lambda>runs.
     act_return (map fst runs, zip reasoning_modes (map snd runs)))))"

section \<open>The report\<close>

text \<open>\<open>f"{value:.3f}"\<close> and \<open>f"{value:+.3f}"\<close> of a rational: rounded to thousandths, half to even.\<close>

definition pad3 :: "nat \<Rightarrow> string" where
  "pad3 n = (if n < 10 then ''00'' else if n < 100 then ''0'' else []) @ str_of_nat n"

definition thousandths :: "rat \<Rightarrow> nat" where
  "thousandths v = (let (n, d) = quotient_of \<bar>v\<bar> in half_even (1000 * nat n) (nat d))"

definition fixed3 :: "rat \<Rightarrow> string" where
  "fixed3 v =
     (if v < 0 then ''-'' else []) @ str_of_nat (thousandths v div 1000) @ ''.'' @ pad3 (thousandths v mod 1000)"

definition signed3 :: "rat \<Rightarrow> string" where
  "signed3 v = (if v < 0 then [] else ''+'') @ fixed3 v"

definition optional_metric :: "rat option \<Rightarrow> string" where
  "optional_metric v = (case v of None \<Rightarrow> ''-'' | Some x \<Rightarrow> fixed3 x)"

definition table_row :: "string list \<Rightarrow> string" where
  "table_row cells = ''| '' @ join '' | '' cells @ '' |''"

definition score_cells :: "retrieval_metrics \<Rightarrow> string list" where
  "score_cells m =
     str_of_nat (rm_count m) # map fixed3 [rs_recall1 (rm_scores m), rs_recall5 (rm_scores m), rs_recall8 (rm_scores m),
       rs_mrr (rm_scores m), rs_ndcg8 (rm_scores m)]"

definition backend_name :: "backend \<Rightarrow> string" where
  "backend_name b = (case b of Live \<Rightarrow> ''live'' | Fixture \<Rightarrow> ''fixture'')"

definition retrieval_row :: "strategy_result \<Rightarrow> string" where
  "retrieval_row r = table_row (sr_strategy r # backend_name (sr_backend r) # score_cells (sr_retrieval r))"

definition answer_row :: "strategy_result \<times> answer_metrics \<Rightarrow> string" where
  "answer_row = (\<lambda>(r, m). table_row [sr_strategy r, str_of_nat (am_count m), fixed3 (am_exact m), optional_metric (am_numeric m),
     optional_metric (am_text m), fixed3 (am_precision m), fixed3 (am_recall m), fixed3 (am_f1 m)])"

definition answered_results :: "strategy_result list \<Rightarrow> (strategy_result \<times> answer_metrics) list" where
  "answered_results rs = List.map_filter (\<lambda>r. map_option (\<lambda>m. (r, m)) (sr_answer r)) rs"

definition or_dash :: "string option \<Rightarrow> string" where   \<comment> \<open>\<open>value or '-'\<close>\<close>
  "or_dash s = (case s of Some (c # cs) \<Rightarrow> c # cs | _ \<Rightarrow> ''-'')"

definition reasoning_row :: "reasoning_result \<Rightarrow> string" where
  "reasoning_row r = table_row [rn_mode r, backend_name (rn_backend r), or_dash (rn_model r), or_dash (rn_retrieval r),
     str_of_nat (am_count (rn_answer r)), fixed3 (am_exact (rn_answer r)), optional_metric (am_numeric (rn_answer r)),
     fixed3 (am_f1 (rn_answer r))]"

definition language_rows :: "strategy_result \<Rightarrow> string list" where
  "language_rows r = map (\<lambda>(l, m). table_row (sr_strategy r # l # score_cells m)) (sr_retrieval_by r)"

text \<open>\<open>{entry.language: ... for entry in ...}\<close> with both languages; the gap is Hindi minus English.\<close>

definition both_languages :: "(string \<times> 'm) list \<Rightarrow> ('m \<times> 'm) option" where
  "both_languages ms =
     (case (map_of (dict_of ms) ''en'', map_of (dict_of ms) ''hi'') of (Some e, Some h) \<Rightarrow> Some (e, h) | _ \<Rightarrow> None)"

definition retrieval_gap :: "strategy_result \<Rightarrow> string list" where
  "retrieval_gap r =
     (case both_languages (sr_retrieval_by r) of
        None \<Rightarrow> []
      | Some (e, h) \<Rightarrow> [table_row (sr_strategy r # map (\<lambda>f. signed3 (f (rm_scores h) - f (rm_scores e)))
          [rs_recall1, rs_recall5, rs_mrr, rs_ndcg8])])"

definition reasoning_language_rows :: "reasoning_result \<Rightarrow> string list" where
  "reasoning_language_rows r = map (\<lambda>(l, m). table_row [rn_mode r, l, str_of_nat (am_count m), fixed3 (am_exact m),
     optional_metric (am_numeric m), fixed3 (am_f1 m)]) (rn_answer_by r)"

definition numeric_gap :: "answer_metrics \<Rightarrow> answer_metrics \<Rightarrow> string" where
  "numeric_gap e h =
     (case (am_numeric e, am_numeric h) of (Some a, Some b) \<Rightarrow> signed3 (b - a) | _ \<Rightarrow> ''-'')"

definition reasoning_gap :: "reasoning_result \<Rightarrow> string list" where
  "reasoning_gap r =
     (case both_languages (rn_answer_by r) of
        None \<Rightarrow> []
      | Some (e, h) \<Rightarrow> [table_row [rn_mode r, numeric_gap e h, signed3 (am_f1 h - am_f1 e)]])"

definition report_lines :: "sweep_result \<Rightarrow> string list" where
  "report_lines w =
     [''# FinDocIQ retrieval sweep'', [], ''Dataset SHA-256: `'' @ sw_dataset w @ ''`'', [], ''## Retrieval quality'', [],
      ''| Strategy | Backend | Queries | Recall@1 | Recall@5 | Recall@8 | MRR | nDCG@8 |'',
      ''|---|---:|---:|---:|---:|---:|---:|---:|'']
     @ map retrieval_row (sw_results w)
     @ (if answered_results (sw_results w) = [] then []
        else [[], ''## Answer quality'', [],
              ''| Strategy | Answers | Exact | Numeric exact | Text exact | Citation P | Citation R | Citation F1 |'',
              ''|---|---:|---:|---:|---:|---:|---:|---:|'']
             @ map answer_row (answered_results (sw_results w)))
     @ (if sw_reasoning w = [] then []
        else [[], ''## Reasoning comparison'', [],
              ''| Mode | Backend | Model | Retrieval | Answers | Exact | Numeric exact | Citation F1 |'',
              ''|---|---|---|---|---:|---:|---:|---:|'']
             @ map reasoning_row (sw_reasoning w))
     @ (if \<not> list_ex (\<lambda>r. 1 < length (sr_retrieval_by r)) (sw_results w) then []
        else [[], ''## Retrieval quality by query language'', [],
              ''| Strategy | Language | Queries | Recall@1 | Recall@5 | Recall@8 | MRR | nDCG@8 |'',
              ''|---|---|---:|---:|---:|---:|---:|---:|'']
             @ concat (map language_rows (sw_results w))
             @ [[], ''### Hindi minus English retrieval gap'', [],
                ''| Strategy | Recall@1 gap | Recall@5 gap | MRR gap | nDCG@8 gap |'', ''|---|---:|---:|---:|---:|'']
             @ concat (map retrieval_gap (sw_results w)))
     @ (if \<not> list_ex (\<lambda>r. 1 < length (rn_answer_by r)) (sw_reasoning w) then []
        else [[], ''## Reasoning quality by query language'', [],
              ''| Mode | Language | Answers | Exact | Numeric exact | Citation F1 |'', ''|---|---|---:|---:|---:|---:|'']
             @ concat (map reasoning_language_rows (sw_reasoning w))
             @ [[], ''### Hindi minus English reasoning gap'', [], ''| Mode | Numeric exact gap | Citation F1 gap |'',
                ''|---|---:|---:|'']
             @ concat (map reasoning_gap (sw_reasoning w)))"

definition render_markdown :: "sweep_result \<Rightarrow> string" where
  "render_markdown w = join newline (report_lines w) @ newline"

section \<open>Scores of a sweep\<close>

text \<open>A ranking that repeats no chunk; every question of a dictionary of rankings has one.\<close>

definition ranks_once :: "(string, retrieved_item list) dict \<Rightarrow> bool" where
  "ranks_once predictions = list_all (\<lambda>(_, items). distinct (map ri_chunk items)) predictions"

lemma aggregate_scores_ok:
  assumes "log_ok lg" "ranks_once predictions"
  shows "scores_ok (rm_scores (aggregate_retrieval lg cases predictions))"
proof -
  let ?vs = "map (\<lambda>c. score_retrieval_case lg (ec_relevant c) (dict_get_default predictions (ec_question c) [])) cases"
  have "distinct (map ri_chunk (dict_get_default predictions q []))" for q
    using assms(2)
    by (auto simp: ranks_once_def list_all_iff dict_get_default_def dest!: map_of_SomeD split: option.split)
  then have each: "list_all scores_ok ?vs" using scores_unit [OF assms(1)] by (simp add: list_all_iff)
  then have "unit_score (mean (map f ?vs))" if "f \<in> {rs_recall1, rs_recall5, rs_recall8, rs_mrr, rs_ndcg8}" for f
    using that by (intro mean_unit) (auto simp: list_all_iff scores_ok_def)
  then show ?thesis
    by (auto simp: aggregate_retrieval_def Let_def scores_ok_def zero_scores_def unit_score_def comp_def)
qed

lemma group_by_language_Inr:
  assumes "\<forall>c \<in> set cs. strip (ec_language c) \<noteq> []"
  shows "\<exists>d'. group_by_language cs d = Inr d'"
  using assms by (induction cs arbitrary: d) (simp_all add: raise_if_def)

lemma by_language_Inr:
  assumes "\<forall>c \<in> set cases. strip (ec_language c) \<noteq> []"
  shows "\<exists>ms. by_language score cases = Inr ms \<and> (\<forall>(l, m) \<in> set ms. \<exists>cs. m = score cs)"
  using group_by_language_Inr [OF assms, of "[]"] by (auto simp: by_language_def)

lemma retrieval_by_language_Inr:
  assumes "log_ok (sv_log E)" "ranks_once predictions" "\<forall>c \<in> set cases. strip (ec_language c) \<noteq> []"
  shows "\<exists>ms. retrieval_by_language E cases predictions = Inr ms
    \<and> (\<forall>(l, m) \<in> set ms. scores_ok (rm_scores m))"
proof -
  obtain ms where ms: "aggregate_retrieval_by_language (sv_log E) cases predictions = Inr ms"
    and each: "\<forall>(l, m) \<in> set ms. \<exists>cs. m = aggregate_retrieval (sv_log E) cs predictions"
    using by_language_Inr [OF assms(3), of "\<lambda>cs. aggregate_retrieval (sv_log E) cs predictions"]
    by (auto simp: aggregate_retrieval_by_language_def)
  then have ok: "\<forall>(l, m) \<in> set ms. scores_ok (rm_scores m)" using aggregate_scores_ok [OF assms(1,2)] by fastforce
  have "res_map (\<lambda>(l, m). res_bind (checked_metrics m) (\<lambda>m. Inr (l, m))) xs = Inr xs"
    if "\<forall>(l, m) \<in> set xs. scores_ok (rm_scores m)" for xs
    using that by (induction xs) (auto simp: checked_metrics_def raise_if_def)
  with ms ok show ?thesis by (auto simp: retrieval_by_language_def)
qed

section \<open>Live reasoning\<close>

text \<open>What the record of a question says about its run.\<close>

definition records_run :: "reasoning_run res \<Rightarrow> reasoning_prediction \<Rightarrow> bool" where
  "records_run run p =
     (case run of
        Inr r \<Rightarrow> pn_answer p = an_text (rr_answer r) \<and> pn_citations p = map target_of (an_citations (rr_answer r))
          \<and> rp_error p = None
      | Inl e \<Rightarrow> caught_error e \<and> pn_answer p = [] \<and> pn_citations p = [] \<and> rp_error p \<noteq> None)"

lemma reason_case_Inr:
  assumes "reason_case R mode h cfg hits c = Inr kv"
  shows "fst kv = ec_question c
    \<and> records_run (run_reasoning cfg (re_tools R) (re_client R) (ec_text c) (dict_get_default hits (ec_question c) [])) (snd kv)"
  using assms
  by (auto simp: reason_case_def res_bind_Inr_iff reasoning_prediction_of_def records_run_def split: sum.splits if_splits)

lemma reason_mode_Inr:
  assumes "reason_mode R cases hits mode = Inr (r, ps)" "distinct (map ec_question cases)"
  shows "rn_mode r = mode \<and> map fst ps = map ec_question cases
    \<and> rn_answer r = aggregate_answers (sv_nfkc (re_sweep R)) cases (map (\<lambda>(q, p). (q, prediction.truncate p)) ps)
    \<and> (\<exists>cfg. re_config R (reasoning_path (re_sweep R) mode) = Inr cfg
        \<and> list_all2 (\<lambda>c p. records_run (run_reasoning cfg (re_tools R) (re_client R) (ec_text c)
              (dict_get_default hits (ec_question c) [])) p) cases (map snd ps))"
proof -
  obtain cfg h kvs where cfg: "re_config R (reasoning_path (re_sweep R) mode) = Inr cfg"
    and run: "res_map (reason_case R mode h cfg hits) cases = Inr kvs" and ps: "ps = dict_of kvs" and r: "rn_mode r = mode"
      "rn_answer r = aggregate_answers (sv_nfkc (re_sweep R)) cases (map (\<lambda>(q, p). (q, prediction.truncate p)) ps)"
    using assms(1) unfolding reason_mode_def Let_def res_bind_Inr_iff by fastforce
  have each: "list_all2 (\<lambda>c kv. reason_case R mode h cfg hits c = Inr kv) cases kvs"
    using run by (simp add: res_map_Inr_iff)
  then have keys: "map fst kvs = map ec_question cases"
    by (induction rule: list_all2_induct) (auto dest: reason_case_Inr)
  moreover have "ps = kvs" using dict_of_distinct assms(2) keys ps by metis
  moreover have "list_all2 (\<lambda>c p. records_run (run_reasoning cfg (re_tools R) (re_client R) (ec_text c)
      (dict_get_default hits (ec_question c) [])) p) cases (map snd kvs)"
    using each by (auto simp: list_all2_conv_all_nth dest!: reason_case_Inr)
  ultimately show ?thesis using r cfg by auto
qed

section \<open>Properties\<close>

text \<open>C35: A failing answer costs only itself. When live reasoning ends, both modes are reported in their fixed order; each
  has one record per question, in order, made from the same hits in both modes; a record is the accepted answer of its run,
  or empty with the error when the run was refused; and the metrics of a mode are those of exactly its records.\<close>

theorem live_reasoning_complete:
  assumes "run_live_reasoning R cases x = (Inr (results, predictions), x')" "distinct (map ec_question cases)"
  shows "map rn_mode results = reasoning_modes \<and> map fst predictions = reasoning_modes
    \<and> (\<exists>hits. list_all2 (\<lambda>r (mode, ps).
          map fst ps = map ec_question cases
          \<and> rn_answer r = aggregate_answers (sv_nfkc (re_sweep R)) cases (map (\<lambda>(q, p). (q, prediction.truncate p)) ps)
          \<and> (\<exists>cfg. re_config R (reasoning_path (re_sweep R) mode) = Inr cfg
              \<and> list_all2 (\<lambda>c p. records_run (run_reasoning cfg (re_tools R) (re_client R) (ec_text c)
                    (dict_get_default hits (ec_question c) [])) p) cases (map snd ps))) results predictions)"
proof -
  obtain hits runs where run: "res_map (reason_mode R cases hits) reasoning_modes = Inr runs"
    and results: "results = map fst runs" "predictions = zip reasoning_modes (map snd runs)"
    using assms(1) unfolding run_live_reasoning_def act_bind_Inr_iff act_lift_iff act_return_iff by blast
  obtain r1 ps1 r2 ps2 where runs: "runs = [(r1, ps1), (r2, ps2)]"
    and one: "reason_mode R cases hits ''single_pass'' = Inr (r1, ps1)" and two: "reason_mode R cases hits ''two_pass'' = Inr (r2, ps2)"
    using run by (auto simp: reasoning_modes_def res_bind_Inr_iff)
  note first = reason_mode_Inr [OF one assms(2)] and second = reason_mode_Inr [OF two assms(2)]
  show ?thesis
    unfolding results runs reasoning_modes_def
    using first second by (intro conjI exI [of _ hits]) simp_all
qed

text \<open>A sweep over fixtures always reports. When the files can be read, every case has a language, and no ranking of the
  fixtures repeats a chunk, the sweep succeeds without touching the live pipelines: one result per strategy in
  order, marked as a fixture, with all scores between 0 and 1, overall and per language.\<close>

theorem fixture_sweep_reports:
  assumes "log_ok (sv_log E)" "list_all (\<lambda>(_, p). ranks_once p) records" "\<forall>c \<in> set cases. strip (ec_language c) \<noteq> []"
    "\<exists>t. sv_read E (sv_index E) = Inr t" "\<forall>(_, config_path) \<in> set strategies. \<exists>t. sv_read E config_path = Inr t"
  shows "\<exists>w. run_sweep E strategies (Some records) answers None cases x = (Inr w, x)
    \<and> map sr_strategy (sw_results w) = map fst strategies
    \<and> list_all (\<lambda>r. sr_backend r = Fixture \<and> scores_ok (rm_scores (sr_retrieval r))
         \<and> list_all (\<lambda>(_, m). scores_ok (rm_scores m)) (sr_retrieval_by r)) (sw_results w)"
proof -
  let ?good = "\<lambda>r. sr_backend r = Fixture \<and> scores_ok (rm_scores (sr_retrieval r))
         \<and> list_all (\<lambda>(_, m). scores_ok (rm_scores m)) (sr_retrieval_by r)"
  have one: "\<exists>r. run_strategy E (Some records) answers cases (strategy, path) x = (Inr r, x) \<and> sr_strategy r = strategy \<and> ?good r"
    if member: "(strategy, path) \<in> set strategies" for strategy path
  proof -
    let ?predictions = "dict_get_default records strategy []"
    have once: "ranks_once ?predictions"
    proof (cases "map_of records strategy")
      case (Some p)
      then show ?thesis using assms(2) map_of_SomeD [OF Some] by (auto simp: dict_get_default_def list_all_iff)
    qed (simp add: dict_get_default_def ranks_once_def)
    obtain h where h: "file_hash (sv_read E) [sv_index E, path] = Inr h"
      using assms(4,5) member by (auto simp: file_hash_def)
    note whole = aggregate_scores_ok [OF assms(1) once, of cases]
    obtain ms where ms: "retrieval_by_language E cases ?predictions = Inr ms" "\<forall>(l, m) \<in> set ms. scores_ok (rm_scores m)"
      using retrieval_by_language_Inr [OF assms(1) once assms(3)] by blast
    obtain as where as': "(case Option.bind answers (\<lambda>a. map_of a strategy) of None \<Rightarrow> Inr []
        | Some a \<Rightarrow> aggregate_answers_by_language (sv_nfkc E) cases a) = Inr as"
    proof (cases "Option.bind answers (\<lambda>a. map_of a strategy)")
      case (Some a)
      then show ?thesis
        using that by_language_Inr [OF assms(3), of "\<lambda>cs. aggregate_answers (sv_nfkc E) cs a"]
        by (auto simp: aggregate_answers_by_language_def)
    qed simp
    let ?m = "aggregate_retrieval (sv_log E) cases ?predictions"
    have checked: "checked_metrics ?m = Inr ?m" using whole by (simp add: checked_metrics_def raise_if_def)
    obtain r where r: "score_strategy E answers cases strategy path (?predictions, Fixture) = Inr r" "sr_strategy r = strategy"
        "sr_backend r = Fixture" "sr_retrieval r = ?m" "sr_retrieval_by r = ms"
      unfolding score_strategy_def prod.case Let_def h res_bind_simps checked ms(1) as' by auto
    have "run_strategy E (Some records) answers cases (strategy, path) x = (Inr r, x)"
      unfolding run_strategy_def strategy_predictions_def by (simp add: act_bind_def act_lift_def act_return_def r(1))
    moreover have "?good r" using r whole ms(2) by (simp add: list_all_iff)
    ultimately show ?thesis using r(2) by blast
  qed
  have "\<exists>rs. act_map (run_strategy E (Some records) answers cases) ss x = (Inr rs, x) \<and> map sr_strategy rs = map fst ss
      \<and> list_all ?good rs" if "set ss \<subseteq> set strategies" for ss
    using that
  proof (induction ss)
    case (Cons s ss)
    obtain strategy path where s: "s = (strategy, path)" by (cases s)
    obtain r where "run_strategy E (Some records) answers cases s x = (Inr r, x)" "sr_strategy r = strategy" "?good r"
      using one [of strategy path] Cons.prems s by auto
    moreover obtain rs where "act_map (run_strategy E (Some records) answers cases) ss x = (Inr rs, x)"
      "map sr_strategy rs = map fst ss" "list_all ?good rs"
      using Cons by auto
    ultimately show ?case by (simp add: act_bind_def act_return_def s)
  qed (simp add: act_return_def)
  then obtain rs where "act_map (run_strategy E (Some records) answers cases) strategies x = (Inr rs, x)"
    "map sr_strategy rs = map fst strategies" "list_all ?good rs"
    by blast
  then show ?thesis by (simp add: run_sweep_def act_bind_def act_lift_def act_return_def)
qed

section \<open>Instances\<close>

definition eval_sample :: eval_case where
  "eval_sample = \<lparr>ec_question = ''q1'', ec_pair = None, ec_text = ''revenue?'', ec_language = ''en'', ec_category = None,
     ec_difficulty = None, ec_relevant = [''c1''], ec_expected = None, ec_citations = [], ec_notes = None\<rparr>"

definition sweep_sample :: "unit sweep_env" where
  "sweep_sample = \<lparr>sv_log = of_nat, sv_nfkc = id, sv_read = (\<lambda>_. Inr ''x''), sv_index = ''i'', sv_reasoning = ''r'', sv_dataset = ''d'',
     sv_factory = (\<lambda>_ _. act_return (\<lambda>_ _. act_return []))\<rparr>"

theorem fixture_sweep_reports_witness:
  "\<exists>w. run_sweep sweep_sample [(''naive'', ''n'')] (Some [(''naive'', [(''q1'', [\<lparr>ri_chunk = ''c1'', ri_rank = 1\<rparr>])])]) None None
      [eval_sample] () = (Inr w, ()) \<and> map sr_strategy (sw_results w) = [''naive'']"
proof -
  have "strip ''en'' \<noteq> []" by code_simp
  then have "\<forall>c \<in> set [eval_sample]. strip (ec_language c) \<noteq> []" by (simp add: eval_sample_def)
  moreover have "log_ok (sv_log sweep_sample)" by (simp add: sweep_sample_def log_ok_def)
  moreover have "list_all (\<lambda>(_, p). ranks_once p) [(''naive'', [(''q1'', [\<lparr>ri_chunk = ''c1'', ri_rank = 1\<rparr>])])]"
    by (simp add: ranks_once_def)
  moreover have "\<exists>t. sv_read sweep_sample (sv_index sweep_sample) = Inr t" by (simp add: sweep_sample_def)
  moreover have "\<forall>(_, config_path) \<in> set [(''naive'', ''n'')]. \<exists>t. sv_read sweep_sample config_path = Inr t"
    by (simp add: sweep_sample_def)
  ultimately show ?thesis
    using fixture_sweep_reports [of sweep_sample "[(''naive'', [(''q1'', [\<lparr>ri_chunk = ''c1'', ri_rank = 1\<rparr>])])]" "[eval_sample]"
        "[(''naive'', ''n'')]" None "()"] by fastforce
qed

text \<open>Nothing is retrieved, so every run is refused.\<close>

definition reasoning_sample :: "unit reasoning_env" where
  "reasoning_sample = \<lparr>re_sweep = sweep_sample, re_pipeline = (\<lambda>_ _. act_return []), re_strategy = ''hybrid'',
     re_retrieval_path = ''h'', re_generation_paths = Inr [''g''], re_config = (\<lambda>p. Inr \<lparr>pc_name = p, pc_passes = 1\<rparr>),
     re_tools = \<lparr>tl_loads = (\<lambda>_. None), tl_dumps = (\<lambda>_. []), tl_prompt = (\<lambda>_. []), tl_citation = (\<lambda>_. None),
       tl_extraction = (\<lambda>_. None), tl_answer = (\<lambda>_. None), tl_selection = (\<lambda>_. None), tl_dump_citation = (\<lambda>_. JNull),
       tl_dump_provenance = (\<lambda>_. JNull)\<rparr>,
     re_client = (\<lambda>_ _ _. Inl (RuntimeError ''down'')), re_model = ''m'', re_revision = ''v'', re_dataset = None,
     re_message = (\<lambda>_. ''refused'')\<rparr>"

lemma sample_pipeline: "re_pipeline reasoning_sample = (\<lambda>_ _. act_return [])"
  by (simp add: reasoning_sample_def)

lemma sample_for_query: "\<exists>c. for_query (ec_text eval_sample) operation question config dataset = Inr c"
proof -
  have "strip (ec_text eval_sample) \<noteq> []" unfolding eval_sample_def by code_simp
  from for_query_ok [OF this] show ?thesis by blast
qed

lemma eval_refused:
  "run_reasoning \<lparr>pc_name = p, pc_passes = 1\<rparr> T ask (ec_text eval_sample) [] = Inl (ValueError ''single-pass reasoning requires retrieved evidence'')"
proof -
  have "strip (ec_text eval_sample) \<noteq> []" unfolding eval_sample_def by code_simp
  then show ?thesis by (simp add: run_reasoning_def single_pass_def raise_if_def)
qed

lemma sample_languages: "\<exists>ms. aggregate_answers_by_language nfkc [eval_sample] ps = Inr ms"
proof -
  have "strip ''en'' \<noteq> []" by code_simp
  then have "\<forall>c \<in> set [eval_sample]. strip (ec_language c) \<noteq> []" by (simp add: eval_sample_def)
  from by_language_Inr [OF this, of "\<lambda>cs. aggregate_answers nfkc cs ps"] show ?thesis
    by (auto simp: aggregate_answers_by_language_def)
qed

lemma sample_mode:
  assumes "mode \<in> set reasoning_modes"
  shows "\<exists>v. reason_mode reasoning_sample [eval_sample] [(''q1'', [])] mode = Inr v"
proof -
  have fields: "re_config reasoning_sample p = Inr \<lparr>pc_name = p, pc_passes = 1\<rparr>" "re_generation_paths reasoning_sample = Inr [''g'']"
    "re_sweep reasoning_sample = sweep_sample" "sv_read sweep_sample p = Inr ''x''" for p
    by (simp_all add: reasoning_sample_def sweep_sample_def)
  obtain prompts where prompts: "reasoning_prompt_paths mode = Inr prompts"
    using assms by (auto simp: reasoning_prompt_paths_def reasoning_modes_def)
  have read: "\<exists>h. file_hash (sv_read sweep_sample) paths = Inr h" for paths
    using res_map_all_Inr [of paths "sv_read sweep_sample"] fields(4) by (auto simp: file_hash_def)
  obtain h where h: "file_hash (sv_read sweep_sample) (reasoning_path sweep_sample mode # [''g'']
      @ [re_retrieval_path reasoning_sample, sv_index sweep_sample] @ prompts) = Inr h"
    using read by blast
  obtain t where t: "for_query (ec_text eval_sample) (''reasoning:'' @ mode) (Some (ec_question eval_sample)) (Some h)
      (re_dataset reasoning_sample) = Inr t"
    using sample_for_query by blast
  have "\<exists>kv. reason_case reasoning_sample mode h \<lparr>pc_name = reasoning_path sweep_sample mode, pc_passes = 1\<rparr> [(''q1'', [])] eval_sample = Inr kv"
    unfolding reason_case_def t
    by (simp add: eval_sample_def dict_get_default_def eval_refused [unfolded eval_sample_def, simplified]
        reasoning_prediction_of_def caught_error_def)
  then obtain kv where kv: "reason_case reasoning_sample mode h \<lparr>pc_name = reasoning_path sweep_sample mode, pc_passes = 1\<rparr>
      [(''q1'', [])] eval_sample = Inr kv"
    by blast
  obtain ms where ms: "aggregate_answers_by_language (sv_nfkc sweep_sample) [eval_sample]
      (map (\<lambda>(q, p). (q, prediction.truncate p)) (dict_of [kv])) = Inr ms"
    using sample_languages by blast
  show ?thesis
    unfolding reason_mode_def Let_def fields prompts res_bind_simps h res_map.simps kv ms by blast
qed

lemma evidence_hits_one:
  assumes "for_query (ec_text c) (''reasoning_evidence:'' @ strategy) (Some (ec_question c)) (Some h) dataset = Inr t"
  shows "evidence_hits (\<lambda>_ _. act_return hs) strategy h dataset [c] x = (Inr [(ec_question c, hs)], x)"
  using assms by (simp add: evidence_hits_def act_bind_def act_lift_def act_return_def dict_of_def)

lemma sample_reasoning: "\<exists>results predictions. run_live_reasoning reasoning_sample [eval_sample] () = (Inr (results, predictions), ())"
proof -
  obtain h where h: "file_hash (sv_read (re_sweep reasoning_sample)) [sv_index (re_sweep reasoning_sample),
      re_retrieval_path reasoning_sample] = Inr h"
    by (auto simp: reasoning_sample_def sweep_sample_def file_hash_def)
  obtain t where t: "for_query (ec_text eval_sample) (''reasoning_evidence:'' @ re_strategy reasoning_sample)
      (Some (ec_question eval_sample)) (Some h) (re_dataset reasoning_sample) = Inr t"
    using sample_for_query by blast
  have hits: "evidence_hits (re_pipeline reasoning_sample) (re_strategy reasoning_sample) h (re_dataset reasoning_sample)
      [eval_sample] () = (Inr [(ec_question eval_sample, [])], ())"
    unfolding sample_pipeline using evidence_hits_one [OF t] .
  obtain runs where "res_map (reason_mode reasoning_sample [eval_sample] [(''q1'', [])]) reasoning_modes = Inr runs"
    using res_map_all_Inr [of reasoning_modes] sample_mode by blast
  then show ?thesis
    using hits by (simp add: run_live_reasoning_def act_bind_def act_lift_def act_return_def h eval_sample_def)
qed

theorem live_reasoning_complete_witness:
  "\<exists>results predictions. run_live_reasoning reasoning_sample [eval_sample] () = (Inr (results, predictions), ())
    \<and> map rn_mode results = [''single_pass'', ''two_pass''] \<and> map fst predictions = [''single_pass'', ''two_pass'']"
proof -
  obtain results predictions where run: "run_live_reasoning reasoning_sample [eval_sample] () = (Inr (results, predictions), ())"
    using sample_reasoning by blast
  have "distinct (map ec_question [eval_sample])" by simp
  note complete = live_reasoning_complete [OF run this]
  show ?thesis
    by (intro exI conjI, rule run, rule complete [THEN conjunct1, unfolded reasoning_modes_def],
        rule complete [THEN conjunct2, THEN conjunct1, unfolded reasoning_modes_def])
qed

end
