(* ===== verification/EvalMain.thy ===== *)
theory EvalMain
  imports EvalRun
begin

text \<open>
  \<open>main\<close> of \<open>evals/run.py\<close> with \<open>write_results\<close> and \<open>write_reasoning_predictions\<close>: the checks of the options,
  the order of the steps and the files a run leaves. Option parsing, the observer and the trace report are left out.
\<close>

section \<open>Options\<close>

record eval_options =
  eo_sweep :: bool
  eo_live :: bool
  eo_pairs :: bool                          \<comment> \<open>\<open>--validate-cross-lingual-pairs\<close>\<close>
  eo_answers :: bool                        \<comment> \<open>\<open>--answer-predictions\<close> is given\<close>
  eo_reasoning :: bool                      \<comment> \<open>\<open>--reasoning-predictions\<close> is given\<close>
  eo_live_reasoning :: bool
  eo_strategy :: string                     \<comment> \<open>\<open>--reasoning-retrieval-strategy\<close>\<close>
  eo_config_dir :: string
  eo_results :: string                      \<comment> \<open>\<open>--results-dir\<close>\<close>

definition system_exit :: "string \<Rightarrow> exc" where
  "system_exit message = OtherError message"

definition strategies :: "string list" where
  "strategies = [''naive'', ''hybrid'', ''hybrid_rerank'']"

definition strategy_paths :: "eval_options \<Rightarrow> (string \<times> string) list" where
  "strategy_paths opts = map (\<lambda>s. (s, eo_config_dir opts @ ''/'' @ s @ ''.yaml'')) strategies"

text \<open>What the files of the command line hold, and the live parts.\<close>

record 'x eval_inputs =
  ei_cases :: "eval_case list res"
  ei_records :: "(string, (string, retrieved_item list) dict) dict res"
  ei_answers :: "(string, (string, prediction) dict) dict res"
  ei_reasoning :: "(string, (string, prediction) dict) dict res"
  ei_sweep :: "'x sweep_env"
  ei_generation :: "unit res"                \<comment> \<open>\<open>GenerationConfig.from_yaml\<close>\<close>
  ei_live :: "string \<Rightarrow> string \<Rightarrow> 'x live_pipeline \<Rightarrow> 'x reasoning_env res"
  ei_languages :: "string list"              \<comment> \<open>the default argument of \<open>validate_paired_cases\<close>\<close>
  ei_dump_result :: "sweep_result \<Rightarrow> string"
  ei_dump_predictions :: "(string, (string, reasoning_prediction) dict) dict \<Rightarrow> string"

definition given :: "bool \<Rightarrow> 'a res \<Rightarrow> 'a option res" where
  "given c r = (if c then res_bind r (\<lambda>x. Inr (Some x)) else Inr None)"

record eval_loaded =
  el_cases :: "eval_case list"
  el_records :: "(string, (string, retrieved_item list) dict) dict option"
  el_answers :: "(string, (string, prediction) dict) dict option"
  el_reasoning :: "(string, (string, prediction) dict) dict option"

definition load_inputs :: "eval_options \<Rightarrow> 'x eval_inputs \<Rightarrow> eval_loaded res" where
  "load_inputs opts I =
     raise_if (\<not> eo_sweep opts) (system_exit ''pass --sweep to run the evaluation sweep'')
    (res_bind (ei_cases I) (\<lambda>cases.
     res_bind (if eo_pairs opts then validate_paired_cases (ei_languages I) cases else Inr ()) (\<lambda>_.
     res_bind (given (\<not> eo_live opts) (ei_records I)) (\<lambda>records.
     res_bind (given (eo_answers opts) (ei_answers I)) (\<lambda>answers.
     res_bind (given (eo_reasoning opts) (ei_reasoning I)) (\<lambda>reasoning.
     raise_if (eo_live_reasoning opts \<and> \<not> eo_live opts) (system_exit ''--live-reasoning requires --live'')
    (raise_if (eo_live_reasoning opts \<and> reasoning \<noteq> None) (system_exit ''use either --live-reasoning or --reasoning-predictions'')
     (Inr \<lparr>el_cases = cases, el_records = records, el_answers = answers, el_reasoning = reasoning\<rparr>))))))))"

section \<open>Files\<close>

definition result_files :: "'x eval_inputs \<Rightarrow> string \<Rightarrow> sweep_result \<Rightarrow> (string \<times> string) list" where   \<comment> \<open>\<open>write_results\<close>\<close>
  "result_files I folder w =
     [(folder @ ''/retrieval_sweep.json'', ei_dump_result I w @ newline),
      (folder @ ''/retrieval_sweep.md'', render_markdown w)]"

definition prediction_file ::
  "'x eval_inputs \<Rightarrow> string \<Rightarrow> (string, (string, reasoning_prediction) dict) dict \<Rightarrow> string \<times> string" where
  "prediction_file I folder predictions =
     (folder @ ''/reasoning_predictions.json'', ei_dump_predictions I predictions @ newline)"

section \<open>The command\<close>

definition live_reasoning_of ::
  "eval_options \<Rightarrow> 'x eval_inputs \<Rightarrow> eval_case list \<Rightarrow>
     ('x, (reasoning_result list \<times> (string, (string, reasoning_prediction) dict) dict) option) act" where
  "live_reasoning_of opts I cases =
     (if eo_live_reasoning opts
      then let path = eo_config_dir opts @ ''/'' @ eo_strategy opts @ ''.yaml'' in
        act_bind (act_lift (ei_generation I)) (\<lambda>_.
        act_bind (sv_factory (ei_sweep I) (eo_strategy opts) path) (\<lambda>pipeline.
        act_bind (act_lift (ei_live I (eo_strategy opts) path pipeline)) (\<lambda>R.
        act_bind (run_live_reasoning R cases) (\<lambda>x. act_return (Some x)))))
      else act_return None)"

definition eval_main :: "eval_options \<Rightarrow> 'x eval_inputs \<Rightarrow> ('x, (string \<times> string) list) act" where
  "eval_main opts I =
     act_bind (act_lift (load_inputs opts I)) (\<lambda>l.
     act_bind (run_sweep (ei_sweep I) (strategy_paths opts) (el_records l) (el_answers l) (el_reasoning l) (el_cases l)) (\<lambda>w.
     act_bind (live_reasoning_of opts I (el_cases l)) (\<lambda>live.
     act_return (case live of
         None \<Rightarrow> result_files I (eo_results opts) w
       | Some (results, predictions) \<Rightarrow>
           result_files I (eo_results opts) (w\<lparr>sw_reasoning := results\<rparr>) @ [prediction_file I (eo_results opts) predictions]))))"

section \<open>Lemmas\<close>

lemma given_Inr_iff: "given c r = Inr x \<longleftrightarrow> (if c then \<exists>y. r = Inr y \<and> x = Some y else x = None)"
  by (auto simp: given_def res_bind_Inr_iff)

lemma load_inputs_Inr:
  assumes "load_inputs opts I = Inr l"
  shows "ei_cases I = Inr (el_cases l)" and "eo_live opts \<longleftrightarrow> el_records l = None"
    and "eo_live_reasoning opts \<Longrightarrow> eo_live opts \<and> el_reasoning l = None"
    and "eo_pairs opts \<Longrightarrow> validate_paired_cases (ei_languages I) (el_cases l) = Inr ()"
  using assms by (auto simp: load_inputs_def given_Inr_iff raise_if_Inr_iff res_bind_Inr_iff split: if_splits)

text \<open>
  A run that completes reports every strategy in order, and exactly one source of reasoning: live
  reasoning leaves its predictions beside the report, otherwise the fixtures of both files are all there is.
\<close>

theorem completed_run_files:
  assumes run: "eval_main opts I x = (Inr fs, x')"
  shows "\<exists>w. map sr_strategy (sw_results w) = strategies
    \<and> map fst fs = map fst (result_files I (eo_results opts) w)
        @ (if eo_live_reasoning opts then [eo_results opts @ ''/reasoning_predictions.json''] else [])
    \<and> take 2 fs = result_files I (eo_results opts) w
    \<and> (eo_live_reasoning opts \<longrightarrow> eo_live opts \<and> \<not> eo_reasoning opts)"
proof -
  from run obtain l w live x1 where l: "load_inputs opts I = Inr l"
    and w: "run_sweep (ei_sweep I) (strategy_paths opts) (el_records l) (el_answers l) (el_reasoning l) (el_cases l) x = (Inr w, x1)"
    and live: "live_reasoning_of opts I (el_cases l) x1 = (Inr live, x')"
    and fs: "fs = (case live of
         None \<Rightarrow> result_files I (eo_results opts) w
       | Some (results, predictions) \<Rightarrow>
           result_files I (eo_results opts) (w\<lparr>sw_reasoning := results\<rparr>) @ [prediction_file I (eo_results opts) predictions])"
    by (auto simp: eval_main_def act_bind_Inr_iff act_lift_iff act_return_iff)
  have names: "map sr_strategy (sw_results w) = strategies"
  proof -
    from w have "act_map (run_strategy (ei_sweep I) (el_records l) (el_answers l) (el_cases l)) (strategy_paths opts) x
        = (Inr (sw_results w), x1)"
      by (auto simp: run_sweep_def act_bind_Inr_iff act_lift_iff act_return_iff)
    then have "list_all2 (\<lambda>s r. sr_strategy r = fst s) (strategy_paths opts) (sw_results w)"
      by (rule act_map_list_all2) (auto simp: run_strategy_def score_strategy_def res_simps Let_def split: prod.splits)
    then have "map sr_strategy (sw_results w) = map fst (strategy_paths opts)"
      by (auto simp: list_all2_conv_all_nth intro!: nth_equalityI)
    then show ?thesis by (simp add: strategy_paths_def comp_def)
  qed
  have options: "eo_live_reasoning opts \<longrightarrow> eo_live opts \<and> \<not> eo_reasoning opts"
    using load_inputs_Inr(3) [OF l] l by (auto simp: load_inputs_def given_Inr_iff raise_if_Inr_iff res_bind_Inr_iff)
  show ?thesis
  proof (cases live)
    case None
    then have "\<not> eo_live_reasoning opts" using live
      by (auto simp: live_reasoning_of_def Let_def act_bind_Inr_iff act_return_iff split: if_splits)
    then show ?thesis using None fs names by (intro exI [of _ w]) (simp add: result_files_def)
  next
    case (Some rp)
    obtain results predictions where rp: "rp = (results, predictions)" by (cases rp)
    have "eo_live_reasoning opts" using live Some
      by (auto simp: live_reasoning_of_def act_return_iff split: if_splits)
    then show ?thesis using Some rp fs names options
      by (intro exI [of _ "w\<lparr>sw_reasoning := results\<rparr>"]) (simp add: result_files_def prediction_file_def)
  qed
qed

end
