(* ===== verification/Tools.thy ===== *)
theory Tools
  imports Service
begin

text \<open>
  The checking scripts around the program: \<open>scripts/export_public_contract.py\<close>, the two evidence assessments
  \<open>assess_borrower_evidence.py\<close> and \<open>assess_application_rest.py\<close>, \<open>locate_pdf_values.py\<close> and the choice of pages
  and boxes in \<open>spot_check_chunk.py\<close>. JSON schemas of pydantic, files, the scroll endpoint and the PDF library
  are arguments.
\<close>

section \<open>The public contract\<close>

definition presentation_keys :: "string list" where
  "presentation_keys = [''description'', ''title'']"

text \<open>The items of an object in the order of their keys, without the presentation keys.\<close>

fun normalize_schema :: "json \<Rightarrow> json" where
  "normalize_schema (JObj d) =
     JObj (sort_key fst (filter (\<lambda>(k, _). k \<notin> set presentation_keys) (map (\<lambda>(k, v). (k, normalize_schema v)) d)))"
| "normalize_schema (JArr xs) = JArr (map normalize_schema xs)"
| "normalize_schema j = j"

definition contract_models :: "string list" where
  "contract_models = [''DocumentSetRequest'', ''DocumentSetResponse'', ''DocumentSetValidationRequest'',
     ''DocumentSetValidationResponse'', ''DocumentSetExtractRequest'', ''EvidenceAssessmentResponse'', ''ExtractRequest'',
     ''ProductionExtractRequest'', ''ExtractResponse'', ''IngestDocumentRequest'', ''IngestDocumentResponse'',
     ''IngestBatchRequest'', ''IngestBatchResponse'', ''IngestionActivityResponse'', ''RetentionDeleteRequest'',
     ''RetentionDeleteResponse'']"

definition endpoint :: "(string \<times> string) list \<Rightarrow> json" where
  "endpoint kinds = JObj (map (\<lambda>(k, m). (k, JStr m)) kinds)"

definition contract_endpoints :: "(string, json) dict" where
  "contract_endpoints =
     [(''/v1/document-sets/validate'', endpoint [(''request'', ''DocumentSetValidationRequest''), (''response'', ''DocumentSetValidationResponse'')]),
      (''/v1/document-sets'', endpoint [(''request'', ''DocumentSetRequest''), (''response'', ''DocumentSetResponse'')]),
      (''/v1/evidence-assessments'', endpoint [(''request'', ''DocumentSetExtractRequest''), (''response'', ''EvidenceAssessmentResponse'')]),
      (''/extract'', endpoint [(''development_request'', ''ExtractRequest''), (''production_request'', ''ProductionExtractRequest''),
         (''document_set_request'', ''DocumentSetExtractRequest''), (''response'', ''ExtractResponse'')]),
      (''/v1/documents'', endpoint [(''request'', ''IngestDocumentRequest''), (''response'', ''IngestDocumentResponse'')]),
      (''/v1/document-batches'', endpoint [(''request'', ''IngestBatchRequest''), (''response'', ''IngestBatchResponse'')]),
      (''/v1/ingestion-activity/{batch_id}'', endpoint [(''response'', ''IngestionActivityResponse'')]),
      (''/v1/applications/{application_id}/documents'',
         endpoint [(''request'', ''RetentionDeleteRequest''), (''response'', ''RetentionDeleteResponse'')])]"

definition build_contract :: "(string \<Rightarrow> json) \<Rightarrow> json" where
  "build_contract schema =
     JObj [(''bundle_version'', JStr ''1.0''), (''service'', JStr ''findociq''),
           (''supported_contract_versions'', JArr [JStr ''1.0'', JStr ''2.0'', JStr ''2.1'']),
           (''endpoints'', JObj contract_endpoints),
           (''schemas'', JObj (map (\<lambda>name. (name, normalize_schema (schema name))) (sort contract_models)))]"

definition encoded_contract :: "(json \<Rightarrow> string) \<Rightarrow> (string \<Rightarrow> json) \<Rightarrow> string" where
  "encoded_contract dumps schema = dumps (build_contract schema) @ newline"

text \<open>The state is the current, \<open>None\<close> when there is no file.\<close>

definition contract_command :: "(json \<Rightarrow> string) \<Rightarrow> (string \<Rightarrow> json) \<Rightarrow> bool \<Rightarrow> (string option, string) act" where
  "contract_command dumps schema check current =
     (let expected = encoded_contract dumps schema in
      if check
      then (if current \<noteq> Some expected then Inl (OtherError ''public contract snapshot is stale'')
            else Inr ''public contract snapshot is current'', current)
      else (Inr ''wrote'', Some expected))"

section \<open>Evidence assessments\<close>

text \<open>What a script prints: its report, or only a code. The exit status is 2 with the latter.\<close>

datatype 'a printed = Report 'a | Unavailable string

fun printed_of :: "string \<Rightarrow> 'a res \<Rightarrow> 'a printed" where
  "printed_of c (Inl e) = Unavailable c"
| "printed_of c (Inr x) = Report x"

definition metric_status :: "gate \<Rightarrow> chunk list \<Rightarrow> string \<Rightarrow> (string \<times> string) res" where
  "metric_status g chunks metric =
     (case extract_metric g chunks metric of
        Inr f \<Rightarrow> Inr (metric, ''supported'')
      | Inl (EvidenceInsufficient c) \<Rightarrow> Inr (metric, c)
      | Inl e \<Rightarrow> Inl e)"

record borrower_report =
  br_application :: string
  br_policy_hash :: string
  br_documents :: nat
  br_chunks :: nat
  br_inventory :: "(string \<times> string list) list"
  br_metrics :: "(string, string) dict"

definition plain_gate :: "evidence_policy \<Rightarrow> gate" where
  "plain_gate policy = \<lparr>gt_policy = policy, gt_links = [], gt_command = None, gt_assessment = None, gt_application = None\<rparr>"

definition document_types :: "evidence_policy \<Rightarrow> chunk list \<Rightarrow> string \<Rightarrow> string \<times> string list" where
  "document_types policy chunks document =
     (document, sort (pr_types (profile document
        (filter (\<lambda>c. list_ex (\<lambda>p. pv_document p = document) (chunk_prov c)) chunks) policy)))"

definition borrower_report_of ::
  "evidence_policy \<Rightarrow> string \<Rightarrow> string list \<Rightarrow> chunk list \<Rightarrow> borrower_report res" where
  "borrower_report_of policy application documents chunks =
     res_bind (mk_gate (plain_gate policy)) (\<lambda>g.
     res_bind (res_map (metric_status g chunks) (map fst (po_metrics policy))) (\<lambda>statuses.
     Inr \<lparr>br_application = application, br_policy_hash = policy_hash policy, br_documents = length documents,
          br_chunks = length chunks, br_inventory = map (document_types policy chunks) documents,
          br_metrics = dict_of statuses\<rparr>))"

text \<open>The scope is the application unless the reviewer waives it.\<close>

definition assess_borrower ::
  "'o scroller \<Rightarrow> nat \<Rightarrow> string list res \<Rightarrow> evidence_policy res \<Rightarrow> string \<Rightarrow> bool \<Rightarrow> borrower_report printed option" where
  "assess_borrower scroll fuel manifest policy application unscoped =
     map_option (printed_of ''evidence_assessment_failed'')
       (case res_bind manifest (\<lambda>ds. res_bind policy (\<lambda>p. Inr (ds, p))) of
          Inl e \<Rightarrow> Some (Inl e)
        | Inr (documents, p) \<Rightarrow>
            map_option (\<lambda>r. res_bind r (borrower_report_of p application documents))
              (scoped_chunks scroll fuel documents (if unscoped then None else Some application) (po_max_chunks p)))"

text \<open>
  The REST script reads the same inventory page by page on its own: \<open>page\<close> is one request for 256 points
  from an offset.
\<close>

fun rest_points ::
  "string list \<Rightarrow> string option \<Rightarrow> chunk list \<Rightarrow> chunk list \<Rightarrow> chunk list res" where
  "rest_points documents application acc [] = Inr acc"
| "rest_points documents application acc (c # cs) =
     raise_if (list_ex (\<lambda>p. pv_document p \<notin> set documents) (chunk_prov c)) (RuntimeError ''foreign_evidence'')
    (raise_if (case application of None \<Rightarrow> False | Some a \<Rightarrow> map_of (chunk_meta c) ''application_id'' \<noteq> Some (MStr a))
       (RuntimeError ''foreign_evidence'')
       (rest_points documents application (acc @ [c]) cs))"

fun rest_loop ::
  "('o option \<Rightarrow> chunk list \<times> 'o option) \<Rightarrow> string list \<Rightarrow> string option \<Rightarrow> nat \<Rightarrow> nat \<Rightarrow> chunk list \<Rightarrow> 'o option \<Rightarrow>
   chunk list res option" where
  "rest_loop page documents application max_chunks 0 acc offset = None"
| "rest_loop page documents application max_chunks (Suc fuel) acc offset =
     (let (points, next_offset) = page offset in
      case rest_points documents application acc points of
        Inl e \<Rightarrow> Some (Inl e)
      | Inr acc' \<Rightarrow>
          if max_chunks < length acc' then Some (Inl (RuntimeError ''inventory_limit''))
          else if next_offset = None then Some (Inr acc')
          else rest_loop page documents application max_chunks fuel acc' next_offset)"

definition rest_inventory ::
  "('o option \<Rightarrow> chunk list \<times> 'o option) \<Rightarrow> nat \<Rightarrow> string list \<Rightarrow> string option \<Rightarrow> nat \<Rightarrow> chunk list res option" where
  "rest_inventory page fuel documents application max_chunks =
     map_option (\<lambda>r. res_bind r (\<lambda>chunks.
         raise_if (set (concat (map (\<lambda>c. map pv_document (chunk_prov c)) chunks)) \<noteq> set documents)
           (RuntimeError ''document_missing'') (Inr chunks)))
       (rest_loop page documents application max_chunks fuel [] None)"

datatype outcome = Supported citation "string option" "string option" | Unresolved string

definition metric_outcome :: "gate \<Rightarrow> chunk list \<Rightarrow> string \<Rightarrow> (string \<times> outcome) res" where
  "metric_outcome g chunks metric =
     (case extract_metric g chunks metric of
        Inr f \<Rightarrow>
          (case fg_evidence f of
             None \<Rightarrow> Inl (AttributeError ''basis'')
           | Some ev \<Rightarrow> Inr (metric, Supported (fg_citation f) (fg_period f) (ev_basis ev)))
      | Inl (EvidenceInsufficient c) \<Rightarrow> Inr (metric, Unresolved c)
      | Inl e \<Rightarrow> Inl e)"

definition basis_pages :: "chunk list \<Rightarrow> string \<Rightarrow> string \<times> int list" where
  "basis_pages chunks document =
     (document, sort (uniq (concat (map (\<lambda>c.
        if list_ex (\<lambda>t. contains t (map lower_char (chunk_text c))) [''standalone'', ''consolidated'']
        then map pv_page (filter (\<lambda>p. pv_document p = document) (chunk_prov c)) else []) chunks))))"

record application_report =
  pr_documents :: nat
  pr_chunks :: nat
  pr_scope_options :: nat
  pr_basis_pages :: "(string, int list) dict"
  pr_metrics :: "(string, outcome) dict"

definition application_report_of :: "evidence_policy \<Rightarrow> string list \<Rightarrow> chunk list \<Rightarrow> application_report res" where
  "application_report_of policy documents chunks =
     res_bind (mk_gate (plain_gate policy)) (\<lambda>g.
     res_bind (res_map (metric_outcome g chunks) (map fst (po_metrics policy))) (\<lambda>outcomes.
     Inr \<lparr>pr_documents = length documents, pr_chunks = length chunks,
          pr_scope_options = length (filter (\<lambda>i. ip_authority i = ''reporting_scope'') (interpretation_options chunks policy)),
          pr_basis_pages = dict_of (map (basis_pages chunks) documents), pr_metrics = dict_of outcomes\<rparr>))"

definition assess_application ::
  "('o option \<Rightarrow> chunk list \<times> 'o option) \<Rightarrow> nat \<Rightarrow> string list res \<Rightarrow> evidence_policy res \<Rightarrow> string \<Rightarrow> bool \<Rightarrow>
   application_report printed option" where
  "assess_application page fuel manifest policy application unscoped =
     map_option (printed_of ''assessment_failed'')
       (case res_bind manifest (\<lambda>ds. res_bind policy (\<lambda>p. Inr (ds, p))) of
          Inl e \<Rightarrow> Some (Inl e)
        | Inr (documents, p) \<Rightarrow>
            map_option (\<lambda>r. res_bind r (application_report_of p documents))
              (rest_inventory page fuel documents (if unscoped then None else Some application) (po_max_chunks p)))"

section \<open>Values on pages\<close>

text \<open>\<open>s.index(sub)\<close> of a substring.\<close>

fun index_of :: "string \<Rightarrow> string \<Rightarrow> nat" where
  "index_of sub [] = 0"
| "index_of sub (c # s) = (if starts_with sub (c # s) then 0 else Suc (index_of sub s))"

definition without_commas :: "string \<Rightarrow> string" where
  "without_commas s = filter (\<lambda>c. c \<noteq> CHR '','') (casefold s)"

text \<open>The line of a page, if one of the values is on it: its number, the matches and the text around the first.\<close>

definition locate_page :: "string list \<Rightarrow> nat \<Rightarrow> nat \<times> string \<Rightarrow> (nat \<times> string list \<times> string) option" where
  "locate_page needles context = (\<lambda>(page, t).
     (let normalized = without_commas t; matches = filter (\<lambda>n. contains n normalized) needles in
      if matches = [] then None
      else
        let first = Min (set (map (\<lambda>m. index_of m normalized) matches));
            start = first - context;
            stop = min (length t) (first + Max (set (map length matches)) + context)
        in Some (page, matches, join '' '' (words_of (drop start (take stop t))))))"

definition locate_values :: "string list \<Rightarrow> nat \<Rightarrow> string list \<Rightarrow> (nat \<times> string list \<times> string) list" where
  "locate_values vs context pages =
     List.map_filter (locate_page (map without_commas vs) context) (number_from_1 pages)"

text \<open>The chunk of an identifier, and its boxes page by page.\<close>

fun load_chunk :: "(string \<Rightarrow> chunk res) \<Rightarrow> string \<Rightarrow> string list \<Rightarrow> chunk res" where
  "load_chunk decode i [] = Inl (KeyError (''chunk not found: '' @ i))"
| "load_chunk decode i (l # ls) = res_bind (decode l) (\<lambda>c. if chunk_id c = i then Inr c else load_chunk decode i ls)"

definition boxes_by_page :: "chunk \<Rightarrow> (int, bbox list) dict" where
  "boxes_by_page c = sort_key fst (fold (\<lambda>p. dict_append (pv_page p) (pv_bbox p)) (chunk_prov c) [])"

section \<open>Lemmas: the contract\<close>

text \<open>Sorting and filtering items that are sorted and filtered.\<close>

lemma sorted_items_stable:
  assumes "\<forall>(k, v) \<in> set xs. g v = v"
  shows "sort_key fst (filter (\<lambda>(k, _). p k) (map (\<lambda>(k, v). (k, g v)) (sort_key fst (filter (\<lambda>(k, _). p k) xs))))
    = sort_key fst (filter (\<lambda>(k, _). p k) xs)"
proof -
  let ?s = "sort_key fst (filter (\<lambda>(k, _). p k) xs)"
  have "map (\<lambda>(k, v). (k, g v)) ?s = ?s" by (rule map_idI) (use assms in auto)
  moreover have "filter (\<lambda>(k, _). p k) ?s = ?s" by (rule filter_True) auto
  moreover have "sort_key fst ?s = ?s" by (rule sort_key_id_if_sorted) simp
  ultimately show ?thesis by simp
qed

theorem normalize_idempotent: "normalize_schema (normalize_schema j) = normalize_schema j"
proof (induction j rule: normalize_schema.induct)
  case (1 d)
  have "\<forall>(k, v) \<in> set (map (\<lambda>(k, v). (k, normalize_schema v)) d). normalize_schema v = v"
    using 1 by auto
  from sorted_items_stable [OF this] show ?case by (simp only: normalize_schema.simps)
qed auto

text \<open>No presentation key is left at any depth.\<close>

fun presentation_free :: "json \<Rightarrow> bool" where
  "presentation_free (JObj d) = list_all (\<lambda>(k, v). k \<notin> set presentation_keys \<and> presentation_free v) d"
| "presentation_free (JArr xs) = list_all presentation_free xs"
| "presentation_free j = True"

lemma normalize_presentation_free: "presentation_free (normalize_schema j)"
  by (induction j rule: normalize_schema.induct) (auto simp: list_all_iff)

text \<open>
  A field that happens to be called \<open>title\<close> is dropped with its type: two schemas that accept different
  documents have the same normal form.
\<close>

lemma normalize_drops_fields:
  "normalize_schema (JObj [(''properties'', JObj [(''title'', JObj [(''type'', JStr ''string'')])])])
   = normalize_schema (JObj [(''properties'', JObj [(''title'', JObj [(''type'', JStr ''integer'')])])])"
  by code_simp

theorem contract_check_after_write:
  "contract_command dumps schema True (snd (contract_command dumps schema False current))
     = (Inr ''public contract snapshot is current'', Some (encoded_contract dumps schema))"
  by (simp add: contract_command_def Let_def)

section \<open>Lemmas: the assessments\<close>

fun rest_error :: "exc \<Rightarrow> exc" where
  "rest_error (PermissionError _) = RuntimeError ''foreign_evidence''"
| "rest_error (ValueError m) =
     RuntimeError (if m = ''evidence_inventory_limit'' then ''inventory_limit'' else ''document_missing'')"
| "rest_error e = e"

lemma rest_points_eq:
  "application \<noteq> Some [] \<Longrightarrow>
     rest_points documents application acc cs = map_sum rest_error id (add_records documents application acc cs)"
proof (induction cs arbitrary: acc)
  case (Cons c cs)
  then show ?case
    by (auto simp: raise_if_def in_scope_def list_ex_iff list_all_iff split: option.splits)
qed simp

lemma rest_loop_eq:
  assumes app: "application \<noteq> Some []" and page: "\<And>n offset. scroll n offset = page offset"
  shows "rest_loop page documents application mx fuel acc offset
    = map_option (map_sum rest_error id) (scroll_loop scroll documents application mx fuel acc offset)"
proof (induction fuel arbitrary: acc offset)
  case (Suc fuel)
  obtain points next_offset where p: "page offset = (points, next_offset)" by fastforce
  show ?case
  proof (cases "add_records documents application acc points")
    case (Inl e)
    then show ?thesis using rest_points_eq [OF app, of documents acc points] p by (simp add: page)
  next
    case (Inr acc')
    then show ?thesis using rest_points_eq [OF app, of documents acc points] p Suc.IH by (simp add: page)
  qed
qed simp

text \<open>
  On a server whose pages do not depend on the page size asked for, the REST script reads exactly
  what the service's own store reads, with its own error for each of the store's.
\<close>

theorem rest_inventory_equivalent:
  assumes "documents \<noteq> []" "application \<noteq> Some []" "\<And>n offset. scroll n offset = page offset"
  shows "rest_inventory page fuel documents application max_chunks
    = map_option (map_sum rest_error id) (scoped_chunks scroll fuel documents application max_chunks)"
proof -
  have each: "res_bind (map_sum rest_error id r) (\<lambda>chunks.
         raise_if (set (concat (map (\<lambda>c. map pv_document (chunk_prov c)) chunks)) \<noteq> set documents)
           (RuntimeError ''document_missing'') (Inr chunks))
     = map_sum rest_error id (res_bind r (check_inventory documents))" for r
    by (cases r) (auto simp: check_inventory_def raise_if_def)
  have loop: "rest_loop page documents application max_chunks fuel [] None
      = map_option (map_sum rest_error id) (scroll_loop scroll documents application max_chunks fuel [] None)"
    by (rule rest_loop_eq [OF assms(2)]) (rule assms(3))
  show ?thesis
    by (simp only: rest_inventory_def scoped_chunks_def loop option.map_comp comp_def each if_False assms(1))
qed

lemma metric_status_sound:
  "metric_status g chunks m = Inr (m', s) \<Longrightarrow>
     m' = m \<and> ((\<exists>f. extract_metric g chunks m = Inr f) \<and> s = ''supported''
       \<or> extract_metric g chunks m = Inl (EvidenceInsufficient s))"
  by (auto simp: metric_status_def split: sum.splits exc.splits)

text \<open>
  A printed report covers every metric of the policy, calls a metric supported exactly when the gate
  extracts a figure (or gives the gate's code), and was made from an inventory of the requested scope.
\<close>

theorem borrower_report_truthful:
  assumes run: "assess_borrower scroll fuel (Inr documents) (Inr policy) application unscoped = Some (Report r)"
    and keys: "distinct (map fst (po_metrics policy))"
  shows "\<exists>chunks. scoped_chunks scroll fuel documents (if unscoped then None else Some application) (po_max_chunks policy)
        = Some (Inr chunks)
    \<and> br_chunks r = length chunks \<and> map fst (br_metrics r) = map fst (po_metrics policy)
    \<and> (\<forall>(m, s) \<in> set (br_metrics r). (\<exists>f. extract_metric (plain_gate policy) chunks m = Inr f) \<and> s = ''supported''
        \<or> extract_metric (plain_gate policy) chunks m = Inl (EvidenceInsufficient s))"
proof -
  from run obtain x where x: "scoped_chunks scroll fuel documents (if unscoped then None else Some application) (po_max_chunks policy) = Some x"
    and p: "printed_of ''evidence_assessment_failed'' (res_bind x (borrower_report_of policy application documents)) = Report r"
    by (auto simp: assess_borrower_def)
  from p obtain chunks where chunks: "x = Inr chunks" and rep: "borrower_report_of policy application documents chunks = Inr r"
    by (cases x; cases "res_bind x (borrower_report_of policy application documents)") auto
  from rep obtain statuses where st: "res_map (metric_status (plain_gate policy) chunks) (map fst (po_metrics policy)) = Inr statuses"
    and r: "br_chunks r = length chunks" "br_metrics r = dict_of statuses"
    by (auto simp: borrower_report_of_def mk_gate_def plain_gate_def res_simps)
  have all: "list_all2 (\<lambda>m z. metric_status (plain_gate policy) chunks m = Inr z) (map fst (po_metrics policy)) statuses"
    using st by (simp only: res_map_Inr_iff)
  have "list_all2 (\<lambda>m z. fst z = m) (map fst (po_metrics policy)) statuses"
    using all by (rule list_all2_mono) (metis metric_status_sound prod.collapse)
  then have names: "map fst statuses = map fst (po_metrics policy)"
    by (auto simp: list_all2_conv_all_nth intro!: nth_equalityI)
  with keys have dict: "br_metrics r = statuses" by (simp add: r dict_of_distinct)
  have "(\<exists>f. extract_metric (plain_gate policy) chunks m = Inr f) \<and> s = ''supported''
      \<or> extract_metric (plain_gate policy) chunks m = Inl (EvidenceInsufficient s)" if mem: "(m, s) \<in> set statuses" for m s
  proof -
    obtain m0 where "metric_status (plain_gate policy) chunks m0 = Inr (m, s)"
      using res_map_in_set [OF st mem] by blast
    then show ?thesis using metric_status_sound by blast
  qed
  with x chunks r names dict show ?thesis by auto
qed

section \<open>Lemmas: values on pages\<close>

text \<open>A page is listed exactly when it has one of the values, commas and case aside.\<close>

theorem located_pages:
  "map fst (locate_values vs context pages)
     = map fst (filter (\<lambda>(n, t). list_ex (\<lambda>v. contains (without_commas v) (without_commas t)) vs) (number_from_1 pages))"
proof -
  have "map fst (List.map_filter (locate_page (map without_commas vs) context) nps)
      = map fst (filter (\<lambda>(n, t). list_ex (\<lambda>v. contains (without_commas v) (without_commas t)) vs) nps)" for nps
  proof (induction nps)
    case (Cons np nps)
    obtain n t where np: "np = (n, t)" by (cases np)
    have "filter (\<lambda>m. contains m (without_commas t)) (map without_commas vs) = []
        \<longleftrightarrow> \<not> list_ex (\<lambda>v. contains (without_commas v) (without_commas t)) vs"
      by (auto simp: filter_empty_conv list_ex_iff)
    with Cons show ?case by (auto simp: np locate_page_def Let_def)
  qed simp
  then show ?thesis by (simp add: locate_values_def)
qed

text \<open>
  The position of a match is found in the text without commas but cut out of the text with them: the
  printed text lies before the value by one character for each comma.
\<close>

lemma snippet_shifted:
  "locate_values [''777''] 0 [''1,2,3,4,5,6,777''] = [(1, [''777''], ''4,5'')]"
  by code_simp

end
