(* ===== verification/Requests.thy ===== *)
theory Requests
  imports GpuLease Parsing AgentRuntime
begin

text \<open>
  What the program sends to the local model server and how it reads the replies: the lifecycle requests of
  \<open>ingest/gpu_lease.py\<close>, the vision request of \<open>ingest/vlm_fallback.py\<close> and the routing request of
  \<open>staging_agent_impl/supervisor.py\<close>. \<open>http_reply\<close> is what \<open>urlopen\<close> gives; \<open>json_of\<close> is the JSON decoder.
\<close>

datatype http_reply = HttpBody string | HttpStatus nat string | Unreachable string

section \<open>The lifecycle of the model server\<close>

definition lease_body_of :: "(string \<Rightarrow> json option) \<Rightarrow> http_reply \<Rightarrow> lease_error + json option" where   \<comment> \<open>\<open>_request\<close>\<close>
  "lease_body_of json_of r =
     (case r of
        HttpStatus n _ \<Rightarrow> Inl (GpuLeaseError (''vLLM GPU lifecycle endpoint returned HTTP '' @ str_of_nat n))
      | Unreachable _ \<Rightarrow> Inl (GpuLeaseError ''vLLM GPU lifecycle endpoint is unavailable'')
      | HttpBody b \<Rightarrow>
          if b = [] then Inr None
          else (case json_of b of
                  None \<Rightarrow> Inl (GpuLeaseError ''vLLM GPU lifecycle endpoint returned invalid JSON'')
                | Some j \<Rightarrow> Inr (Some j)))"

text \<open>The distinctions \<open>_sleep_state\<close> makes between decoded replies.\<close>

definition lease_reply :: "json option \<Rightarrow> GpuLease.reply" where
  "lease_reply j =
     (case j of
        Some (JBool b) \<Rightarrow> BoolReply b
      | Some (JObj d) \<Rightarrow> ObjectReply (case map_of d ''is_sleeping'' of Some (JBool b) \<Rightarrow> Some b | _ \<Rightarrow> None)
      | _ \<Rightarrow> OtherReply)"

definition http_requester :: "(string \<Rightarrow> json option) \<Rightarrow> (http_method \<Rightarrow> string \<Rightarrow> 'w \<Rightarrow> http_reply \<times> 'w) \<Rightarrow> 'w requester" where
  "http_requester json_of send how path w =
     (case send how path w of (r, w') \<Rightarrow> (map_sum id lease_reply (lease_body_of json_of r), w'))"

section \<open>The vision request\<close>

definition text_part :: "string \<Rightarrow> json" where
  "text_part t = JObj [(''type'', JStr ''text''), (''text'', JStr t)]"

definition image_part :: "string \<Rightarrow> json" where
  "image_part picture =
     JObj [(''type'', JStr ''image_url''),
           (''image_url'', JObj [(''url'', JStr (''data:image/png;base64,'' @ picture))])]"

text \<open>\<open>seed\<close> is the field of the configuration that the parser does not read.\<close>

definition vision_payload :: "vision_config \<Rightarrow> int \<Rightarrow> string \<Rightarrow> string \<Rightarrow> nat \<Rightarrow> json" where   \<comment> \<open>\<open>_request\<close>\<close>
  "vision_payload c seed template picture page =
     JObj [(''model'', JStr (vc_model c)),
           (''messages'', JArr [JObj [(''role'', JStr ''user''),
              (''content'', JArr [text_part (replace_all ''{{page_number}}'' (str_of_nat page) template), image_part picture])]]),
           (''temperature'', JNum 0), (''seed'', JNum (of_int seed)), (''max_tokens'', JNum (of_int (vc_max_tokens c))),
           (''response_format'', JObj [(''type'', JStr ''json_object'')])]"

definition completions_url :: "string \<Rightarrow> string" where
  "completions_url base = rev (dropWhile (\<lambda>c. c = CHR ''/'') (rev base)) @ ''/chat/completions''"

definition vision_reply :: "(string \<Rightarrow> json option) \<Rightarrow> http_reply \<Rightarrow> json res" where   \<comment> \<open>\<open>_request_json\<close>\<close>
  "vision_reply json_of r =
     (case r of
        HttpStatus n detail \<Rightarrow>
          Inl (RuntimeError (''local Gemma vision extraction failed: HTTP '' @ str_of_nat n @ '': '' @ take 2000 detail))
      | Unreachable m \<Rightarrow> Inl (RuntimeError (''local Gemma vision extraction failed: '' @ m))
      | HttpBody b \<Rightarrow>
          (case json_of b of
             None \<Rightarrow> Inl (JSONDecodeError ''Expecting value'')
           | Some (JObj d) \<Rightarrow> Inr (JObj d)
           | Some _ \<Rightarrow> Inl (RuntimeError ''local Gemma vision response must be a JSON object'')))"

text \<open>The \<open>vision\<close> of the parser over such a server: \<open>render\<close> is the picture of a page in base64.\<close>

definition http_vision ::
  "(string \<Rightarrow> json option) \<Rightarrow> (json \<Rightarrow> 'w \<Rightarrow> http_reply \<times> 'w) \<Rightarrow> (int \<Rightarrow> string \<Rightarrow> nat \<Rightarrow> string) \<Rightarrow> int \<Rightarrow> string \<Rightarrow>
   (string \<Rightarrow> vision_block list option) \<Rightarrow> 'w vision" where
  "http_vision json_of send render seed template decode =
     \<lparr>vn_request = (\<lambda>c source page w.
        case send (vision_payload c seed template (render (vc_dpi c) source page) page) w of
          (r, w') \<Rightarrow> (vision_reply json_of r, w')),
      vn_decode = decode\<rparr>"

section \<open>The routing request\<close>

record routing_request =
  rq_model :: string
  rq_revision :: string
  rq_seed :: int
  rq_limits :: supervisor_config

text \<open>\<open>schema\<close> is \<open>SupervisorRoute.model_json_schema()\<close>; the reason is sent as encoded JSON.\<close>

definition routing_payload :: "(json \<Rightarrow> string) \<Rightarrow> json \<Rightarrow> routing_request \<Rightarrow> string \<Rightarrow> string \<Rightarrow> json" where
  "routing_payload dumps schema q prompt reason =
     JObj [(''model'', JStr (rq_model q)), (''temperature'', JNum 0), (''seed'', JNum (of_int (rq_seed q))),
           (''max_tokens'', JNum (of_int (sv_max_tokens (rq_limits q)))),
           (''messages'', JArr
              [JObj [(''role'', JStr ''system''), (''content'', JStr (strip prompt))],
               JObj [(''role'', JStr ''user''), (''content'', JStr (dumps (JObj [(''reason'', JStr reason)])))]]),
           (''response_format'', JObj [(''type'', JStr ''json_schema''),
              (''json_schema'', JObj [(''name'', JStr ''fundermatch_sendback_route''), (''strict'', JBool True), (''schema'', schema)])])]"

text \<open>
  \<open>raise_for_status\<close> and \<open>response.json()\<close>: a failing status is an \<open>httpx.HTTPError\<close>, a body that is not
  JSON a \<open>JSONDecodeError\<close>.
\<close>

definition routing_reply :: "(string \<Rightarrow> json option) \<Rightarrow> http_reply \<Rightarrow> json res" where
  "routing_reply json_of r =
     (case r of
        HttpBody b \<Rightarrow> (case json_of b of None \<Rightarrow> Inl (JSONDecodeError ''Expecting value'') | Some j \<Rightarrow> Inr j)
      | _ \<Rightarrow> Inl (OtherError ''httpx.HTTPError''))"

definition route_reason ::
  "(json \<Rightarrow> string) \<Rightarrow> json \<Rightarrow> (string \<Rightarrow> json option) \<Rightarrow> (json \<Rightarrow> supervisor_route option) \<Rightarrow> (json \<Rightarrow> 'w \<Rightarrow> http_reply \<times> 'w) \<Rightarrow>
   routing_request \<Rightarrow> string res \<Rightarrow> string \<Rightarrow> ('w, worker option) act" where
  "route_reason dumps schema json_of decode send q prompt reason w =
     (case prompt of
        Inl e \<Rightarrow> (Inl e, w)
      | Inr p \<Rightarrow>
          (case send (routing_payload dumps schema q p reason) w of
             (r, w') \<Rightarrow> (route_sendback (rq_limits q) decode (routing_reply json_of r), w')))"

section \<open>Lemmas\<close>

text \<open>A reply of the server reaches the lease as a \<open>GpuLeaseError\<close> or as a value, never as another exception.\<close>

lemma lease_body_errors: "lease_body_of json_of r = Inl e \<Longrightarrow> \<exists>m. e = GpuLeaseError m"
  by (auto simp: lease_body_of_def split: http_reply.splits option.splits if_splits)

text \<open>
  An HTTP server that keeps its sleep flag, answers its commands with an empty body or JSON and the question
  with a boolean is what the contract of the lease asks for.
\<close>

theorem http_server_obedient:
  assumes commands: "\<And>w. \<exists>b. send Post ''/sleep?level=1'' w = (HttpBody b, put True w) \<and> (b = [] \<or> json_of b \<noteq> None)"
      "\<And>w. \<exists>b. send Post ''/wake_up'' w = (HttpBody b, put False w) \<and> (b = [] \<or> json_of b \<noteq> None)"
      "\<And>w. \<exists>b. send Get ''/health'' w = (HttpBody b, w) \<and> (b = [] \<or> json_of b \<noteq> None)"
    and question: "\<And>w. \<exists>b. send Get ''/is_sleeping'' w = (HttpBody b, w) \<and> b \<noteq> [] \<and> json_of b = Some (JBool (asleep w))"
    and flag: "\<And>w. asleep (put True w) \<and> \<not> asleep (put False w)"
  shows "obedient (http_requester json_of send) asleep put"
proof -
  have ok: "\<exists>r. map_sum id lease_reply (lease_body_of json_of (HttpBody b)) = Inr r" if "b = [] \<or> json_of b \<noteq> None" for b
    using that by (auto simp: lease_body_of_def)
  have done_command: "\<exists>r. http_requester json_of send how path w = (Inr r, w')"
    if "\<exists>b. send how path w = (HttpBody b, w') \<and> (b = [] \<or> json_of b \<noteq> None)" for how path w w'
  proof -
    from that obtain b where b: "send how path w = (HttpBody b, w')" and good: "b = [] \<or> json_of b \<noteq> None" by blast
    from ok [OF good] obtain r where "map_sum id lease_reply (lease_body_of json_of (HttpBody b)) = Inr r" by blast
    then show ?thesis by (simp add: http_requester_def b)
  qed
  have asked: "http_requester json_of send Get ''/is_sleeping'' w = (Inr (BoolReply (asleep w)), w)" for w
  proof -
    obtain b where "send Get ''/is_sleeping'' w = (HttpBody b, w)" "b \<noteq> []" "json_of b = Some (JBool (asleep w))"
      using question by blast
    then show ?thesis by (simp add: http_requester_def lease_body_of_def lease_reply_def)
  qed
  show ?thesis
    unfolding obedient_def using done_command [OF commands(1)] done_command [OF commands(2)] done_command [OF commands(3)]
      asked flag by blast
qed

text \<open>
  The router answers with a stage of its vocabulary or none, whatever the server sends, unless the
  reply is not JSON or has an empty list of choices.
\<close>

theorem route_reason_accepted:
  assumes "route_reason dumps schema json_of decode send q (Inr prompt) reason w = (Inr (Some stage), w')"
  shows "\<exists>j r. decode j = Some r \<and> sp_worker r = Some stage \<and> stage \<noteq> HumanReview \<and> \<not> sp_ambiguous r
    \<and> sv_min_confidence (rq_limits q) \<le> sp_confidence r \<and> sp_confidence r \<le> 1"
  using assms
  by (fastforce simp: route_reason_def route_sendback_def accepted_stage_def parse_route_def raise_if_def res_bind_def not_less
      split: prod.splits sum.splits option.splits if_splits)

end
