(* ===== verification/Spec2Isabelle.thy ===== *)
theory Spec2Isabelle
  imports ReasonProps AssemblyProps SystemProps TrustProps ApiExamples ParsingProps GenerationProps AgentProps Datasets Corpus EvalMain Assembly Tools Requests Policy
begin

text \<open>
  FinDocIQ answers questions about the filings of a borrower with figures that can be traced
  to a place on a page. This development models the parts of the program that decide what is
  true and who may see it, and proves what they promise. File names are relative to
  \<open>src/findociq/\<close> unless they begin with another directory of the repository.

  The program. A document passes the scanner and the page router, is parsed into layout
  blocks, chunked, embedded and stored; a registry records which application owns it under
  which policy. A question is answered in one of two ways: by retrieval and a language model
  whose answer is accepted only when the retrieved evidence supports it, or by the evidence
  gate, which reads rows from the chunks of the requested documents and accepts a figure only
  when all eligible sources agree. Requests carry signed tokens that can be used once.

  Layers.
  \<^item> \<open>Prelude\<close>: exceptions as values (\<open>exc\<close>, \<open>'a res\<close>), ordered dictionaries, first-occurrence
    de-duplication. \<open>PyStr\<close>, \<open>PyRegex\<close>, \<open>PyDecimal\<close>, \<open>Sha256\<close>: the parts of Python's library the
    source uses, with a backtracking matcher whose results are proved against a declarative match
    relation, 28-digit decimal arithmetic with half-even rounding, and a SHA-256 on 32-bit words.
  \<^item> \<open>Schema\<close> (\<open>ingest/schema.py\<close>, \<open>reason/schema.py\<close>): boxes, provenance, blocks, chunks, citations,
    figures and receipts.
  \<^item> \<open>Formulas\<close>, \<open>Calculations\<close>, \<open>CompanyAge\<close>, \<open>Nic\<close>, \<open>Classification\<close>, \<open>Basis\<close>, \<open>Evidence\<close>, \<open>Gate\<close>
    (\<open>reason/accounting_formulas.py\<close>, \<open>calculations.py\<close>, \<open>debt_service.py\<close>, \<open>dscr.py\<close>, \<open>company_age.py\<close>,
    \<open>nic.py\<close>, \<open>classification.py\<close>, \<open>basis.py\<close>, \<open>interpretations.py\<close>, \<open>evidence_gate.py\<close>): rows and their
    cells, document profiles, the selection of sources, direct, calculated and staged figures, and
    the assessment of all metrics.
  \<^item> \<open>Chunker\<close> (\<open>ingest/chunker.py\<close>), \<open>Layout\<close> (\<open>ingest/ocr_lines.py\<close>, \<open>ruled_tables.py\<close>), \<open>Intake\<close>
    (\<open>ingest/image_input.py\<close>, \<open>router.py\<close>, \<open>security/pdf_guard.py\<close>).
  \<^item> \<open>Retrieval\<close> (\<open>retrieve/hybrid.py\<close>, \<open>rerank.py\<close>, \<open>pipeline.py\<close>), \<open>Store\<close> (\<open>index/store.py\<close>), \<open>Grounding\<close>
    (\<open>reason/pass1_extract.py\<close>, \<open>pass2_reason.py\<close>, \<open>single_pass.py\<close>, \<open>prompting.py\<close>, \<open>pipeline.py\<close>).
  \<^item> \<open>Auth\<close> (\<open>security/auth.py\<close>), \<open>Registry\<close> (\<open>security/registry.py\<close>, \<open>local_registry.py\<close>,
    \<open>document_sets.py\<close>), \<open>Security\<close> (\<open>security/dlp.py\<close>, \<open>storage.py\<close>), \<open>Policy\<close> (\<open>security/policy.py\<close>).
  \<^item> \<open>Activity\<close> (\<open>api/activity.py\<close>), \<open>GpuLease\<close> (\<open>ingest/gpu_lease.py\<close>).
  \<^item> \<open>GateSpec\<close> says what a selection promises in terms of the chunks: which documents may answer a metric, the years
    they report, that no row of them is passed over, and where an extracted figure comes from. \<open>Histories\<close> has what a client sees of shared state when
    other operations come in between: the result cache while the index changes and applications are invalidated, the
    activity feed while other batches start and are evicted, the encrypted store across a change of its key.
  \<^item> \<open>ReasonExamples\<close> holds concrete evidence on which the gate is evaluated; \<open>ReasonProps\<close>,
    \<open>SystemProps\<close> and \<open>TrustProps\<close> hold the properties with their instances.
  \<^item> \<open>Ingestion\<close> (\<open>api/ingestion.py\<close>, the ingestion contracts of \<open>api/schema.py\<close>) composes the scanner, the
    lease, the envelope store, the chunker, the redaction and the index into one action over the state
    \<open>ingest_world\<close>; \<open>IngestProps\<close> holds what it promises.
  \<^item> \<open>Service\<close> (\<open>service.py\<close>) reads the scoped inventory for the gate and runs a query under the lease; \<open>Api\<close>
    (\<open>api/app.py\<close>, \<open>api/schema.py\<close>) has every route as an action over \<open>app_state\<close>, \<open>serve\<close> that dispatches a
    request, and \<open>served\<close>, the states reached by any sequence of requests. \<open>ApiProps\<close> proves what all
    requests keep, \<open>AccessProps\<close> what one request promises, \<open>ApiExamples\<close> instantiates both on a production service.
  \<^item> \<open>Parsing\<close> (\<open>ingest/docling_parser.py\<close>, \<open>vlm_fallback.py\<close>) turns what the PDF library, the vision model or Docling
    report into the blocks the chunker reads; \<open>parse\<close> is the whole parser over a world with a clock, and
    \<open>service_parse\<close> has the type of the parser that \<open>Ingestion\<close> calls. \<open>ParsingProps\<close> shows where its blocks lie.
  \<^item> \<open>Trace\<close> (\<open>observability/\<close>) has contexts, spans, recorders and the summary of a trace; \<open>Generation\<close>
    (\<open>reason/generation.py\<close>, \<open>serve.py\<close>) the client of the model server inside such spans, on the JSON of \<open>Json\<close>.
    \<open>GenerationProps\<close> puts the trace in a world beside the server's and shows that neither sees the other.
  \<^item> \<open>Scorers\<close> (\<open>evals/scorers/\<close>, \<open>evals/schema.py\<close>, \<open>evals/cross_lingual.py\<close>): the evaluation metrics with
    their bounds.
  \<^item> \<open>Workspace\<close> (\<open>staging_agent_impl/workspace.py\<close>, \<open>prompts.py\<close>) keeps the files of an application as a map from
    paths; \<open>Agent\<close> (\<open>workers.py\<close>, \<open>guardrails.py\<close>) has the seven workers as actions over those files and the services
    of the agent's host, which the record \<open>agent\<close> collects; \<open>AgentRuntime\<close> (\<open>runtime.py\<close>, \<open>supervisor.py\<close>,
    \<open>maintenance.py\<close>, \<open>observability.py\<close>, \<open>eval_metrics.py\<close>, \<open>eval_schema.py\<close>) what surrounds them. \<open>AgentProps\<close>
    shows that the analysis stores what it reports, that it resumes, and what passes the guardrails.
  \<^item> \<open>Datasets\<close> (\<open>scripts/validate_dataset.py\<close>), \<open>Corpus\<close> (\<open>scripts/fetch_corpus.py\<close>, \<open>audit_corpus.py\<close>) and \<open>EvalRun\<close>
    (\<open>evals/run.py\<close>): the readiness of evaluation data, the corpus with its lock, and the evaluation runs over the
    modelled retrieval, reasoning and scorers. Each holds its own properties. \<open>EvalMain\<close> is the command around a run.
  \<^item> \<open>Index\<close> (\<open>index/embedder.py\<close>, the clients of \<open>index/store.py\<close>, \<open>retrieve/rerank.py\<close> and \<open>retrieve/pipeline.py\<close>,
    \<open>retrieve/cli.py\<close>) has the model slots that are filled on first use; \<open>computes\<close> relates an action over the slots to the
    stateless result it stands for, which makes the local pipeline a refinement of \<open>Retrieval.retrieve\<close>.
  \<^item> \<open>Assembly\<close> (\<open>ingest/config.py\<close>, \<open>service.py\<close>, \<open>api/app.py\<close>, \<open>api/ingestion.py\<close>, \<open>security/secrets.py\<close>, the command lines)
    composes the services from the environment and the configuration files; its result is the \<open>ingester\<close> and the
    \<open>query_service\<close> of the layers above. \<open>Requests\<close> has the payloads for the model server and the reading of its replies,
    with a server over HTTP as an instance of what \<open>GpuLease\<close> assumes. \<open>AssemblyProps\<close> follows a service from the
    environment of its process to the points it lets into the index. \<open>Tools\<close> (\<open>scripts/\<close>) has the public contract and
    the evidence assessments.
  Interfaces. The locale \<open>document_registry\<close> (and \<open>policy_registry\<close>, which adds that a registration
  takes effect) states what the document-set store relies on; it is interpreted for the
  in-memory, the SQLite and, without the addition, the PostgreSQL registry. The locale
  \<open>replay_ledger\<close> with its extension \<open>expiring_ledger\<close> is what token verification relies on, interpreted
  for the in-memory and the PostgreSQL ledger.

  The locale \<open>act_relation\<close> of the prelude is a reflexive and transitive relation between the states before and after
  an action that all steps of a program keep; \<open>ingest_relation\<close> extends it by what progress reports and the
  lease may change, and is interpreted for the points of the index and for their identifiers. \<open>ingest_steps\<close> adds storage, and
  \<open>api_relation\<close> is the same idea for the routes: a relation that the elementary effects of the handlers keep is
  kept by every request and every history, interpreted for the index, the document sets and the activity feed and
  shown of the legal states of any \<open>document_registry\<close>.

  Modelling decisions.
  \<^item> Text is a list of UTF-8 bytes; \<open>len\<close> counts code points, case folding and character classes
    treat ASCII exactly and every other code point as a letter without case.
  \<^item> Floats (coordinates, scores, coverages) are rationals; decimals are exact coefficient and
    exponent with the default context of 28 digits.
  \<^item> A raise is an \<open>Inl\<close>; a pydantic constraint that fails is a \<open>ValueError\<close>, as in the code.
  \<^item> One question sees one index: \<open>retrieve\<close> takes the backend as an argument, and \<open>Histories\<close> lets it change between
    calls. Loading a model is a function of its pinned snapshot, so a reload gives the same model or the same error.
    \<open>serve\<close> takes the query and the ingestion service as built; building them is \<open>Assembly\<close>.
  \<^item> Lock-protected operations are single transitions. SQL is modelled by the rows the statements
    touch. The language model, embeddings, AES-GCM, the malware daemon, PDF and image
    libraries, JSON and YAML codecs are parameters; what is assumed of them is a named predicate
    (\<open>aead_ok\<close>, \<open>obedient\<close>, \<open>progressing\<close>, \<open>keyed_writes\<close>, \<open>scrolls_points\<close>) with an instance.
  \<^item> Loops are structural or carry a measure; only the inventory's scroll loop has fuel, and
    max_chunks + 1 rounds are proved to suffice when no empty page has a further offset.

  Not modelled: the sockets of HTTP, option parsing, YAML decoding and what the model libraries
  compute, the SDK of the trace exporter, the spans around operations other than a completion (they
  change no result), generators of fixtures, rendering of pages, SQL migrations, and the parts listed so
  in the manifest.
\<close>

end
